(* ===== verification/Prelude.thy ===== *)
theory Prelude
  imports Complex_Main "HOL-Library.Word"
begin

text \<open>
  What every component shares: the machine-integer types of the C sources, the errno values the
  kernel modules return, byte memory with explicit out-of-bounds accesses, little-endian loads and
  stores, the decimal printing behind \<^verbatim>\<open>%d\<close> and \<^verbatim>\<open>%u\<close>, and C's signed division. The collections
  \<open>bytes_simps\<close> and \<open>c_arith\<close> gather the facts that component proofs unfold together.
\<close>

unbundle bit_operations_syntax

named_theorems bytes_simps \<open>byte memory: loads, stores and their ranges\<close>
named_theorems c_arith \<open>C integer arithmetic\<close>

type_synonym u8 = "8 word"
type_synonym u16 = "16 word"
type_synonym u32 = "32 word"
type_synonym u64 = "64 word"

section \<open>Error values\<close>

datatype errno = ENOMEM | ENODEV | EBUSY | EIO | EINVAL | ENODATA | EOPNOTSUPP | ENOENT | EOTHER int

text \<open>A kernel pointer that may be NULL, an ERR_PTR value or a valid handle.\<close>

datatype kptr = KNull | KErr errno | KPtr nat

fun IS_ERR :: "kptr \<Rightarrow> bool" where
  "IS_ERR (KErr e) = True"
| "IS_ERR _ = False"

fun kptr_nonnull :: "kptr \<Rightarrow> bool" where
  "kptr_nonnull KNull = False"
| "kptr_nonnull _ = True"

section \<open>Byte memory\<close>

text \<open>\<open>None\<close> is an access outside the buffer: undefined behaviour in C, never a value here.\<close>

definition rd8 :: "u8 list \<Rightarrow> nat \<Rightarrow> u8 option" where
  "rd8 m i = (if i < length m then Some (m ! i) else None)"

definition wr8 :: "nat \<Rightarrow> u8 \<Rightarrow> u8 list \<Rightarrow> u8 list option" where
  "wr8 i v m = (if i < length m then Some (m[i := v]) else None)"

definition rd_le16 :: "u8 list \<Rightarrow> nat \<Rightarrow> u16 option" where
  "rd_le16 m i = (case (rd8 m i, rd8 m (i + 1)) of
     (Some b0, Some b1) \<Rightarrow> Some (ucast b0 OR push_bit 8 (ucast b1)) | _ \<Rightarrow> None)"

definition rd_le32 :: "u8 list \<Rightarrow> nat \<Rightarrow> u32 option" where
  "rd_le32 m i = (case (rd_le16 m i, rd_le16 m (i + 2)) of
     (Some h0, Some h1) \<Rightarrow> Some (ucast h0 OR push_bit 16 (ucast h1)) | _ \<Rightarrow> None)"

definition rd_le64 :: "u8 list \<Rightarrow> nat \<Rightarrow> u64 option" where
  "rd_le64 m i = (case (rd_le32 m i, rd_le32 m (i + 4)) of
     (Some w0, Some w1) \<Rightarrow> Some (ucast w0 OR push_bit 32 (ucast w1)) | _ \<Rightarrow> None)"

definition wr_le16 :: "nat \<Rightarrow> u16 \<Rightarrow> u8 list \<Rightarrow> u8 list option" where
  "wr_le16 i v m = Option.bind (wr8 i (ucast v) m) (wr8 (i + 1) (ucast (drop_bit 8 v)))"

definition wr_le32 :: "nat \<Rightarrow> u32 \<Rightarrow> u8 list \<Rightarrow> u8 list option" where
  "wr_le32 i v m = Option.bind (wr_le16 i (ucast v) m) (wr_le16 (i + 2) (ucast (drop_bit 16 v)))"

lemma rd8_Some_iff [bytes_simps]: "(\<exists>v. rd8 m i = Some v) \<longleftrightarrow> i < length m"
  by (simp add: rd8_def)

lemma rd8_None_iff [bytes_simps]: "rd8 m i = None \<longleftrightarrow> length m \<le> i"
  by (auto simp: rd8_def)

lemma rd8_in [bytes_simps]: "i < length m \<Longrightarrow> rd8 m i = Some (m ! i)"
  by (simp add: rd8_def)

lemma wr8_in [bytes_simps]: "i < length m \<Longrightarrow> wr8 i v m = Some (m[i := v])"
  by (simp add: wr8_def)

lemma wr8_SomeD: "wr8 i v m = Some m' \<Longrightarrow> i < length m \<and> m' = m[i := v]"
  by (auto simp: wr8_def split: if_splits)

lemma rd_le16_in [bytes_simps]: "i + 1 < length m \<Longrightarrow> \<exists>v. rd_le16 m i = Some v"
  by (simp add: rd_le16_def rd8_in)

lemma rd_le32_in [bytes_simps]: "i + 3 < length m \<Longrightarrow> \<exists>v. rd_le32 m i = Some v"
  using rd_le16_in [of i m] rd_le16_in [of "i + 2" m] by (auto simp: rd_le32_def)

lemma rd_le64_in [bytes_simps]: "i + 7 < length m \<Longrightarrow> \<exists>v. rd_le64 m i = Some v"
  using rd_le32_in [of i m] rd_le32_in [of "i + 4" m] by (auto simp: rd_le64_def)

lemma rd_le16_None [bytes_simps]: "length m \<le> i + 1 \<Longrightarrow> rd_le16 m i = None"
  by (auto simp: rd_le16_def rd8_def split: option.splits)

lemma rd_le32_None [bytes_simps]: "length m \<le> i + 3 \<Longrightarrow> rd_le32 m i = None"
  by (auto simp: rd_le32_def rd_le16_None split: option.splits)

section \<open>C integer arithmetic\<close>

text \<open>Division and remainder truncate towards zero; \<open>div\<close> and \<open>mod\<close> of HOL round down.\<close>

definition c_div :: "int \<Rightarrow> int \<Rightarrow> int" where
  "c_div a b = sgn a * sgn b * (\<bar>a\<bar> div \<bar>b\<bar>)"

definition c_mod :: "int \<Rightarrow> int \<Rightarrow> int" where
  "c_mod a b = a - c_div a b * b"

text \<open>A value stored in a 32-bit \<^verbatim>\<open>int\<close>.\<close>

definition c_int :: "int \<Rightarrow> int" where
  "c_int i = (i + 2 ^ 31) mod 2 ^ 32 - 2 ^ 31"

lemma c_int_id [c_arith]: "- (2 ^ 31) \<le> i \<Longrightarrow> i < 2 ^ 31 \<Longrightarrow> c_int i = i"
  by (simp add: c_int_def)

lemma c_int_range: "- (2 ^ 31) \<le> c_int i" "c_int i < 2 ^ 31"
  using pos_mod_bound [of "2 ^ 32" "i + 2 ^ 31"] pos_mod_sign [of "2 ^ 32" "i + 2 ^ 31"]
  by (simp_all add: c_int_def)

lemma c_div_nonneg [c_arith]: "0 \<le> a \<Longrightarrow> 0 < b \<Longrightarrow> c_div a b = a div b"
  by (cases "a = 0") (auto simp: c_div_def)

lemma c_mod_nonneg [c_arith]: "0 \<le> a \<Longrightarrow> 0 < b \<Longrightarrow> c_mod a b = a mod b"
  by (simp add: c_mod_def c_div_nonneg minus_div_mult_eq_mod)

lemma c_mod_cong:
  assumes "0 < b"
  shows "(c_mod a b) mod b = a mod b"
  by (simp add: c_mod_def mod_diff_right_eq [symmetric])

lemma c_mod_bounds:
  assumes "0 < b"
  shows "- b < c_mod a b" and "c_mod a b < b"
proof -
  have *: "c_mod a b = sgn a * (\<bar>a\<bar> mod b)"
  proof -
    have "\<bar>a\<bar> = \<bar>a\<bar> div b * b + \<bar>a\<bar> mod b" by simp
    then have "sgn a * \<bar>a\<bar> = sgn a * (\<bar>a\<bar> div b) * b + sgn a * (\<bar>a\<bar> mod b)"
      by (metis distrib_left mult.assoc)
    moreover have "sgn a * \<bar>a\<bar> = a" by (simp add: sgn_mult_abs)
    ultimately show ?thesis using assms by (simp add: c_mod_def c_div_def)
  qed
  obtain r where r: "c_mod a b = sgn a * r" "0 \<le> r" "r < b"
    using * assms by force
  show "- b < c_mod a b" and "c_mod a b < b"
    using r by (auto simp: sgn_if split: if_splits)
qed

section \<open>Decimal text\<close>

fun show_nat :: "nat \<Rightarrow> string" where
  "show_nat n = (if n < 10 then [char_of (48 + n)] else show_nat (n div 10) @ [char_of (48 + n mod 10)])"

declare show_nat.simps [simp del]

definition show_int :: "int \<Rightarrow> string" where
  "show_int i = (if i < 0 then CHR ''-'' # show_nat (nat (- i)) else show_nat (nat i))"

definition newline :: string where
  "newline = [CHR 0x0A]"

section \<open>Lists\<close>

lemma nth_list_update_frame: "j \<noteq> i \<Longrightarrow> (xs[i := v]) ! j = xs ! j"
  by simp

lemma take_list_update_swap: "i < n \<Longrightarrow> take n (xs[i := v]) = (take n xs)[i := v]"
  by (rule take_update_swap)

end
