(* ===== verification/GStrings.thy ===== *)
theory GStrings
  imports Prelude
begin

text \<open>
  The C and GLib string functions the sources call: prefix and suffix tests, \<^verbatim>\<open>strstr\<close>,
  \<^verbatim>\<open>g_strsplit\<close>, \<^verbatim>\<open>atoi\<close> and \<^verbatim>\<open>g_ascii_strtoull\<close> with base detection. Strings are lists of
  bytes; the terminating NUL is the end of the list.
\<close>

named_theorems gstring_simps \<open>string functions\<close>

fun strip_prefix :: "string \<Rightarrow> string \<Rightarrow> string option" where
  "strip_prefix [] s = Some s"
| "strip_prefix (p # ps) [] = None"
| "strip_prefix (p # ps) (c # cs) = (if p = c then strip_prefix ps cs else None)"

definition has_prefix :: "string \<Rightarrow> string \<Rightarrow> bool" where
  "has_prefix s p \<longleftrightarrow> strip_prefix p s \<noteq> None"

definition has_suffix :: "string \<Rightarrow> string \<Rightarrow> bool" where
  "has_suffix s p \<longleftrightarrow> strip_prefix (rev p) (rev s) \<noteq> None"

text \<open>The text before and after the first occurrence of \<open>d\<close>.\<close>

fun break_at :: "string \<Rightarrow> string \<Rightarrow> (string \<times> string) option" where
  "break_at d [] = (if d = [] then Some ([], []) else None)"
| "break_at d (c # cs) = (case strip_prefix d (c # cs) of
     Some r \<Rightarrow> Some ([], r)
   | None \<Rightarrow> map_option (\<lambda>(a, b). (c # a, b)) (break_at d cs))"

definition strstr_found :: "string \<Rightarrow> string \<Rightarrow> bool" where
  "strstr_found s d \<longleftrightarrow> break_at d s \<noteq> None"

text \<open>At most \<open>n\<close> pieces; the last one keeps the rest of the text.\<close>

fun gsplit :: "string \<Rightarrow> nat \<Rightarrow> string \<Rightarrow> string list" where
  "gsplit d 0 s = []"
| "gsplit d (Suc n) s = (if n = 0 then [s] else
     (case break_at d s of None \<Rightarrow> [s] | Some (a, b) \<Rightarrow> a # gsplit d n b))"

definition g_strsplit :: "string \<Rightarrow> string \<Rightarrow> int \<Rightarrow> string list" where
  "g_strsplit s d max_tokens = (if s = [] then []
     else gsplit d (if max_tokens < 1 then length s + 1 else nat max_tokens) s)"

definition is_space :: "char \<Rightarrow> bool" where
  "is_space c \<longleftrightarrow> c \<in> set [CHR '' '', CHR 0x09, CHR 0x0A, CHR 0x0B, CHR 0x0C, CHR 0x0D]"

definition digit_val :: "nat \<Rightarrow> char \<Rightarrow> nat option" where
  "digit_val base c = (let n = (of_char c :: nat);
       v = (if 48 \<le> n \<and> n \<le> 57 then n - 48 else if 97 \<le> n \<and> n \<le> 122 then n - 87
            else if 65 \<le> n \<and> n \<le> 90 then n - 55 else 99)
     in if v < base then Some v else None)"

fun digits_val :: "nat \<Rightarrow> nat \<Rightarrow> string \<Rightarrow> nat" where
  "digits_val base acc [] = acc"
| "digits_val base acc (c # cs) = (case digit_val base c of None \<Rightarrow> acc
     | Some v \<Rightarrow> digits_val base (acc * base + v) cs)"

text \<open>Sign and magnitude after leading white space.\<close>

definition split_sign :: "string \<Rightarrow> bool \<times> string" where
  "split_sign s = (case dropWhile is_space s of
     [] \<Rightarrow> (False, [])
   | c # cs \<Rightarrow> if c = CHR ''-'' then (True, cs) else if c = CHR ''+'' then (False, cs)
       else (False, c # cs))"

definition atoi :: "string \<Rightarrow> int" where
  "atoi s = (case split_sign s of (neg, ds) \<Rightarrow>
     c_int ((if neg then - 1 else 1) * int (digits_val 10 0 ds)))"

text \<open>Base 0: \<^verbatim>\<open>0x\<close> is hexadecimal, a leading zero octal; a negative number wraps, overflow saturates.\<close>

definition strtoull0 :: "string \<Rightarrow> u64" where
  "strtoull0 s = (case split_sign s of (neg, ds) \<Rightarrow>
     (let n = (case ds of
         c # d # r \<Rightarrow> if c = CHR ''0'' \<and> (d = CHR ''x'' \<or> d = CHR ''X'')
             then digits_val 16 0 r
             else if c = CHR ''0'' then digits_val 8 0 (d # r) else digits_val 10 0 ds
       | _ \<Rightarrow> digits_val 10 0 ds)
      in if 2 ^ 64 \<le> n then - 1 else if neg then - of_nat n else of_nat n))"

section \<open>Facts\<close>

lemma strip_prefix_Some: "strip_prefix p s = Some r \<longleftrightarrow> s = p @ r"
  by (induction p s rule: strip_prefix.induct) auto

lemma has_prefix_iff [gstring_simps]: "has_prefix s p \<longleftrightarrow> (\<exists>r. s = p @ r)"
  by (auto simp: has_prefix_def strip_prefix_Some)

lemma has_suffix_iff [gstring_simps]: "has_suffix s p \<longleftrightarrow> (\<exists>r. s = r @ p)"
proof
  assume "has_suffix s p"
  then obtain r where "rev s = rev p @ r" by (auto simp: has_suffix_def strip_prefix_Some)
  then have "s = rev r @ p" by (metis rev_append rev_rev_ident)
  then show "\<exists>r. s = r @ p" by blast
next
  assume "\<exists>r. s = r @ p"
  then obtain r where "s = r @ p" by blast
  then have "strip_prefix (rev p) (rev s) = Some (rev r)" by (simp add: strip_prefix_Some)
  then show "has_suffix s p" by (simp add: has_suffix_def)
qed

lemma break_at_Some: "break_at d s = Some (a, b) \<Longrightarrow> s = a @ d @ b"
proof (induction d s arbitrary: a b rule: break_at.induct)
  case (2 d c cs)
  show ?case
  proof (cases "strip_prefix d (c # cs)")
    case None
    then obtain a' where "break_at d cs = Some (a', b)" "a = c # a'"
      using "2.prems" by auto
    then show ?thesis using "2.IH" None by simp
  next
    case (Some r)
    then have "a = []" "b = r" using "2.prems" by simp_all
    moreover have "c # cs = d @ r" using Some by (simp only: strip_prefix_Some)
    ultimately show ?thesis by simp
  qed
qed (auto split: if_splits)

lemma gsplit_length: "length (gsplit d n s) \<le> n"
  by (induction d n s rule: gsplit.induct) (auto split: option.splits)

lemma gsplit_nonempty: "0 < n \<Longrightarrow> gsplit d n s \<noteq> []"
  by (cases n) (auto split: option.splits)

lemma g_strsplit_length: "1 \<le> m \<Longrightarrow> int (length (g_strsplit s d m)) \<le> m"
  using gsplit_length [of d "nat m" s] by (simp add: g_strsplit_def nat_le_iff) linarith

text \<open>Joining the pieces with the delimiter gives the text back.\<close>

fun join :: "string \<Rightarrow> string list \<Rightarrow> string" where
  "join d [] = []"
| "join d [s] = s"
| "join d (s # ss) = s @ d @ join d ss"

lemma join_gsplit: "0 < n \<Longrightarrow> join d (gsplit d n s) = s"
proof (induction d n s rule: gsplit.induct)
  case (2 d n s)
  show ?case
  proof (cases "n = 0 \<or> break_at d s = None")
    case False
    then obtain a b where ab: "break_at d s = Some (a, b)" and n: "n \<noteq> 0" by fastforce
    obtain x xs where g: "gsplit d n b = x # xs" using gsplit_nonempty [of n d b] n
      by (cases "gsplit d n b") auto
    have "join d (gsplit d n b) = b" using 2(1) [OF n ab refl] n by simp
    then show ?thesis using n ab g break_at_Some [OF ab] by simp
  qed auto
qed simp

lemma join_g_strsplit: "join d (g_strsplit s d m) = s"
  by (simp add: g_strsplit_def join_gsplit)

end
