(* ===== verification/Posix.thy ===== *)
theory Posix
  imports GStrings
begin

text \<open>
  What the sensor drivers call outside the repository: POSIX files, the I2C, uinput, evdev and DRM
  ioctls, udev enumeration and the GLib main loop. The record \<open>os\<close> is that environment as functions
  on an opaque world \<open>'w\<close>; every model function takes it as an argument. The documented behaviour a
  property relies on (fresh descriptors, non-zero source ids) is a named predicate, and
  \<open>table_os\<close> is a small concrete environment in which the predicates hold.
\<close>

datatype oflag = O_RDONLY | O_WRONLY | O_RDWR | O_NONBLOCK | O_CLOEXEC

record i2c_msg =
  addr :: u16
  rd :: bool
  msg_len :: nat
  msg_buf :: "u8 list"

record input_event =
  ev_type :: nat
  ev_code :: nat
  ev_value :: int

definition EV_SYN :: nat where "EV_SYN = 0"
definition EV_SW :: nat where "EV_SW = 5"
definition SYN_REPORT :: nat where "SYN_REPORT = 0"
definition SW_LID :: nat where "SW_LID = 0"
definition SW_TABLET_MODE :: nat where "SW_TABLET_MODE = 1"

record uinput_setup =
  bustype :: nat
  vendor :: nat
  product :: nat
  setup_name :: string

datatype uinput_req =
  UI_SET_EVBIT nat | UI_SET_SWBIT nat | UI_DEV_SETUP uinput_setup | UI_DEV_CREATE | UI_DEV_DESTROY

record drm_connector =
  connector_type :: nat
  conn_props :: "(nat \<times> u64) list"

definition DRM_MODE_CONNECTOR_DSI :: nat where "DRM_MODE_CONNECTOR_DSI = 16"

record 'w os =
  os_open :: "string \<Rightarrow> oflag list \<Rightarrow> 'w \<Rightarrow> int \<times> 'w"
  os_close :: "int \<Rightarrow> 'w \<Rightarrow> 'w"
  os_write :: "int \<Rightarrow> string \<Rightarrow> 'w \<Rightarrow> int \<times> 'w"
  os_read :: "int \<Rightarrow> nat \<Rightarrow> 'w \<Rightarrow> (int \<times> string) \<times> 'w"
  os_i2c_rdwr :: "int \<Rightarrow> i2c_msg list \<Rightarrow> 'w \<Rightarrow> (int \<times> u8 list) \<times> 'w"
  os_uinput :: "int \<Rightarrow> uinput_req \<Rightarrow> 'w \<Rightarrow> int \<times> 'w"
  os_write_events :: "int \<Rightarrow> input_event list \<Rightarrow> 'w \<Rightarrow> int \<times> 'w"
  os_evio_name :: "int \<Rightarrow> nat \<Rightarrow> 'w \<Rightarrow> (int \<times> string) \<times> 'w"
  os_evio_switches :: "int \<Rightarrow> 'w \<Rightarrow> (int \<times> u64) \<times> 'w"
  os_read_event :: "int \<Rightarrow> 'w \<Rightarrow> input_event option \<times> 'w"
  os_usleep :: "nat \<Rightarrow> 'w \<Rightarrow> 'w"
  os_i2c_devices :: "'w \<Rightarrow> (string \<times> string option) list"
  os_drm_connectors :: "int \<Rightarrow> 'w \<Rightarrow> nat list option"
  os_drm_connector :: "int \<Rightarrow> nat \<Rightarrow> 'w \<Rightarrow> drm_connector option"
  os_drm_property :: "int \<Rightarrow> nat \<Rightarrow> 'w \<Rightarrow> string option"
  os_timeout_add :: "nat \<Rightarrow> 'w \<Rightarrow> nat \<times> 'w"
  os_io_add_watch :: "int \<Rightarrow> 'w \<Rightarrow> nat \<times> 'w"
  os_source_remove :: "nat \<Rightarrow> 'w \<Rightarrow> 'w"

section \<open>Documented behaviour\<close>

text \<open>
  Descriptors: \<open>open\<close> gives a negative number and opens nothing, or opens a fresh one; \<open>close\<close> closes
  the one it is given; no other call opens or closes a descriptor.
\<close>

definition fd_laws :: "'w os \<Rightarrow> ('w \<Rightarrow> int set) \<Rightarrow> bool" where
  "fd_laws os fds \<longleftrightarrow>
     (\<forall>p f w fd w'. os_open os p f w = (fd, w') \<longrightarrow>
        (if fd < 0 then fds w' = fds w else fd \<notin> fds w \<and> fds w' = insert fd (fds w))) \<and>
     (\<forall>fd w. fds (os_close os fd w) = fds w - {fd}) \<and>
     (\<forall>fd s w. fds (snd (os_write os fd s w)) = fds w) \<and>
     (\<forall>fd n w. fds (snd (os_read os fd n w)) = fds w) \<and>
     (\<forall>fd ms w. fds (snd (os_i2c_rdwr os fd ms w)) = fds w) \<and>
     (\<forall>fd r w. fds (snd (os_uinput os fd r w)) = fds w) \<and>
     (\<forall>fd es w. fds (snd (os_write_events os fd es w)) = fds w) \<and>
     (\<forall>fd n w. fds (snd (os_evio_name os fd n w)) = fds w) \<and>
     (\<forall>fd w. fds (snd (os_evio_switches os fd w)) = fds w) \<and>
     (\<forall>fd w. fds (snd (os_read_event os fd w)) = fds w) \<and>
     (\<forall>n w. fds (os_usleep os n w) = fds w) \<and>
     (\<forall>n w. fds (snd (os_timeout_add os n w)) = fds w) \<and>
     (\<forall>fd w. fds (snd (os_io_add_watch os fd w)) = fds w) \<and>
     (\<forall>n w. fds (os_source_remove os n w) = fds w)"

text \<open>Main-loop sources have positive ids.\<close>

definition source_ids :: "'w os \<Rightarrow> bool" where
  "source_ids os \<longleftrightarrow> (\<forall>n w. 0 < fst (os_timeout_add os n w)) \<and> (\<forall>fd w. 0 < fst (os_io_add_watch os fd w))"

text \<open>Opening and closing, as the model functions do it: a call that keeps the descriptor set.\<close>

lemma fd_lawsD:
  assumes "fd_laws os fds"
  shows "fds (os_close os fd w) = fds w - {fd}" "fds (snd (os_write os fd s w)) = fds w"
    "fds (snd (os_read os fd n w)) = fds w" "fds (snd (os_i2c_rdwr os fd ms w)) = fds w"
    "fds (snd (os_uinput os fd r w)) = fds w" "fds (snd (os_write_events os fd es w)) = fds w"
    "fds (snd (os_evio_name os fd n w)) = fds w" "fds (snd (os_evio_switches os fd w)) = fds w"
    "fds (snd (os_read_event os fd w)) = fds w" "fds (os_usleep os n w) = fds w"
    "fds (snd (os_timeout_add os n w)) = fds w" "fds (snd (os_io_add_watch os fd w)) = fds w"
    "fds (os_source_remove os n w) = fds w"
  using assms by (simp_all add: fd_laws_def)

lemma fd_laws_open:
  assumes "fd_laws os fds" "os_open os p f w = (fd, w')"
  shows "fd < 0 \<Longrightarrow> fds w' = fds w" "\<not> fd < 0 \<Longrightarrow> fd \<notin> fds w \<and> fds w' = insert fd (fds w)"
  using assms unfolding fd_laws_def by (metis (no_types, lifting))+

section \<open>A concrete environment\<close>

text \<open>
  A table of device nodes: the world holds the open descriptors with their paths, the next free
  descriptor, the answer of every node to an I2C read and a log of what was written.
\<close>

record table_world =
  tw_open :: "(int \<times> string) list"
  tw_next :: nat
  tw_nodes :: "(string \<times> u8 list) list"
  tw_i2c :: "(string \<times> string option) list"
  tw_log :: "string list"

definition table_open :: "string \<Rightarrow> oflag list \<Rightarrow> table_world \<Rightarrow> int \<times> table_world" where
  "table_open p f w = (if map_of (tw_nodes w) p = None then (- 1, w)
     else (int (tw_next w), w\<lparr>tw_open := (int (tw_next w), p) # filter (\<lambda>e. fst e \<noteq> int (tw_next w)) (tw_open w),
                               tw_next := tw_next w + 1\<rparr>))"

definition table_node :: "table_world \<Rightarrow> int \<Rightarrow> u8 list option" where
  "table_node w fd = (case map_of (tw_open w) fd of None \<Rightarrow> None | Some p \<Rightarrow> map_of (tw_nodes w) p)"

definition table_os :: "table_world os" where
  "table_os = \<lparr>
     os_open = (\<lambda>p f w. if \<exists>e\<in>set (tw_open w). int (tw_next w) \<le> fst e then (- 1, w) else table_open p f w),
     os_close = (\<lambda>fd w. w\<lparr>tw_open := filter (\<lambda>e. fst e \<noteq> fd) (tw_open w)\<rparr>),
     os_write = (\<lambda>fd s w. (int (length s), w\<lparr>tw_log := s # tw_log w\<rparr>)),
     os_read = (\<lambda>fd n w. ((0, []), w)),
     os_i2c_rdwr = (\<lambda>fd ms w. (case table_node w fd of None \<Rightarrow> ((- 1, []), w)
        | Some d \<Rightarrow> ((int (length ms), take (msg_len (last ms)) (d @ replicate (msg_len (last ms)) 0)), w))),
     os_uinput = (\<lambda>fd r w. (0, w)),
     os_write_events = (\<lambda>fd es w. (int (24 * length es), w)),
     os_evio_name = (\<lambda>fd n w. ((- 1, []), w)),
     os_evio_switches = (\<lambda>fd w. ((- 1, 0), w)),
     os_read_event = (\<lambda>fd w. (None, w)),
     os_usleep = (\<lambda>n w. w),
     os_i2c_devices = tw_i2c,
     os_drm_connectors = (\<lambda>fd w. None),
     os_drm_connector = (\<lambda>fd n w. None),
     os_drm_property = (\<lambda>fd n w. None),
     os_timeout_add = (\<lambda>n w. (1, w)),
     os_io_add_watch = (\<lambda>fd w. (1, w)),
     os_source_remove = (\<lambda>n w. w)\<rparr>"

definition table_fds :: "table_world \<Rightarrow> int set" where
  "table_fds w = fst ` set (tw_open w)"

lemma table_os_source_ids: "source_ids table_os"
  by (simp add: source_ids_def table_os_def)

lemma table_os_fds: "fd_laws table_os table_fds"
proof -
  have o: "if fd < 0 then table_fds w' = table_fds w
      else fd \<notin> table_fds w \<and> table_fds w' = insert fd (table_fds w)"
    if "os_open table_os p f w = (fd, w')" for p f w fd w'
    using that by (force simp: table_os_def table_open_def table_fds_def split: if_splits)
  have c: "table_fds (os_close table_os fd w) = table_fds w - {fd}" for fd w
    by (auto simp: table_os_def table_fds_def)
  have i: "table_fds (snd (os_i2c_rdwr table_os fd ms w)) = table_fds w" for fd ms w
    by (simp add: table_os_def split: option.splits)
  show ?thesis
    unfolding fd_laws_def
    by (intro conjI allI impI) (assumption | rule o c i | simp add: table_os_def table_fds_def)+
qed

end
