(* ===== verification/Fp.thy ===== *)
theory Fp
  imports Prelude "HOL-Library.Log_Nat"
begin

text \<open>
  The \<^verbatim>\<open>float\<close> and \<^verbatim>\<open>double\<close> of the C sources: IEEE 754 binary32 and binary64 with the default
  rounding (to nearest, ties to even), signed zeros, infinities and one NaN. A finite non-zero
  value is the rational number it stands for, so arithmetic is exact rational arithmetic followed
  by one rounding, and every operation evaluates. The type carries its format: \<open>(8, 23) fp\<close> has 8
  exponent and 23 fraction bits. The usual operators are those of the type classes, so that a
  definition reads like the C expression it models. What the model fixes beyond the standard:
  operations round to the declared type (\<^verbatim>\<open>FLT_EVAL_METHOD\<close> 0, no contraction, as on x86-64 with
  SSE), and an out-of-range conversion to \<^verbatim>\<open>int\<close>, undefined in C, gives the x86 value $-2^{31}$.
\<close>

named_theorems fp_defs \<open>definitions of the floating-point operations\<close>

section \<open>Powers of two, logarithms and rounding of rationals\<close>

definition pow2 :: "int \<Rightarrow> rat" where
  "pow2 k = (if 0 \<le> k then of_int (2 ^ nat k) else 1 / of_int (2 ^ nat (- k)))"

definition ilog2 :: "rat \<Rightarrow> int" where
  "ilog2 x = (case quotient_of x of (a, b) \<Rightarrow>
     (let k = bitlen a - bitlen b in if pow2 k \<le> x then k else k - 1))"

text \<open>Round to the nearest integer, ties to even; and ties away from zero (the C \<^verbatim>\<open>round\<close>).\<close>

definition rhe :: "rat \<Rightarrow> int" where
  "rhe q = (let f = \<lfloor>q\<rfloor>; d = q - of_int f in
     if d < 1 / 2 then f else if 1 / 2 < d then f + 1 else if even f then f else f + 1)"

definition rha :: "rat \<Rightarrow> int" where
  "rha q = (if q < 0 then - \<lfloor>- q + 1 / 2\<rfloor> else \<lfloor>q + 1 / 2\<rfloor>)"

definition rtrunc :: "rat \<Rightarrow> int" where
  "rtrunc q = (if q < 0 then - \<lfloor>- q\<rfloor> else \<lfloor>q\<rfloor>)"

text \<open>The spacing exponent of the format at a given binary exponent, and the rounded value.\<close>

definition ulp_exp :: "nat \<Rightarrow> int \<Rightarrow> int \<Rightarrow> int" where
  "ulp_exp p em l = max (l - int p + 1) em"

definition rnd :: "nat \<Rightarrow> int \<Rightarrow> rat \<Rightarrow> rat" where
  "rnd p em x = (if x = 0 then 0 else
     (let e = ulp_exp p em (ilog2 \<bar>x\<bar>) in of_int (rhe (x * pow2 (- e))) * pow2 e))"

text \<open>Integer square root, one bit at a time from the top.\<close>

fun isqrt_bits :: "nat \<Rightarrow> int \<Rightarrow> int \<Rightarrow> int" where
  "isqrt_bits 0 n r = r"
| "isqrt_bits (Suc k) n r =
     (let r' = r + 2 ^ k in if r' * r' \<le> n then isqrt_bits k n r' else isqrt_bits k n r)"

definition isqrt :: "int \<Rightarrow> int" where
  "isqrt n = isqrt_bits (nat ((bitlen n + 1) div 2)) n 0"

text \<open>The correctly rounded square root of a positive rational.\<close>

definition rsqrt :: "nat \<Rightarrow> int \<Rightarrow> rat \<Rightarrow> rat" where
  "rsqrt p em x =
     (let e = ulp_exp p em (ilog2 x div 2); y = x * pow2 (- 2 * e); s = isqrt \<lfloor>y\<rfloor>;
          h = of_int s + 1 / 2
      in of_int (if y < h * h then s else if h * h < y then s + 1 else if even s then s else s + 1)
         * pow2 e)"

section \<open>The format-indexed type\<close>

datatype ('e, 'f) fp = FNaN | FInf bool | NegZero | Num rat

type_synonym f32 = "(8, 23) fp"
type_synonym f64 = "(11, 52) fp"

definition fp_prec :: "('e::len, 'f::len) fp itself \<Rightarrow> nat" where
  "fp_prec _ = LENGTH('f) + 1"

definition fp_emin :: "('e::len, 'f::len) fp itself \<Rightarrow> int" where
  "fp_emin _ = 2 - 2 ^ (LENGTH('e) - 1) - int LENGTH('f)"

text \<open>The largest finite value (the maximum of the exponents matters only for one exponent bit).\<close>

definition fp_max :: "('e::len, 'f::len) fp itself \<Rightarrow> rat" where
  "fp_max T = of_int (2 ^ (LENGTH('f) + 1) - 1)
     * pow2 (max (2 ^ (LENGTH('e) - 1) - 1 - int LENGTH('f)) (fp_emin T))"

fun ffinite :: "('e, 'f) fp \<Rightarrow> bool" where
  "ffinite FNaN = False"
| "ffinite (FInf s) = False"
| "ffinite _ = True"

fun fval :: "('e, 'f) fp \<Rightarrow> rat" where
  "fval (Num r) = r"
| "fval _ = 0"

fun fsign :: "('e, 'f) fp \<Rightarrow> bool" where
  "fsign FNaN = False"
| "fsign (FInf s) = s"
| "fsign NegZero = True"
| "fsign (Num r) = (r < 0)"

definition fmk :: "bool \<Rightarrow> rat \<Rightarrow> ('e, 'f) fp" where
  "fmk s r = (if r = 0 \<and> s then NegZero else Num r)"

text \<open>Rounding of an exact result; \<open>s\<close> is the sign of a zero result.\<close>

definition fround :: "bool \<Rightarrow> rat \<Rightarrow> ('e::len, 'f::len) fp" where
  "fround s x = (let T = TYPE(('e, 'f) fp); r = rnd (fp_prec T) (fp_emin T) x in
     if fp_max T < \<bar>r\<bar> then FInf (x < 0) else fmk s r)"

text \<open>A decimal literal of the source, an integer converted to floating point, a change of format.\<close>

definition flit :: "rat \<Rightarrow> ('e::len, 'f::len) fp" where
  "flit q = fround (q < 0) q"

definition fint :: "int \<Rightarrow> ('e::len, 'f::len) fp" where
  "fint i = fround False (of_int i)"

fun fconv :: "('e::len, 'f::len) fp \<Rightarrow> ('g::len, 'h::len) fp" where
  "fconv FNaN = FNaN"
| "fconv (FInf s) = FInf s"
| "fconv NegZero = NegZero"
| "fconv (Num r) = fround (r < 0) r"

abbreviation to_f32 :: "f64 \<Rightarrow> f32" where "to_f32 \<equiv> fconv"
abbreviation to_f64 :: "f32 \<Rightarrow> f64" where "to_f64 \<equiv> fconv"

section \<open>Arithmetic\<close>

instantiation fp :: (len, len) zero
begin

definition zero_fp :: "('a::len, 'b::len) fp" where "0 = Num 0"

instance ..

end

instantiation fp :: (len, len) one
begin

definition one_fp :: "('a::len, 'b::len) fp" where "1 = Num 1"

instance ..

end

instantiation fp :: (len, len) uminus
begin

fun uminus_fp :: "('a::len, 'b::len) fp \<Rightarrow> ('a, 'b) fp" where
  "- FNaN = (FNaN :: ('a, 'b) fp)"
| "- FInf s = (FInf (\<not> s) :: ('a, 'b) fp)"
| "- NegZero = (Num 0 :: ('a, 'b) fp)"
| "- Num r = ((if r = 0 then NegZero else Num (- r)) :: ('a, 'b) fp)"

instance ..

end

instantiation fp :: (len, len) plus
begin

fun plus_fp :: "('a::len, 'b::len) fp \<Rightarrow> ('a, 'b) fp \<Rightarrow> ('a, 'b) fp" where
  "FNaN + y = (FNaN :: ('a, 'b) fp)"
| "FInf s + y = ((case y of FNaN \<Rightarrow> FNaN | FInf t \<Rightarrow> (if s = t then FInf s else FNaN)
     | _ \<Rightarrow> FInf s) :: ('a, 'b) fp)"
| "x + y = ((case y of FNaN \<Rightarrow> FNaN | FInf t \<Rightarrow> FInf t
     | _ \<Rightarrow> if x = NegZero \<and> y = NegZero then NegZero else fround False (fval x + fval y))
     :: ('a, 'b) fp)"

instance ..

end

instantiation fp :: (len, len) minus
begin

definition minus_fp :: "('a::len, 'b::len) fp \<Rightarrow> ('a, 'b) fp \<Rightarrow> ('a, 'b) fp" where
  "x - y = x + (- y :: ('a, 'b) fp)"

instance ..

end

instantiation fp :: (len, len) times
begin

definition times_fp :: "('a::len, 'b::len) fp \<Rightarrow> ('a, 'b) fp \<Rightarrow> ('a, 'b) fp" where
  "x * y = (let s = (fsign x \<noteq> fsign y) in
     if x = FNaN \<or> y = FNaN then FNaN
     else if ffinite x \<and> ffinite y then fround s (fval x * fval y)
     else if ffinite x \<and> fval x = 0 \<or> ffinite y \<and> fval y = 0 then FNaN else FInf s)"

instance ..

end

instantiation fp :: (len, len) divide
begin

definition divide_fp :: "('a::len, 'b::len) fp \<Rightarrow> ('a, 'b) fp \<Rightarrow> ('a, 'b) fp" where
  "x div y = (let s = (fsign x \<noteq> fsign y) in
     if x = FNaN \<or> y = FNaN then FNaN
     else if ffinite x \<and> ffinite y then
       (if fval y = 0 then (if fval x = 0 then FNaN else FInf s) else fround s (fval x / fval y))
     else if ffinite x then fmk s 0
     else if ffinite y then FInf s else FNaN)"

instance ..

end

instantiation fp :: (len, len) ord
begin

definition less_eq_fp :: "('a::len, 'b::len) fp \<Rightarrow> ('a, 'b) fp \<Rightarrow> bool" where
  "x \<le> y \<longleftrightarrow> x \<noteq> FNaN \<and> y \<noteq> FNaN \<and>
     (x = FInf True \<or> y = FInf False \<or> ffinite x \<and> ffinite y \<and> fval x \<le> fval y)"

definition less_fp :: "('a::len, 'b::len) fp \<Rightarrow> ('a, 'b) fp \<Rightarrow> bool" where
  "x < y \<longleftrightarrow> x \<noteq> FNaN \<and> y \<noteq> FNaN \<and>
     (ffinite x \<and> ffinite y \<and> fval x < fval y \<or> x = FInf True \<and> y \<noteq> FInf True
      \<or> y = FInf False \<and> x \<noteq> FInf False)"

instance ..

end

text \<open>The C \<^verbatim>\<open>==\<close>: the two zeros are equal, a NaN equals nothing.\<close>

definition feq :: "('e::len, 'f::len) fp \<Rightarrow> ('e, 'f) fp \<Rightarrow> bool" where
  "feq x y \<longleftrightarrow> x \<le> y \<and> y \<le> x"

fun fabs :: "('e::len, 'f::len) fp \<Rightarrow> ('e, 'f) fp" where
  "fabs FNaN = FNaN"
| "fabs (FInf s) = FInf False"
| "fabs NegZero = Num 0"
| "fabs (Num r) = Num \<bar>r\<bar>"

fun fsqrt :: "('e::len, 'f::len) fp \<Rightarrow> ('e, 'f) fp" where
  "fsqrt FNaN = FNaN"
| "fsqrt (FInf s) = (if s then FNaN else FInf False)"
| "fsqrt NegZero = NegZero"
| "fsqrt (Num r) = (let T = TYPE(('e, 'f) fp) in
     if r < 0 then FNaN else if r = 0 then Num 0 else Num (rsqrt (fp_prec T) (fp_emin T) r))"

text \<open>Conversion to a 32-bit \<^verbatim>\<open>int\<close>, and the C \<^verbatim>\<open>round\<close>.\<close>

definition f2i :: "('e::len, 'f::len) fp \<Rightarrow> int" where
  "f2i x = (let t = rtrunc (fval x) in
     if ffinite x \<and> - (2 ^ 31) \<le> t \<and> t < 2 ^ 31 then t else - (2 ^ 31))"

fun fround_away :: "('e::len, 'f::len) fp \<Rightarrow> ('e, 'f) fp" where
  "fround_away (Num r) = fmk (r < 0) (of_int (rha r))"
| "fround_away x = x"

end
