(* ===== verification/Fp_Facts.thy ===== *)
theory Fp_Facts
  imports Fp
begin

text \<open>
  Facts about the rounding of \<open>Fp\<close>: it is monotone, symmetric about zero, and exact on the values
  of the format. From these follow the order facts that the sensor components use: sums, products
  and quotients of finite values stay finite and keep their bounds.
\<close>

section \<open>Powers of two and the binary logarithm\<close>

lemma pow2_powi: "pow2 k = 2 powi k"
  by (auto simp: pow2_def power_int_def power_one_over inverse_eq_divide)

lemma pow2_pos [simp]: "0 < pow2 k"
  by (simp add: pow2_powi)

lemma pow2_nonneg [simp]: "0 \<le> pow2 k"
  using pow2_pos [of k] by linarith

lemma pow2_nonzero [simp]: "pow2 k \<noteq> 0"
  using pow2_pos [of k] by linarith

lemma pow2_0 [simp]: "pow2 0 = 1"
  by (simp add: pow2_def)

lemma pow2_add: "pow2 (a + b) = pow2 a * pow2 b"
  by (simp add: pow2_powi power_int_add)

lemma pow2_minus: "pow2 (- a) = 1 / pow2 a"
  by (simp add: pow2_powi power_int_minus inverse_eq_divide)

lemma pow2_cancel [simp]: "pow2 (- a) * pow2 a = 1" "pow2 a * pow2 (- a) = 1"
  by (simp_all add: pow2_minus)

lemma pow2_mono: "a \<le> b \<Longrightarrow> pow2 a \<le> pow2 b"
  by (simp add: pow2_powi power_int_increasing)

lemma pow2_less_iff: "pow2 a < pow2 b \<longleftrightarrow> a < b"
  by (metis linorder_not_le order_less_le pow2_mono pow2_powi power_int_strict_increasing
      one_less_numeral_iff semiring_norm(76))

lemma pow2_le_iff: "pow2 a \<le> pow2 b \<longleftrightarrow> a \<le> b"
  by (meson linorder_not_less pow2_less_iff)

lemma pow2_int: "0 \<le> k \<Longrightarrow> pow2 k = of_int (2 ^ nat k)"
  by (simp add: pow2_def)

lemma bitlen_bounds_pow2:
  assumes "0 < a"
  shows "pow2 (bitlen a - 1) \<le> of_int a" and "of_int a < pow2 (bitlen a)"
proof -
  have b: "2 ^ nat (bitlen a - 1) \<le> a" "a < 2 ^ nat (bitlen a)" "0 < bitlen a"
    using bitlen_bounds [OF assms] assms bitlen_le_iff_power [of a 0] by (auto simp: not_le)
  show "pow2 (bitlen a - 1) \<le> of_int a"
    using b pow2_int [of "bitlen a - 1"] of_int_le_iff [of "2 ^ nat (bitlen a - 1)" a, where 'a = rat]
    by simp
  show "of_int a < pow2 (bitlen a)"
    using b pow2_int [of "bitlen a"] of_int_less_iff [of a "2 ^ nat (bitlen a)", where 'a = rat]
    by simp
qed

lemma ilog2_bounds:
  assumes "0 < x"
  shows "pow2 (ilog2 x) \<le> x" and "x < pow2 (ilog2 x + 1)"
proof -
  obtain a b where q: "quotient_of x = (a, b)" by fastforce
  have b0: "0 < b" using q by (rule quotient_of_denom_pos)
  have x: "x = of_int a / of_int b" using q by (rule quotient_of_div)
  have a0: "0 < a" using assms x b0 by (simp add: zero_less_divide_iff)
  let ?k = "bitlen a - bitlen b"
  have "x < pow2 (bitlen a) / pow2 (bitlen b - 1)"
    unfolding x using bitlen_bounds_pow2 [OF a0] bitlen_bounds_pow2 [OF b0] a0 b0 by (intro frac_less) auto
  also have "\<dots> = pow2 (?k + 1)"
    by (simp add: field_simps flip: pow2_add)
  finally have up: "x < pow2 (?k + 1)" .
  have "pow2 (?k - 1) = pow2 (bitlen a - 1) / pow2 (bitlen b)"
    by (simp add: field_simps flip: pow2_add)
  also have "\<dots> \<le> x"
    unfolding x using bitlen_bounds_pow2 [OF a0] bitlen_bounds_pow2 [OF b0] a0 b0
    by (intro frac_le) auto
  finally have lo: "pow2 (?k - 1) \<le> x" .
  show "pow2 (ilog2 x) \<le> x" "x < pow2 (ilog2 x + 1)"
    using up lo by (auto simp: ilog2_def q Let_def)
qed

lemma ilog2_unique:
  assumes "pow2 k \<le> x" and "x < pow2 (k + 1)"
  shows "ilog2 x = k"
proof -
  have x: "0 < x" using assms(1) pow2_pos [of k] by linarith
  have "pow2 k < pow2 (ilog2 x + 1)" "pow2 (ilog2 x) < pow2 (k + 1)"
    using ilog2_bounds [OF x] assms by linarith+
  then show ?thesis by (simp add: pow2_less_iff)
qed

lemma ilog2_mono:
  assumes "0 < x" and "x \<le> y"
  shows "ilog2 x \<le> ilog2 y"
proof -
  have "pow2 (ilog2 x) < pow2 (ilog2 y + 1)"
    using ilog2_bounds [of x] ilog2_bounds [of y] assms by linarith
  then show ?thesis by (simp add: pow2_less_iff)
qed

section \<open>Rounding to an integer\<close>

lemma rhe_of_int [simp]: "rhe (of_int i) = i"
  by (simp add: rhe_def)

lemma rhe_near: "\<bar>of_int (rhe q) - q\<bar> \<le> 1 / 2"
proof -
  have "of_int \<lfloor>q\<rfloor> \<le> q" "q < of_int \<lfloor>q\<rfloor> + 1" by linarith+
  then show ?thesis by (auto simp: rhe_def Let_def)
qed

lemma rhe_mono:
  assumes "q \<le> r"
  shows "rhe q \<le> rhe r"
proof (cases "\<lfloor>q\<rfloor> = \<lfloor>r\<rfloor>")
  case True
  then show ?thesis using assms by (auto simp: rhe_def Let_def)
next
  case False
  then have "\<lfloor>q\<rfloor> + 1 \<le> \<lfloor>r\<rfloor>" using floor_mono [OF assms] by linarith
  moreover have "rhe q \<le> \<lfloor>q\<rfloor> + 1" "\<lfloor>r\<rfloor> \<le> rhe r" by (auto simp: rhe_def Let_def)
  ultimately show ?thesis by linarith
qed

lemma rhe_uminus: "rhe (- q) = - rhe q"
proof (cases "q = of_int \<lfloor>q\<rfloor>")
  case True
  then obtain i where "q = of_int i" by blast
  then show ?thesis by (metis of_int_minus rhe_of_int)
next
  case False
  then have f: "\<lfloor>- q\<rfloor> = - \<lfloor>q\<rfloor> - 1"
    by (metis add.inverse_inverse ceiling_altdef ceiling_def diff_minus_eq_add minus_diff_eq
        add.commute)
  show ?thesis unfolding rhe_def f Let_def
    by (auto simp: algebra_simps)
qed

lemma rtrunc_of_int [simp]: "rtrunc (of_int i) = i"
  by (simp add: rtrunc_def flip: of_int_minus)

section \<open>Rounding to the format\<close>

lemma rnd_0 [simp]: "rnd p em 0 = 0"
  by (simp add: rnd_def)

lemma rnd_uminus: "rnd p em (- x) = - rnd p em x"
  by (simp add: rnd_def Let_def rhe_uminus)

text \<open>A value of the format: an integer multiple of a power of two that fits the precision.\<close>

definition fp_repr :: "nat \<Rightarrow> int \<Rightarrow> rat \<Rightarrow> bool" where
  "fp_repr p em x \<longleftrightarrow> (\<exists>m e. x = of_int m * pow2 e \<and> em \<le> e \<and> \<bar>m\<bar> \<le> 2 ^ p)"

lemma ulp_exp_mono: "k \<le> l \<Longrightarrow> ulp_exp p em k \<le> ulp_exp p em l"
  by (auto simp: ulp_exp_def)

lemma int_multiple_le_pow2:
  assumes "e \<le> k"
  shows "\<exists>n. pow2 k = of_int n * pow2 e"
proof -
  have "pow2 k = pow2 (k - e) * pow2 e" by (simp flip: pow2_add)
  then show ?thesis using assms pow2_int [of "k - e"] by auto
qed

lemma rhe_scaled_mono:
  "x \<le> y \<Longrightarrow> of_int (rhe (x * pow2 (- e))) * pow2 e \<le> of_int (rhe (y * pow2 (- e))) * pow2 e"
  by (simp add: mult_right_mono rhe_mono)

lemma rhe_scaled_fix: "x = of_int n * pow2 e \<Longrightarrow> of_int (rhe (x * pow2 (- e))) * pow2 e = x"
  by (simp add: mult.assoc)

lemma rnd_pos_le_pow2:
  assumes "0 < x" and "x \<le> pow2 k" and "ulp_exp p em (ilog2 x) \<le> k"
  shows "rnd p em x \<le> pow2 k"
proof -
  obtain n where n: "pow2 k = of_int n * pow2 (ulp_exp p em (ilog2 x))"
    using int_multiple_le_pow2 [OF assms(3)] by blast
  show ?thesis
    using rhe_scaled_mono [OF assms(2), of "ulp_exp p em (ilog2 x)"] rhe_scaled_fix [OF n] assms(1)
    by (simp add: rnd_def Let_def)
qed

lemma rnd_pos_ge_pow2:
  assumes "pow2 k \<le> x" and "ulp_exp p em (ilog2 x) \<le> k"
  shows "pow2 k \<le> rnd p em x"
proof -
  have x: "0 < x" using assms(1) pow2_pos [of k] by linarith
  obtain n where n: "pow2 k = of_int n * pow2 (ulp_exp p em (ilog2 x))"
    using int_multiple_le_pow2 [OF assms(2)] by blast
  show ?thesis
    using rhe_scaled_mono [OF assms(1), of "ulp_exp p em (ilog2 x)"] rhe_scaled_fix [OF n] x
    by (simp add: rnd_def Let_def)
qed

lemma rnd_nonneg: "0 \<le> x \<Longrightarrow> 0 \<le> rnd p em x"
  using rhe_scaled_mono [of 0 x "ulp_exp p em (ilog2 \<bar>x\<bar>)"] rhe_of_int [of 0]
  by (auto simp: rnd_def Let_def)

lemma rnd_mono_pos:
  assumes p: "0 < p" and x: "0 < x" and xy: "x \<le> y"
  shows "rnd p em x \<le> rnd p em y"
proof -
  let ?ex = "ulp_exp p em (ilog2 x)" and ?ey = "ulp_exp p em (ilog2 y)"
  have y: "0 < y" using x xy by linarith
  have le: "?ex \<le> ?ey" by (rule ulp_exp_mono [OF ilog2_mono [OF x xy]])
  show ?thesis
  proof (cases "?ex = ?ey")
    case True
    then show ?thesis using rhe_scaled_mono [OF xy, of ?ey] x y by (simp add: rnd_def Let_def)
  next
    case False
    then have k: "?ey = ilog2 y - int p + 1" "ilog2 x + 1 \<le> ilog2 y" "?ey \<le> ilog2 y"
        "?ex \<le> ilog2 y"
      using le p by (auto simp: ulp_exp_def)
    have "x \<le> pow2 (ilog2 y)"
      using ilog2_bounds(2) [OF x] pow2_mono [OF k(2)] by linarith
    then have "rnd p em x \<le> pow2 (ilog2 y)" by (rule rnd_pos_le_pow2 [OF x _ k(4)])
    also have "\<dots> \<le> rnd p em y" by (rule rnd_pos_ge_pow2 [OF ilog2_bounds(1) [OF y] k(3)])
    finally show ?thesis .
  qed
qed

lemma rnd_mono:
  assumes p: "0 < p" and xy: "x \<le> y"
  shows "rnd p em x \<le> rnd p em y"
proof -
  consider "0 < x" | "x \<le> 0" "0 \<le> y" | "y < 0" using xy by linarith
  then show ?thesis
  proof cases
    case 1
    then show ?thesis using rnd_mono_pos [OF p _ xy] by blast
  next
    case 2
    then show ?thesis
      using rnd_nonneg [of y p em] rnd_nonneg [of "- x" p em] by (simp add: rnd_uminus)
  next
    case 3
    then show ?thesis using rnd_mono_pos [OF p, of "- y" "- x" em] xy by (simp add: rnd_uminus)
  qed
qed

lemma rnd_repr:
  assumes p: "0 < p" and r: "fp_repr p em x"
  shows "rnd p em x = x"
proof (cases "x = 0")
  case False
  obtain m e where x: "x = of_int m * pow2 e" and e: "em \<le> e" and m: "\<bar>m\<bar> \<le> 2 ^ p"
    using r by (auto simp: fp_repr_def)
  let ?l = "ilog2 \<bar>x\<bar>"
  have ax: "\<bar>x\<bar> = of_int \<bar>m\<bar> * pow2 e" by (simp add: x abs_mult)
  have "(of_int \<bar>m\<bar> :: rat) \<le> of_int (2 ^ p)" using m by (simp only: of_int_le_iff)
  then have le: "\<bar>x\<bar> \<le> pow2 (int p + e)"
    unfolding ax pow2_add using pow2_int [of "int p"] by (simp add: mult_right_mono)
  have "\<exists>n. x = of_int n * pow2 (ulp_exp p em ?l)"
  proof (cases "?l - int p + 1 \<le> e")
    case True
    then obtain n where "pow2 e = of_int n * pow2 (ulp_exp p em ?l)"
      using int_multiple_le_pow2 [of "ulp_exp p em ?l" e] e by (auto simp: ulp_exp_def)
    then show ?thesis using x by (metis mult.assoc of_int_mult)
  next
    case big: False
    have "pow2 ?l \<le> \<bar>x\<bar>" using ilog2_bounds(1) [of "\<bar>x\<bar>"] False by simp
    then have "pow2 ?l \<le> pow2 (int p + e)" using le by linarith
    then have l: "?l = int p + e" using big by (simp add: pow2_le_iff)
    then have "\<bar>x\<bar> = pow2 ?l" using le \<open>pow2 ?l \<le> \<bar>x\<bar>\<close> by simp
    moreover obtain n where "pow2 ?l = of_int n * pow2 (ulp_exp p em ?l)"
      using int_multiple_le_pow2 [of "ulp_exp p em ?l" ?l] l e p by (auto simp: ulp_exp_def)
    ultimately have "x = of_int n * pow2 (ulp_exp p em ?l) \<or>
        x = of_int (- n) * pow2 (ulp_exp p em ?l)"
      by (auto simp: abs_if split: if_splits)
    then show ?thesis by blast
  qed
  then obtain n where "x = of_int n * pow2 (ulp_exp p em ?l)" by blast
  from rhe_scaled_fix [OF this] show ?thesis using False by (simp add: rnd_def Let_def)
qed simp

section \<open>Finite values of a format\<close>

abbreviation rnd_of :: "('e::len, 'f::len) fp itself \<Rightarrow> rat \<Rightarrow> rat" where
  "rnd_of T \<equiv> rnd (fp_prec T) (fp_emin T)"

abbreviation repr_of :: "('e::len, 'f::len) fp itself \<Rightarrow> rat \<Rightarrow> bool" where
  "repr_of T \<equiv> fp_repr (fp_prec T) (fp_emin T)"

lemma fp_prec_pos [simp]: "0 < fp_prec T"
  by (simp add: fp_prec_def)

lemma fp_format_f32:
  "fp_prec TYPE(f32) = 24" "fp_emin TYPE(f32) = - 149" "fp_max TYPE(f32) = (2 ^ 24 - 1) * 2 ^ 104"
  by (simp_all add: fp_prec_def fp_emin_def fp_max_def pow2_def max_def)

lemma fp_format_f64:
  "fp_prec TYPE(f64) = 53" "fp_emin TYPE(f64) = - 1074" "fp_max TYPE(f64) = (2 ^ 53 - 1) * 2 ^ 971"
  by (simp_all add: fp_prec_def fp_emin_def fp_max_def pow2_def max_def)

lemma fp_max_nonneg:
  fixes T :: "('e::len, 'f::len) fp itself"
  shows "0 \<le> fp_max T"
  using one_le_power [of "2::rat" "LENGTH('f) + 1"]
  unfolding fp_max_def by (intro mult_nonneg_nonneg) simp_all

lemma fp_repr_max:
  fixes T :: "('e::len, 'f::len) fp itself"
  shows "repr_of T (fp_max T)"
proof -
  have "fp_emin T \<le> max (2 ^ (LENGTH('e) - 1) - 1 - int LENGTH('f)) (fp_emin T)"
    by simp
  moreover have "\<bar>2 ^ (LENGTH('f) + 1) - 1\<bar> \<le> (2 ^ fp_prec T :: int)"
    using one_le_power [of "2::int" "LENGTH('f) + 1"] by (simp add: fp_prec_def)
  ultimately show ?thesis unfolding fp_repr_def fp_max_def by blast
qed

lemma fp_repr_uminus: "fp_repr p em x \<Longrightarrow> fp_repr p em (- x)"
  unfolding fp_repr_def by (metis abs_minus_cancel mult_minus_left of_int_minus)

lemma rnd_le_repr: "x \<le> c \<Longrightarrow> repr_of T c \<Longrightarrow> rnd_of T x \<le> c"
  by (metis fp_prec_pos rnd_mono rnd_repr)

lemma rnd_ge_repr: "c \<le> x \<Longrightarrow> repr_of T c \<Longrightarrow> c \<le> rnd_of T x"
  by (metis fp_prec_pos rnd_mono rnd_repr)

lemma rnd_abs_le_repr: "\<bar>x\<bar> \<le> c \<Longrightarrow> repr_of T c \<Longrightarrow> \<bar>rnd_of T x\<bar> \<le> c"
  using rnd_le_repr [of x c T] rnd_ge_repr [of "- c" x T] fp_repr_uminus by (simp add: abs_le_iff)

lemma rnd_abs_max: "\<bar>x\<bar> \<le> fp_max T \<Longrightarrow> \<bar>rnd_of T x\<bar> \<le> fp_max T"
  by (rule rnd_abs_le_repr [OF _ fp_repr_max])

lemma fp_repr_int: "\<bar>i\<bar> \<le> 2 ^ p \<Longrightarrow> em \<le> 0 \<Longrightarrow> fp_repr p em (of_int i)"
  unfolding fp_repr_def by (metis mult.right_neutral pow2_0)

lemma fmk_simps [simp]: "ffinite (fmk s r)" "fval (fmk s r) = r"
  by (simp_all add: fmk_def)

lemma fround_finite:
  assumes "\<bar>x\<bar> \<le> fp_max TYPE(('e::len, 'f::len) fp)"
  shows "ffinite (fround s x :: ('e, 'f) fp)"
    and "fval (fround s x :: ('e, 'f) fp) = rnd_of TYPE(('e, 'f) fp) x"
  using rnd_abs_max [OF assms] by (auto simp: fround_def Let_def)

lemma fval_fround:
  "ffinite (fround s x :: ('e::len, 'f::len) fp) \<Longrightarrow>
     fval (fround s x :: ('e, 'f) fp) = rnd_of TYPE(('e, 'f) fp) x"
  by (auto simp: fround_def Let_def split: if_splits)

lemma fp_zero_simps [simp]:
  "ffinite (0 :: ('e::len, 'f::len) fp)" "fval (0 :: ('e, 'f) fp) = 0"
  "ffinite (1 :: ('e, 'f) fp)" "fval (1 :: ('e, 'f) fp) = 1"
  by (simp_all add: zero_fp_def one_fp_def)

lemma fp_uminus_simps [simp]:
  fixes x :: "('e::len, 'f::len) fp"
  shows "ffinite (- x) = ffinite x" "fval (- x) = - fval x" "- x = FNaN \<longleftrightarrow> x = FNaN"
  by (cases x; simp)+

lemma fp_abs_simps [simp]:
  fixes x :: "('e::len, 'f::len) fp"
  shows "ffinite (fabs x) = ffinite x" "fval (fabs x) = \<bar>fval x\<bar>"
  by (cases x; simp)+

lemma ffinite_not_nan [simp]: "ffinite x \<Longrightarrow> x \<noteq> FNaN" "ffinite x \<Longrightarrow> x \<noteq> FInf s"
  by auto

lemma fp_less_finite [simp]:
  fixes x y :: "('e::len, 'f::len) fp"
  shows "ffinite x \<Longrightarrow> ffinite y \<Longrightarrow> x < y \<longleftrightarrow> fval x < fval y"
    and "ffinite x \<Longrightarrow> ffinite y \<Longrightarrow> x \<le> y \<longleftrightarrow> fval x \<le> fval y"
  by (auto simp: less_fp_def less_eq_fp_def)

lemma feq_finite [simp]: "ffinite x \<Longrightarrow> ffinite y \<Longrightarrow> feq x y \<longleftrightarrow> fval x = fval y"
  by (auto simp: feq_def)

lemma fp_add_eq:
  fixes x y :: "('e::len, 'f::len) fp"
  assumes "ffinite x" "ffinite y"
  shows "x + y = (if x = NegZero \<and> y = NegZero then NegZero else fround False (fval x + fval y))"
  using assms by (cases x; cases y) simp_all

lemma fp_add_finite:
  fixes x y :: "('e::len, 'f::len) fp"
  assumes "ffinite x" "ffinite y" "\<bar>fval x + fval y\<bar> \<le> fp_max TYPE(('e, 'f) fp)"
  shows "ffinite (x + y)" and "fval (x + y) = rnd_of TYPE(('e, 'f) fp) (fval x + fval y)"
  using fround_finite [OF assms(3)] by (auto simp: fp_add_eq [OF assms(1,2)])

lemma fp_sub_finite:
  fixes x y :: "('e::len, 'f::len) fp"
  assumes "ffinite x" "ffinite y" "\<bar>fval x - fval y\<bar> \<le> fp_max TYPE(('e, 'f) fp)"
  shows "ffinite (x - y)" and "fval (x - y) = rnd_of TYPE(('e, 'f) fp) (fval x - fval y)"
  using fp_add_finite [of x "- y"] assms by (simp_all add: minus_fp_def)

lemma fp_mult_finite:
  fixes x y :: "('e::len, 'f::len) fp"
  assumes "ffinite x" "ffinite y" "\<bar>fval x * fval y\<bar> \<le> fp_max TYPE(('e, 'f) fp)"
  shows "ffinite (x * y)" and "fval (x * y) = rnd_of TYPE(('e, 'f) fp) (fval x * fval y)"
  using fround_finite [OF assms(3)] assms(1,2) by (auto simp: times_fp_def Let_def)

lemma fp_div_finite:
  fixes x y :: "('e::len, 'f::len) fp"
  assumes "ffinite x" "ffinite y" "fval y \<noteq> 0" "\<bar>fval x / fval y\<bar> \<le> fp_max TYPE(('e, 'f) fp)"
  shows "ffinite (x div y)" and "fval (x div y) = rnd_of TYPE(('e, 'f) fp) (fval x / fval y)"
  using fround_finite [OF assms(4)] assms(1-3) by (auto simp: divide_fp_def Let_def)

text \<open>Totality of the order away from NaN.\<close>

lemma fp_not_less:
  fixes x y :: "('e::len, 'f::len) fp"
  shows "x \<noteq> FNaN \<Longrightarrow> y \<noteq> FNaN \<Longrightarrow> \<not> x < y \<longleftrightarrow> y \<le> x"
  by (cases x; cases y) (auto simp: less_fp_def less_eq_fp_def)

lemma fp_less_imp_le:
  fixes x y :: "('e::len, 'f::len) fp"
  shows "x < y \<Longrightarrow> x \<le> y"
  by (cases x; cases y) (auto simp: less_fp_def less_eq_fp_def)

section \<open>Square root\<close>

lemma isqrt_bits_ge: "r \<le> isqrt_bits k n r"
proof (induction k n r rule: isqrt_bits.induct)
  case (2 k n r)
  then show ?case
    by (cases "(r + 2 ^ k) * (r + 2 ^ k) \<le> n")
      (auto simp: Let_def intro: order_trans [of r "r + 2 ^ k"])
qed simp

lemma isqrt_nonneg: "0 \<le> isqrt n"
  by (simp add: isqrt_def isqrt_bits_ge)

lemma rsqrt_nonneg: "0 \<le> rsqrt p em x"
  using isqrt_nonneg by (auto simp: rsqrt_def Let_def)

lemma fsqrt_finite:
  fixes x :: "('e::len, 'f::len) fp"
  assumes "ffinite x" "0 \<le> fval x"
  shows "ffinite (fsqrt x)" and "0 \<le> fval (fsqrt x)"
  using assms rsqrt_nonneg by (cases x; auto simp: Let_def)+

section \<open>Bounds through one operation\<close>

lemma rnd_abs_mono:
  assumes "\<bar>x\<bar> \<le> y"
  shows "\<bar>rnd_of T x\<bar> \<le> rnd_of T y"
proof -
  have "rnd_of T x \<le> rnd_of T y" "rnd_of T (- x) \<le> rnd_of T y"
    using assms by (auto intro!: rnd_mono)
  then show ?thesis by (simp add: abs_le_iff rnd_uminus)
qed

lemma rha_bound:
  assumes "\<bar>q\<bar> \<le> of_int n"
  shows "\<bar>rha q\<bar> \<le> n"
proof -
  have f: "0 \<le> \<lfloor>r + 1 / 2\<rfloor> \<and> \<lfloor>r + 1 / 2\<rfloor> \<le> n" if "0 \<le> r" "r \<le> of_int n" for r :: rat
  proof -
    have "r + 1 / 2 < of_int (n + 1)" using that by simp
    then have "\<lfloor>r + 1 / 2\<rfloor> < n + 1" by (simp only: floor_less_iff)
    then show ?thesis using that by simp
  qed
  show ?thesis using f [of q] f [of "- q"] assms by (auto simp: rha_def)
qed

lemma fround_away_finite:
  "ffinite x \<Longrightarrow> ffinite (fround_away x) \<and> fval (fround_away x) = of_int (rha (fval x))"
  by (cases x) (simp_all add: rha_def floor_eq_iff)

lemma f2i_of_int:
  "- (2 ^ 31) \<le> i \<Longrightarrow> i < 2 ^ 31 \<Longrightarrow> ffinite x \<Longrightarrow> fval x = of_int i \<Longrightarrow> f2i x = i"
  by (simp add: f2i_def)

lemma fint_exact:
  assumes "\<bar>i\<bar> \<le> 2 ^ 53"
  shows "fint i = (Num (of_int i) :: f64)"
proof -
  have r: "repr_of TYPE(f64) (of_int i)"
    by (rule fp_repr_int) (use assms in \<open>simp_all add: fp_format_f64\<close>)
  have b: "\<bar>of_int i :: rat\<bar> \<le> of_int (2 ^ 53)"
    using assms by (simp only: of_int_abs [symmetric] of_int_le_iff)
  have "\<bar>of_int i :: rat\<bar> \<le> fp_max TYPE(f64)"
    by (rule order_trans [OF b]) (simp add: fp_format_f64)
  then show ?thesis
    using rnd_repr [OF fp_prec_pos r] by (simp add: fint_def fround_def Let_def fmk_def)
qed

section \<open>binary32 values of moderate size\<close>

text \<open>A finite single-precision value of magnitude at most $2^k$.\<close>

definition fbnd :: "nat \<Rightarrow> f32 \<Rightarrow> bool" where
  "fbnd k x \<longleftrightarrow> ffinite x \<and> \<bar>fval x\<bar> \<le> 2 ^ k"

lemma fbnd_finite: "fbnd k x \<Longrightarrow> ffinite x"
  by (simp add: fbnd_def)

lemma repr_pow_f32: "repr_of TYPE(f32) (2 ^ k)"
  unfolding fp_repr_def fp_format_f32
  by (rule exI [of _ 1], rule exI [of _ "int k"]) (simp add: pow2_def)

lemma pow_le_max_f32: "k \<le> 120 \<Longrightarrow> (2 :: rat) ^ k \<le> fp_max TYPE(f32)"
  by (rule order_trans [OF power_increasing [of k 120]]) (simp_all add: fp_format_f32)

lemma fbnd_round:
  assumes "\<bar>x\<bar> \<le> 2 ^ k" "k \<le> 120"
  shows "fbnd k (fround s x)" and "fval (fround s x :: f32) = rnd_of TYPE(f32) x"
proof -
  have m: "\<bar>x\<bar> \<le> fp_max TYPE(f32)" using assms(1) pow_le_max_f32 [OF assms(2)] by linarith
  show "fval (fround s x :: f32) = rnd_of TYPE(f32) x" by (rule fround_finite(2) [OF m])
  then show "fbnd k (fround s x)"
    using fround_finite(1) [OF m, of s] rnd_abs_le_repr [OF assms(1) repr_pow_f32]
    by (simp add: fbnd_def)
qed

lemma fbnd_add:
  assumes "fbnd k x" "fbnd k y" "k < 120"
  shows "fbnd (Suc k) (x + y)" and "fval (x + y) = rnd_of TYPE(f32) (fval x + fval y)"
proof -
  have b: "\<bar>fval x + fval y\<bar> \<le> 2 ^ Suc k"
    using assms(1,2) abs_triangle_ineq [of "fval x" "fval y"] by (auto simp: fbnd_def)
  have m: "\<bar>fval x + fval y\<bar> \<le> fp_max TYPE(f32)"
    using b pow_le_max_f32 [of "Suc k"] assms(3) by linarith
  note a = fp_add_finite [OF fbnd_finite [OF assms(1)] fbnd_finite [OF assms(2)] m]
  then show "fval (x + y) = rnd_of TYPE(f32) (fval x + fval y)" by simp
  show "fbnd (Suc k) (x + y)"
    using a rnd_abs_le_repr [OF b repr_pow_f32] by (simp add: fbnd_def)
qed

lemma fbnd_uminus: "fbnd k x \<Longrightarrow> fbnd k (- x)"
  by (simp add: fbnd_def)

lemma fbnd_abs: "fbnd k x \<Longrightarrow> fbnd k (fabs x)"
  by (simp add: fbnd_def)

lemma fbnd_sub:
  assumes "fbnd k x" "fbnd k y" "k < 120"
  shows "fbnd (Suc k) (x - y)" and "fval (x - y) = rnd_of TYPE(f32) (fval x - fval y)"
  using fbnd_add [OF assms(1) fbnd_uminus [OF assms(2)] assms(3)] by (simp_all add: minus_fp_def)

lemma fbnd_mult:
  assumes "fbnd k x" "fbnd l y" "k + l \<le> 120"
  shows "fbnd (k + l) (x * y)" and "fval (x * y) = rnd_of TYPE(f32) (fval x * fval y)"
proof -
  have b: "\<bar>fval x * fval y\<bar> \<le> 2 ^ (k + l)"
    using assms(1,2) mult_mono [of "\<bar>fval x\<bar>" "2 ^ k" "\<bar>fval y\<bar>" "2 ^ l"]
    by (simp add: fbnd_def abs_mult power_add)
  have m: "\<bar>fval x * fval y\<bar> \<le> fp_max TYPE(f32)"
    using b pow_le_max_f32 [OF assms(3)] by linarith
  note a = fp_mult_finite [OF fbnd_finite [OF assms(1)] fbnd_finite [OF assms(2)] m]
  then show "fval (x * y) = rnd_of TYPE(f32) (fval x * fval y)" by simp
  show "fbnd (k + l) (x * y)"
    using a rnd_abs_le_repr [OF b repr_pow_f32] by (simp add: fbnd_def)
qed

lemma fbnd_mono: "fbnd k x \<Longrightarrow> k \<le> l \<Longrightarrow> fbnd l x"
  unfolding fbnd_def using power_increasing [of k l "2::rat"] by (auto intro: order_trans)

end
