(* ===== verification/Mxc_Orient.thy ===== *)
theory Mxc_Orient
  imports Fp_Facts
begin

text \<open>
  The orientation filter of \<^verbatim>\<open>drv-mxc6655-accel.c\<close> (the functions from \<^verbatim>\<open>median3\<close> to
  \<^verbatim>\<open>classify_orientation\<close>): a median filter on the Z axis, an adaptive exponential average per axis,
  a circular buffer of twenty samples whose variance decides whether the device is at rest, and the
  tracking of the sensor's Z offset against gravity. \<open>OrientState\<close> is the C struct, arrays are lists
  of their C length, and every expression is evaluated in the C types.
\<close>

section \<open>Constants and data\<close>

definition ORIENT_BUF_SIZE :: nat where "ORIENT_BUF_SIZE = 20"
definition ORIENT_OFFSET_BUF :: nat where "ORIENT_OFFSET_BUF = 5"
definition ORIENT_STABLE_MIN :: nat where "ORIENT_STABLE_MIN = 10"
definition ORIENT_VARIANCE_THRESH :: f32 where "ORIENT_VARIANCE_THRESH = flit (1 / 100)"
definition ORIENT_EMA_ALPHA :: f32 where "ORIENT_EMA_ALPHA = flit (1 / 100)"
definition ORIENT_EMA_DECAY :: f32 where "ORIENT_EMA_DECAY = flit (99 / 100)"
definition ORIENT_DRIFT_LIMIT :: f32 where "ORIENT_DRIFT_LIMIT = flit (2 / 10)"
definition ORIENT_JUMP_LIMIT :: f32 where "ORIENT_JUMP_LIMIT = flit (24 / 10)"
definition ORIENT_OUTLIER_RANGE :: f32 where "ORIENT_OUTLIER_RANGE = flit (5 / 10)"
definition ORIENT_MAG_LO :: f32 where "ORIENT_MAG_LO = flit (85 / 100)"
definition ORIENT_MAG_HI :: f32 where "ORIENT_MAG_HI = flit (115 / 100)"

record Vec3 =
  vx :: f32
  vy :: f32
  vz :: f32

record OrientState =
  z_median_buf :: "f32 list"
  z_median_count :: nat
  ema_delta :: "f32 list"
  ema_abs_delta :: "f32 list"
  smoothed :: "f32 list"
  buf_x :: "f32 list"
  buf_y :: "f32 list"
  buf_z :: "f32 list"
  buf_idx :: nat
  buf_full :: bool
  stable_count :: nat
  acc_x :: f32
  acc_y :: f32
  acc_z :: f32
  acc_sq_x :: f32
  acc_sq_y :: f32
  acc_sq_z :: f32
  peak_x :: f32
  peak_y :: f32
  peak_z :: f32
  trough_x :: f32
  trough_y :: f32
  trough_z :: f32
  outlier_detected :: bool
  ref_x :: f32
  ref_y :: f32
  ref_z :: f32
  z_dir :: int
  gravity_offset :: f32
  trimmed_mean :: f32
  offset_buf :: "f32 list"
  offset_count :: nat
  offset_init :: bool
  out_offset :: f32
  out_mean :: f32
  out_z :: f32

text \<open>The zeroed struct of \<^verbatim>\<open>g_new0\<close>.\<close>

definition orient_zero :: OrientState where
  "orient_zero = \<lparr>z_median_buf = replicate 3 0, z_median_count = 0, ema_delta = replicate 3 0,
     ema_abs_delta = replicate 3 0, smoothed = replicate 3 0,
     buf_x = replicate 20 0, buf_y = replicate 20 0, buf_z = replicate 20 0,
     buf_idx = 0, buf_full = False, stable_count = 0,
     acc_x = 0, acc_y = 0, acc_z = 0, acc_sq_x = 0, acc_sq_y = 0, acc_sq_z = 0,
     peak_x = 0, peak_y = 0, peak_z = 0, trough_x = 0, trough_y = 0, trough_z = 0,
     outlier_detected = False, ref_x = 0, ref_y = 0, ref_z = 0, z_dir = 0,
     gravity_offset = 0, trimmed_mean = 0, offset_buf = replicate 5 0, offset_count = 0,
     offset_init = False, out_offset = 0, out_mean = 0, out_z = 0\<rparr>"

section \<open>Statistics\<close>

definition median3 :: "f32 \<Rightarrow> f32 \<Rightarrow> f32 \<Rightarrow> f32" where
  "median3 a b c =
     (let (a, b) = (if b < a then (b, a) else (a, b));
          (b, c) = (if c < b then (c, b) else (b, c));
          (a, b) = (if b < a then (b, a) else (a, b))
      in b)"

fun sum_and_squares :: "f32 list \<Rightarrow> f32 \<Rightarrow> f32 \<Rightarrow> f32 \<times> f32" where
  "sum_and_squares [] sm sum_sq = (sm, sum_sq)"
| "sum_and_squares (b # bs) sm sum_sq = sum_and_squares bs (sm + b) (sum_sq + b * b)"

definition sample_variance :: "f32 list \<Rightarrow> nat \<Rightarrow> f32" where
  "sample_variance buf n =
     (if n \<le> 1 then 0
      else (let (sm, sum_sq) = sum_and_squares (take n buf) 0 0;
                mean = sm div fint (int n)
            in (sum_sq - fint (int n) * mean * mean) div fint (int n - 1)))"

section \<open>The Z component\<close>

definition reconstruct_z :: "f32 \<Rightarrow> f32 \<Rightarrow> f32 \<Rightarrow> f32" where
  "reconstruct_z raw_z z_sq z_hint =
     (let z_sq_c = (if z_sq < 0 then 0 else z_sq);
          d = to_f64 z_sq_c;
          val = (if d \<le> flit (9 / 100) then
                   to_f32 (if z_hint \<le> 0 then - d * flit (1 / 2) else d * flit (1 / 2))
                 else if flit (16 / 100) < d then
                   (let s = fsqrt d in to_f32 (if z_hint \<le> 0 then - s else s))
                 else
                   (let s16 = fsqrt (flit (16 / 100));
                        interp = (d - flit (9 / 100)) * s16
                                 + (flit (16 / 100) - d) * flit (9 / 100) * flit (1 / 2);
                        interp = (if z_hint \<le> 0 then - interp else interp)
                    in to_f32 (interp div flit (7 / 100))));
          frac = (raw_z * flit 100 - fint (f2i (raw_z * flit 100))) div flit 100
      in val + frac)"

text \<open>
  The result is the return value, the new \<^verbatim>\<open>*z_dir\<close>, and what was stored in \<^verbatim>\<open>*out_offset\<close>
  (\<open>None\<close> where the source stores nothing).
\<close>

definition resolve_gravity_offset ::
  "f32 \<times> f32 \<times> f32 \<Rightarrow> f32 \<times> f32 \<times> f32 \<Rightarrow> f32 \<Rightarrow> int \<Rightarrow> int \<times> int \<times> f32 option" where
  "resolve_gravity_offset rf cur trimmed zdir =
     (let (ref0, ref1, ref2) = rf; (cur0, cur1, cur2) = cur;
          ref_x2 = ref0 * ref0; ref_y2 = ref1 * ref1;
          cur_x2 = cur0 * cur0; cur_y2 = cur1 * cur1;
          ref_zsq = (flit 1 - to_f64 ref_x2) - to_f64 ref_y2;
          cur_zsq = (flit 1 - to_f64 cur_x2) - to_f64 cur_y2;
          ref_zsq = (if ref_zsq < 0 then 0 else ref_zsq);
          cur_zsq = (if cur_zsq < 0 then 0 else cur_zsq);
          ref_zp = to_f32 (to_f64 ref2 + fsqrt ref_zsq);
          ref_zm = to_f32 (to_f64 ref2 - fsqrt ref_zsq);
          cur_zp = to_f32 (to_f64 cur2 + fsqrt cur_zsq);
          cur_zm = to_f32 (to_f64 cur2 - fsqrt cur_zsq);
          d_mm = fabs (ref_zm - cur_zm); d_pm = fabs (ref_zp - cur_zm);
          d_pp = fabs (ref_zp - cur_zp); d_mp = fabs (ref_zm - cur_zp);
          ref_span = fabs (ref_zm - ref_zp); cur_span = fabs (cur_zm - cur_zp);
          threshold = (cur_span + ref_span) * flit (8 / 100);
          (offset, new_dir) =
            (if d_mm \<le> d_pm \<and> d_mm \<le> d_pp \<and> d_mm \<le> d_mp \<and> d_mm < threshold
             then ((cur_zm + ref_zm) * flit (1 / 2), 1)
             else if d_pm \<le> d_mm \<and> d_pm \<le> d_pp \<and> d_pm \<le> d_mp \<and> d_pm < threshold
             then ((cur_zm + ref_zp) * flit (1 / 2), 1)
             else if d_pp \<le> d_mm \<and> d_pp \<le> d_pm \<and> d_pp \<le> d_mp \<and> d_pp < threshold
             then ((cur_zp + ref_zp) * flit (1 / 2), - 1)
             else if d_mp \<le> d_mm \<and> d_mp \<le> d_pm \<and> d_mp \<le> d_pp \<and> d_mp < threshold
             then ((cur_zp + ref_zm) * flit (1 / 2), - 1)
             else ((cur_zp + ref_zp) * flit (1 / 2), - 1));
          ref_mag = (ref2 - offset) * (ref2 - offset) + ref_y2 + ref_x2;
          cur_mag = (cur2 - offset) * (cur2 - offset) + cur_y2 + cur_x2
      in if ref_mag \<le> ORIENT_MAG_LO \<or> ORIENT_MAG_HI \<le> ref_mag \<or>
            cur_mag \<le> ORIENT_MAG_LO \<or> ORIENT_MAG_HI \<le> cur_mag
         then (0, zdir, None)
         else if \<not> feq trimmed 0 \<and> flit 1 < fabs (offset - trimmed)
         then (0, new_dir, Some 0)
         else (1, new_dir, Some offset))"

section \<open>Filter stages\<close>

definition median_filter_z :: "OrientState \<Rightarrow> f32 \<Rightarrow> OrientState \<times> f32" where
  "median_filter_z s z =
     (if z_median_count s < 3
      then (s\<lparr>z_median_buf := (z_median_buf s)[z_median_count s := z],
              z_median_count := z_median_count s + 1\<rparr>, z)
      else (let b = [z_median_buf s ! 1, z_median_buf s ! 2, z]
            in (s\<lparr>z_median_buf := b\<rparr>, median3 (b ! 0) (b ! 1) (b ! 2))))"

text \<open>One turn of the loop of \<^verbatim>\<open>ema_smooth\<close>, for axis \<open>i\<close>, with the weight it computes.\<close>

definition ema_weight :: "f32 \<Rightarrow> f32 \<Rightarrow> f32" where
  "ema_weight ed ea = (if flit (1 / 10000) \<le> fabs ea then fabs (ed div ea) else flit (1 / 2))"

definition ema_axis :: "nat \<Rightarrow> f32 \<Rightarrow> OrientState \<Rightarrow> OrientState" where
  "ema_axis i v s =
     (let delta = v - smoothed s ! i;
          abs_delta = fabs delta;
          ed = ema_delta s ! i * ORIENT_EMA_DECAY + delta * ORIENT_EMA_ALPHA;
          ea = ema_abs_delta s ! i * ORIENT_EMA_DECAY + abs_delta * ORIENT_EMA_ALPHA;
          weight = ema_weight ed ea
      in s\<lparr>ema_delta := (ema_delta s)[i := ed], ema_abs_delta := (ema_abs_delta s)[i := ea],
           smoothed := (smoothed s)[i := (flit 1 - weight) * smoothed s ! i + weight * v]\<rparr>)"

definition ema_smooth :: "OrientState \<Rightarrow> f32 list \<Rightarrow> OrientState" where
  "ema_smooth s inp = fold (\<lambda>i. ema_axis i (inp ! i)) [0, 1, 2] s"

definition store_in_buffer :: "OrientState \<Rightarrow> f32 list \<Rightarrow> OrientState \<times> bool" where
  "store_in_buffer s inp =
     (let idx = buf_idx s;
          s = s\<lparr>buf_x := (buf_x s)[idx := inp ! 0], buf_y := (buf_y s)[idx := inp ! 1],
                buf_z := (buf_z s)[idx := inp ! 2], buf_idx := idx + 1\<rparr>;
          s = (if ORIENT_BUF_SIZE \<le> buf_idx s then s\<lparr>buf_idx := 0, buf_full := True\<rparr> else s)
      in (s, buf_full s))"

definition max_buffer_variance :: "OrientState \<Rightarrow> f32" where
  "max_buffer_variance s =
     (let var_x = sample_variance (buf_x s) ORIENT_BUF_SIZE;
          var_y = sample_variance (buf_y s) ORIENT_BUF_SIZE;
          var_z = sample_variance (buf_z s) ORIENT_BUF_SIZE;
          mv = var_x;
          mv = (if mv < var_y then var_y else mv)
      in if mv < var_z then var_z else mv)"

definition reset_accumulator :: "OrientState \<Rightarrow> OrientState" where
  "reset_accumulator s = s\<lparr>acc_x := 0, acc_y := 0, acc_z := 0,
     acc_sq_x := 0, acc_sq_y := 0, acc_sq_z := 0, stable_count := 0, outlier_detected := False\<rparr>"

definition average_buffer :: "OrientState \<Rightarrow> f32 \<times> f32 \<times> f32" where
  "average_buffer s =
     (let sm = (\<lambda>b. fold (\<lambda>v a. a + v) (take ORIENT_BUF_SIZE b) 0);
          n = fint (int ORIENT_BUF_SIZE)
      in (sm (buf_x s) div n, sm (buf_y s) div n, sm (buf_z s) div n))"

definition signed_z :: "f32 \<Rightarrow> int \<Rightarrow> f32" where
  "signed_z z_sq zd = (if zd \<noteq> - 1 then fsqrt z_sq else - fsqrt z_sq)"

definition record_offset :: "OrientState \<Rightarrow> OrientState" where
  "record_offset s =
     (if offset_count s < ORIENT_OFFSET_BUF
      then s\<lparr>offset_buf := (offset_buf s)[offset_count s := gravity_offset s],
             offset_count := offset_count s + 1\<rparr>
      else s)"

definition try_resolve_offset ::
  "OrientState \<Rightarrow> f32 \<times> f32 \<times> f32 \<Rightarrow> f32 \<times> f32 \<times> f32 \<Rightarrow> OrientState" where
  "try_resolve_offset s rf cur =
     (let (ret, zd, out) = resolve_gravity_offset rf cur (trimmed_mean s) (z_dir s);
          s = s\<lparr>z_dir := zd\<rparr>;
          s = (case out of Some new_offset \<Rightarrow>
                 if ret = 1 then record_offset (s\<lparr>gravity_offset := new_offset\<rparr>) else s
               | None \<Rightarrow> s)
      in reset_accumulator s)"

definition bootstrap_reference :: "OrientState \<Rightarrow> f32 \<Rightarrow> f32 \<Rightarrow> f32 \<Rightarrow> f32 \<Rightarrow> OrientState" where
  "bootstrap_reference s avg_x avg_y avg_z z_sq =
     s\<lparr>ref_x := avg_x, ref_y := avg_y, ref_z := avg_z,
       gravity_offset := avg_z - signed_z z_sq (z_dir s)\<rparr>"

definition accumulate_sample :: "OrientState \<Rightarrow> f32 \<Rightarrow> f32 \<Rightarrow> f32 \<Rightarrow> OrientState" where
  "accumulate_sample s avg_x avg_y avg_z =
     s\<lparr>stable_count := stable_count s + 1,
       acc_x := acc_x s + avg_x, acc_y := acc_y s + avg_y, acc_z := acc_z s + avg_z,
       acc_sq_x := acc_sq_x s + avg_x * avg_x, acc_sq_y := acc_sq_y s + avg_y * avg_y,
       acc_sq_z := acc_sq_z s + avg_z * avg_z\<rparr>"

definition update_peak_trough :: "OrientState \<Rightarrow> f32 \<Rightarrow> f32 \<Rightarrow> f32 \<Rightarrow> OrientState" where
  "update_peak_trough s avg_x avg_y avg_z =
     (let s = (if stable_count s = 1
               then s\<lparr>peak_x := avg_x, trough_x := avg_x, peak_y := avg_y, trough_y := avg_y,
                      peak_z := avg_z, trough_z := avg_z\<rparr> else s);
          s = (if peak_z s < avg_z
               then s\<lparr>peak_x := avg_x, peak_y := avg_y, peak_z := avg_z\<rparr> else s)
      in if avg_z < trough_z s
         then s\<lparr>trough_x := avg_x, trough_y := avg_y, trough_z := avg_z\<rparr> else s)"

definition detect_outlier :: "OrientState \<Rightarrow> f32 \<Rightarrow> OrientState" where
  "detect_outlier s avg_z =
     (let s = (if feq avg_z (trough_z s) \<and> ORIENT_OUTLIER_RANGE < peak_z s - avg_z
               then s\<lparr>outlier_detected := True\<rparr> else s)
      in if feq avg_z (peak_z s) \<and> ORIENT_OUTLIER_RANGE < avg_z - trough_z s
         then s\<lparr>outlier_detected := True\<rparr> else s)"

definition handle_long_stable :: "OrientState \<Rightarrow> f32 \<Rightarrow> f32 \<Rightarrow> OrientState" where
  "handle_long_stable s avg_z z_sq =
     (let v_x = (acc_sq_x s * flit 1000 - acc_x s * acc_x s) div flit 999000;
          v_y = (acc_sq_y s * flit 1000 - acc_y s * acc_y s) div flit 999000;
          v_z = (acc_sq_z s * flit 1000 - acc_z s * acc_z s) div flit 999000;
          mv = v_x;
          mv = (if mv < v_y then v_y else mv);
          mv = (if mv < v_z then v_z else mv)
      in if mv < flit (4 / 1000)
         then record_offset (s\<lparr>gravity_offset := avg_z - signed_z z_sq (z_dir s)\<rparr>) else s)"

definition handle_stable_drift :: "OrientState \<Rightarrow> f32 \<Rightarrow> f32 \<Rightarrow> f32 \<Rightarrow> f32 \<Rightarrow> OrientState" where
  "handle_stable_drift s avg_x avg_y avg_z z_sq =
     (let s = accumulate_sample s avg_x avg_y avg_z;
          s = update_peak_trough s avg_x avg_y avg_z
      in if stable_count s < 2 then s
         else (let s = detect_outlier s avg_z
               in if outlier_detected s
                  then try_resolve_offset s (peak_x s, peak_y s, peak_z s) (avg_x, avg_y, avg_z)
                  else if 1000 \<le> stable_count s then handle_long_stable s avg_z z_sq
                  else s))"

text \<open>The sum, minimum and maximum of the loop of \<^verbatim>\<open>update_offset_trimmed_mean\<close>.\<close>

fun sum_min_max :: "f32 list \<Rightarrow> f32 \<Rightarrow> f32 \<Rightarrow> f32 \<Rightarrow> f32 \<times> f32 \<times> f32" where
  "sum_min_max [] sm mn mx = (sm, mn, mx)"
| "sum_min_max (b # bs) sm mn mx =
     sum_min_max bs (sm + b) (if b < mn then b else mn) (if mx < b then b else mx)"

definition update_offset_trimmed_mean :: "OrientState \<Rightarrow> OrientState" where
  "update_offset_trimmed_mean s =
     (if offset_count s < ORIENT_OFFSET_BUF then s
      else (let (sm, mn, mx) = sum_min_max (take ORIENT_OFFSET_BUF (offset_buf s)) 0
                                  (offset_buf s ! 0) (offset_buf s ! 0)
            in s\<lparr>offset_count := 0,
                 trimmed_mean := (sm - mn - mx) div fint (int ORIENT_OFFSET_BUF - 2)\<rparr>))"

text \<open>The return value, the new state and the new \<^verbatim>\<open>*mean_offset\<close>.\<close>

definition update_gravity_tracking ::
  "OrientState \<Rightarrow> f32 \<Rightarrow> f32 \<Rightarrow> f32 \<Rightarrow> f32 \<Rightarrow> f32 \<Rightarrow> int \<times> OrientState \<times> f32" where
  "update_gravity_tracking s avg_x avg_y avg_z z_sq mean_offset =
     (if feq (ref_x s) 0 \<and> feq (ref_y s) 0 \<and> feq (ref_z s) 0
      then (0, bootstrap_reference s avg_x avg_y avg_z z_sq, mean_offset)
      else
       (let z_drift = fabs (avg_z - ref_z s) in
        if \<not> z_drift \<le> ORIENT_DRIFT_LIMIT \<and> ORIENT_JUMP_LIMIT < z_drift
        then (- 1, s\<lparr>ref_x := 0, ref_y := 0, ref_z := 0\<rparr>, mean_offset)
        else
         (let s = (if z_drift \<le> ORIENT_DRIFT_LIMIT
                   then handle_stable_drift s avg_x avg_y avg_z z_sq
                   else try_resolve_offset s (ref_x s, ref_y s, ref_z s) (avg_x, avg_y, avg_z));
              s = update_offset_trimmed_mean s;
              s = s\<lparr>ref_x := avg_x, ref_y := avg_y, ref_z := avg_z\<rparr>;
              (s, mean_offset) =
                (if offset_init s \<and> 0 < offset_count s
                 then (s\<lparr>offset_init := False\<rparr>, offset_buf s ! 0) else (s, mean_offset));
              s = (if 0 < avg_z - gravity_offset s then s\<lparr>z_dir := 1\<rparr>
                   else if avg_z - gravity_offset s < 0 then s\<lparr>z_dir := - 1\<rparr> else s)
          in (0, s, mean_offset))))"

definition blend_z_output :: "OrientState \<Rightarrow> f32 list \<Rightarrow> f32 \<Rightarrow> f32" where
  "blend_z_output s inp max_var =
     (let z_sq = (flit 1 - smoothed s ! 0 * smoothed s ! 0) - smoothed s ! 1 * smoothed s ! 1;
          z_hint = smoothed s ! 2 - gravity_offset s;
          z_o = (if max_var < flit (24 / 10000) then reconstruct_z (inp ! 2) z_sq z_hint
                 else if flit (56 / 10000) \<le> max_var then inp ! 2 - gravity_offset s
                 else (let z_recon = reconstruct_z (inp ! 2) z_sq z_hint;
                           z_raw = inp ! 2 - gravity_offset s
                       in ((z_raw - z_recon) * max_var + z_recon * flit (56 / 10000)
                           - z_raw * flit (24 / 10000)) div flit (32 / 10000)))
      in if max_var < flit (2 / 1000)
         then (let mag = fsqrt (inp ! 0 * inp ! 0 + inp ! 1 * inp ! 1 + z_o * z_o)
               in if mag < flit (6 / 10) \<or> flit (14 / 10) < mag then flit (1 / 2) else z_o)
         else z_o)"

text \<open>
  \<^verbatim>\<open>update_orientation\<close> in four parts: the filters and the buffer; the stability counter; the offset
  tracking once stable, which may end the function; the outputs and the result code.
\<close>

definition orient_front :: "OrientState \<Rightarrow> Vec3 \<Rightarrow> OrientState \<times> f32 list \<times> bool" where
  "orient_front s accel =
     (let (s, z) = median_filter_z s (vz accel);
          inp = [vx accel, vy accel, z];
          s = ema_smooth s inp;
          (s, full) = store_in_buffer s inp
      in (s, inp, full))"

definition orient_stability :: "OrientState \<Rightarrow> f32 \<Rightarrow> OrientState" where
  "orient_stability s max_var =
     (if ORIENT_VARIANCE_THRESH < max_var then reset_accumulator s
      else if stable_count s \<le> ORIENT_STABLE_MIN then s\<lparr>stable_count := stable_count s + 1\<rparr> else s)"

definition orient_track :: "OrientState \<Rightarrow> int \<times> OrientState \<times> f32" where
  "orient_track s =
     (if ORIENT_STABLE_MIN < stable_count s then
        (let (avg_x, avg_y, avg_z) = average_buffer s;
             xy_sq = avg_x * avg_x + avg_y * avg_y;
             z_sq = flit 1 - xy_sq
         in if z_sq < 0 then
              (let norm = fsqrt (to_f64 xy_sq);
                   avg_x = to_f32 (to_f64 avg_x div norm) * flit (9999 / 10000);
                   avg_y = to_f32 (to_f64 avg_y div norm) * flit (9999 / 10000)
               in update_gravity_tracking (reset_accumulator s) avg_x avg_y avg_z 0 0)
            else update_gravity_tracking s avg_x avg_y avg_z z_sq 0)
      else (0, s, 0))"

definition orient_finish ::
  "OrientState \<Rightarrow> f32 list \<Rightarrow> f32 \<Rightarrow> f32 \<Rightarrow> OrientState \<times> int" where
  "orient_finish s inp max_var mean_offset =
     (let s = s\<lparr>out_offset := gravity_offset s, out_mean := mean_offset,
                out_z := blend_z_output s inp max_var\<rparr>
      in if fabs (gravity_offset s) < flit (1 / 1000000) then (s, 0)
         else if flit (1 / 1000000) < fabs mean_offset then (s, 2)
         else (s, 1))"

definition update_orientation :: "OrientState \<Rightarrow> Vec3 \<Rightarrow> OrientState \<times> int" where
  "update_orientation s accel =
     (let (s, inp, full) = orient_front s accel in
      if \<not> full then
        (let z_sq = (flit 1 - smoothed s ! 0 * smoothed s ! 0) - smoothed s ! 1 * smoothed s ! 1
         in (s\<lparr>out_offset := gravity_offset s, out_mean := 0,
               out_z := (if 0 \<le> z_sq then signed_z z_sq (z_dir s) else 0)\<rparr>, 0))
      else
        (let max_var = max_buffer_variance s;
             s = orient_stability s max_var;
             (ret, s, mean_offset) = orient_track s
         in if ret < 0 then (s, 0) else orient_finish s inp max_var mean_offset))"

section \<open>Classification\<close>

definition MXC_ORIENT_NORMAL :: int where "MXC_ORIENT_NORMAL = 0"
definition MXC_ORIENT_LEFT :: int where "MXC_ORIENT_LEFT = 1"
definition MXC_ORIENT_INVERTED :: int where "MXC_ORIENT_INVERTED = 2"
definition MXC_ORIENT_RIGHT :: int where "MXC_ORIENT_RIGHT = 3"

definition classify_orientation :: "Vec3 \<Rightarrow> int" where
  "classify_orientation accel =
     (let abs_x = fabs (vx accel); abs_y = fabs (vy accel) in
      if abs_x < flit (4 / 10) \<and> abs_y < flit (4 / 10) then - 1
      else if abs_x \<le> abs_y
      then (if vy accel < 0 then MXC_ORIENT_NORMAL else MXC_ORIENT_INVERTED)
      else (if 0 < vx accel then MXC_ORIENT_RIGHT else MXC_ORIENT_LEFT))"

end
