(* ===== verification/Mxc_Hw.thy ===== *)
theory Mxc_Hw
  imports Posix Mxc_Orient
begin

text \<open>
  The hardware side of \<^verbatim>\<open>drv-mxc6655-accel.c\<close> (lines 128 to 560): the driver's state, the panel
  rotation read from DRM, I2C access to the two accelerometers, unbinding of the kernel driver, the
  ACPI calls with the GMTR calibration package, and the uinput switch. Every function takes the
  environment \<open>os\<close> and passes the world.
\<close>

section \<open>The driver's state\<close>

record DrvData =
  timeout_id :: nat
  want_polling :: bool
  lid_closed :: bool
  lid_fd :: int
  lid_watch_id :: nat
  i2c_fds :: "int \<times> int"
  uinput_fd :: int
  ltsm_warned :: bool
  cal1 :: "int list"
  cal2 :: "int list"
  prev_z1 :: f32
  prev_z2 :: f32
  mode :: int
  t_count :: nat
  l_count :: nat
  n_count :: nat
  tablet_thresh :: f32
  laptop_thresh :: f32
  min_angle :: f32
  orient :: OrientState
  cur_orient :: int
  orient_debounce :: nat
  pending_orient :: int
  panel_deg :: int

definition MXC6655_ADDR :: u16 where "MXC6655_ADDR = 0x15"
definition MXC6655_REG_XOUT :: u8 where "MXC6655_REG_XOUT = 0x03"
definition MXC6655_REG_DEVID :: u8 where "MXC6655_REG_DEVID = 0x0E"
definition GMTR_TABLET_THRESH :: f32 where "GMTR_TABLET_THRESH = flit 185"
definition GMTR_LAPTOP_THRESH :: f32 where "GMTR_LAPTOP_THRESH = flit 175"
definition GMTR_MIN_ANGLE :: f32 where "GMTR_MIN_ANGLE = flit 30"
definition ACPI_CALL_PATH :: string where "ACPI_CALL_PATH = ''/proc/acpi/call''"
definition backslash :: string where "backslash = [CHR 0x5C]"
definition ACPI_LTSM_CMD :: string where "ACPI_LTSM_CMD = backslash @ ''_SB.ACMK.LTSM''"
definition ACPI_GMTR_CMD :: string where "ACPI_GMTR_CMD = backslash @ ''_SB.ACMK.GMTR''"
definition ACPI_MATCH_ID :: string where "ACPI_MATCH_ID = ''MDA6655''"
definition PANEL_ORIENT_UNKNOWN :: int where "PANEL_ORIENT_UNKNOWN = - 1"
definition PANEL_ORIENT_BOTTOM_UP :: int where "PANEL_ORIENT_BOTTOM_UP = 1"
definition PANEL_ORIENT_LEFT_UP :: int where "PANEL_ORIENT_LEFT_UP = 2"
definition PANEL_ORIENT_RIGHT_UP :: int where "PANEL_ORIENT_RIGHT_UP = 3"
definition MAX_DRM_CARD :: nat where "MAX_DRM_CARD = 4"

section \<open>Panel rotation\<close>

definition panel_orient_degrees :: "int \<Rightarrow> int" where
  "panel_orient_degrees drm_orient =
     (if drm_orient = PANEL_ORIENT_LEFT_UP then 90
      else if drm_orient = PANEL_ORIENT_BOTTOM_UP then 180
      else if drm_orient = PANEL_ORIENT_RIGHT_UP then 270 else 0)"

definition compose_orientation :: "int \<Rightarrow> int \<Rightarrow> int" where
  "compose_orientation mxc_orient pdeg =
     (let deg = c_mod (c_mod (mxc_orient * 90 - pdeg) 360 + 360) 360 in c_div deg 90)"

fun connector_panel_orientation :: "'w os \<Rightarrow> int \<Rightarrow> (nat \<times> u64) list \<Rightarrow> 'w \<Rightarrow> int" where
  "connector_panel_orientation os fd [] w = PANEL_ORIENT_UNKNOWN"
| "connector_panel_orientation os fd ((p, v) # ps) w =
     (case os_drm_property os fd p w of
        None \<Rightarrow> connector_panel_orientation os fd ps w
      | Some name \<Rightarrow>
          (let value = (if name = ''panel orientation'' then c_int (uint v) else PANEL_ORIENT_UNKNOWN)
           in if value \<noteq> PANEL_ORIENT_UNKNOWN then value else connector_panel_orientation os fd ps w))"

fun connectors_orientation :: "'w os \<Rightarrow> int \<Rightarrow> nat list \<Rightarrow> 'w \<Rightarrow> int" where
  "connectors_orientation os fd [] w = PANEL_ORIENT_UNKNOWN"
| "connectors_orientation os fd (c # cs) w =
     (case os_drm_connector os fd c w of
        None \<Rightarrow> connectors_orientation os fd cs w
      | Some conn \<Rightarrow>
          (let o' = (if connector_type conn = DRM_MODE_CONNECTOR_DSI
                     then connector_panel_orientation os fd (conn_props conn) w
                     else PANEL_ORIENT_UNKNOWN)
           in if o' \<noteq> PANEL_ORIENT_UNKNOWN then o' else connectors_orientation os fd cs w))"

definition card_panel_orientation :: "'w os \<Rightarrow> int \<Rightarrow> 'w \<Rightarrow> int" where
  "card_panel_orientation os fd w =
     (case os_drm_connectors os fd w of None \<Rightarrow> PANEL_ORIENT_UNKNOWN
      | Some cs \<Rightarrow> connectors_orientation os fd cs w)"

fun cards_orientation :: "'w os \<Rightarrow> nat list \<Rightarrow> 'w \<Rightarrow> int \<times> 'w" where
  "cards_orientation os [] w = (PANEL_ORIENT_UNKNOWN, w)"
| "cards_orientation os (c # cards) w =
     (let (fd, w) = os_open os (''/dev/dri/card'' @ show_nat c) [O_RDONLY, O_CLOEXEC] w in
      if fd < 0 then cards_orientation os cards w
      else (let o' = card_panel_orientation os fd w; w = os_close os fd w
            in if o' \<noteq> PANEL_ORIENT_UNKNOWN then (o', w) else cards_orientation os cards w))"

definition read_panel_orientation :: "'w os \<Rightarrow> 'w \<Rightarrow> int \<times> 'w" where
  "read_panel_orientation os w = cards_orientation os [0..<MAX_DRM_CARD] w"

definition detect_panel_rotation :: "'w os \<Rightarrow> 'w \<Rightarrow> int \<times> 'w" where
  "detect_panel_rotation os w =
     (let (drm_orient, w) = read_panel_orientation os w
      in if drm_orient = PANEL_ORIENT_UNKNOWN then (0, w) else (panel_orient_degrees drm_orient, w))"

section \<open>I2C\<close>

definition i2c_xfer :: "'w os \<Rightarrow> int \<Rightarrow> u8 \<Rightarrow> nat \<Rightarrow> 'w \<Rightarrow> (int \<times> u8 list) \<times> 'w" where
  "i2c_xfer os fd reg len w =
     (let ((r, buf), w) = os_i2c_rdwr os fd
            [\<lparr>addr = MXC6655_ADDR, rd = False, msg_len = 1, msg_buf = [reg]\<rparr>,
             \<lparr>addr = MXC6655_ADDR, rd = True, msg_len = len, msg_buf = []\<rparr>] w
      in ((if r < 0 then - 1 else 0, buf), w))"

text \<open>A big-endian sample, sign-extended, in units of g.\<close>

definition accel_sample :: "u8 \<Rightarrow> u8 \<Rightarrow> int" where
  "accel_sample hi lo = sint (push_bit 8 (ucast hi) OR ucast lo :: 16 word)"

definition sample_scale :: f32 where "sample_scale = flit (24414063 / 100000000000)"

definition read_accel :: "'w os \<Rightarrow> int \<Rightarrow> 'w \<Rightarrow> Vec3 option \<times> 'w" where
  "read_accel os fd w =
     (let ((r, buf), w) = i2c_xfer os fd MXC6655_REG_XOUT 6 w in
      if r < 0 then (None, w)
      else (Some \<lparr>vx = fint (accel_sample (buf ! 0) (buf ! 1)) * sample_scale,
                  vy = fint (accel_sample (buf ! 2) (buf ! 3)) * sample_scale,
                  vz = fint (accel_sample (buf ! 4) (buf ! 5)) * sample_scale\<rparr>, w))"

definition calibrate :: "Vec3 \<Rightarrow> int list \<Rightarrow> Vec3" where
  "calibrate v m =
     \<lparr>vx = fint (m ! 0) * vx v + fint (m ! 1) * vy v + fint (m ! 2) * vz v,
      vy = fint (m ! 3) * vx v + fint (m ! 4) * vy v + fint (m ! 5) * vz v,
      vz = fint (m ! 6) * vx v + fint (m ! 7) * vy v + fint (m ! 8) * vz v\<rparr>"

definition probe_bus :: "'w os \<Rightarrow> int \<Rightarrow> 'w \<Rightarrow> int \<times> 'w" where
  "probe_bus os bus w =
     (let (fd, w) = os_open os (''/dev/i2c-'' @ show_int bus) [O_RDWR, O_CLOEXEC] w in
      if fd < 0 then (- 1, w)
      else (let ((r, ident), w) = i2c_xfer os fd MXC6655_REG_DEVID 1 w
            in if r < 0 then (- 1, os_close os fd w) else (fd, w)))"

text \<open>\<^verbatim>\<open>fds[found++] = fd\<close>: the slots after \<open>found\<close> keep what they had.\<close>

definition set_fd :: "int \<times> int \<Rightarrow> nat \<Rightarrow> int \<Rightarrow> int \<times> int" where
  "set_fd fds i fd = (if i = 0 then (fd, snd fds) else (fst fds, fd))"

fun find_accels_loop ::
  "'w os \<Rightarrow> (string \<times> string option) list \<Rightarrow> nat \<Rightarrow> int \<times> int \<Rightarrow> 'w \<Rightarrow> nat \<times> (int \<times> int) \<times> 'w" where
  "find_accels_loop os [] found fds w = (found, fds, w)"
| "find_accels_loop os ((name, path) # l) found fds w =
     (if \<not> found < 2 then (found, fds, w)
      else (case path of None \<Rightarrow> find_accels_loop os l found fds w
            | Some p \<Rightarrow> if \<not> strstr_found p ''.I2C'' then find_accels_loop os l found fds w
                else (let (fd, w) = probe_bus os (atoi (drop 4 name)) w
                      in if 0 \<le> fd then find_accels_loop os l (found + 1) (set_fd fds found fd) w
                         else find_accels_loop os l found fds w)))"

definition find_accels :: "'w os \<Rightarrow> int \<times> int \<Rightarrow> 'w \<Rightarrow> nat \<times> (int \<times> int) \<times> 'w" where
  "find_accels os fds w = find_accels_loop os (os_i2c_devices os w) 0 fds w"

definition unbind_names :: "nat \<Rightarrow> string list" where
  "unbind_names i = map (\<lambda>idx. (if i = 0 then ''i2c-'' else []) @ ACPI_MATCH_ID @ '':0'' @ show_nat idx) [0..<4]"

fun write_all :: "'w os \<Rightarrow> int \<Rightarrow> string list \<Rightarrow> 'w \<Rightarrow> 'w" where
  "write_all os fd [] w = w"
| "write_all os fd (s # ss) w = write_all os fd ss (snd (os_write os fd s w))"

definition unbind_at :: "'w os \<Rightarrow> string \<Rightarrow> nat \<Rightarrow> 'w \<Rightarrow> 'w" where
  "unbind_at os path i w =
     (let (fd, w) = os_open os path [O_WRONLY, O_CLOEXEC] w
      in if fd < 0 then w else os_close os fd (write_all os fd (unbind_names i) w))"

definition try_unbind :: "'w os \<Rightarrow> 'w \<Rightarrow> 'w" where
  "try_unbind os w =
     (let w = unbind_at os ''/sys/bus/i2c/drivers/mxc4005/unbind'' 0 w;
          w = unbind_at os ''/sys/bus/acpi/drivers/mxc4005/unbind'' 1 w
      in os_usleep os 200000 w)"

section \<open>ACPI\<close>

definition call_ltsm :: "'w os \<Rightarrow> int \<Rightarrow> bool \<Rightarrow> 'w \<Rightarrow> int \<times> bool \<times> 'w" where
  "call_ltsm os md warned w =
     (let (fd, w) = os_open os ACPI_CALL_PATH [O_WRONLY, O_CLOEXEC] w in
      if fd < 0 then (- 1, True, w)
      else (let (ret, w) = os_write os fd (ACPI_LTSM_CMD @ '' '' @ show_int md) w;
                w = os_close os fd w
            in (if 0 < ret then 0 else - 1, warned, w)))"

text \<open>The buffer as the C string the callers read: the bytes up to the first NUL.\<close>

definition acpi_call_read :: "'w os \<Rightarrow> string \<Rightarrow> nat \<Rightarrow> 'w \<Rightarrow> string option \<times> 'w" where
  "acpi_call_read os cmd buf_size w =
     (let (fd, w) = os_open os ACPI_CALL_PATH [O_RDWR, O_CLOEXEC] w in
      if fd < 0 then (None, w)
      else (let (r, w) = os_write os fd cmd w in
            if r < 0 then (None, os_close os fd w)
            else (let ((len, data), w) = os_read os fd (buf_size - 1) w;
                      w = os_close os fd w
                  in if len \<le> 0 then (None, w)
                     else (Some (takeWhile (\<lambda>c. c \<noteq> CHR 0x00) (take (nat len) data)), w))))"

definition parse_acpi_package :: "string \<Rightarrow> nat \<Rightarrow> u64 list" where
  "parse_acpi_package buf max_values =
     (case buf of
        c # rest \<Rightarrow> if c \<noteq> CHR ''{'' then []
          else take max_values (map strtoull0 (filter (\<lambda>e. e \<noteq> [])
                 (g_strsplit (takeWhile (\<lambda>c. c \<noteq> CHR ''}'') rest) '', '' (- 1))))
      | [] \<Rightarrow> [])"

definition gint8 :: "u64 \<Rightarrow> int" where
  "gint8 v = sint (ucast v :: 8 word)"

text \<open>The loops copy the values at hand over the first entries of each matrix.\<close>

definition overlay :: "'a list \<Rightarrow> 'a list \<Rightarrow> 'a list" where
  "overlay new old = take (length old) new @ drop (length new) old"

definition apply_gmtr_values :: "DrvData \<Rightarrow> u64 list \<Rightarrow> DrvData" where
  "apply_gmtr_values d values =
     (let d = d\<lparr>cal1 := overlay (map gint8 (take 9 values)) (cal1 d)\<rparr>;
          d = d\<lparr>cal2 := overlay (map gint8 (take 9 (drop 9 values))) (cal2 d)\<rparr>;
          d = (if 18 < length values \<and> 0 < values ! 18
               then d\<lparr>tablet_thresh := fint (uint (values ! 18))\<rparr> else d);
          d = (if 19 < length values \<and> 0 < values ! 19
               then d\<lparr>laptop_thresh := fint (uint (values ! 19))\<rparr> else d)
      in if 20 < length values \<and> 0 < values ! 20
         then d\<lparr>min_angle := fint (uint (values ! 20))\<rparr> else d)"

definition load_gmtr :: "'w os \<Rightarrow> DrvData \<Rightarrow> 'w \<Rightarrow> bool \<times> DrvData \<times> 'w" where
  "load_gmtr os d w =
     (let d = d\<lparr>tablet_thresh := GMTR_TABLET_THRESH, laptop_thresh := GMTR_LAPTOP_THRESH,
                min_angle := GMTR_MIN_ANGLE\<rparr>;
          (buf, w) = acpi_call_read os ACPI_GMTR_CMD 4096 w
      in case buf of None \<Rightarrow> (False, d, w)
         | Some b \<Rightarrow> (let values = parse_acpi_package b 32
             in if length values < 18 then (False, d, w)
                else (True, apply_gmtr_values d values, w)))"

section \<open>uinput\<close>

definition setup_uinput :: "'w os \<Rightarrow> 'w \<Rightarrow> int \<times> 'w" where
  "setup_uinput os w =
     (let (fd, w) = os_open os ''/dev/uinput'' [O_WRONLY, O_NONBLOCK, O_CLOEXEC] w in
      if fd < 0 then (- 1, w)
      else (let (r, w) = os_uinput os fd (UI_SET_EVBIT EV_SW) w in
        if r < 0 then (- 1, os_close os fd w)
        else (let (r, w) = os_uinput os fd (UI_SET_SWBIT SW_TABLET_MODE) w in
          if r < 0 then (- 1, os_close os fd w)
          else (let (r, w) = os_uinput os fd (UI_DEV_SETUP \<lparr>bustype = 6, vendor = 0x4358,
                  product = 1, setup_name = ''MXC6655 Tablet Mode Control''\<rparr>) w in
            if r < 0 then (- 1, os_close os fd w)
            else (let (r, w) = os_uinput os fd UI_DEV_CREATE w in
              if r < 0 then (- 1, os_close os fd w)
              else (fd, os_usleep os 100000 w))))))"

definition emit_tablet_mode :: "'w os \<Rightarrow> int \<Rightarrow> int \<Rightarrow> 'w \<Rightarrow> 'w" where
  "emit_tablet_mode os fd tablet w =
     snd (os_write_events os fd
       [\<lparr>ev_type = EV_SW, ev_code = SW_TABLET_MODE, ev_value = tablet\<rparr>,
        \<lparr>ev_type = EV_SYN, ev_code = SYN_REPORT, ev_value = 0\<rparr>] w)"

end
