(* ===== verification/Orientation.thy ===== *)
theory Orientation
  imports Fp_Facts
begin

text \<open>
  \<^verbatim>\<open>accel-scale.c\<close> and \<^verbatim>\<open>orientation.c\<close>: the scale vector of an accelerometer, the two enumerations
  the D-Bus clients see, their texts, and the classification of a reading into an orientation and
  a tilt. The C library's \<^verbatim>\<open>atan2\<close> and \<^verbatim>\<open>atan2f\<close> are the argument \<open>libm\<close>; the facts of the C
  standard (Annex F) that a property relies on are the predicates \<open>atan2_axes\<close> and \<open>atan2_range\<close>.
\<close>

record libm =
  lm_atan2 :: "f64 \<Rightarrow> f64 \<Rightarrow> f64"
  lm_atan2f :: "f32 \<Rightarrow> f32 \<Rightarrow> f32"

section \<open>accel-scale.c\<close>

record AccelScale =
  scale_x :: f64
  scale_y :: f64
  scale_z :: f64

text \<open>\<^verbatim>\<open>g_return_if_fail (value != 0.0)\<close> leaves the scale as it was.\<close>

definition set_accel_scale :: "AccelScale \<Rightarrow> f64 \<Rightarrow> AccelScale" where
  "set_accel_scale scale value =
     (if feq value 0 then scale else \<lparr>scale_x = value, scale_y = value, scale_z = value\<rparr>)"

definition reset_accel_scale :: "AccelScale \<Rightarrow> AccelScale" where
  "reset_accel_scale scale = set_accel_scale scale (flit 1)"

definition copy_accel_scale :: "AccelScale \<Rightarrow> AccelScale \<Rightarrow> AccelScale" where
  "copy_accel_scale target source =
     target\<lparr>scale_x := scale_x source, scale_y := scale_y source, scale_z := scale_z source\<rparr>"

section \<open>orientation.h and the texts\<close>

datatype OrientationUp =
  ORIENTATION_UNDEFINED | ORIENTATION_NORMAL | ORIENTATION_BOTTOM_UP | ORIENTATION_LEFT_UP
  | ORIENTATION_RIGHT_UP

datatype Tilt = TILT_UNDEFINED | TILT_VERTICAL | TILT_UP | TILT_DOWN | FACE_UP | FACE_DOWN

text \<open>The arrays \<^verbatim>\<open>orientations\<close> and \<^verbatim>\<open>tilts\<close>, each text with the enumerator of its index.\<close>

definition orientations :: "(OrientationUp \<times> string) list" where
  "orientations = [(ORIENTATION_UNDEFINED, ''undefined''), (ORIENTATION_NORMAL, ''normal''),
     (ORIENTATION_BOTTOM_UP, ''bottom-up''), (ORIENTATION_LEFT_UP, ''left-up''),
     (ORIENTATION_RIGHT_UP, ''right-up'')]"

definition tilts :: "(Tilt \<times> string) list" where
  "tilts = [(TILT_UNDEFINED, ''undefined''), (TILT_VERTICAL, ''vertical''), (TILT_UP, ''tilted-up''),
     (TILT_DOWN, ''tilted-down''), (FACE_UP, ''face-up''), (FACE_DOWN, ''face-down'')]"

definition orientation_to_string :: "OrientationUp \<Rightarrow> string" where
  "orientation_to_string o' = the (map_of orientations o')"

definition tilt_to_string :: "Tilt \<Rightarrow> string" where
  "tilt_to_string t = the (map_of tilts t)"

text \<open>The first index whose text is equal; \<open>None\<close> is the NULL pointer.\<close>

fun first_named :: "('a \<times> string) list \<Rightarrow> string \<Rightarrow> 'a option" where
  "first_named [] s = None"
| "first_named ((v, n) # xs) s = (if s = n then Some v else first_named xs s)"

definition string_to_orientation :: "string option \<Rightarrow> OrientationUp" where
  "string_to_orientation s = (case s of None \<Rightarrow> ORIENTATION_UNDEFINED
     | Some n \<Rightarrow> (case first_named orientations n of None \<Rightarrow> ORIENTATION_UNDEFINED | Some v \<Rightarrow> v))"

definition string_to_tilt :: "string option \<Rightarrow> Tilt" where
  "string_to_tilt s = (case s of None \<Rightarrow> TILT_UNDEFINED
     | Some n \<Rightarrow> (case first_named tilts n of None \<Rightarrow> TILT_UNDEFINED | Some v \<Rightarrow> v))"

section \<open>tilt_calc and orientation_calc\<close>

definition M_PI :: f64 where
  "M_PI = flit (314159265358979323846 / 100000000000000000000)"

definition SAME_AXIS_LIMIT :: int where "SAME_AXIS_LIMIT = 5"
definition THRESHOLD_LANDSCAPE :: int where "THRESHOLD_LANDSCAPE = 35"
definition THRESHOLD_PORTRAIT :: int where "THRESHOLD_PORTRAIT = 35"
definition THRESHOLD_FACE_DOWN :: int where "THRESHOLD_FACE_DOWN = 70"
definition THRESHOLD_TILT :: int where "THRESHOLD_TILT = 20"
definition TILT_MAX :: int where "TILT_MAX = 90"

text \<open>The macro \<^verbatim>\<open>SCALE\<close>.\<close>

definition SCALE :: "int \<Rightarrow> f64 \<Rightarrow> int" where
  "SCALE in_a scale_a = f2i (fint in_a * scale_a * flit 256 div flit (981 / 100))"

text \<open>
  \<^verbatim>\<open>round(atan2(a, sqrt(b * b + c * c)) * RADIANS_TO_DEGREES)\<close> stored in an \<^verbatim>\<open>int\<close>. The macro
  expands to \<^verbatim>\<open>180.0/M_PI\<close> without parentheses, so the product comes first.
\<close>

definition angle_deg :: "libm \<Rightarrow> int \<Rightarrow> int \<Rightarrow> int \<Rightarrow> int" where
  "angle_deg m a b c =
     f2i (fround_away (lm_atan2 m (fint a) (fsqrt (fint (c_int (b * b + c * c)))) * flit 180 div M_PI))"

definition tilt_calc :: "libm \<Rightarrow> Tilt \<Rightarrow> int \<Rightarrow> int \<Rightarrow> int \<Rightarrow> AccelScale \<Rightarrow> Tilt" where
  "tilt_calc m prev in_x in_y in_z scale =
     (let x = SCALE in_x (scale_x scale); y = SCALE in_y (scale_y scale);
          z = SCALE in_z (scale_z scale);
          tilt = angle_deg m z x y
      in if \<bar>tilt\<bar> \<le> THRESHOLD_TILT then TILT_VERTICAL
         else if \<bar>tilt\<bar> > THRESHOLD_TILT \<and> \<bar>tilt\<bar> < THRESHOLD_FACE_DOWN
         then (if tilt > 0 then TILT_UP else TILT_DOWN)
         else if \<bar>tilt\<bar> \<ge> THRESHOLD_FACE_DOWN \<and> \<bar>tilt\<bar> \<le> TILT_MAX
         then (if tilt > 0 then FACE_UP else FACE_DOWN)
         else TILT_UNDEFINED)"

definition orientation_calc ::
  "libm \<Rightarrow> OrientationUp \<Rightarrow> int \<Rightarrow> int \<Rightarrow> int \<Rightarrow> AccelScale \<Rightarrow> OrientationUp" where
  "orientation_calc m prev in_x in_y in_z scale =
     (let x = SCALE in_x (scale_x scale); y = SCALE in_y (scale_y scale);
          z = SCALE in_z (scale_z scale);
          portrait_rotation = angle_deg m x y z;
          landscape_rotation = angle_deg m y x z
      in if \<bar>portrait_rotation\<bar> > THRESHOLD_PORTRAIT \<and> \<bar>landscape_rotation\<bar> > THRESHOLD_LANDSCAPE
         then prev
         else if \<bar>portrait_rotation\<bar> > THRESHOLD_PORTRAIT then
           (let ret = (if portrait_rotation > 0 then ORIENTATION_LEFT_UP else ORIENTATION_RIGHT_UP)
            in if (prev = ORIENTATION_LEFT_UP \<or> prev = ORIENTATION_RIGHT_UP)
                  \<and> \<bar>portrait_rotation\<bar> < SAME_AXIS_LIMIT then prev else ret)
         else if \<bar>landscape_rotation\<bar> > THRESHOLD_LANDSCAPE then
           (let ret = (if landscape_rotation > 0 then ORIENTATION_BOTTOM_UP else ORIENTATION_NORMAL)
            in if (prev = ORIENTATION_BOTTOM_UP \<or> prev = ORIENTATION_NORMAL)
                  \<and> \<bar>landscape_rotation\<bar> < SAME_AXIS_LIMIT then prev else ret)
         else prev)"

section \<open>What the C standard says of atan2\<close>

definition M_PI_2 :: f64 where "M_PI_2 = M_PI div flit 2"

text \<open>On the axes: a zero ordinate with positive abscissa, and a zero abscissa.\<close>

definition atan2_axes :: "libm \<Rightarrow> bool" where
  "atan2_axes m \<longleftrightarrow>
     (\<forall>x. ffinite x \<and> 0 < fval x \<longrightarrow> lm_atan2 m (Num 0) x = Num 0) \<and>
     (\<forall>y. ffinite y \<and> 0 < fval y \<longrightarrow> lm_atan2 m y (Num 0) = M_PI_2) \<and>
     (\<forall>y. ffinite y \<and> fval y < 0 \<longrightarrow> lm_atan2 m y (Num 0) = - M_PI_2)"

text \<open>For a non-negative abscissa the angle is within a right angle, with the sign of the ordinate.\<close>

definition atan2_range :: "libm \<Rightarrow> bool" where
  "atan2_range m \<longleftrightarrow> (\<forall>y x. ffinite y \<and> ffinite x \<and> 0 \<le> fval x \<longrightarrow>
     ffinite (lm_atan2 m y x) \<and> \<bar>fval (lm_atan2 m y x)\<bar> \<le> fval M_PI_2)"

section \<open>Facts\<close>

lemma first_named_mem: "first_named xs s = Some v \<Longrightarrow> (v, s) \<in> set xs"
  by (induction xs s rule: first_named.induct) (auto split: if_splits)

lemma orientation_names:
  "orientation_to_string ORIENTATION_UNDEFINED = ''undefined''"
  "orientation_to_string ORIENTATION_NORMAL = ''normal''"
  "orientation_to_string ORIENTATION_BOTTOM_UP = ''bottom-up''"
  "orientation_to_string ORIENTATION_LEFT_UP = ''left-up''"
  "orientation_to_string ORIENTATION_RIGHT_UP = ''right-up''"
  by (simp_all add: orientation_to_string_def orientations_def)

lemma tilt_names:
  "tilt_to_string TILT_UNDEFINED = ''undefined''" "tilt_to_string TILT_VERTICAL = ''vertical''"
  "tilt_to_string TILT_UP = ''tilted-up''" "tilt_to_string TILT_DOWN = ''tilted-down''"
  "tilt_to_string FACE_UP = ''face-up''" "tilt_to_string FACE_DOWN = ''face-down''"
  by (simp_all add: tilt_to_string_def tilts_def)

text \<open>The texts sent over D-Bus identify the orientation and the tilt: reading a text back
  gives the value it was printed from.\<close>

theorem orientation_text_roundtrip:
  "string_to_orientation (Some (orientation_to_string o')) = o'
   \<and> string_to_tilt (Some (tilt_to_string t)) = t"
  by (cases o'; cases t)
    (simp_all add: orientation_names tilt_names string_to_orientation_def string_to_tilt_def
      orientations_def tilts_def)

text \<open>What \<open>orientation_calc\<close> computes: with the two rotations, the previous value on the common
  border, the sign of the portrait rotation when only that one is large, the sign of the landscape
  rotation when only that one is, and the previous value near the horizontal. The same-axis
  hysteresis of the source never takes effect, since it asks for a rotation below 5 degrees where
  the rotation is above 35.\<close>

theorem orientation_calc_spec:
  "orientation_calc m prev in_x in_y in_z scale =
     (let x = SCALE in_x (scale_x scale); y = SCALE in_y (scale_y scale);
          z = SCALE in_z (scale_z scale); p = angle_deg m x y z; l = angle_deg m y x z
      in if (\<bar>p\<bar> > 35) = (\<bar>l\<bar> > 35) then prev
         else if p > 35 then ORIENTATION_LEFT_UP else if p < - 35 then ORIENTATION_RIGHT_UP
         else if l > 35 then ORIENTATION_BOTTOM_UP else ORIENTATION_NORMAL)"
  by (auto simp: orientation_calc_def Let_def THRESHOLD_PORTRAIT_def THRESHOLD_LANDSCAPE_def
      SAME_AXIS_LIMIT_def)

subsection \<open>The tilt is always defined\<close>

lemma M_PI_value: "M_PI = Num (884279719003555 / 281474976710656)"
  by code_simp

lemma M_PI_2_value: "M_PI_2 = Num (884279719003555 / 562949953421312)"
  by code_simp

lemma flit_180: "(flit 180 :: f64) = Num 180"
  by code_simp

lemma right_angle_deg:
  "rnd 53 (- 1074) (rnd 53 (- 1074) (884279719003555 / 562949953421312 * 180)
     / (884279719003555 / 281474976710656)) = 90"
  by code_simp

lemma degrees_bound:
  fixes t :: f64
  assumes "ffinite t" "\<bar>fval t\<bar> \<le> fval M_PI_2"
  shows "\<bar>f2i (fround_away (t * flit 180 div M_PI))\<bar> \<le> 90"
proof -
  let ?T = "TYPE(f64)"
  have t: "\<bar>fval t * 180\<bar> \<le> 884279719003555 / 562949953421312 * 180"
    using assms(2) by (simp add: M_PI_2_value abs_mult)
  then have small: "\<bar>fval t * fval (Num 180 :: f64)\<bar> \<le> fp_max ?T"
    by (simp add: fp_format_f64)
  note mul = fp_mult_finite [OF assms(1) _ small]
  let ?u = "t * (Num 180 :: f64)"
  have u: "ffinite ?u" "\<bar>fval ?u\<bar> \<le> rnd_of ?T (884279719003555 / 562949953421312 * 180)"
    using mul rnd_abs_mono [OF t, of ?T] by simp_all
  then have "\<bar>fval ?u / (884279719003555 / 281474976710656)\<bar>
      \<le> rnd_of ?T (884279719003555 / 562949953421312 * 180) / (884279719003555 / 281474976710656)"
    by (simp add: abs_divide divide_right_mono)
  from rnd_abs_mono [OF this, of ?T]
  have q90: "\<bar>rnd_of ?T (fval ?u / (884279719003555 / 281474976710656))\<bar> \<le> 90"
    using right_angle_deg by (simp add: fp_format_f64)
  have "\<bar>fval ?u\<bar> \<le> 283"
    using u(2) rnd_le_repr [of "884279719003555 / 562949953421312 * 180" 283 ?T]
      fp_repr_int [of 283 53 "- 1074"] by (simp add: fp_format_f64)
  then have "\<bar>fval ?u / (884279719003555 / 281474976710656)\<bar> \<le> fp_max ?T"
    by (simp add: abs_divide fp_format_f64 field_simps)
  then have d: "ffinite (?u div M_PI)"
      "fval (?u div M_PI) = rnd_of ?T (fval ?u / (884279719003555 / 281474976710656))"
    using fp_div_finite [of ?u M_PI] u(1) by (simp_all add: M_PI_value)
  have "\<bar>rha (fval (?u div M_PI))\<bar> \<le> 90"
    by (rule rha_bound) (use d q90 in simp)
  then show ?thesis
    using fround_away_finite [OF d(1)] by (simp add: flit_180 f2i_of_int [of "rha (fval (?u div M_PI))"] abs_le_iff)
qed

lemma fsqrt_c_int:
  assumes "0 \<le> n" "n < 2 ^ 31"
  shows "ffinite (fsqrt (fint (c_int n) :: f64)) \<and> 0 \<le> fval (fsqrt (fint (c_int n) :: f64))"
proof -
  have "fint (c_int n) = (Num (of_int n) :: f64)" using assms by (simp add: c_int_id fint_exact)
  then show ?thesis using fsqrt_finite [of "Num (of_int n) :: f64"] assms(1) by simp
qed

lemma angle_deg_bound:
  assumes "atan2_range m" "\<bar>a\<bar> \<le> 32767" "\<bar>b\<bar> \<le> 32767" "\<bar>c\<bar> \<le> 32767"
  shows "\<bar>angle_deg m a b c\<bar> \<le> 90"
proof -
  have sq: "x * x \<le> 32767 * 32767" if "\<bar>x\<bar> \<le> 32767" for x :: int
    using abs_le_square_iff [of x 32767] that by (simp add: power2_eq_square)
  have bc: "0 \<le> b * b + c * c" "b * b + c * c < 2 ^ 31"
    using sq [OF assms(3)] sq [OF assms(4)] by auto
  have a: "ffinite (fint a :: f64)"
    using fint_exact [of a] assms(2) by simp
  show ?thesis unfolding angle_deg_def
    by (rule degrees_bound) (use assms(1) a fsqrt_c_int [OF bc] in \<open>auto simp: atan2_range_def\<close>)
qed

text \<open>A reading of at most 127 times gravity on each axis has a defined tilt: the angle from the
  horizontal is within 90 degrees, whatever the rounding of the arc tangent.\<close>

theorem tilt_calc_defined:
  assumes "atan2_range m" "\<bar>SCALE in_x (scale_x scale)\<bar> \<le> 32767"
    "\<bar>SCALE in_y (scale_y scale)\<bar> \<le> 32767" "\<bar>SCALE in_z (scale_z scale)\<bar> \<le> 32767"
  shows "tilt_calc m prev in_x in_y in_z scale \<noteq> TILT_UNDEFINED"
  using angle_deg_bound [OF assms(1,4,2,3)]
  by (auto simp: tilt_calc_def Let_def THRESHOLD_TILT_def THRESHOLD_FACE_DOWN_def TILT_MAX_def)

text \<open>An arc tangent rounded to a multiple of a right angle: the laws above can hold.\<close>

definition quadrant_libm :: libm where
  "quadrant_libm = \<lparr>lm_atan2 = (\<lambda>y x. if \<bar>fval y\<bar> \<le> \<bar>fval x\<bar> then Num 0 else if 0 < fval y then M_PI_2 else - M_PI_2),
     lm_atan2f = (\<lambda>y x. Num 0)\<rparr>"

lemma quadrant_libm_laws: "atan2_axes quadrant_libm" "atan2_range quadrant_libm"
  by (auto simp: atan2_axes_def atan2_range_def quadrant_libm_def M_PI_2_value)

lemma SCALE_samples:
  "SCALE 100 (flit 1) = 2609" "SCALE 0 (flit 1) = 0"
  by code_simp+

theorem tilt_calc_defined_witness:
  "tilt_calc quadrant_libm TILT_UNDEFINED 0 0 100 \<lparr>scale_x = flit 1, scale_y = flit 1, scale_z = flit 1\<rparr>
     \<noteq> TILT_UNDEFINED"
  using tilt_calc_defined [OF quadrant_libm_laws(2), of 0
      "\<lparr>scale_x = flit 1, scale_y = flit 1, scale_z = flit 1\<rparr>" 0 100 TILT_UNDEFINED]
  by (simp add: SCALE_samples)

end
