(* ===== verification/Drivers.thy ===== *)
theory Drivers
  imports Orientation GStrings
begin

text \<open>
  The driver interface of \<^verbatim>\<open>drivers.h\<close> and \<^verbatim>\<open>drivers.c\<close>, and the udev attributes of an accelerometer
  (\<^verbatim>\<open>accel-attributes.c\<close>). A udev device is its path, its properties and its sysfs attributes;
  \<open>strtod\<close> is GLib's \<^verbatim>\<open>g_ascii_strtod\<close>. A driver is a record of operations on its private state
  \<open>'d\<close> and the world \<open>'w\<close>; the readings it passes to the callback are returned in order.
\<close>

record GUdevDevice =
  sysfs_path :: "string option"
  dev_name :: string
  dev_file :: "string option"
  dev_subsystem :: string
  property :: "string \<Rightarrow> string option"
  sysfs_attr :: "string \<Rightarrow> string option"

section \<open>accel-attributes.c\<close>

datatype AccelLocation = ACCEL_LOCATION_DISPLAY | ACCEL_LOCATION_BASE

text \<open>\<open>None\<close>: the function returns FALSE and leaves \<^verbatim>\<open>*value\<close> alone.\<close>

definition parse_accel_label :: "string option \<Rightarrow> AccelLocation option" where
  "parse_accel_label location = (case location of None \<Rightarrow> None
     | Some l \<Rightarrow> if l = [] then None
         else if l = ''accel-base'' then Some ACCEL_LOCATION_BASE
         else if l = ''accel-display'' then Some ACCEL_LOCATION_DISPLAY else None)"

definition parse_accel_location :: "string option \<Rightarrow> AccelLocation option" where
  "parse_accel_location location = (case location of None \<Rightarrow> Some ACCEL_LOCATION_DISPLAY
     | Some l \<Rightarrow> if l = [] \<or> l = ''display'' \<or> l = ''lid'' then Some ACCEL_LOCATION_DISPLAY
         else if l = ''base'' then Some ACCEL_LOCATION_BASE else None)"

definition setup_accel_location :: "GUdevDevice \<Rightarrow> AccelLocation" where
  "setup_accel_location device =
     (let parsed = (\<lambda>parse location. case location of None \<Rightarrow> None | Some l \<Rightarrow> parse (Some l))
      in case parsed parse_accel_location (property device ''ACCEL_LOCATION'') of Some ret \<Rightarrow> ret
         | None \<Rightarrow> (case parsed parse_accel_label (sysfs_attr device ''label'') of Some ret \<Rightarrow> ret
         | None \<Rightarrow> (case parsed parse_accel_location (sysfs_attr device ''location'') of Some ret \<Rightarrow> ret
         | None \<Rightarrow> ACCEL_LOCATION_DISPLAY)))"

definition accel_location_to_string :: "AccelLocation \<Rightarrow> string" where
  "accel_location_to_string location =
     (case location of ACCEL_LOCATION_DISPLAY \<Rightarrow> ''display'' | ACCEL_LOCATION_BASE \<Rightarrow> ''base'')"

definition attr_as_double :: "(string \<Rightarrow> f64) \<Rightarrow> GUdevDevice \<Rightarrow> string \<Rightarrow> f64" where
  "attr_as_double strtod device name =
     (case sysfs_attr device name of None \<Rightarrow> 0 | Some s \<Rightarrow> strtod s)"

definition get_accel_scale :: "(string \<Rightarrow> f64) \<Rightarrow> GUdevDevice \<Rightarrow> AccelScale \<Rightarrow> AccelScale" where
  "get_accel_scale strtod device scale_vec =
     (let attr = attr_as_double strtod device;
          sx = attr ''in_accel_x_scale'';
          (scale_vec, complete) =
            (if \<not> feq sx 0 then
               (let v = \<lparr>scale_x = sx, scale_y = attr ''in_accel_y_scale'', scale_z = attr ''in_accel_z_scale''\<rparr>
                in (v, \<not> feq (scale_y v) 0 \<and> \<not> feq (scale_z v) 0))
             else (scale_vec, False))
      in if complete then scale_vec
         else if \<not> feq (attr ''in_accel_scale'') 0 then set_accel_scale scale_vec (attr ''in_accel_scale'')
         else if \<not> feq (attr ''scale'') 0 then set_accel_scale scale_vec (attr ''scale'')
         else reset_accel_scale scale_vec)"

section \<open>drivers.h\<close>

datatype DriverType = DRIVER_TYPE_ACCEL | DRIVER_TYPE_LIGHT | DRIVER_TYPE_COMPASS | DRIVER_TYPE_PROXIMITY

datatype ProximityNear = PROXIMITY_NEAR_ERROR | PROXIMITY_NEAR_FALSE | PROXIMITY_NEAR_TRUE

record AccelReadings =
  accel_x :: int
  accel_y :: int
  accel_z :: int
  accel_scale :: AccelScale

record LightReadings =
  level :: f64
  uses_lux :: bool

datatype readings =
  AccelR AccelReadings | LightR LightReadings | CompassR f64 | ProximityR ProximityNear

text \<open>\<open>set_polling\<close> may be a NULL pointer.\<close>

record ('d, 'w) SensorDriver =
  driver_name :: string
  drv_type :: DriverType
  drv_discover :: "GUdevDevice \<Rightarrow> 'w \<Rightarrow> bool \<times> 'w"
  drv_open :: "GUdevDevice \<Rightarrow> 'w \<Rightarrow> 'd option \<times> 'w"
  drv_set_polling :: "('d \<Rightarrow> bool \<Rightarrow> 'w \<Rightarrow> 'd \<times> readings list \<times> 'w) option"
  drv_close :: "'d \<Rightarrow> 'w \<Rightarrow> 'w"

record ('d, 'w) SensorDevice =
  sd_drv :: "('d, 'w) SensorDriver"
  sd_priv :: 'd

definition driver_discover :: "('d, 'w) SensorDriver \<Rightarrow> GUdevDevice \<Rightarrow> 'w \<Rightarrow> bool \<times> 'w" where
  "driver_discover driver device w =
     (let (found, w) = drv_discover driver device w
      in if \<not> found then (False, w)
         else if drv_type driver \<noteq> DRIVER_TYPE_ACCEL then (True, w)
         else (setup_accel_location device = ACCEL_LOCATION_DISPLAY, w))"

definition driver_open ::
  "('d, 'w) SensorDriver \<Rightarrow> GUdevDevice \<Rightarrow> 'w \<Rightarrow> ('d, 'w) SensorDevice option \<times> 'w" where
  "driver_open driver device w =
     (case drv_open driver device w of
        (None, w) \<Rightarrow> (None, w)
      | (Some d, w) \<Rightarrow> (Some \<lparr>sd_drv = driver, sd_priv = d\<rparr>, w))"

definition driver_set_polling ::
  "('d, 'w) SensorDevice \<Rightarrow> bool \<Rightarrow> 'w \<Rightarrow> ('d, 'w) SensorDevice \<times> readings list \<times> 'w" where
  "driver_set_polling sd state w =
     (case drv_set_polling (sd_drv sd) of None \<Rightarrow> (sd, [], w)
      | Some f \<Rightarrow> (let (d, rs, w) = f (sd_priv sd) state w in (sd\<lparr>sd_priv := d\<rparr>, rs, w)))"

definition driver_close :: "('d, 'w) SensorDevice \<Rightarrow> 'w \<Rightarrow> readings list \<times> 'w" where
  "driver_close sd w =
     (let (sd, rs, w) = driver_set_polling sd False w in (rs, drv_close (sd_drv sd) (sd_priv sd) w))"

section \<open>drivers.c\<close>

definition drv_check_udev_sensor_type :: "GUdevDevice \<Rightarrow> string \<Rightarrow> bool" where
  "drv_check_udev_sensor_type device match = (case property device ''IIO_SENSOR_PROXY_TYPE'' of
     None \<Rightarrow> False | Some attr \<Rightarrow> match \<in> set (g_strsplit attr '' '' 0))"

section \<open>Facts\<close>

lemma parse_location_text:
  "parse_accel_location (Some (accel_location_to_string l)) = Some l"
  by (cases l) (simp_all add: parse_accel_location_def accel_location_to_string_def)

lemma driver_discover_base:
  assumes "drv_type driver = DRIVER_TYPE_ACCEL" "setup_accel_location device = ACCEL_LOCATION_BASE"
  shows "\<not> fst (driver_discover driver device w)"
  using assms by (simp add: driver_discover_def split: prod.splits)

text \<open>The order of the location attributes: a readable udev property decides, then the label, then
  the sysfs location, and a device that says nothing is in the display. An accelerometer in the
  base is never taken by a driver; any other sensor is taken wherever it is.\<close>

theorem driver_discover_location:
  "fst (driver_discover driver device w) \<longleftrightarrow>
     fst (drv_discover driver device w) \<and>
     (if drv_type driver = DRIVER_TYPE_ACCEL
      then \<not> (property device ''ACCEL_LOCATION'' = Some ''base'' \<or>
         property device ''ACCEL_LOCATION'' \<notin> Some ` {[], ''display'', ''lid'', ''base''} \<and>
         (sysfs_attr device ''label'' = Some ''accel-base'' \<or>
          sysfs_attr device ''label'' \<noteq> Some ''accel-display'' \<and>
          sysfs_attr device ''location'' = Some ''base''))
      else True)"
  by (auto simp: driver_discover_def setup_accel_location_def parse_accel_location_def
      parse_accel_label_def split: prod.splits option.splits if_splits)

end
