(* ===== verification/Mxc6655.thy ===== *)
theory Mxc6655
  imports Mxc_Hw Drivers
begin

text \<open>
  The driver proper of \<^verbatim>\<open>drv-mxc6655-accel.c\<close> (lines 1065 to 1602): the hinge angle, the synthetic
  readings that carry an orientation to the proxy, the debounced tablet mode and orientation state
  machines, the poll tick with its I2C recovery, opening and closing, the lid switch and the poll
  timer. Operations return the new driver state, the readings passed to the callback in order, and
  the world.
\<close>

definition GMTR_DEBOUNCE :: nat where "GMTR_DEBOUNCE = 5"
definition GMTR_POLL_MS :: nat where "GMTR_POLL_MS = 50"
definition GRAVITY_MIN :: f32 where "GRAVITY_MIN = flit (3 / 10)"
definition MAX_INPUT_DEV :: nat where "MAX_INPUT_DEV = 32"

section \<open>Hinge angle\<close>

definition magnitude :: "Vec3 \<Rightarrow> f32" where
  "magnitude v = fsqrt (vx v * vx v + vy v * vy v + vz v * vz v)"

definition normalize :: "Vec3 \<Rightarrow> Vec3" where
  "normalize v = (let mag = magnitude v in
     if flit (1 / 100000) < fabs mag then \<lparr>vx = vx v div mag, vy = vy v div mag, vz = vz v div mag\<rparr> else v)"

definition axis_degrees :: "libm \<Rightarrow> f32 \<Rightarrow> f32 \<Rightarrow> f32" where
  "axis_degrees m v z = (let ang = lm_atan2f m v z * (flit 180 div flit (314 / 100))
     in if ang < 0 then ang + flit 360 else ang)"

definition angle_difference :: "f32 \<Rightarrow> f32 \<Rightarrow> f32" where
  "angle_difference ang1 ang2 = (let diff = ang1 - ang2 in if ang1 < ang2 then diff + flit 360 else diff)"

definition compute_hinge_angle :: "libm \<Rightarrow> DrvData \<Rightarrow> Vec3 \<Rightarrow> Vec3 \<Rightarrow> f32 \<times> DrvData" where
  "compute_hinge_angle m d c1 c2 =
     (let a1 = normalize \<lparr>vx = vx c1, vy = - vy c1, vz = - vz c1\<rparr>;
          a2 = normalize c2;
          a1z = (if fabs (vz a1) < flit (1 / 100000) then prev_z1 d else vz a1);
          a2z = (if fabs (vz a2) < flit (1 / 100000) then prev_z2 d else vz a2);
          d = d\<lparr>prev_z1 := a1z, prev_z2 := a2z\<rparr>
      in (angle_difference (axis_degrees m (vx a1) a1z) (axis_degrees m (vx a2) a2z), d))"

section \<open>Synthetic readings\<close>

definition build_synthetic_readings :: "int \<Rightarrow> AccelReadings \<Rightarrow> AccelReadings" where
  "build_synthetic_readings o' r =
     (let r = r\<lparr>accel_scale := set_accel_scale (accel_scale r) (flit (981 / 100) div flit 256)\<rparr>
      in if o' = MXC_ORIENT_NORMAL then r\<lparr>accel_x := 0, accel_y := - 256, accel_z := 0\<rparr>
         else if o' = MXC_ORIENT_INVERTED then r\<lparr>accel_x := 0, accel_y := 256, accel_z := 0\<rparr>
         else if o' = MXC_ORIENT_LEFT then r\<lparr>accel_x := 256, accel_y := 0, accel_z := 0\<rparr>
         else if o' = MXC_ORIENT_RIGHT then r\<lparr>accel_x := - 256, accel_y := 0, accel_z := 0\<rparr>
         else r\<lparr>accel_x := 0, accel_y := - 256, accel_z := 0\<rparr>)"

text \<open>The struct on the callers' stack; \<open>build_synthetic_readings\<close> overwrites every field.\<close>

definition stack_readings :: AccelReadings where
  "stack_readings = \<lparr>accel_x = 0, accel_y = 0, accel_z = 0,
     accel_scale = \<lparr>scale_x = 0, scale_y = 0, scale_z = 0\<rparr>\<rparr>"

definition emit_orientation :: "int \<Rightarrow> readings list" where
  "emit_orientation o' = [AccelR (build_synthetic_readings o' stack_readings)]"

section \<open>State machines\<close>

definition recover_i2c :: "'w os \<Rightarrow> DrvData \<Rightarrow> 'w \<Rightarrow> DrvData \<times> 'w" where
  "recover_i2c os d w =
     (let (fd0, fd1) = i2c_fds d;
          (fd0, w) = (if 0 \<le> fd0 then (- 1, os_close os fd0 w) else (fd0, w));
          (fd1, w) = (if 0 \<le> fd1 then (- 1, os_close os fd1 w) else (fd1, w));
          w = try_unbind os w;
          (found, fds, w) = find_accels os (fd0, fd1) w
      in (d\<lparr>i2c_fds := (if found < 2 then (- 1, - 1) else fds)\<rparr>, w))"

definition update_orientation_debounce :: "DrvData \<Rightarrow> Vec3 \<Rightarrow> DrvData \<times> readings list" where
  "update_orientation_debounce d accel =
     (let (os', ost) = update_orientation (orient d) accel;
          d = d\<lparr>orient := os'\<rparr>;
          new_orient = classify_orientation accel
      in if ost \<le> 0 then (d, [])
         else if new_orient < 0 then (d, [])
         else
          (let new_orient = (if mode d \<noteq> 1 then MXC_ORIENT_RIGHT else new_orient);
               new_orient = compose_orientation new_orient (panel_deg d)
           in if new_orient \<noteq> pending_orient d
              then (d\<lparr>pending_orient := new_orient,
                      orient_debounce := (if new_orient \<noteq> cur_orient d then 1 else 0)\<rparr>, [])
              else if new_orient = cur_orient d then (d, [])
              else if GMTR_DEBOUNCE < orient_debounce d + 1
              then (d\<lparr>cur_orient := new_orient, orient_debounce := 0\<rparr>, emit_orientation new_orient)
              else (d\<lparr>orient_debounce := orient_debounce d + 1\<rparr>, [])))"

definition force_landscape :: "DrvData \<Rightarrow> DrvData \<times> readings list" where
  "force_landscape d =
     (let o' = compose_orientation MXC_ORIENT_RIGHT (panel_deg d)
      in (d\<lparr>cur_orient := o', pending_orient := o', orient_debounce := 0\<rparr>, emit_orientation o'))"

definition set_tablet_mode :: "'w os \<Rightarrow> int \<Rightarrow> DrvData \<Rightarrow> 'w \<Rightarrow> DrvData \<times> readings list \<times> 'w" where
  "set_tablet_mode os md d w =
     (let d = d\<lparr>mode := md\<rparr>;
          (ret, warned, w) = call_ltsm os md (ltsm_warned d) w;
          d = d\<lparr>ltsm_warned := warned\<rparr>;
          w = (if 0 \<le> uinput_fd d then emit_tablet_mode os (uinput_fd d) md w else w)
      in if md = 0 then (let (d, rs) = force_landscape d in (d, rs, w)) else (d, [], w))"

definition update_tablet_mode ::
  "'w os \<Rightarrow> f32 \<Rightarrow> DrvData \<Rightarrow> 'w \<Rightarrow> DrvData \<times> readings list \<times> 'w" where
  "update_tablet_mode os angle d w =
     (if tablet_thresh d < angle then
        (let d = d\<lparr>t_count := t_count d + 1, l_count := 0, n_count := 0\<rparr>
         in if mode d \<noteq> 1 \<and> GMTR_DEBOUNCE < t_count d then set_tablet_mode os 1 d w else (d, [], w))
      else if laptop_thresh d \<le> angle then
        (d\<lparr>n_count := n_count d + 1, t_count := 0, l_count := 0\<rparr>, [], w)
      else if min_angle d < angle then
        (let d = d\<lparr>l_count := l_count d + 1, t_count := 0, n_count := 0\<rparr>
         in if mode d \<noteq> 0 \<and> GMTR_DEBOUNCE < l_count d then set_tablet_mode os 0 d w else (d, [], w))
      else (d, [], w))"

definition xz_magnitude :: "Vec3 \<Rightarrow> f32" where
  "xz_magnitude v = fsqrt (vx v * vx v + vz v * vz v)"

text \<open>The part of \<^verbatim>\<open>poll_sensors\<close> after the two reads.\<close>

definition process_samples ::
  "'w os \<Rightarrow> libm \<Rightarrow> Vec3 \<Rightarrow> Vec3 \<Rightarrow> DrvData \<Rightarrow> 'w \<Rightarrow> DrvData \<times> readings list \<times> 'w" where
  "process_samples os m raw1 raw2 d w =
     (let a1 = calibrate raw1 (cal1 d);
          a2 = calibrate raw2 (cal2 d);
          (d, rs) = update_orientation_debounce d (a1\<lparr>vx := - vx a1\<rparr>)
      in if xz_magnitude a1 < GRAVITY_MIN \<and> xz_magnitude a2 < GRAVITY_MIN then (d, rs, w)
         else (let (angle, d) = compute_hinge_angle m d a1 a2;
                   (d, rs', w) = update_tablet_mode os angle d w
               in (d, rs @ rs', w)))"

definition poll_sensors :: "'w os \<Rightarrow> libm \<Rightarrow> DrvData \<Rightarrow> 'w \<Rightarrow> DrvData \<times> readings list \<times> 'w" where
  "poll_sensors os m d w =
     (case read_accel os (fst (i2c_fds d)) w of
        (None, w) \<Rightarrow> (let (d, w) = recover_i2c os d w in (d, [], w))
      | (Some raw1, w) \<Rightarrow>
          (case read_accel os (snd (i2c_fds d)) w of
             (None, w) \<Rightarrow> (let (d, w) = recover_i2c os d w in (d, [], w))
           | (Some raw2, w) \<Rightarrow> process_samples os m raw1 raw2 d w))"

section \<open>Polling\<close>

definition send_current_reading :: "DrvData \<Rightarrow> readings list" where
  "send_current_reading d =
     (let o' = cur_orient d;
          o' = (if o' < 0 then compose_orientation MXC_ORIENT_RIGHT (panel_deg d) else o')
      in emit_orientation o')"

definition polling_wanted :: "DrvData \<Rightarrow> bool" where
  "polling_wanted d \<longleftrightarrow> want_polling d \<and> \<not> lid_closed d"

definition start_poll_timer :: "'w os \<Rightarrow> DrvData \<Rightarrow> 'w \<Rightarrow> DrvData \<times> 'w" where
  "start_poll_timer os d w =
     (let (i, w) = os_timeout_add os GMTR_POLL_MS w in (d\<lparr>timeout_id := i\<rparr>, w))"

definition stop_poll_timer :: "'w os \<Rightarrow> DrvData \<Rightarrow> 'w \<Rightarrow> DrvData \<times> 'w" where
  "stop_poll_timer os d w = (d\<lparr>timeout_id := 0\<rparr>, os_source_remove os (timeout_id d) w)"

definition update_polling_timer :: "'w os \<Rightarrow> DrvData \<Rightarrow> 'w \<Rightarrow> DrvData \<times> 'w" where
  "update_polling_timer os d w =
     (let wanted = polling_wanted d
      in if wanted \<and> timeout_id d = 0 then start_poll_timer os d w
         else if \<not> wanted \<and> 0 < timeout_id d then stop_poll_timer os d w else (d, w))"

definition mxc6655_set_polling ::
  "'w os \<Rightarrow> DrvData \<Rightarrow> bool \<Rightarrow> 'w \<Rightarrow> DrvData \<times> readings list \<times> 'w" where
  "mxc6655_set_polling os d state w =
     (let rs = (if state then send_current_reading d else [])
      in if want_polling d = state then (d, rs, w)
         else (let (d, w) = update_polling_timer os (d\<lparr>want_polling := state\<rparr>) w in (d, rs, w)))"

section \<open>Lid switch\<close>

fun open_lid_loop :: "'w os \<Rightarrow> nat list \<Rightarrow> 'w \<Rightarrow> int \<times> 'w" where
  "open_lid_loop os [] w = (- 1, w)"
| "open_lid_loop os (i # is) w =
     (let (fd, w) = os_open os (''/dev/input/event'' @ show_nat i) [O_RDONLY, O_NONBLOCK, O_CLOEXEC] w in
      if fd < 0 then open_lid_loop os is w
      else (let ((r, name), w) = os_evio_name os fd 256 w in
            if 0 \<le> r \<and> name = ''Lid Switch'' then (fd, w)
            else open_lid_loop os is (os_close os fd w)))"

definition open_lid_switch :: "'w os \<Rightarrow> 'w \<Rightarrow> int \<times> 'w" where
  "open_lid_switch os w = open_lid_loop os [0..<MAX_INPUT_DEV] w"

definition read_lid_closed :: "'w os \<Rightarrow> int \<Rightarrow> 'w \<Rightarrow> bool \<times> 'w" where
  "read_lid_closed os fd w =
     (let ((r, bits), w) = os_evio_switches os fd w in (0 \<le> r \<and> bit bits SW_LID, w))"

definition set_lid_closed :: "'w os \<Rightarrow> bool \<Rightarrow> DrvData \<Rightarrow> 'w \<Rightarrow> DrvData \<times> 'w" where
  "set_lid_closed os shut d w =
     (if lid_closed d = shut then (d, w) else update_polling_timer os (d\<lparr>lid_closed := shut\<rparr>) w)"

text \<open>The loop ends with the first read that is not a whole event; \<open>None\<close> would be a loop without end.\<close>

partial_function (option) lid_event_loop :: "'w os \<Rightarrow> DrvData \<Rightarrow> 'w \<Rightarrow> (DrvData \<times> 'w) option" where
  "lid_event_loop os d w =
     (case os_read_event os (lid_fd d) w of
        (None, w) \<Rightarrow> Some (d, w)
      | (Some ev, w) \<Rightarrow>
          if ev_type ev \<noteq> EV_SW \<or> ev_code ev \<noteq> SW_LID then lid_event_loop os d w
          else (case set_lid_closed os (ev_value ev \<noteq> 0) d w of (d, w) \<Rightarrow> lid_event_loop os d w))"

text \<open>The boolean says whether the watch stays (\<^verbatim>\<open>G_SOURCE_CONTINUE\<close>).\<close>

definition lid_event_cb :: "'w os \<Rightarrow> bool \<Rightarrow> DrvData \<Rightarrow> 'w \<Rightarrow> (bool \<times> DrvData \<times> 'w) option" where
  "lid_event_cb os hup_or_err d w =
     (if hup_or_err then Some (False, d\<lparr>lid_watch_id := 0\<rparr>, w)
      else map_option (\<lambda>(d, w). (True, d, w)) (lid_event_loop os d w))"

definition setup_lid_watch :: "'w os \<Rightarrow> DrvData \<Rightarrow> 'w \<Rightarrow> DrvData \<times> 'w" where
  "setup_lid_watch os d w =
     (let (fd, w) = open_lid_switch os w; d = d\<lparr>lid_fd := fd\<rparr> in
      if fd < 0 then (d, w)
      else (let (shut, w) = read_lid_closed os fd w;
                (i, w) = os_io_add_watch os fd w
            in (d\<lparr>lid_closed := shut, lid_watch_id := i\<rparr>, w)))"

section \<open>Open and close\<close>

definition mxc6655_discover :: "GUdevDevice \<Rightarrow> bool" where
  "mxc6655_discover device =
     (case sysfs_path device of None \<Rightarrow> False | Some path \<Rightarrow> strstr_found path ACPI_MATCH_ID)"

text \<open>The zeroed struct with the fields the function sets at once.\<close>

definition drv_initial :: "int \<Rightarrow> DrvData" where
  "drv_initial pdeg = \<lparr>timeout_id = 0, want_polling = False, lid_closed = False, lid_fd = - 1,
     lid_watch_id = 0, i2c_fds = (- 1, - 1), uinput_fd = - 1, ltsm_warned = False,
     cal1 = [1, 0, 0, 0, 1, 0, 0, 0, 1], cal2 = [1, 0, 0, 0, - 1, 0, 0, 0, - 1],
     prev_z1 = flit 1, prev_z2 = flit 1, mode = - 1, t_count = 0, l_count = 0, n_count = 0,
     tablet_thresh = 0, laptop_thresh = 0, min_angle = 0, orient = orient_zero,
     cur_orient = - 1, orient_debounce = 0, pending_orient = - 1, panel_deg = pdeg\<rparr>"

text \<open>\<^verbatim>\<open>for (i = 0; i < found; i++) close (fds[i])\<close>\<close>

definition close_found :: "'w os \<Rightarrow> nat \<Rightarrow> int \<times> int \<Rightarrow> 'w \<Rightarrow> 'w" where
  "close_found os found fds w =
     (let w = (if 0 < found then os_close os (fst fds) w else w)
      in if 1 < found then os_close os (snd fds) w else w)"

text \<open>Lines 1348 to 1357: a second search after unbinding the kernel driver.\<close>

definition find_accels_retry :: "'w os \<Rightarrow> int \<times> int \<Rightarrow> 'w \<Rightarrow> nat \<times> (int \<times> int) \<times> 'w" where
  "find_accels_retry os fds w =
     (let (found, fds, w) = find_accels os fds w
      in if found < 2 then
           (let w = close_found os found fds w;
                fds = (if 0 < found then - 1 else fst fds, if 1 < found then - 1 else snd fds);
                w = try_unbind os w
            in find_accels os fds w)
         else (found, fds, w))"

definition mxc6655_open :: "'w os \<Rightarrow> GUdevDevice \<Rightarrow> 'w \<Rightarrow> DrvData option \<times> 'w" where
  "mxc6655_open os device w =
     (let (pdeg, w) = detect_panel_rotation os w;
          (loaded, d, w) = load_gmtr os (drv_initial pdeg) w;
          (found, fds, w) = find_accels_retry os (i2c_fds d) w
      in if found < 2 then (None, close_found os found fds w)
         else
          (let (ufd, w) = setup_uinput os w;
               (d, w) = setup_lid_watch os (d\<lparr>i2c_fds := fds, uinput_fd := ufd\<rparr>) w
           in (Some d, w)))"

definition mxc6655_close :: "'w os \<Rightarrow> DrvData \<Rightarrow> 'w \<Rightarrow> 'w" where
  "mxc6655_close os d w =
     (let w = (if 0 < lid_watch_id d then os_source_remove os (lid_watch_id d) w else w);
          w = (if 0 \<le> lid_fd d then os_close os (lid_fd d) w else w);
          w = (if 0 \<le> uinput_fd d
               then os_close os (uinput_fd d) (snd (os_uinput os (uinput_fd d) UI_DEV_DESTROY w)) else w);
          w = (if 0 \<le> fst (i2c_fds d) then os_close os (fst (i2c_fds d)) w else w)
      in if 0 \<le> snd (i2c_fds d) then os_close os (snd (i2c_fds d)) w else w)"

definition mxc6655_accel :: "'w os \<Rightarrow> (DrvData, 'w) SensorDriver" where
  "mxc6655_accel os = \<lparr>driver_name = ''MXC6655 dual accelerometer'', drv_type = DRIVER_TYPE_ACCEL,
     drv_discover = (\<lambda>dev w. (mxc6655_discover dev, w)), drv_open = mxc6655_open os,
     drv_set_polling = Some (mxc6655_set_polling os), drv_close = mxc6655_close os\<rparr>"

end
