(* ===== verification/Mxc6655_Facts.thy ===== *)
theory Mxc6655_Facts
  imports Mxc6655
begin

text \<open>
  What the MXC6655 driver guarantees: the synthetic readings mean what they should to the proxy, the
  panel compensation is a rotation, the tablet mode and the orientation follow only a run of more
  than five agreeing samples, the hinge angle is a full-circle angle, samples are exact, the poll
  timer runs exactly while it is wanted, and every descriptor that is opened is recorded or closed
  (with the one exception in the I2C recovery).
\<close>

section \<open>Synthetic readings\<close>

lemma synthetic_scale:
  "SCALE 256 (flit (981 / 100) div flit 256) = 256" "SCALE (- 256) (flit (981 / 100) div flit 256) = - 256"
  "SCALE 0 (flit (981 / 100) div flit 256) = 0" "\<not> feq (flit (981 / 100) div flit 256 :: f64) 0"
  by code_simp+

lemma axis_values:
  "(fint 256 :: f64) = Num 256" "(fint (- 256) :: f64) = Num (- 256)" "(fint 0 :: f64) = Num 0"
  "fsqrt (fint (c_int 65536) :: f64) = Num 256" "fsqrt (fint (c_int 0) :: f64) = Num 0"
  by code_simp+

lemma quarter_turn:
  "f2i (fround_away (M_PI_2 * flit 180 div M_PI)) = 90"
  "f2i (fround_away (- M_PI_2 * flit 180 div M_PI)) = - 90"
  "f2i (fround_away ((Num 0 :: f64) * flit 180 div M_PI)) = 0"
  by code_simp+

lemma axis_angles:
  assumes "atan2_axes m"
  shows "angle_deg m 256 0 0 = 90" "angle_deg m (- 256) 0 0 = - 90"
    "angle_deg m 0 256 0 = 0" "angle_deg m 0 (- 256) 0 = 0"
  using assms by (simp_all add: angle_deg_def axis_values quarter_turn atan2_axes_def)

definition mxc_orientation_up :: "int \<Rightarrow> OrientationUp" where
  "mxc_orientation_up o' = (if o' = MXC_ORIENT_INVERTED then ORIENTATION_BOTTOM_UP
     else if o' = MXC_ORIENT_LEFT then ORIENTATION_LEFT_UP
     else if o' = MXC_ORIENT_RIGHT then ORIENTATION_RIGHT_UP else ORIENTATION_NORMAL)"

lemma synthetic_orientation:
  assumes "atan2_axes m" and "r = build_synthetic_readings o' r0"
  shows "orientation_calc m prev (accel_x r) (accel_y r) (accel_z r) (accel_scale r) = mxc_orientation_up o'"
  using axis_angles [OF assms(1)]
  by (auto simp: assms(2) build_synthetic_readings_def set_accel_scale_def synthetic_scale Let_def
      mxc_orientation_up_def MXC_ORIENT_NORMAL_def MXC_ORIENT_LEFT_def MXC_ORIENT_INVERTED_def
      MXC_ORIENT_RIGHT_def orientation_calc_def THRESHOLD_PORTRAIT_def THRESHOLD_LANDSCAPE_def
      SAME_AXIS_LIMIT_def)

text \<open>C5: the synthetic readings carry the orientation: whatever the proxy's previous value and whatever
  was on the stack, \<open>orientation_calc\<close> on the readings built for an orientation gives that
  orientation (normal for a number that is none of the four).\<close>

theorem synthetic_readings_roundtrip:
  assumes "atan2_axes m"
  shows "orientation_calc m prev (accel_x (build_synthetic_readings o' r0))
      (accel_y (build_synthetic_readings o' r0)) (accel_z (build_synthetic_readings o' r0))
      (accel_scale (build_synthetic_readings o' r0)) = mxc_orientation_up o'"
  by (rule synthetic_orientation [OF assms refl])

theorem synthetic_readings_roundtrip_witness:
  "orientation_calc quadrant_libm ORIENTATION_NORMAL (- 256) 0 0
     (accel_scale (build_synthetic_readings 3 stack_readings)) = ORIENTATION_RIGHT_UP"
  using synthetic_readings_roundtrip [OF quadrant_libm_laws(1), of ORIENTATION_NORMAL 3 stack_readings]
  by (simp add: mxc_orientation_up_def MXC_ORIENT_NORMAL_def MXC_ORIENT_LEFT_def
      MXC_ORIENT_INVERTED_def MXC_ORIENT_RIGHT_def build_synthetic_readings_def stack_readings_def)

section \<open>Panel compensation\<close>

lemma compose_orientation_mod: "compose_orientation o' p = (o' * 90 - p) mod 360 div 90"
proof -
  let ?x = "o' * 90 - p"
  have "0 \<le> c_mod ?x 360 + 360" using c_mod_bounds(1) [of 360 ?x] by simp
  then have "c_mod (c_mod ?x 360 + 360) 360 = c_mod ?x 360 mod 360" by (simp add: c_mod_nonneg)
  then show ?thesis by (simp add: compose_orientation_def c_mod_cong c_div_nonneg)
qed

text \<open>Compensation is a rotation: for each of the four orientations and each rotation a panel can
  have, the result is one of the four orientations, turned back by the panel's rotation; turning it
  forward again gives the sensor's orientation. Two sensor orientations are never confused.\<close>

theorem compose_orientation_rotation:
  assumes "o' \<in> {0..3}"
  shows "compose_orientation o' (panel_orient_degrees p) \<in> {0..3} \<and>
    (90 * compose_orientation o' (panel_orient_degrees p) + panel_orient_degrees p) mod 360 = 90 * o' \<and>
    compose_orientation (compose_orientation o' (panel_orient_degrees p)) (- panel_orient_degrees p) = o'"
proof -
  have "panel_orient_degrees p \<in> {0, 90, 180, 270}" by (simp add: panel_orient_degrees_def)
  moreover have "o' \<in> {0, 1, 2, 3}" using assms by auto
  ultimately show ?thesis
    by (auto simp: compose_orientation_mod)
qed

theorem compose_orientation_rotation_witness:
  "compose_orientation 3 (panel_orient_degrees 3) \<in> {0..3} \<and>
   (90 * compose_orientation 3 (panel_orient_degrees 3) + 270) mod 360 = 270"
  using compose_orientation_rotation [of 3 3]
  by (simp add: panel_orient_degrees_def PANEL_ORIENT_LEFT_UP_def PANEL_ORIENT_BOTTOM_UP_def
      PANEL_ORIENT_RIGHT_UP_def)

section \<open>Tablet mode\<close>

datatype zone = Tablet | Neutral | Laptop | Ignored

definition angle_zone :: "DrvData \<Rightarrow> f32 \<Rightarrow> zone" where
  "angle_zone d a = (if tablet_thresh d < a then Tablet else if laptop_thresh d \<le> a then Neutral
     else if min_angle d < a then Laptop else Ignored)"

lemma angle_zone_frame [simp]:
  "angle_zone (d\<lparr>t_count := x\<rparr>) = angle_zone d" "angle_zone (d\<lparr>l_count := x\<rparr>) = angle_zone d"
  "angle_zone (d\<lparr>n_count := x\<rparr>) = angle_zone d" "angle_zone (d\<lparr>mode := i\<rparr>) = angle_zone d"
  "angle_zone (d\<lparr>ltsm_warned := b\<rparr>) = angle_zone d" "angle_zone (d\<lparr>cur_orient := i\<rparr>) = angle_zone d"
  "angle_zone (d\<lparr>pending_orient := i\<rparr>) = angle_zone d"
  "angle_zone (d\<lparr>orient_debounce := x\<rparr>) = angle_zone d"
  by (simp_all add: angle_zone_def fun_eq_iff)

text \<open>The number of latest samples that agree, samples below the minimum left out; histories have the
  latest sample first.\<close>

definition streak :: "zone \<Rightarrow> zone list \<Rightarrow> nat" where
  "streak z hist = length (takeWhile (\<lambda>y. y = z) (filter (\<lambda>y. y \<noteq> Ignored) hist))"

text \<open>The mode without counters: the latest moment at which six samples in a row agreed decides.\<close>

fun spec_mode :: "int \<Rightarrow> zone list \<Rightarrow> int" where
  "spec_mode m [] = m"
| "spec_mode m (z # hist) =
     (if z = Tablet \<and> 6 \<le> streak Tablet (z # hist) then 1
      else if z = Laptop \<and> 6 \<le> streak Laptop (z # hist) then 0 else spec_mode m hist)"

fun tablet_run :: "'w os \<Rightarrow> f32 list \<Rightarrow> DrvData \<Rightarrow> 'w \<Rightarrow> DrvData \<times> readings list \<times> 'w" where
  "tablet_run os [] d w = (d, [], w)"
| "tablet_run os (a # as) d w =
     (let (d, rs, w) = update_tablet_mode os a d w; (d, rs', w) = tablet_run os as d w in (d, rs @ rs', w))"

lemma streak_Cons:
  "streak z (y # hist) = (if y = Ignored then streak z hist else if y = z then Suc (streak z hist) else 0)"
  by (simp add: streak_def)

lemma set_tablet_mode_fields:
  assumes "set_tablet_mode os md d w = (d', rs, w')"
  shows "mode d' = md \<and> t_count d' = t_count d \<and> l_count d' = l_count d \<and> angle_zone d' = angle_zone d
    \<and> rs = (if md = 0 then emit_orientation (compose_orientation MXC_ORIENT_RIGHT (panel_deg d)) else [])"
  using assms
  by (auto simp: set_tablet_mode_def Let_def force_landscape_def
      split: prod.splits if_splits)

lemma zone_cases:
  "angle_zone d a = Tablet \<longleftrightarrow> tablet_thresh d < a"
  "angle_zone d a = Neutral \<longleftrightarrow> \<not> tablet_thresh d < a \<and> laptop_thresh d \<le> a"
  "angle_zone d a = Laptop \<longleftrightarrow> \<not> tablet_thresh d < a \<and> \<not> laptop_thresh d \<le> a \<and> min_angle d < a"
  "angle_zone d a = Ignored \<longleftrightarrow> \<not> tablet_thresh d < a \<and> \<not> laptop_thresh d \<le> a \<and> \<not> min_angle d < a"
  by (simp_all add: angle_zone_def)

lemma update_tablet_mode_cases:
  assumes "update_tablet_mode os a d w = (d', rs, w')"
  shows "angle_zone d' = angle_zone d"
    and "angle_zone d a = Tablet \<Longrightarrow> t_count d' = Suc (t_count d) \<and> l_count d' = 0 \<and>
      mode d' = (if 5 < Suc (t_count d) then 1 else mode d)"
    and "angle_zone d a = Laptop \<Longrightarrow> l_count d' = Suc (l_count d) \<and> t_count d' = 0 \<and>
      mode d' = (if 5 < Suc (l_count d) then 0 else mode d)"
    and "angle_zone d a = Neutral \<Longrightarrow> l_count d' = 0 \<and> t_count d' = 0 \<and> mode d' = mode d"
    and "angle_zone d a = Ignored \<Longrightarrow> d' = d"
  using assms
  by (auto simp: update_tablet_mode_def Let_def zone_cases GMTR_DEBOUNCE_def
      split: if_splits dest!: set_tablet_mode_fields)

lemma tablet_run_refines:
  assumes "t_count d = streak Tablet hist" "l_count d = streak Laptop hist" "mode d = spec_mode m hist"
    and "tablet_run os as d w = (d', rs, w')"
  shows "mode d' = spec_mode m (rev (map (angle_zone d) as) @ hist)"
  using assms
proof (induction as arbitrary: d w hist d' rs w')
  case (Cons a as)
  obtain d1 rs1 w1 where u: "update_tablet_mode os a d w = (d1, rs1, w1)" by (metis prod_cases3)
  obtain rs2 where r: "tablet_run os as d1 w1 = (d', rs2, w')"
    using Cons.prems(4) u by (auto split: prod.splits)
  note c = update_tablet_mode_cases [OF u]
  have "t_count d1 = streak Tablet (angle_zone d a # hist) \<and>
      l_count d1 = streak Laptop (angle_zone d a # hist) \<and>
      mode d1 = spec_mode m (angle_zone d a # hist)"
    using c(2-5) Cons.prems(1-3) by (cases "angle_zone d a") (auto simp: streak_Cons)
  then show ?case using Cons.IH [OF _ _ _ r] c(1) by simp
qed simp

text \<open>C3: the tablet mode follows its specification: from fresh counters, after any sequence of hinge
  angles, the mode is what the latest run of six agreeing samples says (tablet above one threshold,
  laptop between the minimum and the other), samples at or below the minimum angle and undefined
  angles counting for nothing, and the initial mode when there was no such run.\<close>

theorem tablet_mode_debounce:
  assumes "t_count d = 0" "l_count d = 0"
  shows "mode (fst (tablet_run os as d w)) = spec_mode (mode d) (rev (map (angle_zone d) as))"
  using tablet_run_refines [of d "[]" "mode d" os as w] assms
  by (cases "tablet_run os as d w") (simp add: streak_def)

definition sample_drv :: DrvData where
  "sample_drv = (drv_initial 0)\<lparr>tablet_thresh := Num 185, laptop_thresh := Num 175, min_angle := Num 30\<rparr>"

definition empty_world :: table_world where
  "empty_world = \<lparr>tw_open = [], tw_next = 3, tw_nodes = [], tw_i2c = [], tw_log = []\<rparr>"

theorem tablet_mode_debounce_witness:
  "mode (fst (tablet_run table_os (Num 200 # Num 10 # replicate 5 (Num 190)) sample_drv empty_world)) = 1"
  using tablet_mode_debounce [of sample_drv table_os "Num 200 # Num 10 # replicate 5 (Num 190)" empty_world]
  by (simp add: sample_drv_def drv_initial_def angle_zone_def streak_def numeral_eq_Suc)

section \<open>Hinge angle\<close>

text \<open>\<^verbatim>\<open>atan2f\<close> is undefined on undefined arguments and otherwise within half a turn.\<close>

definition M_PIf :: f32 where "M_PIf = flit (314159265358979323846 / 100000000000000000000)"

definition atan2f_range :: "libm \<Rightarrow> bool" where
  "atan2f_range m \<longleftrightarrow> (\<forall>y x. lm_atan2f m y x = FNaN \<or>
     ffinite (lm_atan2f m y x) \<and> \<bar>fval (lm_atan2f m y x)\<bar> \<le> fval M_PIf)"

lemma hinge_constants:
  "M_PIf = Num (13176795 / 4194304)" "(flit 180 div flit (314 / 100) :: f32) = Num (15027363 / 262144)"
  "(flit 360 :: f32) = Num 360"
  by code_simp+

text \<open>A rounded result stays between integers that bound the exact one.\<close>

lemma f32_round_between:
  assumes "of_int lo \<le> x" "x \<le> of_int hi" "\<bar>lo\<bar> \<le> 2 ^ 24" "\<bar>hi\<bar> \<le> 2 ^ 24"
  shows "\<bar>x\<bar> \<le> fp_max TYPE(f32)" "of_int lo \<le> rnd_of TYPE(f32) x" "rnd_of TYPE(f32) x \<le> of_int hi"
proof -
  have r: "repr_of TYPE(f32) (of_int lo)" "repr_of TYPE(f32) (of_int hi)"
    using assms(3,4) by (simp_all add: fp_format_f32 fp_repr_int)
  have "(of_int \<bar>lo\<bar> :: rat) \<le> of_int (2 ^ 24)" "(of_int \<bar>hi\<bar> :: rat) \<le> of_int (2 ^ 24)"
    using assms(3,4) by (simp_all only: of_int_le_iff)
  then have "\<bar>x\<bar> \<le> 16777216" using assms(1,2) by (simp add: abs_le_iff)
  then show "\<bar>x\<bar> \<le> fp_max TYPE(f32)" by (simp add: fp_format_f32)
  show "of_int lo \<le> rnd_of TYPE(f32) x" "rnd_of TYPE(f32) x \<le> of_int hi"
    using rnd_ge_repr [OF assms(1) r(1)] rnd_le_repr [OF assms(2) r(2)] by simp_all
qed

lemma f32_add_between:
  fixes x y :: f32
  assumes "ffinite x" "ffinite y" "of_int lo \<le> fval x + fval y" "fval x + fval y \<le> of_int hi"
    and "\<bar>lo\<bar> \<le> 2 ^ 24" "\<bar>hi\<bar> \<le> 2 ^ 24"
  shows "ffinite (x + y)" "of_int lo \<le> fval (x + y)" "fval (x + y) \<le> of_int hi"
  using f32_round_between [OF assms(3-6)] fp_add_finite [OF assms(1,2)] by auto

lemma f32_sub_between:
  fixes x y :: f32
  assumes "ffinite x" "ffinite y" "of_int lo \<le> fval x - fval y" "fval x - fval y \<le> of_int hi"
    and "\<bar>lo\<bar> \<le> 2 ^ 24" "\<bar>hi\<bar> \<le> 2 ^ 24"
  shows "ffinite (x - y)" "of_int lo \<le> fval (x - y)" "fval (x - y) \<le> of_int hi"
  using f32_add_between [of x "- y" lo hi] assms by (simp_all add: minus_fp_def)

lemma f32_nan [simp]: "FNaN + x = (FNaN :: f32)" "x + FNaN = (FNaN :: f32)" "FNaN - x = (FNaN :: f32)"
  "x - FNaN = (FNaN :: f32)" "FNaN * x = (FNaN :: f32)" "\<not> (FNaN :: f32) < x" "\<not> x < (FNaN :: f32)"
  by (cases x; simp add: minus_fp_def times_fp_def less_fp_def)+

lemma axis_degrees_range:
  assumes "atan2f_range m"
  shows "axis_degrees m v z = FNaN \<or>
    ffinite (axis_degrees m v z) \<and> 0 \<le> fval (axis_degrees m v z) \<and> fval (axis_degrees m v z) \<le> 360"
proof (cases "lm_atan2f m v z = FNaN")
  case True
  then show ?thesis by (simp add: axis_degrees_def Let_def)
next
  case False
  let ?t = "lm_atan2f m v z" and ?k = "Num (15027363 / 262144) :: f32"
  have t: "ffinite ?t" "\<bar>fval ?t\<bar> \<le> 13176795 / 4194304"
    using assms False by (auto simp: atan2f_range_def hinge_constants)
  have b: "of_int (- 181) \<le> fval ?t * fval ?k" "fval ?t * fval ?k \<le> of_int 181"
    using t(2) by (simp_all add: abs_le_iff)
  note r = f32_round_between [OF b]
  have a: "ffinite (?t * ?k)" "- 181 \<le> fval (?t * ?k)" "fval (?t * ?k) \<le> 181"
    using fp_mult_finite [OF t(1), of ?k] r by simp_all
  have "ffinite (?t * ?k + Num 360) \<and> 0 \<le> fval (?t * ?k + Num 360) \<and> fval (?t * ?k + Num 360) \<le> 360"
    if "fval (?t * ?k) < 0"
    using f32_add_between [of "?t * ?k" "Num 360" 0 360] a that by simp
  then show ?thesis unfolding axis_degrees_def Let_def hinge_constants using a by simp
qed

text \<open>C8: the hinge angle is an angle: whatever the two samples and the remembered Z values, it is
  undefined (which the mode logic ignores) or between 0 and 360 degrees.\<close>

theorem hinge_angle_range:
  assumes "atan2f_range m"
  shows "fst (compute_hinge_angle m d c1 c2) = FNaN \<or>
    ffinite (fst (compute_hinge_angle m d c1 c2)) \<and>
    0 \<le> fval (fst (compute_hinge_angle m d c1 c2)) \<and> fval (fst (compute_hinge_angle m d c1 c2)) \<le> 360"
proof -
  have diff: "ffinite (angle_difference x y) \<and> 0 \<le> fval (angle_difference x y) \<and>
      fval (angle_difference x y) \<le> 360"
    if x: "ffinite x" "0 \<le> fval x" "fval x \<le> 360" and y: "ffinite y" "0 \<le> fval y" "fval y \<le> 360" for x y
  proof (cases "fval x < fval y")
    case True
    have s: "ffinite (x - y)" "- 360 \<le> fval (x - y)" "fval (x - y) \<le> 0"
      using f32_sub_between [of x y "- 360" 0] x y True by simp_all
    then show ?thesis
      using f32_add_between [of "x - y" "Num 360" 0 360] True x y
      by (simp add: angle_difference_def Let_def hinge_constants)
  next
    case False
    then show ?thesis
      using f32_sub_between [of x y 0 360] x y by (simp add: angle_difference_def Let_def)
  qed
  have nan: "angle_difference FNaN y = FNaN" "angle_difference x FNaN = FNaN" for x y
    by (simp_all add: angle_difference_def Let_def)
  show ?thesis
    using axis_degrees_range [OF assms] diff nan
    by (simp add: compute_hinge_angle_def Let_def) metis
qed

theorem hinge_angle_range_witness:
  "0 \<le> fval (fst (compute_hinge_angle quadrant_libm sample_drv
     \<lparr>vx = Num 0, vy = Num 0, vz = Num (- 1)\<rparr> \<lparr>vx = Num 0, vy = Num 0, vz = Num 1\<rparr>))"
proof -
  have "atan2f_range quadrant_libm"
    by (simp add: atan2f_range_def quadrant_libm_def hinge_constants)
  from hinge_angle_range [OF this, of sample_drv "\<lparr>vx = Num 0, vy = Num 0, vz = Num (- 1)\<rparr>"
      "\<lparr>vx = Num 0, vy = Num 0, vz = Num 1\<rparr>"]
  show ?thesis by auto
qed

section \<open>Samples\<close>

lemma sample_scale_exact: "sample_scale = Num (1 / 4096)"
  by code_simp

lemma fint_f32:
  assumes "\<bar>i\<bar> \<le> 2 ^ 24"
  shows "ffinite (fint i :: f32)" "fval (fint i :: f32) = of_int i"
proof -
  note r = f32_round_between [of i "of_int i" i, OF _ _ assms assms]
  show "ffinite (fint i :: f32)" "fval (fint i :: f32) = of_int i"
    using fround_finite [OF r(1)] r(2,3) by (simp_all add: fint_def)
qed

lemma accel_sample_bounds: "\<bar>accel_sample hi lo\<bar> \<le> 32768"
  using sint_ge [of "push_bit 8 (ucast hi) OR ucast lo :: 16 word"]
    sint_lt [of "push_bit 8 (ucast hi) OR ucast lo :: 16 word"]
  by (simp add: accel_sample_def)

lemma uint_be16: "uint (push_bit 8 (ucast hi) OR ucast lo :: 16 word) = 256 * uint (hi :: u8) + uint (lo :: u8)"
proof -
  have small: "uint x mod 65536 = uint x" for x :: u8 using uint_lt2p [of x] by simp
  have "uint (push_bit 8 (ucast hi) OR ucast lo :: 16 word)
      = take_bit 16 (push_bit 8 (uint hi)) OR uint lo"
    by (simp add: uint_or unsigned_push_bit_eq unsigned_ucast_eq take_bit_eq_mod small)
  also have "take_bit 16 (push_bit 8 (uint hi)) = push_bit 8 (uint hi)"
    using uint_lt2p [of hi] by (simp add: take_bit_int_eq_self push_bit_eq_mult)
  also have "push_bit 8 (uint hi) OR uint lo = push_bit 8 (uint hi) + uint lo"
    by (subst disjunctive_add) (auto simp: bit_simps dest: bit_imp_le_length)
  finally show ?thesis by (simp add: push_bit_eq_mult)
qed

lemma accel_sample_value:
  "accel_sample hi lo = (256 * uint hi + uint lo + 32768) mod 65536 - 32768"
  by (simp add: accel_sample_def sint_uint uint_be16 signed_take_bit_eq_take_bit_shift take_bit_eq_mod)

lemma sample_exact:
  "ffinite (fint (accel_sample hi lo) * sample_scale) \<and>
   fval (fint (accel_sample hi lo) * sample_scale) = of_int (accel_sample hi lo) / 4096"
proof -
  let ?i = "accel_sample hi lo"
  have i: "ffinite (fint ?i :: f32)" "fval (fint ?i :: f32) = of_int ?i"
    using fint_f32 [of ?i] accel_sample_bounds [of hi lo] by simp_all
  have "repr_of TYPE(f32) (of_int ?i / 4096)"
    unfolding fp_repr_def fp_format_f32
    by (rule exI [of _ ?i], rule exI [of _ "- 12"])
      (use accel_sample_bounds [of hi lo] in \<open>simp add: pow2_def\<close>)
  then have r: "rnd_of TYPE(f32) (of_int ?i / 4096) = of_int ?i / 4096"
    by (simp add: rnd_repr fp_format_f32)
  have "(of_int \<bar>?i\<bar> :: rat) \<le> of_int 32768" using accel_sample_bounds by (simp only: of_int_le_iff)
  then have "\<bar>of_int ?i / 4096\<bar> \<le> fp_max TYPE(f32)" by (simp add: fp_format_f32)
  then show ?thesis
    using fp_mult_finite [of "fint ?i" sample_scale] i r by (simp add: sample_scale_exact)
qed

text \<open>A sample is read exactly: when the bus transfer succeeds, each axis is the big-endian 16-bit
  two's complement number of its two bytes divided by 4096, with no rounding, so it is within 8 g;
  when it fails nothing is returned.\<close>

theorem read_accel_exact:
  assumes "os_i2c_rdwr os fd [\<lparr>addr = 0x15, rd = False, msg_len = 1, msg_buf = [3]\<rparr>,
      \<lparr>addr = 0x15, rd = True, msg_len = 6, msg_buf = []\<rparr>] w = ((r, [xh, xl, yh, yl, zh, zl]), w')"
  shows "read_accel os fd w = (if r < 0 then None else
      Some \<lparr>vx = fint (accel_sample xh xl) * sample_scale, vy = fint (accel_sample yh yl) * sample_scale,
        vz = fint (accel_sample zh zl) * sample_scale\<rparr>, w')
    \<and> fval (fint (accel_sample xh xl) * sample_scale) = of_int (accel_sample xh xl) / 4096
    \<and> fval (fint (accel_sample yh yl) * sample_scale) = of_int (accel_sample yh yl) / 4096
    \<and> fval (fint (accel_sample zh zl) * sample_scale) = of_int (accel_sample zh zl) / 4096
    \<and> accel_sample xh xl = (256 * uint xh + uint xl + 32768) mod 65536 - 32768"
  using assms sample_exact
  by (simp add: accel_sample_value [of xh xl, symmetric] read_accel_def i2c_xfer_def MXC6655_ADDR_def
      MXC6655_REG_XOUT_def)

definition bus_world :: table_world where
  "bus_world = \<lparr>tw_open = [(3, ''/dev/i2c-1'')], tw_next = 4,
     tw_nodes = [(''/dev/i2c-1'', [0xF0, 0, 0, 0x10, 0x10, 0])],
     tw_i2c = [(''i2c-1'', Some ''_SB.PC00.I2C1'')], tw_log = []\<rparr>"

theorem read_accel_exact_witness:
  "accel_sample 0xF0 0 = - 4096 \<and> fst (read_accel table_os 3 bus_world) \<noteq> None"
  using read_accel_exact [of table_os 3 bus_world 2 "0xF0" 0 0 "0x10" "0x10" 0 bus_world]
  by (simp add: table_os_def bus_world_def table_node_def)

section \<open>The poll timer\<close>

text \<open>The timer runs exactly while polling is wanted: a client asked and the lid is open.\<close>

definition timer_ok :: "DrvData \<Rightarrow> bool" where
  "timer_ok d \<longleftrightarrow> (0 < timeout_id d) = polling_wanted d"

lemma update_polling_timer_ok:
  assumes "source_ids os"
  shows "timer_ok (fst (update_polling_timer os d w))"
  using assms
  by (auto simp: update_polling_timer_def start_poll_timer_def stop_poll_timer_def timer_ok_def
      polling_wanted_def source_ids_def Let_def split: prod.splits) (metis fst_conv)+

lemma timer_ok_frame:
  "timeout_id d' = timeout_id d \<Longrightarrow> polling_wanted d' = polling_wanted d \<Longrightarrow> timer_ok d' = timer_ok d"
  by (simp add: timer_ok_def)

definition timer_fields :: "DrvData \<Rightarrow> nat \<times> bool \<times> bool" where
  "timer_fields d = (timeout_id d, want_polling d, lid_closed d)"

lemma timer_ok_fields: "timer_fields d' = timer_fields d \<Longrightarrow> timer_ok d' = timer_ok d"
  by (simp add: timer_fields_def timer_ok_def polling_wanted_def)

lemma poll_sensors_fields: "timer_fields (fst (poll_sensors os m d w)) = timer_fields d"
proof -
  have r: "timer_fields (fst (recover_i2c os d w)) = timer_fields d" for d w
    by (simp add: recover_i2c_def timer_fields_def Let_def split: prod.splits)
  have u: "timer_fields (fst (update_orientation_debounce d a)) = timer_fields d" for d a
    by (simp add: update_orientation_debounce_def timer_fields_def Let_def split: prod.splits)
  have t: "timer_fields (fst (set_tablet_mode os i d w)) = timer_fields d" for i d w
    by (simp add: set_tablet_mode_def timer_fields_def force_landscape_def Let_def split: prod.splits)
  have m: "timer_fields (fst (update_tablet_mode os a d w)) = timer_fields d" for a d w
    by (simp add: update_tablet_mode_def t Let_def) (simp add: timer_fields_def)
  have h: "timer_fields (snd (compute_hinge_angle m d a b)) = timer_fields d" for d a b
    by (simp add: compute_hinge_angle_def timer_fields_def Let_def)
  have p: "timer_fields (fst (process_samples os m a b d w)) = timer_fields d" for a b w
    using u [of d] h m by (simp add: process_samples_def Let_def split: prod.splits) (metis fst_conv snd_conv)
  show ?thesis
    using r p by (simp add: poll_sensors_def split: prod.splits option.splits) (metis fst_conv)
qed

lemma set_lid_closed_ok:
  assumes "source_ids os" "timer_ok d"
  shows "timer_ok (fst (set_lid_closed os b d w))"
  using assms(2) update_polling_timer_ok [OF assms(1)] by (simp add: set_lid_closed_def)

lemma mxc_polling_timer_ok:
  assumes "source_ids os" "timer_ok d"
  shows "timer_ok (fst (mxc6655_set_polling os d b w))"
  using assms update_polling_timer_ok [OF assms(1)]
  by (simp add: mxc6655_set_polling_def Let_def split: prod.splits) (metis fst_conv)

lemma lid_event_loop_ok:
  assumes "source_ids os" "lid_event_loop os d w = Some (d', w')" "timer_ok d"
  shows "timer_ok d'"
  using assms(2,1,3)
proof (induction os d w "(d', w')" arbitrary: d' w' rule: lid_event_loop.raw_induct [rotated, consumes 1])
  case (1 f os d w d' w')
  show ?case
  proof (cases "os_read_event os (lid_fd d) w")
    case (Pair e w1)
    show ?thesis
    proof (cases e)
      case None
      then show ?thesis using 1 Pair by simp
    next
      case (Some ev)
      obtain d2 w2 where s: "set_lid_closed os (ev_value ev \<noteq> 0) d w1 = (d2, w2)" by fastforce
      have "timer_ok d2" using set_lid_closed_ok [OF 1(3,4)] s by (metis fst_conv)
      then show ?thesis using 1 Pair Some s by (auto split: if_splits)
    qed
  qed
qed

lemma lid_event_cb_ok:
  assumes "source_ids os" "lid_event_cb os h d w = Some (c, d', w')" "timer_ok d"
  shows "timer_ok d'"
  using assms lid_event_loop_ok [OF assms(1)]
  by (auto simp: lid_event_cb_def split: if_splits intro: timer_ok_fields [THEN iffD2] simp: timer_fields_def)

lemma open_timer_ok:
  assumes "mxc6655_open os dev w = (Some d, w')"
  shows "timer_ok d"
proof -
  have l: "timer_fields (fst (snd (load_gmtr os d w))) = timer_fields d" for d w
    by (auto simp: load_gmtr_def apply_gmtr_values_def timer_fields_def Let_def
        split: prod.splits option.splits)
  have f: "timeout_id (fst (setup_lid_watch os d w)) = timeout_id d"
    "want_polling (fst (setup_lid_watch os d w)) = want_polling d" for d w
    by (auto simp: setup_lid_watch_def Let_def split: prod.splits)
  obtain pdeg w1 b d1 w2 where g: "load_gmtr os (drv_initial pdeg) w1 = (b, d1, w2)"
    and d: "\<exists>fds u w3. d = fst (setup_lid_watch os (d1\<lparr>i2c_fds := fds, uinput_fd := u\<rparr>) w3)"
    using assms by (auto simp: mxc6655_open_def Let_def split: prod.splits if_splits) (metis fst_conv)
  then have "timeout_id d = 0" "\<not> want_polling d"
    using f l [of "drv_initial pdeg" w1] g by (auto simp: timer_fields_def drv_initial_def)
  then show ?thesis by (simp add: timer_ok_def polling_wanted_def)
qed

text \<open>The life of an open device: the poll timer ticks while it is set, clients come and go, the lid
  moves, the lid switch may be lost.\<close>

inductive mxc_step :: "'w os \<Rightarrow> libm \<Rightarrow> DrvData \<times> 'w \<Rightarrow> readings list \<Rightarrow> DrvData \<times> 'w \<Rightarrow> bool"
  for os m where
  tick: "0 < timeout_id d \<Longrightarrow> poll_sensors os m d w = (d', rs, w') \<Longrightarrow> mxc_step os m (d, w) rs (d', w')"
| polling: "mxc6655_set_polling os d b w = (d', rs, w') \<Longrightarrow> mxc_step os m (d, w) rs (d', w')"
| lid: "0 < lid_watch_id d \<Longrightarrow> lid_event_cb os h d w = Some (c, d', w') \<Longrightarrow> mxc_step os m (d, w) [] (d', w')"

inductive mxc_reach :: "'w os \<Rightarrow> libm \<Rightarrow> GUdevDevice \<Rightarrow> DrvData \<times> 'w \<Rightarrow> bool" for os m dev where
  opened: "mxc6655_open os dev w = (Some d, w') \<Longrightarrow> mxc_reach os m dev (d, w')"
| step: "mxc_reach os m dev s \<Longrightarrow> mxc_step os m s rs s' \<Longrightarrow> mxc_reach os m dev s'"

inductive_cases mxc_stepE: "mxc_step os m s rs s'"

lemma mxc_step_ok:
  assumes "source_ids os" "mxc_step os m s rs s'" "timer_ok (fst s)"
  shows "timer_ok (fst s')"
  using assms(2)
proof (cases rule: mxc_step.cases)
  case (tick d w d' w')
  then show ?thesis using assms(3) timer_ok_fields [OF poll_sensors_fields [of os m d w]] by simp
next
  case (polling d b w d' w')
  then show ?thesis using assms(3) mxc_polling_timer_ok [OF assms(1), of d b w] by simp
next
  case (lid d h w c d' w')
  then show ?thesis using assms(3) lid_event_cb_ok [OF assms(1)] by simp
qed

text \<open>C6: in every state an open device can reach, through poll ticks, clients coming and going, lid
  movements and the loss of the lid switch, the poll timer is set exactly when a client wants
  readings and the lid is not closed.\<close>

theorem poll_timer_invariant:
  assumes "source_ids os" "mxc_reach os m dev s"
  shows "0 < timeout_id (fst s) \<longleftrightarrow> want_polling (fst s) \<and> \<not> lid_closed (fst s)"
proof -
  have "timer_ok (fst s)"
    using assms(2)
  proof induction
    case (opened w d w')
    then show ?case using open_timer_ok by simp
  next
    case (step s rs s')
    then show ?case using mxc_step_ok [OF assms(1)] by blast
  qed
  then show ?thesis by (simp add: timer_ok_def polling_wanted_def)
qed

definition two_bus_world :: table_world where
  "two_bus_world = \<lparr>tw_open = [], tw_next = 3,
     tw_nodes = [(''/dev/i2c-1'', [0xF0, 0, 0, 0x10, 0x10, 0]), (''/dev/i2c-4'', [0, 0, 0, 0, 0x10, 0])],
     tw_i2c = [(''i2c-0'', None), (''i2c-1'', Some ''_SB.PC00.I2C1''), (''i2c-4'', Some ''_SB.PC00.I2C4'')],
     tw_log = []\<rparr>"

definition mda_device :: GUdevDevice where
  "mda_device = \<lparr>sysfs_path = Some ''/sys/bus/i2c/MDA6655:00'', dev_name = ''MDA6655:00'', dev_file = None,
     dev_subsystem = ''iio'', property = (\<lambda>_. None), sysfs_attr = (\<lambda>_. None)\<rparr>"

lemma two_bus_open:
  "\<exists>d w. mxc6655_open table_os mda_device two_bus_world = (Some d, w) \<and> i2c_fds d = (3, 4)"
proof -
  have "(case mxc6655_open table_os mda_device two_bus_world of
      (Some d, w) \<Rightarrow> i2c_fds d = (3, 4) | (None, w) \<Rightarrow> False)"
    by code_simp
  then show ?thesis by (auto split: prod.splits option.splits)
qed

theorem poll_timer_invariant_witness:
  "\<exists>d w. mxc6655_open table_os mda_device two_bus_world = (Some d, w) \<and>
     (0 < timeout_id d \<longleftrightarrow> want_polling d \<and> \<not> lid_closed d)"
proof -
  obtain d w where d: "mxc6655_open table_os mda_device two_bus_world = (Some d, w)"
    using two_bus_open by blast
  from poll_timer_invariant [OF table_os_source_ids mxc_reach.opened [OF d, of quadrant_libm]]
  show ?thesis using d by auto
qed

section \<open>Answers\<close>

text \<open>Asking for readings is answered at once: turning polling on passes exactly one reading to the
  callback, whether or not the timer already ran, and to the proxy it means the current
  orientation, or landscape when none was classified yet; turning it off passes none.\<close>

theorem set_polling_answers:
  assumes "atan2_axes m" "mxc6655_set_polling os d state w = (d', rs, w')"
  shows "want_polling d' = state \<and>
    (if state then (\<exists>r. rs = [AccelR r] \<and> orientation_calc m prev (accel_x r) (accel_y r) (accel_z r) (accel_scale r) =
        mxc_orientation_up (if cur_orient d < 0 then compose_orientation 3 (panel_deg d) else cur_orient d))
     else rs = [])"
proof -
  have r: "orientation_calc m prev (accel_x r) (accel_y r) (accel_z r) (accel_scale r) = mxc_orientation_up i"
    if "r = build_synthetic_readings i stack_readings" for r i
    using synthetic_orientation [OF assms(1) that] .
  have t: "want_polling (fst (update_polling_timer os d w)) = want_polling d" for d w
    by (simp add: update_polling_timer_def start_poll_timer_def stop_poll_timer_def Let_def split: prod.splits)
  have "want_polling d' = state"
    using assms(2) t [of "d\<lparr>want_polling := state\<rparr>" w]
    by (auto simp: mxc6655_set_polling_def Let_def split: if_splits prod.splits)
  moreover have "rs = (if state then send_current_reading d else [])"
    using assms(2) by (auto simp: mxc6655_set_polling_def Let_def split: if_splits prod.splits)
  ultimately show ?thesis
    using r by (auto simp: send_current_reading_def emit_orientation_def Let_def MXC_ORIENT_RIGHT_def)
qed

theorem set_polling_answers_witness:
  "\<exists>r. fst (snd (mxc6655_set_polling table_os sample_drv True empty_world)) = [AccelR r]"
  using set_polling_answers [OF quadrant_libm_laws(1), of table_os sample_drv True empty_world
      "fst (mxc6655_set_polling table_os sample_drv True empty_world)"
      "fst (snd (mxc6655_set_polling table_os sample_drv True empty_world))"
      "snd (snd (mxc6655_set_polling table_os sample_drv True empty_world))"]
  by auto

section \<open>The lid switch\<close>

text \<open>
  The events waiting at a descriptor: a read gives the first and removes it, or gives nothing when none is left
  (the switch is opened with \<^verbatim>\<open>O_NONBLOCK\<close>); starting and stopping a timer leaves them alone.
\<close>

definition event_queue :: "'w os \<Rightarrow> (int \<Rightarrow> 'w \<Rightarrow> input_event list) \<Rightarrow> bool" where
  "event_queue os q \<longleftrightarrow>
     (\<forall>fd w. case q fd w of
        [] \<Rightarrow> fst (os_read_event os fd w) = None \<and> q fd (snd (os_read_event os fd w)) = []
      | e # es \<Rightarrow> fst (os_read_event os fd w) = Some e \<and> q fd (snd (os_read_event os fd w)) = es) \<and>
     (\<forall>n fd w. q fd (snd (os_timeout_add os n w)) = q fd w) \<and>
     (\<forall>n fd w. q fd (os_source_remove os n w) = q fd w)"

lemma event_queueD:
  assumes "event_queue os q" "os_read_event os fd w = (r, w')"
  shows "q fd w = [] \<Longrightarrow> r = None \<and> q fd w' = []" "q fd w = e # es \<Longrightarrow> r = Some e \<and> q fd w' = es"
proof -
  have "case q fd w of [] \<Rightarrow> r = None \<and> q fd w' = [] | e # es \<Rightarrow> r = Some e \<and> q fd w' = es"
    using assms(1)[unfolded event_queue_def, THEN conjunct1, THEN spec [of _ fd], THEN spec [of _ w]] assms(2)
    by (simp split: list.splits)
  then show "q fd w = [] \<Longrightarrow> r = None \<and> q fd w' = []" "q fd w = e # es \<Longrightarrow> r = Some e \<and> q fd w' = es"
    by simp_all
qed

definition lid_event :: "input_event \<Rightarrow> bool" where
  "lid_event ev \<longleftrightarrow> ev_type ev = EV_SW \<and> ev_code ev = SW_LID"

text \<open>Where the events leave the lid: as the last one about the lid says, or where it was.\<close>

definition lid_after :: "bool \<Rightarrow> input_event list \<Rightarrow> bool" where
  "lid_after c evs = (case filter lid_event evs of [] \<Rightarrow> c | es \<Rightarrow> ev_value (last es) \<noteq> 0)"

lemma lid_after_simps [simp]:
  "lid_after c [] = c" "lid_after c (e # es) = lid_after (if lid_event e then ev_value e \<noteq> 0 else c) es"
  by (auto simp: lid_after_def split: list.splits)

lemma set_lid_closed_effect:
  assumes "source_ids os" "event_queue os q" "timer_ok d" "set_lid_closed os b d w = (d', w')"
  shows "timer_ok d' \<and> d' = d\<lparr>lid_closed := b, timeout_id := timeout_id d'\<rparr> \<and> q fd w' = q fd w"
  using set_lid_closed_ok [OF assms(1,3), of b w] assms(2,4)
  by (auto simp: set_lid_closed_def update_polling_timer_def start_poll_timer_def stop_poll_timer_def
      event_queue_def Let_def split: prod.splits if_splits) (metis snd_conv)+

text \<open>C9: the handler of lid events returns, whatever finite mixture of lid and other events is waiting, with none
  left; the lid is then where the last lid event put it (where it was if there was none), the poll timer
  runs exactly when a client wants readings and the lid is open, and no other field changed.\<close>

theorem lid_events_drained:
  assumes "event_queue os q" "source_ids os" "(0 < timeout_id d) = (want_polling d \<and> \<not> lid_closed d)"
  shows "\<exists>d' w'. lid_event_loop os d w = Some (d', w') \<and> q (lid_fd d) w' = [] \<and>
    d' = d\<lparr>lid_closed := lid_after (lid_closed d) (q (lid_fd d) w), timeout_id := timeout_id d'\<rparr> \<and>
    (0 < timeout_id d') = (want_polling d \<and> \<not> lid_after (lid_closed d) (q (lid_fd d) w))"
  using assms(3)
proof (induction "q (lid_fd d) w" arbitrary: d w)
  case Nil
  obtain e w1 where r: "os_read_event os (lid_fd d) w = (e, w1)" by fastforce
  have "lid_event_loop os d w = Some (d, w1) \<and> q (lid_fd d) w1 = []"
    using event_queueD(1) [OF assms(1) r] Nil r by (simp add: lid_event_loop.simps [of os d w])
  then show ?case using Nil by auto
next
  case (Cons ev evs)
  obtain e w1 where r: "os_read_event os (lid_fd d) w = (e, w1)" by fastforce
  have e: "e = Some ev" "evs = q (lid_fd d) w1" using event_queueD(2) [OF assms(1) r Cons(2) [symmetric]] by simp_all
  have L: "lid_after c (q (lid_fd d) w) = lid_after (if lid_event ev then ev_value ev \<noteq> 0 else c) evs" for c
    by (simp flip: Cons(2))
  show ?case
  proof (cases "lid_event ev")
    case False
    then have "lid_event_loop os d w = lid_event_loop os d w1"
      using r e by (simp add: lid_event_loop.simps [of os d w] lid_event_def)
    then show ?thesis using Cons(1) [OF e(2) Cons(3)] L e(2) False by simp
  next
    case True
    obtain d2 w2 where s: "set_lid_closed os (ev_value ev \<noteq> 0) d w1 = (d2, w2)" by fastforce
    have t: "timer_ok d" using Cons(3) by (simp add: timer_ok_def polling_wanted_def)
    note f = set_lid_closed_effect [OF assms(2,1) t s]
    have d2: "lid_fd d2 = lid_fd d" "lid_closed d2 = (ev_value ev \<noteq> 0)" "want_polling d2 = want_polling d"
      "d2\<lparr>lid_closed := c, timeout_id := i\<rparr> = d\<lparr>lid_closed := c, timeout_id := i\<rparr>" for c i
      by (subst f [THEN conjunct2, THEN conjunct1], simp)+
    have "lid_event_loop os d w = lid_event_loop os d2 w2"
      using r e s True by (simp add: lid_event_loop.simps [of os d w] lid_event_def)
    moreover have "evs = q (lid_fd d2) w2" using f e(2) d2(1) by simp
    moreover have "(0 < timeout_id d2) = (want_polling d2 \<and> \<not> lid_closed d2)"
      using f by (simp add: timer_ok_def polling_wanted_def)
    ultimately show ?thesis using Cons(1) [of d2 w2] d2 L e(2) True f by simp
  qed
qed

text \<open>A lid switch with a queue of events; the second component counts the timers that run.\<close>

definition lid_os :: "(input_event list \<times> nat) os" where
  "lid_os = \<lparr>
     os_open = (\<lambda>p f w. (- 1, w)), os_close = (\<lambda>fd w. w), os_write = (\<lambda>fd s w. (- 1, w)),
     os_read = (\<lambda>fd n w. ((- 1, []), w)), os_i2c_rdwr = (\<lambda>fd ms w. ((- 1, []), w)), os_uinput = (\<lambda>fd r w. (- 1, w)),
     os_write_events = (\<lambda>fd es w. (- 1, w)), os_evio_name = (\<lambda>fd n w. ((- 1, []), w)),
     os_evio_switches = (\<lambda>fd w. ((- 1, 0), w)),
     os_read_event = (\<lambda>fd w. case fst w of [] \<Rightarrow> (None, w) | e # es \<Rightarrow> (Some e, (es, snd w))),
     os_usleep = (\<lambda>n w. w), os_i2c_devices = (\<lambda>w. []), os_drm_connectors = (\<lambda>fd w. None),
     os_drm_connector = (\<lambda>fd n w. None), os_drm_property = (\<lambda>fd n w. None),
     os_timeout_add = (\<lambda>n w. (1, (fst w, snd w + 1))), os_io_add_watch = (\<lambda>fd w. (1, w)),
     os_source_remove = (\<lambda>n w. (fst w, snd w - 1))\<rparr>"

definition sample_events :: "input_event list" where
  "sample_events = [\<lparr>ev_type = EV_SW, ev_code = SW_LID, ev_value = 1\<rparr>, \<lparr>ev_type = 0, ev_code = 0, ev_value = 0\<rparr>,
     \<lparr>ev_type = EV_SW, ev_code = SW_LID, ev_value = 0\<rparr>, \<lparr>ev_type = EV_SW, ev_code = SW_LID, ev_value = 1\<rparr>,
     \<lparr>ev_type = EV_SW, ev_code = SW_TABLET_MODE, ev_value = 0\<rparr>]"

theorem lid_events_drained_witness:
  "\<exists>d' w'. lid_event_loop lid_os (sample_drv\<lparr>want_polling := True, timeout_id := 7\<rparr>) (sample_events, 1) = Some (d', w') \<and>
     fst w' = [] \<and> lid_closed d' \<and> timeout_id d' = 0"
proof -
  have q: "event_queue lid_os (\<lambda>fd w. fst w)"
    by (simp add: event_queue_def lid_os_def split: list.splits)
  have i: "source_ids lid_os" by (simp add: source_ids_def lid_os_def)
  from lid_events_drained [OF q i, of "sample_drv\<lparr>want_polling := True, timeout_id := 7\<rparr>" "(sample_events, 1)"]
  obtain d' w' where d: "lid_event_loop lid_os (sample_drv\<lparr>want_polling := True, timeout_id := 7\<rparr>) (sample_events, 1) = Some (d', w')"
    "fst w' = []" "\<not> 0 < timeout_id d'"
    "d' = sample_drv\<lparr>want_polling := True, lid_closed := True, timeout_id := timeout_id d'\<rparr>"
    by (auto simp: sample_drv_def drv_initial_def sample_events_def lid_event_def SW_LID_def SW_TABLET_MODE_def EV_SW_def)
  then have "lid_closed d'" by (metis DrvData.select_convs(3) DrvData.surjective DrvData.update_convs(1,3))
  then show ?thesis using d(1-3) by blast
qed

section \<open>Orientation debounce\<close>

text \<open>The orientation a sample votes for: none while the filter is unsure or the device lies flat,
  landscape outside tablet mode, all turned by the panel's rotation.\<close>

definition orient_vote :: "DrvData \<Rightarrow> Vec3 \<Rightarrow> int option" where
  "orient_vote d a =
     (if snd (update_orientation (orient d) a) \<le> 0 \<or> classify_orientation a < 0 then None
      else Some (compose_orientation (if mode d \<noteq> 1 then MXC_ORIENT_RIGHT else classify_orientation a) (panel_deg d)))"

fun debounce_run :: "DrvData \<Rightarrow> Vec3 list \<Rightarrow> DrvData \<times> int list \<times> readings list" where
  "debounce_run d [] = (d, [], [])"
| "debounce_run d (a # as) =
     (let (d', rs) = update_orientation_debounce d a;
          (d'', votes, rs') = debounce_run d' as
      in (d'', (case orient_vote d a of None \<Rightarrow> votes | Some v \<Rightarrow> v # votes), rs @ rs'))"

text \<open>The orientation without counters (latest vote first): the latest moment at which six votes in a
  row agreed decides.\<close>

definition vote_streak :: "int \<Rightarrow> int list \<Rightarrow> nat" where
  "vote_streak v hist = length (takeWhile (\<lambda>x. x = v) hist)"

fun spec_orient :: "int \<Rightarrow> int list \<Rightarrow> int" where
  "spec_orient c [] = c"
| "spec_orient c (v # hist) = (if 6 \<le> vote_streak v (v # hist) then v else spec_orient c hist)"

text \<open>The readings: one for each change of the orientation, in order.\<close>

fun spec_emit :: "int \<Rightarrow> int list \<Rightarrow> readings list" where
  "spec_emit c [] = []"
| "spec_emit c (v # hist) = spec_emit c hist @
     (if spec_orient c (v # hist) \<noteq> spec_orient c hist then emit_orientation v else [])"

definition debounce_rel :: "int \<Rightarrow> int list \<Rightarrow> DrvData \<Rightarrow> bool" where
  "debounce_rel c hist d \<longleftrightarrow> cur_orient d = spec_orient c hist \<and>
     pending_orient d = (case hist of [] \<Rightarrow> - 1 | v # _ \<Rightarrow> v) \<and>
     (pending_orient d \<noteq> cur_orient d \<longrightarrow> orient_debounce d = vote_streak (pending_orient d) hist)"

lemma vote_streak_Cons:
  "vote_streak v (x # hist) = (if x = v then Suc (vote_streak v hist) else 0)"
  by (simp add: vote_streak_def)

definition debounce_vote :: "DrvData \<Rightarrow> int \<Rightarrow> DrvData \<times> readings list" where
  "debounce_vote d v =
     (if v \<noteq> pending_orient d
      then (d\<lparr>pending_orient := v, orient_debounce := (if v \<noteq> cur_orient d then 1 else 0)\<rparr>, [])
      else if v = cur_orient d then (d, [])
      else if 5 < orient_debounce d + 1 then (d\<lparr>cur_orient := v, orient_debounce := 0\<rparr>, emit_orientation v)
      else (d\<lparr>orient_debounce := orient_debounce d + 1\<rparr>, []))"

lemma debounce_by_vote:
  "update_orientation_debounce d a =
     (let d0 = d\<lparr>orient := fst (update_orientation (orient d) a)\<rparr>
      in case orient_vote d a of None \<Rightarrow> (d0, []) | Some v \<Rightarrow> debounce_vote d0 v)"
  by (cases "update_orientation (orient d) a")
    (simp add: update_orientation_debounce_def orient_vote_def debounce_vote_def GMTR_DEBOUNCE_def Let_def)

lemma debounce_rel_orient [simp]: "debounce_rel c hist (d\<lparr>orient := x\<rparr>) = debounce_rel c hist d"
  by (simp add: debounce_rel_def)

lemma debounce_vote_step:
  assumes "debounce_rel c hist d" "0 \<le> v"
  shows "debounce_rel c (v # hist) (fst (debounce_vote d v)) \<and>
    snd (debounce_vote d v) = (if spec_orient c (v # hist) \<noteq> spec_orient c hist then emit_orientation v else [])"
proof (cases "v = pending_orient d")
  case False
  then have "vote_streak v hist = 0" using assms by (cases hist) (auto simp: debounce_rel_def vote_streak_def)
  then show ?thesis
    using False assms(1) by (simp add: debounce_vote_def debounce_rel_def vote_streak_Cons)
next
  case True
  then obtain h where h: "hist = v # h" using assms by (cases hist) (auto simp: debounce_rel_def)
  show ?thesis
  proof (cases "v = cur_orient d")
    case cur: True
    then show ?thesis using True assms(1) h by (simp add: debounce_vote_def debounce_rel_def)
  next
    case False
    then have "orient_debounce d = vote_streak v hist" "spec_orient c hist \<noteq> v"
      using True assms(1) by (simp_all add: debounce_rel_def)
    then show ?thesis
      using False True assms(1) by (auto simp: debounce_vote_def debounce_rel_def vote_streak_Cons)
  qed
qed

lemma compose_nonneg: "0 \<le> compose_orientation o' p"
proof -
  have "0 < c_mod (o' * 90 - p) 360 + 360" using c_mod_bounds(1) [of 360 "o' * 90 - p"] by simp
  then show ?thesis by (simp add: compose_orientation_def c_mod_nonneg c_div_nonneg)
qed

lemma debounce_run_refines:
  "debounce_rel c hist d \<Longrightarrow> debounce_run d as = (d', votes, rs) \<Longrightarrow>
     debounce_rel c (rev votes @ hist) d' \<and> spec_emit c hist @ rs = spec_emit c (rev votes @ hist)"
proof (induction as arbitrary: d hist d' votes rs)
  case (Cons a as)
  obtain d1 rs1 where u: "update_orientation_debounce d a = (d1, rs1)" by fastforce
  obtain votes2 rs2 where r: "debounce_run d1 as = (d', votes2, rs2)" and rs: "rs = rs1 @ rs2"
      "votes = (case orient_vote d a of None \<Rightarrow> votes2 | Some v \<Rightarrow> v # votes2)"
    using Cons.prems(2) u by (auto split: prod.splits)
  show ?case
  proof (cases "orient_vote d a")
    case None
    then show ?thesis using u Cons.IH [OF _ r] Cons.prems(1) rs by (auto simp: debounce_by_vote Let_def)
  next
    case (Some v)
    then have "0 \<le> v" by (auto simp: orient_vote_def compose_nonneg split: if_splits)
    with debounce_vote_step [of c hist "d\<lparr>orient := fst (update_orientation (orient d) a)\<rparr>" v] u Some Cons.prems(1)
    have s: "debounce_rel c (v # hist) d1" "spec_emit c (v # hist) = spec_emit c hist @ rs1"
      by (simp_all add: debounce_by_vote)
    show ?thesis using Cons.IH [OF s(1) r] rs Some by (simp add: s(2) del: spec_emit.simps)
  qed
qed simp

text \<open>C4: the reported orientation follows its specification: for a freshly opened device, after any
  samples, the orientation is the one that won the latest run of six equal votes (none when there
  was no such run), and the readings passed to the proxy are exactly one for each change, in
  order. Samples that the filter cannot judge do not vote and do not break a run.\<close>

theorem orientation_debounce:
  assumes "cur_orient d = - 1" "pending_orient d = - 1"
  shows "cur_orient (fst (debounce_run d as)) = spec_orient (- 1) (rev (fst (snd (debounce_run d as)))) \<and>
    snd (snd (debounce_run d as)) = spec_emit (- 1) (rev (fst (snd (debounce_run d as))))"
  using debounce_run_refines [of "- 1" "[]" d as] assms
  by (cases "debounce_run d as") (simp add: debounce_rel_def)

theorem orientation_debounce_witness:
  "cur_orient (fst (debounce_run (drv_initial 0) (replicate 3 \<lparr>vx = Num 0, vy = Num (- 1), vz = Num 0\<rparr>)))
     = spec_orient (- 1) (rev (fst (snd (debounce_run (drv_initial 0) (replicate 3 \<lparr>vx = Num 0, vy = Num (- 1), vz = Num 0\<rparr>)))))
   \<and> spec_orient (- 1) [2, 2, 3, 3, 3, 3, 3, 3, 0] = 3"
  using orientation_debounce [of "drv_initial 0" "replicate 3 \<lparr>vx = Num 0, vy = Num (- 1), vz = Num 0\<rparr>"]
  by (simp add: drv_initial_def vote_streak_def)

end
