(* ===== verification/Mxc6655_Fds.thy ===== *)
theory Mxc6655_Fds
  imports Mxc6655_Facts
begin

text \<open>
  Descriptor accounting of the MXC6655 driver over an environment that opens fresh descriptors and
  closes what it is told to: opening records every descriptor it leaves open, a failed open leaves
  none, closing closes them all. The I2C recovery is the exception: when only one of the two
  accelerometers is found again, its descriptor is forgotten while open.
\<close>

lemma fds_snd:
  assumes "fd_laws os fds"
  shows "os_write os fd s w = (r, w') \<Longrightarrow> fds w' = fds w"
    "os_read os fd n w = (q, w') \<Longrightarrow> fds w' = fds w"
    "os_i2c_rdwr os fd ms w = (q2, w') \<Longrightarrow> fds w' = fds w"
    "os_uinput os fd u w = (r, w') \<Longrightarrow> fds w' = fds w"
    "os_evio_name os fd n w = (q3, w') \<Longrightarrow> fds w' = fds w"
    "os_evio_switches os fd w = (q4, w') \<Longrightarrow> fds w' = fds w"
    "os_io_add_watch os fd w = (i, w') \<Longrightarrow> fds w' = fds w"
  using fd_lawsD [OF assms] by (metis snd_conv)+

lemma i2c_xfer_fds:
  assumes "fd_laws os fds" "i2c_xfer os fd reg n w = (q, w')"
  shows "fds w' = fds w"
  using assms(2) fds_snd(3) [OF assms(1)] by (auto simp: i2c_xfer_def Let_def split: prod.splits)

section \<open>Calls that leave nothing open\<close>

lemma open_close_fds:
  assumes "fd_laws os fds" "os_open os p f w = (fd, w1)" "\<not> fd < 0" "fds w2 = fds w1"
  shows "fds (os_close os fd w2) = fds w"
  using fd_laws_open [OF assms(1,2)] fd_lawsD(1) [OF assms(1), of fd w2] assms(3,4) by auto

lemma cards_fds:
  assumes "fd_laws os fds"
  shows "cards_orientation os cs w = (o', w') \<Longrightarrow> fds w' = fds w"
proof (induction cs arbitrary: w)
  case (Cons c cs)
  obtain fd w1 where o: "os_open os (''/dev/dri/card'' @ show_nat c) [O_RDONLY, O_CLOEXEC] w = (fd, w1)"
    by fastforce
  show ?case
    using Cons.prems Cons.IH o fd_laws_open(1) [OF assms o] open_close_fds [OF assms o _ refl]
    by (auto simp: Let_def split: if_splits)
qed simp

lemma detect_panel_fds:
  assumes "fd_laws os fds" "detect_panel_rotation os w = (p, w')"
  shows "fds w' = fds w"
  using assms(2) cards_fds [OF assms(1)]
  by (auto simp: detect_panel_rotation_def read_panel_orientation_def Let_def split: prod.splits if_splits)

lemma acpi_call_read_fds:
  assumes "fd_laws os fds" "acpi_call_read os cmd n w = (b, w')"
  shows "fds w' = fds w"
proof -
  obtain fd w1 where o: "os_open os ACPI_CALL_PATH [O_RDWR, O_CLOEXEC] w = (fd, w1)" by fastforce
  obtain r w2 where wr: "os_write os fd cmd w1 = (r, w2)" by fastforce
  obtain len data w3 where rd: "os_read os fd (n - 1) w2 = ((len, data), w3)" by (metis prod.exhaust)
  note f = fds_snd [OF assms(1)]
  show ?thesis
    using assms(2) o wr rd fd_laws_open(1) [OF assms(1) o] f(1) [OF wr] f(2) [OF rd]
      open_close_fds [OF assms(1) o]
    by (auto simp: acpi_call_read_def Let_def split: if_splits)
qed

lemma load_gmtr_fds:
  assumes "fd_laws os fds" "load_gmtr os d w = (b, d', w')"
  shows "fds w' = fds w"
  using assms(2) acpi_call_read_fds [OF assms(1)]
  by (auto simp: load_gmtr_def Let_def split: prod.splits option.splits if_splits)

lemma write_all_fds: "fd_laws os fds \<Longrightarrow> fds (write_all os fd ss w) = fds w"
  by (induction ss arbitrary: w) (simp_all add: fd_lawsD)

lemma unbind_at_fds:
  assumes "fd_laws os fds"
  shows "fds (unbind_at os p i w) = fds w"
proof -
  obtain fd w1 where o: "os_open os p [O_WRONLY, O_CLOEXEC] w = (fd, w1)" by fastforce
  show ?thesis
    using fd_laws_open(1) [OF assms o] open_close_fds [OF assms o] write_all_fds [OF assms]
    by (simp add: unbind_at_def o)
qed

lemma try_unbind_fds: "fd_laws os fds \<Longrightarrow> fds (try_unbind os w) = fds w"
  by (simp add: try_unbind_def Let_def unbind_at_fds fd_lawsD)

section \<open>Calls that open one descriptor\<close>

text \<open>The result is negative and nothing was opened, or it is a fresh open descriptor.\<close>

definition opens_one :: "('w \<Rightarrow> int set) \<Rightarrow> 'w \<Rightarrow> int \<Rightarrow> 'w \<Rightarrow> bool" where
  "opens_one fds w fd w' \<longleftrightarrow>
     (if fd < 0 then fds w' = fds w else fd \<notin> fds w \<and> fds w' = insert fd (fds w))"

lemma probe_bus_opens:
  assumes "fd_laws os fds" "probe_bus os bus w = (fd, w')"
  shows "opens_one fds w fd w'"
proof -
  obtain f w1 where o: "os_open os (''/dev/i2c-'' @ show_int bus) [O_RDWR, O_CLOEXEC] w = (f, w1)" by fastforce
  obtain r ident w2 where x: "i2c_xfer os f MXC6655_REG_DEVID 1 w1 = ((r, ident), w2)" by (metis prod.exhaust)
  show ?thesis
    using assms(2) o x fd_laws_open [OF assms(1) o] i2c_xfer_fds [OF assms(1) x] open_close_fds [OF assms(1) o, of w2]
    by (auto simp: probe_bus_def opens_one_def Let_def split: if_splits)
qed

lemma setup_uinput_opens:
  assumes "fd_laws os fds" "setup_uinput os w = (fd, w')"
  shows "opens_one fds w fd w'"
proof -
  obtain f w1 where o: "os_open os ''/dev/uinput'' [O_WRONLY, O_NONBLOCK, O_CLOEXEC] w = (f, w1)" by fastforce
  note c = open_close_fds [OF assms(1) o]
  note k = fds_snd(4) [OF assms(1)]
  show ?thesis
    using assms(2) fd_laws_open [OF assms(1) o]
    by (auto simp: setup_uinput_def o opens_one_def Let_def c fd_lawsD [OF assms(1)] dest!: k
        split: if_splits prod.splits)
qed

lemma open_lid_opens:
  assumes "fd_laws os fds"
  shows "open_lid_loop os is w = (fd, w') \<Longrightarrow> opens_one fds w fd w'"
proof (induction "is" arbitrary: w)
  case (Cons i "is")
  obtain f w1 where o: "os_open os (''/dev/input/event'' @ show_nat i) [O_RDONLY, O_NONBLOCK, O_CLOEXEC] w = (f, w1)"
    by fastforce
  obtain r name w2 where x: "os_evio_name os f 256 w1 = ((r, name), w2)" by (metis prod.exhaust)
  have "fds w2 = fds w1" using fds_snd(5) [OF assms x] .
  then show ?case
    using Cons.prems Cons.IH o fd_laws_open [OF assms o] open_close_fds [OF assms o, of w2] x
    by (fastforce simp: opens_one_def Let_def split: if_splits)
qed (simp add: opens_one_def)

section \<open>The two accelerometers\<close>

definition slots :: "nat \<Rightarrow> int \<times> int \<Rightarrow> int set" where
  "slots n f = (if n = 0 then {} else if n = 1 then {fst f} else {fst f, snd f})"

text \<open>\<open>n\<close> descriptors were opened since \<open>S\<close>, all different, and they are the first \<open>n\<close> slots.\<close>

definition found_fds :: "int set \<Rightarrow> int set \<Rightarrow> nat \<Rightarrow> int \<times> int \<Rightarrow> bool" where
  "found_fds S S' n f \<longleftrightarrow> n \<le> 2 \<and> S' = S \<union> slots n f \<and> S \<inter> slots n f = {} \<and>
     (\<forall>x \<in> slots n f. 0 \<le> x) \<and> (n = 2 \<longrightarrow> fst f \<noteq> snd f)"

lemma found_fds_next:
  assumes "found_fds S (fds w) n f" "n < 2" "opens_one fds w fd w'" "0 \<le> fd"
  shows "found_fds S (fds w') (n + 1) (set_fd f n fd)"
proof -
  have "n = 0 \<or> n = 1" using assms(2) by linarith
  then show ?thesis
    using assms by (auto simp: found_fds_def slots_def set_fd_def opens_one_def)
qed

lemma find_accels_loop_fds:
  assumes "fd_laws os fds"
  shows "find_accels_loop os l n f w = (n', f', w') \<Longrightarrow> found_fds S (fds w) n f \<Longrightarrow>
    found_fds S (fds w') n' f'"
proof (induction l arbitrary: n f w)
  case (Cons e l)
  obtain name path where e: "e = (name, path)" by fastforce
  obtain fd w1 where p: "probe_bus os (atoi (drop 4 name)) w = (fd, w1)" by fastforce
  note one = probe_bus_opens [OF assms p]
  have neg: "fds w1 = fds w" if "\<not> 0 \<le> fd" using one that by (simp add: opens_one_def)
  show ?case
    using Cons.prems Cons.IH e p neg found_fds_next [OF Cons.prems(2) _ one]
    by (auto split: if_splits option.splits)
qed simp

lemma find_accels_fds:
  assumes "fd_laws os fds" "find_accels os f w = (n, f', w')"
  shows "found_fds (fds w) (fds w') n f'"
  using find_accels_loop_fds [OF assms(1) assms(2) [unfolded find_accels_def], of "fds w"]
  by (simp add: found_fds_def slots_def)

lemma close_found_fds:
  assumes "fd_laws os fds"
  shows "fds (close_found os n f w) = fds w - slots n f"
  using fd_lawsD(1) [OF assms] by (auto simp: close_found_def slots_def Let_def)

lemma find_accels_retry_fds:
  assumes "fd_laws os fds" "find_accels_retry os f w = (n, f', w')"
  shows "found_fds (fds w) (fds w') n f'"
proof -
  obtain n1 f1 w1 where a: "find_accels os f w = (n1, f1, w1)" by (metis prod_cases3)
  note b = find_accels_fds [OF assms(1) a]
  have c: "fds (try_unbind os (close_found os n1 f1 w1)) = fds w"
    using b close_found_fds [OF assms(1), of n1 f1 w1] by (auto simp: try_unbind_fds [OF assms(1)] found_fds_def)
  show ?thesis
    using assms(2) a b find_accels_fds [OF assms(1), of _ "try_unbind os (close_found os n1 f1 w1)"] c
    by (auto simp: find_accels_retry_def Let_def split: if_splits)
qed

section \<open>Open, close and recovery\<close>

text \<open>The descriptors the driver remembers.\<close>

definition drv_fds :: "DrvData \<Rightarrow> int set" where
  "drv_fds d = {fd \<in> {fst (i2c_fds d), snd (i2c_fds d), uinput_fd d, lid_fd d}. 0 \<le> fd}"

definition nonneg :: "int \<Rightarrow> int set" where
  "nonneg fd = (if 0 \<le> fd then {fd} else {})"

lemma opens_one_nonneg:
  "opens_one fds w fd w' \<Longrightarrow> fds w' = fds w \<union> nonneg fd \<and> fds w \<inter> nonneg fd = {}"
  by (simp add: opens_one_def nonneg_def split: if_splits)

lemma drv_fds_nonneg:
  "drv_fds d = nonneg (fst (i2c_fds d)) \<union> nonneg (snd (i2c_fds d)) \<union> nonneg (uinput_fd d) \<union> nonneg (lid_fd d)"
  by (auto simp: drv_fds_def nonneg_def)

lemma setup_lid_watch_fds:
  assumes "fd_laws os fds" "setup_lid_watch os d w = (d', w')"
  shows "opens_one fds w (lid_fd d') w' \<and> i2c_fds d' = i2c_fds d \<and> uinput_fd d' = uinput_fd d"
proof -
  obtain fd w1 where o: "open_lid_switch os w = (fd, w1)" by fastforce
  have k: "fds w3 = fds w2" if "read_lid_closed os fd w2 = (b, w3)" for b w2 w3
    using that fds_snd(6) [OF assms(1)] by (auto simp: read_lid_closed_def Let_def split: prod.splits)
  have one: "opens_one fds w fd w1" using open_lid_opens [OF assms(1)] o by (simp add: open_lid_switch_def)
  show ?thesis
    using assms(2) one
    by (auto simp: setup_lid_watch_def o opens_one_def Let_def dest!: k fds_snd(7) [OF assms(1)]
        split: if_splits prod.splits)
qed

lemma open_fds:
  assumes "fd_laws os fds" "mxc6655_open os dev w = (r, w')"
  shows "fds w' = fds w \<union> (case r of None \<Rightarrow> {} | Some d \<Rightarrow> drv_fds d)"
    and "r = Some d \<Longrightarrow> fds w \<inter> drv_fds d = {}"
proof -
  obtain p w1 where p: "detect_panel_rotation os w = (p, w1)" by fastforce
  obtain b d1 w2 where g: "load_gmtr os (drv_initial p) w1 = (b, d1, w2)" by (metis prod_cases3)
  obtain n f w3 where a: "find_accels_retry os (i2c_fds d1) w2 = (n, f, w3)" by (metis prod_cases3)
  obtain u w4 where u: "setup_uinput os w3 = (u, w4)" by fastforce
  obtain d2 w5 where l: "setup_lid_watch os (d1\<lparr>i2c_fds := f, uinput_fd := u\<rparr>) w4 = (d2, w5)" by fastforce
  have start: "fds w2 = fds w"
    using detect_panel_fds [OF assms(1) p] load_gmtr_fds [OF assms(1) g] by simp
  note found = find_accels_retry_fds [OF assms(1) a, unfolded start]
  note rest = setup_uinput_opens [OF assms(1) u] setup_lid_watch_fds [OF assms(1) l]
  have res: "(r, w') = (if n < 2 then (None, close_found os n f w3) else (Some d2, w5))"
    using assms(2) by (auto simp: mxc6655_open_def p g a u l Let_def split: if_splits)
  have "fds w' = fds w" if "n < 2"
    using res that found close_found_fds [OF assms(1), of n f w3] by (auto simp: found_fds_def)
  moreover have "fds w5 = fds w \<union> drv_fds d2 \<and> fds w \<inter> drv_fds d2 = {}" if "\<not> n < 2"
  proof -
    have "n = 2" using found that by (simp add: found_fds_def)
    then have a: "fds w3 = fds w \<union> nonneg (fst f) \<union> nonneg (snd f)"
      "fds w \<inter> (nonneg (fst f) \<union> nonneg (snd f)) = {}"
      using found by (simp_all add: found_fds_def slots_def nonneg_def insert_commute)
    have b: "fds w5 = fds w3 \<union> nonneg u \<union> nonneg (lid_fd d2)" "fds w3 \<inter> nonneg u = {}"
      "(fds w3 \<union> nonneg u) \<inter> nonneg (lid_fd d2) = {}"
      using rest opens_one_nonneg [of fds] by (metis sup_assoc)+
    have c: "drv_fds d2 = nonneg (fst f) \<union> nonneg (snd f) \<union> nonneg u \<union> nonneg (lid_fd d2)"
      using rest by (simp add: drv_fds_nonneg)
    show ?thesis unfolding c b(1) a(1) using a b by blast
  qed
  ultimately show "fds w' = fds w \<union> (case r of None \<Rightarrow> {} | Some d \<Rightarrow> drv_fds d)"
    and "r = Some d \<Longrightarrow> fds w \<inter> drv_fds d = {}"
    using res by (auto split: if_splits)
qed

text \<open>C7: descriptors are accounted for: a failed open leaves open exactly what was open before, a
  successful one adds exactly the descriptors it remembers, and closing the device right after
  gives back the descriptors from before.\<close>

theorem open_close_balance:
  assumes "fd_laws os fds" "mxc6655_open os dev w = (r, w')"
  shows "fds (case r of None \<Rightarrow> w' | Some d \<Rightarrow> mxc6655_close os d w') = fds w \<and>
    fds w' = fds w \<union> (case r of None \<Rightarrow> {} | Some d \<Rightarrow> drv_fds d)"
proof (cases r)
  case (Some d)
  have "fds (mxc6655_close os d w') = fds w' - drv_fds d"
    by (auto simp: mxc6655_close_def Let_def fd_lawsD [OF assms(1)] drv_fds_def)
  then show ?thesis using open_fds [OF assms] Some by auto
qed (use open_fds(1) [OF assms] in simp)

theorem open_close_balance_witness:
  "table_fds (snd (mxc6655_open table_os mda_device two_bus_world)) = {3, 4}"
proof -
  obtain d w where d: "mxc6655_open table_os mda_device two_bus_world = (Some d, w)" "i2c_fds d = (3, 4)"
    using two_bus_open by blast
  have "(case mxc6655_open table_os mda_device two_bus_world of
      (Some d, w) \<Rightarrow> uinput_fd d = - 1 \<and> lid_fd d = - 1 | (None, w) \<Rightarrow> False)" by code_simp
  then have "drv_fds d = {3, 4}" using d by (auto simp: drv_fds_def)
  then show ?thesis
    using open_close_balance [OF table_os_fds d(1)] d(1) by (simp add: table_fds_def two_bus_world_def)
qed

lemma try_unbind_table:
  assumes "map_of (tw_nodes w) ''/sys/bus/i2c/drivers/mxc4005/unbind'' = None"
    "map_of (tw_nodes w) ''/sys/bus/acpi/drivers/mxc4005/unbind'' = None"
  shows "try_unbind table_os w = w"
  using assms by (simp add: try_unbind_def unbind_at_def table_os_def table_open_def Let_def)

definition one_bus_world :: "nat \<Rightarrow> (int \<times> string) list \<Rightarrow> table_world" where
  "one_bus_world n opn = two_bus_world\<lparr>tw_nodes := [(''/dev/i2c-1'', [0])], tw_next := n, tw_open := opn\<rparr>"

lemma one_bus_search:
  "find_accels table_os (- 1, - 1) (one_bus_world 3 []) = (1, (3, - 1), one_bus_world 4 [(3, ''/dev/i2c-1'')])"
  "find_accels table_os (- 1, - 1) (one_bus_world 4 [(3, ''/dev/i2c-1'')])
     = (1, (4, - 1), one_bus_world 5 [(4, ''/dev/i2c-1''), (3, ''/dev/i2c-1'')])"
  by code_simp+

lemma one_bus_recover:
  assumes "i2c_fds d = (- 1, - 1)" "find_accels table_os (- 1, - 1) (one_bus_world n opn) = (1, f, w)"
  shows "recover_i2c table_os d (one_bus_world n opn) = (d, w)"
proof -
  have "try_unbind table_os (one_bus_world n opn) = one_bus_world n opn"
    by (rule try_unbind_table) (simp_all add: one_bus_world_def)
  then show ?thesis using assms by (simp add: recover_i2c_def)
qed

text \<open>The I2C recovery loses a descriptor: with both accelerometers gone and one of them back, the
  driver ends up with no descriptor remembered while one more is open, and the next failed read
  adds another.\<close>

theorem recover_i2c_leaks:
  "(let (d1, w1) = recover_i2c table_os sample_drv (one_bus_world 3 []);
        (d2, w2) = recover_i2c table_os d1 w1
    in drv_fds d2 = {} \<and> table_fds w1 = {3} \<and> table_fds w2 = {3, 4})"
proof -
  have d: "i2c_fds sample_drv = (- 1, - 1)" by (simp add: sample_drv_def drv_initial_def)
  note r = one_bus_recover [OF d one_bus_search(1)] one_bus_recover [OF d one_bus_search(2)]
  have "drv_fds sample_drv = {}" by (auto simp: drv_fds_def sample_drv_def drv_initial_def)
  moreover have "table_fds (one_bus_world n opn) = fst ` set opn" for n opn
    by (simp add: table_fds_def one_bus_world_def)
  ultimately show ?thesis by (simp add: r insert_commute)
qed

end
