(* ===== verification/MountMatrix.thy ===== *)
theory MountMatrix
  imports Drivers
begin

text \<open>
  \<^verbatim>\<open>accel-mount-matrix.c\<close>: the matrix that turns the chip's axes into the device's, its text form, where
  it is looked up, and its application to a sample in single precision.
\<close>

record AccelVec3 =
  ax :: f32
  ay :: f32
  az :: f32

definition id_matrix :: "AccelVec3 list" where
  "id_matrix = [\<lparr>ax = 1, ay = 0, az = 0\<rparr>, \<lparr>ax = 0, ay = 1, az = 0\<rparr>, \<lparr>ax = 0, ay = 0, az = 1\<rparr>]"

definition get_id_matrix :: "AccelVec3 list" where
  "get_id_matrix = id_matrix"

text \<open>\<^verbatim>\<open>NULL\<close> when there are fewer pieces; \<^verbatim>\<open>g_strsplit\<close> leaves the rest of the text in the last one.\<close>

definition strsplit_num_tokens :: "string \<Rightarrow> string \<Rightarrow> nat \<Rightarrow> string list option" where
  "strsplit_num_tokens s delimiter num_tokens =
     (let elems = g_strsplit s delimiter (int num_tokens)
      in if length elems < num_tokens then None else Some elems)"

definition parse_row :: "(string \<Rightarrow> f64) \<Rightarrow> string \<Rightarrow> AccelVec3 option" where
  "parse_row strtod axis = (case strsplit_num_tokens axis '','' 3 of None \<Rightarrow> None
     | Some e \<Rightarrow> Some \<lparr>ax = to_f32 (strtod (e ! 0)), ay = to_f32 (strtod (e ! 1)),
                       az = to_f32 (strtod (e ! 2))\<rparr>)"

definition zero_row :: "AccelVec3 \<Rightarrow> bool" where
  "zero_row v \<longleftrightarrow> feq (ax v) 0 \<and> feq (ay v) 0 \<and> feq (az v) 0"

definition parse_mount_matrix :: "(string \<Rightarrow> f64) \<Rightarrow> string option \<Rightarrow> AccelVec3 list option" where
  "parse_mount_matrix strtod mtx = (case mtx of None \<Rightarrow> Some get_id_matrix
     | Some m \<Rightarrow> if m = [] then Some get_id_matrix
         else (case strsplit_num_tokens m '';'' 3 of None \<Rightarrow> None
           | Some axis \<Rightarrow> (case (parse_row strtod (axis ! 0), parse_row strtod (axis ! 1),
                                 parse_row strtod (axis ! 2)) of
               (Some r0, Some r1, Some r2) \<Rightarrow>
                 if zero_row r0 \<or> zero_row r1 \<or> zero_row r2 then None else Some [r0, r1, r2]
             | _ \<Rightarrow> None)))"

definition apply_mount_matrix :: "AccelVec3 list \<Rightarrow> AccelVec3 \<Rightarrow> AccelVec3" where
  "apply_mount_matrix vecs accel =
     (let row = (\<lambda>v. ax accel * ax v + ay accel * ay v + az accel * az v)
      in \<lparr>ax = row (vecs ! 0), ay = row (vecs ! 1), az = row (vecs ! 2)\<rparr>)"

text \<open>The sources in order; a text that does not parse is skipped.\<close>

fun first_matrix :: "(string \<Rightarrow> f64) \<Rightarrow> string option list \<Rightarrow> AccelVec3 list" where
  "first_matrix strtod [] = get_id_matrix"
| "first_matrix strtod (None # ts) = first_matrix strtod ts"
| "first_matrix strtod (Some t # ts) = (case parse_mount_matrix strtod (Some t) of
     Some m \<Rightarrow> m | None \<Rightarrow> first_matrix strtod ts)"

definition setup_mount_matrix :: "(string \<Rightarrow> f64) \<Rightarrow> GUdevDevice \<Rightarrow> AccelVec3 list" where
  "setup_mount_matrix strtod device = first_matrix strtod
     [property device ''ACCEL_MOUNT_MATRIX'', sysfs_attr device ''mount_matrix'',
      sysfs_attr device ''in_accel_mount_matrix'', sysfs_attr device ''in_mount_matrix'']"

section \<open>Facts\<close>

definition matrix_ok :: "AccelVec3 list \<Rightarrow> bool" where
  "matrix_ok m \<longleftrightarrow> length m = 3 \<and> (\<forall>r \<in> set m. \<not> zero_row r)"

lemma matrix_ok_id: "matrix_ok get_id_matrix"
  by (simp add: matrix_ok_def get_id_matrix_def id_matrix_def zero_row_def)

lemma matrix_ok_parse: "parse_mount_matrix strtod t = Some m \<Longrightarrow> matrix_ok m"
  by (auto simp: parse_mount_matrix_def matrix_ok_id matrix_ok_def
      split: option.splits if_splits) (use matrix_ok_id in \<open>auto simp: matrix_ok_def\<close>)

lemma matrix_ok_first: "matrix_ok (first_matrix strtod ts)"
  by (induction strtod ts rule: first_matrix.induct)
    (auto simp: matrix_ok_id dest: matrix_ok_parse split: option.splits)

text \<open>Whatever the device says and however numbers are read, the mount matrix in use has three
  rows and none of them is zero, so no axis of the device is lost.\<close>

theorem setup_mount_matrix_ok:
  "length (setup_mount_matrix strtod device) = 3 \<and>
   \<not> zero_row (setup_mount_matrix strtod device ! 0) \<and>
   \<not> zero_row (setup_mount_matrix strtod device ! 1) \<and>
   \<not> zero_row (setup_mount_matrix strtod device ! 2)"
proof -
  have ok: "matrix_ok (setup_mount_matrix strtod device)"
    by (simp add: setup_mount_matrix_def matrix_ok_first)
  then have "setup_mount_matrix strtod device ! i \<in> set (setup_mount_matrix strtod device)"
    if "i < 3" for i using that by (simp add: matrix_ok_def)
  from this [of 0] this [of 1] this [of 2] show ?thesis
    using ok by (simp add: matrix_ok_def)
qed

subsection \<open>The text form\<close>

lemma break_at_char: "d \<notin> set a \<Longrightarrow> break_at [d] (a @ d # b) = Some (a, b)"
  by (induction a) auto

lemma strsplit_three:
  assumes "d \<notin> set a" "d \<notin> set b"
  shows "strsplit_num_tokens (a @ d # b @ d # c) [d] 3 = Some [a, b, c]"
  using assms
  by (simp add: strsplit_num_tokens_def g_strsplit_def numeral_eq_Suc break_at_char)

definition row_text :: "string \<times> string \<times> string \<Rightarrow> string" where
  "row_text r = (case r of (a, b, c) \<Rightarrow> a @ CHR '','' # b @ CHR '','' # c)"

definition matrix_text :: "(string \<times> string \<times> string) list \<Rightarrow> string" where
  "matrix_text rs = row_text (rs ! 0) @ CHR '';'' # row_text (rs ! 1) @ CHR '';'' # row_text (rs ! 2)"

definition row_of :: "(string \<Rightarrow> f64) \<Rightarrow> string \<times> string \<times> string \<Rightarrow> AccelVec3" where
  "row_of strtod r = (case r of (a, b, c) \<Rightarrow>
     \<lparr>ax = to_f32 (strtod a), ay = to_f32 (strtod b), az = to_f32 (strtod c)\<rparr>)"

definition number_text :: "string \<times> string \<times> string \<Rightarrow> bool" where
  "number_text r = (case r of (a, b, c) \<Rightarrow>
     list_all (\<lambda>ch. ch \<noteq> CHR '','' \<and> ch \<noteq> CHR '';'') (a @ b @ c))"

lemma number_textD:
  assumes "number_text (a, b, c)"
  shows "CHR '','' \<notin> set a" "CHR '','' \<notin> set b" "CHR '';'' \<notin> set (a @ b @ c)"
  using assms unfolding number_text_def prod.case list_all_iff by (metis in_set_conv_decomp append_assoc append_Cons UnI1 UnI2 set_append)+

lemma parse_row_text: "number_text r \<Longrightarrow> parse_row strtod (row_text r) = Some (row_of strtod r)"
proof (cases r)
  case (fields a b c)
  assume "number_text r"
  note n = number_textD [OF this [unfolded fields]]
  show ?thesis unfolding fields parse_row_def row_text_def row_of_def prod.case
      strsplit_three [OF n(1,2)] option.case by simp
qed

lemma row_text_no_semicolon: "number_text r \<Longrightarrow> CHR '';'' \<notin> set (row_text r)"
proof (cases r)
  case (fields a b c)
  assume "number_text r"
  note n = number_textD [OF this [unfolded fields]]
  show ?thesis unfolding fields row_text_def prod.case using n(3) by simp
qed

text \<open>The text form of a mount matrix: three rows separated by semicolons, each of three numbers
  separated by commas, are read back row by row and number by number; the text is refused exactly
  when one of the rows is zero.\<close>

theorem parse_mount_matrix_text:
  assumes "number_text r0" "number_text r1" "number_text r2"
  shows "parse_mount_matrix strtod (Some (matrix_text [r0, r1, r2])) =
    (if zero_row (row_of strtod r0) \<or> zero_row (row_of strtod r1) \<or> zero_row (row_of strtod r2)
     then None else Some [row_of strtod r0, row_of strtod r1, row_of strtod r2])"
proof -
  have "strsplit_num_tokens (matrix_text [r0, r1, r2]) '';'' 3
      = Some [row_text r0, row_text r1, row_text r2]"
    using assms by (simp add: matrix_text_def strsplit_three row_text_no_semicolon)
  moreover have "matrix_text [r0, r1, r2] \<noteq> []" by (simp add: matrix_text_def)
  ultimately show ?thesis
    using assms by (simp add: parse_mount_matrix_def parse_row_text)
qed

definition sign_strtod :: "string \<Rightarrow> f64" where
  "sign_strtod s = flit (of_int (atoi s))"

theorem parse_mount_matrix_text_witness:
  "parse_mount_matrix sign_strtod (Some ''0,1,0;-1,0,0;0,0,1'') =
     Some [\<lparr>ax = Num 0, ay = Num 1, az = Num 0\<rparr>, \<lparr>ax = Num (- 1), ay = Num 0, az = Num 0\<rparr>,
       \<lparr>ax = Num 0, ay = Num 0, az = Num 1\<rparr>]"
proof -
  have rows: "row_of sign_strtod (''0'', ''1'', ''0'') = \<lparr>ax = Num 0, ay = Num 1, az = Num 0\<rparr>"
    "row_of sign_strtod (''-1'', ''0'', ''0'') = \<lparr>ax = Num (- 1), ay = Num 0, az = Num 0\<rparr>"
    "row_of sign_strtod (''0'', ''0'', ''1'') = \<lparr>ax = Num 0, ay = Num 0, az = Num 1\<rparr>"
    by code_simp+
  show ?thesis
    using parse_mount_matrix_text [of "(''0'', ''1'', ''0'')" "(''-1'', ''0'', ''0'')"
        "(''0'', ''0'', ''1'')" sign_strtod]
    by (simp add: rows number_text_def matrix_text_def row_text_def zero_row_def)
qed

end
