(* ===== verification/Kernel.thy ===== *)
theory Kernel
  imports GStrings
begin

text \<open>
  What the EC module calls outside the repository: port I/O, I/O regions, the ACPI EC, the ACPI
  interpreter, and the registration functions of the thermal, hwmon, LED and workqueue cores. The
  record \<open>kern\<close> is that environment as functions on an opaque world \<open>'w\<close>. An \<open>int\<close> result is
  \<open>errno option\<close>, \<open>None\<close> being 0. The documented behaviour a property relies on is a named predicate.
\<close>

record 'w kern =
  mutex_lock :: "'w \<Rightarrow> 'w"
  mutex_unlock :: "'w \<Rightarrow> 'w"
  outb :: "u8 \<Rightarrow> u16 \<Rightarrow> 'w \<Rightarrow> 'w"
  inb :: "u16 \<Rightarrow> 'w \<Rightarrow> u8 \<times> 'w"
  request_region :: "u16 \<Rightarrow> nat \<Rightarrow> 'w \<Rightarrow> bool \<times> 'w"
  release_region :: "u16 \<Rightarrow> nat \<Rightarrow> 'w \<Rightarrow> 'w"
  ec_read :: "u8 \<Rightarrow> 'w \<Rightarrow> (errno + u8) \<times> 'w"
  ec_write :: "u8 \<Rightarrow> u8 \<Rightarrow> 'w \<Rightarrow> errno option \<times> 'w"
  acpi_evaluate_integer :: "string \<Rightarrow> u64 \<Rightarrow> 'w \<Rightarrow> bool \<times> 'w"
  kstrtobool :: "string \<Rightarrow> errno + bool"
  devm_kzalloc :: "'w \<Rightarrow> bool \<times> 'w"
  devm_device_add_group :: "'w \<Rightarrow> errno option \<times> 'w"
  thermal_zone_register :: "string \<Rightarrow> 'w \<Rightarrow> kptr \<times> 'w"
  thermal_zone_enable :: "kptr \<Rightarrow> 'w \<Rightarrow> 'w"
  thermal_zone_unregister :: "kptr \<Rightarrow> 'w \<Rightarrow> 'w"
  hwmon_register :: "string \<Rightarrow> 'w \<Rightarrow> kptr \<times> 'w"
  led_classdev_register :: "string \<Rightarrow> 'w \<Rightarrow> errno option \<times> 'w"
  delayed_work_autocancel :: "'w \<Rightarrow> errno option \<times> 'w"
  queue_delayed_work :: "'w \<Rightarrow> 'w"
  notify_hw_changed :: "u8 \<Rightarrow> 'w \<Rightarrow> 'w"
  platform_driver_register :: "'w \<Rightarrow> errno option \<times> 'w"
  platform_driver_unregister :: "'w \<Rightarrow> 'w"
  platform_device_register_simple :: "string \<Rightarrow> 'w \<Rightarrow> kptr \<times> 'w"
  platform_device_unregister :: "kptr \<Rightarrow> 'w \<Rightarrow> 'w"

section \<open>The EC chip behind the ports\<close>

text \<open>
  The host side of the IT5570E as its datasheet gives it: a write to port 0x4E selects a PNPCFG
  register, port 0x4F accesses it. Register 0x2E (D2ADR) selects one of the depth-2 registers that
  0x2F (D2DAT) accesses: the low and the high byte of an internal address, and the byte stored there.
\<close>

record it5570 =
  pnp_index :: u8
  d2adr :: u8
  i2ec_addr_l :: u8
  i2ec_addr_h :: u8
  ec_mem :: "u16 \<Rightarrow> u8"

definition i2ec_addr :: "it5570 \<Rightarrow> u16" where
  "i2ec_addr c = push_bit 8 (ucast (i2ec_addr_h c)) OR ucast (i2ec_addr_l c)"

definition chip_out :: "u8 \<Rightarrow> u16 \<Rightarrow> it5570 \<Rightarrow> it5570" where
  "chip_out v p c =
     (if p = 0x4E then c\<lparr>pnp_index := v\<rparr>
      else if p = 0x4F \<and> pnp_index c = 0x2E then c\<lparr>d2adr := v\<rparr>
      else if p = 0x4F \<and> pnp_index c = 0x2F then
        (if d2adr c = 0x10 then c\<lparr>i2ec_addr_l := v\<rparr>
         else if d2adr c = 0x11 then c\<lparr>i2ec_addr_h := v\<rparr>
         else if d2adr c = 0x12 then c\<lparr>ec_mem := (ec_mem c)(i2ec_addr c := v)\<rparr>
         else c)
      else c)"

definition chip_in :: "it5570 \<Rightarrow> u8" where
  "chip_in c = (if pnp_index c = 0x2F \<and> d2adr c = 0x12 then ec_mem c (i2ec_addr c) else 0)"

text \<open>\<open>chip\<close> shows the chip's state in the world; taking the lock does not touch it.\<close>

definition chip_laws :: "'w kern \<Rightarrow> ('w \<Rightarrow> it5570) \<Rightarrow> bool" where
  "chip_laws k chip \<longleftrightarrow>
     (\<forall>v p w. chip (outb k v p w) = chip_out v p (chip w)) \<and>
     (\<forall>w. fst (inb k 0x4F w) = chip_in (chip w) \<and> chip (snd (inb k 0x4F w)) = chip w) \<and>
     (\<forall>w. chip (mutex_lock k w) = chip w \<and> chip (mutex_unlock k w) = chip w)"

lemma chip_lawsD:
  assumes "chip_laws k chip"
  shows "chip (outb k v p w) = chip_out v p (chip w)" "fst (inb k 0x4F w) = chip_in (chip w)"
    "chip (snd (inb k 0x4F w)) = chip w" "chip (mutex_lock k w) = chip w" "chip (mutex_unlock k w) = chip w"
  using assms by (simp_all add: chip_laws_def)

section \<open>Resources of the driver\<close>

text \<open>
  Thermal zones and the I/O region: registration gives an error pointer and registers nothing, or
  registers a fresh zone; unregistration takes back the zone it is given; a granted region is
  released by \<^verbatim>\<open>release_region\<close>; no other call changes either.
\<close>

definition same_resources :: "('w \<Rightarrow> nat set) \<Rightarrow> ('w \<Rightarrow> nat) \<Rightarrow> 'w \<Rightarrow> 'w \<Rightarrow> bool" where
  "same_resources zones regions w w' \<longleftrightarrow> zones w' = zones w \<and> regions w' = regions w"

lemma same_resources_refl [simp]: "same_resources zones regions w w"
  by (simp add: same_resources_def)

lemma same_resources_trans [trans]:
  "same_resources zones regions w w' \<Longrightarrow> same_resources zones regions w' w'' \<Longrightarrow> same_resources zones regions w w''"
  by (simp add: same_resources_def)

definition resource_laws :: "'w kern \<Rightarrow> ('w \<Rightarrow> nat set) \<Rightarrow> ('w \<Rightarrow> nat) \<Rightarrow> bool" where
  "resource_laws k zones regions \<longleftrightarrow>
     (\<forall>n w r w'. thermal_zone_register k n w = (r, w') \<longrightarrow> regions w' = regions w \<and>
        (case r of KNull \<Rightarrow> False | KErr e \<Rightarrow> zones w' = zones w
         | KPtr p \<Rightarrow> p \<notin> zones w \<and> zones w' = insert p (zones w))) \<and>
     (\<forall>p w. zones (thermal_zone_unregister k (KPtr p) w) = zones w - {p} \<and>
        regions (thermal_zone_unregister k (KPtr p) w) = regions w) \<and>
     (\<forall>p n w. zones (snd (request_region k p n w)) = zones w \<and>
        regions (snd (request_region k p n w)) = regions w + (if fst (request_region k p n w) then 1 else 0)) \<and>
     (\<forall>p n w. zones (release_region k p n w) = zones w \<and> regions (release_region k p n w) = regions w - 1) \<and>
     (\<forall>w. same_resources zones regions w (mutex_lock k w)) \<and>
     (\<forall>w. same_resources zones regions w (mutex_unlock k w)) \<and>
     (\<forall>w. same_resources zones regions w (queue_delayed_work k w)) \<and>
     (\<forall>v p w. same_resources zones regions w (outb k v p w)) \<and>
     (\<forall>p w. same_resources zones regions w (snd (inb k p w))) \<and>
     (\<forall>r w. same_resources zones regions w (snd (ec_read k r w))) \<and>
     (\<forall>w. same_resources zones regions w (snd (devm_kzalloc k w))) \<and>
     (\<forall>w. same_resources zones regions w (snd (devm_device_add_group k w))) \<and>
     (\<forall>w. same_resources zones regions w (snd (delayed_work_autocancel k w))) \<and>
     (\<forall>z w. same_resources zones regions w (thermal_zone_enable k z w)) \<and>
     (\<forall>n w. same_resources zones regions w (snd (hwmon_register k n w))) \<and>
     (\<forall>n w. same_resources zones regions w (snd (led_classdev_register k n w)))"

lemma resource_lawsD:
  assumes "resource_laws k zones regions"
  shows "same_resources zones regions w (mutex_lock k w)"
    "same_resources zones regions w (mutex_unlock k w)"
    "same_resources zones regions w (queue_delayed_work k w)"
    "same_resources zones regions w (outb k v p w)"
    "same_resources zones regions w (snd (inb k p w))"
    "same_resources zones regions w (snd (ec_read k r w))"
    "same_resources zones regions w (snd (devm_kzalloc k w))"
    "same_resources zones regions w (snd (devm_device_add_group k w))"
    "same_resources zones regions w (snd (delayed_work_autocancel k w))"
    "same_resources zones regions w (thermal_zone_enable k z w)"
    "same_resources zones regions w (snd (hwmon_register k n w))"
    "same_resources zones regions w (snd (led_classdev_register k n w))"
  using assms by (simp_all add: resource_laws_def)

lemma resource_laws_register:
  assumes "resource_laws k zones regions" "thermal_zone_register k n w = (r, w')"
  shows "regions w' = regions w" "(\<exists>e. r = KErr e \<and> zones w' = zones w) \<or> (\<exists>p. r = KPtr p \<and> p \<notin> zones w \<and> zones w' = insert p (zones w))"
  using assms by (auto simp: resource_laws_def split: kptr.splits) (metis kptr.exhaust)+

section \<open>A concrete environment\<close>

text \<open>The chip, an EC window, registered zones, regions and a log of notifications.\<close>

record lab_world =
  lw_chip :: it5570
  lw_window :: "u8 \<Rightarrow> u8"
  lw_zones :: "nat list"
  lw_next :: nat
  lw_regions :: nat
  lw_notified :: "u8 list"

definition lab_kstrtobool :: "string \<Rightarrow> errno + bool" where
  "lab_kstrtobool s = (case s of [] \<Rightarrow> Inl EINVAL
     | c # _ \<Rightarrow> if c \<in> set ''yYtT1'' then Inr True else if c \<in> set ''nNfF0'' then Inr False else Inl EINVAL)"

text \<open>With \<open>fails\<close>, every registration of a thermal zone is refused.\<close>

definition lab_kern :: "bool \<Rightarrow> lab_world kern" where
  "lab_kern fails = \<lparr>mutex_lock = (\<lambda>w. w), mutex_unlock = (\<lambda>w. w),
     outb = (\<lambda>v p w. w\<lparr>lw_chip := chip_out v p (lw_chip w)\<rparr>),
     inb = (\<lambda>p w. (chip_in (lw_chip w), w)),
     request_region = (\<lambda>p n w. if lw_regions w = 0 then (True, w\<lparr>lw_regions := 1\<rparr>) else (False, w)),
     release_region = (\<lambda>p n w. w\<lparr>lw_regions := lw_regions w - 1\<rparr>),
     ec_read = (\<lambda>r w. (Inr (lw_window w r), w)),
     ec_write = (\<lambda>r v w. (None, w\<lparr>lw_window := (lw_window w)(r := v)\<rparr>)),
     acpi_evaluate_integer = (\<lambda>p v w. (True, w)),
     kstrtobool = lab_kstrtobool,
     devm_kzalloc = (\<lambda>w. (True, w)),
     devm_device_add_group = (\<lambda>w. (None, w)),
     thermal_zone_register = (\<lambda>n w. if fails \<or> lw_next w \<in> set (lw_zones w) then (KErr ENOMEM, w)
        else (KPtr (lw_next w), w\<lparr>lw_zones := lw_next w # lw_zones w, lw_next := lw_next w + 1\<rparr>)),
     thermal_zone_enable = (\<lambda>z w. w),
     thermal_zone_unregister = (\<lambda>z w. case z of KPtr p \<Rightarrow> w\<lparr>lw_zones := removeAll p (lw_zones w)\<rparr> | _ \<Rightarrow> w),
     hwmon_register = (\<lambda>n w. (KPtr 0, w)),
     led_classdev_register = (\<lambda>n w. (None, w)),
     delayed_work_autocancel = (\<lambda>w. (None, w)),
     queue_delayed_work = (\<lambda>w. w),
     notify_hw_changed = (\<lambda>v w. w\<lparr>lw_notified := v # lw_notified w\<rparr>),
     platform_driver_register = (\<lambda>w. (None, w)), platform_driver_unregister = (\<lambda>w. w),
     platform_device_register_simple = (\<lambda>n w. (KPtr 0, w)), platform_device_unregister = (\<lambda>p w. w)\<rparr>"

lemma lab_fields:
  "request_region (lab_kern f) p n w = (if lw_regions w = 0 then (True, w\<lparr>lw_regions := 1\<rparr>) else (False, w))"
  "ec_read (lab_kern f) r w = (Inr (lw_window w r), w)" "devm_kzalloc (lab_kern f) w = (True, w)"
  "devm_device_add_group (lab_kern f) w = (None, w)"
  "thermal_zone_register (lab_kern f) nm w = (if f \<or> lw_next w \<in> set (lw_zones w) then (KErr ENOMEM, w)
     else (KPtr (lw_next w), w\<lparr>lw_zones := lw_next w # lw_zones w, lw_next := lw_next w + 1\<rparr>))"
  "thermal_zone_enable (lab_kern f) z w = w" "hwmon_register (lab_kern f) nm w = (KPtr 0, w)"
  "led_classdev_register (lab_kern f) nm w = (None, w)" "delayed_work_autocancel (lab_kern f) w = (None, w)"
  "queue_delayed_work (lab_kern f) w = w" "notify_hw_changed (lab_kern f) v w = w\<lparr>lw_notified := v # lw_notified w\<rparr>"
  by (simp_all add: lab_kern_def)

lemma lab_chip_laws: "chip_laws (lab_kern fails) lw_chip"
  by (simp add: chip_laws_def lab_kern_def)

lemma lab_resource_laws: "resource_laws (lab_kern fails) (\<lambda>w. set (lw_zones w)) lw_regions"
  by (auto simp: resource_laws_def same_resources_def lab_kern_def split: if_splits kptr.splits)

text \<open>A board: chip identified, 45 degrees, touchpad and keyboard on, backlight at half.\<close>

definition board :: lab_world where
  "board = \<lparr>lw_chip = \<lparr>pnp_index = 0, d2adr = 0, i2ec_addr_l = 0, i2ec_addr_h = 0,
       ec_mem = (\<lambda>_. 0)(0x2000 := 0x55, 0x2001 := 0x70, 0x1803 := 0x80, 0x1904 := 1, 0x1918 := 0x2C, 0x1919 := 1,
         0x181E := 0xD0, 0x181F := 1)\<rparr>,
     lw_window = (\<lambda>_. 0)(0x70 := 45, 0x0C := 0x11), lw_zones = [], lw_next = 1, lw_regions = 0, lw_notified = []\<rparr>"

end
