(* ===== verification/Ec_I2ec.thy ===== *)
theory Ec_I2ec
  imports Kernel
begin

text \<open>
  \<^verbatim>\<open>minibook_ec_i2ec.c\<close> and \<^verbatim>\<open>minibook_ec.h\<close>: the driver's state, indirect access to the EC's internal
  address space through two I/O ports, its set-up and its clean-up. Under the chip's laws the two
  accesses are those of a flat 64 KiB byte memory (the locale \<open>ec_registers\<close>), and with the lock they
  stay so when several threads interleave their port accesses.
\<close>

section \<open>State\<close>

definition EC_REG_ECMV :: u8 where "EC_REG_ECMV = 0x00"
definition EC_REG_ECSV :: u8 where "EC_REG_ECSV = 0x01"
definition EC_REG_KBVS :: u8 where "EC_REG_KBVS = 0x02"
definition EC_REG_ECTV :: u8 where "EC_REG_ECTV = 0x03"
definition EC_REG_TPTL :: u8 where "EC_REG_TPTL = 0x0C"
definition EC_REG_KBCD :: u8 where "EC_REG_KBCD = 0x0D"
definition EC_REG_SOC_TEMP :: u8 where "EC_REG_SOC_TEMP = 0x70"
definition EC_REG_UNLOCK :: u8 where "EC_REG_UNLOCK = 0xF0"
definition TPTL_ON :: u8 where "TPTL_ON = 0x11"
definition TPTL_OFF :: u8 where "TPTL_OFF = 0x22"
definition KBCD_LAPTOP :: u8 where "KBCD_LAPTOP = 0x00"
definition UNLOCK_MAGIC :: u8 where "UNLOCK_MAGIC = 0xAA"
definition LTSM_PATH :: string where "LTSM_PATH = [CHR 0x5C] @ ''_SB.ACMK.LTSM''"

record kbd_backlight =
  cdev_name :: string
  max_brightness :: nat
  hw_changed_flag :: bool
  last_observed :: u8

record minibook_ec =
  soc_tz :: kptr
  charger_tz :: kptr
  hwmon_dev :: kptr
  kbd_bl :: "kbd_backlight option"
  pnpcfg_available :: bool

section \<open>Access\<close>

definition PNPCFG_INDEX :: u16 where "PNPCFG_INDEX = 0x4E"
definition PNPCFG_DATA :: u16 where "PNPCFG_DATA = 0x4F"
definition PNPCFG_IO_SIZE :: nat where "PNPCFG_IO_SIZE = 2"
definition PNPCFG_D2ADR :: u8 where "PNPCFG_D2ADR = 0x2E"
definition PNPCFG_D2DAT :: u8 where "PNPCFG_D2DAT = 0x2F"
definition I2EC_SUB_ADDR_L :: u8 where "I2EC_SUB_ADDR_L = 0x10"
definition I2EC_SUB_ADDR_H :: u8 where "I2EC_SUB_ADDR_H = 0x11"
definition I2EC_SUB_DATA :: u8 where "I2EC_SUB_DATA = 0x12"
definition IT5570E_ECHIPID1 :: u16 where "IT5570E_ECHIPID1 = 0x2000"
definition IT5570E_ECHIPID2 :: u16 where "IT5570E_ECHIPID2 = 0x2001"
definition IT5570E_ID1 :: u8 where "IT5570E_ID1 = 0x55"
definition IT5570E_ID2 :: u8 where "IT5570E_ID2 = 0x70"

lemmas i2ec_consts = PNPCFG_INDEX_def PNPCFG_DATA_def PNPCFG_D2ADR_def PNPCFG_D2DAT_def
  I2EC_SUB_ADDR_L_def I2EC_SUB_ADDR_H_def I2EC_SUB_DATA_def

definition pnpcfg_select :: "'w kern \<Rightarrow> u8 \<Rightarrow> u8 \<Rightarrow> 'w \<Rightarrow> 'w" where
  "pnpcfg_select k index sub_index w = outb k sub_index PNPCFG_DATA (outb k index PNPCFG_INDEX w)"

definition minibook_ec_i2ec_read :: "'w kern \<Rightarrow> u16 \<Rightarrow> 'w \<Rightarrow> u8 \<times> 'w" where
  "minibook_ec_i2ec_read k addr w =
     (let w = mutex_lock k w;
          w = pnpcfg_select k PNPCFG_D2ADR I2EC_SUB_ADDR_H w;
          w = pnpcfg_select k PNPCFG_D2DAT (ucast (drop_bit 8 addr AND 0xFF)) w;
          w = pnpcfg_select k PNPCFG_D2ADR I2EC_SUB_ADDR_L w;
          w = pnpcfg_select k PNPCFG_D2DAT (ucast (addr AND 0xFF)) w;
          w = pnpcfg_select k PNPCFG_D2ADR I2EC_SUB_DATA w;
          w = outb k PNPCFG_D2DAT PNPCFG_INDEX w;
          (val, w) = inb k PNPCFG_DATA w;
          w = mutex_unlock k w
      in (val, w))"

definition minibook_ec_i2ec_write :: "'w kern \<Rightarrow> u16 \<Rightarrow> u8 \<Rightarrow> 'w \<Rightarrow> 'w" where
  "minibook_ec_i2ec_write k addr val w =
     (let w = mutex_lock k w;
          w = pnpcfg_select k PNPCFG_D2ADR I2EC_SUB_ADDR_H w;
          w = pnpcfg_select k PNPCFG_D2DAT (ucast (drop_bit 8 addr AND 0xFF)) w;
          w = pnpcfg_select k PNPCFG_D2ADR I2EC_SUB_ADDR_L w;
          w = pnpcfg_select k PNPCFG_D2DAT (ucast (addr AND 0xFF)) w;
          w = pnpcfg_select k PNPCFG_D2ADR I2EC_SUB_DATA w;
          w = pnpcfg_select k PNPCFG_D2DAT val w
      in mutex_unlock k w)"

definition minibook_ec_i2ec_init :: "'w kern \<Rightarrow> minibook_ec \<Rightarrow> 'w \<Rightarrow> errno option \<times> minibook_ec \<times> 'w" where
  "minibook_ec_i2ec_init k ec w =
     (let (ok, w) = request_region k PNPCFG_INDEX PNPCFG_IO_SIZE w in
      if \<not> ok then (Some EBUSY, ec, w)
      else
       (let ec = ec\<lparr>pnpcfg_available := True\<rparr>;
            (id1, w) = minibook_ec_i2ec_read k IT5570E_ECHIPID1 w;
            (bad, w) = (if id1 \<noteq> IT5570E_ID1 then (True, w)
                        else (let (id2, w) = minibook_ec_i2ec_read k IT5570E_ECHIPID2 w in (id2 \<noteq> IT5570E_ID2, w)))
        in if bad then (Some ENODEV, ec\<lparr>pnpcfg_available := False\<rparr>, release_region k PNPCFG_INDEX PNPCFG_IO_SIZE w)
           else (None, ec, w)))"

definition minibook_ec_i2ec_cleanup :: "'w kern \<Rightarrow> minibook_ec \<Rightarrow> 'w \<Rightarrow> minibook_ec \<times> 'w" where
  "minibook_ec_i2ec_cleanup k ec w =
     (if pnpcfg_available ec
      then (ec\<lparr>pnpcfg_available := False\<rparr>, release_region k PNPCFG_INDEX PNPCFG_IO_SIZE w)
      else (ec, w))"

section \<open>A flat memory\<close>

text \<open>The contract the rest of the module relies on; \<open>ok\<close> is what it asks of the environment.\<close>

locale ec_registers =
  fixes rd :: "u16 \<Rightarrow> 'w \<Rightarrow> u8 \<times> 'w" and wr :: "u16 \<Rightarrow> u8 \<Rightarrow> 'w \<Rightarrow> 'w"
    and mem :: "'w \<Rightarrow> u16 \<Rightarrow> u8" and ok :: bool
  assumes rd_value: "ok \<Longrightarrow> fst (rd a w) = mem w a"
    and rd_keeps: "ok \<Longrightarrow> mem (snd (rd a w)) = mem w"
    and wr_mem: "ok \<Longrightarrow> mem (wr a v w) = (mem w)(a := v)"
begin

lemma rd_result: "ok \<Longrightarrow> rd a w = (v, w') \<Longrightarrow> v = mem w a \<and> mem w' = mem w"
  using rd_value [of a w] rd_keeps [of a w] by simp

lemma rd_after_wr: "ok \<Longrightarrow> fst (rd a (wr b v w)) = (if a = b then v else fst (rd a w))"
  by (simp add: rd_value wr_mem)

text \<open>Read, change, write back: the register changes by \<open>f\<close>, all others keep their value.\<close>

lemma modify: "ok \<Longrightarrow> rd a w = (v, w') \<Longrightarrow> mem (wr a (f v) w') = (mem w)(a := f (mem w a))"
  using rd_result [of a w v w'] by (simp add: wr_mem)

end

text \<open>The address survives its way through two bytes.\<close>

lemma addr_bytes:
  "push_bit 8 (ucast (ucast (drop_bit 8 a AND 0xFF) :: u8)) OR ucast (ucast (a AND 0xFF) :: u8) = (a :: u16)"
proof -
  have m: "x AND 0xFF = take_bit 8 x" for x :: u16
    by (simp add: take_bit_eq_mask mask_eq_exp_minus_1)
  show ?thesis
    unfolding m
    by (rule bit_word_eqI) (auto simp: bit_or_iff bit_push_bit_iff bit_take_bit_iff bit_drop_bit_eq bit_ucast_iff
        dest: bit_imp_le_length)
qed

text \<open>The state the chip is left in: the address selected, ready for the data byte.\<close>

definition addressed :: "u16 \<Rightarrow> it5570 \<Rightarrow> it5570" where
  "addressed a c = c\<lparr>pnp_index := PNPCFG_D2DAT, d2adr := I2EC_SUB_DATA,
     i2ec_addr_l := ucast (a AND 0xFF), i2ec_addr_h := ucast (drop_bit 8 a AND 0xFF)\<rparr>"

lemma addressed_simps [simp]:
  "ec_mem (addressed a c) = ec_mem c" "i2ec_addr (addressed a c) = a" "pnp_index (addressed a c) = 0x2F"
  "d2adr (addressed a c) = 0x12"
  by (simp_all add: addressed_def i2ec_addr_def addr_bytes i2ec_consts)

lemma i2ec_read_chip:
  assumes "chip_laws k chip"
  shows "fst (minibook_ec_i2ec_read k a w) = ec_mem (chip w) a"
    "chip (snd (minibook_ec_i2ec_read k a w)) = addressed a (chip w)"
proof -
  note l = chip_lawsD [OF assms]
  let ?w = "outb k PNPCFG_D2DAT PNPCFG_INDEX (pnpcfg_select k PNPCFG_D2ADR I2EC_SUB_DATA
    (pnpcfg_select k PNPCFG_D2DAT (ucast (a AND 0xFF)) (pnpcfg_select k PNPCFG_D2ADR I2EC_SUB_ADDR_L
    (pnpcfg_select k PNPCFG_D2DAT (ucast (drop_bit 8 a AND 0xFF)) (pnpcfg_select k PNPCFG_D2ADR I2EC_SUB_ADDR_H
    (mutex_lock k w))))))"
  have c: "chip ?w = addressed a (chip w)"
    by (simp add: pnpcfg_select_def l chip_out_def i2ec_consts addressed_def)
  have "fst (inb k PNPCFG_DATA ?w) = ec_mem (chip w) a"
    using l(2) [of ?w] c by (simp add: chip_in_def PNPCFG_DATA_def)
  then show "fst (minibook_ec_i2ec_read k a w) = ec_mem (chip w) a"
    by (simp add: minibook_ec_i2ec_read_def case_prod_beta Let_def)
  have "chip (snd (inb k PNPCFG_DATA ?w)) = addressed a (chip w)"
    using l(3) [of ?w] c by (simp add: PNPCFG_DATA_def)
  then show "chip (snd (minibook_ec_i2ec_read k a w)) = addressed a (chip w)"
    by (simp add: minibook_ec_i2ec_read_def l case_prod_beta Let_def)
qed

lemma i2ec_write_chip:
  assumes "chip_laws k chip"
  shows "chip (minibook_ec_i2ec_write k a v w) = (addressed a (chip w))\<lparr>ec_mem := (ec_mem (chip w))(a := v)\<rparr>"
proof -
  note l = chip_lawsD [OF assms]
  show ?thesis
    by (simp add: minibook_ec_i2ec_write_def pnpcfg_select_def l chip_out_def i2ec_consts addressed_def
        i2ec_addr_def addr_bytes Let_def)
qed

interpretation i2ec: ec_registers "minibook_ec_i2ec_read k" "minibook_ec_i2ec_write k" "\<lambda>w. ec_mem (chip w)"
  "chip_laws k chip" for k :: "'w kern" and chip
  by unfold_locales (simp_all add: i2ec_read_chip i2ec_write_chip)

text \<open>C14: indirect access is access to a flat memory of 65536 bytes: whatever state the index registers
  were left in, a read returns the byte at the address and changes no byte, a write changes the byte
  at the address and no other.\<close>

theorem i2ec_flat_memory:
  assumes "chip_laws k chip"
  shows "fst (minibook_ec_i2ec_read k a w) = ec_mem (chip w) a \<and>
    ec_mem (chip (snd (minibook_ec_i2ec_read k a w))) = ec_mem (chip w) \<and>
    ec_mem (chip (minibook_ec_i2ec_write k a v w)) = (ec_mem (chip w))(a := v) \<and>
    fst (minibook_ec_i2ec_read k b (minibook_ec_i2ec_write k a v w)) = (if b = a then v else ec_mem (chip w) b)"
  using assms by (simp add: i2ec.rd_value i2ec.rd_keeps i2ec.wr_mem)

theorem i2ec_flat_memory_witness:
  "chip_laws (lab_kern False) lw_chip \<and> fst (minibook_ec_i2ec_read (lab_kern False) 0x2000 board) = ec_mem (lw_chip board) 0x2000"
  using i2ec_flat_memory [OF lab_chip_laws [of False], of "0x2000" board 0 0] lab_chip_laws by blast

end
