(* ===== verification/Ec_Sensors.thy ===== *)
theory Ec_Sensors
  imports Ec_I2ec
begin

text \<open>
  \<^verbatim>\<open>minibook_ec_fan.c\<close> and \<^verbatim>\<open>minibook_ec_thermal.c\<close>: fan speed and duty as hwmon channels, the SoC
  and charger temperatures as thermal zones.
\<close>

section \<open>Fan\<close>

definition IT5570E_DCR_FAN :: u16 where "IT5570E_DCR_FAN = 0x1809"
definition IT5570E_FAN_TACH_L :: u16 where "IT5570E_FAN_TACH_L = 0x181E"
definition IT5570E_FAN_TACH_M :: u16 where "IT5570E_FAN_TACH_M = 0x181F"
definition TACH_RPM_CONSTANT :: int where "TACH_RPM_CONSTANT = 1875000"

definition le_u16 :: "u8 \<Rightarrow> u8 \<Rightarrow> u16" where
  "le_u16 hi lo = push_bit 8 (ucast hi) OR ucast lo"

definition read_fan_rpm :: "'w kern \<Rightarrow> 'w \<Rightarrow> int \<times> 'w" where
  "read_fan_rpm k w =
     (let (tach_l, w) = minibook_ec_i2ec_read k IT5570E_FAN_TACH_L w;
          (tach_m, w) = minibook_ec_i2ec_read k IT5570E_FAN_TACH_M w;
          tach = le_u16 tach_m tach_l
      in if tach = 0 \<or> tach = 0xFFFF then (0, w)
         else (c_div TACH_RPM_CONSTANT (uint tach), w))"

text \<open>Sensor types and attributes of the hwmon core; the numbers are those of its enumerations.\<close>

datatype hwmon_sensor_types = hwmon_fan | hwmon_pwm | hwmon_other

definition hwmon_fan_input :: u32 where "hwmon_fan_input = 1"
definition hwmon_pwm_input :: u32 where "hwmon_pwm_input = 0"

definition fan_hwmon_visible :: "hwmon_sensor_types \<Rightarrow> u32 \<Rightarrow> nat" where
  "fan_hwmon_visible type attr =
     (if type = hwmon_fan \<and> attr = hwmon_fan_input then 292
      else if type = hwmon_pwm \<and> attr = hwmon_pwm_input then 292 else 0)"

definition fan_hwmon_read :: "'w kern \<Rightarrow> hwmon_sensor_types \<Rightarrow> u32 \<Rightarrow> 'w \<Rightarrow> (errno + int) \<times> 'w" where
  "fan_hwmon_read k type attr w =
     (if type = hwmon_fan \<and> attr = hwmon_fan_input
      then (let (rpm, w) = read_fan_rpm k w in (Inr rpm, w))
      else if type = hwmon_pwm \<and> attr = hwmon_pwm_input
      then (let (duty, w) = minibook_ec_i2ec_read k IT5570E_DCR_FAN w in (Inr (uint duty), w))
      else (Inl EOPNOTSUPP, w))"

definition minibook_ec_register_fan :: "'w kern \<Rightarrow> minibook_ec \<Rightarrow> 'w \<Rightarrow> errno option \<times> minibook_ec \<times> 'w" where
  "minibook_ec_register_fan k ec w =
     (if \<not> pnpcfg_available ec then (Some ENODEV, ec, w)
      else (let (dev, w) = hwmon_register k ''minibook_fan'' w;
                ec = ec\<lparr>hwmon_dev := dev\<rparr>
            in (case dev of KErr e \<Rightarrow> Some e | _ \<Rightarrow> None, ec, w)))"

definition minibook_ec_unregister_fan :: "minibook_ec \<Rightarrow> 'w \<Rightarrow> 'w" where
  "minibook_ec_unregister_fan ec w = w"

section \<open>Thermal zones\<close>

definition ADC_CH0_CTL :: u16 where "ADC_CH0_CTL = 0x1904"
definition ADC_CH0_DATL :: u16 where "ADC_CH0_DATL = 0x1918"
definition ADC_CH0_DATM :: u16 where "ADC_CH0_DATM = 0x1919"
definition ADC_GLITCH :: u16 where "ADC_GLITCH = 0x1FF"
definition ADC_ZERO_C_OFFSET :: u16 where "ADC_ZERO_C_OFFSET = 644"
definition ADC_RAW_PER_DEGREE :: int where "ADC_RAW_PER_DEGREE = 7"

definition soc_temp_get :: "'w kern \<Rightarrow> 'w \<Rightarrow> (errno + int) \<times> 'w" where
  "soc_temp_get k w = (case ec_read k EC_REG_SOC_TEMP w of
     (Inl e, w) \<Rightarrow> (Inl e, w)
   | (Inr val, w) \<Rightarrow> (if val = 0 \<or> val = 0xFF then Inl ENODATA else Inr (uint val * 1000), w))"

definition adc_read_raw :: "'w kern \<Rightarrow> 'w \<Rightarrow> u16 \<times> 'w" where
  "adc_read_raw k w =
     (let (ctl, w) = minibook_ec_i2ec_read k ADC_CH0_CTL w in
      if ctl = 0 then (0xFFFF, w)
      else (let (datl, w) = minibook_ec_i2ec_read k ADC_CH0_DATL w;
                (datm, w) = minibook_ec_i2ec_read k ADC_CH0_DATM w;
                raw = le_u16 datm datl
            in if raw = ADC_GLITCH \<or> raw = 0 then (0xFFFF, w) else (raw, w)))"

definition charger_temp_get :: "'w kern \<Rightarrow> 'w \<Rightarrow> (errno + int) \<times> 'w" where
  "charger_temp_get k w =
     (let (raw, w) = adc_read_raw k w in
      if raw = 0xFFFF then (Inl ENODATA, w)
      else (let raw = (if ADC_ZERO_C_OFFSET < raw then ADC_ZERO_C_OFFSET else raw);
                deg_c = c_div (uint ADC_ZERO_C_OFFSET - uint raw) ADC_RAW_PER_DEGREE
            in (Inr (deg_c * 1000), w)))"

definition register_soc_zone :: "'w kern \<Rightarrow> minibook_ec \<Rightarrow> 'w \<Rightarrow> errno option \<times> minibook_ec \<times> 'w" where
  "register_soc_zone k ec w = (case soc_temp_get k w of
     (Inl e, w) \<Rightarrow> (Some ENODEV, ec, w)
   | (Inr temp, w) \<Rightarrow>
      (let (tz, w) = thermal_zone_register k ''minibook_soc'' w;
           ec = ec\<lparr>soc_tz := tz\<rparr>
       in case tz of KErr e \<Rightarrow> (Some e, ec, w) | _ \<Rightarrow> (None, ec, thermal_zone_enable k tz w)))"

definition register_charger_zone :: "'w kern \<Rightarrow> minibook_ec \<Rightarrow> 'w \<Rightarrow> errno option \<times> minibook_ec \<times> 'w" where
  "register_charger_zone k ec w =
     (if \<not> pnpcfg_available ec then (Some ENODEV, ec, w)
      else (let (raw, w) = adc_read_raw k w in
        if raw = 0xFFFF then (Some ENODATA, ec, w)
        else (let (tz, w) = thermal_zone_register k ''minibook_charger'' w;
                  ec = ec\<lparr>charger_tz := tz\<rparr>
              in case tz of KErr e \<Rightarrow> (Some e, ec, w) | _ \<Rightarrow> (None, ec, thermal_zone_enable k tz w))))"

definition minibook_ec_register_thermal ::
  "'w kern \<Rightarrow> minibook_ec \<Rightarrow> 'w \<Rightarrow> errno option \<times> minibook_ec \<times> 'w" where
  "minibook_ec_register_thermal k ec w =
     (let (r, ec, w) = register_soc_zone k ec w;
          (r, ec, w) = register_charger_zone k ec w
      in (if kptr_nonnull (soc_tz ec) \<or> kptr_nonnull (charger_tz ec) then None else Some ENODEV, ec, w))"

definition minibook_ec_unregister_thermal :: "'w kern \<Rightarrow> minibook_ec \<Rightarrow> 'w \<Rightarrow> 'w" where
  "minibook_ec_unregister_thermal k ec w =
     (let w = (if kptr_nonnull (soc_tz ec) then thermal_zone_unregister k (soc_tz ec) w else w)
      in if kptr_nonnull (charger_tz ec) then thermal_zone_unregister k (charger_tz ec) w else w)"

section \<open>What the readings can be\<close>

definition tach_value :: "(u16 \<Rightarrow> u8) \<Rightarrow> u16" where
  "tach_value m = le_u16 (m IT5570E_FAN_TACH_M) (m IT5570E_FAN_TACH_L)"

definition adc_value :: "(u16 \<Rightarrow> u8) \<Rightarrow> u16" where
  "adc_value m = le_u16 (m ADC_CH0_DATM) (m ADC_CH0_DATL)"

lemma read_fan_rpm_value:
  assumes "chip_laws k chip"
  shows "fst (read_fan_rpm k w) = (let t = tach_value (ec_mem (chip w)) in
    if t = 0 \<or> t = 0xFFFF then 0 else 1875000 div uint t)"
proof -
  note r = i2ec.rd_value [OF assms] i2ec.rd_keeps [OF assms]
  have "c_div TACH_RPM_CONSTANT (uint t) = 1875000 div uint t" if "t \<noteq> 0" for t :: u16
  proof -
    have "0 < uint t" using that by (metis uint_0_eq uint_ge_0 word_uint_eq_iff less_le unsigned_0)
    then show ?thesis by (simp add: c_div_nonneg TACH_RPM_CONSTANT_def)
  qed
  then show ?thesis by (simp add: read_fan_rpm_def tach_value_def case_prod_beta Let_def r)
qed

text \<open>The fan speed is 0 for a counter of 0 or 65535 and otherwise the constant 1875000 divided by the
  counter, between 28 and 1875000, so a stopped and a turning fan are told apart.\<close>

theorem fan_rpm_range:
  assumes "chip_laws k chip" "t = tach_value (ec_mem (chip w))"
  shows "if t = 0 \<or> t = 0xFFFF then fst (read_fan_rpm k w) = 0
    else fst (read_fan_rpm k w) = 1875000 div uint t \<and> 28 \<le> fst (read_fan_rpm k w) \<and> fst (read_fan_rpm k w) \<le> 1875000"
proof (cases "t = 0 \<or> t = 0xFFFF")
  case False
  have t: "0 < uint t" using False by (metis uint_0_eq uint_ge_0 word_uint_eq_iff less_le unsigned_0)
  have "uint t < 2 ^ 16" using uint_lt2p [of t] by simp
  then have "1875000 div 65536 \<le> 1875000 div uint t" using t by (intro zdiv_mono2) simp_all
  moreover have "1875000 div uint t \<le> 1875000 div 1" using t by (intro zdiv_mono2) simp_all
  ultimately show ?thesis using False assms by (simp add: read_fan_rpm_value Let_def)
qed (use assms in \<open>auto simp: read_fan_rpm_value\<close>)

theorem fan_rpm_range_witness: "fst (read_fan_rpm (lab_kern False) board) = 1875000 div 464"
proof -
  have t: "tach_value (ec_mem (lw_chip board)) = 464" by code_simp
  show ?thesis using fan_rpm_range [OF lab_chip_laws [of False], of 464 board] t by simp
qed

lemma charger_temp_value:
  assumes "chip_laws k chip"
  shows "fst (charger_temp_get k w) = (let m = ec_mem (chip w); r = adc_value m in
    if m ADC_CH0_CTL = 0 \<or> r \<in> {0, ADC_GLITCH, 0xFFFF} then Inl ENODATA
    else Inr ((644 - min 644 (uint r)) div 7 * 1000))"
proof -
  note r = i2ec.rd_value [OF assms] i2ec.rd_keeps [OF assms]
  have d: "644 < v \<Longrightarrow> (644 - min 644 (uint v)) div 7 = 0"
    "\<not> 644 < v \<Longrightarrow> c_div (644 - uint v) 7 = (644 - min 644 (uint v)) div 7" "c_div 0 7 = 0" for v :: u16
    by (auto simp: c_div_nonneg word_less_def min_def)
  show ?thesis
    by (auto simp: charger_temp_get_def adc_read_raw_def adc_value_def case_prod_beta Let_def r d
        ADC_ZERO_C_OFFSET_def ADC_RAW_PER_DEGREE_def)
qed

text \<open>The charger temperature is refused for a channel that is off and for the three glitch values,
  and otherwise lies between 0 and 92 degrees, whatever the converter delivers; a higher raw value
  never reads as hotter.\<close>

theorem charger_temp_range:
  assumes "chip_laws k chip"
  shows "(case fst (charger_temp_get k w) of Inl e \<Rightarrow> e = ENODATA | Inr t \<Rightarrow> 0 \<le> t \<and> t \<le> 92000) \<and>
    (case (fst (charger_temp_get k w), fst (charger_temp_get k w')) of
       (Inr t, Inr t') \<Rightarrow> adc_value (ec_mem (chip w)) \<le> adc_value (ec_mem (chip w')) \<longrightarrow> t' \<le> t
     | _ \<Rightarrow> True)"
proof -
  have "(644 - min 644 i) div 7 \<le> 644 div (7 :: int)" if "0 \<le> i" for i
    using that by (intro zdiv_mono1) simp_all
  then have "(644 - min 644 i) div 7 \<le> (92 :: int)" if "0 \<le> i" for i using that by fastforce
  moreover have "0 \<le> (644 - min 644 i) div (7 :: int)" for i by (simp add: pos_imp_zdiv_nonneg_iff)
  moreover have "(644 - min 644 j) div 7 \<le> (644 - min 644 i) div (7 :: int)" if "i \<le> j" for i j
    using that by (intro zdiv_mono1) (simp_all add: min_def)
  ultimately show ?thesis
    using assms by (auto simp: charger_temp_value Let_def word_le_def)
qed

theorem charger_temp_range_witness: "fst (charger_temp_get (lab_kern False) board) = Inr 49000 \<and> (49000 :: int) \<le> 92000"
proof -
  have "adc_value (ec_mem (lw_chip board)) = 300" "ec_mem (lw_chip board) ADC_CH0_CTL = 1" by code_simp+
  then have "fst (charger_temp_get (lab_kern False) board) = Inr 49000"
    by (simp add: charger_temp_value [OF lab_chip_laws] ADC_GLITCH_def Let_def)
  then show ?thesis using charger_temp_range [OF lab_chip_laws [of False], of board board] by simp
qed

end
