(* ===== verification/Ec_Backlight.thy ===== *)
theory Ec_Backlight
  imports Ec_I2ec
begin

text \<open>
  \<^verbatim>\<open>minibook_ec_kbd_backlight.c\<close>: brightness, auto-off timer and the polling work that reports changes
  the EC firmware made by itself.
\<close>

section \<open>Operations\<close>

definition IT5570E_KBD_BL_DCR :: u16 where "IT5570E_KBD_BL_DCR = 0x1803"
definition IT5570E_KBD_BL_GPIO_GATE :: u16 where "IT5570E_KBD_BL_GPIO_GATE = 0x1611"
definition KBD_BL_GPIO_GATE_OFF :: u8 where "KBD_BL_GPIO_GATE_OFF = 0x40"
definition EC_KBD_BL_SETPOINT :: u16 where "EC_KBD_BL_SETPOINT = 0x03E2"
definition EC_KBD_BL_TIMER_SUSPEND :: u16 where "EC_KBD_BL_TIMER_SUSPEND = 0x0411"
definition KBD_BL_TIMER_SUSPEND_MAGIC :: u8 where "KBD_BL_TIMER_SUSPEND_MAGIC = 0xEE"
definition KBD_BL_MAX_BRIGHTNESS :: nat where "KBD_BL_MAX_BRIGHTNESS = 0xFF"
definition KBD_BL_LED_NAME :: string where "KBD_BL_LED_NAME = ''minibook::kbd_backlight''"

definition kbd_bl_output_gated :: "'w kern \<Rightarrow> 'w \<Rightarrow> bool \<times> 'w" where
  "kbd_bl_output_gated k w =
     (let (gpio, w) = minibook_ec_i2ec_read k IT5570E_KBD_BL_GPIO_GATE w
      in (gpio AND KBD_BL_GPIO_GATE_OFF \<noteq> 0, w))"

definition kbd_bl_set_output :: "'w kern \<Rightarrow> bool \<Rightarrow> 'w \<Rightarrow> 'w" where
  "kbd_bl_set_output k enable w =
     (let (gpio, w) = minibook_ec_i2ec_read k IT5570E_KBD_BL_GPIO_GATE w;
          gpio = (if enable then gpio AND NOT KBD_BL_GPIO_GATE_OFF else gpio OR KBD_BL_GPIO_GATE_OFF)
      in minibook_ec_i2ec_write k IT5570E_KBD_BL_GPIO_GATE gpio w)"

definition kbd_bl_set_duty :: "'w kern \<Rightarrow> u8 \<Rightarrow> 'w \<Rightarrow> 'w" where
  "kbd_bl_set_duty k duty w =
     minibook_ec_i2ec_write k EC_KBD_BL_SETPOINT duty (minibook_ec_i2ec_write k IT5570E_KBD_BL_DCR duty w)"

definition kbd_bl_timer_suspended :: "'w kern \<Rightarrow> 'w \<Rightarrow> bool \<times> 'w" where
  "kbd_bl_timer_suspended k w =
     (let (flag, w) = minibook_ec_i2ec_read k EC_KBD_BL_TIMER_SUSPEND w
      in (flag = KBD_BL_TIMER_SUSPEND_MAGIC, w))"

definition kbd_bl_set_auto_off :: "'w kern \<Rightarrow> bool \<Rightarrow> 'w \<Rightarrow> 'w" where
  "kbd_bl_set_auto_off k enable w =
     minibook_ec_i2ec_write k EC_KBD_BL_TIMER_SUSPEND (if \<not> enable then KBD_BL_TIMER_SUSPEND_MAGIC else 0) w"

text \<open>The LED core's brightness is wider than the register: it is cut to a byte on the way.\<close>

definition kbd_bl_brightness_set :: "'w kern \<Rightarrow> kbd_backlight \<Rightarrow> u32 \<Rightarrow> 'w \<Rightarrow> kbd_backlight \<times> 'w" where
  "kbd_bl_brightness_set k kbl value w =
     (let w = kbd_bl_set_duty k (ucast value) w;
          (suspended, w) = kbd_bl_timer_suspended k w;
          w = (if suspended then kbd_bl_set_output k (value \<noteq> 0) w else w)
      in (kbl\<lparr>last_observed := ucast value\<rparr>, w))"

definition kbd_bl_brightness_get :: "'w kern \<Rightarrow> 'w \<Rightarrow> u8 \<times> 'w" where
  "kbd_bl_brightness_get k w =
     (let (gated, w) = kbd_bl_output_gated k w
      in if gated then (0, w) else minibook_ec_i2ec_read k IT5570E_KBD_BL_DCR w)"

definition kbd_bl_poll_work :: "'w kern \<Rightarrow> kbd_backlight \<Rightarrow> 'w \<Rightarrow> kbd_backlight \<times> 'w" where
  "kbd_bl_poll_work k kbl w =
     (let (current_bri, w) = kbd_bl_brightness_get k w;
          (kbl, w) = (if current_bri \<noteq> last_observed kbl
            then (kbl\<lparr>last_observed := current_bri\<rparr>, notify_hw_changed k current_bri w) else (kbl, w))
      in (kbl, queue_delayed_work k w))"

definition auto_off_timer_show :: "'w kern \<Rightarrow> 'w \<Rightarrow> string \<times> 'w" where
  "auto_off_timer_show k w =
     (let (suspended, w) = kbd_bl_timer_suspended k w
      in (show_int (if \<not> suspended then 1 else 0) @ newline, w))"

definition auto_off_timer_store :: "'w kern \<Rightarrow> string \<Rightarrow> 'w \<Rightarrow> (errno + nat) \<times> 'w" where
  "auto_off_timer_store k buf w = (case kstrtobool k buf of
     Inl e \<Rightarrow> (Inl e, w)
   | Inr enable \<Rightarrow> (Inr (length buf), kbd_bl_set_auto_off k enable w))"

definition minibook_ec_register_kbd_backlight ::
  "'w kern \<Rightarrow> bool \<Rightarrow> minibook_ec \<Rightarrow> 'w \<Rightarrow> errno option \<times> minibook_ec \<times> 'w" where
  "minibook_ec_register_kbd_backlight k poll_hw_changed ec w =
     (if \<not> pnpcfg_available ec then (Some ENODEV, ec, w)
      else (let (ok, w) = devm_kzalloc k w in
        if \<not> ok then (Some ENOMEM, ec, w)
        else (let kbl = \<lparr>cdev_name = KBD_BL_LED_NAME, max_brightness = KBD_BL_MAX_BRIGHTNESS,
                         hw_changed_flag = poll_hw_changed, last_observed = 0\<rparr>;
                  ec = ec\<lparr>kbd_bl := Some kbl\<rparr>
              in case led_classdev_register k KBD_BL_LED_NAME w of
                   (Some e, w) \<Rightarrow> (Some e, ec, w)
                 | (None, w) \<Rightarrow>
                    if \<not> poll_hw_changed then (None, ec, w)
                    else (let (b, w) = kbd_bl_brightness_get k w;
                              ec = ec\<lparr>kbd_bl := Some (kbl\<lparr>last_observed := b\<rparr>)\<rparr>
                          in case delayed_work_autocancel k w of
                               (Some e, w) \<Rightarrow> (Some e, ec, w)
                             | (None, w) \<Rightarrow> (None, ec, queue_delayed_work k w)))))"

section \<open>What they do to the EC's memory\<close>

text \<open>The four registers are different ones.\<close>

lemma kbd_registers [simp]:
  "IT5570E_KBD_BL_DCR \<noteq> IT5570E_KBD_BL_GPIO_GATE" "IT5570E_KBD_BL_DCR \<noteq> EC_KBD_BL_SETPOINT"
  "IT5570E_KBD_BL_DCR \<noteq> EC_KBD_BL_TIMER_SUSPEND" "IT5570E_KBD_BL_GPIO_GATE \<noteq> EC_KBD_BL_SETPOINT"
  "IT5570E_KBD_BL_GPIO_GATE \<noteq> EC_KBD_BL_TIMER_SUSPEND" "EC_KBD_BL_SETPOINT \<noteq> EC_KBD_BL_TIMER_SUSPEND"
  by (simp_all add: IT5570E_KBD_BL_DCR_def IT5570E_KBD_BL_GPIO_GATE_def EC_KBD_BL_SETPOINT_def
      EC_KBD_BL_TIMER_SUSPEND_def)

declare kbd_registers [symmetric, simp]

definition gate_closed :: "(u16 \<Rightarrow> u8) \<Rightarrow> bool" where
  "gate_closed m \<longleftrightarrow> m IT5570E_KBD_BL_GPIO_GATE AND KBD_BL_GPIO_GATE_OFF \<noteq> 0"

definition timer_suspended :: "(u16 \<Rightarrow> u8) \<Rightarrow> bool" where
  "timer_suspended m \<longleftrightarrow> m EC_KBD_BL_TIMER_SUSPEND = KBD_BL_TIMER_SUSPEND_MAGIC"

text \<open>The brightness a user sees.\<close>

definition shown :: "(u16 \<Rightarrow> u8) \<Rightarrow> u8" where
  "shown m = (if gate_closed m then 0 else m IT5570E_KBD_BL_DCR)"

lemma brightness_get_mem:
  assumes "chip_laws k chip"
  shows "fst (kbd_bl_brightness_get k w) = shown (ec_mem (chip w))"
    "ec_mem (chip (snd (kbd_bl_brightness_get k w))) = ec_mem (chip w)"
  by (simp_all add: kbd_bl_brightness_get_def kbd_bl_output_gated_def shown_def gate_closed_def case_prod_beta
      i2ec.rd_value [OF assms] i2ec.rd_keeps [OF assms])

definition gate_byte :: "bool \<Rightarrow> u8 \<Rightarrow> u8" where
  "gate_byte b g = (if b then g AND NOT KBD_BL_GPIO_GATE_OFF else g OR KBD_BL_GPIO_GATE_OFF)"

lemma set_output_mem:
  assumes "chip_laws k chip"
  shows "ec_mem (chip (kbd_bl_set_output k b w)) =
    (ec_mem (chip w))(IT5570E_KBD_BL_GPIO_GATE := gate_byte b (ec_mem (chip w) IT5570E_KBD_BL_GPIO_GATE))"
  by (simp add: kbd_bl_set_output_def gate_byte_def case_prod_beta
      i2ec.rd_value [OF assms] i2ec.rd_keeps [OF assms] i2ec.wr_mem [OF assms])

lemma brightness_set_mem:
  assumes "chip_laws k chip"
  shows "ec_mem (chip (snd (kbd_bl_brightness_set k kbl v w))) = (let m = (ec_mem (chip w))
      (IT5570E_KBD_BL_DCR := ucast v, EC_KBD_BL_SETPOINT := ucast v)
    in if timer_suspended (ec_mem (chip w))
       then m(IT5570E_KBD_BL_GPIO_GATE := gate_byte (v \<noteq> 0) (m IT5570E_KBD_BL_GPIO_GATE)) else m)"
  by (simp add: kbd_bl_brightness_set_def kbd_bl_set_duty_def kbd_bl_timer_suspended_def timer_suspended_def
      case_prod_beta Let_def set_output_mem [OF assms]
      i2ec.rd_value [OF assms] i2ec.rd_keeps [OF assms] i2ec.wr_mem [OF assms])

lemma gate_byte_closed: "gate_byte b g AND KBD_BL_GPIO_GATE_OFF \<noteq> 0 \<longleftrightarrow> \<not> b"
proof -
  have "KBD_BL_GPIO_GATE_OFF \<noteq> 0" by (simp add: KBD_BL_GPIO_GATE_OFF_def)
  moreover have "(g AND NOT x) AND x = 0" "(g OR x) AND x = x" for g x :: u8
    by (auto simp: bit_eq_iff bit_and_iff bit_or_iff bit_not_iff)
  ultimately show ?thesis by (simp add: gate_byte_def)
qed

text \<open>C15: reading the brightness back after setting it: with the auto-off timer suspended the driver
  drives the gate itself and the value set is the value shown; with the timer active the gate is left
  to the firmware, and the value set is shown unless the firmware had switched the light off. Only
  the duty, the setpoint and (with the timer suspended) the gate bit change.\<close>

theorem brightness_set_get:
  assumes "chip_laws k chip" "v \<le> 255" "kbd_bl_brightness_set k kbl v w = (kbl', w')"
  shows "fst (kbd_bl_brightness_get k w') =
      (if timer_suspended (ec_mem (chip w)) \<or> \<not> gate_closed (ec_mem (chip w)) then ucast v else 0) \<and>
    last_observed kbl' = ucast v \<and>
    ec_mem (chip w') EC_KBD_BL_SETPOINT = ucast v \<and>
    (\<forall>a. a \<notin> {IT5570E_KBD_BL_DCR, EC_KBD_BL_SETPOINT, IT5570E_KBD_BL_GPIO_GATE} \<longrightarrow> ec_mem (chip w') a = ec_mem (chip w) a) \<and>
    ec_mem (chip w') IT5570E_KBD_BL_GPIO_GATE AND NOT KBD_BL_GPIO_GATE_OFF =
      ec_mem (chip w) IT5570E_KBD_BL_GPIO_GATE AND NOT KBD_BL_GPIO_GATE_OFF"
proof -
  have m: "ec_mem (chip w') = (let m = (ec_mem (chip w)) (IT5570E_KBD_BL_DCR := ucast v, EC_KBD_BL_SETPOINT := ucast v)
    in if timer_suspended (ec_mem (chip w))
       then m(IT5570E_KBD_BL_GPIO_GATE := gate_byte (v \<noteq> 0) (m IT5570E_KBD_BL_GPIO_GATE)) else m)"
    using brightness_set_mem [OF assms(1), of kbl v w] assms(3) by simp
  have z: "(ucast v :: u8) = 0 \<longleftrightarrow> v = 0"
  proof -
    have "unat v < 256" using assms(2) by (simp add: word_le_nat_alt)
    then have "unat (ucast v :: u8) = unat v" by (simp add: unsigned_ucast_eq take_bit_nat_eq_self)
    then show ?thesis by (metis unat_eq_zero)
  qed
  have g: "gate_byte b g AND NOT KBD_BL_GPIO_GATE_OFF = g AND NOT KBD_BL_GPIO_GATE_OFF" for b g
    by (auto simp: gate_byte_def bit_eq_iff bit_and_iff bit_or_iff bit_not_iff)
  have "last_observed kbl' = ucast v"
    using assms(3) by (auto simp: kbd_bl_brightness_set_def case_prod_beta Let_def)
  moreover have "shown (ec_mem (chip w')) =
      (if timer_suspended (ec_mem (chip w)) \<or> \<not> gate_closed (ec_mem (chip w)) then ucast v else 0)"
    using z unfolding m
    by (auto simp: shown_def gate_closed_def gate_byte_closed  Let_def)
  ultimately show ?thesis
    unfolding brightness_get_mem [OF assms(1)] by (auto simp: m g  Let_def)
qed

text \<open>The polling work reports a change exactly when the brightness shown differs from the one last
  observed, with the current value; afterwards the two agree, so that a second run without a change in
  between reports nothing. \<open>notes\<close> shows the notifications in the world.\<close>

theorem poll_reports_changes:
  assumes "chip_laws k chip" "kbd_bl_poll_work k kbl w = (kbl', w')"
    and "\<And>v w. notes (notify_hw_changed k v w) = notes w @ [v]" "\<And>w. notes (queue_delayed_work k w) = notes w"
    and "\<And>a w. notes (snd (minibook_ec_i2ec_read k a w)) = notes w"
  shows "last_observed kbl' = shown (ec_mem (chip w)) \<and>
    notes w' = notes w @ (if shown (ec_mem (chip w)) = last_observed kbl then [] else [shown (ec_mem (chip w))])"
proof -
  have "notes (snd (kbd_bl_brightness_get k w)) = notes w"
    by (simp add: kbd_bl_brightness_get_def kbd_bl_output_gated_def case_prod_beta assms(5))
  then show ?thesis
    using assms(2) brightness_get_mem(1) [OF assms(1), of w]
    by (auto simp: kbd_bl_poll_work_def case_prod_beta Let_def assms(3,4) split: if_splits)
qed

text \<open>The timer attribute: what is stored is what is shown.\<close>

lemma show_bit: "show_int 1 = ''1''" "show_int 0 = ''0''"
  by code_simp+

lemma auto_off_store_show:
  assumes "chip_laws k chip" "kstrtobool k buf = Inr b" "auto_off_timer_store k buf w = (r, w')"
  shows "r = Inr (length buf) \<and> fst (auto_off_timer_show k w') = (if b then ''1'' else ''0'') @ newline"
  using assms(2,3) show_bit
  by (cases b) (auto simp: auto_off_timer_store_def auto_off_timer_show_def kbd_bl_set_auto_off_def kbd_bl_timer_suspended_def
      case_prod_beta i2ec.rd_value [OF assms(1)] i2ec.wr_mem [OF assms(1)] KBD_BL_TIMER_SUSPEND_MAGIC_def)

theorem brightness_set_get_witness:
  "fst (kbd_bl_brightness_get (lab_kern False) (snd (kbd_bl_brightness_set (lab_kern False)
     \<lparr>cdev_name = [], max_brightness = 255, hw_changed_flag = True, last_observed = 0\<rparr> 200 board))) = 200"
proof -
  let ?k = "lab_kern False" and ?b = "\<lparr>cdev_name = [], max_brightness = 255, hw_changed_flag = True, last_observed = 0\<rparr>"
  have "\<not> gate_closed (ec_mem (lw_chip board))" by code_simp
  then show ?thesis
    using brightness_set_get [OF lab_chip_laws [of False], of 200 ?b board] by (cases "kbd_bl_brightness_set ?k ?b 200 board") simp
qed

theorem poll_reports_changes_witness:
  "rev (lw_notified (snd (kbd_bl_poll_work (lab_kern False)
     \<lparr>cdev_name = [], max_brightness = 255, hw_changed_flag = True, last_observed = 0\<rparr> board))) = [128]"
proof -
  let ?k = "lab_kern False" and ?b = "\<lparr>cdev_name = [], max_brightness = 255, hw_changed_flag = True, last_observed = 0\<rparr>"
  have s: "shown (ec_mem (lw_chip board)) = 128" "rev (lw_notified board) = []" by code_simp+
  have n: "rev (lw_notified (notify_hw_changed ?k v w)) = rev (lw_notified w) @ [v]"
    "rev (lw_notified (queue_delayed_work ?k w)) = rev (lw_notified w)" for v w by (simp_all add: lab_kern_def)
  have i: "rev (lw_notified (snd (minibook_ec_i2ec_read ?k a w))) = rev (lw_notified w)" for a w
    by (simp add: minibook_ec_i2ec_read_def pnpcfg_select_def lab_kern_def)
  show ?thesis
    using poll_reports_changes [OF lab_chip_laws [of False], of ?b board _ _ "\<lambda>w. rev (lw_notified w)", OF _ n i] s
    by (cases "kbd_bl_poll_work ?k ?b board") simp
qed

end
