(* ===== verification/Ec_Core.thy ===== *)
theory Ec_Core
  imports Ec_Sensors Ec_Backlight
begin

text \<open>
  \<^verbatim>\<open>minibook_ec_sysfs.c\<close> and \<^verbatim>\<open>minibook_ec_core.c\<close>: the sysfs attributes and the driver's probe and
  remove, with what they leave behind.
\<close>

section \<open>Sysfs attributes\<close>

definition touchpad_enabled_show :: "'w kern \<Rightarrow> 'w \<Rightarrow> (errno + string) \<times> 'w" where
  "touchpad_enabled_show k w = (case ec_read k EC_REG_TPTL w of
     (Inl e, w) \<Rightarrow> (Inl e, w)
   | (Inr val, w) \<Rightarrow> (Inr (show_int (if val \<noteq> TPTL_OFF then 1 else 0) @ newline), w))"

definition touchpad_enabled_store :: "'w kern \<Rightarrow> string \<Rightarrow> 'w \<Rightarrow> (errno + nat) \<times> 'w" where
  "touchpad_enabled_store k buf w = (case kstrtobool k buf of
     Inl e \<Rightarrow> (Inl e, w)
   | Inr enable \<Rightarrow> (case ec_write k EC_REG_TPTL (if enable then TPTL_ON else TPTL_OFF) w of
        (Some e, w) \<Rightarrow> (Inl e, w)
      | (None, w) \<Rightarrow> (Inr (length buf), w)))"

definition keyboard_enabled_show :: "'w kern \<Rightarrow> 'w \<Rightarrow> (errno + string) \<times> 'w" where
  "keyboard_enabled_show k w = (case ec_read k EC_REG_KBCD w of
     (Inl e, w) \<Rightarrow> (Inl e, w)
   | (Inr val, w) \<Rightarrow> (Inr (show_int (if val = KBCD_LAPTOP then 1 else 0) @ newline), w))"

definition keyboard_enabled_store :: "'w kern \<Rightarrow> string \<Rightarrow> 'w \<Rightarrow> (errno + nat) \<times> 'w" where
  "keyboard_enabled_store k buf w = (case kstrtobool k buf of
     Inl e \<Rightarrow> (Inl e, w)
   | Inr enable \<Rightarrow> (case acpi_evaluate_integer k LTSM_PATH (if enable then 0 else 1) w of
        (ok, w) \<Rightarrow> (if ok then Inr (length buf) else Inl EIO, w)))"

definition ec_version_show :: "'w kern \<Rightarrow> 'w \<Rightarrow> (errno + string) \<times> 'w" where
  "ec_version_show k w = (case ec_read k EC_REG_ECMV w of
     (Inl e, w) \<Rightarrow> (Inl e, w)
   | (Inr ecmv, w) \<Rightarrow> (case ec_read k EC_REG_ECSV w of
     (Inl e, w) \<Rightarrow> (Inl e, w)
   | (Inr ecsv, w) \<Rightarrow> (case ec_read k EC_REG_KBVS w of
     (Inl e, w) \<Rightarrow> (Inl e, w)
   | (Inr kbvs, w) \<Rightarrow> (case ec_read k EC_REG_ECTV w of
     (Inl e, w) \<Rightarrow> (Inl e, w)
   | (Inr ectv, w) \<Rightarrow> (Inr (show_nat (unat ecmv) @ ''.'' @ show_nat (unat ecsv) @ '' kb='' @ show_nat (unat kbvs) @
        '' tp='' @ show_nat (unat ectv) @ newline), w)))))"

definition bios_unlock_store :: "'w kern \<Rightarrow> string \<Rightarrow> 'w \<Rightarrow> (errno + nat) \<times> 'w" where
  "bios_unlock_store k buf w = (case kstrtobool k buf of
     Inl e \<Rightarrow> (Inl e, w)
   | Inr unlock \<Rightarrow> if \<not> unlock then (Inl EINVAL, w)
       else (case ec_write k EC_REG_UNLOCK UNLOCK_MAGIC w of
               (Some e, w) \<Rightarrow> (Inl e, w)
             | (None, w) \<Rightarrow> (Inr (length buf), w)))"

definition minibook_ec_register_sysfs :: "'w kern \<Rightarrow> 'w \<Rightarrow> errno option \<times> 'w" where
  "minibook_ec_register_sysfs k w = devm_device_add_group k w"

section \<open>Probe and remove\<close>

definition ec_zero :: minibook_ec where
  "ec_zero = \<lparr>soc_tz = KNull, charger_tz = KNull, hwmon_dev = KNull, kbd_bl = None, pnpcfg_available = False\<rparr>"

text \<open>The features after the sysfs group are optional: a failure is a warning.\<close>

definition probe_features :: "'w kern \<Rightarrow> bool \<Rightarrow> minibook_ec \<Rightarrow> 'w \<Rightarrow> minibook_ec \<times> 'w" where
  "probe_features k poll_hw_changed ec w =
     (let (r, ec, w) = minibook_ec_i2ec_init k ec w;
          (r, ec, w) = minibook_ec_register_thermal k ec w;
          (r, ec, w) = minibook_ec_register_fan k ec w;
          (r, ec, w) = minibook_ec_register_kbd_backlight k poll_hw_changed ec w
      in (ec, w))"

definition minibook_ec_probe :: "'w kern \<Rightarrow> bool \<Rightarrow> 'w \<Rightarrow> (errno + minibook_ec) \<times> 'w" where
  "minibook_ec_probe k poll_hw_changed w =
     (let (ok, w) = devm_kzalloc k w in
      if \<not> ok then (Inl ENOMEM, w)
      else (case ec_read k EC_REG_TPTL w of
        (Inl e, w) \<Rightarrow> (Inl e, w)
      | (Inr tptl, w) \<Rightarrow> (case ec_read k EC_REG_KBCD w of
        (Inl e, w) \<Rightarrow> (Inl e, w)
      | (Inr kbcd, w) \<Rightarrow> (case minibook_ec_register_sysfs k w of
        (Some e, w) \<Rightarrow> (Inl e, w)
      | (None, w) \<Rightarrow> (let (ec, w) = probe_features k poll_hw_changed ec_zero w in (Inr ec, w))))))"

definition minibook_ec_remove :: "'w kern \<Rightarrow> minibook_ec \<Rightarrow> 'w \<Rightarrow> minibook_ec \<times> 'w" where
  "minibook_ec_remove k ec w =
     (let w = minibook_ec_unregister_thermal k ec w;
          w = minibook_ec_unregister_fan ec w
      in minibook_ec_i2ec_cleanup k ec w)"

text \<open>Loading and unloading the module; the platform core calls probe and remove.\<close>

definition minibook_ec_init :: "'w kern \<Rightarrow> 'w \<Rightarrow> errno option \<times> kptr \<times> 'w" where
  "minibook_ec_init k w = (case platform_driver_register k w of
     (Some e, w) \<Rightarrow> (Some e, KNull, w)
   | (None, w) \<Rightarrow> (case platform_device_register_simple k ''minibook_ec'' w of
        (KErr e, w) \<Rightarrow> (Some e, KErr e, platform_driver_unregister k w)
      | (pdev, w) \<Rightarrow> (None, pdev, w)))"

definition minibook_ec_exit :: "'w kern \<Rightarrow> kptr \<Rightarrow> 'w \<Rightarrow> 'w" where
  "minibook_ec_exit k pdev w = platform_driver_unregister k (platform_device_unregister k pdev w)"

section \<open>What probe registers, remove takes back\<close>

lemma read_same:
  assumes "resource_laws k zones regions"
  shows "same_resources zones regions w (snd (minibook_ec_i2ec_read k a w))"
proof -
  note l = resource_lawsD [OF assms, unfolded same_resources_def]
  show ?thesis
    by (simp add: minibook_ec_i2ec_read_def pnpcfg_select_def same_resources_def case_prod_beta Let_def l)
qed

text \<open>What the driver holds: its zones and its region.\<close>

fun zone_of :: "kptr \<Rightarrow> nat set" where
  "zone_of (KPtr p) = {p}"
| "zone_of _ = {}"

definition holds :: "('w \<Rightarrow> nat set) \<Rightarrow> ('w \<Rightarrow> nat) \<Rightarrow> 'w \<Rightarrow> minibook_ec \<Rightarrow> 'w \<Rightarrow> bool" where
  "holds zones regions w0 ec w \<longleftrightarrow>
     zones w = zones w0 \<union> zone_of (soc_tz ec) \<union> zone_of (charger_tz ec) \<and>
     zone_of (soc_tz ec) \<inter> zones w0 = {} \<and> zone_of (charger_tz ec) \<inter> (zones w0 \<union> zone_of (soc_tz ec)) = {} \<and>
     regions w = regions w0 + (if pnpcfg_available ec then 1 else 0)"

lemma holds_same: "same_resources zones regions w w' \<Longrightarrow> holds zones regions w0 ec w' = holds zones regions w0 ec w"
  by (simp add: holds_def same_resources_def)

lemma i2ec_init_holds:
  assumes "resource_laws k zones regions" "minibook_ec_i2ec_init k ec_zero w = (r, ec, w')"
  shows "holds zones regions w ec w' \<and> soc_tz ec = KNull \<and> charger_tz ec = KNull"
proof -
  note rd = read_same [OF assms(1), unfolded same_resources_def]
  obtain ok w1 where q: "request_region k PNPCFG_INDEX PNPCFG_IO_SIZE w = (ok, w1)" by fastforce
  have q': "zones w1 = zones w" "regions w1 = regions w + (if ok then 1 else 0)"
    using assms(1) q unfolding resource_laws_def by (metis fst_conv snd_conv)+
  have rl: "zones (release_region k p n w) = zones w" "regions (release_region k p n w) = regions w - 1" for p n w
    using assms(1) by (simp_all add: resource_laws_def)
  obtain id1 w2 where i1: "minibook_ec_i2ec_read k IT5570E_ECHIPID1 w1 = (id1, w2)" by fastforce
  obtain id2 w3 where i2: "minibook_ec_i2ec_read k IT5570E_ECHIPID2 w2 = (id2, w3)" by fastforce
  have s: "zones w2 = zones w1" "regions w2 = regions w1" "zones w3 = zones w1" "regions w3 = regions w1"
    using rd [of IT5570E_ECHIPID1 w1] rd [of IT5570E_ECHIPID2 w2] i1 i2 by simp_all
  show ?thesis
    using assms(2) [symmetric]
    by (cases ok; cases "id1 = IT5570E_ID1"; cases "id2 = IT5570E_ID2")
      (auto simp: minibook_ec_i2ec_init_def q i1 i2 holds_def ec_zero_def rl q' s)
qed

lemma soc_zone_holds:
  assumes "resource_laws k zones regions" "register_soc_zone k ec w = (r, ec', w')"
    "holds zones regions w0 ec w" "soc_tz ec = KNull" "charger_tz ec = KNull"
  shows "holds zones regions w0 ec' w' \<and> charger_tz ec' = KNull"
proof -
  note l = resource_lawsD [OF assms(1), unfolded same_resources_def]
  obtain t w1 where t: "soc_temp_get k w = (t, w1)" by fastforce
  have w1: "same_resources zones regions w w1"
    using t l(6) [of _ w] by (cases "ec_read k EC_REG_SOC_TEMP w") (auto simp: soc_temp_get_def same_resources_def split: sum.splits, (metis snd_conv)+)
  obtain z w2 where z: "thermal_zone_register k ''minibook_soc'' w1 = (z, w2)" by fastforce
  note rg = resource_laws_register [OF assms(1) z]
  show ?thesis
  proof (cases t)
    case (Inl e)
    then show ?thesis using assms(2-5) t holds_same [OF w1] by (simp add: register_soc_zone_def)
  next
    case (Inr v)
    have "holds zones regions w0 (ec\<lparr>soc_tz := z\<rparr>) w2"
      using rg assms(3-5) w1 by (auto simp: holds_def same_resources_def)
    moreover have "ec' = ec\<lparr>soc_tz := z\<rparr> \<and> (w' = w2 \<or> w' = thermal_zone_enable k z w2)"
      using assms(2) t z Inr by (cases z) (auto simp: register_soc_zone_def Let_def)
    ultimately show ?thesis using assms(5) l(10) [of z w2] by (auto simp: holds_def)
  qed
qed

lemma adc_same:
  assumes "resource_laws k zones regions"
  shows "same_resources zones regions w (snd (adc_read_raw k w))"
  using read_same [OF assms] by (simp add: adc_read_raw_def case_prod_beta Let_def same_resources_def)

lemma charger_zone_holds:
  assumes "resource_laws k zones regions" "register_charger_zone k ec w = (r, ec', w')"
    "holds zones regions w0 ec w" "charger_tz ec = KNull"
  shows "holds zones regions w0 ec' w'"
proof -
  note l = resource_lawsD [OF assms(1), unfolded same_resources_def]
  obtain v w1 where v: "adc_read_raw k w = (v, w1)" by fastforce
  have w1: "same_resources zones regions w w1" using adc_same [OF assms(1), of w] v by simp
  obtain z w2 where z: "thermal_zone_register k ''minibook_charger'' w1 = (z, w2)" by fastforce
  note rg = resource_laws_register [OF assms(1) z]
  have "holds zones regions w0 (ec\<lparr>charger_tz := z\<rparr>) w2"
    using rg assms(3,4) w1 by (auto simp: holds_def same_resources_def)
  moreover have "ec' = ec \<and> (w' = w \<or> w' = w1) \<or> ec' = ec\<lparr>charger_tz := z\<rparr> \<and> (w' = w2 \<or> w' = thermal_zone_enable k z w2)"
    using assms(2) v z
    by (cases "pnpcfg_available ec"; cases "v = 0xFFFF"; cases z) (auto simp: register_charger_zone_def)
  moreover have "same_resources zones regions w2 (thermal_zone_enable k z w2)"
    using l(10) [of z w2] by (simp add: same_resources_def)
  then have "holds zones regions w0 e (thermal_zone_enable k z w2) = holds zones regions w0 e w2" for e
    by (rule holds_same)
  ultimately show ?thesis using assms(3) holds_same [OF w1] by auto
qed

lemma fan_holds:
  assumes "resource_laws k zones regions" "minibook_ec_register_fan k ec w = (r, ec', w')" "holds zones regions w0 ec w"
  shows "holds zones regions w0 ec' w'"
  using assms(2,3) resource_lawsD(11) [OF assms(1), of w "''minibook_fan''"]
  by (auto simp: minibook_ec_register_fan_def holds_def same_resources_def case_prod_beta Let_def split: if_splits)

lemma kbd_holds:
  assumes "resource_laws k zones regions" "minibook_ec_register_kbd_backlight k p ec w = (r, ec', w')"
    "holds zones regions w0 ec w"
  shows "holds zones regions w0 ec' w'"
proof -
  note l = resource_lawsD [OF assms(1), unfolded same_resources_def]
  note rd = read_same [OF assms(1), unfolded same_resources_def]
  have g: "zones (snd (kbd_bl_brightness_get k w)) = zones w \<and> regions (snd (kbd_bl_brightness_get k w)) = regions w" for w
    using rd by (simp add: kbd_bl_brightness_get_def kbd_bl_output_gated_def case_prod_beta Let_def)
  have "zones w' = zones w \<and> regions w' = regions w \<and> soc_tz ec' = soc_tz ec \<and> charger_tz ec' = charger_tz ec \<and>
    pnpcfg_available ec' = pnpcfg_available ec"
    using assms(2) l(3,7,9,12) g
    by (auto simp: minibook_ec_register_kbd_backlight_def case_prod_beta Let_def split: if_splits option.splits)
  then show ?thesis using assms(3) by (simp add: holds_def)
qed

lemma probe_holds:
  assumes "resource_laws k zones regions" "minibook_ec_probe k p w = (Inr ec, w')"
  shows "holds zones regions w ec w'"
proof -
  note l = resource_lawsD [OF assms(1), unfolded same_resources_def]
  obtain w1 where f: "probe_features k p ec_zero w1 = (ec, w')" and w1: "zones w1 = zones w" "regions w1 = regions w"
    using assms(2) l(6,7,8)
    by (auto simp: minibook_ec_probe_def minibook_ec_register_sysfs_def case_prod_beta Let_def
        split: if_splits sum.splits option.splits)
  obtain r1 e1 u1 r2 e2 u2 r3 e3 u3 r4 e4 u4 where
    s: "minibook_ec_i2ec_init k ec_zero w1 = (r1, e1, u1)" "minibook_ec_register_thermal k e1 u1 = (r2, e2, u2)"
      "minibook_ec_register_fan k e2 u2 = (r3, e3, u3)" "minibook_ec_register_kbd_backlight k p e3 u3 = (r4, ec, w')"
    using f by (auto simp: probe_features_def split: prod.splits)
  obtain r5 e5 u5 r6 where t: "register_soc_zone k e1 u1 = (r5, e5, u5)" "register_charger_zone k e5 u5 = (r6, e2, u2)"
    using s(2) by (auto simp: minibook_ec_register_thermal_def split: prod.splits)
  note i = i2ec_init_holds [OF assms(1) s(1)]
  note z = soc_zone_holds [OF assms(1) t(1) conjunct1 [OF i]]
  have "holds zones regions w1 e2 u2" using charger_zone_holds [OF assms(1) t(2)] z i by blast
  then have "holds zones regions w1 ec w'"
    using kbd_holds [OF assms(1) s(4)] fan_holds [OF assms(1) s(3)] by blast
  then show ?thesis using w1 by (simp add: holds_def)
qed

text \<open>C16: a driver that probed successfully, with both zones registered or absent, leaves no thermal zone
  and no I/O region behind when it is removed.\<close>

theorem probe_remove_balance:
  assumes "resource_laws k zones regions" "minibook_ec_probe k p w = (Inr ec, w1)"
    and "\<not> IS_ERR (soc_tz ec)" "\<not> IS_ERR (charger_tz ec)" "minibook_ec_remove k ec w1 = (ec', w2)"
  shows "zones w2 = zones w \<and> regions w2 = regions w \<and> \<not> pnpcfg_available ec'"
proof -
  have u: "zones (thermal_zone_unregister k (KPtr z) w) = zones w - {z}"
    "regions (thermal_zone_unregister k (KPtr z) w) = regions w" for z w
    using assms(1) by (simp_all add: resource_laws_def)
  have r: "zones (release_region k a n w) = zones w" "regions (release_region k a n w) = regions w - 1" for a n w
    using assms(1) by (simp_all add: resource_laws_def)
  let ?w = "minibook_ec_unregister_thermal k ec w1"
  have t: "zones ?w = zones w1 - zone_of (soc_tz ec) - zone_of (charger_tz ec) \<and> regions ?w = regions w1"
    unfolding minibook_ec_unregister_thermal_def
    by (insert assms(3,4), cases "soc_tz ec"; cases "charger_tz ec") (simp_all add: u)
  note h = probe_holds [OF assms(1,2), unfolded holds_def]
  have "zones w1 - zone_of (soc_tz ec) - zone_of (charger_tz ec) = zones w" using h by blast
  moreover have "(ec', w2) = minibook_ec_i2ec_cleanup k ec ?w"
    using assms(5) by (simp add: minibook_ec_remove_def minibook_ec_unregister_fan_def)
  ultimately show ?thesis using t h by (simp add: minibook_ec_i2ec_cleanup_def r split: if_splits)
qed

subsection \<open>On the concrete board\<close>

lemma lab_read:
  "minibook_ec_i2ec_read (lab_kern f) a w = (ec_mem (lw_chip w) a, w\<lparr>lw_chip := addressed a (lw_chip w)\<rparr>)"
proof -
  have "fst (minibook_ec_i2ec_read (lab_kern f) a w) = ec_mem (lw_chip w) a"
    "lw_chip (snd (minibook_ec_i2ec_read (lab_kern f) a w)) = addressed a (lw_chip w)"
    using i2ec_read_chip [OF lab_chip_laws] by blast+
  moreover have "snd (minibook_ec_i2ec_read (lab_kern f) a w) = w\<lparr>lw_chip := lw_chip (snd (minibook_ec_i2ec_read (lab_kern f) a w))\<rparr>"
    by (simp add: minibook_ec_i2ec_read_def pnpcfg_select_def lab_kern_def)
  ultimately show ?thesis by (metis prod.collapse)
qed

lemma board_bytes:
  "ec_mem (lw_chip board) IT5570E_ECHIPID1 = IT5570E_ID1" "ec_mem (lw_chip board) IT5570E_ECHIPID2 = IT5570E_ID2"
  "ec_mem (lw_chip board) ADC_CH0_CTL = 1"
  "le_u16 (ec_mem (lw_chip board) ADC_CH0_DATM) (ec_mem (lw_chip board) ADC_CH0_DATL) = 300"
  "lw_window board EC_REG_SOC_TEMP = 45" "lw_regions board = 0" "lw_zones board = []"
  by code_simp+

lemma lab_probe:
  "\<exists>ec w1. minibook_ec_probe (lab_kern f) False board = (Inr ec, w1) \<and>
    soc_tz ec = (if f then KErr ENOMEM else KPtr (lw_next board)) \<and> (f \<or> \<not> IS_ERR (charger_tz ec))"
  by (cases f)
    (simp_all add: minibook_ec_probe_def probe_features_def minibook_ec_i2ec_init_def minibook_ec_register_thermal_def
      minibook_ec_register_fan_def minibook_ec_register_kbd_backlight_def minibook_ec_register_sysfs_def
      register_soc_zone_def register_charger_zone_def soc_temp_get_def adc_read_raw_def
      lab_read lab_fields board_bytes ADC_GLITCH_def)

theorem probe_remove_balance_witness:
  "\<exists>ec w1. minibook_ec_probe (lab_kern False) False board = (Inr ec, w1) \<and>
    lw_zones (snd (minibook_ec_remove (lab_kern False) ec w1)) = [] \<and>
    lw_regions (snd (minibook_ec_remove (lab_kern False) ec w1)) = 0"
proof -
  obtain ec w1 where e: "minibook_ec_probe (lab_kern False) False board = (Inr ec, w1)"
    "\<not> IS_ERR (soc_tz ec)" "\<not> IS_ERR (charger_tz ec)" using lab_probe [of False] by auto
  from probe_remove_balance [OF lab_resource_laws [of False] this] e(1) show ?thesis
    by (cases "minibook_ec_remove (lab_kern False) ec w1") (simp add: board_bytes)
qed

section \<open>An error pointer that stays\<close>

text \<open>When the thermal core refuses the SoC zone although the EC reports a temperature, probe still
  counts the zones as available and keeps the error pointer, and remove then passes that error pointer
  to \<^verbatim>\<open>thermal_zone_device_unregister\<close>, which only excepts NULL.\<close>

theorem refused_zone_is_unregistered:
  assumes "soc_temp_get k u = (Inr t, u')" "thermal_zone_register k ''minibook_soc'' u' = (KErr e, u'')"
    and "minibook_ec_register_thermal k ec u = (r, ec', w)"
  shows "r = None \<and> soc_tz ec' = KErr e \<and>
    minibook_ec_unregister_thermal k ec' w =
      (let w = thermal_zone_unregister k (KErr e) w
       in if kptr_nonnull (charger_tz ec') then thermal_zone_unregister k (charger_tz ec') w else w)"
proof -
  have s: "register_soc_zone k ec u = (Some e, ec\<lparr>soc_tz := KErr e\<rparr>, u'')"
    using assms(1,2) by (simp add: register_soc_zone_def)
  obtain r2 w2 ec2 where c: "register_charger_zone k (ec\<lparr>soc_tz := KErr e\<rparr>) u'' = (r2, ec2, w2)" by (metis prod_cases3)
  obtain z where "ec2 = ec\<lparr>soc_tz := KErr e\<rparr> \<or> ec2 = ec\<lparr>soc_tz := KErr e, charger_tz := z\<rparr>"
    using c by (auto simp: register_charger_zone_def Let_def split: if_splits prod.splits kptr.splits)
  then have "soc_tz ec2 = KErr e" by auto
  then show ?thesis
    using assms(3) s c by (auto simp: minibook_ec_register_thermal_def minibook_ec_unregister_thermal_def)
qed

theorem refused_zone_is_unregistered_witness:
  "soc_tz (fst (snd (minibook_ec_register_thermal (lab_kern True) ec_zero board))) = KErr ENOMEM"
proof -
  have t: "soc_temp_get (lab_kern True) board = (Inr 45000, board)"
    by (simp add: soc_temp_get_def lab_fields board_bytes)
  have z: "thermal_zone_register (lab_kern True) ''minibook_soc'' board = (KErr ENOMEM, board)" by (simp add: lab_fields)
  show ?thesis
    using refused_zone_is_unregistered [OF t z, of ec_zero]
    by (cases "minibook_ec_register_thermal (lab_kern True) ec_zero board") (metis fst_conv snd_conv prod.collapse)
qed

section \<open>Sysfs round trips\<close>

text \<open>The EC window as a memory: what a successful write stores is what a read returns.\<close>

definition window_laws :: "'w kern \<Rightarrow> bool" where
  "window_laws k \<longleftrightarrow> (\<forall>r v w w'. ec_write k r v w = (None, w') \<longrightarrow> fst (ec_read k r w') = Inr v)"

lemma touchpad_store_show:
  assumes "window_laws k" "kstrtobool k buf = Inr b" "touchpad_enabled_store k buf w = (Inr n, w')"
  shows "n = length buf \<and> fst (touchpad_enabled_show k w') = Inr ((if b then ''1'' else ''0'') @ newline)"
proof -
  obtain r w1 where e: "ec_write k EC_REG_TPTL (if b then TPTL_ON else TPTL_OFF) w = (r, w1)" by fastforce
  then have n: "r = None" "n = length buf" "w' = w1"
    using assms(2,3) by (auto simp: touchpad_enabled_store_def split: option.splits)
  then have rd: "fst (ec_read k EC_REG_TPTL w') = Inr (if b then TPTL_ON else TPTL_OFF)"
    using assms(1) e by (auto simp: window_laws_def)
  then show ?thesis
    using n show_bit by (cases "ec_read k EC_REG_TPTL w'") (auto simp: touchpad_enabled_show_def TPTL_ON_def TPTL_OFF_def)
qed

end
