(* ===== verification/Ec_Lock.thy ===== *)
theory Ec_Lock
  imports Ec_I2ec
begin

text \<open>
  The lock of \<^verbatim>\<open>minibook_ec_i2ec.c\<close>: an access is a sequence of port operations between taking and
  releasing \<^verbatim>\<open>i2ec_lock\<close>, and threads (thermal polling, hwmon, LED, sysfs) interleave theirs freely.
  Every interleaving has the effect of the accesses one after the other, in the order in which they
  released the lock, on a flat memory.
\<close>

section \<open>An access as port operations\<close>

datatype port_op = Lock | Unlock | Out u8 u16 | In u16

datatype i2ec_access = Read u16 | Write u16 u8

definition select_ops :: "u8 \<Rightarrow> u8 \<Rightarrow> port_op list" where
  "select_ops index sub_index = [Out index PNPCFG_INDEX, Out sub_index PNPCFG_DATA]"

definition addr_ops :: "u16 \<Rightarrow> port_op list" where
  "addr_ops a = select_ops PNPCFG_D2ADR I2EC_SUB_ADDR_H @ select_ops PNPCFG_D2DAT (ucast (drop_bit 8 a AND 0xFF)) @
     select_ops PNPCFG_D2ADR I2EC_SUB_ADDR_L @ select_ops PNPCFG_D2DAT (ucast (a AND 0xFF)) @
     select_ops PNPCFG_D2ADR I2EC_SUB_DATA"

fun data_ops :: "i2ec_access \<Rightarrow> port_op list" where
  "data_ops (Read a) = addr_ops a @ [Out PNPCFG_D2DAT PNPCFG_INDEX, In PNPCFG_DATA]"
| "data_ops (Write a v) = addr_ops a @ select_ops PNPCFG_D2DAT v"

definition access_ops :: "i2ec_access \<Rightarrow> port_op list" where
  "access_ops x = Lock # data_ops x @ [Unlock]"

text \<open>The operations of the code, run on its environment.\<close>

fun kern_op :: "'w kern \<Rightarrow> port_op \<Rightarrow> u8 list \<times> 'w \<Rightarrow> u8 list \<times> 'w" where
  "kern_op k Lock (rs, w) = (rs, mutex_lock k w)"
| "kern_op k Unlock (rs, w) = (rs, mutex_unlock k w)"
| "kern_op k (Out v p) (rs, w) = (rs, outb k v p w)"
| "kern_op k (In p) (rs, w) = (let (v, w) = inb k p w in (rs @ [v], w))"

lemma read_ops_faithful:
  "fold (kern_op k) (access_ops (Read a)) (rs, w) =
     (let (v, w) = minibook_ec_i2ec_read k a w in (rs @ [v], w))"
  by (simp add: access_ops_def addr_ops_def select_ops_def minibook_ec_i2ec_read_def pnpcfg_select_def
      case_prod_beta Let_def)

lemma write_ops_faithful:
  "fold (kern_op k) (access_ops (Write a v)) (rs, w) = (rs, minibook_ec_i2ec_write k a v w)"
  by (simp add: access_ops_def addr_ops_def select_ops_def minibook_ec_i2ec_write_def pnpcfg_select_def Let_def)

section \<open>Threads\<close>

text \<open>
  A thread runs its accesses in order. \<open>Lock\<close> waits until nobody holds the lock; every other
  operation can always run: that only the holder reaches one is a consequence, not part of the model.
\<close>

record i2ec_sys =
  chip_of :: it5570
  owner :: "nat option"
  todo :: "nat \<Rightarrow> i2ec_access list"
  current :: "nat \<Rightarrow> i2ec_access"
  ops :: "nat \<Rightarrow> port_op list"
  results :: "(nat \<times> u8) list"
  history :: "(nat \<times> i2ec_access) list"

inductive i2ec_step :: "i2ec_sys \<Rightarrow> i2ec_sys \<Rightarrow> bool" where
  begin_access: "i2ec_step s (s\<lparr>ops := (ops s)(i := access_ops x), todo := (todo s)(i := xs), current := (current s)(i := x)\<rparr>)"
  if "ops s i = []" "todo s i = x # xs"
| lock: "i2ec_step s (s\<lparr>owner := Some i, ops := (ops s)(i := r)\<rparr>)" if "ops s i = Lock # r" "owner s = None"
| out: "i2ec_step s (s\<lparr>chip_of := chip_out v p (chip_of s), ops := (ops s)(i := r)\<rparr>)" if "ops s i = Out v p # r"
| inp: "i2ec_step s (s\<lparr>results := results s @ [(i, chip_in (chip_of s))], ops := (ops s)(i := r)\<rparr>)" if "ops s i = In p # r"
| unlock: "i2ec_step s (s\<lparr>owner := None, ops := (ops s)(i := r), history := history s @ [(i, current s i)]\<rparr>)"
  if "ops s i = Unlock # r"

definition i2ec_start :: "it5570 \<Rightarrow> (nat \<Rightarrow> i2ec_access list) \<Rightarrow> i2ec_sys" where
  "i2ec_start c work = \<lparr>chip_of = c, owner = None, todo = work, current = (\<lambda>_. Read 0), ops = (\<lambda>_. []),
     results = [], history = []\<rparr>"

inductive i2ec_reach :: "it5570 \<Rightarrow> (nat \<Rightarrow> i2ec_access list) \<Rightarrow> i2ec_sys \<Rightarrow> bool" for c work where
  start: "i2ec_reach c work (i2ec_start c work)"
| step: "i2ec_reach c work s'" if "i2ec_reach c work s" "i2ec_step s s'"

section \<open>Sequential meaning\<close>

fun seq_op :: "nat \<Rightarrow> port_op \<Rightarrow> it5570 \<times> (nat \<times> u8) list \<Rightarrow> it5570 \<times> (nat \<times> u8) list" where
  "seq_op i (Out v p) (c, rs) = (chip_out v p c, rs)"
| "seq_op i (In p) (c, rs) = (c, rs @ [(i, chip_in c)])"
| "seq_op i _ (c, rs) = (c, rs)"

definition seq_access :: "nat \<times> i2ec_access \<Rightarrow> it5570 \<times> (nat \<times> u8) list \<Rightarrow> it5570 \<times> (nat \<times> u8) list" where
  "seq_access e s = fold (seq_op (fst e)) (data_ops (snd e)) s"

text \<open>The specification: a memory and the values read from it.\<close>

fun flat_access :: "nat \<times> i2ec_access \<Rightarrow> (u16 \<Rightarrow> u8) \<times> (nat \<times> u8) list \<Rightarrow> (u16 \<Rightarrow> u8) \<times> (nat \<times> u8) list" where
  "flat_access (i, Read a) (m, rs) = (m, rs @ [(i, m a)])"
| "flat_access (i, Write a v) (m, rs) = (m(a := v), rs)"

definition flat_abs :: "it5570 \<times> (nat \<times> u8) list \<Rightarrow> (u16 \<Rightarrow> u8) \<times> (nat \<times> u8) list" where
  "flat_abs s = (ec_mem (fst s), snd s)"

lemma seq_access_flat: "flat_abs (seq_access e s) = flat_access e (flat_abs s)"
proof -
  obtain i x c rs where e: "e = (i, x)" "s = (c, rs)" by fastforce
  note d = flat_abs_def seq_access_def addr_ops_def select_ops_def chip_out_def i2ec_consts i2ec_addr_def
    addr_bytes chip_in_def
  show ?thesis unfolding e by (cases x) (simp_all add: d)
qed

lemma seq_run_flat: "flat_abs (fold seq_access h s) = fold flat_access h (flat_abs s)"
  by (induction h arbitrary: s) (simp_all add: seq_access_flat)

section \<open>Invariant\<close>

definition no_lock :: "port_op list \<Rightarrow> bool" where
  "no_lock = list_all (\<lambda>x. x \<noteq> Lock \<and> x \<noteq> Unlock)"

lemma no_lock_data: "no_lock (data_ops x)"
  by (cases x) (simp_all add: no_lock_def addr_ops_def select_ops_def)

definition waiting :: "i2ec_sys \<Rightarrow> nat \<Rightarrow> bool" where
  "waiting s i \<longleftrightarrow> ops s i = [] \<or> ops s i = access_ops (current s i)"

definition inside :: "it5570 \<times> (nat \<times> u8) list \<Rightarrow> i2ec_sys \<Rightarrow> nat \<Rightarrow> bool" where
  "inside st0 s i \<longleftrightarrow> (\<exists>pre suf. data_ops (current s i) = pre @ suf \<and> ops s i = suf @ [Unlock] \<and>
     (chip_of s, results s) = fold (seq_op i) pre (fold seq_access (history s) st0))"

definition pending :: "i2ec_sys \<Rightarrow> nat \<Rightarrow> i2ec_access list" where
  "pending s i = (if ops s i = [] then [] else [current s i])"

definition issued :: "i2ec_sys \<Rightarrow> nat \<Rightarrow> i2ec_access list" where
  "issued s i = map snd (filter (\<lambda>e. fst e = i) (history s)) @ pending s i @ todo s i"

definition i2ec_inv :: "it5570 \<Rightarrow> (nat \<Rightarrow> i2ec_access list) \<Rightarrow> i2ec_sys \<Rightarrow> bool" where
  "i2ec_inv c work s \<longleftrightarrow>
     (case owner s of
        None \<Rightarrow> (\<forall>i. waiting s i) \<and> (chip_of s, results s) = fold seq_access (history s) (c, [])
      | Some i \<Rightarrow> inside (c, []) s i \<and> (\<forall>j. j \<noteq> i \<longrightarrow> waiting s j)) \<and>
     issued s = work"

lemma inv_owner:
  assumes "i2ec_inv c work s" "ops s i = x # r" "x \<noteq> Lock"
  shows "owner s = Some i" "inside (c, []) s i" "\<forall>j. j \<noteq> i \<longrightarrow> waiting s j"
proof -
  have nw: "\<not> waiting s i" using assms(2,3) by (auto simp: waiting_def access_ops_def)
  then show o: "owner s = Some i"
    using assms(1) by (cases "owner s") (force simp: i2ec_inv_def)+
  then show "inside (c, []) s i" "\<forall>j. j \<noteq> i \<longrightarrow> waiting s j" using assms(1) by (simp_all add: i2ec_inv_def)
qed

lemma inside_head:
  assumes "inside st0 s i" "ops s i = x # r" "x \<noteq> Unlock"
  shows "\<exists>pre suf. data_ops (current s i) = pre @ [x] @ suf \<and> r = suf @ [Unlock] \<and> x \<noteq> Lock \<and>
    (chip_of s, results s) = fold (seq_op i) pre (fold seq_access (history s) st0)"
proof -
  obtain pre suf where p: "data_ops (current s i) = pre @ suf" "ops s i = suf @ [Unlock]"
    "(chip_of s, results s) = fold (seq_op i) pre (fold seq_access (history s) st0)"
    using assms(1) by (auto simp: inside_def)
  then obtain suf' where s: "suf = x # suf'" "r = suf' @ [Unlock]" using assms(2,3) by (cases suf) auto
  then have "x \<noteq> Lock" using no_lock_data [of "current s i"] p(1) by (simp add: no_lock_def)
  then show ?thesis using p s by auto
qed

lemma inv_step:
  assumes "i2ec_inv c work s" "i2ec_step s s'"
  shows "i2ec_inv c work s'"
  using assms(2)
proof (cases rule: i2ec_step.cases)
  case (begin_access i x xs)
  have "issued s' = issued s" using begin_access by (auto simp: issued_def pending_def access_ops_def fun_eq_iff)
  moreover have "waiting s' j" if "waiting s j" for j using that begin_access by (simp add: waiting_def)
  moreover have "inside (c, []) s' j" if "inside (c, []) s j" for j
    using that begin_access by (auto simp: inside_def)
  ultimately show ?thesis using assms(1) begin_access(1) by (auto simp: i2ec_inv_def split: option.splits)
next
  case (lock i r)
  then have w: "waiting s i" using assms(1) by (simp add: i2ec_inv_def)
  then have r: "r = data_ops (current s i) @ [Unlock]" using lock by (simp add: waiting_def access_ops_def)
  have "(chip_of s, results s) = fold seq_access (history s) (c, [])" using assms(1) lock by (simp add: i2ec_inv_def)
  then have "inside (c, []) s' i" using lock r by (auto simp: inside_def intro: exI [of _ "[]"])
  moreover have "issued s' = issued s" using lock r by (auto simp: issued_def pending_def fun_eq_iff)
  ultimately show ?thesis using assms(1) lock by (auto simp: i2ec_inv_def waiting_def)
next
  case (out i v p r)
  note o = inv_owner [OF assms(1) out(2)] inside_head [OF inv_owner(2) [OF assms(1) out(2)] out(2)]
  from o(4) obtain pre suf where p: "data_ops (current s i) = pre @ [Out v p] @ suf" "r = suf @ [Unlock]"
    "(chip_of s, results s) = fold (seq_op i) pre (fold seq_access (history s) (c, []))" by auto
  have "(chip_of s', results s') = fold (seq_op i) (pre @ [Out v p]) (fold seq_access (history s') (c, []))"
    using out(1) by (simp add: p(3) [symmetric])
  then have "inside (c, []) s' i" using p(1,2) out(1) by (auto simp: inside_def intro!: exI [of _ "pre @ [Out v p]"])
  moreover have "issued s' = issued s" using out p(2) by (auto simp: issued_def pending_def fun_eq_iff)
  ultimately show ?thesis using assms(1) o(1,3) out(1) by (auto simp: i2ec_inv_def waiting_def)
next
  case (inp i p r)
  note o = inv_owner [OF assms(1) inp(2)] inside_head [OF inv_owner(2) [OF assms(1) inp(2)] inp(2)]
  from o(4) obtain pre suf where p: "data_ops (current s i) = pre @ [In p] @ suf" "r = suf @ [Unlock]"
    "(chip_of s, results s) = fold (seq_op i) pre (fold seq_access (history s) (c, []))" by auto
  have "(chip_of s', results s') = fold (seq_op i) (pre @ [In p]) (fold seq_access (history s') (c, []))"
    using inp(1) by (simp add: p(3) [symmetric])
  then have "inside (c, []) s' i" using p(1,2) inp(1) by (auto simp: inside_def intro!: exI [of _ "pre @ [In p]"])
  moreover have "issued s' = issued s" using inp p(2) by (auto simp: issued_def pending_def fun_eq_iff)
  ultimately show ?thesis using assms(1) o(1,3) inp(1) by (auto simp: i2ec_inv_def waiting_def)
next
  case (unlock i r)
  note o = inv_owner [OF assms(1) unlock(2)]
  obtain pre suf where p: "data_ops (current s i) = pre @ suf" "ops s i = suf @ [Unlock]"
    "(chip_of s, results s) = fold (seq_op i) pre (fold seq_access (history s) (c, []))"
    using o(2) by (auto simp: inside_def)
  then have suf: "suf = []" "r = []"
    using unlock(2) no_lock_data [of "current s i"] by (cases suf; simp add: no_lock_def)+
  have "(chip_of s', results s') = fold seq_access (history s') (c, [])"
    using p unlock(1) suf by (simp add: seq_access_def)
  moreover have "issued s' = issued s" using unlock suf by (auto simp: issued_def pending_def fun_eq_iff)
  ultimately show ?thesis using assms(1) o(1,3) unlock(1) suf by (auto simp: i2ec_inv_def waiting_def)
qed

lemma reach_inv: "i2ec_reach c work s \<Longrightarrow> i2ec_inv c work s"
proof (induction rule: i2ec_reach.induct)
  case start
  then show ?case unfolding i2ec_inv_def i2ec_start_def by (auto simp: waiting_def pending_def issued_def fun_eq_iff)
next
  case (step s s')
  then show ?case using inv_step by blast
qed

section \<open>Linearizability\<close>

text \<open>C13: the two access functions of the code are the port operations the threads run, and whatever way
  threads interleave their accesses to the EC, whenever the lock is free the memory
  and the values read so far are those of executing the finished accesses one after the other on a
  flat memory; each thread's accesses appear there in the order it issued them; and as long as work
  is left some thread can go on.\<close>

theorem i2ec_linearizable:
  assumes "i2ec_reach c work s" "owner s = None"
  shows "(ec_mem (chip_of s), results s) = fold flat_access (history s) (ec_mem c, []) \<and>
    map snd (filter (\<lambda>e. fst e = i) (history s)) @ pending s i @ todo s i = work i \<and>
    (map snd (filter (\<lambda>e. fst e = i) (history s)) = work i \<or> (\<exists>s'. i2ec_step s s')) \<and>
    fold (kern_op k) (access_ops (Read a)) (rs, w) = (let (v, w) = minibook_ec_i2ec_read k a w in (rs @ [v], w)) \<and>
    fold (kern_op k) (access_ops (Write a v)) (rs, w) = (rs, minibook_ec_i2ec_write k a v w)"
proof -
  have inv: "i2ec_inv c work s" by (rule reach_inv [OF assms(1)])
  have st: "(chip_of s, results s) = fold seq_access (history s) (c, [])" and w: "waiting s i"
    and e: "map snd (filter (\<lambda>e. fst e = i) (history s)) @ pending s i @ todo s i = work i"
    using inv assms(2) by (simp_all add: i2ec_inv_def issued_def fun_eq_iff)
  have "(ec_mem (chip_of s), results s) = flat_abs (fold seq_access (history s) (c, []))"
    unfolding st [symmetric] by (simp add: flat_abs_def)
  then have f: "(ec_mem (chip_of s), results s) = fold flat_access (history s) (ec_mem c, [])"
    by (simp add: seq_run_flat) (simp add: flat_abs_def)
  have "\<exists>s'. i2ec_step s s'" if "pending s i @ todo s i \<noteq> []"
  proof (cases "ops s i = []")
    case True
    then obtain x xs where "todo s i = x # xs" using \<open>pending s i @ todo s i \<noteq> []\<close> by (cases "todo s i") (auto simp: pending_def)
    then show ?thesis using i2ec_step.begin_access [OF True] by blast
  next
    case False
    then have "ops s i = Lock # data_ops (current s i) @ [Unlock]" using w by (simp add: waiting_def access_ops_def)
    then show ?thesis using i2ec_step.lock assms(2) by blast
  qed
  then have "map snd (filter (\<lambda>e. fst e = i) (history s)) = work i \<or> (\<exists>s'. i2ec_step s s')"
    using e by (metis append_Nil2)
  then show ?thesis using f e by (simp only: read_ops_faithful write_ops_faithful simp_thms)
qed

subsection \<open>Two threads, alternating\<close>

definition try_step :: "nat \<Rightarrow> i2ec_sys \<Rightarrow> i2ec_sys" where
  "try_step i s = (case ops s i of
     [] \<Rightarrow> (case todo s i of [] \<Rightarrow> s
       | x # xs \<Rightarrow> s\<lparr>ops := (ops s)(i := access_ops x), todo := (todo s)(i := xs), current := (current s)(i := x)\<rparr>)
   | x # r \<Rightarrow> (case x of
         Lock \<Rightarrow> if owner s = None then s\<lparr>owner := Some i, ops := (ops s)(i := r)\<rparr> else s
       | Out v p \<Rightarrow> s\<lparr>chip_of := chip_out v p (chip_of s), ops := (ops s)(i := r)\<rparr>
       | In p \<Rightarrow> s\<lparr>results := results s @ [(i, chip_in (chip_of s))], ops := (ops s)(i := r)\<rparr>
       | Unlock \<Rightarrow> s\<lparr>owner := None, ops := (ops s)(i := r), history := history s @ [(i, current s i)]\<rparr>))"

lemma try_step_reach: "i2ec_reach c work s \<Longrightarrow> i2ec_reach c work (try_step i s)"
  unfolding try_step_def
  by (auto split: list.splits port_op.splits intro: i2ec_reach.step i2ec_step.intros)

lemma schedule_reach: "i2ec_reach c work s \<Longrightarrow> i2ec_reach c work (fold try_step is s)"
  by (induction "is" arbitrary: s) (simp_all add: try_step_reach)

definition idle_chip :: it5570 where
  "idle_chip = \<lparr>pnp_index = 0, d2adr = 0, i2ec_addr_l = 0, i2ec_addr_h = 0, ec_mem = (\<lambda>_. 0)\<rparr>"

definition two_work :: "nat \<Rightarrow> i2ec_access list" where
  "two_work i = (if i = 0 then [Write 0x1803 9] else if i = 1 then [Read 0x1803] else [])"

definition two_threads :: i2ec_sys where
  "two_threads = fold try_step (concat (replicate 32 [0, 1])) (i2ec_start idle_chip two_work)"

lemma two_threads_done: "owner two_threads = None" "history two_threads = [(0, Write 0x1803 9), (1, Read 0x1803)]"
  by code_simp+

theorem i2ec_linearizable_witness:
  "results two_threads = [(1, 9)] \<and> map snd (filter (\<lambda>e. fst e = 1) (history two_threads)) = [Read 0x1803]"
proof -
  have "i2ec_reach idle_chip two_work two_threads"
    unfolding two_threads_def by (rule schedule_reach) (rule i2ec_reach.start)
  from i2ec_linearizable [OF this two_threads_done(1), of 1 "lab_kern False"] two_threads_done(2) show ?thesis by simp
qed

end
