(* ===== verification/Spklen.thy ===== *)
theory Spklen
  imports Prelude
begin

text \<open>
  \<^verbatim>\<open>i2c_designware_spklen.c\<close>: programs the spike-suppression registers of the LPSS I2C controllers and
  repeats it after resume. Memory-mapped I/O and the PCI core are the parameter \<open>lpss\<close>; registers that
  keep what is written to them are described by the predicate \<open>reg_laws\<close>.
\<close>

record 'w lpss =
  readl :: "nat \<Rightarrow> 'w \<Rightarrow> u32 \<times> 'w"
  writel :: "u32 \<Rightarrow> nat \<Rightarrow> 'w \<Rightarrow> 'w"
  udelay :: "nat \<Rightarrow> 'w \<Rightarrow> 'w"
  ioremap :: "u64 \<Rightarrow> u64 \<Rightarrow> 'w \<Rightarrow> nat \<times> 'w"
  iounmap :: "nat \<Rightarrow> 'w \<Rightarrow> 'w"
  pci_dev_get :: "nat \<Rightarrow> 'w \<Rightarrow> 'w"
  pci_dev_put :: "nat \<Rightarrow> 'w \<Rightarrow> 'w"
  register_pm_notifier :: "'w \<Rightarrow> 'w"
  unregister_pm_notifier :: "'w \<Rightarrow> 'w"

text \<open>An Intel PCI device as the enumeration delivers it; \<open>pci_id\<close> stands for the pointer.\<close>

record pci_dev =
  pci_id :: nat
  device :: u16
  bar_start :: u64
  bar_len :: u64

section \<open>Module parameters and state\<close>

definition DW_IC_ENABLE :: nat where "DW_IC_ENABLE = 0x6c"
definition DW_IC_ENABLE_STATUS :: nat where "DW_IC_ENABLE_STATUS = 0x9c"
definition DW_IC_FS_SPKLEN :: nat where "DW_IC_FS_SPKLEN = 0xa0"
definition DW_IC_HS_SPKLEN :: nat where "DW_IC_HS_SPKLEN = 0xa4"
definition DW_IC_CON :: nat where "DW_IC_CON = 0x00"
definition DW_IC_CON_SPEED_MASK :: u32 where "DW_IC_CON_SPEED_MASK = 0x06"
definition DW_IC_CON_SPEED_STD :: u32 where "DW_IC_CON_SPEED_STD = 0x02"
definition DW_IC_CON_SPEED_HIGH :: u32 where "DW_IC_CON_SPEED_HIGH = 0x06"
definition LPSS_PRIV_OFFSET :: nat where "LPSS_PRIV_OFFSET = 0x200"
definition LPSS_PRIV_CLKGATE :: nat where "LPSS_PRIV_CLKGATE = 0x38"
definition MAX_CONTROLLERS :: nat where "MAX_CONTROLLERS = 8"

definition adl_n_i2c_ids :: "u16 list" where
  "adl_n_i2c_ids = [0x54e8, 0x54e9, 0x54ea, 0x54eb, 0x54c5, 0x54c6, 0x54d8, 0x54d9, 0]"

record spklen_params =
  fs_spklen :: u32
  hs_spklen :: u32
  clkgate :: bool

record lpss_i2c_fixup =
  base :: nat
  priv :: nat
  pdev :: nat
  spklen_fs :: u8
  spklen_hs :: u8

section \<open>Operations\<close>

definition pick_fs_spklen :: "'w lpss \<Rightarrow> spklen_params \<Rightarrow> nat \<Rightarrow> 'w \<Rightarrow> u8 \<times> 'w" where
  "pick_fs_spklen k p b w =
     (if fs_spklen p \<noteq> 0 then (ucast (fs_spklen p), w)
      else (let (con, w) = readl k (b + DW_IC_CON) w
            in (if con AND DW_IC_CON_SPEED_MASK = DW_IC_CON_SPEED_STD then 1 else 6, w)))"

definition pick_hs_spklen :: "'w lpss \<Rightarrow> spklen_params \<Rightarrow> nat \<Rightarrow> 'w \<Rightarrow> u8 \<times> 'w" where
  "pick_hs_spklen k p b w =
     (if hs_spklen p \<noteq> 0 then (ucast (hs_spklen p), w)
      else (let (con, w) = readl k (b + DW_IC_CON) w
            in (if con AND DW_IC_CON_SPEED_MASK = DW_IC_CON_SPEED_HIGH then 2 else 0, w)))"

text \<open>The loop of \<^verbatim>\<open>wait_controller_disabled\<close> with \<open>Suc t\<close> in the variable \<^verbatim>\<open>timeout\<close>.\<close>

fun wait_loop :: "'w lpss \<Rightarrow> nat \<Rightarrow> nat \<Rightarrow> 'w \<Rightarrow> bool \<times> 'w" where
  "wait_loop k b t w = (case readl k (b + DW_IC_ENABLE_STATUS) w of (s, w) \<Rightarrow>
     if s AND 1 \<noteq> 0 then (case t of 0 \<Rightarrow> (False, w) | Suc t \<Rightarrow> wait_loop k b t (udelay k 25 w)) else (True, w))"

declare wait_loop.simps [simp del]

definition wait_controller_disabled :: "'w lpss \<Rightarrow> nat \<Rightarrow> 'w \<Rightarrow> bool \<times> 'w" where
  "wait_controller_disabled k b w = wait_loop k b 99 w"

definition apply_fixup :: "'w lpss \<Rightarrow> lpss_i2c_fixup \<Rightarrow> 'w \<Rightarrow> 'w" where
  "apply_fixup k fix w =
     (let (old_fs, w) = readl k (base fix + DW_IC_FS_SPKLEN) w;
          (old_hs, w) = readl k (base fix + DW_IC_HS_SPKLEN) w
      in if old_fs = ucast (spklen_fs fix) \<and> (spklen_hs fix = 0 \<or> old_hs = ucast (spklen_hs fix)) then w
         else
          (let (en, w) = readl k (base fix + DW_IC_ENABLE) w;
               was_enabled = (en AND 1 \<noteq> 0);
               (ok, w) = (if was_enabled
                 then wait_controller_disabled k (base fix) (writel k 0 (base fix + DW_IC_ENABLE) w)
                 else (True, w))
           in if \<not> ok then w
              else (let w = writel k (ucast (spklen_fs fix)) (base fix + DW_IC_FS_SPKLEN) w;
                        w = (if spklen_hs fix \<noteq> 0
                             then writel k (ucast (spklen_hs fix)) (base fix + DW_IC_HS_SPKLEN) w else w)
                    in if was_enabled then writel k 1 (base fix + DW_IC_ENABLE) w else w)))"

definition apply_clkgate :: "'w lpss \<Rightarrow> lpss_i2c_fixup \<Rightarrow> 'w \<Rightarrow> 'w" where
  "apply_clkgate k fix w =
     (if priv fix = 0 then w
      else (let (old, w) = readl k (priv fix + LPSS_PRIV_CLKGATE) w
            in if old = 1 then w else writel k 1 (priv fix + LPSS_PRIV_CLKGATE) w))"

definition apply_all :: "'w lpss \<Rightarrow> spklen_params \<Rightarrow> lpss_i2c_fixup list \<Rightarrow> 'w \<Rightarrow> 'w" where
  "apply_all k p controllers w =
     fold (\<lambda>fix w. let w = apply_fixup k fix w in if clkgate p then apply_clkgate k fix w else w) controllers w"

datatype pm_action = PM_POST_SUSPEND | PM_POST_RESTORE | PM_OTHER

definition pm_handler :: "'w lpss \<Rightarrow> spklen_params \<Rightarrow> lpss_i2c_fixup list \<Rightarrow> pm_action \<Rightarrow> 'w \<Rightarrow> 'w" where
  "pm_handler k p controllers action w =
     (if action = PM_POST_SUSPEND \<or> action = PM_POST_RESTORE then apply_all k p controllers w else w)"

text \<open>The table ends at its zero entry.\<close>

fun id_loop :: "u16 list \<Rightarrow> u16 \<Rightarrow> bool" where
  "id_loop [] d = False"
| "id_loop (p # ps) d = (if p = 0 then False else if p = d then True else id_loop ps d)"

definition is_adl_n_i2c :: "u16 \<Rightarrow> bool" where
  "is_adl_n_i2c devid = id_loop adl_n_i2c_ids devid"

text \<open>
  \<^verbatim>\<open>pci_get_device\<close> drops the reference on the device it continues from and takes one on the device it
  returns; \<open>prev\<close> is the loop's \<^verbatim>\<open>pdev\<close> and the list what the enumeration still has. The array is
  the list of its first \<^verbatim>\<open>n\<close> entries; \<open>slot\<close> is entry \<^verbatim>\<open>n\<close>, which a failed mapping leaves half filled.
\<close>

definition put_prev :: "'w lpss \<Rightarrow> nat option \<Rightarrow> 'w \<Rightarrow> 'w" where
  "put_prev k prev w = (case prev of None \<Rightarrow> w | Some d \<Rightarrow> pci_dev_put k d w)"

definition zero_fixup :: lpss_i2c_fixup where
  "zero_fixup = \<lparr>base = 0, priv = 0, pdev = 0, spklen_fs = 0, spklen_hs = 0\<rparr>"

fun init_loop :: "'w lpss \<Rightarrow> spklen_params \<Rightarrow> nat option \<Rightarrow> pci_dev list \<Rightarrow> lpss_i2c_fixup list \<Rightarrow> lpss_i2c_fixup \<Rightarrow>
    'w \<Rightarrow> lpss_i2c_fixup list \<times> 'w" where
  "init_loop k p prev [] cs slot w = (cs, put_prev k prev w)"
| "init_loop k p prev (d # ds) cs slot w =
     (let w = put_prev k prev (pci_dev_get k (pci_id d) w) in
      if \<not> is_adl_n_i2c (device d) then init_loop k p (Some (pci_id d)) ds cs slot w
      else if MAX_CONTROLLERS \<le> length cs then (cs, w)
      else if bar_start d = 0 \<or> bar_len d = 0 then init_loop k p (Some (pci_id d)) ds cs slot w
      else
       (let slot = slot\<lparr>pdev := pci_id d\<rparr>;
            (b, w) = ioremap k (bar_start d) (bar_len d) w;
            slot = slot\<lparr>base := b\<rparr>
        in if b = 0 then init_loop k p (Some (pci_id d)) ds cs slot w
           else
            (let slot = (if LPSS_PRIV_OFFSET + 0x100 \<le> unat (bar_len d) then slot\<lparr>priv := b + LPSS_PRIV_OFFSET\<rparr> else slot);
                 (fs, w) = pick_fs_spklen k p b w;
                 (hs, w) = pick_hs_spklen k p b w;
                 slot = slot\<lparr>spklen_fs := fs, spklen_hs := hs\<rparr>
             in init_loop k p (Some (pci_id d)) ds (cs @ [slot]) zero_fixup (pci_dev_get k (pci_id d) w))))"

definition i2c_designware_spklen_init ::
  "'w lpss \<Rightarrow> spklen_params \<Rightarrow> pci_dev list \<Rightarrow> 'w \<Rightarrow> (errno + lpss_i2c_fixup list) \<times> 'w" where
  "i2c_designware_spklen_init k p devs w =
     (let (cs, w) = init_loop k p None devs [] zero_fixup w
      in if cs = [] then (Inl ENODEV, w)
         else (Inr cs, register_pm_notifier k (apply_all k p cs w)))"

definition i2c_designware_spklen_exit :: "'w lpss \<Rightarrow> lpss_i2c_fixup list \<Rightarrow> 'w \<Rightarrow> 'w" where
  "i2c_designware_spklen_exit k cs w =
     fold (\<lambda>c w. let w = (if base c \<noteq> 0 then iounmap k (base c) w else w)
                in if pdev c \<noteq> 0 then pci_dev_put k (pdev c) w else w) cs (unregister_pm_notifier k w)"

end
