(* ===== verification/Spklen_Facts.thy ===== *)
theory Spklen_Facts
  imports Spklen
begin

text \<open>
  What the fixup leaves in the registers, how long it waits, and that loading and unloading the module
  gives back every PCI reference and every mapping.
\<close>

section \<open>Registers\<close>

text \<open>
  The addresses in \<open>P\<close> are plain registers: they keep what is written, and reading any address or
  waiting changes none of them. \<open>regs\<close> shows their contents in the world.
\<close>

definition reg_laws :: "'w lpss \<Rightarrow> ('w \<Rightarrow> nat \<Rightarrow> u32) \<Rightarrow> nat set \<Rightarrow> bool" where
  "reg_laws k regs P \<longleftrightarrow>
     (\<forall>a w. a \<in> P \<longrightarrow> fst (readl k a w) = regs w a) \<and>
     (\<forall>a b w. b \<in> P \<longrightarrow> regs (snd (readl k a w)) b = regs w b) \<and>
     (\<forall>v a b w. a \<in> P \<longrightarrow> b \<in> P \<longrightarrow> regs (writel k v a w) b = (if b = a then v else regs w b)) \<and>
     (\<forall>n b w. b \<in> P \<longrightarrow> regs (udelay k n w) b = regs w b)"

lemma reg_lawsD:
  assumes "reg_laws k regs P"
  shows "a \<in> P \<Longrightarrow> fst (readl k a w) = regs w a" "b \<in> P \<Longrightarrow> regs (snd (readl k a w)) b = regs w b"
    "a \<in> P \<Longrightarrow> b \<in> P \<Longrightarrow> regs (writel k v a w) b = (if b = a then v else regs w b)"
    "b \<in> P \<Longrightarrow> regs (udelay k n w) b = regs w b"
  using assms by (simp_all add: reg_laws_def)

definition plain :: "lpss_i2c_fixup \<Rightarrow> nat set \<Rightarrow> bool" where
  "plain fix P \<longleftrightarrow> base fix + DW_IC_FS_SPKLEN \<in> P \<and> base fix + DW_IC_HS_SPKLEN \<in> P \<and> base fix + DW_IC_ENABLE \<in> P"

lemma spk_offsets [simp]:
  "DW_IC_FS_SPKLEN \<noteq> DW_IC_HS_SPKLEN" "DW_IC_HS_SPKLEN \<noteq> DW_IC_FS_SPKLEN" "DW_IC_FS_SPKLEN \<noteq> DW_IC_ENABLE"
  "DW_IC_ENABLE \<noteq> DW_IC_FS_SPKLEN" "DW_IC_HS_SPKLEN \<noteq> DW_IC_ENABLE" "DW_IC_ENABLE \<noteq> DW_IC_HS_SPKLEN"
  by (simp_all add: DW_IC_FS_SPKLEN_def DW_IC_HS_SPKLEN_def DW_IC_ENABLE_def)

lemma wait_keeps:
  assumes "reg_laws k regs P" "b \<in> P"
  shows "regs (snd (wait_loop k c t w)) b = regs w b"
proof (induction t arbitrary: w)
  case 0
  show ?case using reg_lawsD(2) [OF assms, of _ w] by (subst wait_loop.simps) (simp add: case_prod_beta)
next
  case (Suc t)
  then show ?case
    using reg_lawsD(2,4) [OF assms] by (subst wait_loop.simps) (simp add: case_prod_beta)
qed

definition programmed :: "lpss_i2c_fixup \<Rightarrow> (nat \<Rightarrow> u32) \<Rightarrow> bool" where
  "programmed fix r \<longleftrightarrow> r (base fix + DW_IC_FS_SPKLEN) = ucast (spklen_fs fix) \<and>
     (spklen_hs fix = 0 \<or> r (base fix + DW_IC_HS_SPKLEN) = ucast (spklen_hs fix))"

section \<open>Waiting\<close>

text \<open>What the \<open>n\<close>-th reading of the status register gives.\<close>

fun status :: "'w lpss \<Rightarrow> nat \<Rightarrow> nat \<Rightarrow> 'w \<Rightarrow> u32" where
  "status k b 0 w = fst (readl k (b + DW_IC_ENABLE_STATUS) w)"
| "status k b (Suc n) w = status k b n (udelay k 25 (snd (readl k (b + DW_IC_ENABLE_STATUS) w)))"

lemma wait_loop_status: "fst (wait_loop k b t w) \<longleftrightarrow> (\<exists>n\<le>t. status k b n w AND 1 = 0)"
proof (induction t arbitrary: w)
  case 0
  show ?case by (subst wait_loop.simps) (simp add: case_prod_beta)
next
  case (Suc t)
  have "(\<exists>n\<le>Suc t. status k b n w AND 1 = 0) \<longleftrightarrow> status k b 0 w AND 1 = 0 \<or> (\<exists>n\<le>t. status k b (Suc n) w AND 1 = 0)"
    by (metis Suc_le_mono le0 not0_implies_Suc)
  then show ?case using Suc by (subst wait_loop.simps) (simp add: case_prod_beta)
qed

text \<open>The wait gives up after exactly one hundred readings: it succeeds if and only if one of the first
  hundred readings, 25 microseconds apart, shows the controller disabled.\<close>

theorem wait_hundred_reads:
  "fst (wait_controller_disabled k b w) \<longleftrightarrow> list_ex (\<lambda>n. status k b n w AND 1 = 0) [0..<100]"
proof -
  have "(\<exists>n\<le>99. status k b n w AND 1 = 0) \<longleftrightarrow> list_ex (\<lambda>n. status k b n w AND 1 = 0) [0..<100]"
    unfolding list_ex_iff set_upt by (simp add: Bex_def less_Suc_eq_le [of _ 99, simplified])
  then show ?thesis unfolding wait_controller_disabled_def wait_loop_status .
qed

section \<open>The fixup of one controller\<close>

text \<open>The world in which the wait starts: the two lengths and the enable register read, 0 written to the latter.\<close>

definition disabling :: "'w lpss \<Rightarrow> lpss_i2c_fixup \<Rightarrow> 'w \<Rightarrow> 'w" where
  "disabling k fix w = writel k 0 (base fix + DW_IC_ENABLE) (snd (readl k (base fix + DW_IC_ENABLE)
     (snd (readl k (base fix + DW_IC_HS_SPKLEN) (snd (readl k (base fix + DW_IC_FS_SPKLEN) w))))))"

text \<open>The controller reports itself disabled within a hundred readings of its status.\<close>

definition goes_off :: "'w lpss \<Rightarrow> lpss_i2c_fixup \<Rightarrow> 'w \<Rightarrow> bool" where
  "goes_off k fix w \<longleftrightarrow> list_ex (\<lambda>n. status k (base fix) n (disabling k fix w) AND 1 = 0) [0..<100]"

definition only_looks :: "'w lpss \<Rightarrow> lpss_i2c_fixup \<Rightarrow> 'w \<Rightarrow> 'w" where
  "only_looks k fix w = snd (readl k (base fix + DW_IC_HS_SPKLEN) (snd (readl k (base fix + DW_IC_FS_SPKLEN) w)))"

lemma apply_fixup_programmed:
  assumes "reg_laws k regs P" "plain fix P" "programmed fix (regs w)"
  shows "apply_fixup k fix w = only_looks k fix w"
  using assms(2,3)
  by (auto simp: plain_def apply_fixup_def only_looks_def programmed_def case_prod_beta reg_lawsD [OF assms(1)])

lemma apply_fixup_writes:
  assumes "reg_laws k regs P" "plain fix P" "\<not> programmed fix (regs w)"
  defines "was \<equiv> regs w (base fix + DW_IC_ENABLE) AND 1 \<noteq> 0" and "w' \<equiv> apply_fixup k fix w"
  shows "regs w' (base fix + DW_IC_ENABLE) =
      (if \<not> was then regs w (base fix + DW_IC_ENABLE) else if goes_off k fix w then 1 else 0)"
    "regs w' (base fix + DW_IC_FS_SPKLEN) =
      (if was \<and> \<not> goes_off k fix w then regs w (base fix + DW_IC_FS_SPKLEN) else ucast (spklen_fs fix))"
    "regs w' (base fix + DW_IC_HS_SPKLEN) =
      (if was \<and> \<not> goes_off k fix w \<or> spklen_hs fix = 0 then regs w (base fix + DW_IC_HS_SPKLEN) else ucast (spklen_hs fix))"
proof -
  note p = assms(2) [unfolded plain_def]
  note l = reg_lawsD [OF assms(1)]
  obtain fs w1 where 1: "readl k (base fix + DW_IC_FS_SPKLEN) w = (fs, w1)" by fastforce
  obtain hs w2 where 2: "readl k (base fix + DW_IC_HS_SPKLEN) w1 = (hs, w2)" by fastforce
  obtain en w3 where 3: "readl k (base fix + DW_IC_ENABLE) w2 = (en, w3)" by fastforce
  have r: "regs w1 b = regs w b" "regs w2 b = regs w b" "regs w3 b = regs w b" if "b \<in> P" for b
    using l(2) [OF that] 1 2 3 by (metis snd_conv)+
  have v: "fs = regs w (base fix + DW_IC_FS_SPKLEN)" "hs = regs w (base fix + DW_IC_HS_SPKLEN)"
      "en = regs w (base fix + DW_IC_ENABLE)"
    using l(1) p 1 2 3 r by (metis fst_conv)+
  have dis: "disabling k fix w = writel k 0 (base fix + DW_IC_ENABLE) w3" using 1 2 3 by (simp add: disabling_def)
  obtain ok w4 where 4: "wait_controller_disabled k (base fix) (writel k 0 (base fix + DW_IC_ENABLE) w3) = (ok, w4)"
    by fastforce
  have ok: "ok = goes_off k fix w" using wait_hundred_reads 4 by (metis dis fst_conv goes_off_def)
  have r4: "regs w4 b = (if b = base fix + DW_IC_ENABLE then 0 else regs w b)" if "b \<in> P" for b
    using wait_keeps [OF assms(1) that, of "base fix" 99 "writel k 0 (base fix + DW_IC_ENABLE) w3"] 4 l(3) p r that
    by (simp add: wait_controller_disabled_def)
  have w': "w' = (let (ok, w) = (if was then (ok, w4) else (True, w3)) in
       if \<not> ok then w
       else (let w = writel k (ucast (spklen_fs fix)) (base fix + DW_IC_FS_SPKLEN) w;
                 w = (if spklen_hs fix \<noteq> 0 then writel k (ucast (spklen_hs fix)) (base fix + DW_IC_HS_SPKLEN) w else w)
             in if was then writel k 1 (base fix + DW_IC_ENABLE) w else w))"
    using assms(3) 1 2 3 4 v unfolding w'_def was_def by (auto simp: apply_fixup_def programmed_def Let_def)
  show "regs w' (base fix + DW_IC_ENABLE) =
      (if \<not> was then regs w (base fix + DW_IC_ENABLE) else if goes_off k fix w then 1 else 0)"
    using p r4 r by (cases was; cases ok) (auto simp: w' Let_def l(3) ok [symmetric])
  show "regs w' (base fix + DW_IC_FS_SPKLEN) =
      (if was \<and> \<not> goes_off k fix w then regs w (base fix + DW_IC_FS_SPKLEN) else ucast (spklen_fs fix))"
    using p r4 r by (cases was; cases ok) (auto simp: w' Let_def l(3) ok [symmetric])
  show "regs w' (base fix + DW_IC_HS_SPKLEN) =
      (if was \<and> \<not> goes_off k fix w \<or> spklen_hs fix = 0 then regs w (base fix + DW_IC_HS_SPKLEN) else ucast (spklen_hs fix))"
    using p r4 r by (cases was; cases ok) (auto simp: w' Let_def l(3) ok [symmetric])
qed

text \<open>C17: the fixup does nothing but look when both spike lengths are already set. Otherwise it fails exactly when
  the controller was enabled and none of a hundred readings of its status, 25 microseconds apart, shows it
  disabled; the lengths are then what they were and the controller stays disabled. In every other case both
  lengths are programmed (a high-speed length of 0 leaves that register alone), the enable register is 1 if
  the controller was enabled and untouched if it was not, and a second run only looks.\<close>

theorem apply_fixup_effect:
  assumes "reg_laws k regs P" "plain fix P" "w' = apply_fixup k fix w"
  shows "if programmed fix (regs w) then w' = only_looks k fix w
    else if regs w (base fix + DW_IC_ENABLE) AND 1 \<noteq> 0 \<and>
        \<not> list_ex (\<lambda>n. status k (base fix) n (disabling k fix w) AND 1 = 0) [0..<100] then
      regs w' (base fix + DW_IC_ENABLE) = 0 \<and>
      regs w' (base fix + DW_IC_FS_SPKLEN) = regs w (base fix + DW_IC_FS_SPKLEN) \<and>
      regs w' (base fix + DW_IC_HS_SPKLEN) = regs w (base fix + DW_IC_HS_SPKLEN)
    else programmed fix (regs w') \<and>
      regs w' (base fix + DW_IC_ENABLE) =
        (if regs w (base fix + DW_IC_ENABLE) AND 1 \<noteq> 0 then 1 else regs w (base fix + DW_IC_ENABLE)) \<and>
      (spklen_hs fix = 0 \<longrightarrow> regs w' (base fix + DW_IC_HS_SPKLEN) = regs w (base fix + DW_IC_HS_SPKLEN)) \<and>
      apply_fixup k fix w' = only_looks k fix w'"
proof (cases "programmed fix (regs w)")
  case True
  then show ?thesis using apply_fixup_programmed [OF assms(1,2)] assms(3) by simp
next
  case False
  note e = apply_fixup_writes [OF assms(1,2) False, folded assms(3)]
  have again: "apply_fixup k fix w' = only_looks k fix w'" if "programmed fix (regs w')"
    using apply_fixup_programmed [OF assms(1,2) that] .
  have "programmed fix (regs w')" if "\<not> (regs w (base fix + DW_IC_ENABLE) AND 1 \<noteq> 0 \<and> \<not> goes_off k fix w)"
    using that e unfolding programmed_def by (metis (full_types))
  then show ?thesis
    using False e again unfolding goes_off_def [symmetric] by (auto split: if_splits)
qed

section \<open>References and mappings\<close>

text \<open>\<open>refs\<close> counts the references on a device, \<open>maps\<close> the mappings at an address; register accesses and the
  notifier change neither.\<close>

definition held_laws :: "'w lpss \<Rightarrow> ('w \<Rightarrow> nat \<Rightarrow> int) \<Rightarrow> ('w \<Rightarrow> nat \<Rightarrow> int) \<Rightarrow> bool" where
  "held_laws k refs maps \<longleftrightarrow>
     (\<forall>d w. refs (pci_dev_get k d w) = (refs w)(d := refs w d + 1) \<and> maps (pci_dev_get k d w) = maps w) \<and>
     (\<forall>d w. refs (pci_dev_put k d w) = (refs w)(d := refs w d - 1) \<and> maps (pci_dev_put k d w) = maps w) \<and>
     (\<forall>s n w b w'. ioremap k s n w = (b, w') \<longrightarrow>
        refs w' = refs w \<and> maps w' = (if b = 0 then maps w else (maps w)(b := maps w b + 1))) \<and>
     (\<forall>b w. refs (iounmap k b w) = refs w \<and> maps (iounmap k b w) = (maps w)(b := maps w b - 1)) \<and>
     (\<forall>a w. refs (snd (readl k a w)) = refs w \<and> maps (snd (readl k a w)) = maps w) \<and>
     (\<forall>v a w. refs (writel k v a w) = refs w \<and> maps (writel k v a w) = maps w) \<and>
     (\<forall>n w. refs (udelay k n w) = refs w \<and> maps (udelay k n w) = maps w) \<and>
     (\<forall>w. refs (register_pm_notifier k w) = refs w \<and> maps (register_pm_notifier k w) = maps w) \<and>
     (\<forall>w. refs (unregister_pm_notifier k w) = refs w \<and> maps (unregister_pm_notifier k w) = maps w)"

lemma held_lawsD:
  assumes "held_laws k refs maps"
  shows "refs (pci_dev_get k d w) = (refs w)(d := refs w d + 1)" "maps (pci_dev_get k d w) = maps w"
    "refs (pci_dev_put k d w) = (refs w)(d := refs w d - 1)" "maps (pci_dev_put k d w) = maps w"
    "refs (iounmap k b w) = refs w" "maps (iounmap k b w) = (maps w)(b := maps w b - 1)"
    "refs (snd (readl k a w)) = refs w" "maps (snd (readl k a w)) = maps w"
    "refs (writel k v a w) = refs w" "maps (writel k v a w) = maps w"
    "refs (udelay k n w) = refs w" "maps (udelay k n w) = maps w"
    "refs (register_pm_notifier k w) = refs w" "maps (register_pm_notifier k w) = maps w"
    "refs (unregister_pm_notifier k w) = refs w" "maps (unregister_pm_notifier k w) = maps w"
  using assms by (simp_all add: held_laws_def)

definition tally :: "('a \<Rightarrow> nat) \<Rightarrow> 'a list \<Rightarrow> nat \<Rightarrow> int" where
  "tally f xs d = int (length (filter (\<lambda>x. f x = d) xs))"

lemma tally_simps [simp]:
  "tally f [] d = 0" "tally f (xs @ ys) d = tally f xs d + tally f ys d"
  "tally f (x # xs) d = (if f x = d then 1 else 0) + tally f xs d"
  by (simp_all add: tally_def)

definition prev_ref :: "nat option \<Rightarrow> nat \<Rightarrow> int" where
  "prev_ref prev d = (if prev = Some d then 1 else 0)"

lemma pick_held:
  assumes "held_laws k refs maps"
  shows "refs (snd (pick_fs_spklen k p b w)) = refs w" "maps (snd (pick_fs_spklen k p b w)) = maps w"
    "refs (snd (pick_hs_spklen k p b w)) = refs w" "maps (snd (pick_hs_spklen k p b w)) = maps w"
  by (simp_all add: pick_fs_spklen_def pick_hs_spklen_def case_prod_beta held_lawsD [OF assms])

lemma put_prev_held:
  assumes "held_laws k refs maps"
  shows "refs (put_prev k prev w) d = refs w d - prev_ref prev d" "maps (put_prev k prev w) = maps w"
  by (auto simp: put_prev_def prev_ref_def held_lawsD [OF assms] split: option.splits)

text \<open>One round of the loop: it stops at a ninth controller, passes the device by, or takes it.\<close>

lemma init_loop_round:
  assumes "init_loop k p prev (e # ds) cs slot w = (cs', w')" "u = put_prev k prev (pci_dev_get k (pci_id e) w)"
  obtains (stop) "is_adl_n_i2c (device e)" "MAX_CONTROLLERS \<le> length cs" "cs' = cs" "w' = u"
  | (skip) slot' v where "init_loop k p (Some (pci_id e)) ds cs slot' v = (cs', w')"
      "v = u \<or> (\<exists>s n. ioremap k s n u = (0, v))"
  | (take) sl b v s n where "is_adl_n_i2c (device e)" "length cs < MAX_CONTROLLERS" "ioremap k s n u = (b, v)" "b \<noteq> 0"
      "base sl = b" "pdev sl = pci_id e"
      "init_loop k p (Some (pci_id e)) ds (cs @ [sl]) zero_fixup
        (pci_dev_get k (pci_id e) (snd (pick_hs_spklen k p b (snd (pick_fs_spklen k p b v))))) = (cs', w')"
proof -
  note st = assms(1) [unfolded init_loop.simps Let_def, folded assms(2)]
  obtain b v where m: "ioremap k (bar_start e) (bar_len e) u = (b, v)" by fastforce
  consider "\<not> is_adl_n_i2c (device e)" | "is_adl_n_i2c (device e)" "MAX_CONTROLLERS \<le> length cs"
    | "is_adl_n_i2c (device e)" "length cs < MAX_CONTROLLERS" "bar_start e = 0 \<or> bar_len e = 0"
    | "is_adl_n_i2c (device e)" "length cs < MAX_CONTROLLERS" "bar_start e \<noteq> 0" "bar_len e \<noteq> 0" by linarith
  then show ?thesis
  proof cases
    case 1
    then have "init_loop k p (Some (pci_id e)) ds cs slot u = (cs', w')" using st by simp
    then show ?thesis by (rule skip) simp
  next
    case 2
    then have "(cs', w') = (cs, u)" using st by simp
    then show ?thesis using 2 by (intro stop) simp_all
  next
    case 3
    then have "init_loop k p (Some (pci_id e)) ds cs slot u = (cs', w')" using st by simp
    then show ?thesis by (rule skip) simp
  next
    case 4
    show ?thesis
    proof (cases "b = 0")
      case True
      then obtain slot' where "init_loop k p (Some (pci_id e)) ds cs slot' v = (cs', w')" using st 4 m by simp
      then show ?thesis by (rule skip) (use m True in blast)
    next
      case False
      then obtain sl where "init_loop k p (Some (pci_id e)) ds (cs @ [sl]) zero_fixup
        (pci_dev_get k (pci_id e) (snd (pick_hs_spklen k p b (snd (pick_fs_spklen k p b v))))) = (cs', w')"
        "base sl = b" "pdev sl = pci_id e"
        using st 4 m by (simp add: case_prod_beta split: if_splits)
      then show ?thesis using take [OF 4(1,2) m False] by blast
    qed
  qed
qed

text \<open>The loop keeps one reference and one mapping per controller; every other reference it took it gives
  back, unless it stops at a ninth controller.\<close>

lemma init_loop_held:
  assumes "held_laws k refs maps" "init_loop k p prev ds cs slot w = (cs', w')"
    and "length cs + length (filter (\<lambda>d. is_adl_n_i2c (device d)) ds) \<le> MAX_CONTROLLERS"
  shows "refs w' d = refs w d - prev_ref prev d + tally pdev cs' d - tally pdev cs d \<and>
    maps w' d = maps w d + tally base cs' d - tally base cs d"
  using assms(2,3)
proof (induction ds arbitrary: prev cs slot w)
  case Nil
  then show ?case using put_prev_held [OF assms(1)] by auto
next
  case (Cons e ds)
  let ?u = "put_prev k prev (pci_dev_get k (pci_id e) w)"
  have u: "refs ?u d = refs w d + prev_ref (Some (pci_id e)) d - prev_ref prev d" "maps ?u = maps w"
    using put_prev_held [OF assms(1)] by (simp_all add: held_lawsD [OF assms(1)] prev_ref_def)
  have m: "refs v = refs ?u \<and> maps v = (if b = 0 then maps ?u else (maps ?u)(b := maps ?u b + 1))"
    if "ioremap k s n ?u = (b, v)" for s n b v using assms(1) that unfolding held_laws_def by blast
  show ?case
    using Cons.prems(1) refl
  proof (cases rule: init_loop_round)
    case stop
    then show ?thesis using Cons.prems(2) by simp
  next
    case (skip slot' v)
    then have "refs v = refs ?u" "maps v = maps ?u" using m by auto
    then show ?thesis using Cons.IH [OF skip(1)] Cons.prems(2) u by (simp split: if_splits)
  next
    case (take sl b v s n)
    have "refs (snd (pick_hs_spklen k p b (snd (pick_fs_spklen k p b v)))) = refs ?u"
      "maps (snd (pick_hs_spklen k p b (snd (pick_fs_spklen k p b v)))) = (maps ?u)(b := maps ?u b + 1)"
      using pick_held [OF assms(1)] m [OF take(3)] take(4) by simp_all
    then show ?thesis
      using Cons.IH [OF take(7)] Cons.prems(2) take(1,5,6) u
      by (auto simp: held_lawsD [OF assms(1)] prev_ref_def split: if_splits)
  qed
qed

lemma init_loop_wf:
  assumes "init_loop k p prev ds cs slot w = (cs', w')" "\<forall>e\<in>set ds. pci_id e \<noteq> 0"
    and "\<forall>c\<in>set cs. base c \<noteq> 0 \<and> pdev c \<noteq> 0" "length cs \<le> MAX_CONTROLLERS"
  shows "(\<forall>c\<in>set cs'. base c \<noteq> 0 \<and> pdev c \<noteq> 0) \<and> length cs' \<le> MAX_CONTROLLERS"
  using assms
proof (induction ds arbitrary: prev cs slot w)
  case (Cons e ds)
  from Cons.prems(1) refl show ?case
  proof (cases rule: init_loop_round)
    case stop
    then show ?thesis using Cons.prems by simp
  next
    case (skip slot' v)
    then show ?thesis using Cons.IH [OF skip(1)] Cons.prems by simp
  next
    case (take sl b v s n)
    then show ?thesis using Cons.IH [OF take(7)] Cons.prems by simp
  qed
qed auto

lemma apply_held:
  assumes "held_laws k refs maps"
  shows "refs (apply_all k p cs w) = refs w \<and> maps (apply_all k p cs w) = maps w"
proof -
  note l = held_lawsD [OF assms]
  have wt: "refs (snd (wait_loop k b t w)) = refs w \<and> maps (snd (wait_loop k b t w)) = maps w" for b t w
    by (induction t arbitrary: w) (subst wait_loop.simps, simp add: case_prod_beta l)+
  have f: "refs (apply_fixup k c w) = refs w \<and> maps (apply_fixup k c w) = maps w" for c w
    using wt by (simp add: apply_fixup_def wait_controller_disabled_def case_prod_beta l Let_def)
  have g: "refs (apply_clkgate k c w) = refs w \<and> maps (apply_clkgate k c w) = maps w" for c w
    by (simp add: apply_clkgate_def case_prod_beta l Let_def)
  show ?thesis unfolding apply_all_def by (induction cs arbitrary: w) (simp_all add: f g Let_def)
qed

lemma exit_held:
  assumes "held_laws k refs maps" "\<forall>c\<in>set cs. base c \<noteq> 0 \<and> pdev c \<noteq> 0"
  shows "refs (i2c_designware_spklen_exit k cs w) d = refs w d - tally pdev cs d \<and>
    maps (i2c_designware_spklen_exit k cs w) d = maps w d - tally base cs d"
proof -
  note l = held_lawsD [OF assms(1)]
  let ?f = "\<lambda>c w. let w = (if base c \<noteq> 0 then iounmap k (base c) w else w)
    in if pdev c \<noteq> 0 then pci_dev_put k (pdev c) w else w"
  have "refs (fold ?f cs w) d = refs w d - tally pdev cs d \<and> maps (fold ?f cs w) d = maps w d - tally base cs d" for w
    using assms(2)
  proof (induction cs arbitrary: w)
    case (Cons c cs)
    then show ?case by (auto simp: l Let_def)
  qed simp
  then show ?thesis unfolding i2c_designware_spklen_exit_def by (simp add: l)
qed

text \<open>On a machine with at most eight matching devices the module drives at most eight controllers, and
  loading it and unloading it again leaves every device's reference count and every mapping as they
  were, whatever mappings were refused on the way; a load that finds nothing leaves them at once.\<close>

theorem spklen_load_unload:
  assumes "held_laws k refs maps" "i2c_designware_spklen_init k p ds w = (r, w')" "\<forall>e\<in>set ds. pci_id e \<noteq> 0"
    and "length (filter (\<lambda>d. is_adl_n_i2c (device d)) ds) \<le> MAX_CONTROLLERS"
  shows "case r of Inl e \<Rightarrow> e = ENODEV \<and> refs w' = refs w \<and> maps w' = maps w
    | Inr cs \<Rightarrow> cs \<noteq> [] \<and> length cs \<le> 8 \<and> refs (i2c_designware_spklen_exit k cs w') = refs w \<and>
        maps (i2c_designware_spklen_exit k cs w') = maps w"
proof -
  obtain cs w1 where i: "init_loop k p None ds [] zero_fixup w = (cs, w1)" by fastforce
  have wf: "(\<forall>c\<in>set cs. base c \<noteq> 0 \<and> pdev c \<noteq> 0) \<and> length cs \<le> MAX_CONTROLLERS"
    using init_loop_wf [OF i assms(3)] by simp
  have h: "refs w1 d = refs w d + tally pdev cs d \<and> maps w1 d = maps w d + tally base cs d" for d
    using init_loop_held [OF assms(1) i, of d] assms(4) by (simp add: prev_ref_def)
  show ?thesis
  proof (cases "cs = []")
    case True
    then show ?thesis using h i assms(2) by (auto simp: i2c_designware_spklen_init_def fun_eq_iff)
  next
    case False
    then have r: "r = Inr cs" "w' = register_pm_notifier k (apply_all k p cs w1)"
      using i assms(2) by (auto simp: i2c_designware_spklen_init_def)
    have "refs w' = refs w1" "maps w' = maps w1"
      using r(2) apply_held [OF assms(1)] by (simp_all add: held_lawsD [OF assms(1)])
    then show ?thesis
      using r(1) False wf h exit_held [OF assms(1), of cs w'] by (auto simp: MAX_CONTROLLERS_def)
  qed
qed

section \<open>A concrete machine\<close>

record reg_world =
  rw_regs :: "nat \<Rightarrow> u32"
  rw_refs :: "nat \<Rightarrow> int"
  rw_maps :: "nat \<Rightarrow> int"

definition reg_lpss :: "reg_world lpss" where
  "reg_lpss = \<lparr>readl = (\<lambda>a w. (rw_regs w a, w)), writel = (\<lambda>v a w. w\<lparr>rw_regs := (rw_regs w)(a := v)\<rparr>),
     udelay = (\<lambda>n w. w), ioremap = (\<lambda>s n w. (unat s, if unat s = 0 then w else w\<lparr>rw_maps := (rw_maps w)(unat s := rw_maps w (unat s) + 1)\<rparr>)),
     iounmap = (\<lambda>b w. w\<lparr>rw_maps := (rw_maps w)(b := rw_maps w b - 1)\<rparr>),
     pci_dev_get = (\<lambda>d w. w\<lparr>rw_refs := (rw_refs w)(d := rw_refs w d + 1)\<rparr>),
     pci_dev_put = (\<lambda>d w. w\<lparr>rw_refs := (rw_refs w)(d := rw_refs w d - 1)\<rparr>),
     register_pm_notifier = (\<lambda>w. w), unregister_pm_notifier = (\<lambda>w. w)\<rparr>"

definition reg_zero :: reg_world where
  "reg_zero = \<lparr>rw_regs = (\<lambda>_. 0), rw_refs = (\<lambda>_. 0), rw_maps = (\<lambda>_. 0)\<rparr>"

definition sample_fixup :: lpss_i2c_fixup where
  "sample_fixup = \<lparr>base = 4096, priv = 0, pdev = 1, spklen_fs = 6, spklen_hs = 2\<rparr>"

definition sample_devices :: "pci_dev list" where
  "sample_devices = [\<lparr>pci_id = 1, device = 0x1234, bar_start = 4096, bar_len = 4096\<rparr>,
     \<lparr>pci_id = 2, device = 0x54e8, bar_start = 8192, bar_len = 4096\<rparr>]"

lemma reg_lpss_laws: "reg_laws reg_lpss rw_regs UNIV" "held_laws reg_lpss rw_refs rw_maps"
  by (auto simp: reg_laws_def held_laws_def reg_lpss_def)

text \<open>An enabled controller that reports itself disabled at once, and one that never does.\<close>

definition enabled_regs :: "u32 \<Rightarrow> reg_world" where
  "enabled_regs st = reg_zero\<lparr>rw_regs := (\<lambda>_. 0)(4096 + DW_IC_ENABLE := 1, 4096 + DW_IC_ENABLE_STATUS := st)\<rparr>"

lemma enabled_status: "status reg_lpss 4096 n (disabling reg_lpss sample_fixup (enabled_regs st)) = st"
  by (induction n) (simp_all add: reg_lpss_def enabled_regs_def disabling_def sample_fixup_def
      DW_IC_ENABLE_def DW_IC_ENABLE_STATUS_def)

theorem apply_fixup_effect_witness:
  "rw_regs (apply_fixup reg_lpss sample_fixup (enabled_regs 0)) (4096 + DW_IC_FS_SPKLEN) = 6 \<and>
   rw_regs (apply_fixup reg_lpss sample_fixup (enabled_regs 0)) (4096 + DW_IC_ENABLE) = 1 \<and>
   rw_regs (apply_fixup reg_lpss sample_fixup (enabled_regs 1)) (4096 + DW_IC_FS_SPKLEN) = 0 \<and>
   rw_regs (apply_fixup reg_lpss sample_fixup (enabled_regs 1)) (4096 + DW_IC_ENABLE) = 0"
proof -
  have p: "plain sample_fixup UNIV" by (simp add: plain_def)
  have b: "base sample_fixup = 4096" by (simp add: sample_fixup_def)
  have n: "\<not> programmed sample_fixup (rw_regs (enabled_regs st))" "rw_regs (enabled_regs st) (4096 + DW_IC_ENABLE) = 1" for st
    by (simp_all add: programmed_def sample_fixup_def enabled_regs_def reg_zero_def DW_IC_FS_SPKLEN_def
        DW_IC_ENABLE_def DW_IC_ENABLE_STATUS_def)
  have z: "rw_regs (enabled_regs st) (4096 + DW_IC_FS_SPKLEN) = 0" for st
    by (simp add: enabled_regs_def DW_IC_FS_SPKLEN_def DW_IC_ENABLE_def DW_IC_ENABLE_STATUS_def)
  have "list_ex (\<lambda>n. status reg_lpss 4096 n (disabling reg_lpss sample_fixup (enabled_regs 0)) AND 1 = 0) [0..<100]"
    "\<not> list_ex (\<lambda>n. status reg_lpss 4096 n (disabling reg_lpss sample_fixup (enabled_regs 1)) AND 1 = 0) [0..<100]"
    unfolding enabled_status list_ex_iff by (auto intro: exI [of _ 0])
  note st = this [folded b]
  show ?thesis
    using apply_fixup_effect [OF reg_lpss_laws(1) p refl, of "enabled_regs 0"]
      apply_fixup_effect [OF reg_lpss_laws(1) p refl, of "enabled_regs 1"] st n z
    by (simp add: b) (simp add: programmed_def sample_fixup_def)
qed

theorem spklen_load_unload_witness:
  "case i2c_designware_spklen_init reg_lpss \<lparr>fs_spklen = 0, hs_spklen = 0, clkgate = True\<rparr> sample_devices reg_zero of
     (Inl e, w) \<Rightarrow> False
   | (Inr cs, w) \<Rightarrow> map pdev cs = [2] \<and> rw_refs (i2c_designware_spklen_exit reg_lpss cs w) = (\<lambda>_. 0)"
proof -
  let ?p = "\<lparr>fs_spklen = 0, hs_spklen = 0, clkgate = True\<rparr>"
  obtain r w where i: "i2c_designware_spklen_init reg_lpss ?p sample_devices reg_zero = (r, w)" by fastforce
  have a: "map (\<lambda>d. is_adl_n_i2c (device d)) sample_devices = [False, True]" by code_simp
  have "case r of Inl e \<Rightarrow> False | Inr cs \<Rightarrow> map pdev cs = [2]"
    using i a
    by (auto simp: i2c_designware_spklen_init_def sample_devices_def MAX_CONTROLLERS_def put_prev_def reg_lpss_def
        case_prod_beta Let_def split: if_splits)
  moreover have "\<forall>e\<in>set sample_devices. pci_id e \<noteq> 0"
    "length (filter (\<lambda>d. is_adl_n_i2c (device d)) sample_devices) \<le> MAX_CONTROLLERS"
    by (simp_all add: sample_devices_def MAX_CONTROLLERS_def)
  from spklen_load_unload [OF reg_lpss_laws(2) i this] calculation
  show ?thesis unfolding i by (cases r) (auto simp: reg_zero_def)
qed

end
