(* ===== verification/Dptf.thy ===== *)
theory Dptf
  imports Prelude
begin

text \<open>
  \<^verbatim>\<open>dptf_enabler.c\<close>: finds the GNVS operation region in the DSDT's byte code, sets the participant flags
  there and rescans the ACPI bus. Tables and mapped memory are byte lists; \<open>None\<close> stands for an access
  outside of them. What the module asks of ACPI is recorded as a list of requests.
\<close>

section \<open>Finding the region\<close>

definition dsdt_header_size :: nat where "dsdt_header_size = 36"

text \<open>The comparison reads a byte only if all before it matched.\<close>

fun match_bytes :: "u8 list \<Rightarrow> nat \<Rightarrow> u8 list \<Rightarrow> bool option" where
  "match_bytes m i [] = Some True"
| "match_bytes m i (b # bs) = (case rd8 m i of None \<Rightarrow> None
     | Some c \<Rightarrow> if c = b then match_bytes m (i + 1) bs else Some False)"

definition gnvs_signature :: "u8 list" where
  "gnvs_signature = [0x5B, 0x80, 0x47, 0x4E, 0x56, 0x53, 0x00]"

text \<open>The two integers after the signature, address and length, at \<open>p\<close>.\<close>

definition gnvs_len_at :: "u8 list \<Rightarrow> nat \<Rightarrow> (errno + u32) option" where
  "gnvs_len_at m p = (case rd8 m p of None \<Rightarrow> None | Some t \<Rightarrow>
     if t = 0x0A then map_option (\<lambda>v. Inr (ucast v)) (rd8 m (p + 1))
     else if t = 0x0B then map_option (\<lambda>v. Inr (ucast v)) (rd_le16 m (p + 1))
     else if t = 0x0C then map_option Inr (rd_le32 m (p + 1))
     else Some (Inl EINVAL))"

definition gnvs_operands :: "u8 list \<Rightarrow> nat \<Rightarrow> (errno + u64 \<times> u32) option" where
  "gnvs_operands m p = (case rd8 m p of None \<Rightarrow> None | Some t \<Rightarrow>
     if t = 0x0C then (case rd_le32 m (p + 1) of None \<Rightarrow> None
       | Some a \<Rightarrow> map_option (map_sum id (\<lambda>n. (ucast a, n))) (gnvs_len_at m (p + 5)))
     else if t = 0x0E then (case rd_le64 m (p + 1) of None \<Rightarrow> None
       | Some a \<Rightarrow> map_option (map_sum id (\<lambda>n. (a, n))) (gnvs_len_at m (p + 9)))
     else Some (Inl EINVAL))"

text \<open>\<^verbatim>\<open>while (aml < end - 12)\<close>, with \<open>i\<close> the offset of \<^verbatim>\<open>aml\<close> in a table of \<^verbatim>\<open>dsdt->length\<close> bytes.\<close>

function scan_gnvs :: "u8 list \<Rightarrow> nat \<Rightarrow> (errno + u64 \<times> u32) option" where
  "scan_gnvs m i = (if i + 12 < length m then
     (case match_bytes m i gnvs_signature of None \<Rightarrow> None
      | Some True \<Rightarrow> gnvs_operands m (i + 7)
      | Some False \<Rightarrow> scan_gnvs m (i + 1))
     else Some (Inl ENOENT))"
  by pat_completeness auto
termination by (relation "measure (\<lambda>(m, i). length m - i)") auto

declare scan_gnvs.simps [simp del]

text \<open>\<open>dsdt\<close> is what \<^verbatim>\<open>acpi_get_table\<close> delivers, if it succeeds.\<close>

definition find_gnvs :: "u8 list option \<Rightarrow> (errno + u64 \<times> u32) option" where
  "find_gnvs dsdt = (case dsdt of None \<Rightarrow> Some (Inl ENODEV) | Some m \<Rightarrow> scan_gnvs m dsdt_header_size)"

section \<open>Setting the flags\<close>

definition flags :: "(nat \<times> string) list" where
  "flags = [(0x072, ''DPTF''), (0x1F4, ''PWRE''), (0x32F, ''BATR''), (0x969, ''PCHE'')]"

definition fan_flags :: "(nat \<times> string) list" where
  "fan_flags = [(0x076, ''FND1''), (0xB54, ''FND2''), (0xB55, ''FND3'')]"

definition sensor_flags :: "(nat \<times> string) list" where
  "sensor_flags = [(0x327, ''CHGE''), (0x333, ''S1DE''), (0x334, ''S2DE''), (0x335, ''S3DE''), (0x336, ''S4DE''),
     (0x337, ''S5DE''), (0xB56, ''S6DE'')]"

fun SET_FLAGS :: "(nat \<times> string) list \<Rightarrow> u8 list \<times> nat \<Rightarrow> (u8 list \<times> nat) option" where
  "SET_FLAGS [] s = Some s"
| "SET_FLAGS ((off, name) # arr) (gnvs, n) = (case rd8 gnvs off of None \<Rightarrow> None
     | Some b \<Rightarrow> if b = 0
         then (case wr8 off 1 gnvs of None \<Rightarrow> None | Some gnvs \<Rightarrow> SET_FLAGS arr (gnvs, n + 1))
         else SET_FLAGS arr (gnvs, n))"

datatype acpi_request = Run_osc "u32 list" | Bus_scan

definition DPTF_OSC_CAPS :: u32 where "DPTF_OSC_CAPS = 0x0F"

text \<open>
  The machine as the module sees it: its table, the memory \<^verbatim>\<open>memremap\<close> delivers for a region (\<open>None\<close>
  when it refuses), and whether the DPTF manager device exists.
\<close>

record dptf_env =
  dsdt_table :: "u8 list option"
  memremap :: "u64 \<Rightarrow> u32 \<Rightarrow> u8 list option"
  ietm_handle :: bool

record dptf_result =
  ret_code :: "errno option"
  gnvs_after :: "u8 list option"
  enabled :: nat
  requests :: "acpi_request list"

definition dptf_set_all :: "bool \<Rightarrow> bool \<Rightarrow> u8 list \<Rightarrow> (u8 list \<times> nat) option" where
  "dptf_set_all enable_fans enable_sensors gnvs =
     Option.bind (SET_FLAGS flags (gnvs, 0)) (\<lambda>s.
     Option.bind (if enable_fans then SET_FLAGS fan_flags s else Some s) (\<lambda>s.
     if enable_sensors then SET_FLAGS sensor_flags s else Some s))"

definition dptf_enabler_init :: "bool \<Rightarrow> bool \<Rightarrow> dptf_env \<Rightarrow> dptf_result option" where
  "dptf_enabler_init enable_fans enable_sensors e = (case find_gnvs (dsdt_table e) of
     None \<Rightarrow> None
   | Some (Inl _) \<Rightarrow> Some \<lparr>ret_code = Some ENODEV, gnvs_after = None, enabled = 0, requests = []\<rparr>
   | Some (Inr (a, len)) \<Rightarrow> (case memremap e a len of
       None \<Rightarrow> Some \<lparr>ret_code = Some ENOMEM, gnvs_after = None, enabled = 0, requests = []\<rparr>
     | Some gnvs \<Rightarrow> (case dptf_set_all enable_fans enable_sensors gnvs of
         None \<Rightarrow> None
       | Some (gnvs, n) \<Rightarrow>
           Some \<lparr>ret_code = None, gnvs_after = Some gnvs, enabled = n,
             requests = (if n = 0 then []
               else (if ietm_handle e then [Run_osc [0, DPTF_OSC_CAPS]] else []) @ [Bus_scan])\<rparr>)))"

section \<open>The scan\<close>

definition gnvs_at :: "u8 list \<Rightarrow> nat \<Rightarrow> bool" where
  "gnvs_at m i \<longleftrightarrow> take 7 (drop i m) = gnvs_signature"

lemma gnvs_signature_length: "length gnvs_signature = 7"
  by (simp add: gnvs_signature_def)

lemma match_bytes_in: "i + length bs \<le> length m \<Longrightarrow> match_bytes m i bs = Some (take (length bs) (drop i m) = bs)"
proof (induction bs arbitrary: i)
  case (Cons b bs)
  have d: "drop i m = m ! i # drop (i + 1) m" using Cons.prems by (simp add: Cons_nth_drop_Suc)
  show ?case using Cons d by (auto simp: rd8_def)
qed simp

lemma match_gnvs: "i + 12 < length m \<Longrightarrow> match_bytes m i gnvs_signature = Some (gnvs_at m i)"
  using match_bytes_in [of i gnvs_signature m] by (simp add: gnvs_at_def gnvs_signature_length)

text \<open>The scan stops at the first signature that starts at least thirteen bytes before the end.\<close>

lemma scan_gnvs_first:
  "scan_gnvs m i = (case find (gnvs_at m) [i..<length m - 12] of
     None \<Rightarrow> Some (Inl ENOENT) | Some j \<Rightarrow> gnvs_operands m (j + 7))"
proof (induction m i rule: scan_gnvs.induct)
  case (1 m i)
  show ?case
  proof (cases "i + 12 < length m")
    case True
    then have u: "[i..<length m - 12] = i # [i + 1..<length m - 12]" by (simp add: upt_conv_Cons)
    show ?thesis
      using 1 [OF True, of False] match_gnvs [OF True]
      by (subst scan_gnvs.simps) (auto simp: True u split: option.splits)
  qed (simp add: scan_gnvs.simps)
qed

lemma operands_in: "p + 14 \<le> length m \<Longrightarrow> gnvs_operands m p \<noteq> None"
proof -
  assume p: "p + 14 \<le> length m"
  have l: "gnvs_len_at m q \<noteq> None" if "q + 5 \<le> length m" for q
    using that rd_le16_in [of "q + 1" m] rd_le32_in [of "q + 1" m] by (auto simp: gnvs_len_at_def rd8_def)
  show ?thesis
    using p l [of "p + 5"] l [of "p + 9"] rd_le32_in [of "p + 1" m] rd_le64_in [of "p + 1" m]
    by (auto simp: gnvs_operands_def rd8_def)
qed

text \<open>C19: the search for the region stays inside the table unless a signature starts in its last twenty
  bytes: it then answers with the operands of the first signature, or ENOENT when there is none.\<close>

theorem find_gnvs_in_bounds:
  assumes "\<forall>j. dsdt_header_size \<le> j \<and> gnvs_at m j \<longrightarrow> j + 21 \<le> length m"
  shows "find_gnvs (Some m) \<noteq> None \<and>
    find_gnvs (Some m) = (case find (gnvs_at m) [dsdt_header_size..<length m - 12] of
      None \<Rightarrow> Some (Inl ENOENT) | Some j \<Rightarrow> gnvs_operands m (j + 7))"
proof -
  have "gnvs_operands m (j + 7) \<noteq> None" if "find (gnvs_at m) [dsdt_header_size..<length m - 12] = Some j" for j
  proof -
    obtain i where "j = [dsdt_header_size..<length m - 12] ! i" "i < length [dsdt_header_size..<length m - 12]" "gnvs_at m j"
      using \<open>find (gnvs_at m) [dsdt_header_size..<length m - 12] = Some j\<close> by (auto simp: find_Some_iff)
    then have "dsdt_header_size \<le> j \<and> gnvs_at m j" by simp
    then show ?thesis using assms operands_in [of "j + 7" m] by auto
  qed
  then show ?thesis by (auto simp: find_gnvs_def scan_gnvs_first split: option.splits)
qed

definition sample_dsdt :: "u8 list" where
  "sample_dsdt = replicate 36 0 @ gnvs_signature @ [0x0C, 0, 0x10, 0, 0, 0x0B, 0x57, 0x0B] @ replicate 8 0"

lemma sample_gnvs: "list_all (\<lambda>j. gnvs_at sample_dsdt j = (j = 36)) [0..<60]" "length sample_dsdt = 59"
  "find (gnvs_at sample_dsdt) [dsdt_header_size..<47] = Some 36"
  "gnvs_operands sample_dsdt 43 = Some (Inr (0x1000, 0xB57))"
  by code_simp+

lemma find_gnvs_sample: "find_gnvs (Some sample_dsdt) = Some (Inr (0x1000, 0xB57))"
  by (simp add: find_gnvs_def scan_gnvs_first sample_gnvs)

theorem find_gnvs_in_bounds_witness:
  "find_gnvs (Some sample_dsdt) \<noteq> None \<and> find_gnvs (Some sample_dsdt) = gnvs_operands sample_dsdt 43"
proof -
  have "\<forall>j. dsdt_header_size \<le> j \<and> gnvs_at sample_dsdt j \<longrightarrow> j + 21 \<le> length sample_dsdt"
  proof (intro allI impI)
    fix j assume j: "dsdt_header_size \<le> j \<and> gnvs_at sample_dsdt j"
    have "length (take 7 (drop j sample_dsdt)) = 7" using j by (simp add: gnvs_at_def gnvs_signature_length)
    then have "j < 59" using sample_gnvs(2) by simp
    then have "j = 36" using j sample_gnvs(1) by (simp add: list_all_iff)
    then show "j + 21 \<le> length sample_dsdt" by (simp add: sample_gnvs(2))
  qed
  from find_gnvs_in_bounds [OF this] show ?thesis by (auto simp: sample_gnvs)
qed

text \<open>A table that ends in a signature with a 64-bit address is read beyond its end: the guard leaves
  room for twelve bytes after the signature's start, the operands take up to twenty.\<close>

theorem find_gnvs_reads_beyond:
  "find_gnvs (Some (replicate 36 0 @ gnvs_signature @ [0x0E, 0, 0, 0, 0, 0])) = None"
  by code_simp

section \<open>The flags\<close>

definition flags_set :: "nat list \<Rightarrow> u8 list \<Rightarrow> u8 list" where
  "flags_set offs g = map (\<lambda>i. if i \<in> set offs \<and> g ! i = 0 then 1 else g ! i) [0..<length g]"

lemma flags_set_simps [simp]:
  "length (flags_set offs g) = length g"
  "i < length g \<Longrightarrow> flags_set offs g ! i = (if i \<in> set offs \<and> g ! i = 0 then 1 else g ! i)"
  by (simp_all add: flags_set_def)

lemma flags_set_Nil [simp]: "flags_set [] g = g"
  by (simp add: flags_set_def map_nth)

definition clear_flags :: "nat list \<Rightarrow> u8 list \<Rightarrow> nat" where
  "clear_flags offs g = length (filter (\<lambda>i. g ! i = 0) offs)"

lemma SET_FLAGS_spec:
  "distinct (map fst arr) \<Longrightarrow> SET_FLAGS arr (g, n) = (if \<forall>i\<in>set (map fst arr). i < length g
     then Some (flags_set (map fst arr) g, n + clear_flags (map fst arr) g) else None)"
proof (induction arr arbitrary: g n)
  case (Cons x arr)
  obtain i nm where x: "x = (i, nm)" by fastforce
  show ?case
  proof (cases "i < length g")
    case True
    have c: "clear_flags (map fst arr) (g[i := 1]) = clear_flags (map fst arr) g"
      using Cons.prems x unfolding clear_flags_def by (intro arg_cong [of _ _ length] filter_cong)
        (auto simp: nth_list_update_frame image_iff)
    have f: "flags_set (map fst arr) (if g ! i = 0 then g[i := 1] else g) = flags_set (i # map fst arr) g"
      using True Cons.prems x by (cases "g ! i = 0"; intro nth_equalityI) (auto simp: nth_list_update)
    show ?thesis
      using Cons True c f by (auto simp: x rd8_def wr8_def clear_flags_def split: if_splits)
  qed (simp add: x rd8_def)
qed (simp add: clear_flags_def)

definition flag_offsets :: "bool \<Rightarrow> bool \<Rightarrow> nat list" where
  "flag_offsets fans sensors = map fst (flags @ (if fans then fan_flags else []) @ (if sensors then sensor_flags else []))"

lemma SET_FLAGS_append: "SET_FLAGS (a @ b) s = Option.bind (SET_FLAGS a s) (SET_FLAGS b)"
  by (induction a s rule: SET_FLAGS.induct) (auto split: option.splits)

lemma dptf_set_all_spec:
  "dptf_set_all f s g = (if \<forall>i\<in>set (flag_offsets f s). i < length g
     then Some (flags_set (flag_offsets f s) g, clear_flags (flag_offsets f s) g) else None)"
proof -
  have "distinct (flag_offsets f s)" by (cases f; cases s) (simp_all add: flag_offsets_def flags_def fan_flags_def sensor_flags_def)
  then have d: "distinct (map fst (flags @ (if f then fan_flags else []) @ (if s then sensor_flags else [])))"
    by (simp add: flag_offsets_def)
  have "dptf_set_all f s g = SET_FLAGS (flags @ (if f then fan_flags else []) @ (if s then sensor_flags else [])) (g, 0)"
    by (cases "SET_FLAGS flags (g, 0)") (auto simp: dptf_set_all_def SET_FLAGS_append split: bind_splits)
  then show ?thesis using SET_FLAGS_spec [OF d, of g 0] by (simp only: flag_offsets_def add_0)
qed

text \<open>C18: with the region found and mapped, the module sets exactly the chosen flags that were clear, keeps
  every other byte, and asks ACPI for a rescan exactly when it set one; run again on the memory it left,
  it sets nothing. The region's length is never compared with the offsets: when a chosen offset lies
  outside, the module accesses memory outside the mapping.\<close>

theorem dptf_sets_flags:
  assumes "find_gnvs (dsdt_table e) = Some (Inr (a, len))" "memremap e a len = Some g" "offs = flag_offsets f s"
  shows "if \<forall>i\<in>set offs. i < length g then
      dptf_enabler_init f s e = Some \<lparr>ret_code = None, gnvs_after = Some (flags_set offs g), enabled = clear_flags offs g,
        requests = (if clear_flags offs g = 0 then []
          else (if ietm_handle e then [Run_osc [0, DPTF_OSC_CAPS]] else []) @ [Bus_scan])\<rparr> \<and>
      dptf_set_all f s (flags_set offs g) = Some (flags_set offs g, 0)
    else dptf_enabler_init f s e = None"
proof -
  have "clear_flags offs (flags_set offs g) = 0" if "\<forall>i\<in>set offs. i < length g"
    using that by (auto simp: clear_flags_def filter_empty_conv)
  moreover have "flags_set offs (flags_set offs g) = flags_set offs g"
    by (rule nth_equalityI) auto
  ultimately show ?thesis
    using assms by (auto simp: dptf_enabler_init_def dptf_set_all_spec)
qed

definition sample_env :: dptf_env where
  "sample_env = \<lparr>dsdt_table = Some sample_dsdt, memremap = (\<lambda>a n. Some (replicate (unat n) 0)), ietm_handle = True\<rparr>"

theorem dptf_sets_flags_witness:
  "map_option enabled (dptf_enabler_init False False sample_env) = Some 4 \<and>
   map_option requests (dptf_enabler_init False False sample_env) = Some [Run_osc [0, 15], Bus_scan]"
proof -
  have f: "find_gnvs (dsdt_table sample_env) = Some (Inr (0x1000, 0xB57))"
    using find_gnvs_sample by (simp add: sample_env_def)
  have m: "memremap sample_env 0x1000 0xB57 = Some (replicate 2903 0)" by (simp add: sample_env_def)
  have o: "flag_offsets False False = [0x072, 0x1F4, 0x32F, 0x969]" by (simp add: flag_offsets_def flags_def)
  have "clear_flags (flag_offsets False False) (replicate 2903 0) = 4" unfolding o by (simp add: clear_flags_def)
  then show ?thesis
    using dptf_sets_flags [OF f m refl, of False False] by (simp add: o sample_env_def DPTF_OSC_CAPS_def)
qed

end
