(* ===== verification/VbtPatch.thy ===== *)
theory VbtPatch
  imports GStrings Fp "HOL-Library.Monad_Syntax"
begin

text \<open>
  \<^verbatim>\<open>vbt_patch.c\<close>: reads a video BIOS table, finds its blocks and patches pixel clock, rotation and power
  sequence delays. The file is a byte list and a pointer an offset into it; \<open>None\<close> is an access outside
  the file. The structures are those of the kernel's \<^verbatim>\<open>intel_vbt_defs.h\<close>, fetched when the program is
  built: where their fields lie is the parameter \<open>vbt_layout\<close>. \<^verbatim>\<open>getopt_long\<close> is a parameter too; what is
  printed is left out, except for the table lookups the printing makes.
\<close>

record vbt_layout =
  vbt_size_at :: nat
  vbt_checksum_at :: nat
  bdb_offset_at :: nat
  header_size_at :: nat
  bdb_size_at :: nat
  panel_type_at :: nat
  dtd_at :: nat
  dtd_bytes :: nat
  pixel_clock_at :: nat
  hactive_at :: nat
  hblank_at :: nat
  vactive_at :: nat
  vblank_at :: nat
  mipi_config_at :: nat
  mipi_config_bytes :: nat
  rotation_at :: nat
  rotation_shift :: nat
  pps_at :: nat
  pps_bytes :: nat
  panel_on_at :: nat
  bl_enable_at :: nat
  bl_disable_at :: nat
  panel_off_at :: nat
  power_cycle_at :: nat
  BDB_LFP_OPTIONS :: u8
  BDB_MIPI_CONFIG :: u8
  BDB_MIPI_SEQUENCE :: u8
  BDB_GENERIC_DTD :: u8
  MAX_MIPI_PANEL :: int

record patch_opts =
  opt_clock :: int
  opt_hz :: int
  opt_rotation :: int
  opt_panel_on :: int
  opt_panel_off :: int
  opt_bl_on :: int
  opt_bl_off :: int
  opt_cycle :: int
  opt_input :: "string option"
  opt_output :: "string option"

record vbt_ctx =
  ctx_vbt :: nat
  ctx_bdb :: nat
  ctx_bdb_size :: nat
  ctx_panel :: int
  ctx_gdtd :: "nat option"
  ctx_mipi_cfg :: "nat option"

section \<open>Finding things\<close>

text \<open>\<open>index\<close> stays below \<open>2 ^ 33\<close>, far from the wrap-around of \<^verbatim>\<open>size_t\<close>.\<close>

function block_loop :: "vbt_layout \<Rightarrow> u8 list \<Rightarrow> nat \<Rightarrow> nat \<Rightarrow> u8 \<Rightarrow> nat \<Rightarrow> nat option option" where
  "block_loop l data b tot block_id index =
     (if index + 3 < tot then
        do { i \<leftarrow> rd8 data (b + index);
             long \<leftarrow> (if i = BDB_MIPI_SEQUENCE l then map_option (\<lambda>v. 3 \<le> v) (rd8 data (b + index + 3)) else Some False);
             size \<leftarrow> (if long then map_option unat (rd_le32 data (b + index + 4))
                     else map_option unat (rd_le16 data (b + index + 1)));
             if i = block_id then Some (Some (b + index + 3)) else block_loop l data b tot block_id (index + 3 + size) }
      else Some None)"
  by pat_completeness auto
termination by (relation "measure (\<lambda>(l, data, b, tot, block_id, index). tot - index)") auto

declare block_loop.simps [simp del]

definition find_block :: "vbt_layout \<Rightarrow> u8 list \<Rightarrow> nat \<Rightarrow> nat \<Rightarrow> u8 \<Rightarrow> nat option option" where
  "find_block l data bdb bdb_size block_id =
     do { hs \<leftarrow> rd_le16 data (bdb + header_size_at l);
          bs \<leftarrow> rd_le16 data (bdb + bdb_size_at l);
          block_loop l data bdb (if bdb_size < unat bs then bdb_size else unat bs) block_id (unat hs) }"

definition vbt_signature :: "u8 list" where
  "vbt_signature = [0x24, 0x56, 0x42, 0x54]"

function vbt_loop :: "u8 list \<Rightarrow> nat \<Rightarrow> nat option" where
  "vbt_loop data i = (if i + 4 \<le> length data then
     (if take 4 (drop i data) = vbt_signature then Some i else vbt_loop data (i + 1)) else None)"
  by pat_completeness auto
termination by (relation "measure (\<lambda>(data, i). length data - i)") auto

declare vbt_loop.simps [simp del]

definition find_vbt :: "u8 list \<Rightarrow> nat option" where
  "find_vbt data = vbt_loop data 0"

text \<open>The outer \<open>None\<close> is an access outside the file, \<open>Some None\<close> the error return.\<close>

definition init_ctx :: "vbt_layout \<Rightarrow> u8 list \<Rightarrow> vbt_ctx option option" where
  "init_ctx l data = (case find_vbt data of
     None \<Rightarrow> Some None
   | Some vbt \<Rightarrow>
      do { bo \<leftarrow> rd_le32 data (vbt + bdb_offset_at l);
           let bdb = vbt + unat bo;
           let bdb_size = nat ((int (length data) - int vbt - int (unat bo)) mod 2 ^ 64);
           lfp \<leftarrow> find_block l data bdb bdb_size (BDB_LFP_OPTIONS l);
           case lfp of
             None \<Rightarrow> Some None
           | Some o' \<Rightarrow>
              do { panel \<leftarrow> rd8 data (o' + panel_type_at l);
                   gdtd \<leftarrow> find_block l data bdb bdb_size (BDB_GENERIC_DTD l);
                   mipi \<leftarrow> find_block l data bdb bdb_size (BDB_MIPI_CONFIG l);
                   Some (if gdtd = None \<and> mipi = None then None
                         else Some \<lparr>ctx_vbt = vbt, ctx_bdb = bdb, ctx_bdb_size = bdb_size, ctx_panel = int (unat panel),
                                     ctx_gdtd = gdtd, ctx_mipi_cfg = mipi\<rparr>) } })"

section \<open>Patching\<close>

fun sum_bytes :: "u8 list \<Rightarrow> nat \<Rightarrow> nat \<Rightarrow> u8 \<Rightarrow> u8 option" where
  "sum_bytes data i 0 acc = Some acc"
| "sum_bytes data i (Suc n) acc = do { b \<leftarrow> rd8 data i; sum_bytes data (i + 1) n (acc + b) }"

definition update_checksum :: "vbt_layout \<Rightarrow> nat \<Rightarrow> u8 list \<Rightarrow> u8 list option" where
  "update_checksum l vbt data =
     do { data \<leftarrow> wr8 (vbt + vbt_checksum_at l) 0 data;
          size \<leftarrow> rd_le16 data (vbt + vbt_size_at l);
          s \<leftarrow> sum_bytes data vbt (unat size) 0;
          wr8 (vbt + vbt_checksum_at l) (- s) data }"

definition dtd_entry :: "vbt_layout \<Rightarrow> vbt_ctx \<Rightarrow> nat \<Rightarrow> nat" where
  "dtd_entry l ctx gdtd = gdtd + dtd_at l + nat (ctx_panel ctx) * dtd_bytes l"

definition resolve_hz_to_clock :: "vbt_layout \<Rightarrow> vbt_ctx \<Rightarrow> nat \<Rightarrow> int \<Rightarrow> u8 list \<Rightarrow> int option" where
  "resolve_hz_to_clock l ctx gdtd hz data =
     (let dtd = dtd_entry l ctx gdtd in
      do { ha \<leftarrow> rd_le16 data (dtd + hactive_at l);
           hb \<leftarrow> rd_le16 data (dtd + hblank_at l);
           va \<leftarrow> rd_le16 data (dtd + vactive_at l);
           vb \<leftarrow> rd_le16 data (dtd + vblank_at l);
           let htotal = uint ha + uint hb;
           let vtotal = uint va + uint vb;
           Some (c_int ((hz * htotal * vtotal) mod 2 ^ 64 div 1000)) })"

text \<open>The product of the totals is one of 32-bit numbers.\<close>

definition dtd_hz :: "vbt_layout \<Rightarrow> nat \<Rightarrow> u8 list \<Rightarrow> f64 option" where
  "dtd_hz l dtd data =
     do { ha \<leftarrow> rd_le16 data (dtd + hactive_at l);
          hb \<leftarrow> rd_le16 data (dtd + hblank_at l);
          va \<leftarrow> rd_le16 data (dtd + vactive_at l);
          vb \<leftarrow> rd_le16 data (dtd + vblank_at l);
          let htotal = uint ha + uint hb;
          let vtotal = uint va + uint vb;
          if htotal = 0 \<or> vtotal = 0 then Some 0
          else do { clock \<leftarrow> rd_le32 data (dtd + pixel_clock_at l);
                    Some ((fint (uint clock) * fint 1000) div fint (htotal * vtotal mod 2 ^ 32)) } }"

definition patch_clock :: "vbt_layout \<Rightarrow> vbt_ctx \<Rightarrow> nat \<Rightarrow> int \<Rightarrow> u8 list \<Rightarrow> u8 list option" where
  "patch_clock l ctx gdtd clock data =
     (let dtd = dtd_entry l ctx gdtd in
      do { old_hz \<leftarrow> dtd_hz l dtd data;
           old_clock \<leftarrow> rd_le32 data (dtd + pixel_clock_at l);
           data \<leftarrow> wr_le32 (dtd + pixel_clock_at l) (word_of_int clock) data;
           new_hz \<leftarrow> dtd_hz l dtd data;
           Some data })"

definition set_field :: "nat \<Rightarrow> u32 \<Rightarrow> u32 \<Rightarrow> u32" where
  "set_field sh v w = (w AND NOT (push_bit sh 3)) OR push_bit sh (v AND 3)"

text \<open>The printed names \<^verbatim>\<open>rotation_str[old]\<close> and \<^verbatim>\<open>rotation_str[rotation]\<close> are looked up in four entries.\<close>

definition patch_rotation :: "vbt_layout \<Rightarrow> vbt_ctx \<Rightarrow> nat \<Rightarrow> int \<Rightarrow> u8 list \<Rightarrow> u8 list option" where
  "patch_rotation l ctx mipi rotation data =
     (let cfg = mipi + mipi_config_at l + nat (ctx_panel ctx) * mipi_config_bytes l in
      do { w \<leftarrow> rd_le32 data (cfg + rotation_at l);
           data \<leftarrow> wr_le32 (cfg + rotation_at l) (set_field (rotation_shift l) (word_of_int rotation) w) data;
           if rotation < 4 then Some data else None })"

definition patch_pps_field :: "nat \<Rightarrow> int \<Rightarrow> u8 list \<Rightarrow> u8 list option" where
  "patch_pps_field field ms data =
     do { old \<leftarrow> rd_le16 data field; wr_le16 field (word_of_int (ms * 10)) data }"

definition patch_delay :: "nat \<Rightarrow> int \<Rightarrow> u8 list \<times> nat \<Rightarrow> (u8 list \<times> nat) option" where
  "patch_delay field ms s = (case s of (data, changed) \<Rightarrow>
     if 0 \<le> ms then map_option (\<lambda>data. (data, changed + 1)) (patch_pps_field field ms data) else Some (data, changed))"

text \<open>The first half of \<^verbatim>\<open>apply_patches\<close>: refresh rate and clock, in block 58.\<close>

definition apply_clock :: "vbt_layout \<Rightarrow> vbt_ctx \<Rightarrow> patch_opts \<Rightarrow> u8 list \<Rightarrow> (u8 list \<times> nat) option" where
  "apply_clock l ctx opts data = (case ctx_gdtd ctx of
     None \<Rightarrow> Some (data, 0)
   | Some gdtd \<Rightarrow>
      do { clock \<leftarrow> (if 0 < opt_hz opts then resolve_hz_to_clock l ctx gdtd (opt_hz opts) data else Some (opt_clock opts));
           if 0 < clock then map_option (\<lambda>data. (data, 1)) (patch_clock l ctx gdtd clock data) else Some (data, 0) })"

definition apply_patches :: "vbt_layout \<Rightarrow> vbt_ctx \<Rightarrow> patch_opts \<Rightarrow> u8 list \<Rightarrow> (u8 list \<times> nat) option" where
  "apply_patches l ctx opts data =
     do { s \<leftarrow> apply_clock l ctx opts data;
          case ctx_mipi_cfg ctx of
            None \<Rightarrow> Some s
          | Some mipi \<Rightarrow>
             if MAX_MIPI_PANEL l \<le> ctx_panel ctx then Some s
             else
              (let pps = mipi + pps_at l + nat (ctx_panel ctx) * pps_bytes l in
               do { s \<leftarrow> (if 0 \<le> opt_rotation opts
                          then map_option (\<lambda>data. (data, snd s + 1)) (patch_rotation l ctx mipi (opt_rotation opts) (fst s))
                          else Some s);
                    s \<leftarrow> patch_delay (pps + panel_on_at l) (opt_panel_on opts) s;
                    s \<leftarrow> patch_delay (pps + panel_off_at l) (opt_panel_off opts) s;
                    s \<leftarrow> patch_delay (pps + bl_enable_at l) (opt_bl_on opts) s;
                    s \<leftarrow> patch_delay (pps + bl_disable_at l) (opt_bl_off opts) s;
                    patch_delay (pps + power_cycle_at l) (opt_cycle opts) s }) }"

section \<open>The program\<close>

definition no_opts :: patch_opts where
  "no_opts = \<lparr>opt_clock = - 1, opt_hz = - 1, opt_rotation = - 1, opt_panel_on = - 1, opt_panel_off = - 1,
     opt_bl_on = - 1, opt_bl_off = - 1, opt_cycle = - 1, opt_input = None, opt_output = None\<rparr>"

fun set_opt :: "char \<times> string \<Rightarrow> patch_opts \<Rightarrow> patch_opts option" where
  "set_opt (ch, arg) opts =
     (if ch = CHR ''c'' then Some (opts\<lparr>opt_clock := atoi arg\<rparr>)
      else if ch = CHR ''f'' then Some (opts\<lparr>opt_hz := atoi arg\<rparr>)
      else if ch = CHR ''r'' then Some (opts\<lparr>opt_rotation := atoi arg\<rparr>)
      else if ch = CHR ''O'' then Some (opts\<lparr>opt_panel_on := atoi arg\<rparr>)
      else if ch = CHR ''F'' then Some (opts\<lparr>opt_panel_off := atoi arg\<rparr>)
      else if ch = CHR ''B'' then Some (opts\<lparr>opt_bl_on := atoi arg\<rparr>)
      else if ch = CHR ''b'' then Some (opts\<lparr>opt_bl_off := atoi arg\<rparr>)
      else if ch = CHR ''C'' then Some (opts\<lparr>opt_cycle := atoi arg\<rparr>)
      else None)"

text \<open>An option that is not known ends the loop with no input file.\<close>

fun opt_loop :: "(char \<times> string) list \<Rightarrow> patch_opts \<Rightarrow> patch_opts \<times> bool" where
  "opt_loop [] opts = (opts, True)"
| "opt_loop (x # xs) opts = (case set_opt x opts of
     None \<Rightarrow> (opts\<lparr>opt_input := None\<rparr>, False) | Some opts \<Rightarrow> opt_loop xs opts)"

text \<open>\<open>getopt\<close> delivers the options in order and the arguments left over.\<close>

definition parse_args :: "(string list \<Rightarrow> (char \<times> string) list \<times> string list) \<Rightarrow> string list \<Rightarrow> patch_opts" where
  "parse_args getopt argv = (case argv of
     prog # input # rest \<Rightarrow>
       (let (found, left) = getopt rest;
            (opts, go_on) = opt_loop found (no_opts\<lparr>opt_input := Some input\<rparr>)
        in if \<not> go_on then opts else (case left of [] \<Rightarrow> opts | o' # _ \<Rightarrow> opts\<lparr>opt_output := Some o'\<rparr>))
   | _ \<Rightarrow> no_opts)"

definition has_patches :: "patch_opts \<Rightarrow> bool" where
  "has_patches opts \<longleftrightarrow> 0 < opt_clock opts \<or> 0 < opt_hz opts \<or> 0 \<le> opt_rotation opts \<or>
     0 \<le> opt_panel_on opts \<or> 0 \<le> opt_panel_off opts \<or> 0 \<le> opt_bl_on opts \<or> 0 \<le> opt_bl_off opts \<or> 0 \<le> opt_cycle opts"

text \<open>Exit code and the file written, if any: \<open>read_file\<close> delivers a file's bytes, \<open>write_file\<close> says whether
  a file could be written.\<close>

definition vbt_main :: "vbt_layout \<Rightarrow> (string \<Rightarrow> u8 list option) \<Rightarrow> (string \<Rightarrow> u8 list \<Rightarrow> bool) \<Rightarrow> patch_opts \<Rightarrow>
    (int \<times> (string \<times> u8 list) option) option" where
  "vbt_main l read_file write_file opts = (case opt_input opts of
     None \<Rightarrow> Some (1, None)
   | Some input \<Rightarrow> (case read_file input of
       None \<Rightarrow> Some (1, None)
     | Some data \<Rightarrow>
        do { r \<leftarrow> init_ctx l data;
             case r of
               None \<Rightarrow> Some (1, None)
             | Some ctx \<Rightarrow>
                if \<not> has_patches opts then Some (0, None)
                else (case opt_output opts of
                  None \<Rightarrow> Some (1, None)
                | Some output \<Rightarrow>
                   do { (data, changed) \<leftarrow> apply_patches l ctx opts data;
                        if changed = 0 then Some (0, None)
                        else do { data \<leftarrow> update_checksum l (ctx_vbt ctx) data;
                                  Some (if write_file output data then (0, Some (output, data)) else (1, None)) } }) }))"

end
