(* ===== verification/VbtPatch_Facts.thy ===== *)
theory VbtPatch_Facts
  imports VbtPatch
begin

text \<open>
  The patched file: its checksum is right, only the chosen fields change and read back as set, and what
  happens when the table's own offsets lead outside the file.
\<close>

section \<open>Byte memory\<close>

lemma wr8_read:
  assumes "wr8 i v m = Some m'"
  shows "length m' = length m" "rd8 m' j = (if j = i then Some v else rd8 m j)"
  using assms by (auto simp: wr8_def rd8_def split: if_splits)

lemma le16_split: "ucast (ucast v :: u8) OR push_bit 8 (ucast (ucast (drop_bit 8 v) :: u8)) = (v :: u16)"
  by (rule bit_word_eqI) (auto simp: bit_or_iff bit_push_bit_iff bit_ucast_iff bit_drop_bit_eq dest: bit_imp_le_length)

lemma le32_split: "ucast (ucast v :: u16) OR push_bit 16 (ucast (ucast (drop_bit 16 v) :: u16)) = (v :: u32)"
  by (rule bit_word_eqI) (auto simp: bit_or_iff bit_push_bit_iff bit_ucast_iff bit_drop_bit_eq dest: bit_imp_le_length)

lemma wr_le16_read:
  assumes "wr_le16 i v m = Some m'"
  shows "length m' = length m" "rd_le16 m' i = Some v" "j \<noteq> i \<Longrightarrow> j \<noteq> i + 1 \<Longrightarrow> rd8 m' j = rd8 m j"
proof -
  obtain m1 where w: "wr8 i (ucast v) m = Some m1" "wr8 (i + 1) (ucast (drop_bit 8 v)) m1 = Some m'"
    using assms by (auto simp: wr_le16_def bind_eq_Some_conv)
  note r = wr8_read [OF w(1)] wr8_read [OF w(2)]
  show "length m' = length m" using r by simp
  show "rd_le16 m' i = Some v" using r by (simp add: rd_le16_def le16_split)
  show "rd8 m' j = rd8 m j" if "j \<noteq> i" "j \<noteq> i + 1" using r that by simp
qed

lemma wr_le32_read:
  assumes "wr_le32 i v m = Some m'"
  shows "length m' = length m" "rd_le32 m' i = Some v" "j < i \<or> i + 3 < j \<Longrightarrow> rd8 m' j = rd8 m j"
proof -
  obtain m1 where w: "wr_le16 i (ucast v) m = Some m1" "wr_le16 (i + 2) (ucast (drop_bit 16 v)) m1 = Some m'"
    using assms by (auto simp: wr_le32_def bind_eq_Some_conv)
  note r = wr_le16_read [OF w(1)] wr_le16_read [OF w(2)]
  show "length m' = length m" using r(1,4) by simp
  have "rd8 m' i = rd8 m1 i" "rd8 m' (i + 1) = rd8 m1 (i + 1)" by (simp_all add: r(6))
  then have "rd_le16 m' i = Some (ucast v)" using r(2) by (simp add: rd_le16_def)
  then show "rd_le32 m' i = Some v" using r(5) by (simp add: rd_le32_def le32_split)
  show "rd8 m' j = rd8 m j" if "j < i \<or> i + 3 < j" using that r(3) [of j] r(6) [of j] by auto
qed

text \<open>Reads outside what a step wrote.\<close>

definition keeps :: "(nat \<times> nat) list \<Rightarrow> u8 list \<Rightarrow> u8 list \<Rightarrow> bool" where
  "keeps ranges m m' \<longleftrightarrow> length m' = length m \<and>
     (\<forall>j. (\<forall>r\<in>set ranges. j < fst r \<or> fst r + snd r \<le> j) \<longrightarrow> rd8 m' j = rd8 m j)"

lemma keeps_refl [simp]: "keeps rs m m"
  by (simp add: keeps_def)

lemma keeps_trans: "keeps rs m m' \<Longrightarrow> keeps rs m' m'' \<Longrightarrow> keeps rs m m''"
  by (simp add: keeps_def)

lemma keeps_mono: "keeps rs m m' \<Longrightarrow> set rs \<subseteq> set rs' \<Longrightarrow> keeps rs' m m'"
  by (auto simp: keeps_def)

lemma keeps_wr8: "wr8 i v m = Some m' \<Longrightarrow> keeps [(i, 1)] m m'"
  using wr8_read [of i v m m'] by (auto simp: keeps_def)

lemma keeps_wr16: "wr_le16 i v m = Some m' \<Longrightarrow> keeps [(i, 2)] m m'"
  using wr_le16_read [of i v m m'] by (auto simp: keeps_def)

lemma keeps_wr32: "wr_le32 i v m = Some m' \<Longrightarrow> keeps [(i, 4)] m m'"
  using wr_le32_read [of i v m m'] by (auto simp: keeps_def)

definition apart :: "nat \<times> nat \<Rightarrow> nat \<times> nat \<Rightarrow> bool" where
  "apart a b \<longleftrightarrow> fst a + snd a \<le> fst b \<or> fst b + snd b \<le> fst a"

lemma keeps_rd16: "keeps rs m m' \<Longrightarrow> \<forall>r\<in>set rs. apart (j, 2) r \<Longrightarrow> rd_le16 m' j = rd_le16 m j"
proof -
  assume k: "keeps rs m m'" and a: "\<forall>r\<in>set rs. apart (j, 2) r"
  have "rd8 m' i = rd8 m i" if "i = j \<or> i = j + 1" for i
  proof -
    have "\<forall>r\<in>set rs. i < fst r \<or> fst r + snd r \<le> i"
    proof
      fix r assume "r \<in> set rs"
      then have "apart (j, 2) r" using a by blast
      then show "i < fst r \<or> fst r + snd r \<le> i" using that by (auto simp: apart_def)
    qed
    then show ?thesis using k by (simp add: keeps_def)
  qed
  then show ?thesis by (simp add: rd_le16_def)
qed

section \<open>Checksum\<close>

lemma sum_bytes_value:
  "sum_bytes data i n acc = (if n = 0 \<or> i + n \<le> length data then Some (acc + sum_list (take n (drop i data))) else None)"
proof (induction n arbitrary: i acc)
  case (Suc n)
  show ?case
  proof (cases "i < length data")
    case True
    then have "drop i data = data ! i # drop (i + 1) data" by (simp add: Cons_nth_drop_Suc)
    then show ?thesis using Suc True by (simp add: rd8_def add.assoc)
  qed (simp add: rd8_def)
qed simp

lemma sum_list_update: "j < length xs \<Longrightarrow> sum_list (xs[j := v]) = sum_list xs - xs ! j + (v :: u8)"
  by (induction xs arbitrary: j) (auto split: nat.splits)

text \<open>After \<^verbatim>\<open>update_checksum\<close> the bytes of the table, as many as its size field says, add up to 0
  modulo 256, and no other byte has changed, provided the checksum byte lies inside the table and apart
  from the size field.\<close>

theorem checksum_is_zero:
  assumes "update_checksum l vbt data = Some data'" "rd_le16 data (vbt + vbt_size_at l) = Some sz"
    and "vbt_checksum_at l < unat sz" "apart (vbt_size_at l, 2) (vbt_checksum_at l, 1)"
  shows "sum_list (take (unat sz) (drop vbt data')) = 0 \<and> keeps [(vbt + vbt_checksum_at l, 1)] data data'"
proof -
  let ?c = "vbt + vbt_checksum_at l"
  obtain d1 s z where w: "wr8 ?c 0 data = Some d1" "rd_le16 d1 (vbt + vbt_size_at l) = Some z"
    "sum_bytes d1 vbt (unat z) 0 = Some s" "wr8 ?c (- s) d1 = Some data'"
    using assms(1) by (auto simp: update_checksum_def bind_eq_Some_conv)
  have "z = sz"
    using keeps_rd16 [OF keeps_wr8 [OF w(1)], of "vbt + vbt_size_at l"] assms(2,4) w(2) by (auto simp: apart_def)
  then have s: "s = sum_list (take (unat sz) (drop vbt d1))" "vbt + unat sz \<le> length d1"
    using w(3) assms(3) by (auto simp: sum_bytes_value split: if_splits)
  have d1: "d1 = data[?c := 0]" "?c < length data" "data' = d1[?c := - s]"
    using wr8_SomeD [OF w(1)] wr8_SomeD [OF w(4)] by simp_all
  let ?xs = "take (unat sz) (drop vbt d1)"
  have x: "vbt_checksum_at l < length ?xs" "?xs ! vbt_checksum_at l = 0" using s(2) assms(3) d1 by simp_all
  have "take (unat sz) (drop vbt data') = ?xs[vbt_checksum_at l := - s]"
    using d1(3) assms(3) by (simp add: drop_update_swap take_update_swap)
  then have "sum_list (take (unat sz) (drop vbt data')) = 0"
    using sum_list_update [OF x(1), of "- s"] x(2) s(1) by simp
  then show ?thesis using keeps_trans [OF keeps_wr8 [OF w(1)] keeps_wr8 [OF w(4)]] by simp
qed

section \<open>Blocks\<close>

text \<open>A block that is found carries its id and starts inside the searched part.\<close>

lemma block_loop_found:
  "block_loop l data b tot bid index = Some (Some p) \<Longrightarrow>
     b + index + 3 \<le> p \<and> p < b + tot \<and> rd8 data (p - 3) = Some bid"
proof (induction l data b tot bid index rule: block_loop.induct)
  case (1 l data b tot bid index)
  from "1.prems" have i: "index + 3 < tot" by (subst (asm) block_loop.simps) (simp split: if_splits)
  obtain x lg sz where s: "rd8 data (b + index) = Some x"
    "(if x = BDB_MIPI_SEQUENCE l then map_option (\<lambda>v. 3 \<le> v) (rd8 data (b + index + 3)) else Some False) = Some lg"
    "(if lg then map_option unat (rd_le32 data (b + index + 4)) else map_option unat (rd_le16 data (b + index + 1))) = Some sz"
    "(if x = bid then Some (Some (b + index + 3)) else block_loop l data b tot bid (index + 3 + sz)) = Some (Some p)"
    using "1.prems" i by (subst (asm) block_loop.simps) (auto simp: bind_eq_Some_conv)
  show ?case
  proof (cases "x = bid")
    case True
    then show ?thesis using s i by auto
  next
    case False
    then show ?thesis using "1.IH" [OF i s(1-3) False] s(4) by simp
  qed
qed

text \<open>The offset of the data block that the table itself gives is never compared with the size of the
  file: when it leads outside, the program reads outside the file.\<close>

theorem bdb_offset_unchecked:
  assumes "find_vbt data = Some vbt" "rd_le32 data (vbt + bdb_offset_at l) = Some bo"
    and "length data \<le> vbt + unat bo + header_size_at l"
  shows "init_ctx l data = None"
proof -
  have "rd_le16 data (vbt + unat bo + header_size_at l) = None" using assms(3) by (simp add: rd_le16_None)
  then show ?thesis using assms(1,2) by (simp add: init_ctx_def find_block_def)
qed

section \<open>The refresh rate\<close>

text \<open>The clock chosen for a rate is the largest one not above it, in the absence of overflow.\<close>

lemma resolve_hz_rate:
  assumes "resolve_hz_to_clock l ctx g hz data = Some c" "dtd = dtd_entry l ctx g" "0 < hz"
    and "rd_le16 data (dtd + hactive_at l) = Some ha" "rd_le16 data (dtd + hblank_at l) = Some hb"
    and "rd_le16 data (dtd + vactive_at l) = Some va" "rd_le16 data (dtd + vblank_at l) = Some vb"
    and "dots = hz * (uint ha + uint hb) * (uint va + uint vb)" "dots < 1000 * 2 ^ 31"
  shows "c * 1000 \<le> dots \<and> dots < (c + 1) * 1000"
proof -
  have d: "0 \<le> dots" using assms(3,8) by simp
  then have m: "dots mod 2 ^ 64 = dots" using assms(9) by simp
  have "c = c_int (dots div 1000)" using assms by (simp add: resolve_hz_to_clock_def Let_def m [unfolded assms(8)])
  moreover have "dots div 1000 < 2 ^ 31" "0 \<le> dots div 1000" using assms(9) d by linarith+
  ultimately have "c = dots div 1000" by (simp add: c_int_id)
  then show ?thesis by presburger
qed

section \<open>The patches\<close>

definition pps_field :: "vbt_layout \<Rightarrow> vbt_ctx \<Rightarrow> nat \<Rightarrow> nat \<Rightarrow> nat" where
  "pps_field l ctx mipi off = mipi + pps_at l + nat (ctx_panel ctx) * pps_bytes l + off"

definition rotation_field :: "vbt_layout \<Rightarrow> vbt_ctx \<Rightarrow> nat \<Rightarrow> nat" where
  "rotation_field l ctx mipi = mipi + mipi_config_at l + nat (ctx_panel ctx) * mipi_config_bytes l + rotation_at l"

definition pps_ranges :: "vbt_layout \<Rightarrow> vbt_ctx \<Rightarrow> nat \<Rightarrow> (nat \<times> nat) list" where
  "pps_ranges l ctx mipi = map (\<lambda>off. (pps_field l ctx mipi off, 2))
     [panel_on_at l, panel_off_at l, bl_enable_at l, bl_disable_at l, power_cycle_at l]"

definition patch_ranges :: "vbt_layout \<Rightarrow> vbt_ctx \<Rightarrow> (nat \<times> nat) list" where
  "patch_ranges l ctx =
     (case ctx_gdtd ctx of None \<Rightarrow> [] | Some g \<Rightarrow> [(dtd_entry l ctx g + pixel_clock_at l, 4)]) @
     (case ctx_mipi_cfg ctx of None \<Rightarrow> [] | Some m \<Rightarrow> (rotation_field l ctx m, 4) # pps_ranges l ctx m)"

lemma patch_delay_keeps:
  assumes "patch_delay i ms s = Some s'"
  shows "keeps [(i, 2)] (fst s) (fst s')" "0 \<le> ms \<Longrightarrow> rd_le16 (fst s') i = Some (word_of_int (ms * 10))"
proof -
  obtain d c where s: "s = (d, c)" by fastforce
  show "keeps [(i, 2)] (fst s) (fst s')"
    using assms keeps_wr16 [of i] by (auto simp: s patch_delay_def patch_pps_field_def bind_eq_Some_conv split: if_splits)
  show "rd_le16 (fst s') i = Some (word_of_int (ms * 10))" if "0 \<le> ms"
    using assms that wr_le16_read(2) [of i] by (auto simp: s patch_delay_def patch_pps_field_def bind_eq_Some_conv)
qed

lemma apply_clock_keeps_only:
  assumes "apply_clock l ctx opts data = Some (d, n)"
  shows "keeps (case ctx_gdtd ctx of None \<Rightarrow> [] | Some g \<Rightarrow> [(dtd_entry l ctx g + pixel_clock_at l, 4)]) data d"
proof (cases "ctx_gdtd ctx")
  case (Some g)
  show ?thesis
    using assms keeps_wr32
    by (auto simp: apply_clock_def Some bind_eq_Some_conv patch_clock_def Let_def split: if_splits)
qed (use assms in \<open>simp add: apply_clock_def\<close>)

lemma patch_rotation_keeps:
  "patch_rotation l ctx mipi r d = Some d' \<Longrightarrow> keeps [(rotation_field l ctx mipi, 4)] d d' \<and> r < 4"
  using keeps_wr32 by (auto simp: patch_rotation_def rotation_field_def bind_eq_Some_conv Let_def split: if_splits)

text \<open>A run of delay steps on fields apart from each other.\<close>

fun run_delays :: "(nat \<times> int) list \<Rightarrow> u8 list \<times> nat \<Rightarrow> (u8 list \<times> nat) option" where
  "run_delays [] s = Some s"
| "run_delays ((i, ms) # ds) s = Option.bind (patch_delay i ms s) (run_delays ds)"

definition field_range :: "nat \<times> int \<Rightarrow> nat \<times> nat" where
  "field_range x = (fst x, 2)"

lemma run_delays_keeps: "run_delays ds s = Some s' \<Longrightarrow> keeps (map field_range ds) (fst s) (fst s')"
proof (induction ds s rule: run_delays.induct)
  case (2 i ms ds s)
  then obtain s1 where s1: "patch_delay i ms s = Some s1" "run_delays ds s1 = Some s'" by (auto simp: bind_eq_Some_conv)
  have "keeps (map field_range ds) (fst s1) (fst s')" using 2 s1 by blast
  moreover have "keeps [field_range (i, ms)] (fst s) (fst s1)"
    using patch_delay_keeps(1) [OF s1(1)] by (simp add: field_range_def)
  ultimately show ?case
    using keeps_trans [OF keeps_mono [of "[field_range (i, ms)]" "fst s" "fst s1" "map field_range ((i, ms) # ds)"]
        keeps_mono [of "map field_range ds" "fst s1" "fst s'" "map field_range ((i, ms) # ds)"]]
    by (simp add: subset_insertI)
qed simp

lemma run_delays_read:
  "run_delays ds s = Some s' \<Longrightarrow> sorted_wrt apart (map field_range ds) \<Longrightarrow> (i, ms) \<in> set ds \<Longrightarrow>
     rd_le16 (fst s') i = (if 0 \<le> ms then Some (word_of_int (ms * 10)) else rd_le16 (fst s) i)"
proof (induction ds s rule: run_delays.induct)
  case (2 j mt ds s)
  then obtain s1 where s1: "patch_delay j mt s = Some s1" "run_delays ds s1 = Some s'" by (auto simp: bind_eq_Some_conv)
  show ?case
  proof (cases "(i, ms) \<in> set ds")
    case True
    then have "apart (field_range (j, mt)) (field_range (i, ms))" using "2.prems"(2) by simp
    then have "rd_le16 (fst s1) i = rd_le16 (fst s) i"
      using keeps_rd16 [OF patch_delay_keeps(1) [OF s1(1)], of i] by (auto simp: apart_def field_range_def)
    then show ?thesis using "2.IH" [OF s1] "2.prems"(2) True by simp
  next
    case False
    then have e: "i = j" "ms = mt" using "2.prems"(3) by auto
    have "\<forall>r\<in>set (map field_range ds). apart (j, 2) r" using "2.prems"(2) by (auto simp: field_range_def)
    then have "rd_le16 (fst s') j = rd_le16 (fst s1) j" by (rule keeps_rd16 [OF run_delays_keeps [OF s1(2)]])
    moreover have "rd_le16 (fst s1) j = rd_le16 (fst s) j" if "mt < 0" using s1(1) that by (auto simp: patch_delay_def split: prod.splits)
    ultimately show ?thesis using patch_delay_keeps(2) [OF s1(1)] e by auto
  qed
qed simp

definition delays :: "vbt_layout \<Rightarrow> vbt_ctx \<Rightarrow> nat \<Rightarrow> patch_opts \<Rightarrow> (nat \<times> int) list" where
  "delays l ctx mipi opts =
     [(pps_field l ctx mipi (panel_on_at l), opt_panel_on opts), (pps_field l ctx mipi (panel_off_at l), opt_panel_off opts),
      (pps_field l ctx mipi (bl_enable_at l), opt_bl_on opts), (pps_field l ctx mipi (bl_disable_at l), opt_bl_off opts),
      (pps_field l ctx mipi (power_cycle_at l), opt_cycle opts)]"

lemma apply_patches_steps:
  assumes "apply_patches l ctx opts data = Some s'" "ctx_mipi_cfg ctx = Some mipi" "ctx_panel ctx < MAX_MIPI_PANEL l"
  obtains s0 s1 where "apply_clock l ctx opts data = Some s0"
    "(if 0 \<le> opt_rotation opts then map_option (\<lambda>d. (d, snd s0 + 1)) (patch_rotation l ctx mipi (opt_rotation opts) (fst s0))
      else Some s0) = Some s1"
    "run_delays (delays l ctx mipi opts) s1 = Some s'"
proof -
  have e: "run_delays [] = Some" "run_delays ((i, ms) # ds) = (\<lambda>s. Option.bind (patch_delay i ms s) (run_delays ds))" for i ms ds
    by auto
  have "apply_patches l ctx opts data = Option.bind (apply_clock l ctx opts data) (\<lambda>s0.
      Option.bind (if 0 \<le> opt_rotation opts then map_option (\<lambda>d. (d, snd s0 + 1)) (patch_rotation l ctx mipi (opt_rotation opts) (fst s0))
        else Some s0) (run_delays (delays l ctx mipi opts)))"
    using assms(2,3) by (simp add: apply_patches_def delays_def pps_field_def e Let_def)
  from this [unfolded assms(1), symmetric, unfolded bind_eq_Some_conv] show ?thesis using that by blast
qed

text \<open>The ranges in the order in which they are written.\<close>

lemma patch_ranges_delays:
  "ctx_mipi_cfg ctx = Some mipi \<Longrightarrow> patch_ranges l ctx =
     (case ctx_gdtd ctx of None \<Rightarrow> [] | Some g \<Rightarrow> [(dtd_entry l ctx g + pixel_clock_at l, 4)]) @
     (rotation_field l ctx mipi, 4) # map field_range (delays l ctx mipi opts)"
  by (simp add: patch_ranges_def pps_ranges_def delays_def field_range_def)

lemma tenfold: "0 \<le> ms \<Longrightarrow> ms \<le> 6553 \<Longrightarrow> uint (word_of_int (ms * 10) :: u16) = ms * 10"
  by (simp add: unsigned_of_int take_bit_int_eq_self del: of_int_mult)

text \<open>C20: patching a file with a MIPI block and a panel number in range, whose fields lie apart from each other,
  changes nothing but the clock, the word that holds the rotation and the five delays. A delay that was not
  asked for (negative) stays as it was; one of at most 6553 milliseconds reads back as ten times that number,
  exactly; a longer one only modulo 65536, the sixteen bits it is stored in. A rotation that was accepted is
  below 4.\<close>

theorem patches_read_back:
  assumes "apply_patches l ctx opts data = Some (d, n)" "ctx_mipi_cfg ctx = Some mipi" "ctx_panel ctx < MAX_MIPI_PANEL l"
    and "sorted_wrt apart (patch_ranges l ctx)"
  shows "keeps (patch_ranges l ctx) data d \<and> opt_rotation opts < 4 \<and>
    list_all (\<lambda>(i, ms). rd_le16 d i = (if 0 \<le> ms then Some (word_of_int (ms * 10)) else rd_le16 data i) \<and>
      (0 \<le> ms \<and> ms \<le> 6553 \<longrightarrow> map_option uint (rd_le16 d i) = Some (ms * 10))) (delays l ctx mipi opts)"
proof -
  let ?D = "delays l ctx mipi opts"
  let ?C = "case ctx_gdtd ctx of None \<Rightarrow> [] | Some g \<Rightarrow> [(dtd_entry l ctx g + pixel_clock_at l, 4 :: nat)]"
  obtain s0 s1 where s: "apply_clock l ctx opts data = Some s0"
    "(if 0 \<le> opt_rotation opts then map_option (\<lambda>d. (d, snd s0 + 1)) (patch_rotation l ctx mipi (opt_rotation opts) (fst s0))
      else Some s0) = Some s1" "run_delays ?D s1 = Some (d, n)"
    using apply_patches_steps [OF assms(1-3)] by blast
  note R = patch_ranges_delays [OF assms(2), of l opts]
  have k0: "keeps ?C data (fst s0)"
    using apply_clock_keeps_only [of l ctx opts data "fst s0" "snd s0"] s(1) by simp
  have k1: "keeps [(rotation_field l ctx mipi, 4)] (fst s0) (fst s1)" and rot: "opt_rotation opts < 4"
    using s(2) patch_rotation_keeps [of l ctx mipi "opt_rotation opts" "fst s0"] by (auto split: if_splits)
  have k2: "keeps (map field_range ?D) (fst s1) d" using run_delays_keeps [OF s(3)] by simp
  have k: "keeps (patch_ranges l ctx) data d"
    unfolding R by (rule keeps_trans [OF keeps_mono [OF k0] keeps_trans [OF keeps_mono [OF k1] keeps_mono [OF k2]]]) auto
  have ap: "sorted_wrt apart (map field_range ?D)" "\<forall>x\<in>set ?D. \<forall>r\<in>set (?C @ [(rotation_field l ctx mipi, 4)]). apart r (field_range x)"
    using assms(4) unfolding R by (auto simp: sorted_wrt_append)
  have "rd_le16 (fst s1) i = rd_le16 data i" if "(i, ms) \<in> set ?D" for i ms
  proof -
    have a: "\<forall>r\<in>set (?C @ [(rotation_field l ctx mipi, 4)]). apart (i, 2) r"
    proof
      fix r :: "nat \<times> nat" assume "r \<in> set (?C @ [(rotation_field l ctx mipi, 4)])"
      then have "apart r (field_range (i, ms))" using ap(2) that by blast
      then show "apart (i, 2) r" by (auto simp: field_range_def apart_def)
    qed
    have "keeps (?C @ [(rotation_field l ctx mipi, 4)]) data (fst s1)"
      by (rule keeps_trans [OF keeps_mono [OF k0] keeps_mono [OF k1]]) auto
    then show ?thesis by (rule keeps_rd16) (rule a)
  qed
  then have "rd_le16 d i = (if 0 \<le> ms then Some (word_of_int (ms * 10)) else rd_le16 data i)" if "(i, ms) \<in> set ?D" for i ms
    using run_delays_read [OF s(3) ap(1) that] that by simp
  then show ?thesis using k rot tenfold by (auto simp: list_all_iff)
qed

section \<open>A concrete table\<close>

text \<open>Offsets as in the kernel's header at the time of writing (the sizes of the two MIPI structures are
  examples); a file with a table of 96 bytes, one panel, and blocks 40, 52 and 58.\<close>

definition sample_layout :: vbt_layout where
  "sample_layout = \<lparr>vbt_size_at = 24, vbt_checksum_at = 26, bdb_offset_at = 28, header_size_at = 18, bdb_size_at = 20,
     panel_type_at = 0, dtd_at = 2, dtd_bytes = 28, pixel_clock_at = 0, hactive_at = 4, hblank_at = 6, vactive_at = 12,
     vblank_at = 14, mipi_config_at = 0, mipi_config_bytes = 8, rotation_at = 2, rotation_shift = 14, pps_at = 8,
     pps_bytes = 10, panel_on_at = 0, bl_enable_at = 2, bl_disable_at = 4, panel_off_at = 6, power_cycle_at = 8,
     BDB_LFP_OPTIONS = 40, BDB_MIPI_CONFIG = 52, BDB_MIPI_SEQUENCE = 53, BDB_GENERIC_DTD = 58, MAX_MIPI_PANEL = 6\<rparr>"

definition sample_vbt :: "u8 list" where
  "sample_vbt = vbt_signature @ replicate 20 0 @ [96, 0, 0, 0, 32, 0, 0, 0] @
     replicate 18 0 @ [22, 0, 64, 0] @ [40, 1, 0, 0] @ [52, 18, 0] @ replicate 18 0 @ replicate 17 0"

definition sample_ctx :: vbt_ctx where
  "sample_ctx = \<lparr>ctx_vbt = 0, ctx_bdb = 32, ctx_bdb_size = 64, ctx_panel = 0, ctx_gdtd = None, ctx_mipi_cfg = Some 61\<rparr>"

definition sample_opts :: patch_opts where
  "sample_opts = no_opts\<lparr>opt_rotation := 3, opt_panel_on := 25, opt_cycle := 7000\<rparr>"

lemma sample_computed:
  "init_ctx sample_layout sample_vbt = Some (Some sample_ctx)"
  "apply_patches sample_layout sample_ctx sample_opts sample_vbt \<noteq> None"
  "update_checksum sample_layout 0 sample_vbt \<noteq> None"
  "rd_le16 sample_vbt (0 + vbt_size_at sample_layout) = Some 96"
  by code_simp+

theorem checksum_is_zero_witness:
  "\<exists>d. update_checksum sample_layout 0 sample_vbt = Some d \<and> sum_list (take 96 d) = 0"
proof -
  obtain d where d: "update_checksum sample_layout 0 sample_vbt = Some d" using sample_computed(3) by blast
  have "vbt_checksum_at sample_layout < unat (96 :: u16)" "apart (vbt_size_at sample_layout, 2) (vbt_checksum_at sample_layout, 1)"
    by (simp_all add: sample_layout_def apart_def)
  from checksum_is_zero [OF d sample_computed(4) this] d show ?thesis by simp
qed

theorem patches_read_back_witness:
  "\<exists>d n. apply_patches sample_layout sample_ctx sample_opts sample_vbt = Some (d, n) \<and>
    map_option uint (rd_le16 d 69) = Some 250 \<and> rd_le16 d 77 = Some 4464"
proof -
  obtain d n where d: "apply_patches sample_layout sample_ctx sample_opts sample_vbt = Some (d, n)"
    using sample_computed(2) by auto
  have m: "ctx_mipi_cfg sample_ctx = Some 61" "ctx_panel sample_ctx < MAX_MIPI_PANEL sample_layout"
    "sorted_wrt apart (patch_ranges sample_layout sample_ctx)"
    by (simp_all add: sample_ctx_def sample_layout_def patch_ranges_def rotation_field_def pps_ranges_def pps_field_def apart_def)
  have "delays sample_layout sample_ctx 61 sample_opts = [(69, 25), (75, - 1), (71, - 1), (73, - 1), (77, 7000)]"
    by (simp add: delays_def pps_field_def sample_ctx_def sample_layout_def sample_opts_def no_opts_def)
  then show ?thesis using patches_read_back [OF d m] d by simp
qed

theorem bdb_offset_unchecked_witness:
  "init_ctx sample_layout (sample_vbt[29 := 1]) = None"
proof -
  have "find_vbt (sample_vbt[29 := 1]) = Some 0" "rd_le32 (sample_vbt[29 := 1]) (0 + bdb_offset_at sample_layout) = Some 288"
    "length (sample_vbt[29 := 1]) = 96" by code_simp+
  then show ?thesis using bdb_offset_unchecked [of "sample_vbt[29 := 1]" 0 sample_layout 288] by simp
qed

end
