(* ===== verification/Iio_Env.thy ===== *)
theory Iio_Env
  imports MountMatrix Posix "HOL-Library.Monad_Syntax" "HOL-Library.Multiset"
begin

text \<open>
  The environment of the IIO, input, hwmon and fake drivers and the sysfs helpers of
  \<^verbatim>\<open>iio-buffer-utils.c\<close>. The record \<open>iio_env\<close> is what these drivers call outside the repository:
  sysfs directories and files, the device nodes, udev and GLib's number conversions, as functions
  on an opaque world \<open>'w\<close>. Reading an attribute gives the value it has in the world; writing,
  opening a node and reading samples from it change the world. \<open>store_env\<close> is an environment in which
  they are plain attributes in memory.
\<close>

text \<open>What a C function may come to: a value, the error value it returns, or undefined behaviour.\<close>

datatype 'a outcome = Ok (the_ok: 'a) | Err | Undefined

record iio_channel_info =
  ch_name :: string
  ch_generic_name :: string
  ch_scale :: f32
  ch_offset :: f32
  ch_index :: u32
  ch_is_signed :: bool
  ch_bits_used :: u32
  ch_bytes :: u32
  ch_shift :: u32
  ch_mask :: u64
  ch_be :: bool
  ch_enabled :: bool
  ch_location :: u32

datatype write_result = Open_failed errno | Print_failed | Printed

text \<open>
  \<open>ie_fopen\<close> is the text of a file opened for reading, \<open>ie_contents\<close> GLib's \<^verbatim>\<open>g_file_get_contents\<close>;
  \<open>ie_read_dev\<close> returns the result of \<^verbatim>\<open>read\<close>, the bytes, and whether \<^verbatim>\<open>errno\<close> is EAGAIN; \<open>ie_strtod\<close> is
  \<^verbatim>\<open>g_ascii_strtod\<close> with the number of characters it used; \<open>ie_to_int\<close> and \<open>ie_to_bool\<close> are the
  conversions of libgudev; \<open>ie_set_encoding\<close> and \<open>ie_read_chars\<close> are the I/O channel calls (\<open>None\<close> for any
  status but \<^verbatim>\<open>G_IO_STATUS_NORMAL\<close>); \<open>ie_sort\<close> is \<^verbatim>\<open>g_ptr_array_sort\<close>. The two static variables of the fake drivers
  live in the world, and \<open>ie_garbage_int\<close> and \<open>ie_garbage_double\<close> are what a local variable of the given
  name holds before anything was stored in it.
\<close>

record 'w iio_env =
  ie_os :: "'w os"
  ie_dir :: "string \<Rightarrow> 'w \<Rightarrow> string list option"
  ie_fopen :: "string \<Rightarrow> 'w \<Rightarrow> string option"
  ie_contents :: "string \<Rightarrow> 'w \<Rightarrow> errno + string"
  ie_exists :: "string \<Rightarrow> 'w \<Rightarrow> bool"
  ie_write :: "string \<Rightarrow> string \<Rightarrow> 'w \<Rightarrow> write_result \<times> 'w"
  ie_read_dev :: "int \<Rightarrow> nat \<Rightarrow> 'w \<Rightarrow> (int \<times> u8 list \<times> bool) \<times> 'w"
  ie_poll_in :: "int \<Rightarrow> nat \<Rightarrow> 'w \<Rightarrow> bool \<times> 'w"
  ie_abs :: "int \<Rightarrow> nat \<Rightarrow> 'w \<Rightarrow> int option \<times> 'w"
  ie_set_encoding :: "int \<Rightarrow> 'w \<Rightarrow> bool"
  ie_read_chars :: "int \<Rightarrow> nat \<Rightarrow> 'w \<Rightarrow> u8 list option \<times> 'w"
  ie_attr_uncached :: "GUdevDevice \<Rightarrow> string \<Rightarrow> 'w \<Rightarrow> string option"
  ie_query :: "string \<Rightarrow> 'w \<Rightarrow> GUdevDevice list"
  ie_parent :: "GUdevDevice \<Rightarrow> GUdevDevice option"
  ie_number :: "GUdevDevice \<Rightarrow> string option"
  ie_getenv :: "string \<Rightarrow> string option"
  ie_strtod :: "string \<Rightarrow> f64 \<times> nat"
  ie_dtostr :: "f64 \<Rightarrow> string"
  ie_to_int :: "string \<Rightarrow> int"
  ie_to_bool :: "string \<Rightarrow> bool"
  ie_static_level :: "'w \<Rightarrow> f64"
  ie_set_static_level :: "f64 \<Rightarrow> 'w \<Rightarrow> 'w"
  ie_static_heading :: "'w \<Rightarrow> f64"
  ie_set_static_heading :: "f64 \<Rightarrow> 'w \<Rightarrow> 'w"
  ie_garbage_int :: "string \<Rightarrow> 'w \<Rightarrow> int"
  ie_garbage_double :: "string \<Rightarrow> 'w \<Rightarrow> f64"
  ie_sort :: "(iio_channel_info \<Rightarrow> iio_channel_info \<Rightarrow> int) \<Rightarrow> iio_channel_info list \<Rightarrow> iio_channel_info list"

abbreviation strtod_val :: "'w iio_env \<Rightarrow> string \<Rightarrow> f64" where
  "strtod_val env s \<equiv> fst (ie_strtod env s)"

text \<open>The path of a device in sysfs; udev devices of these subsystems always have one.\<close>

definition sysfs_dir :: "GUdevDevice \<Rightarrow> string" where
  "sysfs_dir dev = (case sysfs_path dev of None \<Rightarrow> '''' | Some p \<Rightarrow> p)"

definition build_filename :: "string \<Rightarrow> string \<Rightarrow> string" where
  "build_filename dir file = dir @ ''/'' @ file"

definition attr_int_uncached :: "'w iio_env \<Rightarrow> GUdevDevice \<Rightarrow> string \<Rightarrow> 'w \<Rightarrow> int" where
  "attr_int_uncached env dev name w =
     (case ie_attr_uncached env dev name w of None \<Rightarrow> 0 | Some s \<Rightarrow> ie_to_int env s)"

definition attr_int :: "'w iio_env \<Rightarrow> string option \<Rightarrow> int" where
  "attr_int env v = (case v of None \<Rightarrow> 0 | Some s \<Rightarrow> ie_to_int env s)"

definition attr_bool :: "'w iio_env \<Rightarrow> string option \<Rightarrow> bool" where
  "attr_bool env v = (case v of None \<Rightarrow> False | Some s \<Rightarrow> ie_to_bool env s)"

section \<open>utils.c\<close>

definition IS_TEST :: "'w iio_env \<Rightarrow> bool" where
  "IS_TEST env \<longleftrightarrow> ie_getenv env ''UMOCKDEV_DIR'' \<noteq> None"

definition get_device_file :: "'w iio_env \<Rightarrow> GUdevDevice \<Rightarrow> string option" where
  "get_device_file env device = (case ie_getenv env ''UMOCKDEV_DIR'' of
     None \<Rightarrow> dev_file device | Some d \<Rightarrow> Some (build_filename d ''iio-dev-data.bin''))"

section \<open>Reading numbers from text\<close>

text \<open>The conversions of \<^verbatim>\<open>scanf\<close>: the value and the rest of the text. \<^verbatim>\<open>%d\<close> and \<^verbatim>\<open>%u\<close> skip white space
  and go through \<^verbatim>\<open>strtol\<close> and \<^verbatim>\<open>strtoul\<close>, which saturate at 64 bits.\<close>

definition is_digit :: "char \<Rightarrow> bool" where
  "is_digit c \<longleftrightarrow> digit_val 10 c \<noteq> None"

definition scan_number :: "string \<Rightarrow> ((bool \<times> nat) \<times> string) option" where
  "scan_number s = (let (neg, t) = split_sign s; ds = takeWhile is_digit t
     in if ds = [] then None else Some ((neg, digits_val 10 0 ds), dropWhile is_digit t))"

definition scan_d :: "string \<Rightarrow> (int \<times> string) option" where
  "scan_d s = map_option (\<lambda>((neg, n), r).
     (c_int (if neg then - min (int n) (2 ^ 63) else min (int n) (2 ^ 63 - 1)), r)) (scan_number s)"

definition scan_u :: "string \<Rightarrow> (u32 \<times> string) option" where
  "scan_u s = map_option (\<lambda>((neg, n), r).
     (if 2 ^ 64 \<le> int n then - 1 else if neg then - of_nat n else of_nat n, r)) (scan_number s)"

fun scan_c :: "string \<Rightarrow> (char \<times> string) option" where
  "scan_c [] = None"
| "scan_c (c # s) = Some (c, s)"

abbreviation scan_lit :: "string \<Rightarrow> string \<Rightarrow> string option" where
  "scan_lit \<equiv> strip_prefix"

section \<open>Writing sysfs attributes\<close>

text \<open>\<open>Ret_ok\<close> is 0, every other value stands for a negative number.\<close>

datatype sysfs_ret = Ret_ok | Ret_errno errno | Ret_fprintf | Ret_verify

definition sysfs_int_write ::
  "'w iio_env \<Rightarrow> string \<Rightarrow> string \<Rightarrow> int \<Rightarrow> bool \<Rightarrow> bool \<Rightarrow> int \<Rightarrow> 'w \<Rightarrow> sysfs_ret \<times> 'w" where
  "sysfs_int_write env filename basedir val verify type val2 w =
     (let temp = build_filename basedir filename;
          text = (if type then show_int val @ '' '' @ show_int val2 else show_int val)
      in case ie_write env temp text w of
           (Open_failed e, w) \<Rightarrow> (Ret_errno e, w)
         | (Print_failed, w) \<Rightarrow> (Ret_fprintf, w)
         | (Printed, w) \<Rightarrow>
             if \<not> verify then (Ret_ok, w)
             else (case ie_fopen env temp w of
                 None \<Rightarrow> (Ret_errno EIO, w)
               | Some s \<Rightarrow> (case scan_d s of
                   None \<Rightarrow> (Ret_verify, w)
                 | Some (test, _) \<Rightarrow> (if test \<noteq> val then Ret_verify else Ret_ok, w))))"

definition write_sysfs_int :: "'w iio_env \<Rightarrow> string \<Rightarrow> string \<Rightarrow> int \<Rightarrow> 'w \<Rightarrow> sysfs_ret \<times> 'w" where
  "write_sysfs_int env filename basedir val = sysfs_int_write env filename basedir val False False 0"

definition write_sysfs_int_and_verify :: "'w iio_env \<Rightarrow> string \<Rightarrow> string \<Rightarrow> int \<Rightarrow> 'w \<Rightarrow> sysfs_ret \<times> 'w" where
  "write_sysfs_int_and_verify env filename basedir val =
     sysfs_int_write env filename basedir val True False 0"

definition g_strchomp :: "string \<Rightarrow> string" where
  "g_strchomp s = rev (dropWhile is_space (rev s))"

definition sysfs_string_write ::
  "'w iio_env \<Rightarrow> string \<Rightarrow> string \<Rightarrow> string \<Rightarrow> bool \<Rightarrow> 'w \<Rightarrow> sysfs_ret \<times> 'w" where
  "sysfs_string_write env filename basedir val verify w =
     (let temp = build_filename basedir filename
      in case ie_write env temp val w of
           (Open_failed e, w) \<Rightarrow> (Ret_errno e, w)
         | (_, w) \<Rightarrow>
             if \<not> verify then (Ret_ok, w)
             else (case ie_contents env temp w of
                 Inl e \<Rightarrow> (Ret_verify, w)
               | Inr contents \<Rightarrow> (if g_strchomp contents \<noteq> val then Ret_verify else Ret_ok, w)))"

definition write_sysfs_string_and_verify ::
  "'w iio_env \<Rightarrow> string \<Rightarrow> string \<Rightarrow> string \<Rightarrow> 'w \<Rightarrow> sysfs_ret \<times> 'w" where
  "write_sysfs_string_and_verify env filename basedir val =
     sysfs_string_write env filename basedir val True"

definition write_sysfs_string :: "'w iio_env \<Rightarrow> string \<Rightarrow> string \<Rightarrow> string \<Rightarrow> 'w \<Rightarrow> sysfs_ret \<times> 'w" where
  "write_sysfs_string env filename basedir val = sysfs_string_write env filename basedir val False"

section \<open>Facts\<close>

named_theorems scan_simps \<open>numbers printed and read back\<close>

lemma digit_val_char [scan_simps]: "d < 10 \<Longrightarrow> digit_val 10 (char_of (48 + d :: nat)) = Some d"
  by (simp add: digit_val_def Let_def)

lemma is_digit_char [scan_simps]: "d < 10 \<Longrightarrow> is_digit (char_of (48 + d :: nat))"
  by (simp add: is_digit_def digit_val_char)

lemma digits_val_append:
  "list_all is_digit xs \<Longrightarrow> digits_val 10 acc (xs @ ys) = digits_val 10 (digits_val 10 acc xs) ys"
  by (induction xs arbitrary: acc) (auto simp: is_digit_def)

lemma show_nat_digits [scan_simps]: "list_all is_digit (show_nat n)"
proof (induction n rule: show_nat.induct)
  case (1 n)
  then show ?case by (subst show_nat.simps) (auto simp: is_digit_char)
qed

lemma digits_val_show_nat [scan_simps]: "digits_val 10 0 (show_nat n) = n"
proof (induction n rule: show_nat.induct)
  case (1 n)
  then show ?case
    by (subst show_nat.simps) (auto simp: digits_val_append show_nat_digits digit_val_char)
qed

lemma show_nat_nonempty [simp]: "show_nat n \<noteq> []"
  by (subst show_nat.simps) simp

lemma digit_not_space: "is_digit c \<Longrightarrow> \<not> is_space c \<and> c \<noteq> CHR ''-'' \<and> c \<noteq> CHR ''+''"
  by (auto simp: is_digit_def digit_val_def is_space_def Let_def split: if_splits)

lemma split_sign_show_nat: "split_sign (show_nat n @ s) = (False, show_nat n @ s)"
proof -
  obtain c cs where "show_nat n = c # cs" by (cases "show_nat n") auto
  then show ?thesis
    using show_nat_digits [of n] digit_not_space [of c] by (simp add: split_sign_def)
qed

lemma takeWhile_digits:
  assumes "list_all is_digit ds" "s = [] \<or> \<not> is_digit (hd s)"
  shows "takeWhile is_digit (ds @ s) = ds" "dropWhile is_digit (ds @ s) = s"
proof -
  have "takeWhile is_digit s = []" "dropWhile is_digit s = s" using assms(2) by (cases s; auto)+
  then show "takeWhile is_digit (ds @ s) = ds" "dropWhile is_digit (ds @ s) = s"
    using assms(1) by (simp_all add: list_all_iff takeWhile_append2 dropWhile_append2)
qed

lemma scan_number_show_nat:
  assumes "s = [] \<or> \<not> is_digit (hd s)"
  shows "scan_number (show_nat n @ s) = Some ((False, n), s)"
  using takeWhile_digits [OF show_nat_digits assms]
  by (simp add: scan_number_def split_sign_show_nat digits_val_show_nat Let_def)

lemma scan_number_show_int:
  assumes "s = [] \<or> \<not> is_digit (hd s)"
  shows "scan_number (show_int i @ s) = Some ((i < 0, nat \<bar>i\<bar>), s)"
proof (cases "i < 0")
  case True
  have "split_sign (show_int i @ s) = (True, show_nat (nat (- i)) @ s)"
    using True by (simp add: show_int_def split_sign_def is_space_def)
  then show ?thesis
    using True takeWhile_digits [OF show_nat_digits assms]
    by (simp add: scan_number_def digits_val_show_nat Let_def)
next
  case False
  then show ?thesis using scan_number_show_nat [OF assms, of "nat i"] by (simp add: show_int_def)
qed

text \<open>Any \<^verbatim>\<open>int\<close> that is printed is read back.\<close>

lemma scan_d_show_int [scan_simps]:
  assumes "- (2 ^ 31) \<le> i" "i < 2 ^ 31" "s = [] \<or> \<not> is_digit (hd s)"
  shows "scan_d (show_int i @ s) = Some (i, s)"
  using assms(1,2) by (auto simp: scan_d_def scan_number_show_int [OF assms(3)] c_int_id)

lemma scan_u_show_nat [scan_simps]:
  assumes "n < 2 ^ 32" "s = [] \<or> \<not> is_digit (hd s)"
  shows "scan_u (show_nat n @ s) = Some (of_nat n, s)"
  using assms(1) by (simp add: scan_u_def scan_number_show_nat [OF assms(2)])

section \<open>A concrete environment\<close>

text \<open>
  Attribute files as an association list, with one buffered device in the directory \<open>dir\<close>: its
  channels can be switched only while \<^verbatim>\<open>buffer/enable\<close> does not show 1.
\<close>

type_synonym store = "(string \<times> string) list"

definition store_os :: "store os" where
  "store_os = \<lparr>
     os_open = (\<lambda>p f w. (3, w)), os_close = (\<lambda>fd w. w), os_write = (\<lambda>fd s w. (int (length s), w)),
     os_read = (\<lambda>fd n w. ((0, []), w)), os_i2c_rdwr = (\<lambda>fd ms w. ((- 1, []), w)),
     os_uinput = (\<lambda>fd r w. (0, w)), os_write_events = (\<lambda>fd es w. (0, w)),
     os_evio_name = (\<lambda>fd n w. ((- 1, []), w)), os_evio_switches = (\<lambda>fd w. ((0, 0x800), w)),
     os_read_event = (\<lambda>fd w. (None, w)), os_usleep = (\<lambda>n w. w), os_i2c_devices = (\<lambda>w. []),
     os_drm_connectors = (\<lambda>fd w. None), os_drm_connector = (\<lambda>fd n w. None),
     os_drm_property = (\<lambda>fd n w. None), os_timeout_add = (\<lambda>n w. (1, w)),
     os_io_add_watch = (\<lambda>fd w. (1, w)), os_source_remove = (\<lambda>n w. w)\<rparr>"

fun insert_cmp :: "('a \<Rightarrow> 'a \<Rightarrow> int) \<Rightarrow> 'a \<Rightarrow> 'a list \<Rightarrow> 'a list" where
  "insert_cmp cmp x [] = [x]"
| "insert_cmp cmp x (y # ys) = (if cmp x y \<le> 0 then x # y # ys else y # insert_cmp cmp x ys)"

definition sort_cmp :: "('a \<Rightarrow> 'a \<Rightarrow> int) \<Rightarrow> 'a list \<Rightarrow> 'a list" where
  "sort_cmp cmp xs = foldr (insert_cmp cmp) xs []"

definition whole_strtod :: "string \<Rightarrow> f64 \<times> nat" where
  "whole_strtod s = (case scan_number s of None \<Rightarrow> (0, 0)
     | Some ((neg, n), rest) \<Rightarrow> (fint (if neg then - int n else int n), length s - length rest))"

definition store_write :: "string \<Rightarrow> string list \<Rightarrow> string \<Rightarrow> string \<Rightarrow> store \<Rightarrow> write_result \<times> store" where
  "store_write dir names p s w =
     (if p \<in> build_filename (build_filename dir ''scan_elements'') ` set names \<and>
         map_of w (build_filename dir ''buffer/enable'') = Some ''1''
      then (Print_failed, w) else (Printed, (p, s) # w))"

text \<open>An environment without files, over any system calls.\<close>

definition null_env :: "'w os \<Rightarrow> 'w iio_env" where
  "null_env os = \<lparr>
     ie_os = os, ie_dir = (\<lambda>p w. None), ie_fopen = (\<lambda>p w. None), ie_contents = (\<lambda>p w. Inl ENOENT),
     ie_exists = (\<lambda>p w. False), ie_write = (\<lambda>p s w. (Open_failed ENOENT, w)),
     ie_read_dev = (\<lambda>fd n w. ((0, [], False), w)), ie_poll_in = (\<lambda>fd n w. (True, w)),
     ie_abs = (\<lambda>fd a w. (Some 0, w)), ie_set_encoding = (\<lambda>fd w. True),
     ie_read_chars = (\<lambda>fd n w. (None, w)), ie_attr_uncached = (\<lambda>dev n w. None),
     ie_query = (\<lambda>s w. []), ie_parent = (\<lambda>dev. None), ie_number = (\<lambda>dev. None), ie_getenv = (\<lambda>v. None),
     ie_strtod = whole_strtod, ie_dtostr = (\<lambda>x. show_int (rtrunc (fval x))),
     ie_to_int = (\<lambda>s. case scan_d s of None \<Rightarrow> 0 | Some (i, _) \<Rightarrow> i), ie_to_bool = (\<lambda>s. s = ''1''),
     ie_static_level = (\<lambda>w. - 1), ie_set_static_level = (\<lambda>l w. w),
     ie_static_heading = (\<lambda>w. 0), ie_set_static_heading = (\<lambda>h w. w),
     ie_garbage_int = (\<lambda>v w. 0), ie_garbage_double = (\<lambda>v w. 0), ie_sort = sort_cmp\<rparr>"

definition store_env :: "string \<Rightarrow> string list \<Rightarrow> store iio_env" where
  "store_env dir names = (null_env store_os)\<lparr>
     ie_dir := (\<lambda>p w. if p = build_filename dir ''scan_elements'' then Some names else if p = dir then Some [] else None),
     ie_fopen := (\<lambda>p w. map_of w p),
     ie_contents := (\<lambda>p w. case map_of w p of None \<Rightarrow> Inl ENOENT | Some s \<Rightarrow> Inr s),
     ie_exists := (\<lambda>p w. map_of w p \<noteq> None),
     ie_write := store_write dir names,
     ie_attr_uncached := (\<lambda>dev n w. map_of w (build_filename (sysfs_dir dev) n))\<rparr>"

lemma store_env_simps [simp]:
  "ie_os (store_env dir names) = store_os"
  "ie_dir (store_env dir names) =
     (\<lambda>p w. if p = build_filename dir ''scan_elements'' then Some names else if p = dir then Some [] else None)"
  "ie_fopen (store_env dir names) = (\<lambda>p w. map_of w p)"
  "ie_contents (store_env dir names) = (\<lambda>p w. case map_of w p of None \<Rightarrow> Inl ENOENT | Some s \<Rightarrow> Inr s)"
  "ie_exists (store_env dir names) = (\<lambda>p w. map_of w p \<noteq> None)"
  "ie_write (store_env dir names) = store_write dir names"
  "ie_attr_uncached (store_env dir names) = (\<lambda>dev n w. map_of w (build_filename (sysfs_dir dev) n))"
  "ie_to_int (store_env dir names) = (\<lambda>s. case scan_d s of None \<Rightarrow> 0 | Some (i, _) \<Rightarrow> i)"
  "ie_to_bool (store_env dir names) = (\<lambda>s. s = ''1'')"
  "ie_sort (store_env dir names) = sort_cmp"
  by (simp_all add: store_env_def null_env_def)

lemma mset_sort_cmp: "mset (sort_cmp cmp xs) = mset xs"
proof -
  have "mset (insert_cmp cmp x ys) = add_mset x (mset ys)" for x ys by (induction ys) auto
  then show ?thesis by (induction xs) (simp_all add: sort_cmp_def)
qed

end
