(* ===== verification/Iio_Channels.thy ===== *)
theory Iio_Channels
  imports Iio_Env Fp_Facts
begin

text \<open>
  The channels of a buffered IIO device (first half of \<^verbatim>\<open>iio-buffer-utils.c\<close>): how the description
  files of \<^verbatim>\<open>scan_elements\<close> are read, where each channel lies in a scan, and how a value is taken out
  of the bytes of a scan. The macro \<^verbatim>\<open>PROCESS_CHANNEL_BITS\<close> is one definition on words of any width.
\<close>

section \<open>Reading the description\<close>

definition iioutils_break_up_name :: "string \<Rightarrow> string" where
  "iioutils_break_up_name name = join ''_'' (butlast (g_strsplit name ''_'' (- 1)))"

text \<open>The format \<^verbatim>\<open>%ce:%c%u/%u>>%u\<close>: endianness, sign, bits used, storage bits, shift.\<close>

definition scan_type :: "string \<Rightarrow> (char \<times> char \<times> u32 \<times> u32 \<times> u32) option" where
  "scan_type s = do {
     (endianchar, s) \<leftarrow> scan_c s;
     s \<leftarrow> scan_lit ''e:'' s;
     (signchar, s) \<leftarrow> scan_c s;
     (bits_used, s) \<leftarrow> scan_u s;
     s \<leftarrow> scan_lit ''/'' s;
     (padint, s) \<leftarrow> scan_u s;
     s \<leftarrow> scan_lit ''>>'' s;
     (shift, s) \<leftarrow> scan_u s;
     Some (endianchar, signchar, bits_used, padint, shift)
   }"

text \<open>Shifting a 64-bit number by 64 or more is undefined; 64 itself is treated apart.\<close>

definition type_mask :: "u32 \<Rightarrow> u64 option" where
  "type_mask bits_used = (if bits_used = 64 then Some (NOT 0)
     else if 64 < bits_used then None else Some (push_bit (unat bits_used) 1 - 1))"

definition iioutils_get_type :: "'w iio_env \<Rightarrow> string \<Rightarrow> iio_channel_info \<Rightarrow> 'w \<Rightarrow> iio_channel_info outcome" where
  "iioutils_get_type env device_dir ci w =
     (let file = (\<lambda>n. ie_fopen env (build_filename (build_filename device_dir ''scan_elements'') (n @ ''_type'')) w);
          sysfsfp = (case file (ch_name ci) of Some t \<Rightarrow> Some t | None \<Rightarrow> file (ch_generic_name ci))
      in case sysfsfp of None \<Rightarrow> Err
         | Some t \<Rightarrow> (case scan_type t of None \<Rightarrow> Err
             | Some (endianchar, signchar, bits_used, padint, shift) \<Rightarrow>
                 (case type_mask bits_used of None \<Rightarrow> Undefined
                  | Some m \<Rightarrow> Ok (ci\<lparr>ch_is_signed := (signchar = CHR ''s''), ch_bytes := padint div 8,
                      ch_bits_used := bits_used, ch_shift := shift, ch_mask := m,
                      ch_be := (endianchar = CHR ''b'')\<rparr>))))"

text \<open>The returned code (\<open>None\<close> is 0) and the value of \<^verbatim>\<open>*output\<close> afterwards: an unreadable number
  leaves 0 there, a missing file leaves it alone.\<close>

definition iioutils_get_param_float ::
  "'w iio_env \<Rightarrow> f32 \<Rightarrow> string \<Rightarrow> string \<Rightarrow> string \<Rightarrow> string \<Rightarrow> 'w \<Rightarrow> errno option \<times> f32" where
  "iioutils_get_param_float env output param_name device_dir name generic_name w =
     (let file = (\<lambda>n. ie_contents env (build_filename device_dir (n @ ''_'' @ param_name)) w);
          conv = (\<lambda>contents. (to_f32 (strtod_val env contents), snd (ie_strtod env contents) = 0));
          second = (\<lambda>output. case file generic_name of
              Inr contents \<Rightarrow> (let (output, none) = conv contents
                in if feq output 0 \<and> none then (Some EINVAL, output) else (None, output))
            | Inl e \<Rightarrow> (Some (if e = ENOENT then ENOENT else EINVAL), output))
      in case file name of
           Inr contents \<Rightarrow> (let (output, none) = conv contents
             in if \<not> feq output 0 \<or> \<not> none then (None, output) else second output)
         | Inl e \<Rightarrow> second output)"

definition param_error :: "errno option \<Rightarrow> bool" where
  "param_error ret \<longleftrightarrow> ret \<noteq> None \<and> ret \<noteq> Some ENOENT"

definition channel_new :: "string \<Rightarrow> iio_channel_info" where
  "channel_new name = (let gen = iioutils_break_up_name name in
     \<lparr>ch_name = name,
      ch_generic_name = (if gen = ''in_rot_from_north_magnetic_tilt'' then ''in_rot'' else gen),
      ch_scale = 1, ch_offset = 0, ch_index = 0, ch_is_signed = False, ch_bits_used = 0,
      ch_bytes = 0, ch_shift = 0, ch_mask = 0, ch_be = False, ch_enabled = False, ch_location = 0\<rparr>)"

text \<open>One directory entry: nothing to add, a channel, or the end of the whole function.\<close>

datatype dir_step = Skip | Add iio_channel_info | Goto_error | Goto_undefined

definition read_channel :: "'w iio_env \<Rightarrow> string \<Rightarrow> string \<Rightarrow> 'w \<Rightarrow> dir_step" where
  "read_channel env device_dir name w =
     (let scan_el_dir = build_filename device_dir ''scan_elements'' in
      if \<not> has_suffix name ''_en'' then Skip
      else (case Option.bind (ie_fopen env (build_filename scan_el_dir name) w) scan_d of
          None \<Rightarrow> Skip
        | Some _ \<Rightarrow>
          (let ci = channel_new (take (length name - 3) name) in
           case Option.bind (ie_fopen env (build_filename scan_el_dir (ch_name ci @ ''_index'')) w) scan_u of
             None \<Rightarrow> Goto_error
           | Some (index, _) \<Rightarrow>
             (let (ret, scale) = iioutils_get_param_float env (ch_scale ci) ''scale'' device_dir
                    (ch_name ci) (ch_generic_name ci) w
              in if param_error ret \<or> feq scale 0 then Goto_error
                 else (let (ret, offset) = iioutils_get_param_float env (ch_offset ci) ''offset'' device_dir
                        (ch_name ci) (ch_generic_name ci) w
                   in if param_error ret then Goto_error
                      else (case iioutils_get_type env device_dir
                          (ci\<lparr>ch_index := index, ch_scale := scale, ch_offset := offset\<rparr>) w of
                        Ok ci \<Rightarrow> Add ci | Err \<Rightarrow> Skip | Undefined \<Rightarrow> Goto_undefined))))))"

fun read_channels :: "'w iio_env \<Rightarrow> string \<Rightarrow> string list \<Rightarrow> 'w \<Rightarrow> iio_channel_info list outcome" where
  "read_channels env device_dir [] w = Ok []"
| "read_channels env device_dir (name # names) w =
     (case read_channel env device_dir name w of
        Skip \<Rightarrow> read_channels env device_dir names w
      | Goto_error \<Rightarrow> Err
      | Goto_undefined \<Rightarrow> Undefined
      | Add ci \<Rightarrow> (case read_channels env device_dir names w of Ok array \<Rightarrow> Ok (ci # array) | r \<Rightarrow> r))"

text \<open>The difference of two unsigned numbers, read as an \<^verbatim>\<open>int\<close>.\<close>

definition compare_channel_index :: "iio_channel_info \<Rightarrow> iio_channel_info \<Rightarrow> int" where
  "compare_channel_index a b = sint (ch_index a - ch_index b)"

definition build_channel_array :: "'w iio_env \<Rightarrow> string \<Rightarrow> 'w \<Rightarrow> iio_channel_info list outcome" where
  "build_channel_array env device_dir w =
     (case ie_dir env (build_filename device_dir ''scan_elements'') w of None \<Rightarrow> Err
      | Some names \<Rightarrow> (case read_channels env device_dir names w of
          Ok array \<Rightarrow> Ok (ie_sort env compare_channel_index array) | r \<Rightarrow> r))"

section \<open>The layout of a scan\<close>

text \<open>All arithmetic is modulo 2 ^ 32. \<open>None\<close> is a division by zero.\<close>

definition place_channel :: "u32 \<Rightarrow> iio_channel_info \<Rightarrow> iio_channel_info option" where
  "place_channel bytes c = (if ch_bytes c = 0 then None
     else Some (c\<lparr>ch_location := (if bytes mod ch_bytes c = 0 then bytes
                                   else bytes - bytes mod ch_bytes c + ch_bytes c)\<rparr>))"

fun size_from :: "u32 \<Rightarrow> iio_channel_info list \<Rightarrow> (iio_channel_info list \<times> u32) option" where
  "size_from bytes [] = Some ([], bytes)"
| "size_from bytes (c # cs) = do {
     c \<leftarrow> place_channel bytes c;
     (cs, total) \<leftarrow> size_from (ch_location c + ch_bytes c) cs;
     Some (c # cs, total)
   }"

definition size_from_channelarray :: "iio_channel_info list \<Rightarrow> (iio_channel_info list \<times> u32) option" where
  "size_from_channelarray channels = size_from 0 channels"

section \<open>Taking a value out of a scan\<close>

text \<open>A conversion of a floating-point number to an \<open>n\<close>-bit integer drops the fraction; a value that
  does not fit is undefined behaviour.\<close>

definition float_to_int :: "nat \<Rightarrow> f32 \<Rightarrow> int option" where
  "float_to_int n x = (let t = rtrunc (fval x) in
     if ffinite x \<and> - (2 ^ (n - 1)) \<le> t \<and> t < 2 ^ (n - 1) then Some t else None)"

text \<open>Arithmetic on fewer than 32 bits is done in \<^verbatim>\<open>int\<close>, hence the limit of the shifts.\<close>

definition PROCESS_CHANNEL_BITS :: "iio_channel_info \<Rightarrow> 'n::len word \<Rightarrow> int option" where
  "PROCESS_CHANNEL_BITS info input =
     (let bits = LENGTH('n); promoted = max bits 32; unused = bits - unat (ch_bits_used info)
      in if promoted \<le> unat (ch_shift info) then None
         else (let input = drop_bit (unat (ch_shift info)) input AND ucast (ch_mask info)
           in if ch_is_signed info then
                (if bits < unat (ch_bits_used info) \<or> promoted \<le> unused then None
                 else (let val = signed_drop_bit unused (push_bit unused input)
                   in map_option c_int (float_to_int bits (fint (sint val) + ch_offset info))))
              else float_to_int 32 (fint (uint input) + ch_offset info)))"

text \<open>A load at its width, of the given byte order.\<close>

definition load_bytes :: "bool \<Rightarrow> u8 list \<Rightarrow> 'n::len word" where
  "load_bytes be bs = word_of_int (horner_sum uint 256 (if be then rev bs else bs))"

definition load_at :: "u8 list \<Rightarrow> nat \<Rightarrow> nat \<Rightarrow> u8 list option" where
  "load_at data i n = (if i + n \<le> length data then Some (take n (drop i data)) else None)"

text \<open>What \<^verbatim>\<open>process_scan_1\<close> leaves in its three results: value and scale, or \<^verbatim>\<open>ch_present\<close> false with the
  other two untouched. An unsupported width aborts the program through \<^verbatim>\<open>g_error\<close>.\<close>

datatype scan_value = Present int f64 | Absent | Aborted | Undef

definition scan_channel :: "u8 list \<Rightarrow> iio_channel_info \<Rightarrow> scan_value" where
  "scan_channel data info =
     (let n = unat (ch_bytes info) in
      if n \<notin> {1, 2, 4, 8} then Aborted
      else (case load_at data (unat (ch_location info)) n of None \<Rightarrow> Undef
        | Some bs \<Rightarrow>
          (case (if n = 1 then PROCESS_CHANNEL_BITS info (load_bytes (ch_be info) bs :: u8)
                 else if n = 2 then PROCESS_CHANNEL_BITS info (load_bytes (ch_be info) bs :: u16)
                 else if n = 4 then PROCESS_CHANNEL_BITS info (load_bytes (ch_be info) bs :: u32)
                 else PROCESS_CHANNEL_BITS info (load_bytes (ch_be info) bs :: u64)) of
             None \<Rightarrow> Undef
           | Some v \<Rightarrow> Present v (fconv (ch_scale info)))))"

fun process_scan_1 :: "u8 list \<Rightarrow> iio_channel_info list \<Rightarrow> string \<Rightarrow> scan_value" where
  "process_scan_1 data [] ch = Absent"
| "process_scan_1 data (info # infos) ch =
     (if ch_name info \<noteq> ch then process_scan_1 data infos ch else scan_channel data info)"

end
