(* ===== verification/Iio_Channels_Facts.thy ===== *)
theory Iio_Channels_Facts
  imports Iio_Channels
begin

text \<open>
  What the channel code guarantees: the type text of the kernel is read back, the locations of the
  channels are aligned, disjoint and inside the scan, and the value of a channel is the field of
  bits its description names, in two's complement when it is signed.
\<close>

section \<open>The type text\<close>

text \<open>The description the IIO core prints for a channel (endianness, sign, bits used, storage bits
  and shift) is read back exactly, whatever the numbers and whatever follows them.\<close>

theorem scan_type_text:
  assumes "b < 2 ^ 32" "p < 2 ^ 32" "k < 2 ^ 32" "rest = [] \<or> \<not> is_digit (hd rest)"
  shows "scan_type ([e] @ ''e:'' @ [s] @ show_nat b @ ''/'' @ show_nat p @ ''>>'' @ show_nat k @ rest)
     = Some (e, s, of_nat b, of_nat p, of_nat k)"
proof -
  have "\<not> is_digit (CHR ''/'')" "\<not> is_digit (CHR ''>'')" by (simp_all add: is_digit_def digit_val_def)
  then have "scan_u (show_nat b @ ''/'' @ r) = Some (of_nat b, ''/'' @ r)"
    "scan_u (show_nat p @ ''>>'' @ r) = Some (of_nat p, ''>>'' @ r)" for r
    using assms by (simp_all add: scan_u_show_nat)
  then show ?thesis using assms by (simp add: scan_type_def scan_u_show_nat)
qed

lemma scan_type_text_witness:
  "scan_type ''le:s12/16>>4'' = Some (CHR ''l'', CHR ''s'', 12, 16, 4)"
proof -
  have "show_nat 12 = ''12''" "show_nat 16 = ''16''" "show_nat 4 = ''4''" by code_simp+
  then show ?thesis
    using scan_type_text [of 12 16 4 "[]" "CHR ''l''" "CHR ''s''"] by simp
qed

section \<open>The layout of a scan\<close>

definition align_up :: "nat \<Rightarrow> nat \<Rightarrow> nat" where
  "align_up n k = ((n + k - 1) div k) * k"

lemma align_up_props:
  assumes "0 < k"
  shows "k dvd align_up n k" "n \<le> align_up n k" "align_up n k < n + k"
proof -
  show "k dvd align_up n k" by (simp add: align_up_def)
  have "(n + k - 1) div k * k + (n + k - 1) mod k = n + k - 1" by (rule div_mult_mod_eq)
  moreover have "(n + k - 1) mod k < k" using assms by simp
  ultimately show "n \<le> align_up n k" "align_up n k < n + k"
    unfolding align_up_def using assms by linarith+
qed

lemma align_up_unique:
  assumes "0 < k" "k dvd m" "n \<le> m" "m < n + k"
  shows "align_up n k = m"
proof -
  obtain q where "m = k * q" using assms(2) by blast
  then have "(n + k - 1) div k = q"
    using assms by (intro div_nat_eqI) (auto simp: algebra_simps)
  then show ?thesis using \<open>m = k * q\<close> by (simp add: align_up_def)
qed

lemma place_channel_location:
  assumes "ch_bytes c \<noteq> 0" "unat bytes + 2 * unat (ch_bytes c) < 2 ^ 32"
  obtains c' where "place_channel bytes c = Some c'" "c' = c\<lparr>ch_location := ch_location c'\<rparr>"
    "unat (ch_location c') = align_up (unat bytes) (unat (ch_bytes c))"
    "unat (ch_location c' + ch_bytes c') = align_up (unat bytes) (unat (ch_bytes c)) + unat (ch_bytes c)"
proof -
  let ?n = "unat bytes" and ?k = "unat (ch_bytes c)"
  define l where "l = (if bytes mod ch_bytes c = 0 then bytes else bytes - bytes mod ch_bytes c + ch_bytes c)"
  have k: "0 < ?k" using assms(1) by (simp add: unat_gt_0)
  have m: "unat (bytes mod ch_bytes c) = ?n mod ?k" by (simp add: unat_mod_distrib)
  have d: "?n div ?k * ?k + ?n mod ?k = ?n" by simp
  have l: "unat l = (if ?n mod ?k = 0 then ?n else ?n - ?n mod ?k + ?k)"
  proof (cases "?n mod ?k = 0")
    case True
    then have "bytes mod ch_bytes c = 0" using m by (metis unat_eq_zero)
    then show ?thesis using True by (simp add: l_def)
  next
    case False
    then have "bytes mod ch_bytes c \<noteq> 0" using m by (metis unat_0)
    moreover have "unat (bytes - bytes mod ch_bytes c) = ?n - ?n mod ?k"
      using m by (simp add: unat_sub word_le_nat_alt)
    moreover have "?n - ?n mod ?k + ?k < 2 ^ 32" using assms(2) by simp
    ultimately show ?thesis
      using False unat_add_lem [of "bytes - bytes mod ch_bytes c" "ch_bytes c"] by (simp add: l_def)
  qed
  have "unat l = align_up ?n ?k"
  proof (rule align_up_unique [symmetric, OF k])
    have "?n - ?n mod ?k = ?n div ?k * ?k" using d by linarith
    then show "?k dvd unat l" unfolding l by auto
    have "?n mod ?k < ?k" using k by simp
    then show "?n \<le> unat l" "unat l < ?n + ?k" unfolding l by (auto intro: diff_le_mono2 simp: le_diff_conv2)
  qed
  moreover have "unat l + ?k < 2 ^ 32"
    using calculation align_up_props(3) [OF k, of ?n] assms(2) by simp
  then have "unat (l + ch_bytes c) = unat l + ?k" using unat_add_lem [of l "ch_bytes c"] by simp
  ultimately show thesis
    using that [of "c\<lparr>ch_location := l\<rparr>"] assms(1) by (simp add: place_channel_def l_def)
qed

text \<open>Everything but the location stays; each location is the least aligned offset after the channel
  before it.\<close>

fun laid_out :: "nat \<Rightarrow> iio_channel_info list \<Rightarrow> nat \<Rightarrow> bool" where
  "laid_out n [] e \<longleftrightarrow> n = e"
| "laid_out n (c # cs) e \<longleftrightarrow> unat (ch_location c) = align_up n (unat (ch_bytes c)) \<and>
     laid_out (align_up n (unat (ch_bytes c)) + unat (ch_bytes c)) cs e"

abbreviation unplaced :: "iio_channel_info \<Rightarrow> iio_channel_info" where
  "unplaced c \<equiv> c\<lparr>ch_location := 0\<rparr>"

abbreviation layout_bound :: "iio_channel_info list \<Rightarrow> nat" where
  "layout_bound cs \<equiv> sum_list (map (\<lambda>c. 2 * unat (ch_bytes c)) cs)"

lemma size_from_laid_out:
  assumes "\<forall>c\<in>set cs. ch_bytes c \<noteq> 0" "unat bytes + layout_bound cs < 2 ^ 32"
  shows "\<exists>cs' n. size_from bytes cs = Some (cs', n) \<and> map unplaced cs' = map unplaced cs \<and>
    laid_out (unat bytes) cs' (unat n)"
  using assms
proof (induction cs arbitrary: bytes)
  case (Cons c cs)
  let ?k = "unat (ch_bytes c)"
  have k: "ch_bytes c \<noteq> 0" "unat bytes + 2 * ?k < 2 ^ 32" using Cons.prems by simp_all
  obtain c' where c': "place_channel bytes c = Some c'" "c' = c\<lparr>ch_location := ch_location c'\<rparr>"
    "unat (ch_location c') = align_up (unat bytes) ?k"
    "unat (ch_location c' + ch_bytes c') = align_up (unat bytes) ?k + ?k"
    by (rule place_channel_location [OF k])
  have b: "ch_bytes c' = ch_bytes c" "unplaced c' = unplaced c" by (subst c'(2), simp)+
  have "unat (ch_location c' + ch_bytes c') + layout_bound cs < 2 ^ 32"
    using align_up_props(3) [of ?k "unat bytes"] k(1) Cons.prems(2) c'(4) by (simp add: unat_gt_0)
  then obtain cs' n where "size_from (ch_location c' + ch_bytes c') cs = Some (cs', n)"
    "map unplaced cs' = map unplaced cs" "laid_out (unat (ch_location c' + ch_bytes c')) cs' (unat n)"
    using Cons.IH Cons.prems(1) by fastforce
  then show ?case using c'(1,3,4) b by simp
qed simp

lemma laid_out_le: "laid_out n cs e \<Longrightarrow> \<forall>c\<in>set cs. ch_bytes c \<noteq> 0 \<Longrightarrow> n \<le> e"
proof (induction cs arbitrary: n)
  case (Cons c cs)
  then have "align_up n (unat (ch_bytes c)) + unat (ch_bytes c) \<le> e" by simp
  then show ?case using align_up_props(2) [of "unat (ch_bytes c)" n] Cons.prems(2) by (simp add: unat_gt_0)
qed simp

lemma laid_out_channel:
  assumes "laid_out n cs e" "\<forall>c\<in>set cs. ch_bytes c \<noteq> 0" "i < length cs"
  shows "unat (ch_bytes (cs ! i)) dvd unat (ch_location (cs ! i)) \<and> n \<le> unat (ch_location (cs ! i)) \<and>
    unat (ch_location (cs ! i)) + unat (ch_bytes (cs ! i)) \<le> e"
  using assms
proof (induction cs arbitrary: n i)
  case (Cons c cs)
  let ?k = "unat (ch_bytes c)"
  have k: "0 < ?k" using Cons.prems by (simp add: unat_gt_0)
  have l: "unat (ch_location c) = align_up n ?k" "laid_out (align_up n ?k + ?k) cs e"
    and nz: "\<forall>c\<in>set cs. ch_bytes c \<noteq> 0" using Cons.prems by simp_all
  note al = align_up_props [OF k, of n]
  show ?case
  proof (cases i)
    case 0
    then show ?thesis using l(1) al laid_out_le [OF l(2) nz] by simp
  next
    case (Suc i')
    then have "i' < length cs" using Cons.prems(3) by simp
    from Cons.IH [OF l(2) nz this] show ?thesis using Suc al by auto
  qed
qed simp

lemma laid_out_disjoint:
  assumes "laid_out n cs e" "\<forall>c\<in>set cs. ch_bytes c \<noteq> 0" "i < j" "j < length cs"
  shows "unat (ch_location (cs ! i)) + unat (ch_bytes (cs ! i)) \<le> unat (ch_location (cs ! j))"
  using assms
proof (induction cs arbitrary: n i j)
  case (Cons c cs)
  obtain j' where j: "j = Suc j'" using Cons.prems(3) by (cases j) auto
  have l: "unat (ch_location c) = align_up n (unat (ch_bytes c))"
    "laid_out (align_up n (unat (ch_bytes c)) + unat (ch_bytes c)) cs e" using Cons.prems(1) by simp_all
  show ?case
  proof (cases i)
    case 0
    then show ?thesis using laid_out_channel [OF l(2), of j'] l(1) Cons.prems j by simp
  next
    case (Suc i')
    then show ?thesis using Cons.IH [OF l(2)] Cons.prems j by simp
  qed
qed simp

text \<open>C23: the scan layout. When no channel is empty and the channels are not absurdly large, the
  function returns: every location is a multiple of the channel's size, channels follow each other
  in order without overlapping, all of them end inside the returned scan size, and nothing but the
  locations changed.\<close>

theorem channel_layout:
  assumes "\<forall>c\<in>set cs. ch_bytes c \<noteq> 0" "layout_bound cs < 2 ^ 32"
  shows "\<exists>cs' n. size_from_channelarray cs = Some (cs', n) \<and>
    map (\<lambda>c. c\<lparr>ch_location := 0\<rparr>) cs' = map (\<lambda>c. c\<lparr>ch_location := 0\<rparr>) cs \<and>
    (\<forall>i < length cs'. unat (ch_bytes (cs' ! i)) dvd unat (ch_location (cs' ! i)) \<and>
       unat (ch_location (cs' ! i)) + unat (ch_bytes (cs' ! i)) \<le> unat n) \<and>
    (\<forall>i j. i < j \<longrightarrow> j < length cs' \<longrightarrow>
       unat (ch_location (cs' ! i)) + unat (ch_bytes (cs' ! i)) \<le> unat (ch_location (cs' ! j)))"
proof -
  obtain cs' n where s: "size_from 0 cs = Some (cs', n)" "map unplaced cs' = map unplaced cs"
    "laid_out 0 cs' (unat n)" using size_from_laid_out [of cs 0] assms by auto
  have "map ch_bytes cs' = map ch_bytes cs"
    using arg_cong [OF s(2), of "map ch_bytes"] by (simp add: comp_def)
  then have "\<forall>c\<in>set cs'. ch_bytes c \<noteq> 0" using assms(1) by (metis (mono_tags) list.set_map imageE imageI)
  then show ?thesis
    using s laid_out_channel [OF s(3)] laid_out_disjoint [OF s(3)]
    unfolding size_from_channelarray_def by blast
qed

lemma channel_layout_witness:
  "size_from_channelarray (map (\<lambda>b. channel_new ''c''\<lparr>ch_bytes := b\<rparr>) [2, 2, 2, 8])
     = Some (map (\<lambda>(b, l). channel_new ''c''\<lparr>ch_bytes := b, ch_location := l\<rparr>) [(2, 0), (2, 2), (2, 4), (8, 8)], 16) \<and>
   (\<exists>cs' n. size_from_channelarray (map (\<lambda>b. channel_new ''c''\<lparr>ch_bytes := b\<rparr>) [2, 2, 2, 8]) = Some (cs', n) \<and>
      unat (ch_location (cs' ! 2)) + unat (ch_bytes (cs' ! 2)) \<le> unat (ch_location (cs' ! 3)))"
proof -
  let ?cs = "map (\<lambda>b. channel_new ''c''\<lparr>ch_bytes := b\<rparr>) [2, 2, 2, 8]"
  have "\<forall>c\<in>set ?cs. ch_bytes c \<noteq> 0" "layout_bound ?cs < 2 ^ 32" by simp_all
  from channel_layout [OF this] obtain cs' n where r: "size_from_channelarray ?cs = Some (cs', n)"
    and l: "\<forall>i j. i < j \<longrightarrow> j < length cs' \<longrightarrow>
       unat (ch_location (cs' ! i)) + unat (ch_bytes (cs' ! i)) \<le> unat (ch_location (cs' ! j))" by blast
  have e: "size_from_channelarray ?cs
     = Some (map (\<lambda>(b, l). channel_new ''c''\<lparr>ch_bytes := b, ch_location := l\<rparr>) [(2, 0), (2, 2), (2, 4), (8, 8)], 16)"
    by (simp add: size_from_channelarray_def place_channel_def)
  then have "length cs' = 4" using r by auto
  then show ?thesis using l e r by fastforce
qed

section \<open>The order of the channels\<close>

text \<open>What \<^verbatim>\<open>g_ptr_array_sort\<close> promises: a permutation, in order when the comparison is one.\<close>

definition total_preorder_on :: "('a \<Rightarrow> 'a \<Rightarrow> int) \<Rightarrow> 'a set \<Rightarrow> bool" where
  "total_preorder_on cmp A \<longleftrightarrow> (\<forall>x\<in>A. \<forall>y\<in>A. cmp x y \<le> 0 \<or> cmp y x \<le> 0) \<and>
     (\<forall>x\<in>A. \<forall>y\<in>A. \<forall>z\<in>A. cmp x y \<le> 0 \<longrightarrow> cmp y z \<le> 0 \<longrightarrow> cmp x z \<le> 0)"

definition sort_laws :: "'w iio_env \<Rightarrow> bool" where
  "sort_laws env \<longleftrightarrow> (\<forall>cmp xs. mset (ie_sort env cmp xs) = mset xs \<and>
     (total_preorder_on cmp (set xs) \<longrightarrow> sorted_wrt (\<lambda>x y. cmp x y \<le> 0) (ie_sort env cmp xs)))"

lemma compare_channel_index_le:
  assumes "ch_index a < 2 ^ 31" "ch_index b < 2 ^ 31"
  shows "compare_channel_index a b \<le> 0 \<longleftrightarrow> ch_index a \<le> ch_index b"
proof -
  have u: "uint (ch_index a) < 2 ^ 31" "uint (ch_index b) < 2 ^ 31"
    using assms by (simp_all add: word_less_def)
  have "sint (ch_index a - ch_index b) = uint (ch_index a) - uint (ch_index b)"
  proof -
    have "ch_index a - ch_index b = word_of_int (uint (ch_index a) - uint (ch_index b))" by simp
    then have "sint (ch_index a - ch_index b) = signed_take_bit 31 (uint (ch_index a) - uint (ch_index b))"
      by (simp only: signed_of_int) simp
    moreover have "signed_take_bit 31 (uint (ch_index a) - uint (ch_index b)) = uint (ch_index a) - uint (ch_index b)"
      by (rule signed_take_bit_int_eq_self)
        (use u uint_ge_0 [of "ch_index a"] uint_ge_0 [of "ch_index b"] in linarith)+
    ultimately show ?thesis by simp
  qed
  then show ?thesis by (simp add: compare_channel_index_def word_le_def)
qed

fun added_channels :: "'w iio_env \<Rightarrow> string \<Rightarrow> string list \<Rightarrow> 'w \<Rightarrow> iio_channel_info list" where
  "added_channels env dir [] w = []"
| "added_channels env dir (n # ns) w = (case read_channel env dir n w of
     Add c \<Rightarrow> c # added_channels env dir ns w | _ \<Rightarrow> added_channels env dir ns w)"

lemma read_channels_Ok: "read_channels env dir ns w = Ok cs \<Longrightarrow> cs = added_channels env dir ns w"
  by (induction ns arbitrary: cs) (auto split: dir_step.splits outcome.splits)

text \<open>The channel array holds exactly the channels whose descriptions could be read, in the order of
  their index in the scan, for indices below 2 ^ 31 (beyond, the comparison wraps).\<close>

theorem channel_array_sorted:
  assumes "sort_laws env" "build_channel_array env dir w = Ok cs"
    "ie_dir env (build_filename dir ''scan_elements'') w = Some names"
    "\<forall>c\<in>set (added_channels env dir names w). ch_index c < 2 ^ 31"
  shows "mset cs = mset (added_channels env dir names w) \<and> sorted (map ch_index cs)"
proof -
  let ?a = "added_channels env dir names w"
  have cs: "cs = ie_sort env compare_channel_index ?a"
    using assms(2,3) by (auto simp: build_channel_array_def dest: read_channels_Ok split: outcome.splits)
  have "total_preorder_on compare_channel_index (set ?a)"
    using assms(4) by (auto simp: total_preorder_on_def compare_channel_index_le)
  then have m: "mset cs = mset ?a" and s: "sorted_wrt (\<lambda>x y. compare_channel_index x y \<le> 0) cs"
    using assms(1) by (simp_all add: sort_laws_def cs)
  have "set cs = set ?a" using m by (rule mset_eq_setD)
  then have "sorted_wrt (\<lambda>x y. ch_index x \<le> ch_index y) cs"
    using assms(4) by (intro sorted_wrt_mono_rel [OF _ s]) (simp add: compare_channel_index_le)
  then show ?thesis using m by (simp add: sorted_map)
qed

section \<open>The value of a channel\<close>

lemma fint_exact_f32:
  assumes "\<bar>i\<bar> \<le> 2 ^ 24"
  shows "fround False (of_int i) = (Num (of_int i) :: f32)"
proof -
  have r: "repr_of TYPE(f32) (of_int i)"
    by (rule fp_repr_int) (use assms in \<open>simp_all add: fp_format_f32\<close>)
  have b: "\<bar>of_int i :: rat\<bar> \<le> of_int (2 ^ 24)"
    using assms by (simp only: of_int_abs [symmetric] of_int_le_iff)
  have "\<bar>of_int i :: rat\<bar> \<le> fp_max TYPE(f32)"
    by (rule order_trans [OF b]) (simp add: fp_format_f32)
  then show ?thesis
    using rnd_repr [OF fp_prec_pos r] by (simp add: fround_def Let_def fmk_def)
qed

lemma float_to_int_sum:
  assumes "\<bar>v\<bar> \<le> 2 ^ 23" "\<bar>k\<bar> \<le> 2 ^ 23" "- (2 ^ (n - 1)) \<le> v + k" "v + k < 2 ^ (n - 1)"
  shows "float_to_int n (fint v + Num (of_int k)) = Some (v + k)"
proof -
  have "fint v = (Num (of_int v) :: f32)" using assms(1) by (simp add: fint_def fint_exact_f32)
  then have "fint v + Num (of_int k) = (Num (of_int (v + k)) :: f32)"
    using assms(1,2) fint_exact_f32 [of "v + k"] by simp
  then show ?thesis using assms(3,4) by (simp only: float_to_int_def) (simp add: Let_def flip: of_int_add)
qed

text \<open>The field of bits that the description names, as a number.\<close>

definition field_value :: "iio_channel_info \<Rightarrow> int \<Rightarrow> int" where
  "field_value c raw = (let b = unat (ch_bits_used c); f = drop_bit (unat (ch_shift c)) raw
     in if ch_is_signed c then signed_take_bit (b - 1) f else take_bit b f)"

text \<open>The field lies inside its storage of \<open>n\<close> bits, and the mask is the one the description gives for it.\<close>

definition field_ok :: "nat \<Rightarrow> iio_channel_info \<Rightarrow> bool" where
  "field_ok n c \<longleftrightarrow> 0 < ch_bits_used c \<and> unat (ch_shift c) + unat (ch_bits_used c) \<le> n \<and>
     type_mask (ch_bits_used c) = Some (ch_mask c)"

text \<open>What adding the offset in single precision and converting back to an integer of the storage's width
  (signed) or to an \<^verbatim>\<open>int\<close> makes of a number; nothing when the sum does not fit.\<close>

definition offset_added :: "nat \<Rightarrow> iio_channel_info \<Rightarrow> int \<Rightarrow> int option" where
  "offset_added n c v = (if ch_is_signed c then map_option c_int (float_to_int n (fint v + ch_offset c))
     else float_to_int 32 (fint v + ch_offset c))"

lemma type_mask_eq:
  assumes "type_mask b = Some m"
  shows "m = mask (unat b)"
proof (cases "b = 64")
  case True
  moreover have "(mask 64 :: u64) = NOT 0" by code_simp
  ultimately show ?thesis using assms by (simp add: type_mask_def)
next
  case False
  then show ?thesis
    using assms by (auto simp: type_mask_def mask_eq_exp_minus_1 push_bit_eq_mult split: if_splits)
qed

lemma field_range:
  assumes "field_ok n c" "unat (ch_bits_used c) \<le> 23"
  shows "\<bar>field_value c raw\<bar> \<le> 2 ^ 23"
proof -
  let ?b = "unat (ch_bits_used c)" and ?f = "drop_bit (unat (ch_shift c)) raw"
  have b: "0 < ?b" "?b \<le> 23" using assms by (simp_all add: field_ok_def word_less_nat_alt)
  have "\<bar>take_bit ?b ?f\<bar> \<le> 2 ^ 23"
    using take_bit_int_less_exp [of ?b ?f] take_bit_nonnegative [of ?b ?f]
      power_increasing [OF b(2), of "2 :: int"] by linarith
  moreover have "\<bar>signed_take_bit (?b - 1) ?f\<bar> \<le> 2 ^ 23"
    using signed_take_bit_int_greater_eq_minus_exp [of "?b - 1" ?f]
      signed_take_bit_int_less_exp [of "?b - 1" ?f]
      power_increasing [of "?b - 1" 23 "2 :: int"] b by linarith
  ultimately show ?thesis by (simp add: field_value_def Let_def)
qed

lemma sign_extension:
  fixes x :: "'n::len word"
  assumes "0 < b" "b \<le> LENGTH('n)"
  shows "sint (signed_drop_bit (LENGTH('n) - b) (push_bit (LENGTH('n) - b) x)) = signed_take_bit (b - 1) (uint x)"
proof (rule bit_eqI)
  fix i
  show "bit (sint (signed_drop_bit (LENGTH('n) - b) (push_bit (LENGTH('n) - b) x))) i =
    bit (signed_take_bit (b - 1) (uint x)) i"
    using assms
    by (cases "i = b - 1")
      (auto simp: bit_sint_iff bit_signed_drop_bit_iff bit_push_bit_iff bit_signed_take_bit_iff
        bit_uint_iff min_def)
qed

text \<open>A field comes out of its storage word exactly, sign-extended when the channel is signed; then the
  offset is added in single precision.\<close>

lemma process_channel_field:
  fixes x :: "'n::len word"
  assumes "field_ok LENGTH('n) c"
  shows "PROCESS_CHANNEL_BITS c x = offset_added LENGTH('n) c (field_value c (uint x))"
proof -
  let ?b = "unat (ch_bits_used c)" and ?s = "unat (ch_shift c)"
  have b: "0 < ?b" "?s + ?b \<le> LENGTH('n)" "ch_mask c = mask ?b"
    using assms(1) type_mask_eq [of "ch_bits_used c"] by (auto simp: field_ok_def word_less_nat_alt)
  define y where "y = drop_bit ?s x AND ucast (ch_mask c)"
  have b64: "?b \<le> 64" using assms(1) by (auto simp: field_ok_def type_mask_def word_le_nat_alt word_less_nat_alt split: if_splits)
  have y: "y = take_bit ?b (drop_bit ?s x)"
    unfolding y_def b(3) using b(2) b64 by (intro bit_word_eqI) (auto simp: bit_simps)
  have uy: "uint y = take_bit ?b (drop_bit ?s (uint x))"
  proof -
    have "take_bit LENGTH('n) (uint x) = uint x" by transfer simp
    then show ?thesis by (simp add: y unsigned_take_bit_eq unsigned_drop_bit_eq)
  qed
  have ns: "\<not> max LENGTH('n) 32 \<le> ?s" using b by linarith
  show ?thesis
  proof (cases "ch_is_signed c")
    case True
    have "sint (signed_drop_bit (LENGTH('n) - ?b) (push_bit (LENGTH('n) - ?b) y)) = field_value c (uint x)"
      using sign_extension [of ?b y] b True by (auto simp: uy field_value_def Let_def signed_take_bit_take_bit not_le)
    moreover have "\<not> LENGTH('n) < ?b" "\<not> max LENGTH('n) 32 \<le> LENGTH('n) - ?b" using b by linarith+
    ultimately show ?thesis
      using True ns unfolding PROCESS_CHANNEL_BITS_def offset_added_def Let_def y_def [symmetric]
      by (simp del: max.bounded_iff)
  next
    case False
    moreover have "uint y = field_value c (uint x)" using False by (simp add: uy field_value_def Let_def)
    ultimately show ?thesis
      using ns unfolding PROCESS_CHANNEL_BITS_def offset_added_def Let_def y_def [symmetric]
      by (simp del: max.bounded_iff)
  qed
qed

text \<open>Small numbers lose nothing on the way through single precision.\<close>

lemma offset_added_exact:
  assumes "ch_offset c = Num (of_int k)" "\<bar>v\<bar> \<le> 2 ^ 23" "\<bar>k\<bar> \<le> 2 ^ 23"
    "ch_is_signed c \<longrightarrow> - (2 ^ (n - 1)) \<le> v + k \<and> v + k < 2 ^ (n - 1)"
  shows "offset_added n c v = Some (v + k)"
proof (cases "ch_is_signed c")
  case True
  have "float_to_int n (fint v + ch_offset c) = Some (v + k)" using assms True by (simp add: float_to_int_sum)
  moreover have "c_int (v + k) = v + k"
    using assms(2,3) by (intro c_int_id) (simp_all add: abs_le_iff; linarith)+
  ultimately show ?thesis using True by (simp add: offset_added_def)
next
  case False
  have "float_to_int 32 (fint v + ch_offset c) = Some (v + k)"
    unfolding assms(1) by (rule float_to_int_sum [OF assms(2,3)]) (use assms(2,3) in \<open>simp_all; linarith\<close>)+
  then show ?thesis using False by (simp add: offset_added_def)
qed

definition accel_channel :: iio_channel_info where
  "accel_channel = \<lparr>ch_name = ''in_accel_x'', ch_generic_name = ''in_accel'', ch_scale = 1, ch_offset = Num 0,
     ch_index = 0, ch_is_signed = True, ch_bits_used = 12, ch_bytes = 2, ch_shift = 4, ch_mask = 0xFFF,
     ch_be = False, ch_enabled = False, ch_location = 0\<rparr>"

lemma accel_channel_ok: "field_ok 16 accel_channel"
  by (simp add: field_ok_def accel_channel_def type_mask_def)

lemma horner_sum_bytes_range: "0 \<le> horner_sum uint 256 bs \<and> horner_sum uint 256 bs < (256 :: int) ^ length bs"
  for bs :: "u8 list"
proof (induction bs)
  case (Cons b bs)
  have "uint b < 256" "0 \<le> uint b" using uint_lt2p [of b] by simp_all
  then show ?case using Cons.IH by simp
qed simp

definition raw_number :: "bool \<Rightarrow> u8 list \<Rightarrow> int" where
  "raw_number be bs = horner_sum uint 256 (if be then rev bs else bs)"

lemma uint_load_bytes:
  assumes "LENGTH('n::len) = 8 * length bs"
  shows "uint (load_bytes be bs :: 'n word) = raw_number be bs"
proof -
  have "0 \<le> raw_number be bs" "raw_number be bs < 2 ^ LENGTH('n)"
    using horner_sum_bytes_range [of bs] horner_sum_bytes_range [of "rev bs"] assms
    by (simp_all add: raw_number_def power_mult)
  then show ?thesis by (simp add: load_bytes_def raw_number_def [symmetric] uint_word_of_int_eq take_bit_int_eq_self)
qed

lemma process_scan_1_nth:
  assumes "i < length cs" "distinct (map ch_name cs)"
  shows "process_scan_1 data cs (ch_name (cs ! i)) = scan_channel data (cs ! i)"
  using assms
proof (induction cs arbitrary: i)
  case (Cons c cs)
  then show ?case by (cases i) (force simp: in_set_conv_nth)+
qed simp

lemma field_fits:
  assumes "field_ok n c" "ch_is_signed c"
  shows "- (2 ^ (n - 1)) \<le> field_value c raw \<and> field_value c raw < 2 ^ (n - 1)"
proof -
  let ?b = "unat (ch_bits_used c)" and ?f = "drop_bit (unat (ch_shift c)) raw"
  have "(2 :: int) ^ (?b - 1) \<le> 2 ^ (n - 1)"
    using assms(1) by (intro power_increasing) (auto simp: field_ok_def)
  moreover have "field_value c raw = signed_take_bit (?b - 1) ?f" using assms(2) by (simp add: field_value_def Let_def)
  ultimately show ?thesis
    using signed_take_bit_int_greater_eq_minus_exp [of "?b - 1" ?f]
      signed_take_bit_int_less_exp [of "?b - 1" ?f] by linarith
qed

lemma process_channel_bytes:
  assumes "LENGTH('n::len) = 8 * length bs" "field_ok LENGTH('n) c"
  shows "PROCESS_CHANNEL_BITS c (load_bytes (ch_be c) bs :: 'n word) =
    offset_added LENGTH('n) c (field_value c (raw_number (ch_be c) bs))"
  using process_channel_field [OF assms(2)] uint_load_bytes [OF assms(1)] by metis

definition present :: "iio_channel_info \<Rightarrow> int option \<Rightarrow> scan_value" where
  "present c r = (case r of None \<Rightarrow> Undef | Some v \<Rightarrow> Present v (fconv (ch_scale c)))"

lemma scan_channel_value:
  assumes "unat (ch_bytes c) \<in> {1, 2, 4, 8}" "unat (ch_location c) + unat (ch_bytes c) \<le> length data"
    "field_ok (8 * unat (ch_bytes c)) c"
  shows "scan_channel data c = present c (offset_added (8 * unat (ch_bytes c)) c (field_value c (raw_number (ch_be c)
      (take (unat (ch_bytes c)) (drop (unat (ch_location c)) data)))))"
proof -
  let ?n = "unat (ch_bytes c)"
  define bs where "bs = take ?n (drop (unat (ch_location c)) data)"
  have l: "length bs = ?n" "load_at data (unat (ch_location c)) ?n = Some bs"
    using assms(2) by (simp_all add: bs_def load_at_def)
  note f = process_channel_bytes [where bs = bs and c = c]
  show ?thesis
    unfolding bs_def [symmetric]
    using assms(1,3) l f [where 'n = 8] f [where 'n = 16] f [where 'n = 32] f [where 'n = 64]
    by (auto simp: scan_channel_def present_def Let_def)
qed

text \<open>C22: the value of a channel in a scan. After the layout was computed, for every buffer that holds a
  whole scan and every channel of one of the four supported sizes whose field lies inside its storage, the
  function finds the channel by its name and reads only bytes of the scan. It takes exactly the field of
  bits the description names, in the channel's byte order and sign-extended when it is signed, adds the
  offset in single precision and converts the sum back (a sum that does not fit is undefined behaviour), and
  gives the channel's scale. For a field of at most 23 bits and no offset the result is the field itself; with
  a whole offset it is their sum, when neither exceeds 2 ^ 23 and the sum fits the storage. Wider
  fields may be rounded.\<close>

theorem process_scan_value:
  assumes "\<forall>c\<in>set cs. ch_bytes c \<noteq> 0" "layout_bound cs < 2 ^ 32"
    "size_from_channelarray cs = Some (cs', n)" "distinct (map ch_name cs)" "unat n \<le> length data"
    "i < length cs'" "c = cs' ! i"
    "unat (ch_bytes c) \<in> {1, 2, 4, 8}" "field_ok (8 * unat (ch_bytes c)) c"
    "v = field_value c (raw_number (ch_be c) (take (unat (ch_bytes c)) (drop (unat (ch_location c)) data)))"
  shows "process_scan_1 data cs' (ch_name c) = present c (offset_added (8 * unat (ch_bytes c)) c v) \<and>
    (ch_offset c = Num 0 \<and> unat (ch_bits_used c) \<le> 23 \<longrightarrow>
      process_scan_1 data cs' (ch_name c) = Present v (fconv (ch_scale c))) \<and>
    (\<forall>k. ch_offset c = Num (of_int k) \<and> \<bar>v\<bar> \<le> 2 ^ 23 \<and> \<bar>k\<bar> \<le> 2 ^ 23 \<and>
        (ch_is_signed c \<longrightarrow> - (2 ^ (8 * unat (ch_bytes c) - 1)) \<le> v + k \<and> v + k < 2 ^ (8 * unat (ch_bytes c) - 1)) \<longrightarrow>
      process_scan_1 data cs' (ch_name c) = Present (v + k) (fconv (ch_scale c))) \<and>
    ch_name c = ch_name (cs ! i) \<and> unat (ch_location c) + unat (ch_bytes c) \<le> unat n"
proof -
  have m: "map unplaced cs' = map unplaced cs" and lay: "laid_out 0 cs' (unat n)"
    using size_from_laid_out [of cs 0] assms(1-3) by (auto simp: size_from_channelarray_def)
  have b: "map ch_bytes cs' = map ch_bytes cs" and nm: "map ch_name cs' = map ch_name cs"
    using arg_cong [OF m, of "map ch_bytes"] arg_cong [OF m, of "map ch_name"] by (simp_all add: comp_def)
  have "\<forall>c\<in>set cs'. ch_bytes c \<noteq> 0" using assms(1) b by (metis (mono_tags) list.set_map imageE imageI)
  then have l: "unat (ch_location c) + unat (ch_bytes c) \<le> unat n"
    using laid_out_channel [OF lay _ assms(6)] assms(7) by blast
  have "process_scan_1 data cs' (ch_name c) = scan_channel data c"
    using process_scan_1_nth [OF assms(6)] assms(4,7) nm by simp
  then have p: "process_scan_1 data cs' (ch_name c) = present c (offset_added (8 * unat (ch_bytes c)) c v)"
    using scan_channel_value [OF assms(8) _ assms(9)] assms(5,10) l by simp
  have ex: "process_scan_1 data cs' (ch_name c) = Present (v + k) (fconv (ch_scale c))"
    if "ch_offset c = Num (of_int k)" "\<bar>v\<bar> \<le> 2 ^ 23" "\<bar>k\<bar> \<le> 2 ^ 23"
      "ch_is_signed c \<longrightarrow> - (2 ^ (8 * unat (ch_bytes c) - 1)) \<le> v + k \<and> v + k < 2 ^ (8 * unat (ch_bytes c) - 1)" for k
    using p offset_added_exact [OF that] by (simp add: present_def)
  have "process_scan_1 data cs' (ch_name c) = Present v (fconv (ch_scale c))"
    if "ch_offset c = Num 0" "unat (ch_bits_used c) \<le> 23"
    using ex [of 0] that field_range [OF assms(9) that(2)] field_fits [OF assms(9)] assms(10) by simp
  moreover have "ch_name c = ch_name (cs ! i)"
    using assms(6,7) nm map_eq_imp_length_eq [OF nm] by (metis nth_map)
  ultimately show ?thesis using p ex l by blast
qed

text \<open>A signed channel of 12 bits, one of 24 bits with an offset of 5, and one of 32 bits, which is rounded.\<close>

definition scan_channels :: "iio_channel_info list" where
  "scan_channels = [accel_channel, accel_channel\<lparr>ch_name := ''in_temp'', ch_bytes := 4, ch_bits_used := 24, ch_shift := 0,
     ch_mask := 0xFFFFFF, ch_offset := Num 5, ch_location := 4\<rparr>, accel_channel\<lparr>ch_name := ''in_rot'', ch_bytes := 4,
     ch_bits_used := 32, ch_shift := 0, ch_mask := 0xFFFFFFFF, ch_location := 8\<rparr>]"

definition scan_bytes :: "u8 list" where
  "scan_bytes = [0xE0, 0xFF, 0, 0, 0xFE, 0xFF, 0xFF, 0, 0x01, 0, 0, 0x01]"

lemma scan_channels_layout:
  "size_from_channelarray (map (\<lambda>c. c\<lparr>ch_location := 0\<rparr>) scan_channels) = Some (scan_channels, 12)"
  by (simp add: size_from_channelarray_def place_channel_def scan_channels_def accel_channel_def)

lemma process_scan_value_witness:
  "process_scan_1 scan_bytes scan_channels ''in_accel_x'' = Present (- 2) 1 \<and>
   process_scan_1 scan_bytes scan_channels ''in_temp'' = Present 3 1 \<and>
   process_scan_1 scan_bytes scan_channels ''in_rot'' = Present 16777216 1"
proof -
  let ?cs = "map (\<lambda>c. c\<lparr>ch_location := 0\<rparr>) scan_channels"
  note def = scan_channels_def accel_channel_def scan_bytes_def
  have ok: "field_ok (8 * unat (ch_bytes (scan_channels ! i))) (scan_channels ! i)" if "i < 3" for i
    using that by (auto simp: field_ok_def def type_mask_def less_Suc_eq numeral_3_eq_3)
  have f: "field_value (scan_channels ! 0) (raw_number False [0xE0, 0xFF]) = - 2"
    "field_value (scan_channels ! 1) (raw_number False [0xFE, 0xFF, 0xFF, 0]) = - 2"
    "field_value (scan_channels ! 2) (raw_number False [0x01, 0, 0, 0x01]) = 16777217"
    by (simp_all add: field_value_def raw_number_def def)
  have r: "offset_added 32 (scan_channels ! 2) 16777217 = Some 16777216" by code_simp
  have one: "(fconv (1 :: f32) :: f64) = 1" by code_simp
  have p: "\<forall>c\<in>set ?cs. ch_bytes c \<noteq> 0" "layout_bound ?cs < 2 ^ 32" "distinct (map ch_name ?cs)" "unat (12 :: u32) \<le> length scan_bytes"
    by (simp_all add: def)
  note v = process_scan_value [OF p(1,2) scan_channels_layout p(3,4) _ refl _ ok refl]
  have "process_scan_1 scan_bytes scan_channels (ch_name (scan_channels ! 0)) = Present (- 2) 1"
    using v [of 0, THEN conjunct2, THEN conjunct1] f(1) one by (simp add: def)
  moreover have "process_scan_1 scan_bytes scan_channels (ch_name (scan_channels ! 1)) = Present 3 1"
    using v [of 1, THEN conjunct2, THEN conjunct2, THEN conjunct1, THEN spec [of _ 5]] f(2) one by (simp add: def)
  moreover have "process_scan_1 scan_bytes scan_channels (ch_name (scan_channels ! 2)) = Present 16777216 1"
    using v [of 2, THEN conjunct1] f(3) one r by (simp add: def present_def)
  ultimately show ?thesis by (simp add: def)
qed

text \<open>Wider channels are not exact. The offset is added in single precision even when it is zero:
  the value $2^{24} + 1$ of a 32-bit channel is reported as $2^{24}$, and the largest value of such a
  channel is rounded up to $2^{31}$, whose conversion back to 32 bits is undefined behaviour.\<close>

theorem wide_channel_rounds:
  assumes "ch_is_signed c" "ch_bits_used c = 32" "ch_shift c = 0" "ch_mask c = 0xFFFFFFFF" "ch_offset c = Num 0"
  shows "PROCESS_CHANNEL_BITS c (0x01000001 :: u32) = Some (2 ^ 24) \<and>
    PROCESS_CHANNEL_BITS c (0x7FFFFFFF :: u32) = None"
proof -
  have r: "fint 16777217 + (Num 0 :: f32) = Num 16777216" "fint 2147483647 + (Num 0 :: f32) = Num 2147483648"
    by code_simp+
  have t: "float_to_int 32 (Num 16777216) = Some 16777216" "float_to_int 32 (Num 2147483648) = None"
    by code_simp+
  show ?thesis using assms r t by (simp add: PROCESS_CHANNEL_BITS_def c_int_def)
qed

lemma wide_channel_rounds_witness:
  "PROCESS_CHANNEL_BITS (accel_channel\<lparr>ch_bits_used := 32, ch_shift := 0, ch_mask := 0xFFFFFFFF\<rparr>) (0x01000001 :: u32)
     = Some 16777216"
  using wide_channel_rounds [of "accel_channel\<lparr>ch_bits_used := 32, ch_shift := 0, ch_mask := 0xFFFFFFFF\<rparr>"]
  by (simp add: accel_channel_def)

section \<open>The concrete environment sorts\<close>

lemma set_insert_cmp: "set (insert_cmp cmp x ys) = insert x (set ys)"
  by (induction ys) auto

lemma sorted_insert_cmp:
  assumes "total_preorder_on cmp A" "x \<in> A" "set ys \<subseteq> A" "sorted_wrt (\<lambda>x y. cmp x y \<le> 0) ys"
  shows "sorted_wrt (\<lambda>x y. cmp x y \<le> 0) (insert_cmp cmp x ys)"
  using assms(3,4)
proof (induction ys)
  case (Cons y ys)
  have t: "cmp y x \<le> 0" if "\<not> cmp x y \<le> 0" using that assms(1,2) Cons.prems(1) by (auto simp: total_preorder_on_def)
  have tr: "cmp x z \<le> 0" if "cmp x y \<le> 0" "z \<in> set ys" for z
  proof -
    have "y \<in> A" "z \<in> A" "cmp y z \<le> 0" using that Cons.prems by auto
    then show ?thesis using assms(1,2) that(1) unfolding total_preorder_on_def by blast
  qed
  show ?case using Cons t tr by (auto simp: set_insert_cmp)
qed simp

lemma store_env_sorts: "sort_laws (store_env dir names)"
proof -
  have "sorted_wrt (\<lambda>x y. cmp x y \<le> 0) (sort_cmp cmp xs)"
    if "total_preorder_on cmp (set xs)" for cmp :: "iio_channel_info \<Rightarrow> iio_channel_info \<Rightarrow> int" and xs
  proof -
    have "sorted_wrt (\<lambda>x y. cmp x y \<le> 0) (sort_cmp cmp ys)" if "set ys \<subseteq> set xs" for ys
      using that
    proof (induction ys)
      case (Cons y ys)
      have "set (sort_cmp cmp ys) = set ys" using mset_sort_cmp [of cmp ys] by (rule mset_eq_setD)
      then show ?case
        using Cons sorted_insert_cmp [OF \<open>total_preorder_on cmp (set xs)\<close>, of y "sort_cmp cmp ys"]
        by (simp add: sort_cmp_def)
    qed (simp add: sort_cmp_def)
    then show ?thesis by blast
  qed
  then show ?thesis by (simp add: sort_laws_def mset_sort_cmp)
qed

text \<open>Two channels whose directory order is not their index order.\<close>

definition two_channels :: store where
  "two_channels = [(''/d/scan_elements/in_accel_y_en'', ''1''), (''/d/scan_elements/in_accel_y_index'', ''1''),
     (''/d/scan_elements/in_accel_x_en'', ''1''), (''/d/scan_elements/in_accel_x_index'', ''0''),
     (''/d/scan_elements/in_accel_type'', ''le:s12/16>>4''), (''/d/in_accel_scale'', ''2'')]"

lemma channel_array_sorted_witness:
  "\<exists>cs. build_channel_array (store_env ''/d'' [''in_accel_y_en'', ''in_accel_x_en'']) ''/d'' two_channels = Ok cs \<and>
     sorted (map ch_index cs) \<and> length cs = 2"
proof -
  let ?names = "[''in_accel_y_en'', ''in_accel_x_en'']"
  let ?env = "store_env ''/d'' ?names"
  have ok: "case build_channel_array ?env ''/d'' two_channels of Ok cs \<Rightarrow> True | _ \<Rightarrow> False"
    and n: "length (added_channels ?env ''/d'' ?names two_channels) = 2"
    and ix: "list_all (\<lambda>c. ch_index c < 2 ^ 31) (added_channels ?env ''/d'' ?names two_channels)"
    by code_simp+
  obtain cs where cs: "build_channel_array ?env ''/d'' two_channels = Ok cs"
    using ok by (cases "build_channel_array ?env ''/d'' two_channels") auto
  have "mset cs = mset (added_channels ?env ''/d'' ?names two_channels) \<and> sorted (map ch_index cs)"
    by (rule channel_array_sorted [OF store_env_sorts cs])
      (use ix in \<open>simp_all add: build_filename_def list_all_iff\<close>)
  then show ?thesis using cs n by (metis size_mset)
qed

end
