(* ===== verification/Iio_Buffer.thy ===== *)
theory Iio_Buffer
  imports Iio_Channels
begin

text \<open>
  The buffered device (second half of \<^verbatim>\<open>iio-buffer-utils.c\<close>): sampling frequencies, switching the
  channels, the trigger and the ring buffer on and off, and the life of a \<open>BufferDrvData\<close>. A
  \<^verbatim>\<open>GUdevDevice\<close> caches its attributes, so \<open>sysfs_attr\<close> does not change when an attribute is written.
\<close>

record BufferDrvData =
  bd_device :: GUdevDevice
  bd_trigger_name :: "string option"
  bd_dev_dir_name :: string
  bd_channels :: "iio_channel_info list"
  bd_scan_size :: u32

record IIOSensorData =
  read_size :: int
  sensor_bytes :: "u8 list"

section \<open>Sampling frequency\<close>

definition IIO_MIN_SAMPLING_FREQUENCY :: f64 where
  "IIO_MIN_SAMPLING_FREQUENCY = Num 10"

definition DBL_MAX :: f64 where
  "DBL_MAX = Num (fp_max TYPE(f64))"

text \<open>The loop over the list of supported values; it stops at text that is not a number.\<close>

function available_loop :: "'w iio_env \<Rightarrow> f64 \<Rightarrow> string \<Rightarrow> f64 \<Rightarrow> f64 \<Rightarrow> f64 \<times> f64" where
  "available_loop env desired s closest_higher closest_lower =
     (if s = [] then (closest_higher, closest_lower)
      else (let (available, used) = ie_strtod env s; rest = drop used s
        in if used = 0 \<or> (rest \<noteq> [] \<and> \<not> is_space (hd rest)) then (closest_higher, closest_lower)
           else if feq available 0 then available_loop env desired rest closest_higher closest_lower
           else if desired \<le> available
             then available_loop env desired rest
               (if available < closest_higher then available else closest_higher) closest_lower
           else available_loop env desired rest closest_higher
               (if closest_lower < available then available else closest_lower)))"
  by pat_completeness auto

termination
  by (relation "measure (\<lambda>(env, d, s, h, l). length s)") auto

declare available_loop.simps [simp del]

definition iio_round_sampling_frequency :: "'w iio_env \<Rightarrow> GUdevDevice \<Rightarrow> string \<Rightarrow> f64 \<Rightarrow> f64" where
  "iio_round_sampling_frequency env dev name desired =
     (case sysfs_attr dev (name @ ''_available'') of None \<Rightarrow> desired
      | Some available_str \<Rightarrow>
          (let (closest_higher, closest_lower) = available_loop env desired available_str DBL_MAX 0
           in if \<not> feq closest_higher DBL_MAX then closest_higher
              else if \<not> feq closest_lower 0 then closest_lower else desired))"

fun fixup_loop :: "'w iio_env \<Rightarrow> GUdevDevice \<Rightarrow> string list \<Rightarrow> 'w \<Rightarrow> 'w" where
  "fixup_loop env dev [] w = w"
| "fixup_loop env dev (name # names) w =
     (if \<not> has_suffix name ''sampling_frequency'' then fixup_loop env dev names w
      else if IIO_MIN_SAMPLING_FREQUENCY \<le> attr_as_double (strtod_val env) dev name
        then fixup_loop env dev names w
      else (let freq = iio_round_sampling_frequency env dev name IIO_MIN_SAMPLING_FREQUENCY;
                (_, w) = write_sysfs_string env name (sysfs_dir dev) (ie_dtostr env freq) w
        in fixup_loop env dev names w))"

definition iio_fixup_sampling_frequency :: "'w iio_env \<Rightarrow> GUdevDevice \<Rightarrow> 'w \<Rightarrow> bool \<times> 'w" where
  "iio_fixup_sampling_frequency env dev w =
     (case ie_dir env (sysfs_dir dev) w of None \<Rightarrow> (False, w)
      | Some names \<Rightarrow> (True, fixup_loop env dev names w))"

section \<open>Switching on and off\<close>

fun enable_loop ::
  "'w iio_env \<Rightarrow> GUdevDevice \<Rightarrow> string \<Rightarrow> bool \<Rightarrow> string list \<Rightarrow> bool \<Rightarrow> 'w \<Rightarrow> bool \<times> 'w" where
  "enable_loop env dev dir enable [] ret w = (ret, w)"
| "enable_loop env dev dir enable (name # names) ret w =
     (if \<not> has_suffix name ''_en'' then enable_loop env dev dir enable names ret w
      else if enable \<and> attr_bool env (sysfs_attr dev (''scan_elements/'' @ name))
        then enable_loop env dev dir enable names True w
      else (case write_sysfs_int env name dir (if enable then 1 else 0) w of
          (Ret_ok, w) \<Rightarrow> enable_loop env dev dir enable names True w
        | (_, w) \<Rightarrow> enable_loop env dev dir enable names ret w))"

definition enable_sensors :: "'w iio_env \<Rightarrow> GUdevDevice \<Rightarrow> bool \<Rightarrow> 'w \<Rightarrow> bool \<times> 'w" where
  "enable_sensors env dev enable w =
     (let dir = build_filename (sysfs_dir dev) ''scan_elements''
      in case ie_dir env dir w of None \<Rightarrow> (False, w)
         | Some names \<Rightarrow> enable_loop env dev dir enable names False w)"

definition enable_ring_buffer :: "'w iio_env \<Rightarrow> BufferDrvData \<Rightarrow> 'w \<Rightarrow> bool \<times> 'w" where
  "enable_ring_buffer env data w =
     (case write_sysfs_int env ''buffer/length'' (bd_dev_dir_name data) 128 w of
        (Ret_ok, w) \<Rightarrow>
          (case write_sysfs_int_and_verify env ''buffer/enable'' (bd_dev_dir_name data) 1 w of
             (Ret_ok, w) \<Rightarrow> (True, w) | (_, w) \<Rightarrow> (False, w))
      | (_, w) \<Rightarrow> (False, w))"

definition disable_ring_buffer :: "'w iio_env \<Rightarrow> BufferDrvData \<Rightarrow> 'w \<Rightarrow> 'w" where
  "disable_ring_buffer env data w = snd (write_sysfs_int env ''buffer/enable'' (bd_dev_dir_name data) 0 w)"

definition disable_trigger :: "'w iio_env \<Rightarrow> BufferDrvData \<Rightarrow> 'w \<Rightarrow> 'w" where
  "disable_trigger env data w = (if bd_trigger_name data \<noteq> None
     then snd (write_sysfs_string env ''trigger/current_trigger'' (bd_dev_dir_name data) ''NULL'' w) else w)"

definition enable_trigger :: "'w iio_env \<Rightarrow> BufferDrvData \<Rightarrow> string \<Rightarrow> 'w \<Rightarrow> bool \<times> 'w" where
  "enable_trigger env data trigger_name w =
     (let (ret, w) = write_sysfs_string_and_verify env ''trigger/current_trigger''
            (bd_dev_dir_name data) trigger_name w
      in (ret = Ret_ok, w))"

text \<open>A text that \<^verbatim>\<open>printf\<close> is given for \<^verbatim>\<open>%s\<close>.\<close>

definition percent_s :: "string option \<Rightarrow> string" where
  "percent_s s = (case s of None \<Rightarrow> ''(null)'' | Some t \<Rightarrow> t)"

definition get_trigger_name :: "'w iio_env \<Rightarrow> GUdevDevice \<Rightarrow> 'w \<Rightarrow> string option" where
  "get_trigger_name env device w =
     (let devices = ie_query env ''iio'' w;
          found = (\<lambda>name. \<exists>dev\<in>set devices. sysfs_attr dev ''name'' = Some name);
          by_dev = percent_s (sysfs_attr device ''name'') @ ''-dev'' @ percent_s (ie_number env device);
          by_trigger = percent_s (sysfs_attr device ''name'') @ ''-trigger''
      in if found by_dev then Some by_dev else if found by_trigger then Some by_trigger else None)"

section \<open>The life of a buffer\<close>

text \<open>An array without channels has no storage: it is the NULL pointer, like a failed one.\<close>

definition build_channels :: "'w iio_env \<Rightarrow> BufferDrvData \<Rightarrow> 'w \<Rightarrow> BufferDrvData outcome" where
  "build_channels env data w =
     (case build_channel_array env (bd_dev_dir_name data) w of
        Ok channels \<Rightarrow> if channels = [] then Err
          else (case size_from_channelarray channels of None \<Rightarrow> Undefined
            | Some (channels, bytes) \<Rightarrow> Ok (data\<lparr>bd_channels := channels, bd_scan_size := bytes\<rparr>))
      | Err \<Rightarrow> Err | Undefined \<Rightarrow> Undefined)"

definition buffer_drv_data_free :: "'w iio_env \<Rightarrow> BufferDrvData \<Rightarrow> 'w \<Rightarrow> 'w" where
  "buffer_drv_data_free env data w =
     (let w = disable_ring_buffer env data w;
          w = disable_trigger env data w;
          (_, w) = enable_sensors env (bd_device data) False w
      in w)"

definition buffer_drv_data_new :: "'w iio_env \<Rightarrow> GUdevDevice \<Rightarrow> 'w \<Rightarrow> BufferDrvData outcome \<times> 'w" where
  "buffer_drv_data_new env device w =
     (let data = \<lparr>bd_device = device, bd_trigger_name = get_trigger_name env device w,
                  bd_dev_dir_name = sysfs_dir device, bd_channels = [], bd_scan_size = 0\<rparr>;
          fail = (\<lambda>w. (Err, buffer_drv_data_free env data w));
          (ok, w) = iio_fixup_sampling_frequency env device w
      in if \<not> ok then fail w
         else (let (ok, w) = enable_sensors env device True w
           in if \<not> ok then fail w
              else (let (ok, w) = (case bd_trigger_name data of None \<Rightarrow> (True, w)
                      | Some t \<Rightarrow> enable_trigger env data t w)
                in if \<not> ok then fail w
                   else (let (ok, w) = enable_ring_buffer env data w
                     in if \<not> ok then fail w
                        else (case build_channels env data w of
                            Err \<Rightarrow> fail w | Undefined \<Rightarrow> (Undefined, w) | Ok data \<Rightarrow> (Ok data, w))))))"

definition is_buffer_usable :: "'w iio_env \<Rightarrow> string option \<Rightarrow> 'w \<Rightarrow> bool \<times> 'w" where
  "is_buffer_usable env path w = (case path of None \<Rightarrow> (False, w)
     | Some path \<Rightarrow>
       (let (fp, w) = os_open (ie_os env) path [O_RDONLY, O_NONBLOCK] w
        in if fp = - 1 then (False, w)
           else (let (ready, w) = ie_poll_in env fp 500 w in (ready, os_close (ie_os env) fp w))))"

definition iio_sensor_data_new :: "nat \<Rightarrow> IIOSensorData option" where
  "iio_sensor_data_new n = (if n = 0 then None else Some \<lparr>read_size = 0, sensor_bytes = replicate n 0\<rparr>)"

end
