(* ===== verification/Iio_Buffer_Facts.thy ===== *)
theory Iio_Buffer_Facts
  imports Iio_Buffer Iio_Channels_Facts
begin

text \<open>
  What the buffer code guarantees: the sampling frequency is rounded to a supported one, upwards
  where possible; freeing a buffer switches the ring buffer and every channel off, in the order the
  kernel insists on; a buffer that was set up has them on, except for channels udev remembers as on.
\<close>

section \<open>Rounding the sampling frequency\<close>

text \<open>The numbers of the list, up to the first text that is none.\<close>

function availables :: "'w iio_env \<Rightarrow> string \<Rightarrow> f64 list" where
  "availables env s = (if s = [] then []
     else (let (available, used) = ie_strtod env s; rest = drop used s
       in if used = 0 \<or> (rest \<noteq> [] \<and> \<not> is_space (hd rest)) then []
          else available # availables env rest))"
  by pat_completeness auto

termination
  by (relation "measure (\<lambda>(env, s). length s)") auto

declare availables.simps [simp del]

lemma fp_between_finite:
  fixes a :: "('e::len, 'f::len) fp"
  assumes "ffinite d" "ffinite h"
  shows "d \<le> a \<Longrightarrow> a < h \<Longrightarrow> ffinite a" "h < a \<Longrightarrow> \<not> d \<le> a \<Longrightarrow> ffinite a"
  using assms by (cases a; cases d; cases h; auto simp: less_eq_fp_def less_fp_def)+

definition loop_spec :: "f64 \<Rightarrow> f64 list \<Rightarrow> f64 \<Rightarrow> f64 \<Rightarrow> f64 \<Rightarrow> f64 \<Rightarrow> bool" where
  "loop_spec d as hi lo h l \<longleftrightarrow> ffinite h \<and> ffinite l \<and> h \<le> hi \<and> lo \<le> l \<and>
     (h = hi \<or> h \<in> set as \<and> d \<le> h \<and> h < hi) \<and> (\<forall>a\<in>set as. \<not> feq a 0 \<longrightarrow> d \<le> a \<longrightarrow> \<not> a < h) \<and>
     (l = lo \<or> l \<in> set as \<and> \<not> d \<le> l \<and> lo < l) \<and> (\<forall>a\<in>set as. \<not> feq a 0 \<longrightarrow> \<not> d \<le> a \<longrightarrow> \<not> l < a)"

lemma loop_specD:
  assumes "loop_spec d as hi lo h l"
  shows "ffinite h" "ffinite l" "h \<le> hi" "lo \<le> l" "h = hi \<or> h \<in> set as \<and> d \<le> h \<and> h < hi"
    "l = lo \<or> l \<in> set as \<and> \<not> d \<le> l \<and> lo < l"
    "a \<in> set as \<Longrightarrow> \<not> feq a 0 \<Longrightarrow> d \<le> a \<Longrightarrow> \<not> a < h"
    "a \<in> set as \<Longrightarrow> \<not> feq a 0 \<Longrightarrow> \<not> d \<le> a \<Longrightarrow> \<not> l < a"
  using assms by (simp_all add: loop_spec_def)

lemma loop_spec_skip:
  "loop_spec d as hi lo h l \<Longrightarrow> feq a 0 \<Longrightarrow> loop_spec d (a # as) hi lo h l"
  by (auto simp: loop_spec_def)

lemma loop_spec_higher:
  assumes "ffinite d" "ffinite hi" "d \<le> a" "loop_spec d as (if a < hi then a else hi) lo h l"
  shows "loop_spec d (a # as) hi lo h l"
proof (cases "a < hi")
  case True
  then have "ffinite a" using fp_between_finite(1) assms by blast
  then show ?thesis using assms True by (auto simp: loop_spec_def)
next
  case False
  then have "\<not> a < h" if "h \<le> hi" "ffinite h"
    using that assms(2,3) by (cases a; cases h; cases hi) (auto simp: less_eq_fp_def less_fp_def)
  then show ?thesis using assms False by (auto simp: loop_spec_def)
qed

lemma loop_spec_lower:
  assumes "ffinite d" "ffinite lo" "\<not> d \<le> a" "loop_spec d as hi (if lo < a then a else lo) h l"
  shows "loop_spec d (a # as) hi lo h l"
proof (cases "lo < a")
  case True
  then have "ffinite a" using fp_between_finite(2) assms by blast
  then show ?thesis using assms True by (auto simp: loop_spec_def)
next
  case False
  then have "\<not> l < a" if "lo \<le> l" "ffinite l"
    using that assms(2,3) by (cases a; cases l; cases lo) (auto simp: less_eq_fp_def less_fp_def)
  then show ?thesis using assms False by (auto simp: loop_spec_def)
qed

text \<open>The loop is a fold over the list of numbers.\<close>

definition closest :: "f64 \<Rightarrow> f64 \<times> f64 \<Rightarrow> f64 \<Rightarrow> f64 \<times> f64" where
  "closest d p a = (case p of (hi, lo) \<Rightarrow> if feq a 0 then (hi, lo)
     else if d \<le> a then (if a < hi then a else hi, lo) else (hi, if lo < a then a else lo))"

lemma available_loop_fold: "available_loop env d s hi lo = foldl (closest d) (hi, lo) (availables env s)"
proof (induction s arbitrary: hi lo rule: length_induct)
  case (1 s)
  obtain a used where a: "ie_strtod env s = (a, used)" by fastforce
  show ?case
  proof (cases "s = [] \<or> used = 0 \<or> (drop used s \<noteq> [] \<and> \<not> is_space (hd (drop used s)))")
    case True
    then show ?thesis
      using a by (subst available_loop.simps, subst availables.simps) (auto simp: Let_def)
  next
    case False
    then have av: "availables env s = a # availables env (drop used s)"
      using a by (subst availables.simps) (simp add: Let_def)
    have "length (drop used s) < length s" using False by simp
    then have "available_loop env d (drop used s) hi lo = foldl (closest d) (hi, lo) (availables env (drop used s))"
      for hi lo using 1 by blast
    then show ?thesis
      using a False by (subst available_loop.simps) (auto simp: Let_def av closest_def)
  qed
qed

lemma closest_spec:
  assumes "ffinite d" "ffinite hi" "ffinite lo" "foldl (closest d) (hi, lo) as = (h, l)"
  shows "loop_spec d as hi lo h l"
  using assms
proof (induction as arbitrary: hi lo)
  case Nil
  then show ?case by (simp add: loop_spec_def)
next
  case (Cons a as)
  consider "feq a 0" | "\<not> feq a 0" "d \<le> a" | "\<not> feq a 0" "\<not> d \<le> a" by blast
  then show ?case
  proof cases
    case 1
    then show ?thesis using Cons by (auto simp: closest_def intro: loop_spec_skip)
  next
    case 2
    have "ffinite (if a < hi then a else hi)" using fp_between_finite(1) 2 Cons.prems(1,2) by auto
    from Cons.IH [OF Cons.prems(1) this Cons.prems(3)] show ?thesis
      using 2 Cons.prems by (auto simp: closest_def intro!: loop_spec_higher)
  next
    case 3
    have "ffinite (if lo < a then a else lo)" using fp_between_finite(2) 3 Cons.prems(1,3) by auto
    from Cons.IH [OF Cons.prems(1,2) this] show ?thesis
      using 3 Cons.prems by (auto simp: closest_def intro!: loop_spec_lower)
  qed
qed

text \<open>The sampling frequency chosen. If a supported value is at least the desired one, the smallest
  such value is taken; otherwise the largest supported value below it; with no usable value (or no
  list at all) the desired frequency itself. Zeros, negative numbers, infinities and NaN in the list
  are never chosen.\<close>

theorem round_sampling_frequency_spec:
  assumes "sysfs_attr dev (name @ ''_available'') = Some txt" "ffinite d" "0 < d"
    "r = iio_round_sampling_frequency env dev name d" "A = set (availables env txt)"
  shows "if \<exists>a\<in>A. d \<le> a \<and> a < DBL_MAX
     then r \<in> A \<and> d \<le> r \<and> r < DBL_MAX \<and> (\<forall>a\<in>A. d \<le> a \<longrightarrow> \<not> a < r)
     else if \<exists>a\<in>A. 0 < a \<and> a < d then r \<in> A \<and> 0 < r \<and> r < d \<and> (\<forall>a\<in>A. a < d \<longrightarrow> \<not> r < a)
     else r = d"
proof -
  obtain h l where hl: "available_loop env d txt DBL_MAX 0 = (h, l)" by fastforce
  have fin: "ffinite DBL_MAX" "ffinite (0 :: f64)" by (simp_all add: DBL_MAX_def)
  have "loop_spec d (availables env txt) DBL_MAX 0 h l"
    using closest_spec [OF assms(2) fin] hl by (simp add: available_loop_fold)
  note sp = loop_specD [OF this, folded assms(5)]
  have r: "r = (if \<not> feq h DBL_MAX then h else if \<not> feq l 0 then l else d)"
    using assms(1,4) hl by (simp add: iio_round_sampling_frequency_def)
  have nz: "\<not> feq a 0" if "d \<le> a" for a
    using that assms(2,3) by (cases a; cases d) (auto simp: feq_def less_eq_fp_def less_fp_def)
  have nle: "\<not> d \<le> a" "\<not> feq a 0" if "a < d" "0 < a" for a
    using that assms(2) by (cases a; cases d; auto simp: less_eq_fp_def less_fp_def feq_def)+
  have top: "feq h DBL_MAX \<longleftrightarrow> \<not> h < DBL_MAX" and bot: "feq l 0 \<longleftrightarrow> \<not> 0 < l"
    using sp(1-4) fin by auto
  show ?thesis
  proof (cases "\<exists>a\<in>A. d \<le> a \<and> a < DBL_MAX")
    case True
    then obtain a where a: "a \<in> A" "d \<le> a" "a < DBL_MAX" by blast
    then have "\<not> a < h" using sp(7) nz by blast
    then have lt: "h \<in> A" "d \<le> h" "h < DBL_MAX" using sp(5) a(3) by blast+
    moreover have "\<forall>a\<in>A. d \<le> a \<longrightarrow> \<not> a < h" using sp(7) nz by blast
    moreover have "r = h" using lt(3) top r by presburger
    ultimately show ?thesis using True by presburger
  next
    case none: False
    then have "h = DBL_MAX" using sp(5) by blast
    then have h: "feq h DBL_MAX" using fin(1) by simp
    show ?thesis
    proof (cases "\<exists>a\<in>A. 0 < a \<and> a < d")
      case True
      then obtain a where a: "a \<in> A" "0 < a" "a < d" by blast
      then have "\<not> l < a" using sp(8) nle by blast
      then have l: "l \<in> A" "0 < l" "\<not> d \<le> l" using sp(6) a(2) by blast+
      then have "l < d" using sp(2) assms(2) by simp
      have "\<not> l < b" if "b \<in> A" "b < d" for b
      proof
        assume "l < b"
        then have "0 < b" using l(2) sp(2) by (cases b; cases l) (auto simp: less_fp_def)
        then show False using sp(8) [OF that(1)] nle [OF that(2)] \<open>l < b\<close> by blast
      qed
      then have "\<forall>b\<in>A. b < d \<longrightarrow> \<not> l < b" by blast
      moreover have "r = l" using l(2) h bot r by presburger
      ultimately show ?thesis using True none l \<open>l < d\<close> by presburger
    next
      case False
      have "\<not> 0 < l"
      proof
        assume "0 < l"
        then have "l \<in> A" "\<not> d \<le> l" using sp(6) by auto
        then show False using False \<open>0 < l\<close> sp(2) assms(2) by force
      qed
      then show ?thesis using none False h bot r by presburger
    qed
  qed
qed

section \<open>What writing an attribute does\<close>

text \<open>The text an attribute shows, up to the line end.\<close>

definition holds :: "'w iio_env \<Rightarrow> string \<Rightarrow> string \<Rightarrow> 'w \<Rightarrow> bool" where
  "holds env p v w \<longleftrightarrow> (\<exists>t. ie_fopen env p w = Some t \<and> g_strchomp t = g_strchomp v)"

text \<open>The switches of a buffer: of the buffer itself and of its channels.\<close>

definition channel_paths :: "string \<Rightarrow> string list \<Rightarrow> string set" where
  "channel_paths dir names = (\<lambda>n. build_filename (build_filename dir ''scan_elements'') n) ` {n \<in> set names. has_suffix n ''_en''}"

definition buffer_path :: "string \<Rightarrow> string" where
  "buffer_path dir = build_filename dir ''buffer/enable''"

definition enables :: "string \<Rightarrow> string list \<Rightarrow> string set" where
  "enables dir names = insert (buffer_path dir) (channel_paths dir names)"

text \<open>
  What the kernel documents of them. Writing one attribute, whichever it is, leaves the switches
  other than itself alone. A buffer can always be stopped: 0 written to its switch is taken and shown.
  While it stands still, 0 and 1 written to the switch of a channel are taken and shown; of writes while it runs
  (the kernel answers \<^verbatim>\<open>EBUSY\<close>) and of values written to other attributes nothing is said.
\<close>

definition attr_laws :: "'w iio_env \<Rightarrow> string \<Rightarrow> string list \<Rightarrow> bool" where
  "attr_laws env dir names \<longleftrightarrow> (\<forall>p s w. \<forall>q\<in>enables dir names.
     q \<noteq> p \<longrightarrow> ie_fopen env q (snd (ie_write env p s w)) = ie_fopen env q w)"

definition buffer_laws :: "'w iio_env \<Rightarrow> string \<Rightarrow> string list \<Rightarrow> bool" where
  "buffer_laws env dir names \<longleftrightarrow> attr_laws env dir names \<and>
     (\<forall>w. fst (ie_write env (buffer_path dir) ''0'' w) = Printed \<and>
        holds env (buffer_path dir) ''0'' (snd (ie_write env (buffer_path dir) ''0'' w))) \<and>
     (\<forall>w. ie_dir env (build_filename dir ''scan_elements'') w = Some names) \<and>
     (\<forall>p v w. p \<in> channel_paths dir names \<longrightarrow> v \<in> {''0'', ''1''} \<longrightarrow> \<not> holds env (buffer_path dir) ''1'' w \<longrightarrow>
        fst (ie_write env p v w) = Printed \<and> holds env p v (snd (ie_write env p v w)))"

text \<open>A change of the switches confined to a set of attributes.\<close>

definition touches :: "'w iio_env \<Rightarrow> string set \<Rightarrow> string set \<Rightarrow> 'w \<Rightarrow> 'w \<Rightarrow> bool" where
  "touches env E P w w' \<longleftrightarrow> (\<forall>q\<in>E. q \<notin> P \<longrightarrow> ie_fopen env q w' = ie_fopen env q w)"

lemma touches_refl [simp]: "touches env E P w w"
  by (simp add: touches_def)

lemma touches_trans: "touches env E P w w' \<Longrightarrow> touches env E Q w' w'' \<Longrightarrow> touches env E (P \<union> Q) w w''"
  by (simp add: touches_def)

lemma touches_mono: "touches env E P w w' \<Longrightarrow> P \<subseteq> Q \<Longrightarrow> touches env E Q w w'"
  by (auto simp: touches_def)

lemma touches_holds: "touches env E P w w' \<Longrightarrow> p \<in> E \<Longrightarrow> p \<notin> P \<Longrightarrow> holds env p v w' = holds env p v w"
  by (simp add: touches_def holds_def)

lemma enablesI: "buffer_path dir \<in> enables dir names" "p \<in> channel_paths dir names \<Longrightarrow> p \<in> enables dir names"
  by (simp_all add: enables_def)

lemma write_touches:
  assumes "attr_laws env dir names" "ie_write env p s w = (r, w')"
  shows "touches env (enables dir names) {p} w w'"
  unfolding touches_def
proof (intro ballI impI)
  fix q
  assume "q \<in> enables dir names" "q \<notin> {p}"
  then have "ie_fopen env q (snd (ie_write env p s w)) = ie_fopen env q w"
    using assms(1) unfolding attr_laws_def by blast
  then show "ie_fopen env q w' = ie_fopen env q w" using assms(2) by simp
qed

lemma build_filename_inject [simp]: "build_filename d a = build_filename d b \<longleftrightarrow> a = b"
  by (simp add: build_filename_def)

lemma write_int_touches:
  assumes "attr_laws env dir names"
  shows "touches env (enables dir names) {build_filename d f} w (snd (sysfs_int_write env f d v vf ty v2 w))"
  using write_touches [OF assms]
  by (force simp: sysfs_int_write_def Let_def split: prod.splits write_result.splits option.splits if_splits)

lemma write_string_touches:
  assumes "attr_laws env dir names"
  shows "touches env (enables dir names) {build_filename d f} w (snd (sysfs_string_write env f d v vf w))"
  using write_touches [OF assms]
  by (force simp: sysfs_string_write_def Let_def split: prod.splits write_result.splits sum.splits if_splits)

section \<open>Switching the channels off\<close>

lemma show_bool_digit: "show_int 0 = ''0''" "show_int 1 = ''1''"
  by code_simp+

lemma channel_path_neq:
  "p \<in> channel_paths dir names \<Longrightarrow> p \<noteq> buffer_path dir"
  "p \<in> channel_paths dir names \<Longrightarrow> p \<noteq> build_filename dir ''trigger/current_trigger''"
  "p \<in> channel_paths dir names \<Longrightarrow> p \<noteq> build_filename dir ''buffer/length''"
  "has_suffix n ''sampling_frequency'' \<Longrightarrow> build_filename dir n \<notin> channel_paths dir names"
  by (auto simp: channel_paths_def buffer_path_def build_filename_def has_suffix_iff)

lemma buffer_lawsD:
  assumes "buffer_laws env dir names"
  shows "attr_laws env dir names" "ie_dir env (build_filename dir ''scan_elements'') w = Some names"
    "ie_write env (buffer_path dir) ''0'' w = (r, w') \<Longrightarrow> r = Printed \<and> holds env (buffer_path dir) ''0'' w'"
    "p \<in> channel_paths dir names \<Longrightarrow> v \<in> {''0'', ''1''} \<Longrightarrow> \<not> holds env (buffer_path dir) ''1'' w \<Longrightarrow>
       ie_write env p v w = (r, w') \<Longrightarrow> r = Printed \<and> holds env p v w'"
proof -
  show "attr_laws env dir names" "ie_dir env (build_filename dir ''scan_elements'') w = Some names"
    using assms unfolding buffer_laws_def by blast+
  have b: "fst (ie_write env (buffer_path dir) ''0'' w) = Printed \<and>
    holds env (buffer_path dir) ''0'' (snd (ie_write env (buffer_path dir) ''0'' w))"
    using assms unfolding buffer_laws_def by blast
  show "r = Printed \<and> holds env (buffer_path dir) ''0'' w'" if "ie_write env (buffer_path dir) ''0'' w = (r, w')"
    using b that by simp
  show "r = Printed \<and> holds env p v w'" if "p \<in> channel_paths dir names" "v \<in> {''0'', ''1''}"
    "\<not> holds env (buffer_path dir) ''1'' w" "ie_write env p v w = (r, w')"
  proof -
    have "fst (ie_write env p v w) = Printed \<and> holds env p v (snd (ie_write env p v w))"
      using assms that(1-3) unfolding buffer_laws_def by blast
    then show ?thesis using that(4) by simp
  qed
qed

lemma disable_ring_buffer_off:
  assumes "buffer_laws env (bd_dev_dir_name data) names"
  shows "holds env (buffer_path (bd_dev_dir_name data)) ''0'' (disable_ring_buffer env data w)"
    "touches env (enables (bd_dev_dir_name data) names) {buffer_path (bd_dev_dir_name data)} w (disable_ring_buffer env data w)"
proof -
  let ?p = "buffer_path (bd_dev_dir_name data)"
  obtain r w' where e: "ie_write env ?p ''0'' w = (r, w')" by fastforce
  note r = buffer_lawsD(3) [OF assms e]
  have "disable_ring_buffer env data w = w'"
    using e r by (simp add: disable_ring_buffer_def write_sysfs_int_def sysfs_int_write_def show_bool_digit
        buffer_path_def)
  then show "holds env ?p ''0'' (disable_ring_buffer env data w)"
    "touches env (enables (bd_dev_dir_name data) names) {?p} w (disable_ring_buffer env data w)"
    using write_touches [OF buffer_lawsD(1) [OF assms] e] r by simp_all
qed

text \<open>Switching channels one after the other while the buffer stands still: those already passed keep
  the value written.\<close>

lemma switch_channels:
  assumes "buffer_laws env dir names" "set ns \<subseteq> set names" "\<not> holds env (buffer_path dir) ''1'' w"
    "sd = build_filename dir ''scan_elements''" "enable_loop env dev sd b ns ret w = (r, w')"
  shows "touches env (enables dir names) (channel_paths dir [n\<leftarrow>ns. \<not> (b \<and> attr_bool env (sysfs_attr dev (''scan_elements/'' @ n)))]) w w' \<and>
    (\<forall>n\<in>set ns. has_suffix n ''_en'' \<longrightarrow> \<not> (b \<and> attr_bool env (sysfs_attr dev (''scan_elements/'' @ n))) \<longrightarrow>
       holds env (build_filename sd n) (if b then ''1'' else ''0'') w')"
  using assms(2,3,5)
proof (induction ns arbitrary: ret w)
  case (Cons n ns)
  let ?v = "if b then ''1'' else ''0''" and ?p = "build_filename sd n"
  let ?cached = "b \<and> attr_bool env (sysfs_attr dev (''scan_elements/'' @ n))"
  let ?keep = "\<lambda>n. \<not> (b \<and> attr_bool env (sysfs_attr dev (''scan_elements/'' @ n)))"
  have sub: "set ns \<subseteq> set names" using Cons.prems(1) by simp
  show ?case
  proof (cases "has_suffix n ''_en'' \<and> \<not> ?cached")
    case False
    then obtain ret' where "enable_loop env dev sd b ns ret' w = (r, w')"
      using Cons.prems(3) by (cases "has_suffix n ''_en''") auto
    from Cons.IH [OF sub Cons.prems(2) this] show ?thesis
      using False by (auto intro: touches_mono simp: channel_paths_def)
  next
    case True
    obtain r1 w1 where e: "ie_write env ?p ?v w = (r1, w1)" by fastforce
    have p: "?p \<in> channel_paths dir names" using True Cons.prems(1) assms(4) by (auto simp: channel_paths_def)
    have r1: "r1 = Printed" "holds env ?p ?v w1" using buffer_lawsD(4) [OF assms(1) p _ Cons.prems(2) e] by simp_all
    note t = write_touches [OF buffer_lawsD(1) [OF assms(1)] e]
    have nb: "\<not> holds env (buffer_path dir) ''1'' w1"
      using touches_holds [OF t enablesI(1)] channel_path_neq(1) [OF p] Cons.prems(2) by auto
    have "write_sysfs_int env n sd (if b then 1 else 0) w = (Ret_ok, w1)"
      using e r1(1) by (simp add: write_sysfs_int_def sysfs_int_write_def show_bool_digit split: if_splits)
    then have "enable_loop env dev sd b ns True w1 = (r, w')" using Cons.prems(3) True by auto
    note ih = Cons.IH [OF sub nb this]
    have "touches env (enables dir names) ({?p} \<union> channel_paths dir (filter ?keep ns)) w w'"
      using touches_trans [OF t] ih by blast
    then have "touches env (enables dir names) (channel_paths dir (filter ?keep (n # ns))) w w'"
      by (rule touches_mono) (use True assms(4) in \<open>auto simp: channel_paths_def\<close>)
    moreover have "holds env ?p ?v w'"
    proof (cases "n \<in> set ns")
      case True2: True
      then show ?thesis using ih True by blast
    next
      case False
      then have "?p \<notin> channel_paths dir (filter ?keep ns)" using assms(4) by (auto simp: channel_paths_def)
      then show ?thesis using touches_holds [OF ih [THEN conjunct1] enablesI(2) [OF p]] r1(2) by simp
    qed
    ultimately show ?thesis using ih by auto
  qed
qed simp

lemma holds_unique: "holds env p ''0'' w \<Longrightarrow> \<not> holds env p ''1'' w"
  by (auto simp: holds_def g_strchomp_def is_space_def)

lemma disable_trigger_touches:
  "attr_laws env dir names \<Longrightarrow> touches env (enables dir names) {build_filename (bd_dev_dir_name data) ''trigger/current_trigger''} w (disable_trigger env data w)"
  by (simp add: disable_trigger_def write_sysfs_string_def write_string_touches)

lemma free_all_off:
  assumes "buffer_laws env (sysfs_dir (bd_device data)) names" "bd_dev_dir_name data = sysfs_dir (bd_device data)"
    "w' = buffer_drv_data_free env data w"
  shows "holds env (buffer_path (sysfs_dir (bd_device data))) ''0'' w'"
    "p \<in> channel_paths (sysfs_dir (bd_device data)) names \<Longrightarrow> holds env p ''0'' w'"
proof -
  let ?dir = "sysfs_dir (bd_device data)"
  define w1 where "w1 = disable_ring_buffer env data w"
  define w2 where "w2 = disable_trigger env data w1"
  obtain r where l: "enable_loop env (bd_device data) (build_filename ?dir ''scan_elements'') False names False w2 = (r, w')"
    using assms(3) buffer_lawsD(2) [OF assms(1)]
    by (simp add: buffer_drv_data_free_def enable_sensors_def Let_def w1_def w2_def split: prod.splits)
  have "holds env (buffer_path ?dir) ''0'' w1"
    using disable_ring_buffer_off(1) [of env data names w] assms(1,2) by (simp add: w1_def)
  then have b: "holds env (buffer_path ?dir) ''0'' w2"
    using touches_holds [OF disable_trigger_touches [OF buffer_lawsD(1) [OF assms(1)], of data w1] enablesI(1)] assms(2)
    by (simp add: w2_def buffer_path_def)
  then have "\<not> holds env (buffer_path ?dir) ''1'' w2" by (rule holds_unique)
  note s = switch_channels [OF assms(1) subset_refl this refl l]
  show "holds env (buffer_path ?dir) ''0'' w'"
    using touches_holds [OF s [THEN conjunct1] enablesI(1)] b channel_path_neq(1) [of _ ?dir] by blast
  show "holds env p ''0'' w'" if "p \<in> channel_paths ?dir names"
    using s that by (auto simp: channel_paths_def)
qed

text \<open>How a set-up ends: it failed somewhere and everything was freed, or all its steps succeeded.\<close>

lemma buffer_new_cases:
  assumes "buffer_drv_data_new env device w = (res, w')"
    "data = \<lparr>bd_device = device, bd_trigger_name = get_trigger_name env device w,
       bd_dev_dir_name = sysfs_dir device, bd_channels = [], bd_scan_size = 0\<rparr>"
  obtains (failed) wx where "res = Err" "w' = buffer_drv_data_free env data wx"
  | (set_up) w1 w2 w3 where "iio_fixup_sampling_frequency env device w = (True, w1)"
    "enable_sensors env device True w1 = (True, w2)"
    "(case bd_trigger_name data of None \<Rightarrow> (True, w2) | Some t \<Rightarrow> enable_trigger env data t w2) = (True, w3)"
    "enable_ring_buffer env data w3 = (True, w')" "build_channels env data w' = res" "res \<noteq> Err"
  using assms(1) unfolding buffer_drv_data_new_def Let_def assms(2) [symmetric]
  by (auto split: prod.splits if_splits outcome.splits simp del: split_paired_All)
    (metis outcome.distinct(1))

lemma fixup_touches:
  assumes "attr_laws env dir names" "iio_fixup_sampling_frequency env dev w = (b, w')"
  shows "touches env (enables dir names) {build_filename (sysfs_dir dev) n |n. has_suffix n ''sampling_frequency''} w w'"
proof -
  have "touches env (enables dir names) {build_filename (sysfs_dir dev) n |n. has_suffix n ''sampling_frequency''} w (fixup_loop env dev ns w)"
    for ns w
  proof (induction ns arbitrary: w)
    case (Cons n ns)
    show ?case
    proof (cases "has_suffix n ''sampling_frequency'' \<and> \<not> IIO_MIN_SAMPLING_FREQUENCY \<le> attr_as_double (strtod_val env) dev n")
      case True
      let ?v = "ie_dtostr env (iio_round_sampling_frequency env dev n IIO_MIN_SAMPLING_FREQUENCY)"
      let ?w = "snd (write_sysfs_string env n (sysfs_dir dev) ?v w)"
      have "touches env (enables dir names) {build_filename (sysfs_dir dev) n} w ?w"
        unfolding write_sysfs_string_def by (rule write_string_touches [OF assms(1)])
      note t = touches_trans [OF this Cons.IH]
      have e: "fixup_loop env dev (n # ns) w = fixup_loop env dev ns ?w"
        using True by (simp add: split_beta Let_def)
      show ?thesis unfolding e by (rule touches_mono [OF t]) (use True in auto)
    next
      case False
      then show ?thesis using Cons.IH by auto
    qed
  qed simp
  then show ?thesis using assms(2) by (auto simp: iio_fixup_sampling_frequency_def split: option.splits)
qed

lemma enable_ring_buffer_on:
  assumes "attr_laws env dir names" "enable_ring_buffer env data w = (True, w')"
  shows "touches env (enables dir names) {build_filename (bd_dev_dir_name data) ''buffer/length'', buffer_path (bd_dev_dir_name data)} w w'"
    "\<exists>t rest. ie_fopen env (buffer_path (bd_dev_dir_name data)) w' = Some t \<and> scan_d t = Some (1, rest)"
proof -
  let ?d = "bd_dev_dir_name data"
  obtain w1 where w1: "write_sysfs_int env ''buffer/length'' ?d 128 w = (Ret_ok, w1)"
    and w2: "write_sysfs_int_and_verify env ''buffer/enable'' ?d 1 w1 = (Ret_ok, w')"
    using assms(2) by (auto simp: enable_ring_buffer_def split: prod.splits sysfs_ret.splits)
  have t: "touches env (enables dir names) {build_filename ?d ''buffer/length''} w w1"
    "touches env (enables dir names) {buffer_path ?d} w1 w'"
    using write_int_touches [OF assms(1), of ?d "''buffer/length''" w 128 False False 0] w1
      write_int_touches [OF assms(1), of ?d "''buffer/enable''" w1 1 True False 0] w2
    by (simp_all add: write_sysfs_int_def write_sysfs_int_and_verify_def buffer_path_def)
  then show "touches env (enables dir names) {build_filename ?d ''buffer/length'', buffer_path ?d} w w'"
    using touches_trans [OF t] by (simp add: insert_commute)
  show "\<exists>t rest. ie_fopen env (buffer_path ?d) w' = Some t \<and> scan_d t = Some (1, rest)"
    using w2 by (auto simp: write_sysfs_int_and_verify_def sysfs_int_write_def buffer_path_def Let_def
        split: prod.splits write_result.splits option.splits if_splits)
qed

text \<open>What the steps after the channels were switched may still write.\<close>

lemma later_steps_touch:
  assumes "attr_laws env dir names" "bd_dev_dir_name data = dir"
    "(case bd_trigger_name data of None \<Rightarrow> (True, w2) | Some t \<Rightarrow> enable_trigger env data t w2) = (True, w3)"
    "enable_ring_buffer env data w3 = (True, w')" "p \<in> channel_paths dir names"
  shows "holds env p v w' = holds env p v w2"
proof -
  have "touches env (enables dir names) {build_filename dir ''trigger/current_trigger''} w2 w3"
    using assms(2,3) write_string_touches [OF assms(1), of dir "''trigger/current_trigger''" w2 _ True]
    by (auto simp: enable_trigger_def write_sysfs_string_and_verify_def split: option.splits prod.splits)
      (metis snd_conv)
  then have "holds env p v w3 = holds env p v w2"
    by (rule touches_holds [OF _ enablesI(2) [OF assms(5)]]) (use channel_path_neq(2) [OF assms(5)] in blast)
  moreover have "holds env p v w' = holds env p v w3"
    by (rule touches_holds [OF enable_ring_buffer_on(1) [OF assms(1,4)] enablesI(2) [OF assms(5)]])
      (use channel_path_neq(1,3) [OF assms(5)] assms(2) in auto)
  ultimately show ?thesis by simp
qed

lemma enable_sensors_loop:
  assumes "buffer_laws env (sysfs_dir dev) names" "enable_sensors env dev b w = (r, w')"
  shows "enable_loop env dev (build_filename (sysfs_dir dev) ''scan_elements'') b names False w = (r, w')"
  using assms buffer_lawsD(2) [OF assms(1)] by (simp add: enable_sensors_def Let_def)

lemma buffer_path_not_fixed:
  "buffer_path dir \<notin> {build_filename dir n |n. has_suffix n ''sampling_frequency''}"
  by (auto simp: buffer_path_def has_suffix_iff)

lemma channel_path_not_fixed:
  "p \<in> channel_paths dir names \<Longrightarrow> p \<notin> {build_filename dir n |n. has_suffix n ''sampling_frequency''}"
  using channel_path_neq(4) by auto

text \<open>C21: setting a buffer up and freeing it again, for any entry \<open>n\<close> of its directory of channels. A set-up that
  fails leaves the ring buffer stopped and the channel off. One that succeeds, starting from a stopped
  buffer, leaves the buffer running (read back from the kernel) and switches the channel on, unless the udev
  device remembers it as on: then the channel is left as it was, on or off. Freeing a buffer, in
  whatever world, stops it and switches the channel off. The kernel refuses to switch channels of a running
  buffer, so this rests on the order of the steps.\<close>

theorem buffer_life_cycle:
  assumes "buffer_laws env (sysfs_dir dev) names" "\<not> holds env (buffer_path (sysfs_dir dev)) ''1'' w"
    "buffer_drv_data_new env dev w = (res, w')" "n \<in> set names" "has_suffix n ''_en''"
    "p = build_filename (build_filename (sysfs_dir dev) ''scan_elements'') n"
  shows "case res of
      Err \<Rightarrow> holds env (buffer_path (sysfs_dir dev)) ''0'' w' \<and> holds env p ''0'' w'
    | Undefined \<Rightarrow> True
    | Ok data \<Rightarrow> (\<exists>t rest. ie_fopen env (buffer_path (sysfs_dir dev)) w' = Some t \<and> scan_d t = Some (1, rest)) \<and>
        (if attr_bool env (sysfs_attr dev (''scan_elements/'' @ n)) then \<forall>v. holds env p v w' = holds env p v w
         else holds env p ''1'' w') \<and>
        (\<forall>wx. holds env (buffer_path (sysfs_dir dev)) ''0'' (buffer_drv_data_free env data wx) \<and>
           holds env p ''0'' (buffer_drv_data_free env data wx))"
proof -
  let ?remembered = "attr_bool env (sysfs_attr dev (''scan_elements/'' @ n))"
  define data0 where "data0 = \<lparr>bd_device = dev, bd_trigger_name = get_trigger_name env dev w,
       bd_dev_dir_name = sysfs_dir dev, bd_channels = [], bd_scan_size = 0\<rparr>"
  have d0: "bd_device data0 = dev" "bd_dev_dir_name data0 = sysfs_dir dev" by (simp_all add: data0_def)
  note at = buffer_lawsD(1) [OF assms(1)]
  have p: "p \<in> channel_paths (sysfs_dir dev) names" using assms(4-6) by (auto simp: channel_paths_def)
  show ?thesis
    using assms(3) data0_def
  proof (cases rule: buffer_new_cases)
    case (failed wx)
    then show ?thesis using free_all_off [of env data0 names w' wx] assms(1) p d0 by simp
  next
    case (set_up w1 w2 w3)
    have "\<not> holds env (buffer_path (sysfs_dir dev)) ''1'' w1"
      using touches_holds [OF fixup_touches [OF at set_up(1)] enablesI(1)] buffer_path_not_fixed assms(2) by blast
    note sw = switch_channels [OF assms(1) subset_refl this refl enable_sensors_loop [OF assms(1) set_up(2)]]
    have on: "holds env p ''1'' w2" if "\<not> ?remembered" using sw that assms(4-6) by auto
    have kept: "holds env p v w2 = holds env p v w" if ?remembered for v
    proof -
      have "p \<notin> channel_paths (sysfs_dir dev) [n\<leftarrow>names. \<not> (True \<and> attr_bool env (sysfs_attr dev (''scan_elements/'' @ n)))]"
        using that assms(6) by (auto simp: channel_paths_def)
      then show ?thesis
        using touches_holds [OF sw [THEN conjunct1] enablesI(2) [OF p]]
          touches_holds [OF fixup_touches [OF at set_up(1)] enablesI(2) [OF p] channel_path_not_fixed [OF p]] by blast
    qed
    have ring: "\<exists>t rest. ie_fopen env (buffer_path (sysfs_dir dev)) w' = Some t \<and> scan_d t = Some (1, rest)"
      using enable_ring_buffer_on(2) [OF at set_up(4)] d0 by simp
    have later: "holds env p v w' = holds env p v w2" for v
      by (rule later_steps_touch [OF at d0(2) set_up(3,4) p])
    show ?thesis
    proof (cases res)
      case (Ok data)
      then have "bd_device data = dev" "bd_dev_dir_name data = sysfs_dir dev"
        using set_up(5) d0 by (auto simp: build_channels_def split: outcome.splits if_splits option.splits)
      then have "holds env (buffer_path (sysfs_dir dev)) ''0'' (buffer_drv_data_free env data wx) \<and>
         holds env p ''0'' (buffer_drv_data_free env data wx)" for wx
        using free_all_off [of env data names _ wx] assms(1) p by simp
      then show ?thesis using Ok ring on kept later by simp
    qed (use set_up(6) in simp_all)
  qed
qed

text \<open>A channel that was on when udev first looked stays off after the first release. The udev device
  remembers the value; freeing the buffer (as discovery does) switches the channel off, and the next
  set-up with the same device object takes the remembered value for granted and never switches it on
  again, whether that set-up succeeds or not.\<close>

theorem reopened_channel_stays_off:
  assumes "buffer_laws env (sysfs_dir dev) names" "bd_device data = dev" "bd_dev_dir_name data = sysfs_dir dev"
    "n \<in> set names" "has_suffix n ''_en''" "attr_bool env (sysfs_attr dev (''scan_elements/'' @ n))"
    "buffer_drv_data_new env dev (buffer_drv_data_free env data w) = (res, w')"
  shows "holds env (build_filename (build_filename (sysfs_dir dev) ''scan_elements'') n) ''0'' w'"
proof -
  let ?dir = "sysfs_dir dev" and ?p = "build_filename (build_filename (sysfs_dir dev) ''scan_elements'') n"
  let ?w = "buffer_drv_data_free env data w"
  define data0 where "data0 = \<lparr>bd_device = dev, bd_trigger_name = get_trigger_name env dev ?w,
       bd_dev_dir_name = sysfs_dir dev, bd_channels = [], bd_scan_size = 0\<rparr>"
  have d0: "bd_device data0 = dev" "bd_dev_dir_name data0 = ?dir" by (simp_all add: data0_def)
  note at = buffer_lawsD(1) [OF assms(1)]
  have p: "?p \<in> channel_paths ?dir names" using assms(4,5) by (auto simp: channel_paths_def)
  have off: "holds env (buffer_path ?dir) ''0'' ?w" "holds env ?p ''0'' ?w"
    using free_all_off [of env data names ?w w] assms(1-3) p by simp_all
  show ?thesis
    using assms(7) data0_def
  proof (cases rule: buffer_new_cases)
    case (failed wx)
    then show ?thesis using free_all_off(2) [of env data0 names w' wx] assms(1) d0 p by simp
  next
    case (set_up w1 w2 w3)
    note f = fixup_touches [OF at set_up(1)]
    have "holds env (buffer_path ?dir) ''0'' w1"
      using touches_holds [OF f enablesI(1) buffer_path_not_fixed] off(1) by simp
    then have "\<not> holds env (buffer_path ?dir) ''1'' w1" by (rule holds_unique)
    from switch_channels [OF assms(1) subset_refl this refl enable_sensors_loop [OF assms(1) set_up(2)]]
    have "holds env ?p ''0'' w2 = holds env ?p ''0'' w1"
      by (intro touches_holds [OF conjunct1 enablesI(2) [OF p]]) (use assms(6) in \<open>auto simp: channel_paths_def\<close>)
    moreover have "holds env ?p ''0'' w1"
      using touches_holds [OF f enablesI(2) [OF p] channel_path_not_fixed [OF p]] off(2) by blast
    ultimately show ?thesis using later_steps_touch [OF at d0(2) set_up(3,4) p] by simp
  qed
qed

section \<open>The laws hold in the concrete environment\<close>

lemma store_env_laws: "buffer_laws (store_env dir names) dir names"
proof -
  let ?env = "store_env dir names"
  have at: "attr_laws ?env dir names"
    by (auto simp: attr_laws_def store_write_def)
  have "fst (ie_write ?env (buffer_path dir) ''0'' w) = Printed \<and>
      holds ?env (buffer_path dir) ''0'' (snd (ie_write ?env (buffer_path dir) ''0'' w))" for w
    by (auto simp: store_write_def buffer_path_def build_filename_def holds_def)
  moreover have "fst (ie_write ?env p v w) = Printed \<and> holds ?env p v (snd (ie_write ?env p v w))"
    if "\<not> holds ?env (buffer_path dir) ''1'' w" for p v w
    using that by (auto simp: store_write_def buffer_path_def holds_def)
  ultimately show ?thesis using at by (auto simp: buffer_laws_def)
qed

definition iio_dev :: "(string \<Rightarrow> string option) \<Rightarrow> GUdevDevice" where
  "iio_dev attrs = \<lparr>sysfs_path = Some ''/d'', dev_name = ''iio:device0'', dev_file = Some ''/dev/iio:device0'',
     dev_subsystem = ''iio'', property = (\<lambda>_. None), sysfs_attr = attrs\<rparr>"

lemma round_sampling_frequency_spec_witness:
  "iio_round_sampling_frequency (store_env ''/d'' []) (iio_dev (\<lambda>n. if n = ''sampling_frequency_available'' then Some ''0 5 50 12'' else None))
     ''sampling_frequency'' (Num 10) = Num 12"
proof -
  let ?env = "store_env ''/d'' []"
  let ?dev = "iio_dev (\<lambda>n. if n = ''sampling_frequency_available'' then Some ''0 5 50 12'' else None)"
  let ?r = "iio_round_sampling_frequency ?env ?dev ''sampling_frequency'' (Num 10)"
  have A: "set (availables ?env ''0 5 50 12'') = {Num 0, Num 5, Num 50, Num 12}"
  proof -
    have "availables ?env ''0 5 50 12'' = [Num 0, Num 5, Num 50, Num 12]" by code_simp
    then show ?thesis by simp
  qed
  have "\<exists>a\<in>set (availables ?env ''0 5 50 12''). Num 10 \<le> a \<and> a < DBL_MAX"
    unfolding A by (rule bexI [of _ "Num 12"]) (simp_all add: DBL_MAX_def fp_format_f64)
  with round_sampling_frequency_spec [of ?dev "''sampling_frequency''" "''0 5 50 12''" "Num 10" ?r ?env "set (availables ?env ''0 5 50 12'')"]
  have "?r \<in> {Num 0, Num 5, Num 50, Num 12}" "Num 10 \<le> ?r" "\<not> Num 12 < ?r"
    using A by (auto simp: iio_dev_def)
  then show ?thesis by auto
qed

abbreviation two_env :: "store iio_env" where
  "two_env \<equiv> store_env ''/d'' [''in_accel_y_en'', ''in_accel_x_en'']"

lemma buffer_life_cycle_witness:
  "\<exists>data w'. buffer_drv_data_new two_env (iio_dev (\<lambda>_. None)) two_channels = (Ok data, w') \<and>
     holds two_env ''/d/scan_elements/in_accel_x_en'' ''1'' w' \<and>
     holds two_env ''/d/scan_elements/in_accel_x_en'' ''0'' (buffer_drv_data_free two_env data w')"
proof -
  let ?dev = "iio_dev (\<lambda>_. None)" and ?p = "''/d/scan_elements/in_accel_x_en''"
  have d: "sysfs_dir ?dev = ''/d''" by (simp add: sysfs_dir_def iio_dev_def)
  have "case buffer_drv_data_new two_env ?dev two_channels of (Ok data, _) \<Rightarrow> True | _ \<Rightarrow> False" by code_simp
  then obtain data w' where r: "buffer_drv_data_new two_env ?dev two_channels = (Ok data, w')"
    by (auto split: prod.splits outcome.splits)
  have laws: "buffer_laws two_env (sysfs_dir ?dev) [''in_accel_y_en'', ''in_accel_x_en'']"
    unfolding d by (rule store_env_laws)
  have nb: "\<not> holds two_env (buffer_path (sysfs_dir ?dev)) ''1'' two_channels"
    unfolding d by (simp add: holds_def buffer_path_def build_filename_def two_channels_def)
  have "has_suffix ''in_accel_x_en'' ''_en''" by code_simp
  from buffer_life_cycle [OF laws nb r, of "''in_accel_x_en''" ?p, OF _ this]
  have "if attr_bool two_env (sysfs_attr ?dev ''scan_elements/in_accel_x_en'')
      then \<forall>v. holds two_env ?p v w' = holds two_env ?p v two_channels else holds two_env ?p ''1'' w'"
    "holds two_env ?p ''0'' (buffer_drv_data_free two_env data w')"
    unfolding d by (simp_all add: build_filename_def)
  then show ?thesis using r by (simp add: attr_bool_def iio_dev_def)
qed

lemma reopened_channel_stays_off_witness:
  "\<exists>data w res w'. buffer_drv_data_new two_env (iio_dev (\<lambda>_. Some ''1'')) two_channels = (Ok data, w) \<and>
     buffer_drv_data_new two_env (iio_dev (\<lambda>_. Some ''1'')) (buffer_drv_data_free two_env data w) = (res, w') \<and>
     holds two_env ''/d/scan_elements/in_accel_x_en'' ''0'' w'"
proof -
  let ?dev = "iio_dev (\<lambda>_. Some ''1'')" and ?p = "''/d/scan_elements/in_accel_x_en''"
  have d: "sysfs_dir ?dev = ''/d''" by (simp add: sysfs_dir_def iio_dev_def)
  have "case buffer_drv_data_new two_env ?dev two_channels of (Ok data, _) \<Rightarrow> bd_dev_dir_name data = ''/d'' | _ \<Rightarrow> False"
    by code_simp
  then obtain data w where r: "buffer_drv_data_new two_env ?dev two_channels = (Ok data, w)" "bd_dev_dir_name data = ''/d''"
    by (auto split: prod.splits outcome.splits)
  have dev: "bd_device data = ?dev"
    using r(1) by (auto simp: buffer_drv_data_new_def build_channels_def Let_def
        split: prod.splits if_splits outcome.splits option.splits)
  obtain res w' where r2: "buffer_drv_data_new two_env ?dev (buffer_drv_data_free two_env data w) = (res, w')" by fastforce
  have laws: "buffer_laws two_env (sysfs_dir ?dev) [''in_accel_y_en'', ''in_accel_x_en'']"
    unfolding d by (rule store_env_laws)
  have "attr_bool two_env (sysfs_attr ?dev (''scan_elements/'' @ ''in_accel_x_en''))"
    by (simp add: attr_bool_def iio_dev_def)
  moreover have "has_suffix ''in_accel_x_en'' ''_en''" by code_simp
  ultimately have "holds two_env (build_filename (build_filename (sysfs_dir ?dev) ''scan_elements'') ''in_accel_x_en'') ''0'' w'"
    using reopened_channel_stays_off [OF laws dev _ _ _ _ r2] r(2) d by auto
  then show ?thesis using r(1) r2 unfolding d by (auto simp: build_filename_def)
qed

end
