(* ===== verification/SensorProxy.thy ===== *)
theory SensorProxy
  imports Drivers
begin

text \<open>
  The daemon \<^verbatim>\<open>iio-sensor-proxy.c\<close>: which driver serves which sensor type, which D-Bus clients have
  claimed a sensor, the replies that wait for a first reading, the last values, and the signals
  sent. \<open>SensorData\<close> is the C struct; the hash tables of clients are association lists in insertion
  order (GLib promises no order), D-Bus output is the trace \<open>out\<close>, and a failed \<^verbatim>\<open>g_assert\<close> (or a
  device pointer that is NULL where one is needed) sets \<open>aborted\<close>. The message bus and polkit are the record \<open>bus\<close>, the drivers are those of the
  argument \<open>drivers\<close>. A driver's callback runs while it is called; here its readings are delivered
  right after the call, which is the same since the callbacks never touch a device.
\<close>

section \<open>Data\<close>

datatype gvariant = VBool bool | VString string | VDouble f64

datatype dbus_error = ERROR_ACCESS_DENIED | ERROR_UNKNOWN_METHOD | ERROR_FAILED

datatype dbus_out =
  Signal (sig_dest: string) (sig_path: string) (sig_iface: string) (sig_props: "(string \<times> gvariant) list")
| Return_value nat
| Return_error nat dbus_error

record 'w bus =
  watch_name :: "string \<Rightarrow> 'w \<Rightarrow> nat \<times> 'w"
  unwatch_name :: "nat \<Rightarrow> 'w \<Rightarrow> 'w"
  check_authorization :: "string \<Rightarrow> 'w \<Rightarrow> bool option \<times> 'w"

record ('d, 'w) SensorData =
  ret :: int
  lazy :: bool
  connected :: bool
  running :: bool
  drivers_of :: "DriverType \<Rightarrow> ('d, 'w) SensorDriver option"
  devices_of :: "DriverType \<Rightarrow> ('d, 'w) SensorDevice option"
  udev_devices_of :: "DriverType \<Rightarrow> GUdevDevice option"
  clients_of :: "DriverType \<Rightarrow> (string \<times> nat) list"
  invocations_delayed :: "DriverType \<Rightarrow> nat list"
  event_delayed :: "DriverType \<Rightarrow> bool"
  previous_orientation :: OrientationUp
  previous_tilt :: Tilt
  previous_level :: f64
  data_uses_lux :: bool
  previous_heading :: f64
  previous_prox_near :: bool
  out :: "dbus_out list"
  aborted :: bool

definition SENSOR_PROXY_DBUS_NAME :: string where "SENSOR_PROXY_DBUS_NAME = ''net.hadess.SensorProxy''"
definition SENSOR_PROXY_DBUS_PATH :: string where "SENSOR_PROXY_DBUS_PATH = ''/net/hadess/SensorProxy''"
definition SENSOR_PROXY_COMPASS_DBUS_PATH :: string where
  "SENSOR_PROXY_COMPASS_DBUS_PATH = ''/net/hadess/SensorProxy/Compass''"
definition SENSOR_PROXY_IFACE_NAME :: string where "SENSOR_PROXY_IFACE_NAME = SENSOR_PROXY_DBUS_NAME"
definition SENSOR_PROXY_COMPASS_IFACE_NAME :: string where
  "SENSOR_PROXY_COMPASS_IFACE_NAME = SENSOR_PROXY_DBUS_NAME @ ''.Compass''"

text \<open>The types in the order of their numbers.\<close>

definition sensor_types :: "DriverType list" where
  "sensor_types = [DRIVER_TYPE_ACCEL, DRIVER_TYPE_LIGHT, DRIVER_TYPE_COMPASS, DRIVER_TYPE_PROXIMITY]"

definition send_out :: "dbus_out \<Rightarrow> ('d, 'w) SensorData \<Rightarrow> ('d, 'w) SensorData" where
  "send_out m data = data\<lparr>out := out data @ [m]\<rparr>"

definition g_assert :: "bool \<Rightarrow> ('d, 'w) SensorData \<Rightarrow> ('d, 'w) SensorData" where
  "g_assert b data = (if b then data else data\<lparr>aborted := True\<rparr>)"

definition driver_type_exists :: "('d, 'w) SensorData \<Rightarrow> DriverType \<Rightarrow> bool" where
  "driver_type_exists data t \<longleftrightarrow> drivers_of data t \<noteq> None"

section \<open>Property masks\<close>

definition PROP_HAS_ACCELEROMETER :: u32 where "PROP_HAS_ACCELEROMETER = push_bit 0 1"
definition PROP_ACCELEROMETER_ORIENTATION :: u32 where "PROP_ACCELEROMETER_ORIENTATION = push_bit 1 1"
definition PROP_HAS_AMBIENT_LIGHT :: u32 where "PROP_HAS_AMBIENT_LIGHT = push_bit 2 1"
definition PROP_LIGHT_LEVEL :: u32 where "PROP_LIGHT_LEVEL = push_bit 3 1"
definition PROP_HAS_COMPASS :: u32 where "PROP_HAS_COMPASS = push_bit 4 1"
definition PROP_COMPASS_HEADING :: u32 where "PROP_COMPASS_HEADING = push_bit 5 1"
definition PROP_HAS_PROXIMITY :: u32 where "PROP_HAS_PROXIMITY = push_bit 6 1"
definition PROP_PROXIMITY_NEAR :: u32 where "PROP_PROXIMITY_NEAR = push_bit 7 1"
definition PROP_ACCELEROMETER_TILT :: u32 where "PROP_ACCELEROMETER_TILT = push_bit 8 1"

definition PROP_ALL :: u32 where
  "PROP_ALL = PROP_HAS_ACCELEROMETER OR PROP_ACCELEROMETER_ORIENTATION OR PROP_HAS_AMBIENT_LIGHT
     OR PROP_LIGHT_LEVEL OR PROP_HAS_PROXIMITY OR PROP_PROXIMITY_NEAR OR PROP_ACCELEROMETER_TILT"

definition PROP_ALL_COMPASS :: u32 where
  "PROP_ALL_COMPASS = PROP_HAS_COMPASS OR PROP_COMPASS_HEADING"

definition mask_for_sensor_type :: "DriverType \<Rightarrow> u32" where
  "mask_for_sensor_type t = (case t of
     DRIVER_TYPE_ACCEL \<Rightarrow> PROP_HAS_ACCELEROMETER OR PROP_ACCELEROMETER_ORIENTATION OR PROP_ACCELEROMETER_TILT
   | DRIVER_TYPE_LIGHT \<Rightarrow> PROP_HAS_AMBIENT_LIGHT OR PROP_LIGHT_LEVEL
   | DRIVER_TYPE_COMPASS \<Rightarrow> PROP_HAS_COMPASS OR PROP_COMPASS_HEADING
   | DRIVER_TYPE_PROXIMITY \<Rightarrow> PROP_HAS_PROXIMITY OR PROP_PROXIMITY_NEAR)"

definition has_bit :: "u32 \<Rightarrow> u32 \<Rightarrow> bool" where
  "has_bit msk p \<longleftrightarrow> msk AND p \<noteq> 0"

section \<open>Signals\<close>

text \<open>The four parts of the property list, each with the mask and the data it leaves behind.\<close>

definition accel_props ::
  "u32 \<Rightarrow> ('d, 'w) SensorData \<Rightarrow> (string \<times> gvariant) list \<times> u32 \<times> ('d, 'w) SensorData" where
  "accel_props msk data =
     (let has_accel = driver_type_exists data DRIVER_TYPE_ACCEL;
          (ps, msk, data) =
            (if has_bit msk PROP_HAS_ACCELEROMETER then
               (if has_accel
                then ([(''HasAccelerometer'', VBool has_accel)],
                      (msk OR PROP_ACCELEROMETER_ORIENTATION) OR PROP_ACCELEROMETER_TILT, data)
                else ([(''HasAccelerometer'', VBool has_accel)], msk,
                      data\<lparr>previous_orientation := ORIENTATION_UNDEFINED, previous_tilt := TILT_UNDEFINED\<rparr>))
             else ([], msk, data));
          ps = (if has_bit msk PROP_ACCELEROMETER_ORIENTATION
                then ps @ [(''AccelerometerOrientation'', VString (orientation_to_string (previous_orientation data)))] else ps);
          ps = (if has_bit msk PROP_ACCELEROMETER_TILT
                then ps @ [(''AccelerometerTilt'', VString (tilt_to_string (previous_tilt data)))] else ps)
      in (ps, msk, data))"

definition light_props :: "u32 \<Rightarrow> ('d, 'w) SensorData \<Rightarrow> (string \<times> gvariant) list \<times> u32" where
  "light_props msk data =
     (let has_als = driver_type_exists data DRIVER_TYPE_LIGHT;
          (ps, msk) =
            (if has_bit msk PROP_HAS_AMBIENT_LIGHT
             then ([(''HasAmbientLight'', VBool has_als)], if has_als then msk OR PROP_LIGHT_LEVEL else msk)
             else ([], msk));
          ps = (if has_bit msk PROP_LIGHT_LEVEL
                then ps @ [(''LightLevelUnit'', VString (if data_uses_lux data then ''lux'' else ''vendor'')),
                           (''LightLevel'', VDouble (previous_level data))] else ps)
      in (ps, msk))"

definition compass_props :: "u32 \<Rightarrow> ('d, 'w) SensorData \<Rightarrow> (string \<times> gvariant) list \<times> u32" where
  "compass_props msk data =
     (let has_compass = driver_type_exists data DRIVER_TYPE_COMPASS;
          (ps, msk) =
            (if has_bit msk PROP_HAS_COMPASS
             then ([(''HasCompass'', VBool has_compass)], if has_compass then msk OR PROP_COMPASS_HEADING else msk)
             else ([], msk));
          ps = (if has_bit msk PROP_COMPASS_HEADING
                then ps @ [(''CompassHeading'', VDouble (previous_heading data))] else ps)
      in (ps, msk))"

definition proximity_props :: "u32 \<Rightarrow> ('d, 'w) SensorData \<Rightarrow> (string \<times> gvariant) list \<times> u32" where
  "proximity_props msk data =
     (let has_proximity = driver_type_exists data DRIVER_TYPE_PROXIMITY;
          (ps, msk) =
            (if has_bit msk PROP_HAS_PROXIMITY
             then ([(''HasProximity'', VBool has_proximity)], if has_proximity then msk OR PROP_PROXIMITY_NEAR else msk)
             else ([], msk));
          ps = (if has_bit msk PROP_PROXIMITY_NEAR
                then ps @ [(''ProximityNear'', VBool (previous_prox_near data))] else ps)
      in (ps, msk))"

definition send_dbus_event_for_client ::
  "string \<Rightarrow> u32 \<Rightarrow> ('d, 'w) SensorData \<Rightarrow> ('d, 'w) SensorData" where
  "send_dbus_event_for_client dest msk data =
     (let (ps1, msk, data) = accel_props msk data;
          (ps2, msk) = light_props msk data;
          (ps3, msk) = compass_props msk data;
          (ps4, msk) = proximity_props msk data;
          main = has_bit msk PROP_ALL
      in send_out (Signal dest (if main then SENSOR_PROXY_DBUS_PATH else SENSOR_PROXY_COMPASS_DBUS_PATH)
                    (if main then SENSOR_PROXY_IFACE_NAME else SENSOR_PROXY_COMPASS_IFACE_NAME)
                    (ps1 @ ps2 @ ps3 @ ps4)) data)"

text \<open>The local hash table from client to mask; a missing key reads as 0.\<close>

definition table_mask :: "(string \<times> u32) list \<Rightarrow> string \<Rightarrow> u32" where
  "table_mask ht k = (case map_of ht k of None \<Rightarrow> 0 | Some m \<Rightarrow> m)"

fun table_insert :: "'k \<Rightarrow> 'v \<Rightarrow> ('k \<times> 'v) list \<Rightarrow> ('k \<times> 'v) list" where
  "table_insert k v [] = [(k, v)]"
| "table_insert k v ((k', v') # ht) = (if k' = k then (k, v) # ht else (k', v') # table_insert k v ht)"

definition collect_masks :: "u32 \<Rightarrow> ('d, 'w) SensorData \<Rightarrow> (string \<times> u32) list" where
  "collect_masks msk data =
     fold (\<lambda>t ht. fold (\<lambda>c ht. table_insert c (table_mask ht c OR (msk AND mask_for_sensor_type t)) ht)
                     (map fst (clients_of data t)) ht) sensor_types []"

definition send_dbus_event :: "u32 \<Rightarrow> ('d, 'w) SensorData \<Rightarrow> ('d, 'w) SensorData" where
  "send_dbus_event msk data =
     (let data = g_assert (msk \<noteq> 0) data;
          data = g_assert (connected data) data;
          data = g_assert (msk AND PROP_ALL = 0 \<or> msk AND PROP_ALL_COMPASS = 0) data
      in fold (\<lambda>(c, m). send_dbus_event_for_client c m) (collect_masks msk data) data)"

definition send_driver_changed_dbus_event :: "DriverType \<Rightarrow> ('d, 'w) SensorData \<Rightarrow> ('d, 'w) SensorData" where
  "send_driver_changed_dbus_event t = send_dbus_event (case t of
     DRIVER_TYPE_ACCEL \<Rightarrow> PROP_HAS_ACCELEROMETER | DRIVER_TYPE_LIGHT \<Rightarrow> PROP_HAS_AMBIENT_LIGHT
   | DRIVER_TYPE_PROXIMITY \<Rightarrow> PROP_HAS_PROXIMITY | DRIVER_TYPE_COMPASS \<Rightarrow> PROP_HAS_COMPASS)"

definition any_sensors_left :: "('d, 'w) SensorData \<Rightarrow> bool" where
  "any_sensors_left data \<longleftrightarrow> list_ex (driver_type_exists data) sensor_types"

section \<open>Readings\<close>

definition maybe_notify_sensor_startup_finished ::
  "DriverType \<Rightarrow> ('d, 'w) SensorData \<Rightarrow> ('d, 'w) SensorData" where
  "maybe_notify_sensor_startup_finished t data =
     (let data = (if invocations_delayed data t \<noteq> [] then
                    fold (\<lambda>i. send_out (Return_value i)) (invocations_delayed data t)
                      (data\<lparr>invocations_delayed := (invocations_delayed data)(t := [])\<rparr>)
                  else data)
      in if event_delayed data t
         then (let data = send_driver_changed_dbus_event t data
               in data\<lparr>event_delayed := (event_delayed data)(t := False)\<rparr>)
         else data)"

definition accel_changed_func :: "libm \<Rightarrow> AccelReadings \<Rightarrow> ('d, 'w) SensorData \<Rightarrow> ('d, 'w) SensorData" where
  "accel_changed_func m r data =
     (let o' = orientation_calc m (previous_orientation data) (accel_x r) (accel_y r) (accel_z r) (accel_scale r);
          data = (if previous_orientation data \<noteq> o'
                  then send_dbus_event PROP_ACCELEROMETER_ORIENTATION (data\<lparr>previous_orientation := o'\<rparr>) else data);
          t = tilt_calc m (previous_tilt data) (accel_x r) (accel_y r) (accel_z r) (accel_scale r);
          data = (if previous_tilt data \<noteq> t
                  then send_dbus_event PROP_ACCELEROMETER_TILT (data\<lparr>previous_tilt := t\<rparr>) else data)
      in maybe_notify_sensor_startup_finished DRIVER_TYPE_ACCEL data)"

definition light_changed_func :: "LightReadings \<Rightarrow> ('d, 'w) SensorData \<Rightarrow> ('d, 'w) SensorData" where
  "light_changed_func r data =
     maybe_notify_sensor_startup_finished DRIVER_TYPE_LIGHT
       (if \<not> feq (previous_level data) (level r) \<or> data_uses_lux data \<noteq> uses_lux r
        then send_dbus_event PROP_LIGHT_LEVEL (data\<lparr>previous_level := level r, data_uses_lux := uses_lux r\<rparr>)
        else data)"

definition compass_changed_func :: "f64 \<Rightarrow> ('d, 'w) SensorData \<Rightarrow> ('d, 'w) SensorData" where
  "compass_changed_func heading data =
     maybe_notify_sensor_startup_finished DRIVER_TYPE_COMPASS
       (if \<not> feq (previous_heading data) heading
        then send_dbus_event PROP_COMPASS_HEADING (data\<lparr>previous_heading := heading\<rparr>) else data)"

definition proximity_changed_func :: "ProximityNear \<Rightarrow> ('d, 'w) SensorData \<Rightarrow> ('d, 'w) SensorData" where
  "proximity_changed_func is_near data =
     (let near = (is_near = PROXIMITY_NEAR_TRUE)
      in maybe_notify_sensor_startup_finished DRIVER_TYPE_PROXIMITY
           (if previous_prox_near data \<noteq> near
            then send_dbus_event PROP_PROXIMITY_NEAR (data\<lparr>previous_prox_near := near\<rparr>) else data))"

text \<open>
  The callback of a type on what a driver of that type passes. Readings of another type would be read
  through the wrong struct: the model counts that as a failure.
\<close>

definition driver_type_to_callback_func ::
  "libm \<Rightarrow> DriverType \<Rightarrow> readings \<Rightarrow> ('d, 'w) SensorData \<Rightarrow> ('d, 'w) SensorData" where
  "driver_type_to_callback_func m t r data = (case (t, r) of
     (DRIVER_TYPE_ACCEL, AccelR a) \<Rightarrow> accel_changed_func m a data
   | (DRIVER_TYPE_LIGHT, LightR l) \<Rightarrow> light_changed_func l data
   | (DRIVER_TYPE_COMPASS, CompassR h) \<Rightarrow> compass_changed_func h data
   | (DRIVER_TYPE_PROXIMITY, ProximityR p) \<Rightarrow> proximity_changed_func p data
   | _ \<Rightarrow> g_assert False data)"

text \<open>Calling \<^verbatim>\<open>driver_set_polling\<close> on the device of a type, with the callbacks it makes.\<close>

definition set_polling_type ::
  "libm \<Rightarrow> DriverType \<Rightarrow> bool \<Rightarrow> ('d, 'w) SensorData \<times> 'w \<Rightarrow> ('d, 'w) SensorData \<times> 'w" where
  "set_polling_type m t state s = (case s of (data, w) \<Rightarrow>
     (case devices_of data t of None \<Rightarrow> (g_assert False data, w)
      | Some sd \<Rightarrow> (let (sd, rs, w) = driver_set_polling sd state w
          in (fold (driver_type_to_callback_func m t) rs
                (data\<lparr>devices_of := (devices_of data)(t \<mapsto> sd)\<rparr>), w))))"

section \<open>Clients\<close>

definition client_watch :: "('d, 'w) SensorData \<Rightarrow> DriverType \<Rightarrow> string \<Rightarrow> nat" where
  "client_watch data t sender = (case map_of (clients_of data t) sender of None \<Rightarrow> 0 | Some i \<Rightarrow> i)"

definition free_client_watch :: "'w bus \<Rightarrow> nat \<Rightarrow> 'w \<Rightarrow> 'w" where
  "free_client_watch bus i w = (if i = 0 then w else unwatch_name bus i w)"

definition client_release ::
  "'w bus \<Rightarrow> libm \<Rightarrow> string \<Rightarrow> DriverType \<Rightarrow> ('d, 'w) SensorData \<times> 'w \<Rightarrow> ('d, 'w) SensorData \<times> 'w" where
  "client_release bus m sender t s = (case s of (data, w) \<Rightarrow>
     (let watch_id = client_watch data t sender in
      if watch_id = 0 then (data, w)
      else
       (let ht = filter (\<lambda>e. fst e \<noteq> sender) (clients_of data t);
            data = data\<lparr>clients_of := (clients_of data)(t := ht)\<rparr>;
            w = free_client_watch bus watch_id w
        in if lazy data \<and> driver_type_exists data t \<and> ht = []
           then set_polling_type m t False (data, w) else (data, w))))"

definition client_vanished_cb ::
  "'w bus \<Rightarrow> libm \<Rightarrow> string option \<Rightarrow> ('d, 'w) SensorData \<times> 'w \<Rightarrow> ('d, 'w) SensorData \<times> 'w" where
  "client_vanished_cb bus m name s = (case name of None \<Rightarrow> s
     | Some sender \<Rightarrow>
         fold (\<lambda>t s. if 0 < client_watch (fst s) t sender then client_release bus m sender t s else s)
           sensor_types s)"

definition check_claim_permission :: "'w bus \<Rightarrow> string \<Rightarrow> 'w \<Rightarrow> bool \<times> 'w" where
  "check_claim_permission bus sender w =
     (let (r, w) = check_authorization bus sender w in (r = Some True, w))"

definition delay_invocation :: "DriverType \<Rightarrow> nat \<Rightarrow> ('d, 'w) SensorData \<Rightarrow> ('d, 'w) SensorData" where
  "delay_invocation t i data =
     data\<lparr>invocations_delayed := (invocations_delayed data)(t := invocations_delayed data t @ [i])\<rparr>"

definition handle_claim ::
  "'w bus \<Rightarrow> libm \<Rightarrow> string \<Rightarrow> nat \<Rightarrow> DriverType \<Rightarrow> ('d, 'w) SensorData \<times> 'w \<Rightarrow> ('d, 'w) SensorData \<times> 'w" where
  "handle_claim bus m sender invocation t s = (case s of (data, w) \<Rightarrow>
     if 0 < client_watch data t sender then (send_out (Return_value invocation) data, w)
     else
      (let (watch_id, w) = watch_name bus sender w;
           data = data\<lparr>clients_of := (clients_of data)(t := table_insert sender watch_id (clients_of data t))\<rparr>
       in if driver_type_exists data t then
            (if length (clients_of data t) = 1
             then set_polling_type m t True (delay_invocation t invocation data, w)
             else if invocations_delayed data t \<noteq> [] \<or> event_delayed data t
             then (delay_invocation t invocation data, w)
             else (send_out (Return_value invocation) data, w))
          else (send_out (Return_value invocation) data, w)))"

definition handle_generic_method_call ::
  "'w bus \<Rightarrow> libm \<Rightarrow> string \<Rightarrow> string \<Rightarrow> nat \<Rightarrow> DriverType \<Rightarrow>
     ('d, 'w) SensorData \<times> 'w \<Rightarrow> ('d, 'w) SensorData \<times> 'w" where
  "handle_generic_method_call bus m sender method_name invocation t s =
     (if has_prefix method_name ''Claim'' then handle_claim bus m sender invocation t s
      else if has_prefix method_name ''Release''
      then (case client_release bus m sender t s of (data, w) \<Rightarrow> (send_out (Return_value invocation) data, w))
      else s)"

definition method_driver_type :: "string \<Rightarrow> DriverType option" where
  "method_driver_type n =
     (if n = ''ClaimAccelerometer'' \<or> n = ''ReleaseAccelerometer'' then Some DRIVER_TYPE_ACCEL
      else if n = ''ClaimLight'' \<or> n = ''ReleaseLight'' then Some DRIVER_TYPE_LIGHT
      else if n = ''ClaimProximity'' \<or> n = ''ReleaseProximity'' then Some DRIVER_TYPE_PROXIMITY
      else None)"

definition compass_driver_type :: "string \<Rightarrow> DriverType option" where
  "compass_driver_type n =
     (if n \<noteq> ''ClaimCompass'' \<and> n \<noteq> ''ReleaseCompass'' then None else Some DRIVER_TYPE_COMPASS)"

definition handle_call ::
  "(string \<Rightarrow> DriverType option) \<Rightarrow> 'w bus \<Rightarrow> libm \<Rightarrow> string \<Rightarrow> string \<Rightarrow> nat \<Rightarrow>
     ('d, 'w) SensorData \<times> 'w \<Rightarrow> ('d, 'w) SensorData \<times> 'w" where
  "handle_call types bus m sender method_name invocation s = (case s of (data, w) \<Rightarrow>
     (case types method_name of
        None \<Rightarrow> (send_out (Return_error invocation ERROR_UNKNOWN_METHOD) data, w)
      | Some t \<Rightarrow>
          (let (ok, w) = check_claim_permission bus sender w in
           if \<not> ok then (send_out (Return_error invocation ERROR_ACCESS_DENIED) data, w)
           else handle_generic_method_call bus m sender method_name invocation t (data, w))))"

definition handle_method_call ::
  "'w bus \<Rightarrow> libm \<Rightarrow> string \<Rightarrow> string \<Rightarrow> nat \<Rightarrow> ('d, 'w) SensorData \<times> 'w \<Rightarrow> ('d, 'w) SensorData \<times> 'w" where
  "handle_method_call = handle_call method_driver_type"

definition handle_compass_method_call ::
  "'w bus \<Rightarrow> libm \<Rightarrow> string \<Rightarrow> string \<Rightarrow> nat \<Rightarrow> ('d, 'w) SensorData \<times> 'w \<Rightarrow> ('d, 'w) SensorData \<times> 'w" where
  "handle_compass_method_call = handle_call compass_driver_type"

definition handle_get_property :: "string \<Rightarrow> ('d, 'w) SensorData \<Rightarrow> gvariant option" where
  "handle_get_property n data =
     (if n = ''HasAccelerometer'' then Some (VBool (driver_type_exists data DRIVER_TYPE_ACCEL))
      else if n = ''AccelerometerOrientation'' then Some (VString (orientation_to_string (previous_orientation data)))
      else if n = ''AccelerometerTilt'' then Some (VString (tilt_to_string (previous_tilt data)))
      else if n = ''HasAmbientLight'' then Some (VBool (driver_type_exists data DRIVER_TYPE_LIGHT))
      else if n = ''LightLevelUnit'' then Some (VString (if data_uses_lux data then ''lux'' else ''vendor''))
      else if n = ''LightLevel'' then Some (VDouble (previous_level data))
      else if n = ''HasProximity'' then Some (VBool (driver_type_exists data DRIVER_TYPE_PROXIMITY))
      else if n = ''ProximityNear'' then Some (VBool (previous_prox_near data))
      else None)"

definition handle_compass_get_property :: "string \<Rightarrow> ('d, 'w) SensorData \<Rightarrow> gvariant option" where
  "handle_compass_get_property n data =
     (if n = ''HasCompass'' then Some (VBool (drivers_of data DRIVER_TYPE_COMPASS \<noteq> None))
      else if n = ''CompassHeading'' then Some (VDouble (previous_heading data)) else None)"

section \<open>Start and stop\<close>

definition try_driver ::
  "GUdevDevice \<Rightarrow> ('d, 'w) SensorDriver \<Rightarrow> bool \<times> ('d, 'w) SensorData \<times> 'w \<Rightarrow> bool \<times> ('d, 'w) SensorData \<times> 'w" where
  "try_driver dev driver s = (case s of (found, data, w) \<Rightarrow>
     if driver_type_exists data (drv_type driver) then s
     else (let (ok, w) = driver_discover driver dev w in
       if ok then (True, data\<lparr>udev_devices_of := (udev_devices_of data)(drv_type driver \<mapsto> dev),
                             drivers_of := (drivers_of data)(drv_type driver \<mapsto> driver)\<rparr>, w)
       else (found, data, w)))"

fun find_sensors_loop ::
  "('d, 'w) SensorDriver list \<Rightarrow> GUdevDevice list \<Rightarrow> bool \<times> ('d, 'w) SensorData \<times> 'w \<Rightarrow> bool \<times> ('d, 'w) SensorData \<times> 'w" where
  "find_sensors_loop drivers [] s = s"
| "find_sensors_loop drivers (dev # devs) s =
     (let s = fold (try_driver dev) drivers s
      in if list_all (driver_type_exists (fst (snd s))) sensor_types then s
         else find_sensors_loop drivers devs s)"

definition find_sensors ::
  "('d, 'w) SensorDriver list \<Rightarrow> (string \<Rightarrow> GUdevDevice list) \<Rightarrow> ('d, 'w) SensorData \<Rightarrow> 'w \<Rightarrow>
     bool \<times> ('d, 'w) SensorData \<times> 'w" where
  "find_sensors drivers by_subsystem data w =
     find_sensors_loop drivers
       (by_subsystem ''iio'' @ by_subsystem ''input'' @ by_subsystem ''platform'' @ by_subsystem ''i2c'')
       (False, data, w)"

definition main_data :: "bool \<Rightarrow> ('d, 'w) SensorData" where
  "main_data lz = \<lparr>ret = 0, lazy = lz, connected = False, running = True, drivers_of = (\<lambda>_. None),
     devices_of = (\<lambda>_. None), udev_devices_of = (\<lambda>_. None), clients_of = (\<lambda>_. []),
     invocations_delayed = (\<lambda>_. []), event_delayed = (\<lambda>_. False),
     previous_orientation = ORIENTATION_UNDEFINED, previous_tilt = TILT_UNDEFINED, previous_level = 0,
     data_uses_lux = True, previous_heading = 0, previous_prox_near = False, out = [], aborted = False\<rparr>"

definition bus_acquired_handler :: "('d, 'w) SensorData \<Rightarrow> ('d, 'w) SensorData" where
  "bus_acquired_handler data = data\<lparr>clients_of := (\<lambda>_. []), connected := True\<rparr>"

definition open_type ::
  "libm \<Rightarrow> DriverType \<Rightarrow> ('d, 'w) SensorData \<times> 'w \<Rightarrow> ('d, 'w) SensorData \<times> 'w" where
  "open_type m t s = (case s of (data, w) \<Rightarrow>
     (let data = data\<lparr>invocations_delayed := (invocations_delayed data)(t := [])\<rparr> in
      case (drivers_of data t, udev_devices_of data t) of
        (Some drv, Some dev) \<Rightarrow>
          (case driver_open drv dev w of
             (None, w) \<Rightarrow> (data\<lparr>drivers_of := (drivers_of data)(t := None),
                               udev_devices_of := (udev_devices_of data)(t := None)\<rparr>, w)
           | (Some sd, w) \<Rightarrow>
               (let data = data\<lparr>devices_of := (devices_of data)(t \<mapsto> sd)\<rparr>
                in if \<not> lazy data then set_polling_type m t True (data, w) else (data, w)))
      | (Some drv, None) \<Rightarrow> (g_assert False data, w)
      | (None, _) \<Rightarrow> (data, w)))"

definition bail :: "('d, 'w) SensorData \<Rightarrow> ('d, 'w) SensorData" where
  "bail data = data\<lparr>ret := 0, running := False\<rparr>"

definition name_acquired_handler ::
  "('d, 'w) SensorDriver list \<Rightarrow> (string \<Rightarrow> GUdevDevice list) \<Rightarrow> libm \<Rightarrow>
     ('d, 'w) SensorData \<times> 'w \<Rightarrow> ('d, 'w) SensorData \<times> 'w" where
  "name_acquired_handler drivers by_subsystem m s = (case s of (data, w) \<Rightarrow>
     (let (found, data, w) = find_sensors drivers by_subsystem data w in
      if \<not> found then (bail data, w)
      else (let (data, w) = fold (open_type m) sensor_types (data, w) in
        if \<not> any_sensors_left data then (bail data, w)
        else (send_dbus_event PROP_ALL_COMPASS (send_dbus_event PROP_ALL data), w))))"

text \<open>\<^verbatim>\<open>driver_close\<close> on the device of a type, with the callbacks it makes.\<close>

definition close_type ::
  "libm \<Rightarrow> DriverType \<Rightarrow> ('d, 'w) SensorData \<times> 'w \<Rightarrow> ('d, 'w) SensorData \<times> 'w" where
  "close_type m t s = (case s of (data, w) \<Rightarrow>
     (case devices_of data t of None \<Rightarrow> (g_assert False data, w)
      | Some sd \<Rightarrow> (let (rs, w) = driver_close sd w
          in (fold (driver_type_to_callback_func m t) rs data, w))))"

definition remove_type ::
  "'w bus \<Rightarrow> libm \<Rightarrow> GUdevDevice \<Rightarrow> DriverType \<Rightarrow> ('d, 'w) SensorData \<times> 'w \<Rightarrow> ('d, 'w) SensorData \<times> 'w" where
  "remove_type bus m device t s = (case s of (data, w) \<Rightarrow>
     (case udev_devices_of data t of None \<Rightarrow> (data, w)
      | Some dev \<Rightarrow>
          if sysfs_path device \<noteq> sysfs_path dev then (data, w)
          else
           (let (data, w) = close_type m t (data\<lparr>udev_devices_of := (udev_devices_of data)(t := None)\<rparr>, w);
                data = data\<lparr>devices_of := (devices_of data)(t := None),
                            drivers_of := (drivers_of data)(t := None)\<rparr>;
                w = fold (free_client_watch bus) (map snd (clients_of data t)) w;
                data = data\<lparr>clients_of := (clients_of data)(t := []),
                            event_delayed := (event_delayed data)(t := False)\<rparr>;
                data = fold (\<lambda>i. send_out (Return_error i ERROR_FAILED)) (invocations_delayed data t)
                         (data\<lparr>invocations_delayed := (invocations_delayed data)(t := [])\<rparr>)
            in (send_driver_changed_dbus_event t data, w))))"

text \<open>The loop over the drivers ends with the first one that recognises the device.\<close>

fun add_device ::
  "libm \<Rightarrow> ('d, 'w) SensorDriver list \<Rightarrow> GUdevDevice \<Rightarrow> ('d, 'w) SensorData \<times> 'w \<Rightarrow> ('d, 'w) SensorData \<times> 'w" where
  "add_device m [] device s = s"
| "add_device m (driver # drivers) device s = (case s of (data, w) \<Rightarrow>
     (let t = drv_type driver in
      if driver_type_exists data t then add_device m drivers device (data, w)
      else (case driver_discover driver device w of
          (False, w) \<Rightarrow> add_device m drivers device (data, w)
        | (True, w) \<Rightarrow>
            (case driver_open driver device w of
               (None, w) \<Rightarrow> (data, w)
             | (Some sd, w) \<Rightarrow>
                 (let data = data\<lparr>udev_devices_of := (udev_devices_of data)(t \<mapsto> device),
                                  devices_of := (devices_of data)(t \<mapsto> sd),
                                  drivers_of := (drivers_of data)(t \<mapsto> driver)\<rparr>;
                      data = g_assert (\<not> event_delayed data t) data
                  in if clients_of data t \<noteq> []
                     then set_polling_type m t True
                            (data\<lparr>event_delayed := (event_delayed data)(t := True)\<rparr>, w)
                     else (let data = send_driver_changed_dbus_event t data
                           in if \<not> lazy data then set_polling_type m t True (data, w) else (data, w)))))))"

definition sensor_changes ::
  "'w bus \<Rightarrow> ('d, 'w) SensorDriver list \<Rightarrow> libm \<Rightarrow> string \<Rightarrow> GUdevDevice \<Rightarrow>
     ('d, 'w) SensorData \<times> 'w \<Rightarrow> ('d, 'w) SensorData \<times> 'w" where
  "sensor_changes bus drivers m action device s =
     (if action = ''remove'' then
        (let (data, w) = fold (remove_type bus m device) sensor_types s
         in if \<not> any_sensors_left data then (data\<lparr>running := False\<rparr>, w) else (data, w))
      else if action = ''add'' then add_device m drivers device s else s)"

definition free_type ::
  "'w bus \<Rightarrow> libm \<Rightarrow> DriverType \<Rightarrow> ('d, 'w) SensorData \<times> 'w \<Rightarrow> ('d, 'w) SensorData \<times> 'w" where
  "free_type bus m t s = (case s of (data, w) \<Rightarrow>
     (let (data, w) = (if driver_type_exists data t then close_type m t (data, w) else (data, w))
      in (data\<lparr>udev_devices_of := (udev_devices_of data)(t := None), clients_of := (clients_of data)(t := []),
               invocations_delayed := (invocations_delayed data)(t := [])\<rparr>,
          fold (free_client_watch bus) (map snd (clients_of data t)) w)))"

definition free_sensor_data ::
  "'w bus \<Rightarrow> libm \<Rightarrow> ('d, 'w) SensorData \<times> 'w \<Rightarrow> ('d, 'w) SensorData \<times> 'w" where
  "free_sensor_data bus m s = (case fold (free_type bus m) sensor_types s of (data, w) \<Rightarrow>
     (data\<lparr>connected := False\<rparr>, w))"

end
