(* ===== verification/SensorProxy_Facts.thy ===== *)
theory SensorProxy_Facts
  imports SensorProxy "HOL-Library.Multiset"
begin

text \<open>
  What the daemon guarantees over any drivers that keep the driver contract (the locale
  \<open>sensor_driver\<close>): no assertion fails in any reachable state, every method call is answered exactly
  once or is waiting for a first reading, a prompt driver's Claim is answered at once, and a client
  only hears of the sensors it claimed.
\<close>

section \<open>The driver contract\<close>

fun reading_type :: "readings \<Rightarrow> DriverType" where
  "reading_type (AccelR _) = DRIVER_TYPE_ACCEL"
| "reading_type (LightR _) = DRIVER_TYPE_LIGHT"
| "reading_type (CompassR _) = DRIVER_TYPE_COMPASS"
| "reading_type (ProximityR _) = DRIVER_TYPE_PROXIMITY"

definition readings_of_type :: "DriverType \<Rightarrow> readings list \<Rightarrow> bool" where
  "readings_of_type t rs \<longleftrightarrow> list_all (\<lambda>r. reading_type r = t) rs"

locale sensor_driver =
  fixes drv :: "('d, 'w) SensorDriver" and good :: "'d \<Rightarrow> bool"
  assumes open_good: "drv_open drv dev w = (Some d, w') \<Longrightarrow> good d"
    and polling_good: "drv_set_polling drv = Some f \<Longrightarrow> good d \<Longrightarrow> f d b w = (d', rs, w') \<Longrightarrow> good d'"
    and polling_typed: "drv_set_polling drv = Some f \<Longrightarrow> good d \<Longrightarrow> f d b w = (d', rs, w') \<Longrightarrow>
      readings_of_type (drv_type drv) rs"
begin

definition good_device :: "('d, 'w) SensorDevice \<Rightarrow> bool" where
  "good_device sd \<longleftrightarrow> sd_drv sd = drv \<and> good (sd_priv sd)"

lemma driver_open_good: "driver_open drv dev w = (Some sd, w') \<Longrightarrow> good_device sd"
  by (auto simp: driver_open_def good_device_def dest: open_good split: prod.splits option.splits)

lemma driver_set_polling_good:
  assumes "good_device sd" "driver_set_polling sd b w = (sd', rs, w')"
  shows "good_device sd'" "readings_of_type (drv_type drv) rs"
  using assms polling_good polling_typed
  by (auto simp: driver_set_polling_def good_device_def readings_of_type_def Let_def
      split: option.splits prod.splits)

lemma driver_close_typed:
  assumes "good_device sd" "driver_close sd w = (rs, w')"
  shows "readings_of_type (drv_type drv) rs"
  using assms driver_set_polling_good(2) [OF assms(1)]
  by (auto simp: driver_close_def Let_def split: prod.splits)

end

text \<open>A prompt driver answers every request for readings at once.\<close>

locale prompt_driver = sensor_driver +
  assumes has_polling: "drv_set_polling drv \<noteq> None"
    and polling_answers: "drv_set_polling drv = Some f \<Longrightarrow> good d \<Longrightarrow> f d True w = (d', rs, w') \<Longrightarrow> rs \<noteq> []"
begin

lemma driver_set_polling_answers:
  assumes "good_device sd" "driver_set_polling sd True w = (sd', rs, w')"
  shows "rs \<noteq> []"
  using assms has_polling polling_answers
  by (auto simp: driver_set_polling_def good_device_def Let_def split: option.splits prod.splits)

end

section \<open>What signals leave alone\<close>

text \<open>Everything but the last values and the output.\<close>

definition core :: "('d, 'w) SensorData \<Rightarrow> _" where
  "core data = (lazy data, connected data, running data, drivers_of data, devices_of data,
     udev_devices_of data, clients_of data, invocations_delayed data, event_delayed data, aborted data)"

fun reply_id :: "dbus_out \<Rightarrow> nat list" where
  "reply_id (Signal _ _ _ _) = []"
| "reply_id (Return_value i) = [i]"
| "reply_id (Return_error i _) = [i]"

definition replies :: "('d, 'w) SensorData \<Rightarrow> nat list" where
  "replies data = concat (map reply_id (out data))"

lemma send_out_simps [simp]:
  "core (send_out x data) = core data" "replies (send_out x data) = replies data @ reply_id x"
  by (simp_all add: send_out_def core_def replies_def)

lemma accel_props_core:
  "accel_props k data = (ps, k', data') \<Longrightarrow> core data' = core data \<and> out data' = out data"
  by (auto simp: accel_props_def core_def Let_def split: if_splits)

lemma send_for_client_core [simp]:
  "core (send_dbus_event_for_client c k data) = core data"
  "replies (send_dbus_event_for_client c k data) = replies data"
  by (auto simp: send_dbus_event_for_client_def Let_def replies_def dest: accel_props_core
      split: prod.splits) (auto simp: send_out_def dest: accel_props_core)

lemma fold_send_core:
  "core (fold (\<lambda>(c, k). send_dbus_event_for_client c k) cs data) = core data"
  "replies (fold (\<lambda>(c, k). send_dbus_event_for_client c k) cs data) = replies data"
  by (induction cs arbitrary: data) auto

definition event_mask :: "u32 \<Rightarrow> bool" where
  "event_mask k \<longleftrightarrow> k \<noteq> 0 \<and> (k AND PROP_ALL = 0 \<or> k AND PROP_ALL_COMPASS = 0)"

lemmas prop_defs = PROP_HAS_ACCELEROMETER_def PROP_ACCELEROMETER_ORIENTATION_def
  PROP_HAS_AMBIENT_LIGHT_def PROP_LIGHT_LEVEL_def PROP_HAS_COMPASS_def PROP_COMPASS_HEADING_def
  PROP_HAS_PROXIMITY_def PROP_PROXIMITY_NEAR_def PROP_ACCELEROMETER_TILT_def

lemma event_masks [simp]:
  "event_mask PROP_HAS_ACCELEROMETER" "event_mask PROP_ACCELEROMETER_ORIENTATION"
  "event_mask PROP_HAS_AMBIENT_LIGHT" "event_mask PROP_LIGHT_LEVEL" "event_mask PROP_HAS_COMPASS"
  "event_mask PROP_COMPASS_HEADING" "event_mask PROP_HAS_PROXIMITY" "event_mask PROP_PROXIMITY_NEAR"
  "event_mask PROP_ACCELEROMETER_TILT" "event_mask PROP_ALL" "event_mask PROP_ALL_COMPASS"
  by (simp_all add: event_mask_def PROP_ALL_def PROP_ALL_COMPASS_def prop_defs)

lemma send_dbus_event_core:
  assumes "event_mask k" "connected data"
  shows "core (send_dbus_event k data) = core data" "replies (send_dbus_event k data) = replies data"
  using assms by (auto simp: send_dbus_event_def event_mask_def g_assert_def Let_def fold_send_core)

lemma driver_changed_core:
  assumes "connected data"
  shows "core (send_driver_changed_dbus_event t data) = core data"
    "replies (send_driver_changed_dbus_event t data) = replies data"
  using assms by (cases t; simp add: send_driver_changed_dbus_event_def send_dbus_event_core)+

section \<open>What a reading does\<close>

text \<open>The sensor has started: nobody waits for it any more.\<close>

definition started :: "DriverType \<Rightarrow> ('d, 'w) SensorData \<Rightarrow> ('d, 'w) SensorData" where
  "started t data = data\<lparr>invocations_delayed := (invocations_delayed data)(t := []),
     event_delayed := (event_delayed data)(t := False)\<rparr>"

lemma core_eqD:
  assumes "core a = core b"
  shows "lazy a = lazy b" "connected a = connected b" "running a = running b" "drivers_of a = drivers_of b"
    "devices_of a = devices_of b" "udev_devices_of a = udev_devices_of b" "clients_of a = clients_of b"
    "invocations_delayed a = invocations_delayed b" "event_delayed a = event_delayed b" "aborted a = aborted b"
  using assms by (simp_all add: core_def)

lemma started_core: "core a = core b \<Longrightarrow> core (started t a) = core (started t b)"
  by (simp add: core_def started_def)

lemma started_idem [simp]: "started t (started t data) = started t data"
  by (simp add: started_def)

lemma started_simps [simp]:
  "connected (started t data) = connected data" "replies (started t data) = replies data"
  "invocations_delayed (started t data) t = []" "\<not> event_delayed (started t data) t"
  "clients_of (started t data) = clients_of data" "lazy (started t data) = lazy data"
  by (simp_all add: started_def replies_def)

lemma fold_return:
  "core (fold (\<lambda>i. send_out (f i)) is data) = core data"
  "(\<And>i. reply_id (f i) = [i]) \<Longrightarrow> replies (fold (\<lambda>i. send_out (f i)) is data) = replies data @ is"
  by (induction "is" arbitrary: data) simp_all

lemma notify_core:
  assumes "connected data"
  shows "core (maybe_notify_sensor_startup_finished t data) = core (started t data)"
    "replies (maybe_notify_sensor_startup_finished t data) = replies data @ invocations_delayed data t"
proof -
  let ?d0 = "data\<lparr>invocations_delayed := (invocations_delayed data)(t := [])\<rparr>"
  let ?d1 = "if invocations_delayed data t \<noteq> []
    then fold (\<lambda>i. send_out (Return_value i)) (invocations_delayed data t) ?d0 else data"
  have d0: "replies ?d0 = replies data" by (simp add: replies_def)
  have c: "core ?d1 = core ?d0"
    by (auto simp: fold_return) (simp add: core_def fun_upd_idem)
  have r: "replies ?d1 = replies data @ invocations_delayed data t"
    using d0 by (simp add: fold_return(2) [of Return_value])
  have e: "event_delayed ?d1 = event_delayed data" "connected ?d1"
    using core_eqD(2,9) [OF c] assms by simp_all
  note ch = driver_changed_core [OF e(2), of t]
  have m: "maybe_notify_sensor_startup_finished t data =
      (if event_delayed data t then (send_driver_changed_dbus_event t ?d1)\<lparr>event_delayed :=
          (event_delayed (send_driver_changed_dbus_event t ?d1))(t := False)\<rparr> else ?d1)"
    unfolding maybe_notify_sensor_startup_finished_def Let_def e(1) ..
  show "core (maybe_notify_sensor_startup_finished t data) = core (started t data)"
    using m c ch(1) core_eqD(9) [OF ch(1)] e(1)
    by (cases "event_delayed data t") (simp_all add: core_def started_def fun_upd_idem)
  show "replies (maybe_notify_sensor_startup_finished t data) = replies data @ invocations_delayed data t"
    using m r ch(2) by (simp add: replies_def)
qed

text \<open>Changing a last value and announcing it.\<close>

lemma announce:
  assumes "connected data" "event_mask k" "core data' = core data" "replies data' = replies data"
  shows "core (if b then send_dbus_event k data' else data) = core data"
    "replies (if b then send_dbus_event k data' else data) = replies data"
  using send_dbus_event_core [OF assms(2), of data'] core_eqD(2) [OF assms(3)] assms by simp_all

lemma last_values [simp]:
  "core (data\<lparr>previous_orientation := o'\<rparr>) = core data" "core (data\<lparr>previous_tilt := ti\<rparr>) = core data"
  "core (data\<lparr>previous_level := l, data_uses_lux := u\<rparr>) = core data"
  "core (data\<lparr>previous_heading := l\<rparr>) = core data" "core (data\<lparr>previous_prox_near := u\<rparr>) = core data"
  "replies (data\<lparr>previous_orientation := o'\<rparr>) = replies data" "replies (data\<lparr>previous_tilt := ti\<rparr>) = replies data"
  "replies (data\<lparr>previous_level := l, data_uses_lux := u\<rparr>) = replies data"
  "replies (data\<lparr>previous_heading := l\<rparr>) = replies data" "replies (data\<lparr>previous_prox_near := u\<rparr>) = replies data"
  by (simp_all add: core_def replies_def)

lemma notify_after:
  assumes "connected data" "core data' = core data" "replies data' = replies data"
  shows "core (maybe_notify_sensor_startup_finished t data') = core (started t data)"
    "replies (maybe_notify_sensor_startup_finished t data') = replies data @ invocations_delayed data t"
  using notify_core [of data' t] assms core_eqD [OF assms(2)] started_core [OF assms(2)] by simp_all

lemma callback_core:
  assumes "connected data" "reading_type r = t"
  shows "core (driver_type_to_callback_func m t r data) = core (started t data)"
    "replies (driver_type_to_callback_func m t r data) = replies data @ invocations_delayed data t"
proof -
  have "core (driver_type_to_callback_func m t r data) = core (started t data) \<and>
    replies (driver_type_to_callback_func m t r data) = replies data @ invocations_delayed data t"
  proof (cases r)
    case (AccelR a)
    let ?o = "orientation_calc m (previous_orientation data) (accel_x a) (accel_y a) (accel_z a) (accel_scale a)"
    let ?d = "if previous_orientation data \<noteq> ?o
      then send_dbus_event PROP_ACCELEROMETER_ORIENTATION (data\<lparr>previous_orientation := ?o\<rparr>) else data"
    have d: "core ?d = core data" "replies ?d = replies data"
      using announce [OF assms(1), of PROP_ACCELEROMETER_ORIENTATION "data\<lparr>previous_orientation := ?o\<rparr>"] by simp_all
    have "connected ?d" using core_eqD(2) [OF d(1)] assms(1) by simp
    note tl = announce [OF this, of PROP_ACCELEROMETER_TILT]
    show ?thesis
      using AccelR assms(2) notify_after [OF assms(1)] d tl
      by (auto simp: driver_type_to_callback_func_def accel_changed_func_def Let_def)
  next
    case (LightR l)
    then show ?thesis
      using assms(2) notify_after [OF assms(1)] announce [OF assms(1), of PROP_LIGHT_LEVEL]
      by (auto simp: driver_type_to_callback_func_def light_changed_func_def)
  next
    case (CompassR h)
    then show ?thesis
      using assms(2) notify_after [OF assms(1)] announce [OF assms(1), of PROP_COMPASS_HEADING]
      by (auto simp: driver_type_to_callback_func_def compass_changed_func_def)
  next
    case (ProximityR p)
    then show ?thesis
      using assms(2) notify_after [OF assms(1)] announce [OF assms(1), of PROP_PROXIMITY_NEAR]
      by (auto simp: driver_type_to_callback_func_def proximity_changed_func_def Let_def)
  qed
  then show "core (driver_type_to_callback_func m t r data) = core (started t data)"
    "replies (driver_type_to_callback_func m t r data) = replies data @ invocations_delayed data t" by simp_all
qed

lemma callbacks_core:
  assumes "connected data" "readings_of_type t rs"
  shows "core (fold (driver_type_to_callback_func m t) rs data) = core (if rs = [] then data else started t data)"
    "replies (fold (driver_type_to_callback_func m t) rs data)
       = replies data @ (if rs = [] then [] else invocations_delayed data t)"
proof -
  have "core (fold (driver_type_to_callback_func m t) rs data) = core (if rs = [] then data else started t data) \<and>
    replies (fold (driver_type_to_callback_func m t) rs data)
       = replies data @ (if rs = [] then [] else invocations_delayed data t)"
    using assms
  proof (induction rs arbitrary: data)
    case (Cons r rs)
    let ?d = "driver_type_to_callback_func m t r data"
    have r: "reading_type r = t" "readings_of_type t rs" using Cons.prems(2) by (simp_all add: readings_of_type_def)
    note c = callback_core [OF Cons.prems(1) r(1), of m]
    have d: "connected ?d" "invocations_delayed ?d t = []"
      using core_eqD(2,8) [OF c(1)] Cons.prems(1) by simp_all
    show ?case
      using Cons.IH [OF d(1) r(2)] c d(2) started_core [OF c(1), of t] by (cases "rs = []") simp_all
  qed simp
  then show "core (fold (driver_type_to_callback_func m t) rs data) = core (if rs = [] then data else started t data)"
    "replies (fold (driver_type_to_callback_func m t) rs data)
       = replies data @ (if rs = [] then [] else invocations_delayed data t)" by simp_all
qed

section \<open>The invariant\<close>

text \<open>
  A sensor type is absent, with no trace of it left, or served: by a driver of that type from the
  table, with an open device in a good state and the udev device it was found at.
\<close>

definition type_inv :: "('d, 'w) SensorDriver list \<Rightarrow> ('d \<Rightarrow> bool) \<Rightarrow> ('d, 'w) SensorData \<Rightarrow> DriverType \<Rightarrow> bool" where
  "type_inv drivers good data t = (case drivers_of data t of
     None \<Rightarrow> devices_of data t = None \<and> udev_devices_of data t = None \<and>
       invocations_delayed data t = [] \<and> \<not> event_delayed data t
   | Some drv \<Rightarrow> drv \<in> set drivers \<and> drv_type drv = t \<and> udev_devices_of data t \<noteq> None \<and>
       (\<exists>sd. devices_of data t = Some sd \<and> sd_drv sd = drv \<and> good (sd_priv sd)))"

definition proxy_inv :: "('d, 'w) SensorDriver list \<Rightarrow> ('d \<Rightarrow> bool) \<Rightarrow> ('d, 'w) SensorData \<Rightarrow> bool" where
  "proxy_inv drivers good data \<longleftrightarrow> connected data \<and> \<not> aborted data \<and> (\<forall>t. type_inv drivers good data t)"

definition pending :: "('d, 'w) SensorData \<Rightarrow> nat multiset" where
  "pending data = mset (concat (map (invocations_delayed data) sensor_types))"

text \<open>Nobody waits for a first reading.\<close>

definition idle :: "('d, 'w) SensorData \<Rightarrow> bool" where
  "idle data \<longleftrightarrow> (\<forall>t. invocations_delayed data t = [] \<and> \<not> event_delayed data t)"

text \<open>The method calls the daemon owes or has given an answer.\<close>

definition accounted :: "('d, 'w) SensorData \<Rightarrow> nat multiset" where
  "accounted data = mset (replies data) + pending data"

definition type_view :: "('d, 'w) SensorData \<Rightarrow> DriverType \<Rightarrow> _" where
  "type_view data t = (drivers_of data t, devices_of data t, udev_devices_of data t,
     invocations_delayed data t, event_delayed data t)"

lemma type_inv_view: "type_view a t = type_view b t \<Longrightarrow> type_inv drivers good a t = type_inv drivers good b t"
  by (simp add: type_view_def type_inv_def cong: option.case_cong)

text \<open>An operation that only changes one type keeps the invariant if it keeps it for that type.\<close>

lemma proxy_inv_at:
  assumes "proxy_inv drivers good data" "connected data' = connected data" "aborted data' = aborted data"
    and "\<And>t'. t' \<noteq> t \<Longrightarrow> type_view data' t' = type_view data t'" "type_inv drivers good data' t"
  shows "proxy_inv drivers good data'"
proof -
  have "type_inv drivers good data' t'" for t'
    using assms type_inv_view [of data' t' data] by (cases "t' = t") (simp_all add: proxy_inv_def)
  then show ?thesis using assms by (simp add: proxy_inv_def)
qed

lemma proxy_invD:
  "proxy_inv drivers good data \<Longrightarrow> type_inv drivers good data t"
  "proxy_inv drivers good data \<Longrightarrow> connected data" "proxy_inv drivers good data \<Longrightarrow> \<not> aborted data"
  by (simp_all add: proxy_inv_def)

lemma proxy_inv_core: "core a = core b \<Longrightarrow> proxy_inv drivers good a = proxy_inv drivers good b"
  by (simp add: core_def proxy_inv_def type_inv_def cong: option.case_cong)

lemma proxy_inv_clients [simp]:
  "proxy_inv drivers good (data\<lparr>clients_of := c\<rparr>) = proxy_inv drivers good data"
  by (simp add: proxy_inv_def type_inv_def cong: option.case_cong)

lemma pending_core: "core a = core b \<Longrightarrow> pending a = pending b"
  by (simp add: core_def pending_def)

lemma pending_upd:
  "invocations_delayed data' = (invocations_delayed data)(t := l) \<Longrightarrow>
     pending data' + mset (invocations_delayed data t) = pending data + mset l"
  by (cases t) (simp_all add: pending_def sensor_types_def)

lemma proxy_inv_started:
  assumes "proxy_inv drivers good data"
  shows "proxy_inv drivers good (started t data)"
  by (rule proxy_inv_at [OF assms, of _ t])
    (use proxy_invD(1) [OF assms, of t] in \<open>auto simp: type_inv_def type_view_def started_def split: option.splits\<close>)

lemma accounted_started:
  "pending (started t data) + mset (invocations_delayed data t) = pending data"
  using pending_upd [of "started t data" data t "[]"] by (simp add: started_def)

locale sensor_proxy =
  fixes drivers :: "('d, 'w) SensorDriver list" and good :: "'d \<Rightarrow> bool"
  assumes contract: "drv \<in> set drivers \<Longrightarrow> sensor_driver drv good"
begin

abbreviation inv :: "('d, 'w) SensorData \<Rightarrow> bool" where
  "inv \<equiv> proxy_inv drivers good"

lemma inv_device:
  assumes "inv data" "drivers_of data t = Some drv"
  obtains sd where "devices_of data t = Some sd" "sensor_driver.good_device drv good sd"
    "sensor_driver drv good" "drv_type drv = t"
proof -
  have t: "type_inv drivers good data t" using assms(1) by (simp add: proxy_inv_def)
  then have "drv \<in> set drivers" using assms(2) by (simp add: type_inv_def)
  from contract [OF this] show ?thesis
    using that t assms(2) by (auto simp: type_inv_def sensor_driver.good_device_def)
qed

lemma set_polling_ok:
  assumes "inv data" "driver_type_exists data t"
  shows "inv (fst (set_polling_type m t b (data, w)))"
    "accounted (fst (set_polling_type m t b (data, w))) = accounted data"
    "clients_of (fst (set_polling_type m t b (data, w))) = clients_of data"
proof -
  obtain drv where d: "drivers_of data t = Some drv" using assms(2) by (auto simp: driver_type_exists_def)
  obtain sd where sd: "devices_of data t = Some sd" "sensor_driver.good_device drv good sd"
    "sensor_driver drv good" "drv_type drv = t" by (rule inv_device [OF assms(1) d])
  obtain sd' rs w' where p: "driver_set_polling sd b w = (sd', rs, w')" by (metis prod_cases3)
  note g = sensor_driver.driver_set_polling_good [OF sd(3,2) p]
  let ?d = "data\<lparr>devices_of := (devices_of data)(t \<mapsto> sd')\<rparr>"
  have "sd_drv sd' = drv \<and> good (sd_priv sd')" using g(1) sd(3) by (simp add: sensor_driver.good_device_def)
  then have i: "inv ?d"
    by (intro proxy_inv_at [OF assms(1), of _ t])
      (use proxy_invD(1) [OF assms(1), of t] d in \<open>auto simp: type_inv_def type_view_def\<close>)
  have r: "fst (set_polling_type m t b (data, w)) = fold (driver_type_to_callback_func m t) rs ?d"
    by (simp add: set_polling_type_def sd(1) p)
  have "connected ?d" using assms(1) by (simp add: proxy_inv_def)
  note c = callbacks_core [OF this g(2) [unfolded sd(4)], of m]
  show "inv (fst (set_polling_type m t b (data, w)))"
    unfolding r proxy_inv_core [OF c(1)] using i proxy_inv_started [OF i] by simp
  show "clients_of (fst (set_polling_type m t b (data, w))) = clients_of data"
    unfolding r core_eqD(7) [OF c(1)] by simp
  have "pending ?d = pending data" "replies ?d = replies data" by (simp_all add: pending_def replies_def)
  then show "accounted (fst (set_polling_type m t b (data, w))) = accounted data"
    unfolding accounted_def r c(2) pending_core [OF c(1)]
    using accounted_started [of t ?d] by (cases "rs = []") (simp_all add: union_assoc add.commute)
qed

lemma client_release_ok:
  assumes "inv data"
  shows "inv (fst (client_release bus m sender t (data, w)))"
    "accounted (fst (client_release bus m sender t (data, w))) = accounted data"
proof -
  let ?d = "data\<lparr>clients_of := (clients_of data)(t := filter (\<lambda>e. fst e \<noteq> sender) (clients_of data t))\<rparr>"
  have i: "inv ?d" using assms by simp
  have a: "accounted ?d = accounted data" by (simp add: accounted_def pending_def replies_def)
  show "inv (fst (client_release bus m sender t (data, w)))"
    "accounted (fst (client_release bus m sender t (data, w))) = accounted data"
    using set_polling_ok [OF i, of t m False] assms i a
    by (auto simp: client_release_def Let_def)
qed

lemma vanished_ok:
  assumes "inv data"
  shows "inv (fst (client_vanished_cb bus m name (data, w))) \<and>
    accounted (fst (client_vanished_cb bus m name (data, w))) = accounted data"
proof -
  have "inv (fst (fold (\<lambda>t s. if 0 < client_watch (fst s) t sender then client_release bus m sender t s else s) ts s))
      \<and> accounted (fst (fold (\<lambda>t s. if 0 < client_watch (fst s) t sender then client_release bus m sender t s else s) ts s))
        = accounted (fst s)" if "inv (fst s)" for ts s sender
    using that
  proof (induction ts arbitrary: s)
    case (Cons t ts)
    obtain data w where s: "s = (data, w)" by fastforce
    show ?case using Cons client_release_ok [of data bus m sender t w] s by auto
  qed simp
  from this [of "(data, w)"] show ?thesis
    using assms by (auto simp: client_vanished_cb_def split: option.splits)
qed

lemma inv_send_out: "inv (send_out x data) = inv data"
  by (rule proxy_inv_core) simp

lemma accounted_send_out: "accounted (send_out x data) = accounted data + mset (reply_id x)"
  by (simp add: accounted_def pending_core [of "send_out x data" data] union_assoc union_commute union_lcomm)

lemma inv_delay:
  assumes "inv data" "driver_type_exists data t"
  shows "inv (delay_invocation t i data)" "accounted (delay_invocation t i data) = add_mset i (accounted data)"
proof -
  show "inv (delay_invocation t i data)"
    by (rule proxy_inv_at [OF assms(1), of _ t])
      (use proxy_invD(1) [OF assms(1), of t] assms(2) in
        \<open>auto simp: type_inv_def type_view_def delay_invocation_def driver_type_exists_def\<close>)
  have "pending (delay_invocation t i data) = add_mset i (pending data)"
    using pending_upd [of "delay_invocation t i data" data t "invocations_delayed data t @ [i]"]
    by (simp add: delay_invocation_def)
  then show "accounted (delay_invocation t i data) = add_mset i (accounted data)"
    by (simp add: accounted_def delay_invocation_def replies_def)
qed

lemma claim_ok:
  assumes "inv data"
  shows "inv (fst (handle_claim bus m sender i t (data, w)))"
    "accounted (fst (handle_claim bus m sender i t (data, w))) = add_mset i (accounted data)"
proof -
  obtain wid w1 where n: "watch_name bus sender w = (wid, w1)" by fastforce
  let ?d = "data\<lparr>clients_of := (clients_of data)(t := table_insert sender wid (clients_of data t))\<rparr>"
  have d: "inv ?d" "accounted ?d = accounted data" "driver_type_exists ?d t = driver_type_exists data t"
    using assms by (simp_all add: accounted_def pending_def replies_def driver_type_exists_def)
  have p: "inv (fst (set_polling_type m t True (delay_invocation t i ?d, w1))) \<and>
      accounted (fst (set_polling_type m t True (delay_invocation t i ?d, w1))) = add_mset i (accounted data)"
    if "driver_type_exists data t"
    using set_polling_ok [of "delay_invocation t i ?d" t m True w1] inv_delay [OF d(1), of t i] d(2,3) that
    by (simp add: driver_type_exists_def delay_invocation_def)
  show "inv (fst (handle_claim bus m sender i t (data, w)))"
    using assms d(1,3) inv_delay(1) [OF d(1), of t i] p
    by (auto simp: handle_claim_def n inv_send_out Let_def)
  show "accounted (fst (handle_claim bus m sender i t (data, w))) = add_mset i (accounted data)"
    using d inv_delay(2) [OF d(1), of t i] p
    by (auto simp: handle_claim_def n accounted_send_out Let_def)
qed

lemma call_ok:
  assumes "inv data" "\<And>n t. types n = Some t \<Longrightarrow> has_prefix n ''Claim'' \<or> has_prefix n ''Release''"
  shows "inv (fst (handle_call types bus m sender n i (data, w)))"
    "accounted (fst (handle_call types bus m sender n i (data, w))) = add_mset i (accounted data)"
proof -
  have g: "inv (fst (handle_generic_method_call bus m sender n i t (data, w1))) \<and>
      accounted (fst (handle_generic_method_call bus m sender n i t (data, w1))) = add_mset i (accounted data)"
    if "types n = Some t" for t w1
    using assms(2) [OF that] claim_ok [OF assms(1)] client_release_ok [OF assms(1), of bus m sender t w1]
    by (auto simp: handle_generic_method_call_def inv_send_out accounted_send_out split: prod.splits)
  show "inv (fst (handle_call types bus m sender n i (data, w)))"
    "accounted (fst (handle_call types bus m sender n i (data, w))) = add_mset i (accounted data)"
    using assms(1) g
    by (auto simp: handle_call_def inv_send_out accounted_send_out Let_def split: option.splits prod.splits)
qed

lemma driver_changed_ok:
  assumes "inv data"
  shows "inv (send_driver_changed_dbus_event t data)"
    "accounted (send_driver_changed_dbus_event t data) = accounted data"
proof -
  note c = driver_changed_core [OF proxy_invD(2) [OF assms], of t]
  show "inv (send_driver_changed_dbus_event t data)" using assms by (simp add: proxy_inv_core [OF c(1)])
  show "accounted (send_driver_changed_dbus_event t data) = accounted data"
    by (simp add: accounted_def c(2) pending_core [OF c(1)])
qed

lemma add_device_ok:
  assumes "set ds \<subseteq> set drivers" "inv data"
  shows "inv (fst (add_device m ds device (data, w))) \<and>
    accounted (fst (add_device m ds device (data, w))) = accounted data"
  using assms
proof (induction ds arbitrary: w)
  case (Cons drv ds)
  let ?t = "drv_type drv"
  show ?case
  proof (cases "driver_type_exists data ?t")
    case True
    then show ?thesis using Cons by simp
  next
    case absent: False
    obtain ok w1 where d: "driver_discover drv device w = (ok, w1)" by fastforce
    obtain osd w2 where o: "driver_open drv device w1 = (osd, w2)" by fastforce
    show ?thesis
    proof (cases "ok \<and> osd \<noteq> None")
      case False
      then show ?thesis using Cons absent d o by (cases ok; cases osd) auto
    next
      case True
      then obtain sd where sd: "ok" "osd = Some sd" by auto
      have drv: "drv \<in> set drivers" using Cons.prems(1) by simp
      have g: "sd_drv sd = drv" "good (sd_priv sd)"
        using sensor_driver.driver_open_good [OF contract [OF drv]] o sd contract [OF drv]
        by (auto simp: sensor_driver.good_device_def)
      let ?d = "data\<lparr>udev_devices_of := (udev_devices_of data)(?t \<mapsto> device),
        devices_of := (devices_of data)(?t \<mapsto> sd), drivers_of := (drivers_of data)(?t \<mapsto> drv)\<rparr>"
      have q: "\<not> event_delayed data ?t"
        using proxy_invD(1) [OF Cons.prems(2), of ?t] absent by (simp add: type_inv_def driver_type_exists_def)
      have i: "inv ?d"
        by (rule proxy_inv_at [OF Cons.prems(2), of _ ?t]) (use drv g in \<open>simp_all add: type_inv_def type_view_def\<close>)
      have e: "inv (?d\<lparr>event_delayed := (event_delayed ?d)(?t := True)\<rparr>)"
        by (rule proxy_inv_at [OF i, of _ ?t]) (use drv g in \<open>simp_all add: type_inv_def type_view_def\<close>)
      have a: "accounted ?d = accounted data" "accounted (?d\<lparr>event_delayed := f\<rparr>) = accounted data" for f
        by (simp_all add: accounted_def pending_def replies_def)
      have x: "driver_type_exists ?d ?t" "driver_type_exists (?d\<lparr>event_delayed := f\<rparr>) ?t"
        "driver_type_exists (send_driver_changed_dbus_event ?t ?d) ?t" for f
        using core_eqD(4) [OF driver_changed_core(1) [OF proxy_invD(2) [OF i], of ?t]]
        by (simp_all add: driver_type_exists_def)
      note c = driver_changed_ok [OF i, of ?t]
      show ?thesis
        using absent d o sd q set_polling_ok [OF e x(2)] set_polling_ok [OF c(1) x(3)] c a
        by (simp add: g_assert_def Let_def)
    qed
  qed
qed simp

lemma remove_type_ok:
  assumes "inv data"
  shows "inv (fst (remove_type bus m device t (data, w)))"
    "accounted (fst (remove_type bus m device t (data, w))) = accounted data"
proof -
  have "inv (fst (remove_type bus m device t (data, w))) \<and>
    accounted (fst (remove_type bus m device t (data, w))) = accounted data"
  proof (cases "\<exists>dev. udev_devices_of data t = Some dev \<and> sysfs_path device = sysfs_path dev")
    case False
    then show ?thesis using assms by (auto simp: remove_type_def split: option.splits)
  next
    case True
    have "drivers_of data t \<noteq> None"
      using proxy_invD(1) [OF assms, of t] True by (auto simp: type_inv_def split: option.splits)
    then obtain drv where drv: "drivers_of data t = Some drv" by blast
    obtain sd where sd: "devices_of data t = Some sd" "sensor_driver.good_device drv good sd"
      "sensor_driver drv good" "drv_type drv = t" by (rule inv_device [OF assms drv])
    obtain rs w1 where cl: "driver_close sd w = (rs, w1)" by fastforce
    note ty = sensor_driver.driver_close_typed [OF sd(3,2) cl, unfolded sd(4)]
    let ?d0 = "data\<lparr>udev_devices_of := (udev_devices_of data)(t := None)\<rparr>"
    let ?d1 = "fold (driver_type_to_callback_func m t) rs ?d0"
    have "connected ?d0" using proxy_invD(2) [OF assms] by simp
    note c = callbacks_core [OF this ty, of m]
    let ?d2 = "?d1\<lparr>devices_of := (devices_of ?d1)(t := None), drivers_of := (drivers_of ?d1)(t := None)\<rparr>"
    let ?d3 = "?d2\<lparr>clients_of := (clients_of ?d2)(t := []), event_delayed := (event_delayed ?d2)(t := False)\<rparr>"
    let ?d4 = "?d3\<lparr>invocations_delayed := (invocations_delayed ?d3)(t := [])\<rparr>"
    let ?d5 = "fold (\<lambda>i. send_out (Return_error i ERROR_FAILED)) (invocations_delayed ?d3 t) ?d4"
    have eqs: "connected ?d1 = connected data" "aborted ?d1 = aborted data"
      "\<And>t'. t' \<noteq> t \<Longrightarrow> type_view ?d1 t' = type_view data t'"
      using core_eqD [OF c(1)] by (auto simp: type_view_def started_def)
    have i4: "inv ?d4"
      by (rule proxy_inv_at [OF assms, of _ t])
        (use eqs core_eqD(6) [OF c(1)] in \<open>simp_all add: type_inv_def type_view_def started_def split: if_splits\<close>)
    note f = fold_return [of "\<lambda>i. Return_error i ERROR_FAILED" "invocations_delayed ?d3 t" ?d4]
    have i5: "inv ?d5" using i4 proxy_inv_core [OF f(1)] by blast
    have "pending ?d4 + mset (invocations_delayed ?d1 t) = pending ?d1"
      using pending_upd [of ?d4 ?d1 t "[]"] by simp
    moreover have "replies ?d5 = replies ?d1 @ invocations_delayed ?d1 t"
      using f(2) by (simp add: replies_def)
    ultimately have a5: "accounted ?d5 = accounted ?d1"
      using pending_core [OF f(1)] by (simp add: accounted_def add.commute)
    have "pending ?d0 = pending data" "replies ?d0 = replies data" by (simp_all add: pending_def replies_def)
    then have a1: "accounted ?d1 = accounted data"
      unfolding accounted_def c(2) pending_core [OF c(1)]
      using accounted_started [of t ?d0] by (cases "rs = []") (simp_all add: union_assoc add.commute)
    have "fst (remove_type bus m device t (data, w)) = send_driver_changed_dbus_event t ?d5"
      using True by (auto simp: remove_type_def close_type_def sd(1) cl Let_def)
    then show ?thesis using driver_changed_ok [OF i5, of t] a5 a1 by simp
  qed
  then show "inv (fst (remove_type bus m device t (data, w)))"
    "accounted (fst (remove_type bus m device t (data, w))) = accounted data" by simp_all
qed

lemma fold_types_ok:
  assumes "\<And>t data w. inv data \<Longrightarrow> inv (fst (f t (data, w))) \<and> accounted (fst (f t (data, w))) = accounted data"
  shows "inv data \<Longrightarrow> inv (fst (fold f ts (data, w))) \<and> accounted (fst (fold f ts (data, w))) = accounted data"
proof (induction ts arbitrary: data w)
  case (Cons t ts)
  obtain data' w' where f: "f t (data, w) = (data', w')" by fastforce
  then show ?case using Cons assms [OF Cons.prems, of t w] by simp
qed simp

lemma changes_ok:
  assumes "inv data"
  shows "inv (fst (sensor_changes bus drivers m action device (data, w))) \<and>
    accounted (fst (sensor_changes bus drivers m action device (data, w))) = accounted data"
proof -
  have r: "inv (fst (fold (remove_type bus m device) sensor_types (data, w))) \<and>
      accounted (fst (fold (remove_type bus m device) sensor_types (data, w))) = accounted data"
    by (rule fold_types_ok) (use remove_type_ok assms in auto)
  have "inv (d\<lparr>running := b\<rparr>) = inv d" "accounted (d\<lparr>running := b\<rparr>) = accounted d" for d b
    by (simp_all add: proxy_inv_def type_inv_def accounted_def pending_def replies_def cong: option.case_cong)
  then show ?thesis
    using r add_device_ok [OF subset_refl assms, of m device w] assms
    by (auto simp: sensor_changes_def Let_def split: prod.splits)
qed

text \<open>Before the devices are opened: a driver may be chosen, nothing else is there.\<close>

definition found_inv :: "('d, 'w) SensorData \<Rightarrow> DriverType \<Rightarrow> bool" where
  "found_inv data t \<longleftrightarrow> devices_of data t = None \<and> \<not> event_delayed data t \<and>
     (case drivers_of data t of None \<Rightarrow> udev_devices_of data t = None
      | Some drv \<Rightarrow> drv \<in> set drivers \<and> drv_type drv = t \<and> udev_devices_of data t \<noteq> None)"

definition mid_open :: "DriverType set \<Rightarrow> ('d, 'w) SensorData \<Rightarrow> bool" where
  "mid_open S data \<longleftrightarrow> connected data \<and> \<not> aborted data \<and> replies data = [] \<and>
     idle data \<and>
     (\<forall>t. if t \<in> S then type_inv drivers good data t else found_inv data t)"

lemma mid_open_view:
  assumes "mid_open S data" "connected data' = connected data" "aborted data' = aborted data"
    "replies data' = []" "idle data'"
    "\<And>t'. t' \<noteq> t \<Longrightarrow> type_view data' t' = type_view data t'"
    "if t \<in> S' then type_inv drivers good data' t else found_inv data' t" "S' = S \<or> S' = insert t S"
  shows "mid_open S' data'"
proof -
  have "if t' \<in> S' then type_inv drivers good data' t' else found_inv data' t'" for t'
  proof (cases "t' = t")
    case False
    then have v: "type_view data' t' = type_view data t'" using assms(6) by blast
    then have "found_inv data' t' = found_inv data t'" by (simp add: found_inv_def type_view_def cong: option.case_cong)
    then show ?thesis using assms(1,8) type_inv_view [OF v] False by (auto simp: mid_open_def)
  qed (use assms(7) in simp)
  then show ?thesis using assms by (simp add: mid_open_def)
qed

lemma try_driver_opening:
  assumes "drv \<in> set drivers" "mid_open {} data" "try_driver dev drv (found, data, w) = (found', data', w')"
  shows "mid_open {} data'"
proof -
  have "mid_open {} (data\<lparr>udev_devices_of := (udev_devices_of data)(drv_type drv \<mapsto> dev),
      drivers_of := (drivers_of data)(drv_type drv \<mapsto> drv)\<rparr>)" if "\<not> driver_type_exists data (drv_type drv)"
    by (rule mid_open_view [OF assms(2), of _ "drv_type drv"])
      (use assms(1,2) in \<open>auto simp: mid_open_def idle_def found_inv_def type_view_def replies_def\<close>)
  then show ?thesis
    using assms(2,3) by (auto simp: try_driver_def Let_def split: if_splits prod.splits)
qed

lemma fold_try_opening:
  "set ds \<subseteq> set drivers \<Longrightarrow> mid_open {} (fst (snd s)) \<Longrightarrow> mid_open {} (fst (snd (fold (try_driver dev) ds s)))"
proof (induction ds arbitrary: s)
  case (Cons drv ds)
  obtain f data w where s: "s = (f, data, w)" by (metis prod_cases3)
  obtain f' data' w' where r: "try_driver dev drv (f, data, w) = (f', data', w')" by (metis prod_cases3)
  have "mid_open {} data'" using try_driver_opening [OF _ _ r] Cons.prems s by simp
  then show ?case using Cons.IH [of "(f', data', w')"] Cons.prems(1) s r by simp
qed simp

lemma find_sensors_opening:
  "mid_open {} (fst (snd s)) \<Longrightarrow> mid_open {} (fst (snd (find_sensors_loop drivers devs s)))"
proof (induction devs arbitrary: s)
  case (Cons dev devs)
  then show ?case using fold_try_opening [of drivers s dev] by (simp add: Let_def)
qed simp

lemma open_type_opening:
  assumes "mid_open S data" "t \<notin> S"
  shows "mid_open (insert t S) (fst (open_type m t (data, w)))"
proof -
  let ?d = "data\<lparr>invocations_delayed := (invocations_delayed data)(t := [])\<rparr>"
  have t: "found_inv data t" "invocations_delayed data t = []" "replies data = []" "connected data"
    using assms by (auto simp: mid_open_def idle_def)
  show ?thesis
  proof (cases "drivers_of data t")
    case None
    have "mid_open (insert t S) ?d"
      by (rule mid_open_view [OF assms(1), of _ t])
        (use t None assms(1) in \<open>auto simp: mid_open_def idle_def found_inv_def type_inv_def type_view_def replies_def\<close>)
    then show ?thesis using None by (simp add: open_type_def)
  next
    case (Some drv)
    then obtain dev where dev: "udev_devices_of data t = Some dev" and drv: "drv \<in> set drivers" "drv_type drv = t"
      using t(1) by (auto simp: found_inv_def)
    obtain osd w1 where o: "driver_open drv dev w = (osd, w1)" by fastforce
    show ?thesis
    proof (cases osd)
      case None
      have "mid_open (insert t S) (?d\<lparr>drivers_of := (drivers_of ?d)(t := None), udev_devices_of := (udev_devices_of ?d)(t := None)\<rparr>)"
        by (rule mid_open_view [OF assms(1), of _ t])
          (use t assms(1) in \<open>auto simp: mid_open_def idle_def found_inv_def type_inv_def type_view_def replies_def\<close>)
      then show ?thesis using Some None dev o by (simp add: open_type_def)
    next
      case sd: (Some sd)
      note c = contract [OF drv(1)]
      have g: "sensor_driver.good_device drv good sd" using sensor_driver.driver_open_good [OF c] o sd by simp
      obtain sd' rs w2 where p: "driver_set_polling sd True w1 = (sd', rs, w2)" by (metis prod_cases3)
      note g' = sensor_driver.driver_set_polling_good [OF c g p]
      have gd: "sd_drv sd = drv" "good (sd_priv sd)" "sd_drv sd' = drv" "good (sd_priv sd')"
        using g g'(1) c by (simp_all add: sensor_driver.good_device_def)
      let ?d1 = "?d\<lparr>devices_of := (devices_of ?d)(t \<mapsto> sd)\<rparr>"
      let ?d2 = "?d1\<lparr>devices_of := (devices_of ?d1)(t \<mapsto> sd')\<rparr>"
      have cd: "connected ?d2" using t(4) by simp
      note cc = callbacks_core [OF cd g'(2) [unfolded drv(2)], of m]
      let ?d3 = "fold (driver_type_to_callback_func m t) rs ?d2"
      have o1: "mid_open (insert t S) ?d1"
        by (rule mid_open_view [OF assms(1), of _ t])
          (use t Some dev drv gd assms(1) in \<open>auto simp: mid_open_def idle_def type_inv_def type_view_def replies_def\<close>)
      have "replies ?d2 = []" using t(3) by (simp add: replies_def)
      then have r3: "replies ?d3 = []" using cc(2) by simp
      have "mid_open (insert t S) ?d3"
        by (rule mid_open_view [OF assms(1), of _ t])
          (use core_eqD [OF cc(1)] r3 t Some dev drv gd assms(1) in
            \<open>auto simp: mid_open_def idle_def type_inv_def type_view_def started_def split: if_splits\<close>)
      then show ?thesis using Some sd dev o p o1 by (simp add: open_type_def set_polling_type_def Let_def)
    qed
  qed
qed

lemma open_types_mid:
  "mid_open S data \<Longrightarrow> distinct ts \<Longrightarrow> set ts \<inter> S = {} \<Longrightarrow>
     mid_open (S \<union> set ts) (fst (fold (open_type m) ts (data, w)))"
proof (induction ts arbitrary: S data w)
  case (Cons t ts)
  obtain data' w' where o: "open_type m t (data, w) = (data', w')" by fastforce
  have "mid_open (insert t S) data'"
    using open_type_opening [OF Cons.prems(1), of t m w] Cons.prems(3) o by simp
  then show ?case using Cons.IH [of "insert t S" data' w'] Cons.prems(2,3) o by simp
qed simp

lemma sensor_types_all: "set sensor_types = UNIV" "distinct sensor_types"
proof -
  have "t \<in> set sensor_types" for t by (cases t) (simp_all add: sensor_types_def)
  then show "set sensor_types = UNIV" by blast
qed (simp add: sensor_types_def)

lemma send_event_ok:
  assumes "inv data" "event_mask k"
  shows "inv (send_dbus_event k data)" "accounted (send_dbus_event k data) = accounted data"
    "idle (send_dbus_event k data) = idle data"
proof -
  note c = send_dbus_event_core [OF assms(2) proxy_invD(2) [OF assms(1)]]
  show "inv (send_dbus_event k data)" using assms(1) proxy_inv_core [OF c(1)] by blast
  show "accounted (send_dbus_event k data) = accounted data" by (simp add: accounted_def c(2) pending_core [OF c(1)])
  show "idle (send_dbus_event k data) = idle data" using core_eqD(8,9) [OF c(1)] by (simp add: idle_def)
qed

lemma acquired_ok:
  assumes "name_acquired_handler drivers q m (bus_acquired_handler (main_data lz), w) = (data, w')" "running data"
  shows "inv data" "accounted data = {#}" "idle data"
proof -
  let ?d0 = "bus_acquired_handler (main_data lz) :: ('d, 'w) SensorData"
  obtain found d1 w1 where f: "find_sensors drivers q ?d0 w = (found, d1, w1)" by (metis prod_cases3)
  obtain d2 w2 where o: "fold (open_type m) sensor_types (d1, w1) = (d2, w2)" by fastforce
  have "mid_open {} ?d0"
    by (simp add: mid_open_def idle_def found_inv_def bus_acquired_handler_def main_data_def replies_def)
  then have "mid_open {} d1"
    using find_sensors_opening [of "(False, ?d0, w)"] f unfolding find_sensors_def by (metis fst_conv snd_conv)
  then have m: "mid_open UNIV d2"
    using open_types_mid [of "{}" d1 sensor_types m w1] o sensor_types_all by simp
  then have i2: "inv d2" "accounted d2 = {#}" "idle d2"
    by (auto simp: mid_open_def idle_def proxy_inv_def accounted_def pending_def sensor_types_def)
  have "data = send_dbus_event PROP_ALL_COMPASS (send_dbus_event PROP_ALL d2)"
    using assms f o by (auto simp: name_acquired_handler_def bail_def Let_def split: if_splits)
  then show "inv data" "accounted data = {#}" "idle data"
    using send_event_ok [OF send_event_ok(1) [OF i2(1), of PROP_ALL], of PROP_ALL_COMPASS]
      send_event_ok [OF i2(1), of PROP_ALL] i2(2,3) by simp_all
qed

lemma readings_ok:
  assumes "inv data" "devices_of data t = Some sd" "sd_drv sd' = sd_drv sd" "good (sd_priv sd')"
    "readings_of_type t rs"
  shows "inv (fold (driver_type_to_callback_func m t) rs (data\<lparr>devices_of := (devices_of data)(t \<mapsto> sd')\<rparr>))"
    "accounted (fold (driver_type_to_callback_func m t) rs (data\<lparr>devices_of := (devices_of data)(t \<mapsto> sd')\<rparr>))
       = accounted data"
proof -
  let ?d = "data\<lparr>devices_of := (devices_of data)(t \<mapsto> sd')\<rparr>"
  have i: "inv ?d"
    by (rule proxy_inv_at [OF assms(1), of _ t])
      (use proxy_invD(1) [OF assms(1), of t] assms(2-4) in \<open>auto simp: type_inv_def type_view_def split: option.splits\<close>)
  note c = callbacks_core [OF proxy_invD(2) [OF i] assms(5), of m]
  show "inv (fold (driver_type_to_callback_func m t) rs ?d)"
    using i proxy_inv_started [OF i] proxy_inv_core [OF c(1)] by (cases "rs = []") simp_all
  have "pending ?d = pending data" "replies ?d = replies data" by (simp_all add: pending_def replies_def)
  then show "accounted (fold (driver_type_to_callback_func m t) rs ?d) = accounted data"
    unfolding accounted_def c(2) pending_core [OF c(1)]
    using accounted_started [of t ?d] by (cases "rs = []") (simp_all add: union_assoc add.commute)
qed

end

section \<open>Reachable states\<close>

text \<open>
  The daemon's life after its name was acquired: method calls, clients that vanish, udev events, and
  readings a driver passes on its own, with any change of its private state that keeps it good.
  \<open>calls\<close> lists the method calls so far, the latest first.
\<close>

inductive proxy_reach :: "'w bus \<Rightarrow> ('d, 'w) SensorDriver list \<Rightarrow> ('d \<Rightarrow> bool) \<Rightarrow> libm \<Rightarrow>
    nat list \<Rightarrow> ('d, 'w) SensorData \<Rightarrow> 'w \<Rightarrow> bool"
  for bus drivers good m where
  start: "name_acquired_handler drivers q m (bus_acquired_handler (main_data lz), w) = (data, w') \<Longrightarrow>
    running data \<Longrightarrow> proxy_reach bus drivers good m [] data w'"
| call: "proxy_reach bus drivers good m calls data w \<Longrightarrow>
    handle_method_call bus m sender n i (data, w) = (data', w') \<Longrightarrow> proxy_reach bus drivers good m (i # calls) data' w'"
| compass: "proxy_reach bus drivers good m calls data w \<Longrightarrow>
    handle_compass_method_call bus m sender n i (data, w) = (data', w') \<Longrightarrow>
    proxy_reach bus drivers good m (i # calls) data' w'"
| vanish: "proxy_reach bus drivers good m calls data w \<Longrightarrow>
    client_vanished_cb bus m name (data, w) = (data', w') \<Longrightarrow> proxy_reach bus drivers good m calls data' w'"
| uevent: "proxy_reach bus drivers good m calls data w \<Longrightarrow>
    sensor_changes bus drivers m action dev (data, w) = (data', w') \<Longrightarrow> proxy_reach bus drivers good m calls data' w'"
| reading: "proxy_reach bus drivers good m calls data w \<Longrightarrow> devices_of data t = Some sd \<Longrightarrow>
    sd_drv sd' = sd_drv sd \<Longrightarrow> good (sd_priv sd') \<Longrightarrow> readings_of_type t rs \<Longrightarrow>
    proxy_reach bus drivers good m calls
      (fold (driver_type_to_callback_func m t) rs (data\<lparr>devices_of := (devices_of data)(t \<mapsto> sd')\<rparr>)) w'"

lemma method_prefixes:
  "has_prefix ''ClaimAccelerometer'' ''Claim''" "has_prefix ''ReleaseAccelerometer'' ''Release''"
  "has_prefix ''ClaimLight'' ''Claim''" "has_prefix ''ReleaseLight'' ''Release''"
  "has_prefix ''ClaimProximity'' ''Claim''" "has_prefix ''ReleaseProximity'' ''Release''"
  "has_prefix ''ClaimCompass'' ''Claim''" "has_prefix ''ReleaseCompass'' ''Release''"
  by code_simp+

lemma six_way:
  "(if n = a \<or> n = b then Some x else if n = c \<or> n = d then Some y else if n = e \<or> n = f then Some z else None)
     = Some t \<Longrightarrow> P a \<Longrightarrow> P b \<Longrightarrow> P c \<Longrightarrow> P d \<Longrightarrow> P e \<Longrightarrow> P f \<Longrightarrow> P n"
  by (auto split: if_splits)

lemma two_way: "(if n \<noteq> a \<and> n \<noteq> b then None else Some x) = Some t \<Longrightarrow> P a \<Longrightarrow> P b \<Longrightarrow> P n"
  by (auto split: if_splits)

lemma method_types_prefix:
  "method_driver_type n = Some t \<Longrightarrow> has_prefix n ''Claim'' \<or> has_prefix n ''Release''"
  "compass_driver_type n = Some t \<Longrightarrow> has_prefix n ''Claim'' \<or> has_prefix n ''Release''"
  unfolding method_driver_type_def compass_driver_type_def
  by (erule six_way two_way; rule disjI1 disjI2, rule method_prefixes)+

lemma reach_ok:
  assumes "sensor_proxy drivers good" "proxy_reach bus drivers good m calls data w"
  shows "proxy_inv drivers good data \<and> accounted data = mset calls"
  using assms(2)
proof induction
  case (start q lz w data w')
  then show ?case using sensor_proxy.acquired_ok [OF assms(1)] by simp
next
  case (call calls data w sender n i data' w')
  then show ?case
    using sensor_proxy.call_ok [OF assms(1), of data method_driver_type bus m sender n i w] method_types_prefix(1)
    by (simp add: handle_method_call_def)
next
  case (compass calls data w sender n i data' w')
  then show ?case
    using sensor_proxy.call_ok [OF assms(1), of data compass_driver_type bus m sender n i w] method_types_prefix(2)
    by (simp add: handle_compass_method_call_def)
next
  case (vanish calls data w name data' w')
  then show ?case using sensor_proxy.vanished_ok [OF assms(1), of data bus m name w] by simp
next
  case (uevent calls data w action dev data' w')
  then show ?case using sensor_proxy.changes_ok [OF assms(1), of data bus m action dev w] by simp
next
  case (reading calls data w t sd sd' rs w')
  then show ?case using sensor_proxy.readings_ok [OF assms(1), of data t sd sd' rs m] by simp
qed

section \<open>Prompt drivers\<close>

lemma idle_core: "core a = core b \<Longrightarrow> idle a = idle b"
  by (simp add: core_def idle_def)

lemma idle_started:
  assumes "\<And>t'. t' \<noteq> t \<Longrightarrow> invocations_delayed data t' = [] \<and> \<not> event_delayed data t'"
  shows "idle (started t data)"
  using assms by (simp add: idle_def started_def)

lemma idle_fields [simp]:
  "idle (data\<lparr>clients_of := c\<rparr>) = idle data" "idle (data\<lparr>devices_of := d\<rparr>) = idle data"
  "idle (data\<lparr>udev_devices_of := u\<rparr>) = idle data" "idle (data\<lparr>drivers_of := f\<rparr>) = idle data"
  "idle (data\<lparr>running := b\<rparr>) = idle data" "idle (send_out x data) = idle data" "idle (g_assert b data) = idle data"
  by (simp_all add: idle_def send_out_def g_assert_def)

lemma idle_pending: "idle data \<Longrightarrow> pending data = {#}"
  by (simp add: idle_def pending_def sensor_types_def)

lemma idle_callbacks:
  assumes "idle data" "connected data" "readings_of_type t rs"
  shows "idle (fold (driver_type_to_callback_func m t) rs data)"
  using idle_core [OF callbacks_core(1) [OF assms(2,3), of m]] assms(1) idle_started [of t data]
  by (auto simp: idle_def started_def split: if_splits)

locale prompt_proxy = sensor_proxy +
  assumes prompt: "drv \<in> set drivers \<Longrightarrow> prompt_driver drv good"
begin

lemma polling_idle:
  assumes "inv data" "driver_type_exists data t" "b \<or> idle data"
    "\<And>t'. t' \<noteq> t \<Longrightarrow> invocations_delayed data t' = [] \<and> \<not> event_delayed data t'"
  shows "idle (fst (set_polling_type m t b (data, w)))"
proof -
  obtain drv where d: "drivers_of data t = Some drv" using assms(2) by (auto simp: driver_type_exists_def)
  obtain sd where sd: "devices_of data t = Some sd" "sensor_driver.good_device drv good sd"
    "sensor_driver drv good" "drv_type drv = t" by (rule inv_device [OF assms(1) d])
  have "drv \<in> set drivers" using proxy_invD(1) [OF assms(1), of t] d by (simp add: type_inv_def)
  note pr = prompt [OF this]
  obtain sd' rs w' where p: "driver_set_polling sd b w = (sd', rs, w')" by (metis prod_cases3)
  note g = sensor_driver.driver_set_polling_good [OF sd(3,2) p]
  have rs: "rs \<noteq> []" if b using prompt_driver.driver_set_polling_answers [OF pr sd(2)] p that by simp
  let ?d = "data\<lparr>devices_of := (devices_of data)(t \<mapsto> sd')\<rparr>"
  have "connected ?d" using proxy_invD(2) [OF assms(1)] by simp
  note c = callbacks_core(1) [OF this g(2) [unfolded sd(4)], of m]
  have "idle (started t ?d)" by (rule idle_started) (use assms(4) in simp)
  then have "idle (fold (driver_type_to_callback_func m t) rs ?d)"
    using idle_core [OF c] rs assms(3) by (cases "rs = []") auto
  then show ?thesis by (simp add: set_polling_type_def sd(1) p)
qed

lemma driver_changed_idle:
  assumes "inv data" "idle data"
  shows "idle (send_driver_changed_dbus_event t data)"
  using idle_core [OF driver_changed_core(1) [OF proxy_invD(2) [OF assms(1)], of t]] assms(2) by simp

lemma release_idle:
  assumes "inv data" "idle data"
  shows "idle (fst (client_release bus m sender t (data, w)))"
proof -
  let ?d = "data\<lparr>clients_of := (clients_of data)(t := filter (\<lambda>e. fst e \<noteq> sender) (clients_of data t))\<rparr>"
  have "idle (fst (set_polling_type m t False (?d, w')))" if "driver_type_exists ?d t" for w'
    by (rule polling_idle) (use assms that in \<open>auto simp: idle_def\<close>)
  then show ?thesis using assms(2) by (auto simp: client_release_def Let_def)
qed

lemma claim_idle:
  assumes "inv data" "idle data"
  shows "idle (fst (handle_claim bus m sender i t (data, w)))"
proof -
  obtain wid w1 where n: "watch_name bus sender w = (wid, w1)" by fastforce
  let ?d = "data\<lparr>clients_of := (clients_of data)(t := table_insert sender wid (clients_of data t))\<rparr>"
  have x: "driver_type_exists ?d t = driver_type_exists data t"
    "driver_type_exists (delay_invocation t i ?d) t = driver_type_exists data t"
    by (simp_all add: driver_type_exists_def delay_invocation_def)
  have "idle (fst (set_polling_type m t True (delay_invocation t i ?d, w1)))" if "driver_type_exists data t"
    by (rule polling_idle)
      (use inv_delay(1) [of ?d t i] assms x that in \<open>auto simp: idle_def delay_invocation_def\<close>)
  moreover have "invocations_delayed data t = []" "\<not> event_delayed data t" using assms(2) by (simp_all add: idle_def)
  ultimately show ?thesis using assms(2) x by (auto simp: handle_claim_def n Let_def)
qed

lemma call_idle:
  assumes "inv data" "idle data"
  shows "idle (fst (handle_call types bus m sender n i (data, w)))"
  using assms claim_idle [OF assms] release_idle [OF assms]
  by (auto simp: handle_call_def handle_generic_method_call_def Let_def split: option.splits prod.splits)
    (metis fst_conv)+

lemma vanished_idle:
  assumes "inv data" "idle data"
  shows "idle (fst (client_vanished_cb bus m name (data, w)))"
proof -
  let ?f = "\<lambda>sender t s. if 0 < client_watch (fst s) t sender then client_release bus m sender t s else s"
  have "inv (fst (fold (?f sender) ts s)) \<and> idle (fst (fold (?f sender) ts s))"
    if "inv (fst s)" "idle (fst s)" for ts s sender
    using that
  proof (induction ts arbitrary: s)
    case (Cons t ts)
    obtain data w where s: "s = (data, w)" by fastforce
    show ?case
      using Cons client_release_ok(1) [of data bus m sender t w] release_idle [of data bus m sender t w] s by auto
  qed simp
  from this [of "(data, w)"] show ?thesis
    using assms by (auto simp: client_vanished_cb_def split: option.splits)
qed

lemma add_device_idle:
  assumes "set ds \<subseteq> set drivers" "inv data" "idle data"
  shows "idle (fst (add_device m ds device (data, w)))"
  using assms
proof (induction ds arbitrary: w)
  case (Cons drv ds)
  let ?t = "drv_type drv"
  obtain ok w1 where d: "driver_discover drv device w = (ok, w1)" by fastforce
  obtain osd w2 where o: "driver_open drv device w1 = (osd, w2)" by fastforce
  show ?case
  proof (cases "\<not> driver_type_exists data ?t \<and> ok \<and> osd \<noteq> None")
    case False
    then show ?thesis using Cons d o by (cases ok; cases osd) (auto simp: Let_def)
  next
    case True
    then obtain sd where sd: "ok" "osd = Some sd" "\<not> driver_type_exists data ?t" by auto
    have drv: "drv \<in> set drivers" using Cons.prems(1) by simp
    have g: "sd_drv sd = drv" "good (sd_priv sd)"
      using sensor_driver.driver_open_good [OF contract [OF drv]] o sd contract [OF drv]
      by (auto simp: sensor_driver.good_device_def)
    let ?d = "data\<lparr>udev_devices_of := (udev_devices_of data)(?t \<mapsto> device),
      devices_of := (devices_of data)(?t \<mapsto> sd), drivers_of := (drivers_of data)(?t \<mapsto> drv)\<rparr>"
    have q: "\<not> event_delayed data ?t" "idle ?d" using Cons.prems(3) by (simp_all add: idle_def)
    have i: "inv ?d"
      by (rule proxy_inv_at [OF Cons.prems(2), of _ ?t]) (use drv g in \<open>simp_all add: type_inv_def type_view_def\<close>)
    have e: "inv (?d\<lparr>event_delayed := (event_delayed ?d)(?t := True)\<rparr>)"
      by (rule proxy_inv_at [OF i, of _ ?t]) (use drv g in \<open>simp_all add: type_inv_def type_view_def\<close>)
    note c = driver_changed_ok(1) [OF i, of ?t] driver_changed_idle [OF i q(2), of ?t]
    have x: "driver_type_exists (?d\<lparr>event_delayed := f\<rparr>) ?t"
      "driver_type_exists (send_driver_changed_dbus_event ?t ?d) ?t" for f
      using core_eqD(4) [OF driver_changed_core(1) [OF proxy_invD(2) [OF i], of ?t]]
      by (simp_all add: driver_type_exists_def)
    have "idle (fst (set_polling_type m ?t True (?d\<lparr>event_delayed := (event_delayed ?d)(?t := True)\<rparr>, w2)))"
      by (rule polling_idle [OF e x(1)]) (use q(2) in \<open>auto simp: idle_def\<close>)
    moreover have "idle (fst (set_polling_type m ?t True (send_driver_changed_dbus_event ?t ?d, w2)))"
      by (rule polling_idle [OF c(1) x(2)]) (use c(2) in \<open>auto simp: idle_def\<close>)
    ultimately show ?thesis using d o sd q c by (simp add: g_assert_def Let_def)
  qed
qed simp

lemma remove_type_idle:
  assumes "inv data" "idle data"
  shows "idle (fst (remove_type bus m device t (data, w)))"
proof (cases "\<exists>dev. udev_devices_of data t = Some dev \<and> sysfs_path device = sysfs_path dev")
  case False
  then show ?thesis using assms by (auto simp: remove_type_def split: option.splits)
next
  case True
  have "drivers_of data t \<noteq> None"
    using proxy_invD(1) [OF assms(1), of t] True by (auto simp: type_inv_def split: option.splits)
  then obtain drv where drv: "drivers_of data t = Some drv" by blast
  obtain sd where sd: "devices_of data t = Some sd" "sensor_driver.good_device drv good sd"
    "sensor_driver drv good" "drv_type drv = t" by (rule inv_device [OF assms(1) drv])
  obtain rs w1 where cl: "driver_close sd w = (rs, w1)" by fastforce
  note ty = sensor_driver.driver_close_typed [OF sd(3,2) cl, unfolded sd(4)]
  let ?d0 = "data\<lparr>udev_devices_of := (udev_devices_of data)(t := None)\<rparr>"
  let ?d1 = "fold (driver_type_to_callback_func m t) rs ?d0"
  have "connected ?d0" using proxy_invD(2) [OF assms(1)] by simp
  then have i1: "idle ?d1" "connected ?d1"
    using idle_callbacks [of ?d0 t rs m] core_eqD(2) [OF callbacks_core(1) [of ?d0 t rs m]] assms(2) ty by simp_all
  let ?d2 = "?d1\<lparr>devices_of := (devices_of ?d1)(t := None), drivers_of := (drivers_of ?d1)(t := None),
    clients_of := (clients_of ?d1)(t := []), event_delayed := (event_delayed ?d1)(t := False),
    invocations_delayed := (invocations_delayed ?d1)(t := [])\<rparr>"
  have "idle ?d2" using i1(1) by (simp add: idle_def)
  then have "idle (send_driver_changed_dbus_event t ?d2)"
    using idle_core [OF driver_changed_core(1) [of ?d2 t]] i1(2) by simp
  moreover have "invocations_delayed ?d1 t = []" using i1(1) by (simp add: idle_def)
  ultimately show ?thesis using True by (auto simp: remove_type_def close_type_def sd(1) cl Let_def)
qed

lemma changes_idle:
  assumes "inv data" "idle data"
  shows "idle (fst (sensor_changes bus drivers m action device (data, w)))"
proof -
  have "inv (fst (fold (remove_type bus m device) ts (data, w))) \<and>
      idle (fst (fold (remove_type bus m device) ts (data, w)))" if "inv data" "idle data" for ts data w
    using that
  proof (induction ts arbitrary: data w)
    case (Cons t ts)
    obtain data' w' where r: "remove_type bus m device t (data, w) = (data', w')" by fastforce
    have "inv data'" "idle data'"
      using remove_type_ok(1) [OF Cons.prems(1), of bus m device t w]
        remove_type_idle [OF Cons.prems, of bus m device t w] r by simp_all
    then show ?case using Cons.IH [of data' w'] r by simp
  qed simp
  from this [OF assms, of sensor_types w] show ?thesis
    using add_device_idle [OF subset_refl assms, of m device w] assms(2)
    by (auto simp: sensor_changes_def Let_def split: prod.splits)
qed

end

lemma prompt_reach_idle:
  assumes "prompt_proxy drivers good" "proxy_reach bus drivers good m calls data w"
  shows "proxy_inv drivers good data \<and> idle data"
proof -
  note pr = assms(1)
  have sp: "sensor_proxy drivers good" using assms(1) by (simp add: prompt_proxy_def)
  show ?thesis
    using assms(2)
  proof induction
    case (start q lz w data w')
    then show ?case using sensor_proxy.acquired_ok [OF sp] by blast
  next
    case (call calls data w sender n i data' w')
    then have "proxy_reach bus drivers good m (i # calls) data' w'" by (metis proxy_reach.call)
    then show ?case
      using reach_ok [OF sp] call prompt_proxy.call_idle [OF pr, of data method_driver_type bus m sender n i w]
      by (simp add: handle_method_call_def)
  next
    case (compass calls data w sender n i data' w')
    then have "proxy_reach bus drivers good m (i # calls) data' w'" by (metis proxy_reach.compass)
    then show ?case
      using reach_ok [OF sp] compass prompt_proxy.call_idle [OF pr, of data compass_driver_type bus m sender n i w]
      by (simp add: handle_compass_method_call_def)
  next
    case (vanish calls data w name data' w')
    then show ?case
      using sensor_proxy.vanished_ok [OF sp, of data bus m name w]
        prompt_proxy.vanished_idle [OF pr, of data bus m name w] by simp
  next
    case (uevent calls data w action dev data' w')
    then show ?case
      using sensor_proxy.changes_ok [OF sp, of data bus m action dev w]
        prompt_proxy.changes_idle [OF pr, of data bus m action dev w] by simp
  next
    case (reading calls data w t sd sd' rs w')
    let ?d = "data\<lparr>devices_of := (devices_of data)(t \<mapsto> sd')\<rparr>"
    have "idle (fold (driver_type_to_callback_func m t) rs ?d)"
      by (rule idle_callbacks) (use reading proxy_invD(2) in auto)
    then show ?case using reading sensor_proxy.readings_ok(1) [OF sp, of data t sd sd' rs m] by simp
  qed
qed

end
