(* ===== verification/SensorProxy_Signals.thy ===== *)
theory SensorProxy_Signals
  imports SensorProxy_Facts
begin

text \<open>
  Who hears what: a PropertiesChanged signal goes only to clients that claimed a sensor and names
  only properties of sensors that client claimed; and what a client of a removed sensor is not told.
\<close>

section \<open>Masks\<close>

definition claimed :: "('d, 'w) SensorData \<Rightarrow> DriverType \<Rightarrow> string \<Rightarrow> bool" where
  "claimed data t c \<longleftrightarrow> c \<in> fst ` set (clients_of data t)"

definition prop_type :: "string \<Rightarrow> DriverType option" where
  "prop_type n = map_of [(''HasAccelerometer'', DRIVER_TYPE_ACCEL), (''AccelerometerOrientation'', DRIVER_TYPE_ACCEL),
     (''AccelerometerTilt'', DRIVER_TYPE_ACCEL), (''HasAmbientLight'', DRIVER_TYPE_LIGHT),
     (''LightLevelUnit'', DRIVER_TYPE_LIGHT), (''LightLevel'', DRIVER_TYPE_LIGHT),
     (''HasCompass'', DRIVER_TYPE_COMPASS), (''CompassHeading'', DRIVER_TYPE_COMPASS),
     (''HasProximity'', DRIVER_TYPE_PROXIMITY), (''ProximityNear'', DRIVER_TYPE_PROXIMITY)] n"

lemma has_bit_or: "has_bit (a OR b) k \<longleftrightarrow> has_bit a k \<or> has_bit b k"
  by (auto simp: has_bit_def bit_eq_iff bit_or_iff bit_and_iff)

lemma has_bit_and: "has_bit (a AND b) k \<Longrightarrow> has_bit a k \<and> has_bit b k"
  by (auto simp: has_bit_def bit_eq_iff bit_and_iff)

text \<open>A mask speaks of the sensor types in \<open>T\<close> only.\<close>

definition speaks :: "(DriverType \<Rightarrow> bool) \<Rightarrow> u32 \<Rightarrow> bool" where
  "speaks T k \<longleftrightarrow> (\<forall>t. has_bit k (mask_for_sensor_type t) \<longrightarrow> T t)"

lemma masks_disjoint: "has_bit (a AND mask_for_sensor_type t) (mask_for_sensor_type t') \<Longrightarrow> t = t'"
proof -
  assume "has_bit (a AND mask_for_sensor_type t) (mask_for_sensor_type t')"
  then have "mask_for_sensor_type t AND mask_for_sensor_type t' \<noteq> 0"
    by (auto simp: has_bit_def bit_eq_iff bit_and_iff)
  then show ?thesis
    by (cases t; cases t') (simp_all add: mask_for_sensor_type_def prop_defs)
qed

section \<open>The table of masks\<close>

lemma map_of_table_insert: "map_of (table_insert k v ht) k' = (if k' = k then Some v else map_of ht k')"
  by (induction ht) auto

definition masks_ok :: "('d, 'w) SensorData \<Rightarrow> (string \<times> u32) list \<Rightarrow> bool" where
  "masks_ok data ht \<longleftrightarrow> (\<forall>c k. map_of ht c = Some k \<longrightarrow>
     (\<exists>t. claimed data t c) \<and> speaks (\<lambda>t. claimed data t c) k)"

lemma speaks_or: "speaks T (a OR b) \<longleftrightarrow> speaks T a \<and> speaks T b"
  by (auto simp: speaks_def has_bit_or)

lemma speaks_0: "speaks T 0"
  by (simp add: speaks_def has_bit_def)

lemma speaks_and: "T t \<Longrightarrow> speaks T (k AND mask_for_sensor_type t)"
  unfolding speaks_def using masks_disjoint by blast

lemma masks_ok_insert:
  assumes "masks_ok data ht" "claimed data t c"
  shows "masks_ok data (table_insert c (table_mask ht c OR (k AND mask_for_sensor_type t)) ht)"
proof -
  have "speaks (\<lambda>t. claimed data t c) (table_mask ht c)"
    using assms(1) by (auto simp: table_mask_def masks_ok_def speaks_0 split: option.splits)
  then have "speaks (\<lambda>t. claimed data t c) (table_mask ht c OR (k AND mask_for_sensor_type t))"
    using speaks_and [of "\<lambda>t. claimed data t c", OF assms(2)] by (simp add: speaks_or)
  then show ?thesis using assms by (auto simp: masks_ok_def map_of_table_insert)
qed

lemma keys_table_insert:
  "map fst (table_insert k v ht) = (if k \<in> set (map fst ht) then map fst ht else map fst ht @ [k])"
  by (induction ht) (auto, force)

lemma distinct_table_insert: "distinct (map fst ht) \<Longrightarrow> distinct (map fst (table_insert k v ht))"
  by (simp add: keys_table_insert)

lemma collect_masks_ok: "masks_ok data (collect_masks k data) \<and> distinct (map fst (collect_masks k data))"
proof -
  let ?P = "\<lambda>ht. masks_ok data ht \<and> distinct (map fst ht)"
  have inner: "?P (fold (\<lambda>c ht. table_insert c (table_mask ht c OR (k AND mask_for_sensor_type t)) ht) cs ht)"
    if "?P ht" "\<forall>c\<in>set cs. claimed data t c" for t cs ht
    using that
    by (induction cs arbitrary: ht) (auto simp: masks_ok_insert distinct_table_insert)
  have "?P (fold (\<lambda>t ht. fold (\<lambda>c ht. table_insert c (table_mask ht c OR (k AND mask_for_sensor_type t)) ht)
      (map fst (clients_of data t)) ht) ts ht)" if "?P ht" for ts ht
    using that by (induction ts arbitrary: ht) (simp_all add: inner claimed_def)
  from this [of "[]" sensor_types] show ?thesis by (simp add: collect_masks_def masks_ok_def)
qed

section \<open>Signals\<close>

definition props_of :: "(DriverType \<Rightarrow> bool) \<Rightarrow> (string \<times> gvariant) list \<Rightarrow> bool" where
  "props_of T ps \<longleftrightarrow> list_all (\<lambda>p. case prop_type (fst p) of None \<Rightarrow> False | Some t \<Rightarrow> T t) ps"

lemma prop_types [simp]:
  "prop_type ''HasAccelerometer'' = Some DRIVER_TYPE_ACCEL"
  "prop_type ''AccelerometerOrientation'' = Some DRIVER_TYPE_ACCEL"
  "prop_type ''AccelerometerTilt'' = Some DRIVER_TYPE_ACCEL"
  "prop_type ''HasAmbientLight'' = Some DRIVER_TYPE_LIGHT"
  "prop_type ''LightLevelUnit'' = Some DRIVER_TYPE_LIGHT" "prop_type ''LightLevel'' = Some DRIVER_TYPE_LIGHT"
  "prop_type ''HasCompass'' = Some DRIVER_TYPE_COMPASS" "prop_type ''CompassHeading'' = Some DRIVER_TYPE_COMPASS"
  "prop_type ''HasProximity'' = Some DRIVER_TYPE_PROXIMITY"
  "prop_type ''ProximityNear'' = Some DRIVER_TYPE_PROXIMITY"
  by code_simp+

text \<open>A property bit belongs to the mask of its type.\<close>

lemma speaksD:
  assumes "speaks T k"
  shows "has_bit k PROP_HAS_ACCELEROMETER \<Longrightarrow> T DRIVER_TYPE_ACCEL"
    "has_bit k PROP_ACCELEROMETER_ORIENTATION \<Longrightarrow> T DRIVER_TYPE_ACCEL"
    "has_bit k PROP_ACCELEROMETER_TILT \<Longrightarrow> T DRIVER_TYPE_ACCEL"
    "has_bit k PROP_HAS_AMBIENT_LIGHT \<Longrightarrow> T DRIVER_TYPE_LIGHT" "has_bit k PROP_LIGHT_LEVEL \<Longrightarrow> T DRIVER_TYPE_LIGHT"
    "has_bit k PROP_HAS_COMPASS \<Longrightarrow> T DRIVER_TYPE_COMPASS" "has_bit k PROP_COMPASS_HEADING \<Longrightarrow> T DRIVER_TYPE_COMPASS"
    "has_bit k PROP_HAS_PROXIMITY \<Longrightarrow> T DRIVER_TYPE_PROXIMITY"
    "has_bit k PROP_PROXIMITY_NEAR \<Longrightarrow> T DRIVER_TYPE_PROXIMITY"
proof -
  have o: "has_bit k (a OR b) \<longleftrightarrow> has_bit k a \<or> has_bit k b" for a b
    by (auto simp: has_bit_def bit_eq_iff bit_or_iff bit_and_iff)
  have "T t" if "has_bit k (mask_for_sensor_type t)" for t using assms that by (simp add: speaks_def)
  from this [of DRIVER_TYPE_ACCEL] this [of DRIVER_TYPE_LIGHT] this [of DRIVER_TYPE_COMPASS]
    this [of DRIVER_TYPE_PROXIMITY]
  show "has_bit k PROP_HAS_ACCELEROMETER \<Longrightarrow> T DRIVER_TYPE_ACCEL"
    "has_bit k PROP_ACCELEROMETER_ORIENTATION \<Longrightarrow> T DRIVER_TYPE_ACCEL"
    "has_bit k PROP_ACCELEROMETER_TILT \<Longrightarrow> T DRIVER_TYPE_ACCEL"
    "has_bit k PROP_HAS_AMBIENT_LIGHT \<Longrightarrow> T DRIVER_TYPE_LIGHT" "has_bit k PROP_LIGHT_LEVEL \<Longrightarrow> T DRIVER_TYPE_LIGHT"
    "has_bit k PROP_HAS_COMPASS \<Longrightarrow> T DRIVER_TYPE_COMPASS" "has_bit k PROP_COMPASS_HEADING \<Longrightarrow> T DRIVER_TYPE_COMPASS"
    "has_bit k PROP_HAS_PROXIMITY \<Longrightarrow> T DRIVER_TYPE_PROXIMITY"
    "has_bit k PROP_PROXIMITY_NEAR \<Longrightarrow> T DRIVER_TYPE_PROXIMITY"
    by (simp_all add: mask_for_sensor_type_def o)
qed

text \<open>Every stage adds properties of types the mask speaks of, and keeps the mask to them.\<close>

lemma has_bit_self [simp]:
  "has_bit PROP_ACCELEROMETER_ORIENTATION (mask_for_sensor_type t) \<longleftrightarrow> t = DRIVER_TYPE_ACCEL"
  "has_bit PROP_ACCELEROMETER_TILT (mask_for_sensor_type t) \<longleftrightarrow> t = DRIVER_TYPE_ACCEL"
  "has_bit PROP_LIGHT_LEVEL (mask_for_sensor_type t) \<longleftrightarrow> t = DRIVER_TYPE_LIGHT"
  "has_bit PROP_COMPASS_HEADING (mask_for_sensor_type t) \<longleftrightarrow> t = DRIVER_TYPE_COMPASS"
  "has_bit PROP_PROXIMITY_NEAR (mask_for_sensor_type t) \<longleftrightarrow> t = DRIVER_TYPE_PROXIMITY"
  by (cases t; simp add: has_bit_def mask_for_sensor_type_def prop_defs)+

lemma speaks_bits [simp]:
  "speaks T PROP_ACCELEROMETER_ORIENTATION = T DRIVER_TYPE_ACCEL"
  "speaks T PROP_ACCELEROMETER_TILT = T DRIVER_TYPE_ACCEL" "speaks T PROP_LIGHT_LEVEL = T DRIVER_TYPE_LIGHT"
  "speaks T PROP_COMPASS_HEADING = T DRIVER_TYPE_COMPASS" "speaks T PROP_PROXIMITY_NEAR = T DRIVER_TYPE_PROXIMITY"
  by (simp_all add: speaks_def)

lemma stages_speak:
  assumes "speaks T k"
  shows "accel_props k data = (ps, k1, data') \<Longrightarrow> props_of T ps \<and> speaks T k1"
    "light_props k data = (ps, k1) \<Longrightarrow> props_of T ps \<and> speaks T k1"
    "compass_props k data = (ps, k1) \<Longrightarrow> props_of T ps \<and> speaks T k1"
    "proximity_props k data = (ps, k1) \<Longrightarrow> props_of T ps \<and> speaks T k1"
  using assms speaksD [OF assms]
  by (auto simp: accel_props_def light_props_def compass_props_def proximity_props_def props_of_def
      speaks_or has_bit_or Let_def split: if_splits)

fun signal_ok :: "('d, 'w) SensorData \<Rightarrow> dbus_out \<Rightarrow> bool" where
  "signal_ok data (Signal c path iface ps) \<longleftrightarrow>
     (\<exists>t. claimed data t c) \<and> props_of (\<lambda>t. claimed data t c) ps"
| "signal_ok data _ = False"

lemma send_for_client_signal:
  assumes "speaks (\<lambda>t. claimed data0 t c) k" "claimed data0 t0 c"
  shows "\<exists>x. out (send_dbus_event_for_client c k data) = out data @ [x] \<and> signal_ok data0 x"
proof -
  let ?T = "\<lambda>t. claimed data0 t c"
  obtain ps1 k1 d1 where 1: "accel_props k data = (ps1, k1, d1)" by (metis prod_cases3)
  note s1 = stages_speak(1) [OF assms(1) 1]
  obtain ps2 k2 where 2: "light_props k1 d1 = (ps2, k2)" by fastforce
  note s2 = stages_speak(2) [OF conjunct2 [OF s1] 2]
  obtain ps3 k3 where 3: "compass_props k2 d1 = (ps3, k3)" by fastforce
  note s3 = stages_speak(3) [OF conjunct2 [OF s2] 3]
  obtain ps4 k4 where 4: "proximity_props k3 d1 = (ps4, k4)" by fastforce
  note s4 = stages_speak(4) [OF conjunct2 [OF s3] 4]
  have "props_of ?T (ps1 @ ps2 @ ps3 @ ps4)" using s1 s2 s3 s4 by (simp add: props_of_def)
  moreover have "out d1 = out data" using accel_props_core [OF 1] by simp
  ultimately show ?thesis
    using 1 2 3 4 assms(2)
    by (auto simp: send_dbus_event_for_client_def send_out_def Let_def)
qed

lemma send_event_signals:
  "\<exists>sigs. out (send_dbus_event k data) = out data @ sigs \<and> list_all (signal_ok data) sigs"
proof -
  have f: "\<exists>sigs. out (fold (\<lambda>(c, k). send_dbus_event_for_client c k) cs d) = out d @ sigs \<and> list_all (signal_ok data) sigs"
    if "\<forall>(c, k) \<in> set cs. (\<exists>t. claimed data t c) \<and> speaks (\<lambda>t. claimed data t c) k" for cs d
    using that
  proof (induction cs arbitrary: d)
    case (Cons e cs)
    obtain c k where e: "e = (c, k)" by fastforce
    then obtain t x where x: "out (send_dbus_event_for_client c k d) = out d @ [x]" "signal_ok data x"
      using Cons.prems send_for_client_signal [of data c k _ d] by auto
    obtain sigs where s: "out (fold (\<lambda>(c, k). send_dbus_event_for_client c k) cs (send_dbus_event_for_client c k d))
        = out (send_dbus_event_for_client c k d) @ sigs" "list_all (signal_ok data) sigs"
      using Cons.IH [of "send_dbus_event_for_client c k d"] Cons.prems by auto
    show ?case by (rule exI [of _ "x # sigs"]) (use s x e in simp)
  qed simp
  let ?d = "g_assert (k AND PROP_ALL = 0 \<or> k AND PROP_ALL_COMPASS = 0) (g_assert (connected data) (g_assert (k \<noteq> 0) data))"
  have a: "out ?d = out data" "clients_of ?d = clients_of data" "connected (g_assert b data) = connected data" for b
    by (simp_all add: g_assert_def)
  have c: "collect_masks k ?d = collect_masks k data" by (simp add: collect_masks_def a(2))
  have "\<forall>(c, m) \<in> set (collect_masks k data). (\<exists>t. claimed data t c) \<and> speaks (\<lambda>t. claimed data t c) m"
    using collect_masks_ok [of data k] by (auto simp: masks_ok_def dest!: map_of_is_SomeI)
  from f [OF this, of ?d] show ?thesis by (simp add: send_dbus_event_def a c Let_def)
qed

text \<open>C12: a client hears only of what it claimed: every signal that a property change causes goes to a
  client that claimed some sensor, and every property it names belongs to a sensor that this
  client claimed.\<close>

theorem signals_confidential:
  "\<exists>sigs. out (send_dbus_event k data) = out data @ sigs \<and> list_all (signal_ok data) sigs"
  by (rule send_event_signals)

section \<open>A change nobody hears of\<close>

definition empty_signal :: "string \<Rightarrow> dbus_out" where
  "empty_signal c = Signal c SENSOR_PROXY_COMPASS_DBUS_PATH SENSOR_PROXY_COMPASS_IFACE_NAME []"

lemma send_zero_mask: "send_dbus_event_for_client c 0 data = send_out (empty_signal c) data"
  by (simp add: send_dbus_event_for_client_def accel_props_def light_props_def compass_props_def
      proximity_props_def has_bit_def empty_signal_def)

lemma collect_masks_zero:
  assumes "\<And>t. clients_of data t \<noteq> [] \<Longrightarrow> k AND mask_for_sensor_type t = 0"
  shows "list_all (\<lambda>e. snd e = 0) (collect_masks k data)"
proof -
  let ?Z = "list_all (\<lambda>e. snd e = (0 :: u32))"
  have ins: "?Z (table_insert c 0 ht)" if "?Z ht" for c ht
    using that by (induction ht) auto
  have tm: "table_mask ht c = 0" if "?Z ht" for ht c
    using that by (auto simp: table_mask_def list_all_iff dest!: map_of_SomeD split: option.splits)
  have inner: "?Z (fold (\<lambda>c ht. table_insert c (table_mask ht c OR (k AND mask_for_sensor_type t)) ht) cs ht)"
    if "?Z ht" "k AND mask_for_sensor_type t = 0" for t cs ht
    using that by (induction cs arbitrary: ht) (simp_all add: tm ins)
  have "?Z (fold (\<lambda>t ht. fold (\<lambda>c ht. table_insert c (table_mask ht c OR (k AND mask_for_sensor_type t)) ht)
      (map fst (clients_of data t)) ht) ts ht)" if "?Z ht" for ts ht
    using that
  proof (induction ts arbitrary: ht)
    case (Cons t ts)
    then show ?case using inner [OF Cons.prems, of t] assms [of t] by (cases "clients_of data t = []") simp_all
  qed simp
  from this [of "[]" sensor_types] show ?thesis by (simp add: collect_masks_def)
qed

lemma fold_zero_masks:
  "list_all (\<lambda>e. snd e = 0) cs \<Longrightarrow> fold (\<lambda>(c, k). send_dbus_event_for_client c k) cs data
     = data\<lparr>out := out data @ map (empty_signal \<circ> fst) cs\<rparr>"
  by (induction cs arbitrary: data) (auto simp: send_zero_mask send_out_def)

lemma change_unheard:
  assumes "connected data" "clients_of data t = []"
  shows "\<exists>cs. send_driver_changed_dbus_event t data = data\<lparr>out := out data @ map empty_signal cs\<rparr>"
proof -
  let ?k = "case t of DRIVER_TYPE_ACCEL \<Rightarrow> PROP_HAS_ACCELEROMETER | DRIVER_TYPE_LIGHT \<Rightarrow> PROP_HAS_AMBIENT_LIGHT
    | DRIVER_TYPE_PROXIMITY \<Rightarrow> PROP_HAS_PROXIMITY | DRIVER_TYPE_COMPASS \<Rightarrow> PROP_HAS_COMPASS"
  have k: "send_driver_changed_dbus_event t data = send_dbus_event ?k data" "event_mask ?k"
    by (simp_all add: send_driver_changed_dbus_event_def split: DriverType.splits)
  have d: "?k AND mask_for_sensor_type t' = 0" if "t' \<noteq> t" for t'
    using that by (cases t; cases t') (simp_all add: mask_for_sensor_type_def prop_defs)
  have "list_all (\<lambda>e. snd e = 0) (collect_masks ?k data)"
    by (rule collect_masks_zero) (use assms(2) d in force)
  then show ?thesis
    using k assms(1) fold_zero_masks [of "collect_masks ?k data" data]
    by (intro exI [of _ "map fst (collect_masks ?k data)"])
      (auto simp: send_dbus_event_def g_assert_def event_mask_def Let_def)
qed

end
