(* ===== verification/Mxc_Orient_Facts.thy ===== *)
theory Mxc_Orient_Facts
  imports Mxc_Orient
begin

text \<open>
  What the orientation filter guarantees: the median is the median, the averaging weight stays
  between 0 and 1, the circular buffer is a sliding window over the last twenty samples, every
  index stays inside its array, nothing is reported before the window is full, and the result code
  2 is never produced.
\<close>

named_theorems orient_defs \<open>the stages of the filter\<close>

lemmas orient_stage_defs =
  reset_accumulator_def record_offset_def bootstrap_reference_def accumulate_sample_def
  update_peak_trough_def detect_outlier_def

declare orient_stage_defs [orient_defs]

section \<open>Median\<close>

text \<open>\<open>median3\<close> returns one of its arguments, with at least one argument on either side: the middle
  of the three values in increasing order.\<close>

theorem median3_is_median:
  assumes "ffinite a" "ffinite b" "ffinite c"
  shows "median3 a b c \<in> {a, b, c} \<and>
    fval (median3 a b c) = sort [fval a, fval b, fval c] ! 1"
  using assms by (auto simp: median3_def)

theorem median3_is_median_witness:
  "median3 (Num 3) (Num 1) (Num 2) \<in> {Num 3, Num 1, Num 2} \<and>
   fval (median3 (Num 3) (Num 1) (Num 2)) = sort [3, 1, 2 :: rat] ! 1"
  using median3_is_median [of "Num 3" "Num 1" "Num 2"] by simp

section \<open>The circular buffer is a sliding window\<close>

text \<open>Oldest sample first.\<close>

definition window :: "nat \<Rightarrow> 'a list \<Rightarrow> 'a list" where
  "window idx b = drop idx b @ take idx b"

lemma window_store:
  assumes "idx < length b"
  shows "window (if idx + 1 = length b then 0 else idx + 1) (b[idx := v]) = tl (window idx b) @ [v]"
proof -
  have t: "take (Suc idx) (b[idx := v]) = take idx b @ [v]"
    using assms by (simp add: take_Suc_conv_app_nth)
  have d: "drop idx b = b ! idx # drop (Suc idx) b"
    using assms by (simp add: Cons_nth_drop_Suc)
  show ?thesis
  proof (cases "idx + 1 = length b")
    case True
    then have "b[idx := v] = take idx b @ [v]" using t by simp
    then show ?thesis using True d by (simp add: window_def)
  next
    case False
    then show ?thesis using t d assms by (simp add: window_def)
  qed
qed

text \<open>The function \<open>store_in_buffer\<close> is a sliding window: with the index inside the buffer, it drops the oldest
  sample of each axis and appends the new one, and the index stays inside the buffer.\<close>

theorem store_in_buffer_window:
  assumes "length (buf_x s) = 20" "length (buf_y s) = 20" "length (buf_z s) = 20" "buf_idx s < 20"
    and "store_in_buffer s inp = (s', full)"
  shows "window (buf_idx s') (buf_x s') = tl (window (buf_idx s) (buf_x s)) @ [inp ! 0]
    \<and> window (buf_idx s') (buf_y s') = tl (window (buf_idx s) (buf_y s)) @ [inp ! 1]
    \<and> window (buf_idx s') (buf_z s') = tl (window (buf_idx s) (buf_z s)) @ [inp ! 2]
    \<and> buf_idx s' < 20 \<and> full = buf_full s' \<and> buf_full s' = (buf_full s \<or> buf_idx s = 19)"
proof -
  note w = window_store [of "buf_idx s" "buf_x s" "inp ! 0"]
    window_store [of "buf_idx s" "buf_y s" "inp ! 1"]
    window_store [of "buf_idx s" "buf_z s" "inp ! 2"]
  show ?thesis
    using assms w
    by (cases "buf_idx s = 19")
      (auto simp: store_in_buffer_def Let_def ORIENT_BUF_SIZE_def split: if_splits)
qed

theorem store_in_buffer_window_witness:
  "window 1 (buf_x (fst (store_in_buffer orient_zero [Num 1, Num 2, Num 3])))
     = replicate 19 0 @ [Num 1]"
  using store_in_buffer_window [of orient_zero "[Num 1, Num 2, Num 3]", OF _ _ _ _ prod.collapse [symmetric]]
  by (simp add: orient_zero_def store_in_buffer_def Let_def ORIENT_BUF_SIZE_def window_def)

section \<open>Structural invariant\<close>

definition orient_wf :: "OrientState \<Rightarrow> bool" where
  "orient_wf s \<longleftrightarrow>
     length (z_median_buf s) = 3 \<and> z_median_count s \<le> 3 \<and>
     length (ema_delta s) = 3 \<and> length (ema_abs_delta s) = 3 \<and> length (smoothed s) = 3 \<and>
     length (buf_x s) = 20 \<and> length (buf_y s) = 20 \<and> length (buf_z s) = 20 \<and> buf_idx s < 20 \<and>
     length (offset_buf s) = 5 \<and> offset_count s \<le> 5 \<and> \<not> offset_init s \<and> z_dir s \<in> {- 1, 0, 1}"

lemma orient_wf_zero: "orient_wf orient_zero"
  by (simp add: orient_wf_def orient_zero_def)

text \<open>The fields the invariant reads, for stages that leave them alone.\<close>

definition orient_core where
  "orient_core s = (z_median_buf s, z_median_count s, ema_delta s, ema_abs_delta s, smoothed s,
     buf_x s, buf_y s, buf_z s, buf_idx s, offset_init s)"

lemma orient_wf_core:
  assumes "orient_wf s" "orient_core s' = orient_core s"
    "length (offset_buf s') = 5" "offset_count s' \<le> 5" "z_dir s' \<in> {- 1, 0, 1}"
  shows "orient_wf s'"
  using assms by (simp add: orient_wf_def orient_core_def)

lemma orient_wf_stages:
  assumes "orient_wf s"
  shows "orient_wf (reset_accumulator s)" "orient_wf (record_offset s)"
    "orient_wf (bootstrap_reference s ax ay az q)" "orient_wf (accumulate_sample s ax ay az)"
    "orient_wf (update_peak_trough s ax ay az)" "orient_wf (detect_outlier s az)"
    "orient_wf (s\<lparr>gravity_offset := g\<rparr>)" "orient_wf (s\<lparr>ref_x := ax, ref_y := ay, ref_z := az\<rparr>)"
    "orient_wf (s\<lparr>stable_count := n\<rparr>)" "orient_wf (s\<lparr>out_offset := ax, out_mean := ay, out_z := az\<rparr>)"
  using assms
  by (auto simp: orient_defs orient_wf_def ORIENT_OFFSET_BUF_def Let_def)

lemma orient_wf_z_dir: "orient_wf s \<Longrightarrow> d \<in> {- 1, 0, 1} \<Longrightarrow> orient_wf (s\<lparr>z_dir := d\<rparr>)"
  by (simp add: orient_wf_def)

lemma resolve_z_dir:
  assumes "resolve_gravity_offset rf cur tm zd = (ret, zd', out)"
  shows "zd' \<in> {zd, 1, - 1}"
  using assms unfolding resolve_gravity_offset_def Let_def
  by (auto split: prod.splits if_splits)

lemma orient_wf_try_resolve: "orient_wf s \<Longrightarrow> orient_wf (try_resolve_offset s rf cur)"
proof -
  assume wf: "orient_wf s"
  obtain ret zd out where r: "resolve_gravity_offset rf cur (trimmed_mean s) (z_dir s) = (ret, zd, out)"
    by (metis prod_cases3)
  have "zd \<in> {- 1, 0, 1}" using resolve_z_dir [OF r] wf by (auto simp: orient_wf_def)
  with wf show ?thesis
    by (auto simp: try_resolve_offset_def r Let_def orient_wf_stages orient_wf_z_dir split: option.splits)
qed

lemma orient_wf_long_stable: "orient_wf s \<Longrightarrow> orient_wf (handle_long_stable s az q)"
  by (simp add: handle_long_stable_def Let_def orient_wf_stages)

lemma orient_wf_stable_drift: "orient_wf s \<Longrightarrow> orient_wf (handle_stable_drift s ax ay az q)"
  by (simp add: handle_stable_drift_def Let_def orient_wf_stages orient_wf_try_resolve
      orient_wf_long_stable)

lemma orient_wf_trimmed_mean: "orient_wf s \<Longrightarrow> orient_wf (update_offset_trimmed_mean s)"
  by (auto simp: update_offset_trimmed_mean_def orient_wf_def split: prod.splits)

lemma orient_wf_gravity:
  assumes wf: "orient_wf s"
    and g: "update_gravity_tracking s ax ay az q m = (ret, s', m')"
  shows "orient_wf s'" and "m' = m"
proof -
  have noinit: "\<not> offset_init t" if "orient_wf t" for t using that by (simp add: orient_wf_def)
  note pres = orient_wf_stages orient_wf_z_dir orient_wf_trimmed_mean orient_wf_stable_drift
    orient_wf_try_resolve wf
  show "orient_wf s'" "m' = m"
    using g noinit [OF orient_wf_stages(8) [OF orient_wf_trimmed_mean [OF orient_wf_stable_drift [OF wf]]]]
      noinit [OF orient_wf_stages(8) [OF orient_wf_trimmed_mean [OF orient_wf_try_resolve [OF wf]]]]
    by (auto simp: update_gravity_tracking_def Let_def pres split: if_splits)
qed

lemma orient_wf_median: "orient_wf s \<Longrightarrow> orient_wf (fst (median_filter_z s z))"
  by (auto simp: median_filter_z_def orient_wf_def Let_def)

lemma orient_wf_ema_axis: "orient_wf s \<Longrightarrow> orient_wf (ema_axis i v s)"
  by (simp add: ema_axis_def orient_wf_def Let_def)

lemma orient_wf_ema: "orient_wf s \<Longrightarrow> orient_wf (ema_smooth s inp)"
  by (simp add: ema_smooth_def orient_wf_ema_axis)

lemma orient_wf_store: "orient_wf s \<Longrightarrow> orient_wf (fst (store_in_buffer s inp))"
  by (auto simp: store_in_buffer_def orient_wf_def Let_def ORIENT_BUF_SIZE_def)

lemma orient_wf_front:
  assumes "orient_wf s" "orient_front s accel = (s', inp, full)"
  shows "orient_wf s'"
proof -
  obtain sm z where m: "median_filter_z s (vz accel) = (sm, z)" by fastforce
  have "orient_wf sm" using orient_wf_median [OF assms(1), of "vz accel"] m by simp
  from orient_wf_store [OF orient_wf_ema [OF this]] show ?thesis
    using assms(2) by (auto simp: orient_front_def m Let_def split: prod.splits) (metis fst_conv)
qed

lemma orient_wf_stability: "orient_wf s \<Longrightarrow> orient_wf (orient_stability s mv)"
  by (simp add: orient_stability_def orient_wf_stages)

lemma orient_wf_track:
  assumes "orient_wf s" "orient_track s = (ret, s', m)"
  shows "orient_wf s'" and "m = 0"
  using assms orient_wf_gravity [OF assms(1)]
    orient_wf_gravity [OF orient_wf_stages(1) [OF assms(1)]]
  by (fastforce simp: orient_track_def Let_def split: prod.splits if_splits)+

lemma orient_finish_result:
  assumes "orient_wf s"
  shows "orient_wf (fst (orient_finish s inp mv 0))" and "snd (orient_finish s inp mv 0) \<in> {0, 1}"
proof -
  have "\<not> (flit (1 / 1000000) < fabs (0 :: f32))" by code_simp
  then show "orient_wf (fst (orient_finish s inp mv 0))" "snd (orient_finish s inp mv 0) \<in> {0, 1}"
    using assms by (simp_all add: orient_finish_def Let_def orient_wf_stages)
qed

lemma orient_wf_update_result:
  assumes "orient_wf s"
  shows "orient_wf (fst (update_orientation s accel)) \<and> snd (update_orientation s accel) \<in> {0, 1}"
proof -
  obtain s1 inp full where f: "orient_front s accel = (s1, inp, full)" by (metis prod_cases3)
  note wf1 = orient_wf_front [OF assms f]
  let ?s2 = "orient_stability s1 (max_buffer_variance s1)"
  note wf2 = orient_wf_stability [OF wf1, of "max_buffer_variance s1"]
  obtain ret s3 m where t: "orient_track ?s2 = (ret, s3, m)" by (metis prod_cases3)
  note wf3 = orient_wf_track [OF wf2 t]
  show ?thesis
    using wf1 wf3(1) orient_finish_result [OF wf3(1), of inp "max_buffer_variance s1"] wf3(2)
    by (auto simp: update_orientation_def f t Let_def orient_wf_stages)
qed

lemma orient_wf_update: "orient_wf s \<Longrightarrow> orient_wf (fst (update_orientation s accel))"
  using orient_wf_update_result by blast

text \<open>C10: the filter's invariant: every array keeps its length and every index and counter stays
  inside its array, through any update; and the result code is 0 or 1, since the flag that guards
  the code 2 is never set.\<close>

theorem update_orientation_wf:
  assumes "orient_wf s"
  shows "orient_wf (fst (update_orientation s accel)) \<and> snd (update_orientation s accel) \<in> {0, 1}"
  by (rule orient_wf_update_result [OF assms])

theorem update_orientation_wf_witness:
  "orient_wf (fst (update_orientation orient_zero \<lparr>vx = Num 0, vy = Num (- 1), vz = Num 0\<rparr>))
   \<and> snd (update_orientation orient_zero \<lparr>vx = Num 0, vy = Num (- 1), vz = Num 0\<rparr>) \<in> {0, 1}"
  by (rule update_orientation_wf [OF orient_wf_zero])

section \<open>The averaging weight\<close>

lemma ema_constants:
  "fbnd 0 ORIENT_EMA_DECAY" "fbnd 0 ORIENT_EMA_ALPHA" "0 \<le> fval ORIENT_EMA_DECAY"
  "0 \<le> fval ORIENT_EMA_ALPHA" "ffinite (flit (1 / 10000) :: f32)" "0 < fval (flit (1 / 10000) :: f32)"
  "(flit (1 / 2) :: f32) = Num (1 / 2)"
  unfolding fbnd_def by code_simp+

text \<open>One averaged quantity dominates the other if its input does.\<close>

lemma ema_dominates:
  fixes d e x y :: f32
  assumes "fbnd 40 d" "fbnd 40 e" "fbnd 40 x" "fbnd 40 y" "\<bar>fval d\<bar> \<le> fval e" "\<bar>fval x\<bar> \<le> fval y"
  shows "fbnd 41 (d * ORIENT_EMA_DECAY + x * ORIENT_EMA_ALPHA)"
    and "\<bar>fval (d * ORIENT_EMA_DECAY + x * ORIENT_EMA_ALPHA)\<bar>
      \<le> fval (e * ORIENT_EMA_DECAY + y * ORIENT_EMA_ALPHA)"
proof -
  let ?r = "rnd_of TYPE(f32)" and ?D = "fval ORIENT_EMA_DECAY" and ?A = "fval ORIENT_EMA_ALPHA"
  have m: "fbnd 40 (t * ORIENT_EMA_DECAY) \<and> fval (t * ORIENT_EMA_DECAY) = ?r (fval t * ?D)"
      "fbnd 40 (t * ORIENT_EMA_ALPHA) \<and> fval (t * ORIENT_EMA_ALPHA) = ?r (fval t * ?A)"
    if "fbnd 40 t" for t :: f32
    using fbnd_mult [OF that ema_constants(1)] fbnd_mult [OF that ema_constants(2)] by auto
  note sums = fbnd_add [of 40 "d * ORIENT_EMA_DECAY" "x * ORIENT_EMA_ALPHA"]
    fbnd_add [of 40 "e * ORIENT_EMA_DECAY" "y * ORIENT_EMA_ALPHA"]
  show "fbnd 41 (d * ORIENT_EMA_DECAY + x * ORIENT_EMA_ALPHA)"
    using sums(1) m [OF assms(1)] m [OF assms(3)] by simp
  have "\<bar>?r (fval d * ?D)\<bar> \<le> ?r (fval e * ?D)" "\<bar>?r (fval x * ?A)\<bar> \<le> ?r (fval y * ?A)"
    using assms(5,6) ema_constants(3,4)
    by (auto intro!: rnd_abs_mono simp: abs_mult mult_right_mono)
  then have "\<bar>?r (fval d * ?D) + ?r (fval x * ?A)\<bar> \<le> ?r (fval e * ?D) + ?r (fval y * ?A)"
    by linarith
  from rnd_abs_mono [OF this, of "TYPE(f32)"]
  show "\<bar>fval (d * ORIENT_EMA_DECAY + x * ORIENT_EMA_ALPHA)\<bar>
      \<le> fval (e * ORIENT_EMA_DECAY + y * ORIENT_EMA_ALPHA)"
    using sums(2,4) m [OF assms(1)] m [OF assms(2)] m [OF assms(3)] m [OF assms(4)] by simp
qed

lemma ema_weight_unit:
  assumes "ffinite ed" "ffinite ea" "\<bar>fval ed\<bar> \<le> fval ea"
  shows "ffinite (ema_weight ed ea) \<and> 0 \<le> fval (ema_weight ed ea) \<and> fval (ema_weight ed ea) \<le> 1"
proof (cases "flit (1 / 10000) \<le> fabs ea")
  case True
  then have pos: "0 < fval ea" using assms ema_constants(5,6) by auto
  then have q: "\<bar>fval ed / fval ea\<bar> \<le> 2 ^ 0" using assms(3) by (simp add: abs_divide)
  then have "\<bar>fval ed / fval ea\<bar> \<le> fp_max TYPE(f32)"
    using pow_le_max_f32 [of 0] by linarith
  then have "ffinite (ed div ea)" "fval (ed div ea) = rnd_of TYPE(f32) (fval ed / fval ea)"
    using fp_div_finite [OF assms(1,2)] pos by auto
  then show ?thesis
    using True rnd_abs_le_repr [OF q repr_pow_f32] by (simp add: ema_weight_def)
next
  case False
  then show ?thesis by (simp add: ema_weight_def ema_constants(7))
qed

text \<open>The adaptive average of one axis: for samples and averages of magnitude up to $2^{39}$ the mean
  step stays below the mean absolute step, so the weight of the new sample is between 0 and 1,
  rounding included.\<close>

theorem ema_axis_weight:
  assumes "orient_wf s" "i < 3" "fbnd 39 v" "fbnd 39 (smoothed s ! i)"
    and "fbnd 40 (ema_delta s ! i)" "fbnd 40 (ema_abs_delta s ! i)"
    and "\<bar>fval (ema_delta s ! i)\<bar> \<le> fval (ema_abs_delta s ! i)"
    and "s' = ema_axis i v s" "w = ema_weight (ema_delta s' ! i) (ema_abs_delta s' ! i)"
  shows "\<bar>fval (ema_delta s' ! i)\<bar> \<le> fval (ema_abs_delta s' ! i) \<and> 0 \<le> fval w \<and> fval w \<le> 1 \<and>
    smoothed s' ! i = (flit 1 - w) * smoothed s ! i + w * v"
proof -
  let ?d = "v - smoothed s ! i"
  have d: "fbnd 40 ?d" using fbnd_sub [OF assms(3,4)] by simp
  have ed: "ema_delta s' ! i = ema_delta s ! i * ORIENT_EMA_DECAY + ?d * ORIENT_EMA_ALPHA"
    and ea: "ema_abs_delta s' ! i = ema_abs_delta s ! i * ORIENT_EMA_DECAY + fabs ?d * ORIENT_EMA_ALPHA"
    and sm: "smoothed s' ! i = (flit 1 - w) * smoothed s ! i + w * v"
    using assms(1,2,8,9) by (simp_all add: ema_axis_def orient_wf_def Let_def)
  have "\<bar>fval (ema_abs_delta s ! i)\<bar> \<le> fval (ema_abs_delta s ! i)" using assms(7) by linarith
  note dom = ema_dominates [OF assms(5,6) d fbnd_abs [OF d] assms(7)]
    ema_dominates [OF assms(6,6) fbnd_abs [OF d] fbnd_abs [OF d] this]
  have le: "\<bar>fval (ema_delta s' ! i)\<bar> \<le> fval (ema_abs_delta s' ! i)"
    unfolding ed ea using dom(2) by simp
  have "ffinite (ema_delta s' ! i)" "ffinite (ema_abs_delta s' ! i)"
    unfolding ed ea using dom(1,3) by (auto dest: fbnd_finite)
  from ema_weight_unit [OF this le] show ?thesis using le sm assms(9) by simp
qed

theorem ema_axis_weight_witness:
  "\<bar>fval (ema_delta (ema_axis 0 (Num 1) orient_zero) ! 0)\<bar>
     \<le> fval (ema_abs_delta (ema_axis 0 (Num 1) orient_zero) ! 0)"
  using ema_axis_weight [OF orient_wf_zero, of 0 "Num 1", OF _ _ _ _ _ _ refl refl]
  by (simp add: orient_zero_def fbnd_def zero_fp_def)

section \<open>Warm-up\<close>

text \<open>The states the filter goes through on a list of samples, and the result codes.\<close>

fun orient_run :: "OrientState \<Rightarrow> Vec3 list \<Rightarrow> OrientState \<times> int list" where
  "orient_run s [] = (s, [])"
| "orient_run s (v # vs) = (let (s', r) = update_orientation s v; (t, rs) = orient_run s' vs in (t, r # rs))"

lemma orient_front_idx:
  assumes "orient_front s v = (s', inp, full)" "buf_idx s < 19" "\<not> buf_full s"
  shows "buf_idx s' = Suc (buf_idx s) \<and> \<not> buf_full s' \<and> \<not> full"
  using assms
  by (auto simp: orient_front_def median_filter_z_def ema_smooth_def ema_axis_def store_in_buffer_def
      Let_def ORIENT_BUF_SIZE_def split: prod.splits if_splits)

lemma update_orientation_filling:
  assumes "buf_idx s < 19" "\<not> buf_full s" "update_orientation s v = (s', r)"
  shows "buf_idx s' = Suc (buf_idx s) \<and> \<not> buf_full s' \<and> r = 0"
proof -
  obtain s1 inp full where f: "orient_front s v = (s1, inp, full)" by (metis prod_cases3)
  then show ?thesis using orient_front_idx [OF f assms(1,2)] assms(3)
    by (auto simp: update_orientation_def Let_def)
qed

lemma orient_run_filling:
  "buf_idx s + length vs \<le> 19 \<Longrightarrow> \<not> buf_full s \<Longrightarrow> orient_run s vs = (t, rs) \<Longrightarrow>
     rs = replicate (length vs) 0 \<and> buf_idx t = buf_idx s + length vs \<and> \<not> buf_full t"
proof (induction vs arbitrary: s t rs)
  case (Cons v vs)
  obtain s' r where u: "update_orientation s v = (s', r)" by fastforce
  obtain t' rs' where o: "orient_run s' vs = (t', rs')" by fastforce
  have "buf_idx s' = Suc (buf_idx s) \<and> \<not> buf_full s' \<and> r = 0"
    using update_orientation_filling [OF _ _ u] Cons.prems by simp
  then show ?case using Cons.IH [OF _ _ o] Cons.prems u o by simp
qed simp

text \<open>From the zeroed state the filter reports nothing (code 0) for the first nineteen samples.\<close>

theorem orient_warm_up:
  assumes "length vs \<le> 19"
  shows "snd (orient_run orient_zero vs) = replicate (length vs) 0"
  using orient_run_filling [of orient_zero vs] assms
  by (cases "orient_run orient_zero vs") (simp add: orient_zero_def)

theorem orient_warm_up_witness:
  "snd (orient_run orient_zero (replicate 3 \<lparr>vx = Num 0, vy = Num 1, vz = Num 0\<rparr>)) = [0, 0, 0]"
  using orient_warm_up [of "replicate 3 \<lparr>vx = Num 0, vy = Num 1, vz = Num 0\<rparr>"]
  by (simp add: numeral_eq_Suc)

end
