(* ===== verification/MiniBook.thy ===== *)
theory MiniBook
  imports SensorProxy_Signals Mxc6655_Facts Mxc_Orient_Facts
begin

text \<open>
  The daemon with the MiniBook's own driver: the MXC6655 driver keeps the driver contract and is
  prompt, so the daemon's guarantees hold for it, and the orientation a client reads is the one the
  driver meant.
\<close>

section \<open>The driver keeps the contract\<close>

text \<open>Matrices of nine entries and a well-formed filter state: every array access stays inside.\<close>

definition mxc_good :: "DrvData \<Rightarrow> bool" where
  "mxc_good d \<longleftrightarrow> orient_wf (orient d) \<and> length (cal1 d) = 9 \<and> length (cal2 d) = 9"

lemma mxc_good_load:
  assumes "load_gmtr os d w = (b, d', w')" "mxc_good d"
  shows "mxc_good d'"
  using assms
  by (auto simp: load_gmtr_def apply_gmtr_values_def mxc_good_def overlay_def Let_def
      split: prod.splits option.splits if_splits)

lemma mxc_good_open:
  assumes "mxc6655_open os dev w = (Some d, w')"
  shows "mxc_good d"
proof -
  have l: "mxc_good (fst (setup_lid_watch os d w)) = mxc_good d" for d w
    by (simp add: setup_lid_watch_def mxc_good_def Let_def split: prod.splits)
  have i: "mxc_good (drv_initial p)" for p
    by (simp add: mxc_good_def drv_initial_def orient_wf_zero)
  obtain pdeg w1 b d1 w2 where g: "load_gmtr os (drv_initial pdeg) w1 = (b, d1, w2)"
    and d: "\<exists>f u w3. d = fst (setup_lid_watch os (d1\<lparr>i2c_fds := f, uinput_fd := u\<rparr>) w3)"
    using assms by (auto simp: mxc6655_open_def Let_def split: prod.splits if_splits) (metis fst_conv)
  have "mxc_good d1" using mxc_good_load [OF g i] .
  then have "mxc_good (d1\<lparr>i2c_fds := f, uinput_fd := u\<rparr>)" for f u by (simp add: mxc_good_def)
  then show ?thesis using d l by blast
qed

lemma mxc_good_polling: "mxc_good (fst (mxc6655_set_polling os d b w)) = mxc_good d"
  by (auto simp: mxc6655_set_polling_def update_polling_timer_def start_poll_timer_def stop_poll_timer_def
      mxc_good_def Let_def split: prod.splits if_splits)

lemma mxc_good_debounce: "mxc_good d \<Longrightarrow> mxc_good (fst (update_orientation_debounce d a))"
proof -
  assume g: "mxc_good d"
  have "orient_wf (fst (update_orientation (orient d) a))"
    using orient_wf_update [of "orient d" a] g by (simp add: mxc_good_def)
  then show ?thesis
    using g by (auto simp: debounce_by_vote debounce_vote_def mxc_good_def Let_def split: option.splits)
qed

lemma mxc_good_poll: "mxc_good d \<Longrightarrow> mxc_good (fst (poll_sensors os m d w))"
proof -
  assume g: "mxc_good d"
  have r: "mxc_good (fst (recover_i2c os d w)) = mxc_good d" for d w
    by (simp add: recover_i2c_def mxc_good_def Let_def split: prod.splits)
  have t: "mxc_good (fst (update_tablet_mode os a d w)) = mxc_good d" for a d w
    by (auto simp: update_tablet_mode_def set_tablet_mode_def force_landscape_def mxc_good_def Let_def
        split: prod.splits)
  have h: "mxc_good (snd (compute_hinge_angle m d a b)) = mxc_good d" for d a b
    by (simp add: compute_hinge_angle_def mxc_good_def Let_def)
  have p: "mxc_good (fst (process_samples os m a b d w))" for a b w
    using mxc_good_debounce [OF g] h t
    by (simp add: process_samples_def Let_def split: prod.splits) (metis fst_conv snd_conv)
  show ?thesis
    using r p g by (simp add: poll_sensors_def split: prod.splits option.splits) (metis fst_conv)
qed

lemma mxc_emits: "mxc6655_set_polling os d b w = (d', rs, w') \<Longrightarrow> rs = (if b then send_current_reading d else [])"
  by (auto simp: mxc6655_set_polling_def Let_def split: if_splits prod.splits)

interpretation mxc: prompt_driver "mxc6655_accel os" mxc_good for os :: "'w os"
proof
  show "mxc_good d" if "drv_open (mxc6655_accel os) dev w = (Some d, w')" for dev w d w'
    using that mxc_good_open by (simp add: mxc6655_accel_def)
  show "mxc_good d'" if "drv_set_polling (mxc6655_accel os) = Some f" "mxc_good d" "f d b w = (d', rs, w')"
    for f d b w d' rs w'
    using that mxc_good_polling [of os d b w] by (auto simp: mxc6655_accel_def)
  show "readings_of_type (drv_type (mxc6655_accel os)) rs"
    if "drv_set_polling (mxc6655_accel os) = Some f" "mxc_good d" "f d b w = (d', rs, w')" for f d b w d' rs w'
    using that mxc_emits [of os d b w d' rs w']
    by (auto simp: mxc6655_accel_def readings_of_type_def send_current_reading_def emit_orientation_def Let_def)
  show "drv_set_polling (mxc6655_accel os) \<noteq> None" by (simp add: mxc6655_accel_def)
  show "rs \<noteq> []" if "drv_set_polling (mxc6655_accel os) = Some f" "mxc_good d" "f d True w = (d', rs, w')"
    for f d w d' rs w'
    using that mxc_emits [of os d True w d' rs w']
    by (auto simp: mxc6655_accel_def send_current_reading_def emit_orientation_def Let_def)
qed

interpretation mxc_proxy: prompt_proxy "[mxc6655_accel os]" mxc_good for os :: "'w os"
  by (intro prompt_proxy.intro sensor_proxy.intro prompt_proxy_axioms.intro)
    (simp_all add: mxc.sensor_driver_axioms mxc.prompt_driver_axioms)

section \<open>Guarantees\<close>

text \<open>In every state the daemon can reach with the MiniBook driver, through any interleaving of
  method calls, vanishing clients, udev events and readings, no assertion has failed and no NULL
  device was used, and each sensor type is either absent without a trace or served by an open
  device.\<close>

theorem proxy_safe:
  assumes "proxy_reach bus [mxc6655_accel os] mxc_good m calls data w"
  shows "\<not> aborted data \<and> connected data \<and>
    (drivers_of data t = None \<longleftrightarrow> devices_of data t = None) \<and>
    (drivers_of data t = None \<longleftrightarrow> udev_devices_of data t = None) \<and>
    (\<forall>sd. devices_of data t = Some sd \<longrightarrow> t = DRIVER_TYPE_ACCEL \<and> mxc_good (sd_priv sd))"
proof -
  have i: "proxy_inv [mxc6655_accel os] mxc_good data"
    using reach_ok [OF mxc_proxy.sensor_proxy_axioms assms] by simp
  have "drv_type (mxc6655_accel os) = DRIVER_TYPE_ACCEL" by (simp add: mxc6655_accel_def)
  then show ?thesis
    using proxy_invD(1) [OF i, of t] proxy_invD(2,3) [OF i] by (auto simp: type_inv_def split: option.splits)
qed

text \<open>C1: every method call is answered exactly once, before the next event is handled: in every
  reachable state the replies sent are, as a multiset, the calls received, and no call and no
  change event waits for a first reading.\<close>

theorem proxy_answers_every_call:
  assumes "proxy_reach bus [mxc6655_accel os] mxc_good m calls data w"
  shows "mset (replies data) = mset calls \<and> invocations_delayed data t = [] \<and> \<not> event_delayed data t"
proof -
  have "accounted data = mset calls" using reach_ok [OF mxc_proxy.sensor_proxy_axioms assms] by simp
  moreover have "idle data" using prompt_reach_idle [OF mxc_proxy.prompt_proxy_axioms assms] by simp
  ultimately show ?thesis using idle_pending [of data] by (simp add: accounted_def idle_def)
qed

subsection \<open>A concrete daemon\<close>

definition open_bus :: "'w bus" where
  "open_bus = \<lparr>watch_name = (\<lambda>s w. (1, w)), unwatch_name = (\<lambda>i w. w),
     check_authorization = (\<lambda>s w. (Some True, w))\<rparr>"

definition minibook_devices :: "string \<Rightarrow> GUdevDevice list" where
  "minibook_devices subsystem = (if subsystem = ''i2c'' then [mda_device] else [])"

definition minibook_start :: "(DrvData, table_world) SensorData \<times> table_world" where
  "minibook_start = name_acquired_handler [mxc6655_accel table_os] minibook_devices quadrant_libm
     (bus_acquired_handler (main_data True), two_bus_world)"

lemma minibook_discover: "driver_discover (mxc6655_accel os) mda_device w = (True, w)"
proof -
  have "mxc6655_discover mda_device" "setup_accel_location mda_device = ACCEL_LOCATION_DISPLAY" by code_simp+
  then show ?thesis by (simp add: driver_discover_def mxc6655_accel_def)
qed

lemma minibook_running:
  "running (fst minibook_start) \<and> devices_of (fst minibook_start) DRIVER_TYPE_ACCEL \<noteq> None \<and>
    udev_devices_of (fst minibook_start) DRIVER_TYPE_ACCEL = Some mda_device \<and>
    clients_of (fst minibook_start) DRIVER_TYPE_ACCEL = []"
proof -
  let ?drv = "mxc6655_accel table_os"
  let ?d0 = "bus_acquired_handler (main_data True) :: (DrvData, table_world) SensorData"
  let ?d1 = "?d0\<lparr>udev_devices_of := (udev_devices_of ?d0)(DRIVER_TYPE_ACCEL \<mapsto> mda_device),
    drivers_of := (drivers_of ?d0)(DRIVER_TYPE_ACCEL \<mapsto> ?drv)\<rparr>"
  have ty: "drv_type ?drv = DRIVER_TYPE_ACCEL" by (simp add: mxc6655_accel_def)
  have f: "find_sensors [?drv] minibook_devices ?d0 two_bus_world = (True, ?d1, two_bus_world)"
    by (simp add: find_sensors_def minibook_devices_def try_driver_def minibook_discover ty
        driver_type_exists_def bus_acquired_handler_def main_data_def sensor_types_def)
  obtain d w where o: "mxc6655_open table_os mda_device two_bus_world = (Some d, w)" using two_bus_open by blast
  then have op: "driver_open ?drv mda_device two_bus_world = (Some \<lparr>sd_drv = ?drv, sd_priv = d\<rparr>, w)"
    by (simp add: driver_open_def mxc6655_accel_def)
  obtain d2 where d2: "fold (open_type quadrant_libm) sensor_types (?d1, two_bus_world) = (d2, w)"
    and d2': "any_sensors_left d2" "running d2" "connected d2" "devices_of d2 DRIVER_TYPE_ACCEL \<noteq> None"
      "udev_devices_of d2 DRIVER_TYPE_ACCEL = Some mda_device" "clients_of d2 DRIVER_TYPE_ACCEL = []"
    by (simp add: sensor_types_def open_type_def op any_sensors_left_def driver_type_exists_def
        bus_acquired_handler_def main_data_def Let_def)
  let ?e = "send_dbus_event PROP_ALL_COMPASS (send_dbus_event PROP_ALL d2)"
  note c1 = send_dbus_event_core(1) [of PROP_ALL d2]
  note c2 = send_dbus_event_core(1) [of PROP_ALL_COMPASS "send_dbus_event PROP_ALL d2"]
  have "core ?e = core d2"
    using c1 c2 core_eqD(2) [OF c1] d2'(3) by simp
  from core_eqD [OF this] have "running ?e" "devices_of ?e DRIVER_TYPE_ACCEL \<noteq> None"
    "udev_devices_of ?e DRIVER_TYPE_ACCEL = Some mda_device" "clients_of ?e DRIVER_TYPE_ACCEL = []"
    using d2' by simp_all
  moreover have "fst minibook_start = ?e"
    by (simp add: minibook_start_def name_acquired_handler_def f d2 d2'(1))
  ultimately show ?thesis by simp
qed

lemma minibook_reach:
  "proxy_reach open_bus [mxc6655_accel table_os] mxc_good quadrant_libm [] (fst minibook_start) (snd minibook_start)"
  by (rule proxy_reach.start [of _ minibook_devices _ True two_bus_world])
    (use minibook_running in \<open>simp_all add: minibook_start_def\<close>)

definition minibook_claim :: "(DrvData, table_world) SensorData \<times> table_world" where
  "minibook_claim = handle_method_call open_bus quadrant_libm '':1.7'' ''ClaimAccelerometer'' 42 minibook_start"

lemma minibook_claimed:
  "proxy_reach open_bus [mxc6655_accel table_os] mxc_good quadrant_libm [42] (fst minibook_claim) (snd minibook_claim)"
  by (rule proxy_reach.call [OF minibook_reach, of "'':1.7''" "''ClaimAccelerometer''"]) (simp add: minibook_claim_def)

theorem proxy_safe_witness: "\<not> aborted (fst minibook_claim) \<and> connected (fst minibook_claim)"
  using proxy_safe [OF minibook_claimed] by blast

theorem proxy_answers_every_call_witness: "replies (fst minibook_claim) = [42]"
  using proxy_answers_every_call [OF minibook_claimed] by simp

section \<open>From the driver to the client\<close>

lemma send_for_client_orientation:
  assumes "driver_type_exists data DRIVER_TYPE_ACCEL"
  shows "previous_orientation (send_dbus_event_for_client c k data) = previous_orientation data"
  using assms
  by (auto simp: send_dbus_event_for_client_def accel_props_def send_out_def Let_def split: prod.splits)

lemma fold_send_orientation:
  "driver_type_exists data DRIVER_TYPE_ACCEL \<Longrightarrow>
     previous_orientation (fold (\<lambda>(c, k). send_dbus_event_for_client c k) cs data) = previous_orientation data"
proof (induction cs arbitrary: data)
  case (Cons e cs)
  obtain c k where e: "e = (c, k)" by fastforce
  have "driver_type_exists (send_dbus_event_for_client c k data) DRIVER_TYPE_ACCEL"
    using Cons.prems core_eqD(4) [OF send_for_client_core(1) [of c k data]] by (simp add: driver_type_exists_def)
  then show ?case using Cons e send_for_client_orientation [of data c k] by simp
qed simp

lemma send_event_orientation:
  assumes "driver_type_exists data DRIVER_TYPE_ACCEL"
  shows "previous_orientation (send_dbus_event k data) = previous_orientation data"
proof -
  have "driver_type_exists (g_assert a data) DRIVER_TYPE_ACCEL" "previous_orientation (g_assert a data) = previous_orientation data"
    if "driver_type_exists data DRIVER_TYPE_ACCEL" for a and data :: "('a, 'b) SensorData"
    using that by (simp_all add: g_assert_def driver_type_exists_def)
  then show ?thesis using assms by (simp add: send_dbus_event_def Let_def fold_send_orientation)
qed

lemma fold_return_orientation:
  "previous_orientation (fold (\<lambda>i. send_out (f i)) is data) = previous_orientation data"
  by (induction "is" arbitrary: data) (simp_all add: send_out_def)

lemma notify_orientation:
  assumes "driver_type_exists data DRIVER_TYPE_ACCEL"
  shows "previous_orientation (maybe_notify_sensor_startup_finished t data) = previous_orientation data"
proof -
  let ?e = "data\<lparr>invocations_delayed := (invocations_delayed data)(t := [])\<rparr>"
  let ?d = "fold (\<lambda>i. send_out (Return_value i)) (invocations_delayed data t) ?e"
  have c: "core ?d = core ?e" by (simp add: fold_return)
  have "driver_type_exists ?d DRIVER_TYPE_ACCEL"
    using assms unfolding driver_type_exists_def core_eqD(4) [OF c] by simp
  note x = this
  have d: "previous_orientation (send_driver_changed_dbus_event t data) = previous_orientation data"
    if "driver_type_exists data DRIVER_TYPE_ACCEL" for data :: "('a, 'b) SensorData"
    using send_event_orientation [OF that] by (simp add: send_driver_changed_dbus_event_def)
  show ?thesis
    using d [OF x] d [OF assms]
    by (simp add: maybe_notify_sensor_startup_finished_def fold_return_orientation Let_def)
qed

lemma accel_changed_orientation:
  assumes "connected data" "driver_type_exists data DRIVER_TYPE_ACCEL"
  shows "previous_orientation (accel_changed_func m r data) =
    orientation_calc m (previous_orientation data) (accel_x r) (accel_y r) (accel_z r) (accel_scale r)"
proof -
  let ?o = "orientation_calc m (previous_orientation data) (accel_x r) (accel_y r) (accel_z r) (accel_scale r)"
  let ?d1 = "if previous_orientation data \<noteq> ?o
    then send_dbus_event PROP_ACCELEROMETER_ORIENTATION (data\<lparr>previous_orientation := ?o\<rparr>) else data"
  have c1: "core ?d1 = core data"
    using announce(1) [OF assms(1), of PROP_ACCELEROMETER_ORIENTATION "data\<lparr>previous_orientation := ?o\<rparr>"] by simp
  have x1: "driver_type_exists ?d1 DRIVER_TYPE_ACCEL" "connected ?d1"
    using core_eqD(2,4) [OF c1] assms by (simp_all add: driver_type_exists_def)
  have o1: "previous_orientation ?d1 = ?o"
    using assms(2) send_event_orientation [of "data\<lparr>previous_orientation := ?o\<rparr>"]
    by (auto simp: driver_type_exists_def)
  let ?t = "tilt_calc m (previous_tilt ?d1) (accel_x r) (accel_y r) (accel_z r) (accel_scale r)"
  let ?d2 = "if previous_tilt ?d1 \<noteq> ?t
    then send_dbus_event PROP_ACCELEROMETER_TILT (?d1\<lparr>previous_tilt := ?t\<rparr>) else ?d1"
  have c2: "core ?d2 = core ?d1"
    using announce(1) [OF x1(2), of PROP_ACCELEROMETER_TILT "?d1\<lparr>previous_tilt := ?t\<rparr>"] by simp
  have x2: "driver_type_exists ?d2 DRIVER_TYPE_ACCEL"
    using core_eqD(4) [OF c2] x1 by (simp add: driver_type_exists_def)
  have "previous_orientation ?d2 = ?o"
    using o1 x1(1) send_event_orientation [of "?d1\<lparr>previous_tilt := ?t\<rparr>"] by (auto simp: driver_type_exists_def)
  then show ?thesis
    using notify_orientation [OF x2, of DRIVER_TYPE_ACCEL] by (simp add: accel_changed_func_def Let_def)
qed

text \<open>C11: from the driver to the client: the first client whose claim of the accelerometer is allowed
  finds, when the call has returned, the driver's current orientation in the property (landscape
  when none was classified yet), whatever the daemon knew before.\<close>

theorem claim_gives_orientation:
  assumes "proxy_reach bus [mxc6655_accel os] mxc_good m calls data w" "atan2_axes m"
    and "devices_of data DRIVER_TYPE_ACCEL = Some sd" "clients_of data DRIVER_TYPE_ACCEL = []"
    and "fst (check_authorization bus sender w) = Some True"
    and "handle_method_call bus m sender ''ClaimAccelerometer'' i (data, w) = (data', w')"
  shows "handle_get_property ''AccelerometerOrientation'' data' =
    Some (VString (orientation_to_string (mxc_orientation_up
      (if cur_orient (sd_priv sd) < 0 then compose_orientation 3 (panel_deg (sd_priv sd)) else cur_orient (sd_priv sd)))))"
proof -
  let ?t = DRIVER_TYPE_ACCEL and ?d = "sd_priv sd"
  have inv: "proxy_inv [mxc6655_accel os] mxc_good data"
    using reach_ok [OF mxc_proxy.sensor_proxy_axioms assms(1)] by simp
  have drv: "sd_drv sd = mxc6655_accel os" "drivers_of data ?t \<noteq> None" "connected data"
    using proxy_invD(1) [OF inv, of ?t] proxy_invD(2) [OF inv] assms(3)
    by (auto simp: type_inv_def split: option.splits)
  obtain w1 where au: "check_authorization bus sender w = (Some True, w1)"
    using assms(5) by (metis prod.collapse)
  obtain wid w2 where wn: "watch_name bus sender w1 = (wid, w2)" by fastforce
  obtain d2 rs w3 where p: "mxc6655_set_polling os ?d True w2 = (d2, rs, w3)" by (metis prod_cases3)
  let ?o = "if cur_orient ?d < 0 then compose_orientation 3 (panel_deg ?d) else cur_orient ?d"
  have rs: "rs = [AccelR (build_synthetic_readings ?o stack_readings)]"
    using mxc_emits [OF p] by (simp add: send_current_reading_def emit_orientation_def MXC_ORIENT_RIGHT_def Let_def)
  let ?data = "(delay_invocation ?t i (data\<lparr>clients_of := (clients_of data)(?t := [(sender, wid)])\<rparr>))
    \<lparr>devices_of := (devices_of data)(?t \<mapsto> sd\<lparr>sd_priv := d2\<rparr>)\<rparr>"
  have "data' = accel_changed_func m (build_synthetic_readings ?o stack_readings) ?data"
    using assms(3,4,6) au wn p rs drv
    by (auto simp: handle_method_call_def handle_call_def method_driver_type_def check_claim_permission_def
        handle_generic_method_call_def method_prefixes handle_claim_def client_watch_def driver_type_exists_def
        set_polling_type_def delay_invocation_def driver_set_polling_def mxc6655_accel_def
        driver_type_to_callback_func_def Let_def)
  moreover have "connected ?data" "driver_type_exists ?data ?t"
    using drv by (simp_all add: delay_invocation_def driver_type_exists_def)
  ultimately have "previous_orientation data' = mxc_orientation_up ?o"
    using accel_changed_orientation [of ?data] synthetic_orientation [OF assms(2) refl] by simp
  then show ?thesis by (simp add: handle_get_property_def)
qed

theorem claim_gives_orientation_witness:
  "\<exists>sd. devices_of (fst minibook_start) DRIVER_TYPE_ACCEL = Some sd \<and>
    handle_get_property ''AccelerometerOrientation'' (fst minibook_claim) =
      Some (VString (orientation_to_string (mxc_orientation_up
        (if cur_orient (sd_priv sd) < 0 then compose_orientation 3 (panel_deg (sd_priv sd)) else cur_orient (sd_priv sd)))))"
proof -
  obtain sd where sd: "devices_of (fst minibook_start) DRIVER_TYPE_ACCEL = Some sd" using minibook_running by auto
  have au: "fst (check_authorization open_bus '':1.7'' (snd minibook_start)) = Some True" by (simp add: open_bus_def)
  have cl: "clients_of (fst minibook_start) DRIVER_TYPE_ACCEL = []" using minibook_running by simp
  have "handle_method_call open_bus quadrant_libm '':1.7'' ''ClaimAccelerometer'' 42
    (fst minibook_start, snd minibook_start) = (fst minibook_claim, snd minibook_claim)" by (simp add: minibook_claim_def)
  from claim_gives_orientation [OF minibook_reach quadrant_libm_laws(1) sd cl au this] sd show ?thesis by blast
qed

text \<open>The removal of a sensor is not announced to those who use it: in any reachable state, when the
  accelerometer goes away, the daemon sends only signals without any property (to clients of other
  sensors, on the compass path), so no client hears that HasAccelerometer became false, and the
  last orientation stays what it was.\<close>

theorem removal_not_announced:
  assumes "proxy_reach bus [mxc6655_accel os] mxc_good m calls data w"
    and "udev_devices_of data DRIVER_TYPE_ACCEL = Some dev" "sysfs_path device = sysfs_path dev"
  shows "\<exists>cs. out (fst (remove_type bus m device DRIVER_TYPE_ACCEL (data, w))) = out data @ map empty_signal cs \<and>
    previous_orientation (fst (remove_type bus m device DRIVER_TYPE_ACCEL (data, w))) = previous_orientation data \<and>
    \<not> driver_type_exists (fst (remove_type bus m device DRIVER_TYPE_ACCEL (data, w))) DRIVER_TYPE_ACCEL"
proof -
  let ?t = DRIVER_TYPE_ACCEL
  have i: "proxy_inv [mxc6655_accel os] mxc_good data" and id: "idle data"
    using prompt_reach_idle [OF mxc_proxy.prompt_proxy_axioms assms(1)] by simp_all
  obtain sd where sd: "devices_of data ?t = Some sd" "sd_drv sd = mxc6655_accel os"
    using proxy_invD(1) [OF i, of ?t] assms(2) by (auto simp: type_inv_def split: option.splits)
  obtain w1 where cl: "driver_close sd w = ([], w1)"
    using sd(2) mxc_emits [of os "sd_priv sd" False w]
    by (cases "mxc6655_set_polling os (sd_priv sd) False w")
      (auto simp: driver_close_def driver_set_polling_def mxc6655_accel_def)
  let ?d = "data\<lparr>udev_devices_of := (udev_devices_of data)(?t := None), devices_of := (devices_of data)(?t := None),
    drivers_of := (drivers_of data)(?t := None), clients_of := (clients_of data)(?t := []),
    event_delayed := (event_delayed data)(?t := False), invocations_delayed := (invocations_delayed data)(?t := [])\<rparr>"
  have "connected ?d" "clients_of ?d ?t = []" using proxy_invD(2) [OF i] by simp_all
  from change_unheard [OF this]
  obtain cs where cs: "send_driver_changed_dbus_event ?t ?d = ?d\<lparr>out := out ?d @ map empty_signal cs\<rparr>" by blast
  have "invocations_delayed data ?t = []" using id by (simp add: idle_def)
  then have "fst (remove_type bus m device ?t (data, w)) = send_driver_changed_dbus_event ?t ?d"
    using assms(2,3) sd(1) cl by (simp add: remove_type_def close_type_def Let_def)
  then show ?thesis using cs by (auto simp: driver_type_exists_def)
qed

theorem removal_not_announced_witness:
  "\<exists>cs. out (fst (remove_type open_bus quadrant_libm mda_device DRIVER_TYPE_ACCEL minibook_start)) =
    out (fst minibook_start) @ map empty_signal cs"
proof -
  have u: "udev_devices_of (fst minibook_start) DRIVER_TYPE_ACCEL = Some mda_device" using minibook_running by simp
  from removal_not_announced [OF minibook_reach u refl] show ?thesis by auto
qed

end
