(* ===== verification/Iio_Poll.thy ===== *)
theory Iio_Poll
  imports Iio_Buffer
begin

text \<open>
  The drivers that poll on a timer: \<^verbatim>\<open>drv-iio-poll-accel.c\<close>, \<^verbatim>\<open>drv-iio-poll-light.c\<close>,
  \<^verbatim>\<open>drv-iio-poll-proximity.c\<close>, \<^verbatim>\<open>drv-hwmon-light.c\<close>, \<^verbatim>\<open>drv-fake-light.c\<close> and \<^verbatim>\<open>drv-fake-compass.c\<close>. Each is a
  driver record over its private data; the timer callback is a function of its own, called by
  \<^verbatim>\<open>set_polling\<close> for the first reading and by the main loop afterwards.
\<close>

section \<open>drv-iio-poll-accel.c\<close>

record PollAccel =
  pa_timeout_id :: nat
  pa_dev :: GUdevDevice
  pa_mount_matrix :: "AccelVec3 list"
  pa_location :: AccelLocation
  pa_scale :: AccelScale

definition poll_orientation :: "'w iio_env \<Rightarrow> PollAccel \<Rightarrow> 'w \<Rightarrow> readings list" where
  "poll_orientation env d w =
     (let raw = (\<lambda>n. fint (attr_int_uncached env (pa_dev d) n w));
          tmp = apply_mount_matrix (pa_mount_matrix d)
            \<lparr>ax = raw ''in_accel_x_raw'', ay = raw ''in_accel_y_raw'', az = raw ''in_accel_z_raw''\<rparr>
      in [AccelR \<lparr>accel_x = f2i (ax tmp), accel_y = f2i (ay tmp), accel_z = f2i (az tmp),
                  accel_scale = pa_scale d\<rparr>])"

definition iio_poll_accel_discover :: "GUdevDevice \<Rightarrow> bool" where
  "iio_poll_accel_discover device = drv_check_udev_sensor_type device ''iio-poll-accel''"

definition iio_poll_accel_set_polling ::
  "'w iio_env \<Rightarrow> PollAccel \<Rightarrow> bool \<Rightarrow> 'w \<Rightarrow> PollAccel \<times> readings list \<times> 'w" where
  "iio_poll_accel_set_polling env d state w =
     (if 0 < pa_timeout_id d \<and> state then (d, [], w)
      else if pa_timeout_id d = 0 \<and> \<not> state then (d, [], w)
      else (let (d, w) = (if pa_timeout_id d \<noteq> 0
                  then (d\<lparr>pa_timeout_id := 0\<rparr>, os_source_remove (ie_os env) (pa_timeout_id d) w) else (d, w))
        in if state
           then (let (i, w) = os_timeout_add (ie_os env) 700 w; d = d\<lparr>pa_timeout_id := i\<rparr>
             in (d, poll_orientation env d w, w))
           else (d, [], w)))"

definition iio_poll_accel_open :: "'w iio_env \<Rightarrow> GUdevDevice \<Rightarrow> 'w \<Rightarrow> PollAccel option \<times> 'w" where
  "iio_poll_accel_open env device w =
     (let (_, w) = iio_fixup_sampling_frequency env device w
      in (Some \<lparr>pa_timeout_id = 0, pa_dev = device,
                pa_mount_matrix = setup_mount_matrix (strtod_val env) device,
                pa_location = setup_accel_location device,
                pa_scale = get_accel_scale (strtod_val env) device \<lparr>scale_x = 0, scale_y = 0, scale_z = 0\<rparr>\<rparr>, w))"

definition iio_poll_accel :: "'w iio_env \<Rightarrow> (PollAccel, 'w) SensorDriver" where
  "iio_poll_accel env = \<lparr>driver_name = ''IIO Poll accelerometer'', drv_type = DRIVER_TYPE_ACCEL,
     drv_discover = (\<lambda>device w. (iio_poll_accel_discover device, w)),
     drv_open = iio_poll_accel_open env,
     drv_set_polling = Some (iio_poll_accel_set_polling env),
     drv_close = (\<lambda>d w. w)\<rparr>"

section \<open>drv-iio-poll-light.c\<close>

record PollLight =
  pl_input_path :: string
  pl_interval :: nat
  pl_timeout_id :: nat
  pl_scale :: f64

definition iio_poll_light_discover :: "GUdevDevice \<Rightarrow> bool" where
  "iio_poll_light_discover device = drv_check_udev_sensor_type device ''iio-poll-als''"

definition poll_light_changed :: "'w iio_env \<Rightarrow> PollLight \<Rightarrow> 'w \<Rightarrow> readings list" where
  "poll_light_changed env d w = (case ie_contents env (pl_input_path d) w of
     Inl e \<Rightarrow> []
   | Inr contents \<Rightarrow> [LightR \<lparr>level = strtod_val env contents * pl_scale d, uses_lux = True\<rparr>])"

definition illuminance_channels :: "string list" where
  "illuminance_channels = [''in_illuminance'', ''in_illuminance0'', ''in_illuminance_clear'', ''in_intensity_clear'']"

definition get_illuminance_channel_path :: "'w iio_env \<Rightarrow> GUdevDevice \<Rightarrow> string \<Rightarrow> 'w \<Rightarrow> string option" where
  "get_illuminance_channel_path env device suffix w =
     List.find (\<lambda>path. ie_exists env path w)
       (map (\<lambda>c. percent_s (sysfs_path device) @ ''/'' @ c @ ''_'' @ suffix) illuminance_channels)"

text \<open>A conversion to an unsigned 32-bit number goes through 64 bits on the target machine.\<close>

definition double_to_guint :: "f64 \<Rightarrow> nat" where
  "double_to_guint x = (let t = rtrunc (fval x) in
     if ffinite x \<and> - (2 ^ 63) \<le> t \<and> t < 2 ^ 63 then nat (t mod 2 ^ 32) else 0)"

definition get_interval :: "'w iio_env \<Rightarrow> GUdevDevice \<Rightarrow> 'w \<Rightarrow> nat" where
  "get_interval env device w =
     (let time = (case get_illuminance_channel_path env device ''integration_time'' w of
            None \<Rightarrow> flit (8 / 10)
          | Some path \<Rightarrow> (case ie_contents env path w of
              Inl e \<Rightarrow> flit (8 / 10) | Inr contents \<Rightarrow> strtod_val env contents))
      in double_to_guint (time * flit 1000))"

definition iio_poll_light_set_polling ::
  "'w iio_env \<Rightarrow> PollLight \<Rightarrow> bool \<Rightarrow> 'w \<Rightarrow> PollLight \<times> readings list \<times> 'w" where
  "iio_poll_light_set_polling env d state w =
     (if 0 < pl_timeout_id d \<and> state then (d, [], w)
      else if pl_timeout_id d = 0 \<and> \<not> state then (d, [], w)
      else (let (d, w) = (if pl_timeout_id d \<noteq> 0
                  then (d\<lparr>pl_timeout_id := 0\<rparr>, os_source_remove (ie_os env) (pl_timeout_id d) w) else (d, w))
        in if state
           then (let (i, w) = os_timeout_add (ie_os env) (pl_interval d) w; d = d\<lparr>pl_timeout_id := i\<rparr>
             in (d, poll_light_changed env d w, w))
           else (d, [], w)))"

definition iio_poll_light_open :: "'w iio_env \<Rightarrow> GUdevDevice \<Rightarrow> 'w \<Rightarrow> PollLight option \<times> 'w" where
  "iio_poll_light_open env device w =
     (let (_, w) = iio_fixup_sampling_frequency env device w;
          input_path = (case get_illuminance_channel_path env device ''input'' w of
            Some p \<Rightarrow> Some p | None \<Rightarrow> get_illuminance_channel_path env device ''raw'' w)
      in case input_path of None \<Rightarrow> (None, w)
         | Some path \<Rightarrow>
             (let scale = attr_as_double (strtod_val env) device
                    (if has_prefix path ''in_illuminance0'' then ''in_illuminance0_scale'' else ''in_illuminance_scale'')
              in (Some \<lparr>pl_input_path = path, pl_interval = get_interval env device w, pl_timeout_id = 0,
                        pl_scale = (if feq scale 0 then 1 else scale)\<rparr>, w)))"

definition iio_poll_light :: "'w iio_env \<Rightarrow> (PollLight, 'w) SensorDriver" where
  "iio_poll_light env = \<lparr>driver_name = ''IIO Polling Light sensor'', drv_type = DRIVER_TYPE_LIGHT,
     drv_discover = (\<lambda>device w. (iio_poll_light_discover device, w)),
     drv_open = iio_poll_light_open env,
     drv_set_polling = Some (iio_poll_light_set_polling env),
     drv_close = (\<lambda>d w. w)\<rparr>"

section \<open>drv-iio-poll-proximity.c\<close>

record PollProximity =
  pp_input_attr :: string
  pp_timeout_id :: nat
  pp_dev :: GUdevDevice
  pp_near_level :: int
  pp_last_level :: int

definition PROXIMITY_WATER_MARK_LOW :: f64 where "PROXIMITY_WATER_MARK_LOW = flit (9 / 10)"
definition PROXIMITY_WATER_MARK_HIGH :: f64 where "PROXIMITY_WATER_MARK_HIGH = flit (11 / 10)"

definition poll_proximity :: "'w iio_env \<Rightarrow> PollProximity \<Rightarrow> 'w \<Rightarrow> PollProximity \<times> readings list" where
  "poll_proximity env d w =
     (let near_level = fint (pp_near_level d);
          prox = attr_int_uncached env (pp_dev d) (pp_input_attr d) w;
          near_level = near_level * (if near_level < fint (pp_last_level d)
            then PROXIMITY_WATER_MARK_LOW else PROXIMITY_WATER_MARK_HIGH)
      in (d\<lparr>pp_last_level := prox\<rparr>,
          [ProximityR (if near_level < fint prox then PROXIMITY_NEAR_TRUE else PROXIMITY_NEAR_FALSE)]))"

definition iio_poll_proximity_discover :: "GUdevDevice \<Rightarrow> bool" where
  "iio_poll_proximity_discover device = drv_check_udev_sensor_type device ''iio-poll-proximity''"

definition iio_poll_proximity_set_polling ::
  "'w iio_env \<Rightarrow> PollProximity \<Rightarrow> bool \<Rightarrow> 'w \<Rightarrow> PollProximity \<times> readings list \<times> 'w" where
  "iio_poll_proximity_set_polling env d state w =
     (if 0 < pp_timeout_id d \<and> state then (d, [], w)
      else if pp_timeout_id d = 0 \<and> \<not> state then (d, [], w)
      else (let (d, w) = (if pp_timeout_id d \<noteq> 0
                  then (d\<lparr>pp_timeout_id := 0\<rparr>, os_source_remove (ie_os env) (pp_timeout_id d) w) else (d, w))
        in if state
           then (let (i, w) = os_timeout_add (ie_os env) 700 w;
                     (d, rs) = poll_proximity env (d\<lparr>pp_timeout_id := i\<rparr>) w
             in (d, rs, w))
           else (d, [], w)))"

definition get_proximity_channel_attr :: "'w iio_env \<Rightarrow> GUdevDevice \<Rightarrow> string \<Rightarrow> 'w \<Rightarrow> string option" where
  "get_proximity_channel_attr env device suffix w =
     List.find (\<lambda>attr. ie_exists env (percent_s (sysfs_path device) @ ''/'' @ attr) w)
       (map (\<lambda>c. c @ ''_'' @ suffix) [''in_proximity'', ''in_proximity0''])"

definition get_near_level :: "'w iio_env \<Rightarrow> GUdevDevice \<Rightarrow> int" where
  "get_near_level env device =
     (let near_level = attr_int env (property device ''PROXIMITY_NEAR_LEVEL'')
      in if near_level \<noteq> 0 then near_level else attr_int env (sysfs_attr device ''in_proximity_nearlevel''))"

definition iio_poll_proximity_open :: "'w iio_env \<Rightarrow> GUdevDevice \<Rightarrow> 'w \<Rightarrow> PollProximity option \<times> 'w" where
  "iio_poll_proximity_open env device w =
     (let (_, w) = iio_fixup_sampling_frequency env device w; near_level = get_near_level env device
      in if near_level = 0 then (None, w)
         else (case get_proximity_channel_attr env device ''raw'' w of None \<Rightarrow> (None, w)
           | Some attr \<Rightarrow> (Some \<lparr>pp_input_attr = attr, pp_timeout_id = 0, pp_dev = device,
               pp_near_level = near_level, pp_last_level = 0\<rparr>, w)))"

definition iio_poll_proximity :: "'w iio_env \<Rightarrow> (PollProximity, 'w) SensorDriver" where
  "iio_poll_proximity env = \<lparr>driver_name = ''IIO Poll proximity sensor'', drv_type = DRIVER_TYPE_PROXIMITY,
     drv_discover = (\<lambda>device w. (iio_poll_proximity_discover device, w)),
     drv_open = iio_poll_proximity_open env,
     drv_set_polling = Some (iio_poll_proximity_set_polling env),
     drv_close = (\<lambda>d w. w)\<rparr>"

section \<open>drv-hwmon-light.c\<close>

record HwmonLight =
  hl_device :: GUdevDevice
  hl_timeout_id :: nat

definition hwmon_light_discover :: "GUdevDevice \<Rightarrow> bool" where
  "hwmon_light_discover device = drv_check_udev_sensor_type device ''hwmon-als''"

text \<open>The format \<^verbatim>\<open>(%d,%d)\<close>; the closing parenthesis is not counted among the conversions.\<close>

definition scan_light_pair :: "string \<Rightarrow> (int \<times> int) option" where
  "scan_light_pair s = do {
     s \<leftarrow> scan_lit ''('' s;
     (light1, s) \<leftarrow> scan_d s;
     s \<leftarrow> scan_lit '','' s;
     (light2, s) \<leftarrow> scan_d s;
     Some (light1, light2)
   }"

definition hwmon_level :: "int \<Rightarrow> int \<Rightarrow> f64" where
  "hwmon_level light1 light2 = fconv ((fint (max light1 light2) div fint 255 * fint 100) :: f32)"

definition hwmon_light_changed :: "'w iio_env \<Rightarrow> HwmonLight \<Rightarrow> 'w \<Rightarrow> readings list" where
  "hwmon_light_changed env d w =
     (case Option.bind (ie_attr_uncached env (hl_device d) ''light'' w) scan_light_pair of
        None \<Rightarrow> []
      | Some (light1, light2) \<Rightarrow> [LightR \<lparr>level = hwmon_level light1 light2, uses_lux = False\<rparr>])"

definition hwmon_light_open :: "'w iio_env \<Rightarrow> GUdevDevice \<Rightarrow> 'w \<Rightarrow> HwmonLight option \<times> 'w" where
  "hwmon_light_open env device w = (Some \<lparr>hl_device = device, hl_timeout_id = 0\<rparr>, w)"

definition hwmon_light_set_polling ::
  "'w iio_env \<Rightarrow> HwmonLight \<Rightarrow> bool \<Rightarrow> 'w \<Rightarrow> HwmonLight \<times> readings list \<times> 'w" where
  "hwmon_light_set_polling env d state w =
     (if 0 < hl_timeout_id d \<and> state then (d, [], w)
      else if hl_timeout_id d = 0 \<and> \<not> state then (d, [], w)
      else (let (d, w) = (if hl_timeout_id d \<noteq> 0
                  then (d\<lparr>hl_timeout_id := 0\<rparr>, os_source_remove (ie_os env) (hl_timeout_id d) w) else (d, w))
        in if state
           then (let (i, w) = os_timeout_add (ie_os env) (if IS_TEST env then 500 else 8000) w;
                     d = d\<lparr>hl_timeout_id := i\<rparr>
             in (d, hwmon_light_changed env d w, w))
           else (d, [], w)))"

definition hwmon_light :: "'w iio_env \<Rightarrow> (HwmonLight, 'w) SensorDriver" where
  "hwmon_light env = \<lparr>driver_name = ''Platform HWMon Light'', drv_type = DRIVER_TYPE_LIGHT,
     drv_discover = (\<lambda>device w. (hwmon_light_discover device, w)),
     drv_open = hwmon_light_open env,
     drv_set_polling = Some (hwmon_light_set_polling env),
     drv_close = (\<lambda>d w. w)\<rparr>"

section \<open>drv-fake-light.c and drv-fake-compass.c\<close>

record FakeDrv =
  fk_timeout_id :: nat

definition fake_discover :: "'w iio_env \<Rightarrow> string \<Rightarrow> GUdevDevice \<Rightarrow> bool" where
  "fake_discover env variable device \<longleftrightarrow> ie_getenv env variable \<noteq> None \<and>
     dev_subsystem device = ''input'' \<and> property device ''NAME'' = Some (CHR 0x22 # ''Power Button'' @ [CHR 0x22])"

definition fake_light_discover :: "'w iio_env \<Rightarrow> GUdevDevice \<Rightarrow> bool" where
  "fake_light_discover env device = fake_discover env ''FAKE_LIGHT_SENSOR'' device"

definition fake_light_changed :: "'w iio_env \<Rightarrow> 'w \<Rightarrow> readings list \<times> 'w" where
  "fake_light_changed env w =
     (let level' = ie_static_level env w + 1; w = ie_set_static_level env level' w
      in ([LightR \<lparr>level = level', uses_lux = True\<rparr>], w))"

definition fake_light_set_polling ::
  "'w iio_env \<Rightarrow> FakeDrv \<Rightarrow> bool \<Rightarrow> 'w \<Rightarrow> FakeDrv \<times> readings list \<times> 'w" where
  "fake_light_set_polling env d state w =
     (if 0 < fk_timeout_id d \<and> state then (d, [], w)
      else if fk_timeout_id d = 0 \<and> \<not> state then (d, [], w)
      else (let (d, w) = (if fk_timeout_id d \<noteq> 0
                  then (d\<lparr>fk_timeout_id := 0\<rparr>, os_source_remove (ie_os env) (fk_timeout_id d) w) else (d, w))
        in if state
           then (let (i, w) = os_timeout_add (ie_os env) 1000 w; (rs, w) = fake_light_changed env w
             in (d\<lparr>fk_timeout_id := i\<rparr>, rs, w))
           else (d, [], w)))"

definition fake_light :: "'w iio_env \<Rightarrow> (FakeDrv, 'w) SensorDriver" where
  "fake_light env = \<lparr>driver_name = ''Fake light'', drv_type = DRIVER_TYPE_LIGHT,
     drv_discover = (\<lambda>device w. (fake_light_discover env device, w)),
     drv_open = (\<lambda>device w. (Some \<lparr>fk_timeout_id = 0\<rparr>, w)),
     drv_set_polling = Some (fake_light_set_polling env),
     drv_close = (\<lambda>d w. w)\<rparr>"

definition fake_compass_discover :: "'w iio_env \<Rightarrow> GUdevDevice \<Rightarrow> bool" where
  "fake_compass_discover env device = fake_discover env ''FAKE_COMPASS'' device"

definition compass_changed :: "'w iio_env \<Rightarrow> 'w \<Rightarrow> readings list \<times> 'w" where
  "compass_changed env w =
     (let heading = ie_static_heading env w + flit 10;
          heading = (if flit 360 \<le> heading then 0 else heading);
          w = ie_set_static_heading env heading w
      in ([CompassR heading], w))"

definition fake_compass_set_polling ::
  "'w iio_env \<Rightarrow> FakeDrv \<Rightarrow> bool \<Rightarrow> 'w \<Rightarrow> FakeDrv \<times> readings list \<times> 'w" where
  "fake_compass_set_polling env d state w =
     (if 0 < fk_timeout_id d \<and> state then (d, [], w)
      else if fk_timeout_id d = 0 \<and> \<not> state then (d, [], w)
      else (let (d, w) = (if fk_timeout_id d \<noteq> 0
                  then (d\<lparr>fk_timeout_id := 0\<rparr>, os_source_remove (ie_os env) (fk_timeout_id d) w) else (d, w))
        in if state
           then (let (i, w) = os_timeout_add (ie_os env) 1000 w; (rs, w) = compass_changed env w
             in (d\<lparr>fk_timeout_id := i\<rparr>, rs, w))
           else (d, [], w)))"

definition fake_compass :: "'w iio_env \<Rightarrow> (FakeDrv, 'w) SensorDriver" where
  "fake_compass env = \<lparr>driver_name = ''Fake compass'', drv_type = DRIVER_TYPE_COMPASS,
     drv_discover = (\<lambda>device w. (fake_compass_discover env device, w)),
     drv_open = (\<lambda>device w. (Some \<lparr>fk_timeout_id = 0\<rparr>, w)),
     drv_set_polling = Some (fake_compass_set_polling env),
     drv_close = (\<lambda>d w. w)\<rparr>"

end
