(* ===== verification/Iio_BufDrv.thy ===== *)
theory Iio_BufDrv
  imports Iio_Buffer
begin

text \<open>
  The drivers that read the ring buffer of an IIO device: \<^verbatim>\<open>drv-iio-buffer-accel.c\<close>,
  \<^verbatim>\<open>drv-iio-buffer-light.c\<close> and \<^verbatim>\<open>drv-iio-buffer-compass.c\<close>. The field \<open>bx_fault\<close> of the private data is set
  when a step had undefined behaviour (a division by an empty scan, a read outside the data, a
  NULL buffer) or the program aborted on an unsupported channel; nothing is read afterwards.
\<close>

record BufDrv =
  bx_timeout_id :: nat
  bx_dev :: GUdevDevice
  bx_dev_path :: "string option"
  bx_buffer_data :: BufferDrvData
  bx_fault :: bool

section \<open>Reading the buffer\<close>

text \<open>
  \<^verbatim>\<open>process_scan\<close> begins alike in the three drivers: a failed read and less than one scan give
  nothing; otherwise the last whole scan is used.
\<close>

datatype scan_data = No_scan | Scan "u8 list" | Bad_scan

definition scan_size :: "BufferDrvData \<Rightarrow> int" where
  "scan_size bd = sint (bd_scan_size bd)"

definition last_scan :: "BufferDrvData \<Rightarrow> IIOSensorData \<Rightarrow> scan_data" where
  "last_scan bd data =
     (if read_size data < 0 then No_scan
      else if scan_size bd = 0 then Bad_scan
      else (let i = c_div (read_size data) (scan_size bd) - 1
        in if i < 0 then No_scan
           else if scan_size bd < 0 then Bad_scan
           else Scan (drop (nat (scan_size bd * i)) (sensor_bytes data))))"

text \<open>The value and scale of a channel; an absent one leaves the variables as they were.\<close>

definition channel_or :: "u8 list \<Rightarrow> BufferDrvData \<Rightarrow> string \<Rightarrow> int \<Rightarrow> f64 \<Rightarrow> (int \<times> f64) option" where
  "channel_or data bd ch v scale = (case process_scan_1 data (bd_channels bd) ch of
     Present v' s' \<Rightarrow> Some (v', s') | Absent \<Rightarrow> Some (v, scale) | Aborted \<Rightarrow> None | Undef \<Rightarrow> None)"

text \<open>
  \<^verbatim>\<open>prepare_output\<close>, alike in the three drivers: read up to 127 scans without blocking. The data buffer
  is zeroed and the bytes read are put at its start. A size that is no positive \<^verbatim>\<open>int\<close> cannot be
  allocated.
\<close>

definition prepare_output ::
  "'w iio_env \<Rightarrow> (IIOSensorData \<Rightarrow> 'a BufDrv_scheme \<Rightarrow> 'w \<Rightarrow> 'a BufDrv_scheme \<times> readings list) \<Rightarrow>
   'a BufDrv_scheme \<Rightarrow> 'w \<Rightarrow> 'a BufDrv_scheme \<times> readings list \<times> 'w" where
  "prepare_output env process d w =
     (let n = scan_size (bx_buffer_data d) * 127
      in if n < 0 \<or> 2 ^ 31 \<le> n then (d\<lparr>bx_fault := True\<rparr>, [], w)
         else (case bx_dev_path d of None \<Rightarrow> (d, [], w)
           | Some path \<Rightarrow>
             (let (fp, w) = os_open (ie_os env) path [O_RDONLY, O_NONBLOCK] w
              in if fp = - 1 then (d, [], w)
                 else (case iio_sensor_data_new (nat n) of None \<Rightarrow> (d\<lparr>bx_fault := True\<rparr>, [], w)
                   | Some data \<Rightarrow>
                     (let ((r, bytes, eagain), w) = ie_read_dev env fp (nat n) w
                      in if r = - 1 \<and> eagain then (d, [], os_close (ie_os env) fp w)
                         else (let (d, rs) = process \<lparr>read_size = r,
                                 sensor_bytes = bytes @ drop (length bytes) (sensor_bytes data)\<rparr> d w
                           in (d, rs, os_close (ie_os env) fp w)))))))"

text \<open>The device of a buffer whose set-up had undefined behaviour is marked.\<close>

definition no_buffer :: "GUdevDevice \<Rightarrow> BufferDrvData" where
  "no_buffer device = \<lparr>bd_device = device, bd_trigger_name = None, bd_dev_dir_name = sysfs_dir device,
     bd_channels = [], bd_scan_size = 0\<rparr>"

definition open_buffer :: "'w iio_env \<Rightarrow> GUdevDevice \<Rightarrow> 'w \<Rightarrow> (BufferDrvData \<times> bool) option \<times> 'w" where
  "open_buffer env device w = (case buffer_drv_data_new env device w of
     (Err, w) \<Rightarrow> (None, w)
   | (Undefined, w) \<Rightarrow> (Some (no_buffer device, True), w)
   | (Ok bd, w) \<Rightarrow> (Some (bd, False), disable_ring_buffer env bd w))"

section \<open>drv-iio-buffer-accel.c\<close>

record BufAccel = BufDrv +
  ba_mount_matrix :: "AccelVec3 list"
  ba_location :: AccelLocation

definition accel_process_scan :: "'w iio_env \<Rightarrow> IIOSensorData \<Rightarrow> BufAccel \<Rightarrow> 'w \<Rightarrow> BufAccel \<times> readings list" where
  "accel_process_scan env data d w =
     (case last_scan (bx_buffer_data d) data of
        No_scan \<Rightarrow> (d, []) | Bad_scan \<Rightarrow> (d\<lparr>bx_fault := True\<rparr>, [])
      | Scan bytes \<Rightarrow>
          (let get = (\<lambda>ch v s. channel_or bytes (bx_buffer_data d) ch (ie_garbage_int env v w) (ie_garbage_double env s w))
           in case (get ''in_accel_x'' ''accel_x'' ''scale.x'', get ''in_accel_y'' ''accel_y'' ''scale.y'',
                    get ''in_accel_z'' ''accel_z'' ''scale.z'') of
                (Some (x, sx), Some (y, sy), Some (z, sz)) \<Rightarrow>
                  (let tmp = apply_mount_matrix (ba_mount_matrix d) \<lparr>ax = fint x, ay = fint y, az = fint z\<rparr>
                   in (d, [AccelR \<lparr>accel_x = f2i (ax tmp), accel_y = f2i (ay tmp), accel_z = f2i (az tmp),
                         accel_scale = \<lparr>scale_x = sx, scale_y = sy, scale_z = sz\<rparr>\<rparr>]))
              | _ \<Rightarrow> (d\<lparr>bx_fault := True\<rparr>, [])))"

definition accel_prepare_output :: "'w iio_env \<Rightarrow> BufAccel \<Rightarrow> 'w \<Rightarrow> BufAccel \<times> readings list \<times> 'w" where
  "accel_prepare_output env = prepare_output env (accel_process_scan env)"

definition read_orientation :: "'w iio_env \<Rightarrow> BufAccel \<Rightarrow> 'w \<Rightarrow> BufAccel \<times> readings list \<times> 'w" where
  "read_orientation env d w = (if bx_fault d then (d, [], w) else accel_prepare_output env d w)"

definition iio_buffer_accel_set_polling ::
  "'w iio_env \<Rightarrow> BufAccel \<Rightarrow> bool \<Rightarrow> 'w \<Rightarrow> BufAccel \<times> readings list \<times> 'w" where
  "iio_buffer_accel_set_polling env d state w =
     (if 0 < bx_timeout_id d \<and> state then (d, [], w)
      else if bx_timeout_id d = 0 \<and> \<not> state then (d, [], w)
      else (let (d, w) = (if bx_timeout_id d \<noteq> 0
                  then (d\<lparr>bx_timeout_id := 0\<rparr>, disable_ring_buffer env (bx_buffer_data d)
                         (os_source_remove (ie_os env) (bx_timeout_id d) w))
                  else (d, w))
        in if state
           then (let (_, w) = enable_ring_buffer env (bx_buffer_data d) w;
                     (i, w) = os_timeout_add (ie_os env) 700 w
             in read_orientation env (d\<lparr>bx_timeout_id := i\<rparr>) w)
           else (d, [], w)))"

definition iio_buffer_accel_open :: "'w iio_env \<Rightarrow> GUdevDevice \<Rightarrow> 'w \<Rightarrow> BufAccel option \<times> 'w" where
  "iio_buffer_accel_open env device w = (case open_buffer env device w of
     (None, w) \<Rightarrow> (None, w)
   | (Some (bd, fault), w) \<Rightarrow>
       (Some \<lparr>bx_timeout_id = 0, bx_dev = device, bx_dev_path = get_device_file env device,
              bx_buffer_data = bd, bx_fault = fault,
              ba_mount_matrix = setup_mount_matrix (strtod_val env) device,
              ba_location = setup_accel_location device\<rparr>, w))"

definition iio_buffer_accel_close :: "'w iio_env \<Rightarrow> BufAccel \<Rightarrow> 'w \<Rightarrow> 'w" where
  "iio_buffer_accel_close env d w = buffer_drv_data_free env (bx_buffer_data d) w"

definition iio_buffer_accel_discover :: "'w iio_env \<Rightarrow> GUdevDevice \<Rightarrow> 'w \<Rightarrow> bool \<times> 'w" where
  "iio_buffer_accel_discover env device w =
     (if \<not> drv_check_udev_sensor_type device ''iio-buffer-accel'' then (False, w)
      else (case iio_buffer_accel_open env device w of
          (None, w) \<Rightarrow> (False, w)
        | (Some d, w) \<Rightarrow>
            (let (_, w) = enable_ring_buffer env (bx_buffer_data d) w;
                 (buffer_usable, w) = is_buffer_usable env (bx_dev_path d) w;
                 w = disable_ring_buffer env (bx_buffer_data d) w
             in (buffer_usable, iio_buffer_accel_close env d w))))"

definition iio_buffer_accel :: "'w iio_env \<Rightarrow> (BufAccel, 'w) SensorDriver" where
  "iio_buffer_accel env = \<lparr>driver_name = ''IIO Buffer accelerometer'', drv_type = DRIVER_TYPE_ACCEL,
     drv_discover = iio_buffer_accel_discover env,
     drv_open = iio_buffer_accel_open env,
     drv_set_polling = Some (iio_buffer_accel_set_polling env),
     drv_close = iio_buffer_accel_close env\<rparr>"

section \<open>drv-iio-buffer-light.c\<close>

definition light_process_scan :: "'w iio_env \<Rightarrow> IIOSensorData \<Rightarrow> BufDrv \<Rightarrow> 'w \<Rightarrow> BufDrv \<times> readings list" where
  "light_process_scan env data d w =
     (case last_scan (bx_buffer_data d) data of
        No_scan \<Rightarrow> (d, []) | Bad_scan \<Rightarrow> (d\<lparr>bx_fault := True\<rparr>, [])
      | Scan bytes \<Rightarrow>
          (case channel_or bytes (bx_buffer_data d) ''in_intensity_both'' 0 (ie_garbage_double env ''scale'' w) of
             None \<Rightarrow> (d\<lparr>bx_fault := True\<rparr>, [])
           | Some (v, scale) \<Rightarrow> (d, [LightR \<lparr>level = fint v * scale, uses_lux = True\<rparr>])))"

definition light_prepare_output :: "'w iio_env \<Rightarrow> BufDrv \<Rightarrow> 'w \<Rightarrow> BufDrv \<times> readings list \<times> 'w" where
  "light_prepare_output env = prepare_output env (light_process_scan env)"

definition read_light :: "'w iio_env \<Rightarrow> BufDrv \<Rightarrow> 'w \<Rightarrow> BufDrv \<times> readings list \<times> 'w" where
  "read_light env d w = (if bx_fault d then (d, [], w) else light_prepare_output env d w)"

definition iio_buffer_light_set_polling ::
  "'w iio_env \<Rightarrow> BufDrv \<Rightarrow> bool \<Rightarrow> 'w \<Rightarrow> BufDrv \<times> readings list \<times> 'w" where
  "iio_buffer_light_set_polling env d state w =
     (if 0 < bx_timeout_id d \<and> state then (d, [], w)
      else if bx_timeout_id d = 0 \<and> \<not> state then (d, [], w)
      else (let (d, w) = (if bx_timeout_id d \<noteq> 0
                  then (d\<lparr>bx_timeout_id := 0\<rparr>, disable_ring_buffer env (bx_buffer_data d)
                         (os_source_remove (ie_os env) (bx_timeout_id d) w))
                  else (d, w))
        in if state
           then (let (_, w) = enable_ring_buffer env (bx_buffer_data d) w;
                     (i, w) = os_timeout_add (ie_os env) 700 w
             in read_light env (d\<lparr>bx_timeout_id := i\<rparr>) w)
           else (d, [], w)))"

definition iio_buffer_light_open :: "'w iio_env \<Rightarrow> GUdevDevice \<Rightarrow> 'w \<Rightarrow> BufDrv option \<times> 'w" where
  "iio_buffer_light_open env device w = (case open_buffer env device w of
     (None, w) \<Rightarrow> (None, w)
   | (Some (bd, fault), w) \<Rightarrow>
       (Some \<lparr>bx_timeout_id = 0, bx_dev = device, bx_dev_path = get_device_file env device,
              bx_buffer_data = bd, bx_fault = fault\<rparr>, w))"

definition iio_buffer_light_close :: "'w iio_env \<Rightarrow> BufDrv \<Rightarrow> 'w \<Rightarrow> 'w" where
  "iio_buffer_light_close env d w = buffer_drv_data_free env (bx_buffer_data d) w"

definition iio_buffer_light_discover :: "'w iio_env \<Rightarrow> GUdevDevice \<Rightarrow> 'w \<Rightarrow> bool \<times> 'w" where
  "iio_buffer_light_discover env device w =
     (if \<not> drv_check_udev_sensor_type device ''iio-buffer-als'' then (False, w)
      else (case iio_buffer_light_open env device w of
          (None, w) \<Rightarrow> (False, w)
        | (Some d, w) \<Rightarrow>
            (let (_, w) = enable_ring_buffer env (bx_buffer_data d) w;
                 (buffer_usable, w) = is_buffer_usable env (bx_dev_path d) w;
                 w = disable_ring_buffer env (bx_buffer_data d) w
             in (buffer_usable, iio_buffer_light_close env d w))))"

definition iio_buffer_light :: "'w iio_env \<Rightarrow> (BufDrv, 'w) SensorDriver" where
  "iio_buffer_light env = \<lparr>driver_name = ''IIO Buffer Light sensor'', drv_type = DRIVER_TYPE_LIGHT,
     drv_discover = iio_buffer_light_discover env,
     drv_open = iio_buffer_light_open env,
     drv_set_polling = Some (iio_buffer_light_set_polling env),
     drv_close = iio_buffer_light_close env\<rparr>"

section \<open>drv-iio-buffer-compass.c\<close>

definition compass_process_scan :: "'w iio_env \<Rightarrow> IIOSensorData \<Rightarrow> BufDrv \<Rightarrow> 'w \<Rightarrow> BufDrv \<times> readings list" where
  "compass_process_scan env data d w =
     (case last_scan (bx_buffer_data d) data of
        No_scan \<Rightarrow> (d, []) | Bad_scan \<Rightarrow> (d\<lparr>bx_fault := True\<rparr>, [])
      | Scan bytes \<Rightarrow>
          (case channel_or bytes (bx_buffer_data d) ''in_rot_from_north_magnetic_tilt_comp''
              (ie_garbage_int env ''raw_heading'' w) (ie_garbage_double env ''scale'' w) of
             None \<Rightarrow> (d\<lparr>bx_fault := True\<rparr>, [])
           | Some (raw_heading, scale) \<Rightarrow> (d, [CompassR (fint raw_heading * scale)])))"

definition compass_prepare_output :: "'w iio_env \<Rightarrow> BufDrv \<Rightarrow> 'w \<Rightarrow> BufDrv \<times> readings list \<times> 'w" where
  "compass_prepare_output env = prepare_output env (compass_process_scan env)"

definition read_heading :: "'w iio_env \<Rightarrow> BufDrv \<Rightarrow> 'w \<Rightarrow> BufDrv \<times> readings list \<times> 'w" where
  "read_heading env d w = (if bx_fault d then (d, [], w) else compass_prepare_output env d w)"

definition iio_buffer_compass_set_polling ::
  "'w iio_env \<Rightarrow> BufDrv \<Rightarrow> bool \<Rightarrow> 'w \<Rightarrow> BufDrv \<times> readings list \<times> 'w" where
  "iio_buffer_compass_set_polling env d state w =
     (if 0 < bx_timeout_id d \<and> state then (d, [], w)
      else if bx_timeout_id d = 0 \<and> \<not> state then (d, [], w)
      else (let (d, w) = (if bx_timeout_id d \<noteq> 0
                  then (d\<lparr>bx_timeout_id := 0\<rparr>, os_source_remove (ie_os env) (bx_timeout_id d)
                         (disable_ring_buffer env (bx_buffer_data d) w))
                  else (d, w))
        in if state
           then (let (_, w) = enable_ring_buffer env (bx_buffer_data d) w;
                     (i, w) = os_timeout_add (ie_os env) 700 w
             in read_heading env (d\<lparr>bx_timeout_id := i\<rparr>) w)
           else (d, [], w)))"

definition iio_buffer_compass_open :: "'w iio_env \<Rightarrow> GUdevDevice \<Rightarrow> 'w \<Rightarrow> BufDrv option \<times> 'w" where
  "iio_buffer_compass_open env device w = (case open_buffer env device w of
     (None, w) \<Rightarrow> (None, w)
   | (Some (bd, fault), w) \<Rightarrow>
       (Some \<lparr>bx_timeout_id = 0, bx_dev = device, bx_dev_path = get_device_file env device,
              bx_buffer_data = bd, bx_fault = fault\<rparr>, w))"

definition iio_buffer_compass_close :: "'w iio_env \<Rightarrow> BufDrv \<Rightarrow> 'w \<Rightarrow> 'w" where
  "iio_buffer_compass_close env d w = buffer_drv_data_free env (bx_buffer_data d) w"

definition iio_buffer_compass_discover :: "'w iio_env \<Rightarrow> GUdevDevice \<Rightarrow> 'w \<Rightarrow> bool \<times> 'w" where
  "iio_buffer_compass_discover env device w =
     (if \<not> drv_check_udev_sensor_type device ''iio-buffer-compass'' then (False, w)
      else (case iio_buffer_compass_open env device w of
          (None, w) \<Rightarrow> (False, w)
        | (Some d, w) \<Rightarrow>
            (let (_, w) = enable_ring_buffer env (bx_buffer_data d) w;
                 (buffer_usable, w) = is_buffer_usable env (bx_dev_path d) w;
                 w = disable_ring_buffer env (bx_buffer_data d) w
             in (buffer_usable, iio_buffer_compass_close env d w))))"

definition iio_buffer_compass :: "'w iio_env \<Rightarrow> (BufDrv, 'w) SensorDriver" where
  "iio_buffer_compass env = \<lparr>driver_name = ''IIO Buffer Compass'', drv_type = DRIVER_TYPE_COMPASS,
     drv_discover = iio_buffer_compass_discover env,
     drv_open = iio_buffer_compass_open env,
     drv_set_polling = Some (iio_buffer_compass_set_polling env),
     drv_close = iio_buffer_compass_close env\<rparr>"

end
