(* ===== verification/Input_Drv.thy ===== *)
theory Input_Drv
  imports Iio_Env
begin

text \<open>
  The drivers on top of the kernel's input devices: \<^verbatim>\<open>drv-input-accel.c\<close> polls the axes until the
  device turns out to send udev events, \<^verbatim>\<open>drv-input-proximity.c\<close> watches a switch.
\<close>

section \<open>drv-input-accel.c\<close>

record InputAccel =
  ia_timeout_id :: nat
  ia_dev :: GUdevDevice
  ia_parent :: "GUdevDevice option"
  ia_dev_path :: "string option"
  ia_mount_matrix :: "AccelVec3 list"
  ia_location :: AccelLocation
  ia_sends_kevent :: bool

definition get_sibling_with_subsystem :: "'w iio_env \<Rightarrow> GUdevDevice \<Rightarrow> string \<Rightarrow> 'w \<Rightarrow> GUdevDevice option" where
  "get_sibling_with_subsystem env device subsystem w =
     (case ie_parent env device of None \<Rightarrow> None
      | Some parent \<Rightarrow> List.find (\<lambda>d. case ie_parent env d of None \<Rightarrow> False
          | Some p \<Rightarrow> sysfs_path p = sysfs_path parent) (ie_query env subsystem w))"

definition is_part_of_joypad :: "'w iio_env \<Rightarrow> GUdevDevice \<Rightarrow> 'w \<Rightarrow> bool" where
  "is_part_of_joypad env device w =
     (case get_sibling_with_subsystem env device ''input'' w of None \<Rightarrow> False
      | Some sibling \<Rightarrow> attr_bool env (property sibling ''ID_INPUT_JOYSTICK''))"

definition input_accel_discover :: "'w iio_env \<Rightarrow> GUdevDevice \<Rightarrow> 'w \<Rightarrow> bool" where
  "input_accel_discover env device w =
     (if \<not> drv_check_udev_sensor_type device ''input-accel'' then False
      else (case dev_file device of None \<Rightarrow> False
        | Some path \<Rightarrow> if \<not> strstr_found path ''/event'' then False
            else (case ie_parent env device of None \<Rightarrow> True
              | Some parent \<Rightarrow> \<not> is_part_of_joypad env parent w)))"

definition ABS_X :: nat where "ABS_X = 0"
definition ABS_Y :: nat where "ABS_Y = 1"
definition ABS_Z :: nat where "ABS_Z = 2"

text \<open>The macro \<^verbatim>\<open>READ_AXIS\<close> leaves the function when the ioctl fails; the descriptor is closed on every
  way out.\<close>

definition READ_AXES :: "'w iio_env \<Rightarrow> int \<Rightarrow> 'w \<Rightarrow> (int \<times> int \<times> int) option \<times> 'w" where
  "READ_AXES env fd w =
     (case ie_abs env fd ABS_X w of (None, w) \<Rightarrow> (None, w)
      | (Some x, w) \<Rightarrow> (case ie_abs env fd ABS_Y w of (None, w) \<Rightarrow> (None, w)
      | (Some y, w) \<Rightarrow> (case ie_abs env fd ABS_Z w of (None, w) \<Rightarrow> (None, w)
      | (Some z, w) \<Rightarrow> (Some (x, y, z), w))))"

definition accelerometer_changed :: "'w iio_env \<Rightarrow> InputAccel \<Rightarrow> 'w \<Rightarrow> readings list \<times> 'w" where
  "accelerometer_changed env d w =
     (case ia_dev_path d of None \<Rightarrow> ([], w)
      | Some path \<Rightarrow>
        (let (fd, w) = os_open (ie_os env) path [O_RDONLY, O_CLOEXEC] w
         in if fd < 0 then ([], w)
            else (case READ_AXES env fd w of
                (None, w) \<Rightarrow> ([], os_close (ie_os env) fd w)
              | (Some (x, y, z), w) \<Rightarrow>
                  (let scale = set_accel_scale \<lparr>scale_x = 0, scale_y = 0, scale_z = 0\<rparr> (flit (1 / 256) * flit (981 / 100));
                       tmp = apply_mount_matrix (ia_mount_matrix d) \<lparr>ax = fint x, ay = fint y, az = fint z\<rparr>
                   in ([AccelR \<lparr>accel_x = f2i (ax tmp), accel_y = f2i (ay tmp), accel_z = f2i (az tmp),
                          accel_scale = scale\<rparr>], os_close (ie_os env) fd w)))))"

definition input_accel_set_polling ::
  "'w iio_env \<Rightarrow> InputAccel \<Rightarrow> bool \<Rightarrow> 'w \<Rightarrow> InputAccel \<times> readings list \<times> 'w" where
  "input_accel_set_polling env d state w =
     (if 0 < ia_timeout_id d \<and> state then (d, [], w)
      else if ia_timeout_id d = 0 \<and> \<not> state then (d, [], w)
      else (let (d, w) = (if ia_timeout_id d \<noteq> 0
                  then (d\<lparr>ia_timeout_id := 0\<rparr>, os_source_remove (ie_os env) (ia_timeout_id d) w) else (d, w))
        in if state \<and> \<not> ia_sends_kevent d
           then (let (i, w) = os_timeout_add (ie_os env) 700 w; d = d\<lparr>ia_timeout_id := i\<rparr>;
                     (rs, w) = accelerometer_changed env d w
             in (d, rs, w))
           else (d, [], w)))"

definition uevent_received ::
  "'w iio_env \<Rightarrow> string \<Rightarrow> GUdevDevice \<Rightarrow> InputAccel \<Rightarrow> 'w \<Rightarrow> InputAccel \<times> readings list \<times> 'w" where
  "uevent_received env action device d w =
     (if action \<noteq> ''change'' then (d, [], w)
      else if sysfs_path device \<noteq> Option.bind (ia_parent d) sysfs_path then (d, [], w)
      else (let (d, w) = (if \<not> ia_sends_kevent d
                  then (let (d, _, w) = input_accel_set_polling env (d\<lparr>ia_sends_kevent := True\<rparr>) False w in (d, w))
                  else (d, w));
                (rs, w) = accelerometer_changed env d w
        in (d, rs, w)))"

definition input_accel_open :: "'w iio_env \<Rightarrow> GUdevDevice \<Rightarrow> 'w \<Rightarrow> InputAccel option \<times> 'w" where
  "input_accel_open env device w =
     (Some \<lparr>ia_timeout_id = 0, ia_dev = device, ia_parent = ie_parent env device,
            ia_dev_path = dev_file device, ia_mount_matrix = setup_mount_matrix (strtod_val env) device,
            ia_location = setup_accel_location device, ia_sends_kevent = False\<rparr>, w)"

definition input_accel :: "'w iio_env \<Rightarrow> (InputAccel, 'w) SensorDriver" where
  "input_accel env = \<lparr>driver_name = ''Input accelerometer'', drv_type = DRIVER_TYPE_ACCEL,
     drv_discover = (\<lambda>device w. (input_accel_discover env device w, w)),
     drv_open = input_accel_open env,
     drv_set_polling = Some (input_accel_set_polling env),
     drv_close = (\<lambda>d w. w)\<rparr>"

section \<open>drv-input-proximity.c\<close>

text \<open>\<^verbatim>\<open>ip_channel\<close> is the descriptor of the I/O channel, \<open>ip_event\<close> the 24 bytes of \<^verbatim>\<open>struct input_event\<close>.\<close>

record InputProximity =
  ip_dev :: GUdevDevice
  ip_native_path :: "string option"
  ip_last_switch_state :: bool
  ip_channel :: "int option"
  ip_event :: "u8 list"
  ip_offset :: nat
  ip_watcher_id :: nat

definition SW_FRONT_PROXIMITY :: nat where "SW_FRONT_PROXIMITY = 11"
definition SW_MAX :: nat where "SW_MAX = 16"
definition SW_CNT :: nat where "SW_CNT = SW_MAX + 1"

text \<open>Longs have 64 bits; the switch bitmask has one of them.\<close>

definition NBITS :: "nat \<Rightarrow> nat" where "NBITS x = (x - 1) div 64 + 1"

definition test_bit :: "nat \<Rightarrow> u64 list \<Rightarrow> bool" where
  "test_bit b array \<longleftrightarrow> b div 64 < length array \<and> drop_bit (b mod 64) (array ! (b div 64)) AND 1 = 1"

text \<open>Hexadecimal \<^verbatim>\<open>strtoul\<close>.\<close>

definition strtoul16 :: "string \<Rightarrow> u64" where
  "strtoul16 s = (case split_sign s of (neg, ds) \<Rightarrow>
     (let n = int (case ds of
         c # d # e # r \<Rightarrow> if c = CHR ''0'' \<and> (d = CHR ''x'' \<or> d = CHR ''X'') \<and> digit_val 16 e \<noteq> None
             then digits_val 16 0 (e # r) else digits_val 16 0 ds
       | _ \<Rightarrow> digits_val 16 0 ds)
      in if 2 ^ 64 \<le> n then - 1 else if neg then - of_int n else of_int n))"

text \<open>The loop that counts bits by clearing the lowest one.\<close>

function count_bits :: "u64 \<Rightarrow> nat \<Rightarrow> nat" where
  "count_bits val n = (if val = 0 then n else count_bits (val AND (val - 1)) (n + 1))"
  by pat_completeness auto

text \<open>Clearing the lowest bit makes the number smaller.\<close>

lemma and_minus_one_less: "val \<noteq> 0 \<Longrightarrow> val AND (val - 1) < (val :: 'a::len word)"
proof -
  assume v: "val \<noteq> 0"
  have "val AND (val - 1) \<le> val - 1" by (simp add: and.commute word_and_le1)
  also have "val - 1 < val" using v by (simp add: word_less_nat_alt unat_minus_one unat_gt_0)
  finally show ?thesis .
qed

termination count_bits
  by (relation "measure (\<lambda>(val, n). unat val)") (auto dest: and_minus_one_less simp: word_less_nat_alt)

declare count_bits.simps [simp del]

text \<open>
  The words are stored from the last to the first; the array has \<open>length bitmask\<close> longs and a store
  beyond it is undefined behaviour (\<open>None\<close>). \<open>max_size\<close> bounds the number of words.
\<close>

fun store_words :: "string list \<Rightarrow> nat \<Rightarrow> u64 list \<Rightarrow> nat \<Rightarrow> (nat \<times> u64 list) option" where
  "store_words [] j bitmask n = Some (n, bitmask)"
| "store_words (v # vs) j bitmask n =
     (if j < length bitmask
      then store_words vs (j + 1) (bitmask[j := strtoul16 v]) (count_bits (strtoul16 v) n) else None)"

definition input_str_to_bitmask :: "string \<Rightarrow> u64 list \<Rightarrow> nat \<Rightarrow> (nat \<times> u64 list) option" where
  "input_str_to_bitmask s bitmask max_size =
     (let bitmask = replicate (max_size div 8) 0 @ drop (max_size div 8) bitmask
      in store_words (rev (g_strsplit s '' '' (int max_size))) 0 bitmask 0)"

text \<open>\<^verbatim>\<open>sizeof (bitmask)\<close> of the parameter is the size of a pointer.\<close>

definition input_device_is_switch ::
  "'w iio_env \<Rightarrow> GUdevDevice \<Rightarrow> u64 list \<Rightarrow> 'w \<Rightarrow> u64 list outcome" where
  "input_device_is_switch env device bitmask w =
     (if dev_subsystem device \<noteq> ''input'' then Err
      else (let path = build_filename (sysfs_dir device) ''../capabilities/sw'' in
        if \<not> ie_exists env path w then Err
        else (case ie_contents env path w of Inl e \<Rightarrow> Err
          | Inr contents \<Rightarrow> (case input_str_to_bitmask contents bitmask 8 of None \<Rightarrow> Undefined
              | Some (num_bits, bitmask) \<Rightarrow>
                  if num_bits \<noteq> 0 \<and> SW_CNT \<le> num_bits then Err else Ok bitmask))))"

definition input_proximity_discover :: "'w iio_env \<Rightarrow> GUdevDevice \<Rightarrow> 'w \<Rightarrow> bool outcome" where
  "input_proximity_discover env device w =
     (case input_device_is_switch env device (replicate (NBITS SW_MAX) 0) w of
        Err \<Rightarrow> Ok False | Undefined \<Rightarrow> Undefined
      | Ok bitmask \<Rightarrow> Ok (test_bit SW_FRONT_PROXIMITY bitmask))"

definition near_reading :: "bool \<Rightarrow> readings" where
  "near_reading b = ProximityR (if b then PROXIMITY_NEAR_TRUE else PROXIMITY_NEAR_FALSE)"

definition event_field :: "u8 list \<Rightarrow> nat \<Rightarrow> nat" where
  "event_field ev i = (case rd_le16 ev i of None \<Rightarrow> 0 | Some v \<Rightarrow> unat v)"

text \<open>The loop over the events of the channel: events that arrive in pieces are put together in
  \<open>ip_event\<close>; \<open>None\<close> would be a loop without end.\<close>

partial_function (option) proximity_changed ::
  "'w iio_env \<Rightarrow> int \<Rightarrow> readings list \<Rightarrow> InputProximity \<Rightarrow> 'w \<Rightarrow> (InputProximity \<times> readings list \<times> 'w) option" where
  "proximity_changed env fd rs d w =
     (case ie_read_chars env fd (24 - ip_offset d) w of
        (None, w) \<Rightarrow> Some (d, rs, w)
      | (Some bytes, w) \<Rightarrow>
          (let d = d\<lparr>ip_event := take (ip_offset d) (ip_event d) @ bytes @
                 drop (ip_offset d + length bytes) (ip_event d)\<rparr>
           in if ip_offset d + length bytes < 24
              then Some (d\<lparr>ip_offset := ip_offset d + length bytes\<rparr>, rs, w)
              else (let d = d\<lparr>ip_offset := 0\<rparr>
                in if event_field (ip_event d) 16 \<noteq> EV_SW then proximity_changed env fd rs d w
                   else if event_field (ip_event d) 18 \<noteq> SW_FRONT_PROXIMITY then proximity_changed env fd rs d w
                   else (case os_evio_switches (ie_os env) fd w of ((r, bits), w) \<Rightarrow>
                       if r < 0 then proximity_changed env fd rs d w
                       else (let near = test_bit (event_field (ip_event d) 18) [bits]
                         in proximity_changed env fd (rs @ [near_reading near])
                              (d\<lparr>ip_last_switch_state := near\<rparr>) w)))))"

definition watch_input_proximity ::
  "'w iio_env \<Rightarrow> InputProximity \<Rightarrow> 'w \<Rightarrow> InputProximity \<times> readings list \<times> 'w" where
  "watch_input_proximity env d w =
     (case dev_file (ip_dev d) of None \<Rightarrow> (d, [], w)
      | Some device_file \<Rightarrow>
        if device_file = [] then (d, [], w)
        else (let (eventfd, w) = os_open (ie_os env) device_file [O_RDONLY, O_NONBLOCK] w
          in if eventfd < 0 then (d, [], w)
             else (let ((r, bits), w) = os_evio_switches (ie_os env) eventfd w
               in if r < 0 then (d, [], os_close (ie_os env) eventfd w)
                  else (let d = d\<lparr>ip_channel := Some eventfd\<rparr>
                    in if \<not> ie_set_encoding env eventfd w then (d, [], w)
                       else (let (i, w) = os_io_add_watch (ie_os env) eventfd w;
                                 near = test_bit SW_FRONT_PROXIMITY [bits]
                         in (d\<lparr>ip_watcher_id := i, ip_last_switch_state := near\<rparr>, [near_reading near], w))))))"

definition input_proximity_set_polling ::
  "'w iio_env \<Rightarrow> InputProximity \<Rightarrow> bool \<Rightarrow> 'w \<Rightarrow> InputProximity \<times> readings list \<times> 'w" where
  "input_proximity_set_polling env d state w =
     (if 0 < ip_watcher_id d \<and> state then (d, [], w)
      else if ip_watcher_id d = 0 \<and> \<not> state then (d, [], w)
      else (let (d, w) = (if ip_watcher_id d \<noteq> 0
                  then (d\<lparr>ip_watcher_id := 0\<rparr>, os_source_remove (ie_os env) (ip_watcher_id d) w) else (d, w))
        in if state then watch_input_proximity env d w else (d, [], w)))"

definition input_proximity_open :: "'w iio_env \<Rightarrow> GUdevDevice \<Rightarrow> 'w \<Rightarrow> InputProximity option \<times> 'w" where
  "input_proximity_open env device w =
     (Some \<lparr>ip_dev = device, ip_native_path = sysfs_path device, ip_last_switch_state = False,
            ip_channel = None, ip_event = replicate 24 0, ip_offset = 0, ip_watcher_id = 0\<rparr>, w)"

text \<open>A text with several words makes discovery write outside its array: no value is right then.\<close>

definition input_proximity :: "'w iio_env \<Rightarrow> (InputProximity, 'w) SensorDriver" where
  "input_proximity env = \<lparr>driver_name = ''Input proximity'', drv_type = DRIVER_TYPE_PROXIMITY,
     drv_discover = (\<lambda>device w. (input_proximity_discover env device w = Ok True, w)),
     drv_open = input_proximity_open env,
     drv_set_polling = Some (input_proximity_set_polling env),
     drv_close = (\<lambda>d w. w)\<rparr>"

end
