(* ===== verification/Timer_Drivers.thy ===== *)
theory Timer_Drivers
  imports Iio_Poll Iio_BufDrv Input_Drv
begin

text \<open>
  The contract eleven of the twelve drivers share: at most one main-loop source per device. Asking for
  the state a driver is in does nothing; starting adds one source or none, stopping removes it and
  passes no reading; closing touches no source. The locale \<open>timer_driver\<close> states it over the
  documented behaviour of the main loop (\<open>source_laws\<close>), and its lemmas show that whatever the daemon
  asks for, a closed device leaves no source behind.
\<close>

text \<open>
  \<open>live\<close> is the set of the sources of the main loop. New sources get ids not in use and never 0;
  no call but the three of the main loop changes the set.
\<close>

definition source_laws :: "'w iio_env \<Rightarrow> ('w \<Rightarrow> nat set) \<Rightarrow> bool" where
  "source_laws env live \<longleftrightarrow>
     (\<forall>n w i w'. os_timeout_add (ie_os env) n w = (i, w') \<longrightarrow> i \<noteq> 0 \<and> i \<notin> live w \<and> live w' = insert i (live w)) \<and>
     (\<forall>fd w i w'. os_io_add_watch (ie_os env) fd w = (i, w') \<longrightarrow> i \<noteq> 0 \<and> i \<notin> live w \<and> live w' = insert i (live w)) \<and>
     (\<forall>i w. live (os_source_remove (ie_os env) i w) = live w - {i}) \<and>
     (\<forall>p f w. live (snd (os_open (ie_os env) p f w)) = live w) \<and>
     (\<forall>fd w. live (os_close (ie_os env) fd w) = live w) \<and>
     (\<forall>fd w. live (snd (os_evio_switches (ie_os env) fd w)) = live w) \<and>
     (\<forall>p s w. live (snd (ie_write env p s w)) = live w) \<and>
     (\<forall>fd n w. live (snd (ie_read_dev env fd n w)) = live w) \<and>
     (\<forall>fd a w. live (snd (ie_abs env fd a w)) = live w) \<and>
     (\<forall>l w. live (ie_set_static_level env l w) = live w) \<and>
     (\<forall>h w. live (ie_set_static_heading env h w) = live w)"

lemma source_lawsD:
  assumes "source_laws env live"
  shows "os_timeout_add (ie_os env) n w = (i, w') \<Longrightarrow> i \<noteq> 0 \<and> i \<notin> live w \<and> live w' = insert i (live w)"
    "os_io_add_watch (ie_os env) fd w = (i, w') \<Longrightarrow> i \<noteq> 0 \<and> i \<notin> live w \<and> live w' = insert i (live w)"
    "live (os_source_remove (ie_os env) i w) = live w - {i}"
    "live (snd (os_open (ie_os env) p fl w)) = live w" "live (os_close (ie_os env) fd w) = live w"
    "live (snd (os_evio_switches (ie_os env) fd w)) = live w" "live (snd (ie_write env p s w)) = live w"
    "live (snd (ie_read_dev env fd n w)) = live w" "live (snd (ie_abs env fd a w)) = live w"
    "live (ie_set_static_level env l w) = live w" "live (ie_set_static_heading env h w) = live w"
  using assms by (auto simp: source_laws_def)

section \<open>What leaves the sources alone\<close>

named_theorems live_simps \<open>calls that change no main-loop source\<close>

lemma live_write_int [live_simps]:
  assumes "source_laws env live"
  shows "live (snd (sysfs_int_write env f d v vf ty v2 w)) = live w"
proof -
  let ?t = "if ty then show_int v @ '' '' @ show_int v2 else show_int v"
  obtain r w1 where e: "ie_write env (build_filename d f) ?t w = (r, w1)" by fastforce
  have "live w1 = live w" using source_lawsD(7) [OF assms, of "build_filename d f" ?t w] e by simp
  moreover have "snd (sysfs_int_write env f d v vf ty v2 w) = w1"
    unfolding sysfs_int_write_def Let_def e by (cases r) (simp_all split: option.split)
  ultimately show ?thesis by simp
qed

lemma live_write_string [live_simps]:
  assumes "source_laws env live"
  shows "live (snd (sysfs_string_write env f d v vf w)) = live w"
proof -
  obtain r w1 where e: "ie_write env (build_filename d f) v w = (r, w1)" by fastforce
  have "live w1 = live w" using source_lawsD(7) [OF assms, of "build_filename d f" v w] e by simp
  moreover have "snd (sysfs_string_write env f d v vf w) = w1"
    unfolding sysfs_string_write_def Let_def e by (cases r) (simp_all split: sum.split)
  ultimately show ?thesis by simp
qed

lemma live_enable_ring [live_simps]:
  assumes "source_laws env live"
  shows "live (snd (enable_ring_buffer env data w)) = live w"
proof -
  obtain r w1 where 1: "write_sysfs_int env ''buffer/length'' (bd_dev_dir_name data) 128 w = (r, w1)" by fastforce
  obtain q w2 where 2: "write_sysfs_int_and_verify env ''buffer/enable'' (bd_dev_dir_name data) 1 w1 = (q, w2)" by fastforce
  have "live w1 = live w" "live w2 = live w1"
    using live_write_int [OF assms] 1 2 unfolding write_sysfs_int_def write_sysfs_int_and_verify_def by (metis snd_conv)+
  then show ?thesis using 1 2 by (simp add: enable_ring_buffer_def split: sysfs_ret.splits)
qed

lemma live_disable_ring [live_simps]:
  "source_laws env live \<Longrightarrow> live (disable_ring_buffer env data w) = live w"
  by (simp add: disable_ring_buffer_def write_sysfs_int_def live_write_int)

lemma live_enable_sensors [live_simps]:
  assumes "source_laws env live"
  shows "live (snd (enable_sensors env dev b w)) = live w"
proof -
  have "live (snd (enable_loop env dev dir b ns ret w)) = live w" for dir ns ret w
  proof (induction ns arbitrary: ret w)
    case (Cons n ns)
    obtain r w1 where r: "write_sysfs_int env n dir (if b then 1 else 0) w = (r, w1)" by fastforce
    have "live w1 = live w" using live_write_int [OF assms] r unfolding write_sysfs_int_def by (metis snd_conv)
    then show ?case using Cons.IH r by (cases b) (auto split: sysfs_ret.splits)
  qed simp
  then show ?thesis by (simp add: enable_sensors_def Let_def split: option.splits)
qed

lemma live_buffer_free [live_simps]:
  "source_laws env live \<Longrightarrow> live (buffer_drv_data_free env data w) = live w"
  using live_enable_sensors [of env live "bd_device data" False]
  by (simp add: buffer_drv_data_free_def disable_trigger_def write_sysfs_string_def Let_def live_write_string
      live_disable_ring split_beta)

lemma live_prepare_output [live_simps]:
  assumes "source_laws env live"
  shows "live (snd (snd (prepare_output env process d w))) = live w"
proof -
  note l = source_lawsD(4,5,8) [OF assms]
  have o: "live w1 = live w" if "os_open (ie_os env) p fl w = (fp, w1)" for p fl fp w w1 using l(1) that by (metis snd_conv)
  have r: "live w2 = live w1" if "ie_read_dev env fp n w1 = (x, w2)" for fp n w1 x w2 using l(3) that by (metis snd_conv)
  show ?thesis
    by (auto simp: prepare_output_def Let_def l(2) dest!: o r split: option.splits prod.splits)
qed

lemma live_accelerometer_changed [live_simps]:
  assumes "source_laws env live"
  shows "live (snd (accelerometer_changed env d w)) = live w"
proof -
  note l = source_lawsD(4,5,9) [OF assms]
  have o: "live w1 = live w" if "os_open (ie_os env) p fl w = (fp, w1)" for p fl fp w w1 using l(1) that by (metis snd_conv)
  have a: "live w2 = live w1" if "ie_abs env fp n w1 = (x, w2)" for fp n w1 x w2 using l(3) that by (metis snd_conv)
  have x: "live w2 = live w1" if "READ_AXES env fp w1 = (x, w2)" for fp w1 x w2
    using that by (auto simp: READ_AXES_def dest!: a split: prod.splits option.splits)
  show ?thesis
    by (auto simp: accelerometer_changed_def Let_def l(2) dest!: o x split: option.splits prod.splits)
qed

section \<open>The contract\<close>

definition timer_started :: "('w \<Rightarrow> nat set) \<Rightarrow> 'w \<Rightarrow> nat \<Rightarrow> 'w \<Rightarrow> bool" where
  "timer_started live w i w' \<longleftrightarrow> (if i = 0 then live w' = live w else i \<notin> live w \<and> live w' = insert i (live w))"

text \<open>Any sequence of requests the daemon makes of one device.\<close>

primrec poll_requests :: "bool list \<Rightarrow> ('d, 'w) SensorDevice \<times> 'w \<Rightarrow> ('d, 'w) SensorDevice \<times> 'w" where
  "poll_requests [] p = p"
| "poll_requests (b # bs) p = (case driver_set_polling (fst p) b (snd p) of (sd, rs, w) \<Rightarrow> poll_requests bs (sd, w))"

locale timer_driver =
  fixes drv :: "('d, 'w) SensorDriver" and f :: "'d \<Rightarrow> bool \<Rightarrow> 'w \<Rightarrow> 'd \<times> readings list \<times> 'w"
    and tid :: "'d \<Rightarrow> nat" and env :: "'w iio_env"
  assumes has_polling: "drv_set_polling drv = Some f"
    and opened: "drv_open drv dev w = (Some d, w') \<Longrightarrow> tid d = 0"
    and same: "b = (tid d \<noteq> 0) \<Longrightarrow> f d b w = (d, [], w)"
    and start: "source_laws env live \<Longrightarrow> tid d = 0 \<Longrightarrow> f d True w = (d', rs, w') \<Longrightarrow> timer_started live w (tid d') w'"
    and stop: "source_laws env live \<Longrightarrow> tid d \<noteq> 0 \<Longrightarrow> f d False w = (d', rs, w') \<Longrightarrow>
      tid d' = 0 \<and> rs = [] \<and> live w' = live w - {tid d}"
    and shut: "source_laws env live \<Longrightarrow> live (drv_close drv d w) = live w"
begin

definition holds_source :: "('w \<Rightarrow> nat set) \<Rightarrow> nat set \<Rightarrow> 'd \<times> 'w \<Rightarrow> bool" where
  "holds_source live base p \<longleftrightarrow> (if tid (fst p) = 0 then live (snd p) = base
     else tid (fst p) \<notin> base \<and> live (snd p) = insert (tid (fst p)) base)"

lemma request_holds:
  assumes "source_laws env live" "holds_source live base (d, w)" "f d b w = (d', rs, w')"
  shows "holds_source live base (d', w')"
proof (cases "b = (tid d \<noteq> 0)")
  case True
  then show ?thesis using same [OF True, of w] assms(2,3) by simp
next
  case False
  show ?thesis
  proof (cases b)
    case True
    then have "timer_started live w (tid d') w'" using start [OF assms(1)] False assms(3) by simp
    then show ?thesis using assms(2) False True by (simp add: holds_source_def timer_started_def split: if_splits)
  next
    case b: False
    have nz: "tid d \<noteq> 0" using b \<open>b \<noteq> (tid d \<noteq> 0)\<close> by simp
    have "tid d' = 0 \<and> rs = [] \<and> live w' = live w - {tid d}"
      using stop [OF assms(1) nz] assms(3) b by simp
    then show ?thesis using assms(2) nz by (auto simp: holds_source_def)
  qed
qed

lemma device_polling:
  assumes "sd_drv sd = drv" "f (sd_priv sd) b w = (d', rs, w')"
  shows "driver_set_polling sd b w = (sd\<lparr>sd_priv := d'\<rparr>, rs, w')"
  using assms has_polling by (simp add: driver_set_polling_def Let_def)

lemma requests_hold:
  assumes "source_laws env live" "sd_drv sd = drv" "holds_source live base (sd_priv sd, w)"
    "poll_requests bs (sd, w) = (sd', w')"
  shows "sd_drv sd' = drv" "holds_source live base (sd_priv sd', w')"
proof -
  have "sd_drv sd' = drv \<and> holds_source live base (sd_priv sd', w')" using assms(2-)
  proof (induction bs arbitrary: sd w)
    case (Cons b bs)
    obtain d1 rs w1 where r: "f (sd_priv sd) b w = (d1, rs, w1)" by (metis prod.collapse)
    show ?case
      using Cons.IH [of "sd\<lparr>sd_priv := d1\<rparr>" w1] Cons.prems device_polling [OF Cons.prems(1) r]
        request_holds [OF assms(1) Cons.prems(2) r] by simp
  qed simp
  then show "sd_drv sd' = drv" "holds_source live base (sd_priv sd', w')" by simp_all
qed

lemma close_balance:
  assumes "source_laws env live" "holds_source live base (d, w)" "sd_drv sd = drv" "sd_priv sd = d"
  shows "fst (driver_close sd w) = []" "live (snd (driver_close sd w)) = base"
proof -
  obtain d' rs w' where r: "f d False w = (d', rs, w')" by (metis prod.collapse)
  have h: "holds_source live base (d', w')" by (rule request_holds [OF assms(1,2) r])
  have q: "rs = []" "tid d' = 0"
    using same [of False d w] stop [OF assms(1) _ r] r by (cases "tid d = 0"; simp)+
  have c: "driver_close sd w = (rs, drv_close drv d' w')"
    using r assms(3,4) has_polling by (simp add: driver_close_def driver_set_polling_def Let_def)
  show "fst (driver_close sd w) = []" using c q by simp
  show "live (snd (driver_close sd w)) = base" using c q h shut [OF assms(1), of d' w'] by (simp add: holds_source_def)
qed

lemma life_balance:
  assumes "source_laws env live" "driver_open drv dev w = (Some sd, w0)" "poll_requests bs (sd, w0) = (sd1, w1)"
  shows "fst (driver_close sd1 w1) = []" "live (snd (driver_close sd1 w1)) = live w0"
proof -
  obtain d where d: "drv_open drv dev w = (Some d, w0)" "sd = \<lparr>sd_drv = drv, sd_priv = d\<rparr>"
    using assms(2) by (auto simp: driver_open_def split: prod.splits option.splits)
  have "holds_source live (live w0) (sd_priv sd, w0)" using opened [OF d(1)] d(2) by (simp add: holds_source_def)
  note h = requests_hold [OF assms(1) _ this assms(3)]
  have "sd_drv sd = drv" using d(2) by simp
  then show "fst (driver_close sd1 w1) = []" "live (snd (driver_close sd1 w1)) = live w0"
    using close_balance [OF assms(1) h(2) h(1) refl] by simp_all
qed

end

section \<open>The drivers\<close>

text \<open>The reading that follows the start of a timer.\<close>

lemma timer_started_I:
  assumes "source_laws env live" "live u = live w" "os_timeout_add (ie_os env) n u = (i, v)" "live w' = live v"
  shows "timer_started live w i w'"
  using source_lawsD(1) [OF assms(1,3)] assms(2,4) by (simp add: timer_started_def)

lemmas driver_defs = iio_poll_accel_def iio_poll_accel_open_def iio_poll_accel_set_polling_def
  iio_poll_light_def iio_poll_light_open_def iio_poll_light_set_polling_def
  iio_poll_proximity_def iio_poll_proximity_open_def iio_poll_proximity_set_polling_def
  hwmon_light_def hwmon_light_open_def hwmon_light_set_polling_def
  fake_light_def fake_light_set_polling_def fake_compass_def fake_compass_set_polling_def
  iio_buffer_accel_def iio_buffer_accel_open_def iio_buffer_accel_set_polling_def iio_buffer_accel_close_def
  iio_buffer_light_def iio_buffer_light_open_def iio_buffer_light_set_polling_def iio_buffer_light_close_def
  iio_buffer_compass_def iio_buffer_compass_open_def iio_buffer_compass_set_polling_def iio_buffer_compass_close_def
  input_accel_def input_accel_open_def input_accel_set_polling_def
  input_proximity_def input_proximity_open_def input_proximity_set_polling_def

interpretation poll_accel: timer_driver "iio_poll_accel env" "iio_poll_accel_set_polling env" pa_timeout_id env for env
  by unfold_locales (auto simp: driver_defs Let_def source_lawsD intro: timer_started_I split: prod.splits)

interpretation poll_light: timer_driver "iio_poll_light env" "iio_poll_light_set_polling env" pl_timeout_id env for env
  by unfold_locales (auto simp: driver_defs Let_def source_lawsD intro: timer_started_I split: prod.splits option.splits)

interpretation hwmon: timer_driver "hwmon_light env" "hwmon_light_set_polling env" hl_timeout_id env for env
  by unfold_locales (auto simp: driver_defs Let_def source_lawsD intro: timer_started_I split: prod.splits)

lemma poll_proximity_tid: "poll_proximity env d w = (d', rs) \<Longrightarrow> pp_timeout_id d' = pp_timeout_id d"
  by (auto simp: poll_proximity_def Let_def)

interpretation poll_proximity: timer_driver "iio_poll_proximity env" "iio_poll_proximity_set_polling env" pp_timeout_id env
  for env
  by unfold_locales (auto simp: driver_defs Let_def source_lawsD intro: timer_started_I dest!: poll_proximity_tid
      split: prod.splits option.splits if_splits)

lemma live_fake:
  "source_laws env live \<Longrightarrow> fake_light_changed env w = (rs, w') \<Longrightarrow> live w' = live w"
  "source_laws env live \<Longrightarrow> compass_changed env w = (rs, w') \<Longrightarrow> live w' = live w"
  by (auto simp: fake_light_changed_def compass_changed_def Let_def source_lawsD)

interpretation fake_light: timer_driver "fake_light env" "fake_light_set_polling env" fk_timeout_id env for env
  by unfold_locales (auto simp: driver_defs Let_def source_lawsD live_fake intro: timer_started_I split: prod.splits)

interpretation fake_compass: timer_driver "fake_compass env" "fake_compass_set_polling env" fk_timeout_id env for env
  by unfold_locales (auto simp: driver_defs Let_def source_lawsD live_fake intro: timer_started_I split: prod.splits)

text \<open>Reading a buffer keeps the timer.\<close>

lemma prepare_output_tid:
  assumes "\<And>data d w. bx_timeout_id (fst (process data d w)) = bx_timeout_id d"
    "prepare_output env process d w = (d', rs, w')"
  shows "bx_timeout_id d' = bx_timeout_id d"
proof -
  have p: "bx_timeout_id d2 = bx_timeout_id d1" if "process data d1 w1 = (d2, rs2)" for data d1 w1 d2 rs2
    using assms(1) [of data d1 w1] that by simp
  show ?thesis using assms(2)
    by (auto simp: prepare_output_def Let_def dest!: p split: option.splits prod.splits if_splits)
qed

lemma process_scan_tid:
  "bx_timeout_id (fst (accel_process_scan env data d1 w)) = bx_timeout_id d1"
  "bx_timeout_id (fst (light_process_scan env data d w)) = bx_timeout_id d"
  "bx_timeout_id (fst (compass_process_scan env data d w)) = bx_timeout_id d"
  by (auto simp: accel_process_scan_def light_process_scan_def compass_process_scan_def Let_def
      split: scan_data.split option.split prod.split)

lemma buffer_read_start:
  assumes "source_laws env live" "enable_ring_buffer env bd w = (b, w1)" "os_timeout_add (ie_os env) n w1 = (i, w2)"
  shows "read_orientation env d1 w2 = (d1', rs, w') \<Longrightarrow> bx_timeout_id d1 = i \<Longrightarrow> timer_started live w (bx_timeout_id d1') w'"
    and "read_light env d w2 = (d', rs, w') \<Longrightarrow> bx_timeout_id d = i \<Longrightarrow> timer_started live w (bx_timeout_id d') w'"
    and "read_heading env d w2 = (d', rs, w') \<Longrightarrow> bx_timeout_id d = i \<Longrightarrow> timer_started live w (bx_timeout_id d') w'"
proof -
  have w1: "live w1 = live w" using live_enable_ring [OF assms(1), of bd w] assms(2) by simp
  show "timer_started live w (bx_timeout_id d1') w'" if "read_orientation env d1 w2 = (d1', rs, w')" "bx_timeout_id d1 = i"
    using that prepare_output_tid [where process = "accel_process_scan env", OF process_scan_tid(1)]
      live_prepare_output [OF assms(1), of "accel_process_scan env" d1 w2] timer_started_I [OF assms(1) w1 assms(3)]
    by (auto simp: read_orientation_def accel_prepare_output_def split: if_splits)
  show "timer_started live w (bx_timeout_id d') w'" if "read_light env d w2 = (d', rs, w')" "bx_timeout_id d = i"
    using that prepare_output_tid [where process = "light_process_scan env", OF process_scan_tid(2)]
      live_prepare_output [OF assms(1), of "light_process_scan env" d w2] timer_started_I [OF assms(1) w1 assms(3)]
    by (auto simp: read_light_def light_prepare_output_def split: if_splits)
  show "timer_started live w (bx_timeout_id d') w'" if "read_heading env d w2 = (d', rs, w')" "bx_timeout_id d = i"
    using that prepare_output_tid [where process = "compass_process_scan env", OF process_scan_tid(3)]
      live_prepare_output [OF assms(1), of "compass_process_scan env" d w2] timer_started_I [OF assms(1) w1 assms(3)]
    by (auto simp: read_heading_def compass_prepare_output_def split: if_splits)
qed

interpretation buffer_accel: timer_driver "iio_buffer_accel env" "iio_buffer_accel_set_polling env" bx_timeout_id env for env
  by unfold_locales (auto simp: driver_defs Let_def source_lawsD live_simps intro: buffer_read_start
      split: prod.splits option.splits)

interpretation buffer_light: timer_driver "iio_buffer_light env" "iio_buffer_light_set_polling env" bx_timeout_id env for env
  by unfold_locales (auto simp: driver_defs Let_def source_lawsD live_simps intro: buffer_read_start
      split: prod.splits option.splits)

interpretation buffer_compass: timer_driver "iio_buffer_compass env" "iio_buffer_compass_set_polling env" bx_timeout_id env
  for env
  by unfold_locales (auto simp: driver_defs Let_def source_lawsD live_simps intro: buffer_read_start
      split: prod.splits option.splits)

interpretation input_accel: timer_driver "input_accel env" "input_accel_set_polling env" ia_timeout_id env for env
proof unfold_locales
  show "timer_started live w (ia_timeout_id d') w'" if "source_laws env live" "ia_timeout_id d = 0"
    "input_accel_set_polling env d True w = (d', rs, w')" for live d w d' rs w'
  proof (cases "ia_sends_kevent d")
    case True
    then show ?thesis using that by (simp add: input_accel_set_polling_def timer_started_def)
  next
    case False
    obtain i w1 where t: "os_timeout_add (ie_os env) 700 w = (i, w1)" by fastforce
    let ?d = "d\<lparr>ia_timeout_id := i\<rparr>"
    have "d' = ?d" "w' = snd (accelerometer_changed env ?d w1)"
      using that False t by (auto simp: input_accel_set_polling_def Let_def split: prod.splits)
    then show ?thesis
      using timer_started_I [OF that(1) refl t] live_accelerometer_changed [OF that(1), of ?d w1] by simp
  qed
qed (auto simp: driver_defs Let_def source_lawsD split: prod.splits)

interpretation input_proximity: timer_driver "input_proximity env" "input_proximity_set_polling env" ip_watcher_id env for env
proof unfold_locales
  show "timer_started live w (ip_watcher_id d') w'" if l: "source_laws env live" and z: "ip_watcher_id d = 0"
    and p: "input_proximity_set_polling env d True w = (d', rs, w')" for live d w d' rs w'
  proof -
    have o: "live w1 = live w" if "os_open (ie_os env) p fl w = (fp, w1)" for p fl fp w w1
      using source_lawsD(4) [OF l] that by (metis snd_conv)
    have e: "live w1 = live w" if "os_evio_switches (ie_os env) fp w = (x, w1)" for fp x w w1
      using source_lawsD(6) [OF l] that by (metis snd_conv)
    have a: "i \<noteq> 0 \<and> i \<notin> live w \<and> live w1 = insert i (live w)" if "os_io_add_watch (ie_os env) fp w = (i, w1)" for fp i w w1
      using source_lawsD(2) [OF l that] .
    show ?thesis
      using p z by (auto simp: input_proximity_set_polling_def watch_input_proximity_def Let_def timer_started_def
          source_lawsD(5) [OF l] dest!: o e a split: prod.splits option.splits if_splits)
  qed
qed (auto simp: driver_defs Let_def source_lawsD split: prod.splits)

end
