(* ===== verification/Iio_Poll_Facts.thy ===== *)
theory Iio_Poll_Facts
  imports Iio_Poll Iio_Buffer_Facts
begin

text \<open>
  What the polling drivers report: the proximity decision with its two water marks, the light level
  of the hwmon sensor, and the scale the light driver looks up.
\<close>

section \<open>The proximity decision\<close>

lemma water_marks:
  "PROXIMITY_WATER_MARK_LOW = Num (8106479329266893 / 9007199254740992)"
  "PROXIMITY_WATER_MARK_HIGH = Num (2476979795053773 / 2251799813685248)"
  by (simp add: PROXIMITY_WATER_MARK_LOW_def, code_simp) (simp add: PROXIMITY_WATER_MARK_HIGH_def, code_simp)

text \<open>Numbers with four fractional bits are representable.\<close>

lemma repr_sixteenth:
  assumes "\<bar>i\<bar> \<le> 2 ^ 50"
  shows "repr_of TYPE(f64) (of_int i / 16)"
proof -
  have "of_int i / 16 = of_int i * pow2 (- 4)" by (simp add: pow2_def)
  then show ?thesis using assms unfolding fp_repr_def fp_format_f64
    by (intro exI [of _ i] exI [of _ "- 4 :: int"]) simp
qed

lemma mark_exact:
  assumes "of_int k / 10 \<le> q" "q \<le> of_int k / 10 + 1 / 1099511627776" "0 \<le> k" "k \<le> 20"
    "0 < N" "N < 2 ^ 31" "\<bar>p\<bar> \<le> 2 ^ 31"
  shows "(fint N * Num q :: f64) < fint p \<longleftrightarrow> k * N < 10 * p"
proof -
  let ?x = "of_int N * q"
  have N: "(of_int N :: rat) \<le> 2147483648" "0 < (of_int N :: rat)" using assms(5,6) by (simp_all add: of_int_less_iff [symmetric] del: of_int_less_iff)
  have lo: "of_int (k * N) / 10 \<le> ?x"
    using mult_left_mono [OF assms(1), of "of_int N"] N(2) by (simp add: mult.commute)
  have "?x \<le> of_int N * (of_int k / 10 + 1 / 1099511627776)"
    using mult_left_mono [OF assms(2), of "of_int N"] N(2) by simp
  also have "\<dots> \<le> of_int (k * N) / 10 + 3 / 100" using N by (simp add: algebra_simps)
  finally have hi: "?x \<le> of_int (k * N) / 10 + 3 / 100" .
  have kN: "0 \<le> k * N" "k * N \<le> 20 * 2 ^ 31" using assms(3-6) mult_mono [of k 20 N "2 ^ 31"] by simp_all
  then have "(of_int (k * N) :: rat) \<le> of_int (20 * 2 ^ 31)" "0 \<le> (of_int (k * N) :: rat)" by (simp_all only: of_int_le_iff of_int_0_le_iff)
  then have "\<bar>?x\<bar> \<le> 2 ^ 40" using lo hi by (simp add: abs_le_iff)
  also have "(2 :: rat) ^ 40 \<le> fp_max TYPE(f64)" by (simp add: fp_format_f64)
  finally have mx: "\<bar>?x\<bar> \<le> fp_max TYPE(f64)" .
  have iN: "fint N = (Num (of_int N) :: f64)" and ip: "fint p = (Num (of_int p) :: f64)"
    using assms(5-7) by (simp_all add: fint_exact)
  have m: "ffinite (fint N * Num q :: f64)" "fval (fint N * Num q :: f64) = rnd_of TYPE(f64) ?x"
    using fp_mult_finite [of "fint N :: f64" "Num q"] mx by (simp_all add: iN)
  have "rnd_of TYPE(f64) ?x < of_int p \<longleftrightarrow> k * N < 10 * p"
  proof
    assume "k * N < 10 * p"
    then have "(of_int (k * N + 1) :: rat) \<le> of_int (10 * p)" by (simp only: of_int_le_iff)
    then have "?x \<le> of_int (16 * p - 1) / 16" using hi by simp
    moreover have "repr_of TYPE(f64) (of_int (16 * p - 1) / 16)"
      by (rule repr_sixteenth) (use assms(7) in \<open>simp add: abs_le_iff\<close>)
    ultimately have "rnd_of TYPE(f64) ?x \<le> of_int (16 * p - 1) / 16" by (rule rnd_le_repr)
    also have "\<dots> < (of_int p :: rat)" by simp
    finally show "rnd_of TYPE(f64) ?x < of_int p" .
  next
    assume lt: "rnd_of TYPE(f64) ?x < of_int p"
    show "k * N < 10 * p"
    proof (rule ccontr)
      assume "\<not> k * N < 10 * p"
      then have "(of_int (10 * p) :: rat) \<le> of_int (k * N)" by (simp only: of_int_le_iff)
      then have "of_int p \<le> ?x" using lo by simp
      then have "of_int p \<le> rnd_of TYPE(f64) ?x"
        by (rule rnd_ge_repr) (rule fp_repr_int, use assms(7) in \<open>simp_all add: fp_format_f64\<close>)
      then show False using lt by simp
    qed
  qed
  then show ?thesis using m by (simp add: ip)
qed

definition prox_of :: "'w iio_env \<Rightarrow> PollProximity \<Rightarrow> 'w \<Rightarrow> int" where
  "prox_of env d w = attr_int_uncached env (pp_dev d) (pp_input_attr d) w"

lemma poll_proximity_decision:
  assumes "0 < pp_near_level d" "pp_near_level d < 2 ^ 31" "\<bar>pp_last_level d\<bar> \<le> 2 ^ 31" "\<bar>prox_of env d w\<bar> \<le> 2 ^ 31"
  shows "poll_proximity env d w = (d\<lparr>pp_last_level := prox_of env d w\<rparr>,
    [ProximityR (if (if pp_near_level d < pp_last_level d then 9 else 11) * pp_near_level d < 10 * prox_of env d w
       then PROXIMITY_NEAR_TRUE else PROXIMITY_NEAR_FALSE)])"
proof -
  let ?N = "pp_near_level d"
  have "(fint ?N :: f64) < fint (pp_last_level d) \<longleftrightarrow> ?N < pp_last_level d"
    using assms(1-3) by (simp add: fint_exact)
  moreover have "(fint ?N * PROXIMITY_WATER_MARK_LOW < fint (prox_of env d w)) = (9 * ?N < 10 * prox_of env d w)"
    "(fint ?N * PROXIMITY_WATER_MARK_HIGH < fint (prox_of env d w)) = (11 * ?N < 10 * prox_of env d w)"
    unfolding water_marks by (rule mark_exact; use assms in simp)+
  ultimately show ?thesis by (simp add: poll_proximity_def Let_def prox_of_def)
qed

text \<open>The decisions along a run of raw levels; \<open>prev\<close> is the level remembered at its start.\<close>

fun near_run :: "int \<Rightarrow> int \<Rightarrow> int list \<Rightarrow> bool list" where
  "near_run N prev [] = []"
| "near_run N prev (p # ps) = ((if N < prev then 9 else 11) * N < 10 * p) # near_run N p ps"

text \<open>Successive polls, each in the world of its moment.\<close>

fun poll_run :: "'w iio_env \<Rightarrow> PollProximity \<Rightarrow> 'w list \<Rightarrow> readings list" where
  "poll_run env d [] = []"
| "poll_run env d (w # ws) = (let (d, rs) = poll_proximity env d w in rs @ poll_run env d ws)"

definition near_text :: "bool \<Rightarrow> readings" where
  "near_text b = ProximityR (if b then PROXIMITY_NEAR_TRUE else PROXIMITY_NEAR_FALSE)"

lemma poll_run_near:
  assumes "0 < pp_near_level d" "pp_near_level d < 2 ^ 31" "\<bar>pp_last_level d\<bar> \<le> 2 ^ 31"
    "\<forall>w\<in>set ws. \<bar>prox_of env d w\<bar> \<le> 2 ^ 31"
  shows "poll_run env d ws = map near_text (near_run (pp_near_level d) (pp_last_level d) (map (prox_of env d) ws))"
  using assms
proof (induction ws arbitrary: d)
  case (Cons w ws)
  let ?d = "d\<lparr>pp_last_level := prox_of env d w\<rparr>"
  have "prox_of env ?d = prox_of env d" by (simp add: prox_of_def fun_eq_iff)
  then show ?case
    using Cons.IH [of ?d] Cons.prems poll_proximity_decision [of d env w] by (simp add: near_text_def)
qed simp

text \<open>The proximity readings of any run of polls. With threshold N, a level is near exactly when it
  exceeds 90 percent of N, if the level before it exceeded N, and 110 percent of N otherwise; this
  holds for all levels, the rounding of the products included.\<close>

theorem poll_proximity_run:
  assumes "0 < pp_near_level d" "pp_near_level d < 2 ^ 31" "\<bar>pp_last_level d\<bar> \<le> 2 ^ 31"
    "levels = map (attr_int_uncached env (pp_dev d) (pp_input_attr d)) ws" "\<forall>l\<in>set levels. \<bar>l\<bar> \<le> 2 ^ 31"
  shows "poll_run env d ws = map near_text (near_run (pp_near_level d) (pp_last_level d) levels)"
proof -
  have "levels = map (prox_of env d) ws" by (simp add: assms(4) prox_of_def [abs_def])
  then show ?thesis using poll_run_near [OF assms(1-3), of ws env] assms(5) by simp
qed

definition level_worlds :: "int list \<Rightarrow> store list" where
  "level_worlds ls = map (\<lambda>l. [(''/d/in_proximity_raw'', show_int l)]) ls"

definition prox_drv :: "int \<Rightarrow> PollProximity" where
  "prox_drv l = \<lparr>pp_input_attr = ''in_proximity_raw'', pp_timeout_id = 1, pp_dev = iio_dev (\<lambda>_. None),
     pp_near_level = 100, pp_last_level = l\<rparr>"

lemma level_worlds_read:
  assumes "\<forall>l\<in>set ls. - (2 ^ 31) \<le> l \<and> l < 2 ^ 31"
  shows "map (attr_int_uncached (store_env ''/d'' []) (iio_dev (\<lambda>_. None)) ''in_proximity_raw'') (level_worlds ls) = ls"
  using assms scan_d_show_int [where s = "[]"]
  by (induction ls) (simp_all add: level_worlds_def attr_int_uncached_def sysfs_dir_def
      build_filename_def iio_dev_def)

lemma poll_proximity_run_witness:
  "poll_run (store_env ''/d'' []) (prox_drv 0) (level_worlds [105, 105, 95, 80]) =
     map near_text [False, True, True, False]"
proof -
  have "map (attr_int_uncached (store_env ''/d'' []) (pp_dev (prox_drv 0)) (pp_input_attr (prox_drv 0)))
      (level_worlds [105, 105, 95, 80]) = [105, 105, 95, 80]"
    using level_worlds_read [of "[105, 105, 95, 80]"] by (simp add: prox_drv_def)
  from poll_proximity_run [of "prox_drv 0", OF _ _ _ this [symmetric]] show ?thesis
    by (simp add: prox_drv_def)
qed

lemma near_run_flicker:
  assumes "9 * N < 10 * a" "a \<le> N" "N < b" "10 * b \<le> 11 * N"
  shows "near_run N b (concat (replicate n [a, b])) = concat (replicate n [True, False])"
  using assms by (induction n) auto

text \<open>The margin does not calm the sensor. For levels that alternate just below and just above the
  threshold, inside the margin of 10 percent on both sides, the reading changes with every poll, and
  the lower level is the one reported as near.\<close>

theorem proximity_flickers:
  assumes "0 < pp_near_level d" "pp_near_level d < 2 ^ 31" "N = pp_near_level d" "pp_last_level d = b"
    "9 * N < 10 * a" "a \<le> N" "N < b" "10 * b \<le> 11 * N" "b \<le> 2 ^ 31"
    "map (attr_int_uncached env (pp_dev d) (pp_input_attr d)) ws = concat (replicate n [a, b])"
  shows "poll_run env d ws = concat (replicate n [near_text True, near_text False])"
proof -
  have "map (prox_of env d) ws = concat (replicate n [a, b])" using assms(10) by (simp add: prox_of_def [abs_def])
  moreover from this have "\<forall>w\<in>set ws. \<bar>prox_of env d w\<bar> \<le> 2 ^ 31"
  proof -
    have "prox_of env d ` set ws \<subseteq> {a, b}"
      using arg_cong [OF \<open>map (prox_of env d) ws = _\<close>, of set] by (auto split: if_splits)
    then show ?thesis using assms by (auto simp: abs_le_iff image_subset_iff)
  qed
  ultimately have "poll_run env d ws = map near_text (concat (replicate n [True, False]))"
    using poll_run_near [OF assms(1,2), of ws env] near_run_flicker [OF assms(5-8), of n] assms by simp
  then show ?thesis by (simp add: map_concat map_replicate_const)
qed

lemma proximity_flickers_witness:
  "poll_run (store_env ''/d'' []) (prox_drv 105) (level_worlds [95, 105, 95, 105]) =
     map near_text [True, False, True, False]"
proof -
  have l: "map (attr_int_uncached (store_env ''/d'' []) (pp_dev (prox_drv 105)) (pp_input_attr (prox_drv 105)))
      (level_worlds [95, 105, 95, 105]) = concat (replicate (Suc (Suc 0)) [95, 105])"
    using level_worlds_read [of "[95, 105, 95, 105]"] by (simp add: prox_drv_def)
  have "poll_run (store_env ''/d'' []) (prox_drv 105) (level_worlds [95, 105, 95, 105]) =
      concat (replicate (Suc (Suc 0)) [near_text True, near_text False])"
    by (rule proximity_flickers [of "prox_drv 105" 100 105 95, OF _ _ _ _ _ _ _ _ _ l]) (simp_all add: prox_drv_def)
  then show ?thesis by simp
qed

section \<open>The light drivers\<close>

text \<open>The level of the two sensors of a laptop is a percentage.\<close>

lemma hwmon_level_percent:
  assumes "0 \<le> max a b" "max a b \<le> 255"
  shows "ffinite (hwmon_level a b) \<and> 0 \<le> fval (hwmon_level a b) \<and> fval (hwmon_level a b) \<le> 100"
proof -
  let ?m = "max a b"
  have r: "repr_of TYPE(f32) 0" "repr_of TYPE(f32) 1" "repr_of TYPE(f32) 100" "repr_of TYPE(f64) 0" "repr_of TYPE(f64) 100"
    using fp_repr_int [of 0] fp_repr_int [of 1] fp_repr_int [of 100] by (simp_all add: fp_format_f32 fp_format_f64)
  have i: "fint ?m = (Num (of_int ?m) :: f32)" "fint 255 = (Num 255 :: f32)" "fint 100 = (Num 100 :: f32)"
    using fint_exact_f32 [of ?m] fint_exact_f32 [of 255] fint_exact_f32 [of 100] assms by (simp_all add: fint_def)
  have mx: "(100 :: rat) \<le> fp_max TYPE(f32)" "(100 :: rat) \<le> fp_max TYPE(f64)" by (simp_all add: fp_format_f32 fp_format_f64)
  have q: "0 \<le> (of_int ?m :: rat) / 255" "(of_int ?m :: rat) / 255 \<le> 1" using assms by simp_all
  define x where "x = (fint ?m div fint 255 :: f32)"
  have x: "ffinite x" "fval x = rnd_of TYPE(f32) (of_int ?m / 255)"
    using fp_div_finite [of "fint ?m :: f32" "fint 255"] q mx by (simp_all add: x_def i abs_le_iff)
  then have x1: "0 \<le> fval x" "fval x \<le> 1" using rnd_ge_repr [OF q(1) r(1)] rnd_le_repr [OF q(2) r(2)] by simp_all
  define y where "y = (x * fint 100 :: f32)"
  have y: "ffinite y" "fval y = rnd_of TYPE(f32) (fval x * 100)"
    using fp_mult_finite [of x "fint 100"] x(1) x1 mx by (simp_all add: y_def i abs_le_iff)
  then have y1: "0 \<le> fval y" "fval y \<le> 100"
    using rnd_ge_repr [of 0 "fval x * 100" "TYPE(f32)"] rnd_le_repr [of "fval x * 100" 100 "TYPE(f32)"] r x1 by simp_all
  have "hwmon_level a b = fconv y" by (simp add: hwmon_level_def x_def y_def)
  then show ?thesis
    using y(1) y1 fround_finite [of "fval y", where 'e = 11 and 'f = 52] mx(2)
      rnd_ge_repr [of 0 "fval y" "TYPE(f64)"] rnd_le_repr [of "fval y" 100 "TYPE(f64)"] r
    by (cases y) (simp_all add: abs_le_iff)
qed

text \<open>The scale of a light sensor whose channel is called \<^verbatim>\<open>in_illuminance0\<close> is never read: the name is
  compared with the beginning of the whole sysfs path, so the driver takes
  \<^verbatim>\<open>in_illuminance_scale\<close>, and 1 when the device does not have that attribute.\<close>

theorem illuminance0_scale_ignored:
  assumes "sysfs_path dev = Some (CHR ''/'' # p)" "iio_poll_light_open env dev w = (Some d, w')"
  shows "pl_scale d = (case sysfs_attr dev ''in_illuminance_scale'' of None \<Rightarrow> 1
    | Some s \<Rightarrow> if feq (strtod_val env s) 0 then 1 else strtod_val env s)"
proof -
  have pre: "\<not> has_prefix path ''in_illuminance0''" if "get_illuminance_channel_path env dev suffix w1 = Some path"
    for suffix path w1
  proof -
    have "\<exists>c. path = percent_s (sysfs_path dev) @ ''/'' @ c @ ''_'' @ suffix"
      using that by (auto simp: get_illuminance_channel_path_def find_Some_iff)
    then show ?thesis using assms(1) by (auto simp: percent_s_def has_prefix_iff)
  qed
  obtain r w1 where f: "iio_fixup_sampling_frequency env dev w = (r, w1)" by fastforce
  obtain suffix path where path: "get_illuminance_channel_path env dev suffix w1 = Some path"
    and d: "pl_scale d = (let scale = attr_as_double (strtod_val env) dev
        (if has_prefix path ''in_illuminance0'' then ''in_illuminance0_scale'' else ''in_illuminance_scale'')
      in if feq scale 0 then 1 else scale)"
    using assms(2) f by (auto simp: iio_poll_light_open_def Let_def split: option.splits)
  show ?thesis
    using pre [OF path] unfolding d by (simp add: attr_as_double_def Let_def split: option.split)
qed

definition als_store :: store where
  "als_store = [(''/d/in_illuminance0_input'', ''7'')]"

lemma illuminance0_scale_ignored_witness:
  "\<exists>d w'. iio_poll_light_open (store_env ''/d'' []) (iio_dev (\<lambda>n. if n = ''in_illuminance0_scale'' then Some ''3'' else None)) als_store
     = (Some d, w') \<and> pl_scale d = 1"
proof -
  let ?env = "store_env ''/d'' []" and ?dev = "iio_dev (\<lambda>n. if n = ''in_illuminance0_scale'' then Some ''3'' else None)"
  have "fst (iio_poll_light_open ?env ?dev als_store) \<noteq> None" by code_simp
  then obtain d w' where o: "iio_poll_light_open ?env ?dev als_store = (Some d, w')" by (metis not_None_eq prod.collapse)
  have "sysfs_path ?dev = Some (CHR ''/'' # ''d'')" by (simp add: iio_dev_def)
  from illuminance0_scale_ignored [OF this o] show ?thesis using o by (simp add: iio_dev_def)
qed

end
