(* ===== verification/Input_Facts.thy ===== *)
theory Input_Facts
  imports Input_Drv Iio_Buffer_Facts
begin

text \<open>
  What the input drivers do: the bit count of a switch mask is the number of its bits, a capability
  text of several words overruns the one-word mask, and every round of polling the proximity switch
  leaves a descriptor open.
\<close>

section \<open>Counting bits\<close>

text \<open>Clearing the lowest bit removes exactly one element of the set of bits.\<close>

lemma nat_clear_lowest: "0 < n \<Longrightarrow> \<exists>k. bit n k \<and> (\<forall>i. bit (n AND (n - 1)) i \<longleftrightarrow> bit n i \<and> i \<noteq> k)" for n :: nat
proof (induction n rule: less_induct)
  case (less n)
  show ?case
  proof (cases "odd n")
    case True
    have "bit (n AND (n - 1)) i \<longleftrightarrow> bit n i \<and> i \<noteq> 0" for i
    proof (cases i)
      case (Suc j)
      have "(n - 1) div 2 = n div 2" using True by (elim oddE) simp
      then show ?thesis unfolding bit_and_iff Suc by (simp add: bit_Suc)
    next
      case 0
      then show ?thesis unfolding bit_and_iff using True by (simp add: bit_0)
    qed
    then show ?thesis using True by (intro exI [of _ 0]) (simp add: bit_0)
  next
    case False
    then have m: "0 < n div 2" "n div 2 < n" "(n - 1) div 2 = n div 2 - 1" using less.prems by (auto elim!: evenE)
    obtain k where k: "bit (n div 2) k" "\<And>i. bit (n div 2 AND (n div 2 - 1)) i \<longleftrightarrow> bit (n div 2) i \<and> i \<noteq> k"
      using less.IH [OF m(2,1)] by blast
    have "bit (n AND (n - 1)) i \<longleftrightarrow> bit n i \<and> i \<noteq> Suc k" for i
    proof (cases i)
      case (Suc j)
      then show ?thesis using k(2) [of j] m(3) unfolding bit_and_iff by (simp add: bit_Suc)
    next
      case 0
      then show ?thesis unfolding bit_and_iff using False by (simp add: bit_0)
    qed
    then show ?thesis using k(1) by (intro exI [of _ "Suc k"]) (simp add: bit_Suc)
  qed
qed

lemma word_clear_lowest:
  fixes val :: "'a::len word"
  assumes "val \<noteq> 0"
  shows "\<exists>k. bit val k \<and> {i. bit (val AND (val - 1)) i} = {i. bit val i} - {k}"
proof -
  have u: "bit v i \<longleftrightarrow> bit (unat v) i" for v :: "'a word" and i by (auto simp: bit_unsigned_iff dest: bit_imp_le_length)
  have "unat (val - 1) = unat val - 1" using assms by (simp add: unat_minus_one)
  moreover have "0 < unat val" using assms by (simp add: unat_gt_0)
  ultimately obtain k where k: "bit (unat val) k" "\<And>i. bit (unat val) i \<and> bit (unat (val - 1)) i \<longleftrightarrow> bit (unat val) i \<and> i \<noteq> k"
    using nat_clear_lowest [of "unat val"] unfolding bit_and_iff by auto
  have "bit (val AND (val - 1)) i \<longleftrightarrow> bit val i \<and> i \<noteq> k" for i
    unfolding bit_and_iff using k(2) [of i] u [of val i] u [of "val - 1" i] by simp
  then show ?thesis using k(1) u by blast
qed

lemma count_bits_card: "count_bits val n = n + card {i. bit val i}"
proof (induction val n rule: count_bits.induct)
  case (1 val n)
  show ?case
  proof (cases "val = 0")
    case True
    then have "card {i. bit val i} = 0" by (auto simp: card_eq_0_iff)
    then show ?thesis using True by (subst count_bits.simps) (simp del: bit_0_eq)
  next
    case False
    obtain k where k: "bit val k" "{i. bit (val AND (val - 1)) i} = {i. bit val i} - {k}"
      using word_clear_lowest [OF False] by blast
    have fin: "finite {i. bit val i}" by (rule finite_subset [of _ "{..< 64}"]) (auto dest: bit_imp_le_length)
    have "card {i. bit (val AND (val - 1)) i} = card {i. bit val i} - 1" using k fin by simp
    moreover have "0 < card {i. bit val i}" using k(1) fin by (auto simp: card_gt_0_iff)
    ultimately show ?thesis using 1 False by (subst count_bits.simps) simp
  qed
qed

lemma words_of_one:
  assumes "CHR '' '' \<notin> set s" "s \<noteq> []"
  shows "g_strsplit s '' '' 8 = [s]"
proof -
  have "break_at '' '' s = None" using assms(1) by (induction s) auto
  then show ?thesis using assms(2) by (simp add: g_strsplit_def numeral_eq_Suc)
qed

text \<open>The switch capabilities. For a text of one hexadecimal word the mask is that word and the number
  returned is the number of its bits, the loop ending for every word; for a text of two or more
  words (up to the eight the limit allows) the function stores outside the one-word mask of its callers.\<close>

theorem input_bitmask_words:
  assumes "CHR '' '' \<notin> set s" "s \<noteq> []"
  shows "input_str_to_bitmask s (replicate (NBITS SW_MAX) x) 8 = Some (card {i. bit (strtoul16 s) i}, [strtoul16 s]) \<and>
    input_str_to_bitmask (s @ '' '' @ t) (replicate (NBITS SW_MAX) x) 8 = None"
proof -
  have n: "NBITS SW_MAX = 1" by (simp add: NBITS_def SW_MAX_def)
  have one: "input_str_to_bitmask s (replicate (NBITS SW_MAX) x) 8 = Some (card {i. bit (strtoul16 s) i}, [strtoul16 s])"
    by (simp add: input_str_to_bitmask_def words_of_one [OF assms] n count_bits_card)
  have "break_at '' '' (s @ CHR '' '' # t) = Some (s, t)" using assms(1) by (induction s) auto
  then have "g_strsplit (s @ '' '' @ t) '' '' 8 = s # gsplit '' '' 7 t"
    by (simp add: g_strsplit_def numeral_eq_Suc)
  moreover obtain v vs where "gsplit '' '' 7 t = v # vs" using gsplit_nonempty [of 7 "'' ''" t] by (cases "gsplit '' '' 7 t") auto
  ultimately have "2 \<le> length (rev (g_strsplit (s @ '' '' @ t) '' '' 8))" by simp
  then obtain y z ys where "rev (g_strsplit (s @ '' '' @ t) '' '' 8) = y # z # ys"
    by (metis One_nat_def Suc_1 Suc_le_length_iff)
  then have "input_str_to_bitmask (s @ '' '' @ t) (replicate (NBITS SW_MAX) x) 8 = None"
    by (simp add: input_str_to_bitmask_def n)
  then show ?thesis using one by simp
qed

lemma input_bitmask_words_witness:
  "input_str_to_bitmask ''800'' [0] 8 = Some (1, [0x800]) \<and> input_str_to_bitmask ''1 800'' [0] 8 = None"
proof -
  have n: "replicate (NBITS SW_MAX) x = [x]" for x :: u64 by (simp add: NBITS_def SW_MAX_def)
  have v: "strtoul16 ''800'' = 0x800" by code_simp
  have "input_str_to_bitmask ''800'' [0] 8 = Some (card {i. bit (strtoul16 ''800'') i}, [strtoul16 ''800''])"
    "input_str_to_bitmask (''1'' @ '' '' @ ''800'') [0] 8 = None"
    using input_bitmask_words [of "''800''" 0] input_bitmask_words [of "''1''" 0 "''800''"] by (simp_all add: n)
  moreover have "count_bits 0x800 0 = 1" by code_simp
  then have "card {i. bit (0x800 :: u64) i} = 1" using count_bits_card [of "0x800" 0] by simp
  ultimately show ?thesis using v by simp
qed

section \<open>The proximity switch\<close>

text \<open>Every round of polling leaks a descriptor. When a claim started the watch (a reading was passed
  on) and the release stopped it again, the event device opened in between is still open: the
  channel that owns it is never released, neither then nor when the driver is closed.\<close>

theorem input_proximity_leaks:
  assumes "fd_laws (ie_os env) fds" "ip_watcher_id d = 0"
    "input_proximity_set_polling env d True w = (d1, [r], w1)"
    "input_proximity_set_polling env d1 False w1 = (d2, rs, w2)" "source_ids (ie_os env)"
  shows "\<exists>fd. fd \<notin> fds w \<and> fds (drv_close (input_proximity env) d2 w2) = insert fd (fds w) \<and> ip_watcher_id d2 = 0"
proof -
  obtain path where p: "dev_file (ip_dev d) = Some path" "path \<noteq> []"
    using assms(2,3) by (auto simp: input_proximity_set_polling_def watch_input_proximity_def split: option.splits if_splits)
  obtain fd wa where o: "os_open (ie_os env) path [O_RDONLY, O_NONBLOCK] w = (fd, wa)" by fastforce
  obtain q bits wb where e: "os_evio_switches (ie_os env) fd wa = ((q, bits), wb)" by (metis prod.collapse)
  obtain i wc where a: "os_io_add_watch (ie_os env) fd wb = (i, wc)" by fastforce
  have ok: "\<not> fd < 0" "w1 = wc" "ip_watcher_id d1 = i"
    using assms(2,3) p o e a
    by (auto simp: input_proximity_set_polling_def watch_input_proximity_def Let_def split: if_splits)
  have i: "0 < i" using assms(5) a by (metis fst_conv source_ids_def)
  have "fds wa = insert fd (fds w)" "fd \<notin> fds w" using fd_laws_open(2) [OF assms(1) o ok(1)] by simp_all
  moreover have "fds wb = fds wa" "fds wc = fds wb"
    using fd_lawsD(8) [OF assms(1), of fd wa] fd_lawsD(12) [OF assms(1), of fd wb] e a by simp_all
  moreover have "w2 = os_source_remove (ie_os env) i w1" "ip_watcher_id d2 = 0"
    using assms(4) ok(3) i by (auto simp: input_proximity_set_polling_def Let_def split: if_splits)
  ultimately show ?thesis
    using fd_lawsD(13) [OF assms(1), of i w1] ok(2) by (auto simp: input_proximity_def)
qed

text \<open>A switch that is on, over a table of open descriptors.\<close>

definition switch_os :: "table_world os" where
  "switch_os = table_os\<lparr>os_evio_switches := (\<lambda>fd w. ((0, 0x800), w))\<rparr>"

lemma switch_os_laws: "fd_laws switch_os table_fds" "source_ids switch_os"
proof -
  have same: "os_open switch_os = os_open table_os" "os_close switch_os = os_close table_os"
    "os_write switch_os = os_write table_os" "os_read switch_os = os_read table_os"
    "os_i2c_rdwr switch_os = os_i2c_rdwr table_os" "os_uinput switch_os = os_uinput table_os"
    "os_write_events switch_os = os_write_events table_os" "os_evio_name switch_os = os_evio_name table_os"
    "os_read_event switch_os = os_read_event table_os" "os_usleep switch_os = os_usleep table_os"
    "os_timeout_add switch_os = os_timeout_add table_os" "os_io_add_watch switch_os = os_io_add_watch table_os"
    "os_source_remove switch_os = os_source_remove table_os"
    "os_evio_switches switch_os = (\<lambda>fd w. ((0, 0x800), w))"
    by (simp_all add: switch_os_def)
  show "fd_laws switch_os table_fds" using table_os_fds unfolding fd_laws_def same by simp
  show "source_ids switch_os" using table_os_source_ids unfolding source_ids_def same .
qed

definition switch_world :: table_world where
  "switch_world = \<lparr>tw_open = [], tw_next = 3, tw_nodes = [(''/dev/input/event7'', [])], tw_i2c = [], tw_log = []\<rparr>"

definition switch_drv :: InputProximity where
  "switch_drv = \<lparr>ip_dev = (iio_dev (\<lambda>_. None))\<lparr>dev_file := Some ''/dev/input/event7''\<rparr>, ip_native_path = None,
     ip_last_switch_state = False, ip_channel = None, ip_event = replicate 24 0, ip_offset = 0, ip_watcher_id = 0\<rparr>"

lemma input_proximity_leaks_witness:
  "\<exists>d1 r w1 d2 w2. input_proximity_set_polling (null_env switch_os) switch_drv True switch_world = (d1, [r], w1) \<and>
     input_proximity_set_polling (null_env switch_os) d1 False w1 = (d2, [], w2) \<and>
     (\<exists>fd. table_fds w2 = insert fd (table_fds switch_world) \<and> fd \<notin> table_fds switch_world)"
proof -
  let ?env = "null_env switch_os"
  have os: "ie_os ?env = switch_os" by (simp add: null_env_def)
  have w: "ip_watcher_id switch_drv = 0" by (simp add: switch_drv_def)
  obtain d1 rs w1 where r1: "input_proximity_set_polling ?env switch_drv True switch_world = (d1, rs, w1)"
    by (metis prod.collapse)
  have l: "length (fst (snd (input_proximity_set_polling ?env switch_drv True switch_world))) = 1" by code_simp
  have "ip_watcher_id (fst (input_proximity_set_polling ?env switch_drv True switch_world)) = 1" by code_simp
  then have i: "ip_watcher_id d1 = 1" using r1 by simp
  obtain r where rs: "rs = [r]" using l r1 by (auto simp: length_Suc_conv)
  obtain d2 rs2 w2 where r2: "input_proximity_set_polling ?env d1 False w1 = (d2, rs2, w2)" by (metis prod.collapse)
  have "rs2 = []" using r2 i by (simp add: input_proximity_set_polling_def)
  moreover have "\<exists>fd. fd \<notin> table_fds switch_world \<and>
      table_fds (drv_close (input_proximity ?env) d2 w2) = insert fd (table_fds switch_world) \<and> ip_watcher_id d2 = 0"
    by (rule input_proximity_leaks [OF _ w r1 [unfolded rs] r2]) (simp_all add: os switch_os_laws)
  ultimately show ?thesis using r1 r2 rs by (auto simp: input_proximity_def)
qed

end
