(* ===== verification/Driver_Table.thy ===== *)
theory Driver_Table
  imports MiniBook Timer_Drivers Iio_Poll_Facts Input_Facts
begin

text \<open>
  The daemon with its whole table of drivers, in the order of \<^verbatim>\<open>iio-sensor-proxy.c\<close> (without the ones
  compiled only with libssc). A device's private data is a pointer to one of twelve structs: the
  type \<open>priv\<close>; \<open>lift_driver\<close> makes a driver work on it.
\<close>

datatype priv = P_Mxc DrvData | P_BufAccel BufAccel | P_PollAccel PollAccel | P_InputAccel InputAccel
  | P_BufLight BufDrv | P_PollLight PollLight | P_Hwmon HwmonLight | P_FakeCompass FakeDrv
  | P_FakeLight FakeDrv | P_BufCompass BufDrv | P_PollProximity PollProximity | P_InputProximity InputProximity

definition lift_driver :: "('d \<Rightarrow> 'p) \<Rightarrow> ('p \<Rightarrow> 'd option) \<Rightarrow> ('d, 'w) SensorDriver \<Rightarrow> ('p, 'w) SensorDriver" where
  "lift_driver up prj drv = \<lparr>driver_name = driver_name drv, drv_type = drv_type drv,
     drv_discover = drv_discover drv,
     drv_open = (\<lambda>dev w. case drv_open drv dev w of (d, w) \<Rightarrow> (map_option up d, w)),
     drv_set_polling = map_option (\<lambda>f p b w. case prj p of None \<Rightarrow> (p, [], w)
       | Some d \<Rightarrow> (case f d b w of (d, rs, w) \<Rightarrow> (up d, rs, w))) (drv_set_polling drv),
     drv_close = (\<lambda>p w. case prj p of None \<Rightarrow> w | Some d \<Rightarrow> drv_close drv d w)\<rparr>"

definition drivers :: "'w iio_env \<Rightarrow> (priv, 'w) SensorDriver list" where
  "drivers env = [
     lift_driver P_Mxc (\<lambda>p. case p of P_Mxc d \<Rightarrow> Some d | _ \<Rightarrow> None) (mxc6655_accel (ie_os env)),
     lift_driver P_BufAccel (\<lambda>p. case p of P_BufAccel d \<Rightarrow> Some d | _ \<Rightarrow> None) (iio_buffer_accel env),
     lift_driver P_PollAccel (\<lambda>p. case p of P_PollAccel d \<Rightarrow> Some d | _ \<Rightarrow> None) (iio_poll_accel env),
     lift_driver P_InputAccel (\<lambda>p. case p of P_InputAccel d \<Rightarrow> Some d | _ \<Rightarrow> None) (input_accel env),
     lift_driver P_BufLight (\<lambda>p. case p of P_BufLight d \<Rightarrow> Some d | _ \<Rightarrow> None) (iio_buffer_light env),
     lift_driver P_PollLight (\<lambda>p. case p of P_PollLight d \<Rightarrow> Some d | _ \<Rightarrow> None) (iio_poll_light env),
     lift_driver P_Hwmon (\<lambda>p. case p of P_Hwmon d \<Rightarrow> Some d | _ \<Rightarrow> None) (hwmon_light env),
     lift_driver P_FakeCompass (\<lambda>p. case p of P_FakeCompass d \<Rightarrow> Some d | _ \<Rightarrow> None) (fake_compass env),
     lift_driver P_FakeLight (\<lambda>p. case p of P_FakeLight d \<Rightarrow> Some d | _ \<Rightarrow> None) (fake_light env),
     lift_driver P_BufCompass (\<lambda>p. case p of P_BufCompass d \<Rightarrow> Some d | _ \<Rightarrow> None) (iio_buffer_compass env),
     lift_driver P_PollProximity (\<lambda>p. case p of P_PollProximity d \<Rightarrow> Some d | _ \<Rightarrow> None) (iio_poll_proximity env),
     lift_driver P_InputProximity (\<lambda>p. case p of P_InputProximity d \<Rightarrow> Some d | _ \<Rightarrow> None) (input_proximity env)]"

definition priv_good :: "priv \<Rightarrow> bool" where
  "priv_good p = (case p of P_Mxc d \<Rightarrow> mxc_good d | _ \<Rightarrow> True)"

section \<open>Every driver keeps the contract\<close>

lemma lift_contract:
  assumes "sensor_driver drv g" "\<And>d. prj (up d) = Some d" "\<And>d. good (up d) = g d"
    "\<And>p d. prj p = Some d \<Longrightarrow> p = up d"
  shows "sensor_driver (lift_driver up prj drv) good"
proof
  show "good p" if "drv_open (lift_driver up prj drv) dev w = (Some p, w')" for dev w p w'
    using that sensor_driver.open_good [OF assms(1)] assms(3)
    by (auto simp: lift_driver_def split: prod.splits)
  show "good p'" "readings_of_type (drv_type (lift_driver up prj drv)) rs"
    if s: "drv_set_polling (lift_driver up prj drv) = Some f" "good p" "f p b w = (p', rs, w')" for f p b w p' rs w'
  proof -
    obtain h where h: "drv_set_polling drv = Some h" using s(1) by (auto simp: lift_driver_def)
    have "good p' \<and> readings_of_type (drv_type drv) rs"
    proof (cases "prj p")
      case None
      then show ?thesis using s h by (auto simp: lift_driver_def readings_of_type_def)
    next
      case (Some d)
      have gd: "g d" using s(2) assms(3) assms(4) [OF Some] by simp
      obtain d' where f: "h d b w = (d', rs, w')" "p' = up d'"
        using s(1,3) h Some by (auto simp: lift_driver_def split: prod.splits)
      show ?thesis
        using sensor_driver.polling_good [OF assms(1) h gd f(1)] sensor_driver.polling_typed [OF assms(1) h gd f(1)]
          assms(3) f(2) by simp
    qed
    then show "good p'" "readings_of_type (drv_type (lift_driver up prj drv)) rs" by (simp_all add: lift_driver_def)
  qed
qed

text \<open>Each driver passes readings of its own type only.\<close>

lemma typed_driver:
  assumes "\<And>d b w. readings_of_type (drv_type drv) (fst (snd (f d b w)))" "drv_set_polling drv = Some f"
  shows "sensor_driver drv (\<lambda>_. True)"
  using assms by unfold_locales (auto, metis fst_conv snd_conv)

lemma typed_Nil [simp]: "readings_of_type t []"
  by (simp add: readings_of_type_def)

lemma typed_one [simp]: "readings_of_type t [r] = (reading_type r = t)"
  by (simp add: readings_of_type_def)

lemma typed_prepare_output:
  assumes "\<And>data d w. readings_of_type t (snd (process data d w))"
  shows "readings_of_type t (fst (snd (prepare_output env process d w)))"
proof -
  have "readings_of_type t rs" if "process data d1 w1 = (d2, rs)" for data d1 w1 d2 rs
    using assms [of data d1 w1] that by simp
  then show ?thesis by (auto simp: prepare_output_def Let_def split: option.splits prod.splits)
qed

lemma typed_process_scan [simp]:
  "readings_of_type DRIVER_TYPE_ACCEL (snd (accel_process_scan env data d1 w))"
  "readings_of_type DRIVER_TYPE_LIGHT (snd (light_process_scan env data d w))"
  "readings_of_type DRIVER_TYPE_COMPASS (snd (compass_process_scan env data d w))"
  by (auto simp: accel_process_scan_def light_process_scan_def compass_process_scan_def Let_def
      split: scan_data.split option.split prod.split)

lemma typed_buffer_read [simp]:
  "readings_of_type DRIVER_TYPE_ACCEL (fst (snd (read_orientation env d1 w)))"
  "readings_of_type DRIVER_TYPE_LIGHT (fst (snd (read_light env d w)))"
  "readings_of_type DRIVER_TYPE_COMPASS (fst (snd (read_heading env d w)))"
  by (simp_all add: read_orientation_def accel_prepare_output_def read_light_def light_prepare_output_def
      read_heading_def compass_prepare_output_def typed_prepare_output)

lemma typed_timer_read [simp]:
  "readings_of_type DRIVER_TYPE_ACCEL (poll_orientation env d1 w)"
  "readings_of_type DRIVER_TYPE_ACCEL (fst (accelerometer_changed env d2 w))"
  "readings_of_type DRIVER_TYPE_LIGHT (poll_light_changed env d3 w)"
  "readings_of_type DRIVER_TYPE_LIGHT (hwmon_light_changed env d4 w)"
  "readings_of_type DRIVER_TYPE_LIGHT (fst (fake_light_changed env w))"
  "readings_of_type DRIVER_TYPE_COMPASS (fst (compass_changed env w))"
  "readings_of_type DRIVER_TYPE_PROXIMITY (snd (poll_proximity env d5 w))"
  "readings_of_type DRIVER_TYPE_PROXIMITY (fst (snd (watch_input_proximity env d6 w)))"
  by (auto simp: poll_orientation_def accelerometer_changed_def poll_light_changed_def hwmon_light_changed_def
      fake_light_changed_def compass_changed_def poll_proximity_def watch_input_proximity_def near_reading_def Let_def
      split: sum.split option.split prod.split)

lemma typed_contracts:
  "sensor_driver (iio_buffer_accel env) (\<lambda>_. True)" "sensor_driver (iio_poll_accel env) (\<lambda>_. True)"
  "sensor_driver (input_accel env) (\<lambda>_. True)" "sensor_driver (iio_buffer_light env) (\<lambda>_. True)"
  "sensor_driver (iio_poll_light env) (\<lambda>_. True)" "sensor_driver (hwmon_light env) (\<lambda>_. True)"
  "sensor_driver (fake_compass env) (\<lambda>_. True)" "sensor_driver (fake_light env) (\<lambda>_. True)"
  "sensor_driver (iio_buffer_compass env) (\<lambda>_. True)" "sensor_driver (iio_poll_proximity env) (\<lambda>_. True)"
  "sensor_driver (input_proximity env) (\<lambda>_. True)"
  by (rule typed_driver [rotated], simp add: driver_defs, simp add: driver_defs split_beta Let_def)+

lemma drivers_contract: "drv \<in> set (drivers env) \<Longrightarrow> sensor_driver drv priv_good"
  unfolding drivers_def
  by (auto intro!: lift_contract typed_contracts mxc.sensor_driver_axioms simp: priv_good_def split: priv.splits)

interpretation full: sensor_proxy "drivers env" priv_good for env
  by (rule sensor_proxy.intro) (rule drivers_contract)

section \<open>The daemon with every driver\<close>

text \<open>C2: in every state the daemon can reach with the whole table of drivers, through any interleaving of
  method calls, vanishing clients, udev events and readings, no assertion has failed and no NULL
  device was used; a sensor type has its driver, its device and its udev device together or none of
  them, the device is served by a driver of the table of that type; and each call received was
  either answered, exactly once, or waits for the first reading of its sensor.\<close>

theorem proxy_safe_all:
  assumes "proxy_reach bus (drivers env) priv_good m calls data w"
  shows "\<not> aborted data \<and> connected data \<and>
    (drivers_of data t = None \<longleftrightarrow> devices_of data t = None) \<and>
    (drivers_of data t = None \<longleftrightarrow> udev_devices_of data t = None) \<and>
    (\<forall>sd. devices_of data t = Some sd \<longrightarrow> drivers_of data t = Some (sd_drv sd) \<and>
      sd_drv sd \<in> set (drivers env) \<and> drv_type (sd_drv sd) = t \<and> priv_good (sd_priv sd)) \<and>
    mset (replies data) + pending data = mset calls"
proof -
  have r: "proxy_inv (drivers env) priv_good data" "accounted data = mset calls"
    using reach_ok [OF full.sensor_proxy_axioms assms] by simp_all
  show ?thesis
    using proxy_invD(1) [OF r(1), of t] proxy_invD(2,3) [OF r(1)] r(2)
    by (auto simp: type_inv_def accounted_def split: option.splits)
qed

section \<open>No source is left behind\<close>

lemma lift_timer:
  assumes "timer_driver drv f tid env" "\<And>d. prj (up d) = Some d" "\<And>p d. prj p = Some d \<Longrightarrow> p = up d"
  shows "\<exists>f tid. timer_driver (lift_driver up prj drv) f tid env"
proof (intro exI)
  let ?f = "\<lambda>p b w. case prj p of None \<Rightarrow> (p, [], w) | Some d \<Rightarrow> (case f d b w of (d, rs, w) \<Rightarrow> (up d, rs, w))"
  let ?tid = "\<lambda>p. case prj p of None \<Rightarrow> 0 | Some d \<Rightarrow> tid d"
  note laws = timer_driver.opened [OF assms(1)] timer_driver.same [OF assms(1)] timer_driver.start [OF assms(1)]
    timer_driver.stop [OF assms(1)] timer_driver.shut [OF assms(1)]
  show "timer_driver (lift_driver up prj drv) ?f ?tid env"
  proof
    show "drv_set_polling (lift_driver up prj drv) = Some ?f"
      using timer_driver.has_polling [OF assms(1)] by (simp add: lift_driver_def)
    show "?tid p = 0" if "drv_open (lift_driver up prj drv) dev w = (Some p, w')" for dev w p w'
      using that laws(1) assms(2) by (auto simp: lift_driver_def split: prod.splits)
    show "?f p b w = (p, [], w)" if "b = (?tid p \<noteq> 0)" for p b w
      using that laws(2) assms(3) by (cases "prj p") auto
    show "timer_started live w (?tid p') w'"
      if "source_laws env live" "?tid p = 0" "?f p True w = (p', rs, w')" for live p w p' rs w'
      using that laws(3) [OF that(1)] assms(2)
      by (cases "prj p") (auto simp: timer_started_def split: prod.splits)
    show "?tid p' = 0 \<and> rs = [] \<and> live w' = live w - {?tid p}"
      if "source_laws env live" "?tid p \<noteq> 0" "?f p False w = (p', rs, w')" for live p w p' rs w'
      using that laws(4) [OF that(1)] assms(2) by (cases "prj p") (auto split: prod.splits)
    show "live (drv_close (lift_driver up prj drv) p w) = live w" if "source_laws env live" for live p w
      using laws(5) [OF that] by (simp add: lift_driver_def split: option.splits)
  qed
qed

lemma table_timer:
  "drv \<in> set (tl (drivers env)) \<Longrightarrow> \<exists>f tid. timer_driver drv f tid env"
  unfolding drivers_def
  by (auto split: priv.splits intro!: lift_timer [OF poll_accel.timer_driver_axioms] lift_timer [OF poll_light.timer_driver_axioms]
      lift_timer [OF hwmon.timer_driver_axioms] lift_timer [OF poll_proximity.timer_driver_axioms]
      lift_timer [OF fake_light.timer_driver_axioms] lift_timer [OF fake_compass.timer_driver_axioms]
      lift_timer [OF buffer_accel.timer_driver_axioms] lift_timer [OF buffer_light.timer_driver_axioms]
      lift_timer [OF buffer_compass.timer_driver_axioms] lift_timer [OF input_accel.timer_driver_axioms]
      lift_timer [OF input_proximity.timer_driver_axioms])

text \<open>C24: whichever driver of the table but the MXC6655 one opens a device, and whatever sequence of
  requests to start and stop the daemon makes, closing the device passes no reading and leaves
  exactly the main-loop sources there were when it had been opened.\<close>

theorem table_timers_balanced:
  assumes "source_laws env live" "drv \<in> set (tl (drivers env))" "driver_open drv dev w = (Some sd, w0)"
    and "poll_requests bs (sd, w0) = (sd1, w1)"
  shows "fst (driver_close sd1 w1) = [] \<and> live (snd (driver_close sd1 w1)) = live w0"
proof -
  obtain f tid where "timer_driver drv f tid env" using table_timer [OF assms(2)] by blast
  from timer_driver.life_balance [OF this assms(1,3,4)] show ?thesis by simp
qed

section \<open>A machine with a fake light sensor\<close>

text \<open>The world is the list of the ids of the main loop's sources.\<close>

definition source_os :: "nat list os" where
  "source_os = \<lparr>
     os_open = (\<lambda>p f w. (3, w)), os_close = (\<lambda>fd w. w), os_write = (\<lambda>fd s w. (int (length s), w)),
     os_read = (\<lambda>fd n w. ((0, []), w)), os_i2c_rdwr = (\<lambda>fd ms w. ((- 1, []), w)),
     os_uinput = (\<lambda>fd r w. (0, w)), os_write_events = (\<lambda>fd es w. (0, w)),
     os_evio_name = (\<lambda>fd n w. ((- 1, []), w)), os_evio_switches = (\<lambda>fd w. ((0, 0x800), w)),
     os_read_event = (\<lambda>fd w. (None, w)), os_usleep = (\<lambda>n w. w), os_i2c_devices = (\<lambda>w. []),
     os_drm_connectors = (\<lambda>fd w. None), os_drm_connector = (\<lambda>fd n w. None),
     os_drm_property = (\<lambda>fd n w. None), os_timeout_add = (\<lambda>n w. (Suc (sum_list w), Suc (sum_list w) # w)),
     os_io_add_watch = (\<lambda>fd w. (Suc (sum_list w), Suc (sum_list w) # w)), os_source_remove = (\<lambda>n w. removeAll n w)\<rparr>"

definition fake_env :: "nat list iio_env" where
  "fake_env = (null_env source_os)\<lparr>ie_getenv := (\<lambda>v. if v = ''FAKE_LIGHT_SENSOR'' then Some ''1'' else None)\<rparr>"

definition power_button :: GUdevDevice where
  "power_button = \<lparr>sysfs_path = Some ''/sys/devices/LNXPWRBN:00/input/input0'', dev_name = ''input0'', dev_file = None,
     dev_subsystem = ''input'',
     property = (\<lambda>n. if n = ''NAME'' then Some (CHR 0x22 # ''Power Button'' @ [CHR 0x22]) else None),
     sysfs_attr = (\<lambda>n. None)\<rparr>"

lemma source_os_laws: "source_laws fake_env set"
proof -
  have "Suc (sum_list w) \<notin> set w" for w :: "nat list" using member_le_sum_list [of "Suc (sum_list w)" w] by auto
  then show ?thesis by (auto simp: source_laws_def fake_env_def null_env_def source_os_def)
qed

definition fake_light_driver :: "(priv, nat list) SensorDriver" where
  "fake_light_driver = drivers fake_env ! 8"

lemma fake_light_driver_simps:
  "fake_light_driver = lift_driver P_FakeLight (\<lambda>p. case p of P_FakeLight d \<Rightarrow> Some d | _ \<Rightarrow> None) (fake_light fake_env)"
  "fake_light_driver \<in> set (tl (drivers fake_env))"
  by (simp_all add: fake_light_driver_def drivers_def)

definition fake_device :: "(priv, nat list) SensorDevice" where
  "fake_device = \<lparr>sd_drv = fake_light_driver, sd_priv = P_FakeLight \<lparr>fk_timeout_id = 0\<rparr>\<rparr>"

lemma fake_device_open: "driver_open fake_light_driver power_button w = (Some fake_device, w)"
  by (simp add: fake_light_driver_simps fake_device_def driver_open_def lift_driver_def fake_light_def)

lemmas fake_eval = fake_device_def fake_light_driver_simps(1) driver_set_polling_def lift_driver_def fake_light_def
  fake_light_set_polling_def fake_light_changed_def fake_env_def null_env_def source_os_def

theorem table_timers_balanced_witness:
  "\<exists>sd. poll_requests [True, True, False, True] (fake_device, [7]) = (sd, [8, 7]) \<and>
    set (snd (driver_close sd [8, 7])) = {7}"
proof -
  obtain sd where p: "poll_requests [True, True, False, True] (fake_device, [7]) = (sd, [8, 7])"
    by (simp add: fake_eval)
  from table_timers_balanced [OF source_os_laws fake_light_driver_simps(2) fake_device_open p] p show ?thesis
    by auto
qed

subsection \<open>The daemon on it\<close>

lemmas discover_defs = iio_buffer_accel_discover_def iio_poll_accel_discover_def input_accel_discover_def
  iio_buffer_light_discover_def iio_poll_light_discover_def hwmon_light_discover_def fake_compass_discover_def
  fake_light_discover_def fake_discover_def iio_buffer_compass_discover_def iio_poll_proximity_discover_def
  input_proximity_discover_def input_device_is_switch_def mxc6655_discover_def drv_check_udev_sensor_type_def

lemma power_button_path: "\<not> strstr_found ''/sys/devices/LNXPWRBN:00/input/input0'' ACPI_MATCH_ID"
  by code_simp

lemma power_button_discover:
  "map (\<lambda>drv. (drv_type drv, drv_discover drv power_button w)) (drivers fake_env) =
     [(DRIVER_TYPE_ACCEL, False, w), (DRIVER_TYPE_ACCEL, False, w), (DRIVER_TYPE_ACCEL, False, w), (DRIVER_TYPE_ACCEL, False, w),
      (DRIVER_TYPE_LIGHT, False, w), (DRIVER_TYPE_LIGHT, False, w), (DRIVER_TYPE_LIGHT, False, w),
      (DRIVER_TYPE_COMPASS, False, w), (DRIVER_TYPE_LIGHT, True, w), (DRIVER_TYPE_COMPASS, False, w),
      (DRIVER_TYPE_PROXIMITY, False, w), (DRIVER_TYPE_PROXIMITY, False, w)]"
  by (simp add: drivers_def lift_driver_def driver_defs mxc6655_accel_def discover_defs power_button_def fake_env_def
      null_env_def power_button_path)

definition desk_devices :: "string \<Rightarrow> GUdevDevice list" where
  "desk_devices subsystem = (if subsystem = ''input'' then [power_button] else [])"

lemma desk_find:
  assumes "drivers_of d = (\<lambda>_. None)" "udev_devices_of d = (\<lambda>_. None)"
  shows "find_sensors (drivers fake_env) desk_devices d w = (True,
    d\<lparr>udev_devices_of := [DRIVER_TYPE_LIGHT \<mapsto> power_button], drivers_of := [DRIVER_TYPE_LIGHT \<mapsto> fake_light_driver]\<rparr>, w)"
proof -
  obtain x0 x1 x2 x3 x4 x5 x6 x7 x8 x9 x10 x11 where x: "drivers fake_env = [x0, x1, x2, x3, x4, x5, x6, x7, x8, x9, x10, x11]"
    by (simp add: drivers_def)
  have "fake_light_driver = x8" by (simp add: fake_light_driver_def x)
  then show ?thesis
    using power_button_discover [of w, unfolded x] assms
    by (simp add: find_sensors_def desk_devices_def x try_driver_def driver_discover_def driver_type_exists_def sensor_types_def)
qed

definition desk_start :: "(priv, nat list) SensorData \<times> nat list" where
  "desk_start = name_acquired_handler (drivers fake_env) desk_devices quadrant_libm
     (bus_acquired_handler (main_data True), [])"

lemma desk_running: "running (fst desk_start)"
proof -
  let ?d = "(bus_acquired_handler (main_data True) :: (priv, nat list) SensorData)
    \<lparr>udev_devices_of := [DRIVER_TYPE_LIGHT \<mapsto> power_button], drivers_of := [DRIVER_TYPE_LIGHT \<mapsto> fake_light_driver]\<rparr>"
  have f: "find_sensors (drivers fake_env) desk_devices (bus_acquired_handler (main_data True)) [] = (True, ?d, [])"
    using desk_find by (simp add: bus_acquired_handler_def main_data_def)
  obtain d where d: "fold (open_type quadrant_libm) sensor_types (?d, []) = (d, [])"
    and d': "any_sensors_left d" "running d" "connected d"
    by (simp add: sensor_types_def open_type_def fake_device_open any_sensors_left_def driver_type_exists_def
        bus_acquired_handler_def main_data_def Let_def)
  let ?e = "send_dbus_event PROP_ALL_COMPASS (send_dbus_event PROP_ALL d)"
  note c1 = send_dbus_event_core(1) [of PROP_ALL d]
  note c2 = send_dbus_event_core(1) [of PROP_ALL_COMPASS "send_dbus_event PROP_ALL d"]
  have "core ?e = core d" using c1 c2 core_eqD(2) [OF c1] d'(3) by simp
  from core_eqD [OF this] have "running ?e" using d' by simp
  then show ?thesis by (simp add: desk_start_def name_acquired_handler_def f d d'(1))
qed

definition desk_claim :: "(priv, nat list) SensorData \<times> nat list" where
  "desk_claim = handle_method_call open_bus quadrant_libm '':1.7'' ''ClaimLight'' 42 desk_start"

lemma desk_reach: "proxy_reach open_bus (drivers fake_env) priv_good quadrant_libm [42] (fst desk_claim) (snd desk_claim)"
proof -
  have "proxy_reach open_bus (drivers fake_env) priv_good quadrant_libm [] (fst desk_start) (snd desk_start)"
    by (rule proxy_reach.start [of _ desk_devices _ True "[]"]) (use desk_running in \<open>simp_all add: desk_start_def\<close>)
  then show ?thesis
    by (rule proxy_reach.call [of _ _ _ _ _ _ _ "'':1.7''" "''ClaimLight''"]) (simp add: desk_claim_def)
qed

theorem proxy_safe_all_witness:
  "\<not> aborted (fst desk_claim) \<and> mset (replies (fst desk_claim)) + pending (fst desk_claim) = {#42#}"
  using proxy_safe_all [OF desk_reach] by simp

end
