(* ===== verification/Thd_Env.thy ===== *)
theory Thd_Env
  imports GStrings Fp
begin

text \<open>
  The thermal daemon's surroundings: the record \<open>thd_env\<close> holds the system calls it makes, over any world
  \<open>'w\<close>; \<^verbatim>\<open>csys_fs\<close> of \<^verbatim>\<open>thd_sys_fs.cpp\<close> is modelled on top of it, an object being its base path. Then the
  PID controller of \<^verbatim>\<open>thd_pid.cpp\<close>.
\<close>

text \<open>
  \<open>te_read p n\<close> opens a file, reads at most \<open>n\<close> bytes once and closes it: the result is minus errno when
  the file cannot be opened, else what \<^verbatim>\<open>read\<close> returns, with the bytes. \<open>te_stack\<close> is what lies behind those
  bytes in the buffer on the stack. \<open>te_word\<close> is the first word of a file as \<^verbatim>\<open>ifstream\<close> reads it, with the
  status. \<open>te_garbage\<close> is the value of a variable that was not initialised. \<open>te_write\<close> opens a file, writes once
  and closes it; the result is minus errno or the number of bytes written. \<open>te_mode\<close> is the mode of a file, zero
  if there is none, \<open>te_link\<close> the target of a symbolic link, \<open>te_dir\<close> the names in a directory. \<open>te_stream\<close> is the
  content of a file opened as an \<^verbatim>\<open>ifstream\<close>, \<open>te_ostream\<close> writes one through an \<^verbatim>\<open>ofstream\<close>; both are \<open>None\<close> when the
  stream is not good. \<open>te_rundir\<close> is \<^verbatim>\<open>TDRUNDIR\<close>, set by the build.
\<close>

record 'w thd_env =
  te_time :: "'w \<Rightarrow> int"
  te_exists :: "string \<Rightarrow> 'w \<Rightarrow> bool"
  te_read :: "string \<Rightarrow> nat \<Rightarrow> 'w \<Rightarrow> int \<times> string"
  te_stack :: "'w \<Rightarrow> string"
  te_word :: "string \<Rightarrow> 'w \<Rightarrow> int \<times> string"
  te_write :: "string \<Rightarrow> string \<Rightarrow> 'w \<Rightarrow> int \<times> 'w"
  te_garbage :: "string \<Rightarrow> 'w \<Rightarrow> int"
  te_sleep :: "nat \<Rightarrow> 'w \<Rightarrow> 'w"
  te_power_off :: "'w \<Rightarrow> 'w"
  te_mode :: "string \<Rightarrow> 'w \<Rightarrow> nat"
  te_link :: "string \<Rightarrow> 'w \<Rightarrow> string option"
  te_dir :: "string \<Rightarrow> 'w \<Rightarrow> string list option"
  te_stream :: "string \<Rightarrow> 'w \<Rightarrow> string option"
  te_ostream :: "string \<Rightarrow> string \<Rightarrow> 'w \<Rightarrow> 'w option"
  te_rundir :: string

definition THD_SUCCESS :: int where "THD_SUCCESS = 0"
definition THD_ERROR :: int where "THD_ERROR = - 1"

section \<open>thd\_sys\_fs.cpp\<close>

definition sysfs_exists :: "'w thd_env \<Rightarrow> string \<Rightarrow> string \<Rightarrow> 'w \<Rightarrow> bool" where
  "sysfs_exists env base path w = te_exists env (base @ path) w"

text \<open>\<^verbatim>\<open>csys_fs::read(path, int *)\<close>: the value stays what it was unless bytes were read. The text is converted
  without being terminated.\<close>

definition sysfs_read_int :: "'w thd_env \<Rightarrow> string \<Rightarrow> string \<Rightarrow> int \<Rightarrow> 'w \<Rightarrow> int \<times> int" where
  "sysfs_read_int env base path val w =
     (let (ret, bytes) = te_read env (base @ path) 16 w
      in (ret, if 0 < ret then atoi (bytes @ te_stack env w) else val))"

definition sysfs_read_str :: "'w thd_env \<Rightarrow> string \<Rightarrow> string \<Rightarrow> 'w \<Rightarrow> int \<times> string" where
  "sysfs_read_str env base path w = te_word env (base @ path) w"

definition sysfs_write_str :: "'w thd_env \<Rightarrow> string \<Rightarrow> string \<Rightarrow> string \<Rightarrow> 'w \<Rightarrow> int \<times> 'w" where
  "sysfs_write_str env base path buf w = te_write env (base @ path) buf w"

text \<open>\<^verbatim>\<open>csys_fs::write(path, unsigned)\<close>: a negative number is printed as an unsigned one.\<close>

definition sysfs_write_int :: "'w thd_env \<Rightarrow> string \<Rightarrow> string \<Rightarrow> int \<Rightarrow> 'w \<Rightarrow> int \<times> 'w" where
  "sysfs_write_int env base path data w = sysfs_write_str env base path (show_nat (nat (data mod 2 ^ 32))) w"

text \<open>\<^verbatim>\<open>ifs >> val\<close> for an \<^verbatim>\<open>int\<close>: at the end of the file the value stays, text that is no number gives zero, a
  number that is too big the nearest one.\<close>

definition istream_int :: "string \<Rightarrow> int \<Rightarrow> int" where
  "istream_int s val =
     (if dropWhile is_space s = [] then val
      else (case split_sign s of (neg, ds) \<Rightarrow>
        max (- (2 ^ 31)) (min (2 ^ 31 - 1) ((if neg then - 1 else 1) * int (digits_val 10 0 ds)))))"

definition ifstream_int :: "'w thd_env \<Rightarrow> string \<Rightarrow> int \<Rightarrow> int \<Rightarrow> 'w \<Rightarrow> int" where
  "ifstream_int env path val missing w =
     (case te_stream env path w of None \<Rightarrow> missing | Some s \<Rightarrow> istream_int s val)"

section \<open>thd\_pid.cpp\<close>

record cthd_pid =
  err_sum :: f64
  last_err :: f64
  last_time :: int
  target_temp :: u32
  kp :: f64
  ki :: f64
  kd :: f64

definition cthd_pid_new :: cthd_pid where
  "cthd_pid_new = \<lparr>err_sum = 0, last_err = 0, last_time = 0, target_temp = 0,
     kp = flit (5 / 10000), ki = flit (1 / 10000), kd = flit (1 / 10000)\<rparr>"

definition set_pid_param :: "f64 \<Rightarrow> f64 \<Rightarrow> f64 \<Rightarrow> cthd_pid \<Rightarrow> cthd_pid" where
  "set_pid_param p i d pid = pid\<lparr>kp := p, ki := i, kd := d\<rparr>"

definition set_target_temp :: "u32 \<Rightarrow> cthd_pid \<Rightarrow> cthd_pid" where
  "set_target_temp temp pid = pid\<lparr>target_temp := temp\<rparr>"

definition pid_reset :: "cthd_pid \<Rightarrow> cthd_pid" where
  "pid_reset pid = pid\<lparr>err_sum := 0, last_err := 0, last_time := 0\<rparr>"

text \<open>\<open>now\<close> is the time of the call. The first call after a reset sets the integral so that the output is
  \<open>initial_value\<close>.\<close>

definition pid_output :: "int \<Rightarrow> u32 \<Rightarrow> int \<Rightarrow> cthd_pid \<Rightarrow> int \<times> cthd_pid" where
  "pid_output now curr_temp initial_value pid =
     (let error = sint (curr_temp - target_temp pid);
          pid = (if last_time pid = 0
                 then pid\<lparr>last_time := now,
                        err_sum := (if \<not> feq (ki pid) 0
                          then (fint initial_value - kp pid * fint error) div ki pid else 0)\<rparr>
                 else pid);
          timeChange = now - last_time pid;
          pid = pid\<lparr>err_sum := err_sum pid + fint (error * timeChange)\<rparr>;
          d_err = (if timeChange \<noteq> 0 then (fint error - last_err pid) div fint timeChange else 0);
          output = kp pid * fint error + ki pid * err_sum pid + kd pid * d_err
      in (f2i output, pid\<lparr>last_err := fint error, last_time := now\<rparr>))"

end
