(* ===== verification/Thd_Meter.thy ===== *)
theory Thd_Meter
  imports Thd_Env
begin

text \<open>
  The power meter of \<^verbatim>\<open>thd_rapl_power_meter.cpp\<close>: energy counters of the RAPL domains, read at intervals,
  and the power computed from two readings. The domains are found once, at construction; the model
  starts from the list.
\<close>

datatype domain_type = DOMAIN_INVALID | PACKAGE | DRAM | CORE | UNCORE

record rapl_domain_t =
  dom_type :: domain_type
  dom_path :: string
  max_energy_range :: u64
  max_energy_range_threshold :: u64
  half_way :: bool
  energy_cumulative_counter :: u64
  energy_counter :: u64
  dom_power :: u32
  dom_max_power :: u32
  dom_min_power :: u32

record rapl_meter =
  rapl_present :: bool
  domain_list :: "rapl_domain_t list"
  meter_last_time :: int
  enable_measurement :: bool

text \<open>\<^verbatim>\<open>csys_fs::read(path, unsigned long *)\<close>.\<close>

definition atol :: "string \<Rightarrow> u64" where
  "atol s = (case split_sign s of (neg, ds) \<Rightarrow>
     of_int (max (- (2 ^ 63)) (min (2 ^ 63 - 1) ((if neg then - 1 else 1) * int (digits_val 10 0 ds)))))"

definition sysfs_read_ulong :: "'w thd_env \<Rightarrow> string \<Rightarrow> u64 \<Rightarrow> 'w \<Rightarrow> int \<times> u64" where
  "sysfs_read_ulong env path val w =
     (let (ret, bytes) = te_read env path 32 w
      in (ret, if 0 < ret then atol (bytes @ te_stack env w) else val))"

text \<open>One turn of the loop over the domains.\<close>

definition domain_range :: "'w thd_env \<Rightarrow> rapl_domain_t \<Rightarrow> 'w \<Rightarrow> rapl_domain_t" where
  "domain_range env d w =
     (if max_energy_range d \<noteq> 0 then d
      else (let (status, value) = sysfs_read_ulong env (dom_path d @ ''/max_energy_range_uj'')
                  (of_int (te_garbage env ''_value'' w)) w;
                range = (if 0 \<le> status then value div 1000 else max_energy_range d)
        in d\<lparr>max_energy_range := range, max_energy_range_threshold := range div 2\<rparr>))"

definition domain_counter :: "u64 \<Rightarrow> int \<Rightarrow> rapl_domain_t \<Rightarrow> rapl_domain_t" where
  "domain_counter energy_uj time_passed d =
     (let counter = energy_counter d;
          d = d\<lparr>energy_counter := energy_uj div 1000\<rparr>;
          (d, diff, counter) =
            (if half_way d \<and> energy_counter d < max_energy_range_threshold d
             then (d\<lparr>energy_cumulative_counter := energy_cumulative_counter d + max_energy_range d, half_way := False\<rparr>,
                   max_energy_range d - counter, 0)
             else if max_energy_range_threshold d < energy_counter d then (d\<lparr>half_way := True\<rparr>, 0, counter)
             else (d, 0, counter));
          d = (if counter \<noteq> 0
               then d\<lparr>dom_power := ucast ((energy_counter d - counter + diff) div of_int time_passed)\<rparr> else d);
          d = (if dom_max_power d < dom_power d then d\<lparr>dom_max_power := dom_power d\<rparr> else d)
      in if dom_min_power d = 0 then d\<lparr>dom_min_power := dom_power d\<rparr>
         else if dom_power d < dom_min_power d then d\<lparr>dom_min_power := dom_power d\<rparr> else d)"

definition domain_update :: "'w thd_env \<Rightarrow> int \<Rightarrow> 'w \<Rightarrow> rapl_domain_t \<Rightarrow> rapl_domain_t" where
  "domain_update env time_passed w d =
     (let d = domain_range env d w;
          (status, energy_uj) = sysfs_read_ulong env (dom_path d @ ''/energy_uj'')
            (of_int (te_garbage env ''energy_uj'' w)) w
      in if 0 \<le> status then domain_counter energy_uj time_passed d else d)"

definition rapl_energy_loop :: "'w thd_env \<Rightarrow> rapl_meter \<Rightarrow> 'w \<Rightarrow> bool \<times> rapl_meter" where
  "rapl_energy_loop env m w =
     (if \<not> enable_measurement m then (False, m)
      else (let curr_time = te_time env w
        in if curr_time - meter_last_time m \<le> 0 then (True, m)
           else (True, m\<lparr>domain_list := map (domain_update env (curr_time - meter_last_time m) w) (domain_list m),
                         meter_last_time := curr_time\<rparr>)))"

definition rapl_start_measure_power :: "rapl_meter \<Rightarrow> rapl_meter" where
  "rapl_start_measure_power m = m\<lparr>enable_measurement := True\<rparr>"

definition find_domain :: "domain_type \<Rightarrow> rapl_meter \<Rightarrow> rapl_domain_t option" where
  "find_domain t m = List.find (\<lambda>d. dom_type d = t) (domain_list m)"

definition rapl_action_get_power :: "'w thd_env \<Rightarrow> domain_type \<Rightarrow> rapl_meter \<Rightarrow> 'w \<Rightarrow> u32 \<times> rapl_meter \<times> 'w" where
  "rapl_action_get_power env t m w =
     (if \<not> rapl_present m then (0, m, w)
      else (case find_domain t m of None \<Rightarrow> (0, m, w)
        | Some d \<Rightarrow>
            (let value = dom_power d * 1000
             in if value \<noteq> 0 then (value, m, w)
                else (let m = snd (rapl_energy_loop env m w);
                          w = te_sleep env 1 w;
                          m = snd (rapl_energy_loop env m w)
                  in (case find_domain t m of None \<Rightarrow> 0 | Some d \<Rightarrow> dom_power d * 1000, m, w)))))"

definition rapl_action_get_energy :: "'w thd_env \<Rightarrow> domain_type \<Rightarrow> rapl_meter \<Rightarrow> 'w \<Rightarrow> u64 \<times> rapl_meter" where
  "rapl_action_get_energy env t m w =
     (let energy = (\<lambda>d. (energy_counter d + energy_cumulative_counter d) * 1000)
      in case find_domain t m of None \<Rightarrow> (0, m)
         | Some d \<Rightarrow> if energy d \<noteq> 0 then (energy d, m)
             else (let m = snd (rapl_energy_loop env m w)
               in (case find_domain t m of None \<Rightarrow> 0 | Some d \<Rightarrow> energy d, m)))"

definition rapl_action_get_last_power :: "domain_type \<Rightarrow> rapl_meter \<Rightarrow> u32" where
  "rapl_action_get_last_power t m =
     (if \<not> rapl_present m then 0
      else (case find_domain t m of None \<Rightarrow> 0 | Some d \<Rightarrow> dom_power d * 1000))"

definition rapl_measure_power :: "'w thd_env \<Rightarrow> rapl_meter \<Rightarrow> 'w \<Rightarrow> rapl_meter" where
  "rapl_measure_power env m w = (if rapl_present m \<and> enable_measurement m then snd (rapl_energy_loop env m w) else m)"

end
