(* ===== verification/Thd_Mem.thy ===== *)
theory Thd_Mem
  imports Thd_Env
begin

text \<open>
  A system for the thermal daemon that computes: files and directories in memory and a clock. The
  concrete runs of the daemon use it.
\<close>

record mem_world =
  mw_files :: "string \<Rightarrow> string option"
  mw_dirs :: "string \<Rightarrow> string list option"
  mw_time :: int
  mw_offs :: nat

definition mem_write :: "string \<Rightarrow> string \<Rightarrow> mem_world \<Rightarrow> int \<times> mem_world" where
  "mem_write p s w = (if mw_files w p = None then (- 2, w)
     else (int (length s), w\<lparr>mw_files := (mw_files w)(p \<mapsto> s)\<rparr>))"

definition first_word :: "string \<Rightarrow> string" where
  "first_word s = takeWhile (\<lambda>c. \<not> is_space c) (dropWhile is_space s)"

definition mem_env :: "mem_world thd_env" where
  "mem_env = \<lparr>te_time = mw_time, te_exists = (\<lambda>p w. mw_files w p \<noteq> None),
     te_read = (\<lambda>p n w. case mw_files w p of None \<Rightarrow> (- 2, []) | Some s \<Rightarrow> (int (length (take n s)), take n s)),
     te_stack = (\<lambda>w. [CHR 0x00]),
     te_word = (\<lambda>p w. case mw_files w p of None \<Rightarrow> (- 22, []) | Some s \<Rightarrow> (0, first_word s)),
     te_write = mem_write, te_garbage = (\<lambda>x w. 0), te_sleep = (\<lambda>n w. w\<lparr>mw_time := mw_time w + int n\<rparr>),
     te_power_off = (\<lambda>w. w\<lparr>mw_offs := mw_offs w + 1\<rparr>),
     te_mode = (\<lambda>p w. if mw_files w p = None then 0 else 420), te_link = (\<lambda>p w. None), te_dir = (\<lambda>p w. mw_dirs w p),
     te_stream = (\<lambda>p w. mw_files w p), te_ostream = (\<lambda>p s w. Some (w\<lparr>mw_files := (mw_files w)(p \<mapsto> s)\<rparr>)),
     te_rundir = ''/run/thermald''\<rparr>"

definition empty_world :: mem_world where
  "empty_world = \<lparr>mw_files = (\<lambda>_. None), mw_dirs = (\<lambda>_. None), mw_time = 0, mw_offs = 0\<rparr>"

end
