(* ===== verification/Thd_Meter_Facts.thy ===== *)
theory Thd_Meter_Facts
  imports Thd_Meter Thd_Mem
begin

text \<open>
  The power meter against the energy it measures. The hardware shows the energy \<open>E\<close> it has counted, in
  microjoules, modulo some \<open>W\<close>; \<open>M\<close> is the range it announces (\<^verbatim>\<open>max_energy_range_uj\<close>, at most \<open>W\<close>). The daemon counts
  in units of 1000 microjoules and takes \<open>M div 1000\<close> of them for a round of the counter.
  Power is not computed at a reading where the counter wrapped.
\<close>

definition meter_rel :: "nat \<Rightarrow> nat \<Rightarrow> nat \<Rightarrow> rapl_domain_t \<Rightarrow> bool" where
  "meter_rel M W E d \<longleftrightarrow> max_energy_range d = of_nat (M div 1000) \<and>
     max_energy_range_threshold d = of_nat (M div 1000 div 2) \<and>
     energy_counter d = of_nat (E mod W div 1000) \<and>
     energy_cumulative_counter d = of_nat (E div W * (M div 1000)) \<and>
     (E mod W div 1000 < M div 1000 div 2 \<longrightarrow> \<not> half_way d) \<and> (M div 1000 div 2 < E mod W div 1000 \<longrightarrow> half_way d)"

lemma round_step:
  fixes E x W :: nat
  assumes "0 < W" "x < W"
  shows "(E + x) mod W = (if E mod W + x < W then E mod W + x else E mod W + x - W)"
    "(E + x) div W = (if E mod W + x < W then E div W else E div W + 1)"
proof -
  have r: "E mod W < W" using assms by simp
  have E: "E + x = (E mod W + x) + E div W * W" by simp
  have "(E mod W + x) mod W = (if E mod W + x < W then E mod W + x else E mod W + x - W)"
  proof (cases "E mod W + x < W")
    case False
    then have "(E mod W + x) mod W = (E mod W + x - W) mod W" by (simp add: le_mod_geq)
    also have "\<dots> = E mod W + x - W" using r assms by (intro mod_less) linarith
    finally show ?thesis using False by simp
  qed simp
  moreover have "(E + x) mod W = (E mod W + x) mod W" by (simp add: mod_add_left_eq)
  ultimately show "(E + x) mod W = (if E mod W + x < W then E mod W + x else E mod W + x - W)" by simp
  have "(E mod W + x) div W = (if E mod W + x < W then 0 else 1)"
  proof (cases "E mod W + x < W")
    case False
    then have "(E mod W + x) div W = Suc ((E mod W + x - W) div W)" using assms(1) by (simp add: le_div_geq)
    moreover have "(E mod W + x - W) div W = 0" using r assms by (intro div_less) linarith
    ultimately show ?thesis using False by simp
  qed simp
  moreover have "(E + x) div W = (E mod W + x) div W + E div W"
  proof -
    have "(E mod W + x + E div W * W) div W = E div W + (E mod W + x) div W" using assms(1) by (rule div_mult_self1 [OF less_imp_neq [symmetric]])
    then show ?thesis by (subst E) simp
  qed
  ultimately show "(E + x) div W = (if E mod W + x < W then E div W else E div W + 1)" by simp
qed

lemma of_nat_less_u64: "m < 2 ^ 64 \<Longrightarrow> n < 2 ^ 64 \<Longrightarrow> (of_nat m :: u64) < of_nat n \<longleftrightarrow> m < n"
  by (simp add: word_less_nat_alt unat_of_nat take_bit_nat_eq_self)

lemma of_nat_div_u64: "m < 2 ^ 64 \<Longrightarrow> n < 2 ^ 64 \<Longrightarrow> (of_nat m :: u64) div of_nat n = of_nat (m div n)"
  by (rule word_unat_eq_iff [THEN iffD2])
     (simp add: unat_div unat_of_nat take_bit_nat_eq_self order_le_less_trans [OF div_le_dividend])

text \<open>The fields a reading sets.\<close>

lemma domain_counter_fields:
  "max_energy_range (domain_counter e t d) = max_energy_range d"
  "max_energy_range_threshold (domain_counter e t d) = max_energy_range_threshold d"
  "energy_counter (domain_counter e t d) = e div 1000"
  "energy_cumulative_counter (domain_counter e t d) = energy_cumulative_counter d +
     (if half_way d \<and> e div 1000 < max_energy_range_threshold d then max_energy_range d else 0)"
  "half_way (domain_counter e t d) \<longleftrightarrow> \<not> (half_way d \<and> e div 1000 < max_energy_range_threshold d) \<and>
     (max_energy_range_threshold d < e div 1000 \<or> half_way d)"
  "dom_path (domain_counter e t d) = dom_path d"
  by (auto simp: domain_counter_def Let_def)

lemma meter_rel_step:
  assumes rel: "meter_rel M W E d" and W: "M \<le> W" "W < 2 ^ 64" and step: "2 * x + 2000 \<le> M"
  shows "meter_rel M W (E + x) (domain_counter (of_nat ((E + x) mod W)) t d)"
proof -
  define y where "y = E mod W"
  define z where "z = (E + x) mod W"
  define T where "T = M div 1000 div 2"
  have W0: "0 < W" "x < W" using step W(1) by linarith+
  have yW: "y < W" and zW: "z < W" using W0 by (simp_all add: y_def z_def)
  have zeq: "z = (if y + x < W then y + x else y + x - W)"
    and q: "(E + x) div W = (if y + x < W then E div W else E div W + 1)"
    using round_step [OF W0, of E] by (simp_all add: y_def z_def)
  have small: "z < 2 ^ 64" "z div 1000 < 2 ^ 64" "T < 2 ^ 64"
    using zW W order_le_less_trans [OF div_le_dividend [of z 1000]] by (simp_all add: T_def)
  have read: "(of_nat z :: u64) div 1000 = of_nat (z div 1000)" using of_nat_div_u64 [of z 1000] small by simp
  have less: "((of_nat (z div 1000) :: u64) < of_nat T) = (z div 1000 < T)" "((of_nat T :: u64) < of_nat (z div 1000)) = (T < z div 1000)"
    using small by (simp_all only: of_nat_less_u64)
  have d: "max_energy_range d = of_nat (M div 1000)" "max_energy_range_threshold d = of_nat T"
    "energy_cumulative_counter d = of_nat (E div W * (M div 1000))"
    "y div 1000 < T \<longrightarrow> \<not> half_way d" "T < y div 1000 \<longrightarrow> half_way d"
    using rel by (auto simp: meter_rel_def y_def T_def)
  have wrap: "half_way d \<and> z div 1000 < T \<longleftrightarrow> \<not> y + x < W"
  proof (cases "y + x < W")
    case True
    then have "y div 1000 \<le> z div 1000" using zeq by (intro div_le_mono) simp
    then show ?thesis using True d(4) by auto
  next
    case False
    then have "z = y + x - W" using zeq by simp
    then have zx: "z \<le> x" and My: "M \<le> y + x" using yW W(1) False by linarith+
    have "z div 1000 < T" using zx step unfolding T_def by linarith
    moreover have "T < y div 1000" using My step unfolding T_def by linarith
    ultimately show ?thesis using False d(5) by simp
  qed
  have cum: "energy_cumulative_counter d + (if half_way d \<and> z div 1000 < T then max_energy_range d else 0) =
      of_nat ((E + x) div W * (M div 1000))"
    unfolding q wrap d(1,3) by (simp add: algebra_simps)
  let ?d = "domain_counter (of_nat z) t d"
  have f: "max_energy_range ?d = of_nat (M div 1000)" "max_energy_range_threshold ?d = of_nat T" "energy_counter ?d = of_nat (z div 1000)"
    "energy_cumulative_counter ?d = energy_cumulative_counter d + (if half_way d \<and> z div 1000 < T then max_energy_range d else 0)"
    "half_way ?d \<longleftrightarrow> \<not> (half_way d \<and> z div 1000 < T) \<and> (T < z div 1000 \<or> half_way d)"
    unfolding domain_counter_fields read d(1,2) less by (rule refl)+
  then show ?thesis using cum unfolding meter_rel_def z_def [symmetric] T_def [symmetric] by (simp only: f) auto
qed

text \<open>The first reading of a domain as the constructor leaves it.\<close>

definition fresh_domain :: "rapl_domain_t \<Rightarrow> bool" where
  "fresh_domain d \<longleftrightarrow> max_energy_range d = 0 \<and> energy_cumulative_counter d = 0 \<and> \<not> half_way d"

lemma meter_rel_first:
  assumes "max_energy_range d = of_nat (M div 1000)" "max_energy_range_threshold d = of_nat (M div 1000 div 2)"
    "energy_cumulative_counter d = 0" "\<not> half_way d" "E < W" "M \<le> W" "W < 2 ^ 64"
  shows "meter_rel M W E (domain_counter (of_nat (E mod W)) t d)"
proof -
  have s: "E div 1000 < 2 ^ 64" "M div 1000 div 2 < 2 ^ 64" "E < 2 ^ 64"
    using assms(5-7) order_le_less_trans [OF div_le_dividend [of E 1000]] by simp_all
  have read: "(of_nat E :: u64) div 1000 = of_nat (E div 1000)" using of_nat_div_u64 [of E 1000] s(3) by simp
  have less: "((of_nat (M div 1000 div 2) :: u64) < of_nat (E div 1000)) = (M div 1000 div 2 < E div 1000)"
    using s by (simp only: of_nat_less_u64)
  have EW: "E mod W = E" "E div W = 0" using assms(5) by simp_all
  show ?thesis unfolding meter_rel_def domain_counter_fields EW assms(1-3) read less using assms(4) by auto
qed

text \<open>A run of the loop over the domains, in the worlds in which it is called.\<close>

fun energy_loops :: "'w thd_env \<Rightarrow> 'w list \<Rightarrow> rapl_meter \<Rightarrow> rapl_meter" where
  "energy_loops env [] m = m"
| "energy_loops env (w # ws) m = energy_loops env ws (snd (rapl_energy_loop env m w))"

text \<open>The two files of a domain: the counter, and the range it is announced with. The loop is called in later and
  later seconds, and between two calls less than half the range passes (a thousandth of a joule less, for rounding).\<close>

definition counts :: "'w thd_env \<Rightarrow> string \<Rightarrow> nat \<Rightarrow> nat \<Rightarrow> ('w \<Rightarrow> nat) \<Rightarrow> 'w \<Rightarrow> bool" where
  "counts env path M W E w \<longleftrightarrow>
     (\<forall>g. 0 \<le> fst (sysfs_read_ulong env (path @ ''/energy_uj'') g w) \<and>
        snd (sysfs_read_ulong env (path @ ''/energy_uj'') g w) = of_nat (E w mod W)) \<and>
     (\<forall>g. 0 \<le> fst (sysfs_read_ulong env (path @ ''/max_energy_range_uj'') g w) \<and>
        snd (sysfs_read_ulong env (path @ ''/max_energy_range_uj'') g w) = of_nat M)"

fun paced :: "'w thd_env \<Rightarrow> nat \<Rightarrow> ('w \<Rightarrow> nat) \<Rightarrow> int \<Rightarrow> nat \<Rightarrow> 'w list \<Rightarrow> bool" where
  "paced env M E t e [] \<longleftrightarrow> True"
| "paced env M E t e (w # ws) \<longleftrightarrow> t < te_time env w \<and> e \<le> E w \<and> 2 * (E w - e) + 2000 \<le> M \<and> paced env M E (te_time env w) (E w) ws"

lemma energy_loop_step:
  assumes "enable_measurement m" "meter_last_time m < te_time env w"
  shows "snd (rapl_energy_loop env m w) = m\<lparr>domain_list := map (domain_update env (te_time env w - meter_last_time m) w) (domain_list m),
    meter_last_time := te_time env w\<rparr>"
  using assms by (simp add: rapl_energy_loop_def Let_def)

lemma domain_update_counts:
  assumes "counts env (dom_path d) M W E w" "max_energy_range d \<noteq> 0"
  shows "domain_update env t w d = domain_counter (of_nat (E w mod W)) t d"
  using assms by (simp add: domain_update_def domain_range_def counts_def Let_def split: prod.splits) (metis fst_conv snd_conv)

lemma domain_update_first:
  assumes "counts env (dom_path d) M W E w" "fresh_domain d" "M < 2 ^ 64" "E w < W" "M \<le> W" "W < 2 ^ 64"
  shows "meter_rel M W (E w) (domain_update env t w d) \<and> dom_path (domain_update env t w d) = dom_path d"
proof -
  let ?d = "d\<lparr>max_energy_range := of_nat (M div 1000), max_energy_range_threshold := of_nat (M div 1000 div 2)\<rparr>"
  have div: "(of_nat M :: u64) div 1000 = of_nat (M div 1000)" "(of_nat (M div 1000) :: u64) div 2 = of_nat (M div 1000 div 2)"
    using of_nat_div_u64 [of M 1000] of_nat_div_u64 [of "M div 1000" 2] assms(3)
      order_le_less_trans [OF div_le_dividend [of M 1000]] by simp_all
  have r: "domain_range env d w = ?d"
    using assms(1,2) div by (simp add: domain_range_def counts_def fresh_domain_def Let_def split: prod.splits) (metis fst_conv snd_conv)
  have "domain_update env t w d = domain_counter (of_nat (E w mod W)) t ?d"
    using assms(1) unfolding domain_update_def Let_def r
    by (simp add: counts_def split: prod.splits) (metis fst_conv snd_conv)
  then show ?thesis using meter_rel_first [of ?d M "E w" W t] assms(2-6) by (simp add: fresh_domain_def domain_counter_fields)
qed

lemma energy_loops_rel:
  assumes "\<forall>w \<in> set ws. counts env path M W E w" "paced env M E (meter_last_time m) e ws" "enable_measurement m"
    "i < length (domain_list m)" "meter_rel M W e (domain_list m ! i)" "dom_path (domain_list m ! i) = path"
    "M \<le> W" "W < 2 ^ 64" "2000 \<le> M"
  shows "meter_rel M W (last (e # map E ws)) (domain_list (energy_loops env ws m) ! i)"
  using assms(1-6)
proof (induction ws arbitrary: m e)
  case (Cons w ws)
  let ?d = "domain_list m ! i" and ?t = "te_time env w - meter_last_time m"
  let ?m = "m\<lparr>domain_list := map (domain_update env ?t w) (domain_list m), meter_last_time := te_time env w\<rparr>"
  have step: "snd (rapl_energy_loop env m w) = ?m" using energy_loop_step [of m env w] Cons.prems by simp
  have s: "M div 1000 < 2 ^ 64" using assms(7,8) order_le_less_trans [OF div_le_dividend [of M 1000]] by simp
  have "(of_nat 0 :: u64) < of_nat (M div 1000)" using of_nat_less_u64 [of 0 "M div 1000"] s assms(9) by simp
  then have "max_energy_range ?d \<noteq> 0" using Cons.prems(5) by (auto simp: meter_rel_def)
  then have u: "domain_update env ?t w ?d = domain_counter (of_nat (E w mod W)) ?t ?d"
    using domain_update_counts [of env ?d M W E w ?t] Cons.prems(1,6) by simp
  have p: "e \<le> E w" "2 * (E w - e) + 2000 \<le> M" "paced env M E (te_time env w) (E w) ws"
    using Cons.prems(2) unfolding paced.simps by blast+
  have "meter_rel M W (E w) (domain_counter (of_nat (E w mod W)) ?t ?d)"
    using meter_rel_step [OF Cons.prems(5) assms(7,8) p(2), of ?t] p(1) by simp
  then have "meter_rel M W (last (E w # map E ws)) (domain_list (energy_loops env ws ?m) ! i)"
    using Cons.prems p(3) by (intro Cons.IH) (simp_all add: u domain_counter_fields)
  then show ?case unfolding energy_loops.simps step by simp
qed simp

text \<open>C30: Once a domain has been read for the first time, the energy it reports (the sum of its two counters, in units of 1000
  microjoules, modulo 2^64) follows the energy \<open>E\<close> that the hardware has counted, however often the hardware's counter wraps,
  as long as the loop is called in later and later seconds and before half the range has passed. It does not follow it
  exactly: each wrap loses the part of the hardware's round that the range in whole units of 1000 microjoules leaves
  out, and the unit that has begun is not shown. (\<open>E\<close> counts from the hardware's last wrap before the first reading.)\<close>

theorem energy_follows_hardware:
  assumes "\<forall>w \<in> set (w0 # ws). counts env path M W E w" "M \<le> W" "W < 2 ^ 64" "2000 \<le> M"
    "enable_measurement m" "meter_last_time m < te_time env w0" "E w0 < W" "paced env M E (te_time env w0) (E w0) ws"
    "i < length (domain_list m)" "fresh_domain (domain_list m ! i)" "dom_path (domain_list m ! i) = path"
    "d = domain_list (energy_loops env (w0 # ws) m) ! i" "e = E (last (w0 # ws))"
  shows "\<exists>r. energy_counter d + energy_cumulative_counter d = of_nat r \<and>
    e = 1000 * r + (e div W) * (W - 1000 * (M div 1000)) + e mod W mod 1000"
proof -
  let ?t = "te_time env w0 - meter_last_time m"
  let ?m = "m\<lparr>domain_list := map (domain_update env ?t w0) (domain_list m), meter_last_time := te_time env w0\<rparr>"
  have step: "snd (rapl_energy_loop env m w0) = ?m" by (rule energy_loop_step [OF assms(5,6)])
  have "meter_rel M W (E w0) (domain_update env ?t w0 (domain_list m ! i)) \<and>
      dom_path (domain_update env ?t w0 (domain_list m ! i)) = path"
    using domain_update_first [of env "domain_list m ! i" M W E w0 ?t] assms(1-3,7,10,11) by simp
  then have "meter_rel M W (last (E w0 # map E ws)) (domain_list (energy_loops env ws ?m) ! i)"
    using assms by (intro energy_loops_rel) simp_all
  moreover have "last (E w0 # map E ws) = e" using assms(13) by (simp add: last_map)
  ultimately have rel: "meter_rel M W e d" using assms(12) step by simp
  let ?r = "e div W * (M div 1000) + e mod W div 1000"
  have "energy_counter d + energy_cumulative_counter d = of_nat ?r" using rel by (simp add: meter_rel_def add.commute)
  moreover have "e = 1000 * ?r + (e div W) * (W - 1000 * (M div 1000)) + e mod W mod 1000"
  proof -
    have "1000 * (M div 1000) \<le> W" using assms(2) by (meson div_times_less_eq_dividend order_trans mult.commute times_div_less_eq_dividend)
    then have "(e div W) * (1000 * (M div 1000)) + (e div W) * (W - 1000 * (M div 1000)) = e div W * W"
      by (simp flip: distrib_left)
    moreover have "1000 * (e mod W div 1000) + e mod W mod 1000 = e mod W" by simp
    moreover have "e div W * W + e mod W = e" by simp
    ultimately show ?thesis by (simp add: algebra_simps) 
  qed
  ultimately show ?thesis by blast
qed

text \<open>A counter with a range of 10500 microjoules, read in four seconds, with a wrap between the second and the third.\<close>

definition power_world :: "int \<Rightarrow> string \<Rightarrow> mem_world" where
  "power_world t s = empty_world\<lparr>mw_time := t, mw_files := [''/rapl/energy_uj'' \<mapsto> s, ''/rapl/max_energy_range_uj'' \<mapsto> ''10500'']\<rparr>"

definition rapl_domain_new :: rapl_domain_t where
  "rapl_domain_new = \<lparr>dom_type = PACKAGE, dom_path = ''/rapl'', max_energy_range = 0, max_energy_range_threshold = 0,
     half_way = False, energy_cumulative_counter = 0, energy_counter = 0, dom_power = 0, dom_max_power = 0, dom_min_power = 0\<rparr>"

definition power_meter :: rapl_meter where
  "power_meter = \<lparr>rapl_present = True, domain_list = [rapl_domain_new], meter_last_time = 0, enable_measurement = True\<rparr>"

lemma power_world_counts:
  assumes "atol (s @ [CHR 0x00]) = of_nat ((4000 * nat t - 1000) mod 10500)" "length s \<le> 32" "0 < length s"
  shows "counts mem_env ''/rapl'' 10500 10500 (\<lambda>w. 4000 * nat (mw_time w) - 1000) (power_world t s)"
proof -
  have "atol (''10500'' @ [CHR 0x00]) = 10500"
    by (simp add: atol_def split_sign_def digits_val.simps digit_val_def is_space_def)
  then show ?thesis
    using assms by (simp add: counts_def sysfs_read_ulong_def mem_env_def power_world_def empty_world_def)
qed

theorem energy_follows_hardware_witness:
  "let d = domain_list (energy_loops mem_env [power_world 1 ''3000'', power_world 2 ''7000'', power_world 3 ''500'', power_world 4 ''4500'']
     power_meter) ! 0 in energy_counter d + energy_cumulative_counter d = 14"
proof -
  let ?E = "\<lambda>w. 4000 * nat (mw_time w) - 1000"
  have a: "atol (''3000'' @ [CHR 0x00]) = 3000" "atol (''7000'' @ [CHR 0x00]) = 7000"
    "atol (''500'' @ [CHR 0x00]) = 500" "atol (''4500'' @ [CHR 0x00]) = 4500"
    by (simp_all add: atol_def split_sign_def digits_val.simps digit_val_def is_space_def)
  let ?ws = "[power_world 2 ''7000'', power_world 3 ''500'', power_world 4 ''4500'']"
  have c: "\<forall>w\<in>set (power_world 1 ''3000'' # ?ws). counts mem_env ''/rapl'' 10500 10500 ?E w"
    using a by (simp add: power_world_counts)
  have t: "te_time mem_env (power_world t s) = t" "mw_time (power_world t s) = t" for t s
    by (simp_all add: mem_env_def power_world_def)
  have "\<exists>r. energy_counter (domain_list (energy_loops mem_env (power_world 1 ''3000'' # ?ws) power_meter) ! 0) +
      energy_cumulative_counter (domain_list (energy_loops mem_env (power_world 1 ''3000'' # ?ws) power_meter) ! 0) = of_nat r \<and>
    15000 = 1000 * r + (15000 div 10500) * (10500 - 1000 * (10500 div 1000)) + 15000 mod 10500 mod 1000"
    by (rule energy_follows_hardware [OF c]) (simp_all add: t power_meter_def rapl_domain_new_def fresh_domain_def)
  then show ?thesis by (auto simp: Let_def)
qed

text \<open>At a reading where the counter has wrapped the power is left at its old value, however much energy was
  used: the difference across the wrap is computed and then not used.\<close>

theorem wrap_keeps_power:
  assumes "half_way d" "e div 1000 < max_energy_range_threshold d"
  shows "dom_power (domain_counter e t d) = dom_power d"
  using assms by (simp add: domain_counter_def Let_def)

theorem wrap_keeps_power_witness:
  "dom_power (domain_counter 20000 1 (rapl_domain_new\<lparr>max_energy_range := 100, max_energy_range_threshold := 50, half_way := True, energy_counter := 90, dom_power := 7\<rparr>)) = 7"
  using wrap_keeps_power [of "rapl_domain_new\<lparr>max_energy_range := 100, max_energy_range_threshold := 50, half_way := True, energy_counter := 90, dom_power := 7\<rparr>" 20000 1]
  by (simp add: rapl_domain_new_def word_less_nat_alt)

end
