(* ===== verification/Thd_Cdev.thy ===== *)
theory Thd_Cdev
  imports Thd_Meter
begin

text \<open>
  Cooling devices: the data of the base class \<^verbatim>\<open>cthd_cdev\<close> (\<^verbatim>\<open>thd_cdev.h\<close>) and of the classes derived from it,
  and their virtual functions. An object is the record of the base class with the fields of its class
  as \<open>cd_class\<close>; a virtual call is a case distinction on it. Ints that only say yes or no are \<open>bool\<close>.
  States are unbounded integers except where the source wraps: it adds steps and limits far below
  $2^{31}$ to them.
\<close>

record zone_trip_limits_t =
  lim_zone :: int
  lim_trip :: int
  lim_target_state_valid :: bool
  lim_target_value :: int
  lim_min_state :: int
  lim_max_state :: int
  lim_min_max_valid :: bool

record rapl_data =
  phy_max :: int
  constraint_index :: int
  pl2_index :: int
  dynamic_phy_max_enable :: bool
  pl0_max_pwr :: int
  pl0_min_pwr :: int
  pl0_min_window :: int
  pl0_max_window :: int
  pl0_step_pwr :: int
  pl1_max_pwr :: int
  pl1_max_window :: int
  bios_locked :: bool
  constrained :: bool
  power_on_constraint_0_pwr :: int
  power_on_constraint_0_time_window :: int
  power_on_enable_status :: int

datatype cdev_class =
    Cdev_base
  | Cdev_rapl rapl_data
  | Cdev_therm_sysfs
  | Cdev_gen_sysfs
  | Cdev_backlight (ref_backlight_state: int) (min_back_light: int)
  | Cdev_pstate (unit_value: f32) (min_compensation: int) (turbo_status: bool)

record cthd_cdev =
  cd_index :: int
  cd_type_str :: string
  cd_alias :: string
  cd_base_path :: string
  max_state :: int
  min_state :: int
  curr_state :: int
  curr_pow :: nat
  base_pow_state :: int
  inc_dec_val :: int
  auto_down_adjust :: bool
  read_back :: bool
  debounce_interval :: int
  last_action_time :: int
  trend_increase :: bool
  pid_enable :: bool
  pid_ctrl :: cthd_pid
  last_state :: bool
  zone_trip_limits :: "zone_trip_limits_t list"
  write_prefix :: string
  inc_val :: int
  dec_val :: int
  cd_class :: cdev_class

section \<open>thd\_cdev\_rapl.cpp\<close>

definition constraint_attr :: "int \<Rightarrow> string \<Rightarrow> string" where
  "constraint_attr i name = ''constraint_'' @ show_int i @ name"

definition rapl_read :: "'w thd_env \<Rightarrow> cthd_cdev \<Rightarrow> string \<Rightarrow> 'w \<Rightarrow> int" where
  "rapl_read env c attr w =
     (let (ret, val) = sysfs_read_int env (cd_base_path c) attr 0 w in if 0 < ret then val else THD_ERROR)"

definition rapl_read_pl1 :: "'w thd_env \<Rightarrow> cthd_cdev \<Rightarrow> rapl_data \<Rightarrow> 'w \<Rightarrow> int" where
  "rapl_read_pl1 env c r w = rapl_read env c (constraint_attr (constraint_index r) ''_power_limit_uw'') w"

definition rapl_read_pl1_max :: "'w thd_env \<Rightarrow> cthd_cdev \<Rightarrow> rapl_data \<Rightarrow> 'w \<Rightarrow> int" where
  "rapl_read_pl1_max env c r w = rapl_read env c (constraint_attr (constraint_index r) ''_max_power_uw'') w"

definition rapl_read_pl2 :: "'w thd_env \<Rightarrow> cthd_cdev \<Rightarrow> rapl_data \<Rightarrow> 'w \<Rightarrow> int" where
  "rapl_read_pl2 env c r w = rapl_read env c (constraint_attr (pl2_index r) ''_power_limit_uw'') w"

definition rapl_read_time_window :: "'w thd_env \<Rightarrow> cthd_cdev \<Rightarrow> rapl_data \<Rightarrow> 'w \<Rightarrow> int" where
  "rapl_read_time_window env c r w = rapl_read env c (constraint_attr (constraint_index r) ''_time_window_us'') w"

definition rapl_read_enable_status :: "'w thd_env \<Rightarrow> cthd_cdev \<Rightarrow> 'w \<Rightarrow> int" where
  "rapl_read_enable_status env c w = rapl_read env c ''enabled'' w"

definition rapl_update_pl1 :: "'w thd_env \<Rightarrow> cthd_cdev \<Rightarrow> rapl_data \<Rightarrow> int \<Rightarrow> 'w \<Rightarrow> int \<times> 'w" where
  "rapl_update_pl1 env c r pl1 w =
     (let (ret, w) = sysfs_write_int env (cd_base_path c) (constraint_attr (constraint_index r) ''_power_limit_uw'') pl1 w
      in (if ret \<le> 0 then ret else THD_SUCCESS, w))"

definition rapl_update_pl2 :: "'w thd_env \<Rightarrow> cthd_cdev \<Rightarrow> rapl_data \<Rightarrow> int \<Rightarrow> 'w \<Rightarrow> int \<times> 'w" where
  "rapl_update_pl2 env c r pl2 w =
     (if pl2_index r = - 1 then (THD_ERROR, w)
      else (let (ret, w) = sysfs_write_int env (cd_base_path c) (constraint_attr (pl2_index r) ''_power_limit_uw'') pl2 w
        in (if ret \<le> 0 then ret else THD_SUCCESS, w)))"

definition rapl_update_time_window :: "'w thd_env \<Rightarrow> cthd_cdev \<Rightarrow> rapl_data \<Rightarrow> int \<Rightarrow> 'w \<Rightarrow> 'w" where
  "rapl_update_time_window env c r time_window w =
     snd (sysfs_write_int env (cd_base_path c) (constraint_attr (constraint_index r) ''_time_window_us'') time_window w)"

definition rapl_update_pl2_time_window :: "'w thd_env \<Rightarrow> cthd_cdev \<Rightarrow> rapl_data \<Rightarrow> int \<Rightarrow> 'w \<Rightarrow> 'w" where
  "rapl_update_pl2_time_window env c r time_window w =
     snd (sysfs_write_int env (cd_base_path c) (constraint_attr (pl2_index r) ''_time_window_us'') time_window w)"

definition rapl_update_enable_status :: "'w thd_env \<Rightarrow> cthd_cdev \<Rightarrow> int \<Rightarrow> 'w \<Rightarrow> 'w" where
  "rapl_update_enable_status env c enable w = snd (sysfs_write_int env (cd_base_path c) ''enabled'' enable w)"

definition def_rapl_time_window :: int where "def_rapl_time_window = 1000000"

text \<open>\<^verbatim>\<open>ENODATA\<close> is 61. The value of \<open>curr_state\<close> set after a failed write is overwritten at once.\<close>

definition rapl_set_curr_state ::
  "'w thd_env \<Rightarrow> int \<Rightarrow> bool \<Rightarrow> cthd_cdev \<Rightarrow> rapl_data \<Rightarrow> 'w \<Rightarrow> cthd_cdev \<times> rapl_data \<times> 'w" where
  "rapl_set_curr_state env state control c r w =
     (if bios_locked r
      then (c\<lparr>curr_state := (if state \<le> inc_dec_val c then min_state c else max_state c)\<rparr>, r, w)
      else
       (let new_state = (if state < max_state c then max_state c else state);
            (new_state, r, w) =
              (if min_state c \<le> new_state
               then (let w = (if power_on_enable_status r = 0 then rapl_update_enable_status env c 0 w else w);
                         w = rapl_update_time_window env c r (power_on_constraint_0_time_window r) w
                 in (if power_on_constraint_0_pwr r \<noteq> 0 then power_on_constraint_0_pwr r else min_state c,
                     r\<lparr>constrained := False\<rparr>, w))
               else if control \<and> \<not> constrained r
               then (let w = rapl_update_time_window env c r
                           (if pl0_min_window r \<noteq> 0 then pl0_min_window r else def_rapl_time_window) w;
                         w = (if power_on_enable_status r = 0 then rapl_update_enable_status env c 1 w else w)
                 in (new_state, r\<lparr>constrained := True\<rparr>, w))
               else (new_state, r, w));
            (ret, w) = rapl_update_pl1 env c r new_state w;
            r = (if ret < 0 \<and> ret = - 61 then r\<lparr>bios_locked := True\<rparr> else r)
        in (c\<lparr>curr_state := new_state\<rparr>, r, w)))"

definition rapl_get_curr_state_again ::
  "'w thd_env \<Rightarrow> cthd_cdev \<Rightarrow> rapl_data \<Rightarrow> rapl_meter \<Rightarrow> 'w \<Rightarrow> int \<times> rapl_meter \<times> 'w" where
  "rapl_get_curr_state_again env c r m w =
     (if dynamic_phy_max_enable r
      then (let (power, m, w) = rapl_action_get_power env PACKAGE (rapl_start_measure_power m) w;
                power = sint power;
                pl1 = rapl_read_pl1 env c r w
        in (if pl1 \<noteq> THD_ERROR \<and> pl1 < power then pl1 else power, m, w))
      else (curr_state c, m, w))"

section \<open>thd\_cdev\_therm\_sys\_fs.cpp\<close>

definition cooling_device_attr :: "cthd_cdev \<Rightarrow> string \<Rightarrow> string" where
  "cooling_device_attr c name = ''cooling_device'' @ show_int (cd_index c) @ name"

definition therm_set_curr_state :: "'w thd_env \<Rightarrow> int \<Rightarrow> cthd_cdev \<Rightarrow> 'w \<Rightarrow> cthd_cdev \<times> 'w" where
  "therm_set_curr_state env state c w =
     (if sysfs_exists env (cd_base_path c) (cooling_device_attr c ''/cur_state'') w
      then (c\<lparr>curr_state := state\<rparr>,
            snd (sysfs_write_str env (cd_base_path c) (cooling_device_attr c ''/cur_state'') (show_int state) w))
      else (c\<lparr>curr_state := 0\<rparr>, w))"

definition therm_get_curr_state :: "'w thd_env \<Rightarrow> cthd_cdev \<Rightarrow> 'w \<Rightarrow> int \<times> cthd_cdev" where
  "therm_get_curr_state env c w =
     (if \<not> read_back c then (curr_state c, c)
      else if sysfs_exists env (cd_base_path c) (cooling_device_attr c ''/cur_state'') w
      then (let (ret, val) = sysfs_read_int env (cd_base_path c) (cooling_device_attr c ''/cur_state'') (curr_state c) w;
                c = c\<lparr>curr_state := val\<rparr>
        in (if ret < 0 then ret else curr_state c, c))
      else (0, c\<lparr>curr_state := 0\<rparr>))"

definition therm_get_max_state :: "'w thd_env \<Rightarrow> cthd_cdev \<Rightarrow> 'w \<Rightarrow> int \<times> cthd_cdev" where
  "therm_get_max_state env c w =
     (if sysfs_exists env (cd_base_path c) (cooling_device_attr c ''/max_state'') w
      then (let (ret, val) = sysfs_read_int env (cd_base_path c) (cooling_device_attr c ''/max_state'') (max_state c) w;
                c = c\<lparr>max_state := val\<rparr>
        in (if ret < 0 then ret else max_state c, c))
      else (0, c\<lparr>max_state := 0\<rparr>))"

section \<open>thd\_cdev\_gen\_sysfs.cpp\<close>

definition gen_set_curr_state :: "'w thd_env \<Rightarrow> int \<Rightarrow> cthd_cdev \<Rightarrow> 'w \<Rightarrow> cthd_cdev \<times> 'w" where
  "gen_set_curr_state env state c w =
     (c\<lparr>curr_state := state\<rparr>,
      snd (sysfs_write_str env (cd_base_path c) [] (write_prefix c @ show_int state) w))"

section \<open>thd\_cdev\_backlight.cpp\<close>

definition backlight_set_curr_state ::
  "'w thd_env \<Rightarrow> int \<Rightarrow> cthd_cdev \<Rightarrow> int \<Rightarrow> int \<Rightarrow> 'w \<Rightarrow> cthd_cdev \<times> int \<times> 'w" where
  "backlight_set_curr_state env state c ref_state min_light w =
     (if state = 0 then
        (if ref_state \<noteq> 0 then
           (let (ret, w) = sysfs_write_int env (cd_base_path c) ''brightness'' ref_state w
            in if ret < 0 then (c, ref_state, w) else (c\<lparr>curr_state := state\<rparr>, 0, w))
         else (c\<lparr>curr_state := state\<rparr>, ref_state, w))
      else
       (let (ret, ref_state) = (if ref_state = 0 \<and> state = inc_dec_val c
              then sysfs_read_int env (cd_base_path c) ''brightness'' ref_state w else (0, ref_state))
        in if ret < 0 then (c, ref_state, w)
           else (let backlight_val = max (ref_state - state) min_light;
                     (ret, w) = sysfs_write_int env (cd_base_path c) ''brightness'' backlight_val w
             in if ret < 0 then (c, ref_state, w) else (c\<lparr>curr_state := state\<rparr>, ref_state, w))))"

definition backlight_map_target_state :: "cthd_cdev \<Rightarrow> bool \<Rightarrow> int \<Rightarrow> int" where
  "backlight_map_target_state c target_valid target_state =
     (if \<not> target_valid then target_state
      else if max_state c < target_state then 0 else max_state c - target_state)"

section \<open>thd\_cdev\_intel\_pstate\_driver.cpp\<close>

definition turbo_disable_percent :: int where "turbo_disable_percent = 70"

definition set_turbo_disable_status :: "'w thd_env \<Rightarrow> bool \<Rightarrow> cthd_cdev \<Rightarrow> bool \<Rightarrow> 'w \<Rightarrow> bool \<times> 'w" where
  "set_turbo_disable_status env enable c turbo w =
     (if enable = turbo then (turbo, w)
      else (enable, snd (sysfs_write_str env (cd_base_path c) ''/no_turbo'' (if enable then ''1'' else ''0'') w)))"

definition pstate_set_curr_state ::
  "'w thd_env \<Rightarrow> int \<Rightarrow> cthd_cdev \<Rightarrow> f32 \<Rightarrow> int \<Rightarrow> bool \<Rightarrow> 'w \<Rightarrow> cthd_cdev \<times> bool \<times> 'w" where
  "pstate_set_curr_state env state c unit compn turbo w =
     (let failed = c\<lparr>curr_state := (if state = 0 then 0 else max_state c)\<rparr>
      in if sysfs_exists env (cd_base_path c) ''/max_perf_pct'' w
         then (let new_state = (if state = 0 then 100 else f2i (fint 100 - fint (state + compn) * unit));
                   (turbo, w) = set_turbo_disable_status env (new_state \<le> turbo_disable_percent) c turbo w;
                   (ret, w) = sysfs_write_str env (cd_base_path c) ''/max_perf_pct'' (show_int new_state) w
           in (if ret < 0 then failed else c\<lparr>curr_state := state\<rparr>, turbo, w))
         else (failed, turbo, w))"

definition pstate_map_target_state :: "f32 \<Rightarrow> bool \<Rightarrow> int \<Rightarrow> int" where
  "pstate_map_target_state unit target_valid target_state =
     (if \<not> target_valid then target_state
      else if 100 < target_state then 0 else f2i (fint (100 - target_state) div unit))"

section \<open>Virtual functions\<close>

definition set_curr_state :: "'w thd_env \<Rightarrow> int \<Rightarrow> bool \<Rightarrow> cthd_cdev \<Rightarrow> 'w \<Rightarrow> cthd_cdev \<times> 'w" where
  "set_curr_state env state arg c w = (case cd_class c of
     Cdev_base \<Rightarrow> (c, w)
   | Cdev_rapl r \<Rightarrow> (case rapl_set_curr_state env state arg c r w of (c, r, w) \<Rightarrow> (c\<lparr>cd_class := Cdev_rapl r\<rparr>, w))
   | Cdev_therm_sysfs \<Rightarrow> therm_set_curr_state env state c w
   | Cdev_gen_sysfs \<Rightarrow> gen_set_curr_state env state c w
   | Cdev_backlight ref_state min_light \<Rightarrow> (case backlight_set_curr_state env state c ref_state min_light w of
       (c, ref_state, w) \<Rightarrow> (c\<lparr>cd_class := Cdev_backlight ref_state min_light\<rparr>, w))
   | Cdev_pstate unit compn turbo \<Rightarrow> (case pstate_set_curr_state env state c unit compn turbo w of
       (c, turbo, w) \<Rightarrow> (c\<lparr>cd_class := Cdev_pstate unit compn turbo\<rparr>, w)))"

text \<open>The RAPL and the generic class do not clamp.\<close>

definition set_curr_state_raw :: "'w thd_env \<Rightarrow> int \<Rightarrow> bool \<Rightarrow> cthd_cdev \<Rightarrow> 'w \<Rightarrow> cthd_cdev \<times> 'w" where
  "set_curr_state_raw env state arg c w =
     (let clamped = (let s = (if max_state c < state then max_state c else state)
            in if s < min_state c then min_state c else s)
      in case cd_class c of
           Cdev_rapl r \<Rightarrow> set_curr_state env state arg c w
         | Cdev_gen_sysfs \<Rightarrow> set_curr_state env state arg c w
         | _ \<Rightarrow> set_curr_state env clamped arg c w)"

definition get_curr_state :: "'w thd_env \<Rightarrow> cthd_cdev \<Rightarrow> 'w \<Rightarrow> int \<times> cthd_cdev" where
  "get_curr_state env c w = (case cd_class c of
     Cdev_therm_sysfs \<Rightarrow> therm_get_curr_state env c w | _ \<Rightarrow> (curr_state c, c))"

definition get_curr_state_again ::
  "'w thd_env \<Rightarrow> cthd_cdev \<Rightarrow> rapl_meter \<Rightarrow> 'w \<Rightarrow> int \<times> rapl_meter \<times> 'w" where
  "get_curr_state_again env c m w = (case cd_class c of
     Cdev_rapl r \<Rightarrow> rapl_get_curr_state_again env c r m w | _ \<Rightarrow> (curr_state c, m, w))"

definition get_max_state :: "'w thd_env \<Rightarrow> cthd_cdev \<Rightarrow> 'w \<Rightarrow> int \<times> cthd_cdev" where
  "get_max_state env c w = (case cd_class c of
     Cdev_therm_sysfs \<Rightarrow> therm_get_max_state env c w | _ \<Rightarrow> (max_state c, c))"

definition control_begin :: "cthd_cdev \<Rightarrow> cthd_cdev" where
  "control_begin c = (case cd_class c of
     Cdev_rapl r \<Rightarrow> c | _ \<Rightarrow> if pid_enable c then c\<lparr>pid_ctrl := pid_reset (pid_ctrl c)\<rparr> else c)"

definition map_target_state :: "cthd_cdev \<Rightarrow> bool \<Rightarrow> int \<Rightarrow> int" where
  "map_target_state c target_valid target_state = (case cd_class c of
     Cdev_backlight ref_state min_light \<Rightarrow> backlight_map_target_state c target_valid target_state
   | Cdev_pstate unit compn turbo \<Rightarrow> pstate_map_target_state unit target_valid target_state
   | _ \<Rightarrow> target_state)"

definition in_min_state :: "'w thd_env \<Rightarrow> cthd_cdev \<Rightarrow> 'w \<Rightarrow> bool \<times> cthd_cdev" where
  "in_min_state env c w =
     (if min_state c < max_state c
      then (case get_curr_state env c w of (s, c) \<Rightarrow> (s \<le> min_state c, c))
      else if max_state c < min_state c
      then (case get_curr_state env c w of (s, c) \<Rightarrow> (min_state c \<le> s, c))
      else (False, c))"

text \<open>Here the first operand of the disjunction may change the limit that the second one tests.\<close>

definition in_max_state :: "'w thd_env \<Rightarrow> cthd_cdev \<Rightarrow> 'w \<Rightarrow> bool \<times> cthd_cdev" where
  "in_max_state env c w =
     (let reached = (\<lambda>less c. case get_curr_state env c w of (s, c) \<Rightarrow>
            (case get_max_state env c w of (m, c) \<Rightarrow> (less m s, c)));
          (b, c) = (if min_state c < max_state c then reached (\<lambda>m s. m \<le> s) c else (False, c))
      in if b then (True, c)
         else if max_state c < min_state c then reached (\<lambda>m s. s \<le> m) c else (False, c))"

definition cmp_current_state :: "'w thd_env \<Rightarrow> cthd_cdev \<Rightarrow> int \<Rightarrow> 'w \<Rightarrow> int \<times> cthd_cdev" where
  "cmp_current_state env c state w =
     (case get_curr_state env c w of (s, c) \<Rightarrow>
       (if s = state then 0
        else if min_state c < max_state c then (if s < state then 1 else - 1)
        else if max_state c < min_state c then (if s < state then - 1 else 1)
        else 0, c))"

end
