(* ===== verification/Thd_Control.thy ===== *)
theory Thd_Control
  imports Thd_Cdev
begin

text \<open>
  The controller of a cooling device, \<^verbatim>\<open>thd_cdev.cpp\<close>: clamping, the exponential controller, and
  \<^verbatim>\<open>thd_cdev_set_state\<close>, which arbitrates between the trips that use the device. \<^verbatim>\<open>std::sort\<close> is a stable sort
  (libstdc++ sorts up to sixteen elements by insertion). The calls of \<^verbatim>\<open>get_curr_state\<close> in the log messages
  are kept, since they read the device again (debug messages are off). All functions return \<^verbatim>\<open>THD_SUCCESS\<close>; the model returns the
  device, the power meter and the world.
\<close>

section \<open>Clamping\<close>

definition thd_clamp_state_min :: "cthd_cdev \<Rightarrow> int \<Rightarrow> int \<Rightarrow> int" where
  "thd_clamp_state_min c state temp_min_state =
     (if min_state c \<le> max_state c
      then (let m = (if temp_min_state \<noteq> 0 \<and> min_state c < temp_min_state then temp_min_state else min_state c)
        in if state < m then m else state)
      else (let m = (if temp_min_state \<noteq> 0 \<and> temp_min_state < min_state c then temp_min_state else min_state c)
        in if m < state then m else state))"

definition thd_clamp_state_max :: "cthd_cdev \<Rightarrow> int \<Rightarrow> int \<Rightarrow> int" where
  "thd_clamp_state_max c state temp_max_state =
     (if min_state c \<le> max_state c
      then (let m = (if temp_max_state \<noteq> 0 \<and> temp_max_state < max_state c then temp_max_state else max_state c)
        in if m < state then m else state)
      else (let m = (if temp_max_state \<noteq> 0 \<and> max_state c < temp_max_state then temp_max_state else max_state c)
        in if state < m then m else state))"

section \<open>The exponential controller\<close>

definition default_max_exponent :: nat where "default_max_exponent = 20"

text \<open>The product and the sum are unsigned 32-bit numbers.\<close>

definition pow_state :: "int \<Rightarrow> nat \<Rightarrow> int \<Rightarrow> int" where
  "pow_state base p step = c_int (base + 2 ^ p * step)"

text \<open>Activation: the device and the state it is to take.\<close>

definition exponential_up :: "cthd_cdev \<Rightarrow> int \<Rightarrow> int \<Rightarrow> int \<Rightarrow> cthd_cdev \<times> int" where
  "exponential_up c cur temp_min_state temp_max_state =
     (let cur = thd_clamp_state_min c cur temp_min_state;
          step = (if inc_val c \<noteq> 0 then inc_val c else inc_dec_val c);
          (c, state) =
            (if trend_increase c then
               (let c = (if curr_pow c = 0 then c\<lparr>base_pow_state := cur\<rparr> else c);
                    c = (if curr_pow c < default_max_exponent then c\<lparr>curr_pow := curr_pow c + 1\<rparr> else c);
                    state = pow_state (base_pow_state c) (curr_pow c) step;
                    state = (if inc_val c < 0 \<and> base_pow_state c < state \<or> 0 < inc_val c \<and> state < base_pow_state c
                             then max_state c else state)
                in (c, state))
             else (c\<lparr>curr_pow := 0\<rparr>, cur + step))
      in (c\<lparr>trend_increase := True\<rparr>, thd_clamp_state_max c state temp_max_state))"

text \<open>Deactivation: one step back towards the minimum, or to the minimum at once.\<close>

definition exponential_down :: "cthd_cdev \<Rightarrow> int \<Rightarrow> int \<Rightarrow> int \<Rightarrow> cthd_cdev \<times> int" where
  "exponential_down c cur temp_min_state temp_max_state =
     (let cur = thd_clamp_state_max c cur temp_max_state;
          c = c\<lparr>curr_pow := 0, trend_increase := False\<rparr>;
          up = min_state c \<le> max_state c;
          step = (if dec_val c \<noteq> 0 then dec_val c else if up then inc_dec_val c else - inc_dec_val c);
          step = (if up \<and> step < 0 then - step else if \<not> up \<and> 0 < step then - step else step);
          state = (if auto_down_adjust c then min_state c else cur - step);
          state = thd_clamp_state_min c state temp_min_state
      in (c, thd_clamp_state_max c state temp_max_state))"

definition thd_cdev_exponential_controller ::
  "'w thd_env \<Rightarrow> bool \<Rightarrow> int \<Rightarrow> int \<Rightarrow> cthd_cdev \<Rightarrow> rapl_meter \<Rightarrow> 'w \<Rightarrow> cthd_cdev \<times> rapl_meter \<times> 'w" where
  "thd_cdev_exponential_controller env state temp_min_state temp_max_state c m w =
     (let (_, c) = get_max_state env c w;
          (cur, c, m, w) = (if state
             then (case get_curr_state_again env c m w of (s, m, w) \<Rightarrow> (s, c, m, w))
             else (case get_curr_state env c w of (s, c) \<Rightarrow> (s, c, m, w)));
          (c, new_state) = (if state then exponential_up c cur temp_min_state temp_max_state
             else exponential_down c cur temp_min_state temp_max_state);
          (c, w) = set_curr_state env new_state state c w;
          (_, c) = get_curr_state env c w
      in (c, m, w))"

section \<open>Arbitration between trips\<close>

record pid_param_t =
  pid_valid :: bool
  pid_kp :: f64
  pid_ki :: f64
  pid_kd :: f64

definition TRIP_PT_INVALID_TARGET_STATE :: int where "TRIP_PT_INVALID_TARGET_STATE = 2 ^ 31 - 1"

text \<open>The arguments of \<^verbatim>\<open>thd_cdev_set_state\<close> (the set point is only logged).\<close>

record state_request =
  rq_target_temp :: u32
  rq_temperature :: u32
  rq_hard_target :: bool
  rq_state :: bool
  rq_zone :: int
  rq_trip :: int
  rq_target_state_valid :: bool
  rq_target_value :: int
  rq_pid_param :: "pid_param_t option"
  rq_force :: bool
  rq_min_max_valid :: bool
  rq_min_state :: int
  rq_max_state :: int

definition new_limit :: "cthd_cdev \<Rightarrow> state_request \<Rightarrow> zone_trip_limits_t" where
  "new_limit c rq = \<lparr>lim_zone = rq_zone rq, lim_trip = rq_trip rq,
     lim_target_state_valid = rq_target_state_valid rq, lim_target_value = rq_target_value rq,
     lim_min_state = (if \<not> rq_min_max_valid rq then 0
       else if rq_min_state rq = TRIP_PT_INVALID_TARGET_STATE \<or> rq_min_state rq = 0 then min_state c else rq_min_state rq),
     lim_max_state = (if \<not> rq_min_max_valid rq then 0
       else if rq_max_state rq = TRIP_PT_INVALID_TARGET_STATE \<or> rq_max_state rq = 0 then max_state c else rq_max_state rq),
     lim_min_max_valid = rq_min_max_valid rq\<rparr>"

definition limit_of :: "state_request \<Rightarrow> zone_trip_limits_t \<Rightarrow> bool" where
  "limit_of rq l \<longleftrightarrow> lim_zone l = rq_zone rq \<and> lim_trip l = rq_trip rq"

text \<open>The list after an activation.\<close>

definition add_limit :: "cthd_cdev \<Rightarrow> state_request \<Rightarrow> zone_trip_limits_t list" where
  "add_limit c rq =
     (if list_ex (limit_of rq) (zone_trip_limits c) then zone_trip_limits c
      else (let ls = zone_trip_limits c @ [new_limit c rq];
                ls = (if \<not> rq_target_state_valid rq then ls
                      else if min_state c < max_state c then sort_key lim_target_value ls
                      else sort_key (\<lambda>l. - lim_target_value l) ls)
        in if \<not> rq_min_max_valid rq then ls
           else if max_state c < min_state c then sort_key (\<lambda>l. - lim_max_state l) ls
           else sort_key lim_min_state ls))"

text \<open>What an activation or a deactivation goes on with: the target, and the limits of the trip in charge.
  \<open>None\<close> is an early return.\<close>

type_synonym verdict = "(bool \<times> int \<times> int \<times> int) option"

definition activate ::
  "'w thd_env \<Rightarrow> state_request \<Rightarrow> int \<Rightarrow> cthd_cdev \<Rightarrow> 'w \<Rightarrow> verdict \<times> cthd_cdev" where
  "activate env rq tm c w =
     (let first_entry = (zone_trip_limits c = []);
          c = c\<lparr>zone_trip_limits := add_limit c rq\<rparr>;
          limit = last (zone_trip_limits c);
          valid = lim_target_state_valid limit;
          (constrained_more, c) =
            (if \<not> first_entry \<and> valid
             then (case cmp_current_state env c (map_target_state c valid (lim_target_value limit)) w of
                     (o', c) \<Rightarrow> (o' \<le> 0, c))
             else (False, c))
      in if constrained_more then (None, c)
         else if \<not> rq_force rq \<and> last_state c \<and> tm - last_action_time c \<le> debounce_interval c
         then (None, c)
         else (Some (valid, lim_target_value limit, lim_min_state limit, lim_max_state limit), c))"

definition deactivate :: "state_request \<Rightarrow> cthd_cdev \<Rightarrow> verdict \<times> cthd_cdev" where
  "deactivate rq c =
     (let ls = zone_trip_limits c; forced = Some (True, min_state c, 0, 0)
      in if ls = [] then (if rq_force rq then forced else Some (False, rq_target_value rq, 0, 0), c)
         else (let erased = limit_of rq (last ls);
                   ls' = (if erased then butlast ls else ls);
                   c = c\<lparr>zone_trip_limits := ls'\<rparr>
           in if ls' \<noteq> [] then
                (if \<not> erased then None
                 else (let l = last ls' in Some (lim_target_state_valid l, lim_target_value l, lim_min_state l, lim_max_state l)), c)
              else if lim_target_state_valid (last ls)
              then (Some (rq_target_state_valid rq, min_state c, 0, 0), c)
              else if rq_force rq then (forced, c)
              else (Some (rq_target_state_valid rq, rq_target_value rq, 0, 0), c)))"

section \<open>Setting the state\<close>

text \<open>The result of a PID controller, between the limits.\<close>

definition pid_state :: "int \<Rightarrow> int \<Rightarrow> int \<Rightarrow> int" where
  "pid_state mn mx out =
     (let ret = out + mn
      in if mn < mx then (let ret = (if mx < ret then mx else ret) in if ret < mn then mn else ret)
         else (let ret = (if ret < mx then mx else ret) in if mn < ret then mn else ret))"

definition apply_state ::
  "'w thd_env \<Rightarrow> state_request \<Rightarrow> bool \<times> int \<times> int \<times> int \<Rightarrow> cthd_cdev \<Rightarrow> cthd_pid \<Rightarrow> rapl_meter \<Rightarrow> 'w \<Rightarrow>
   cthd_cdev \<times> cthd_pid \<times> rapl_meter \<times> 'w" where
  "apply_state env rq v c pid m w = (case v of (target_state_valid, target_value, mn, mx) \<Rightarrow>
     if target_state_valid then
       (let (c, w) = set_curr_state_raw env target_value (rq_state rq) c w;
            c = c\<lparr>curr_state := target_value\<rparr>;
            (_, c) = get_curr_state env c w
        in (c, pid, m, w))
     else if rq_hard_target rq then
       (let (top, c) = get_max_state env c w;
            (c, w) = set_curr_state_raw env top (rq_state rq) c w;
            (_, c) = get_curr_state env c w
        in (c, pid, m, w))
     else if (case rq_pid_param rq of None \<Rightarrow> False | Some p \<Rightarrow> pid_valid p) then
       (let pid = set_target_temp (rq_target_temp rq) pid;
            (cur, m, w) = get_curr_state_again env c m w;
            (ret, pid) = pid_output (te_time env w) (rq_temperature rq) (cur - min_state c) pid;
            (top, c) = get_max_state env c w;
            (c, w) = set_curr_state_raw env (pid_state (min_state c) top ret) (rq_state rq) c w;
            (_, c) = get_curr_state env c w
        in (c, if rq_state rq then pid else pid_reset pid, m, w))
     else if pid_enable c then
       (let (ret, ctrl) = pid_output (te_time env w) (rq_temperature rq) 0 (set_target_temp (rq_target_temp rq) (pid_ctrl c));
            c = c\<lparr>pid_ctrl := ctrl\<rparr>;
            (top, c) = get_max_state env c w;
            (c, w) = set_curr_state_raw env (pid_state (min_state c) top ret) (rq_state rq) c w;
            (_, c) = get_curr_state env c w
        in (c, pid, m, w))
     else
       (let (c, m, w) = thd_cdev_exponential_controller env (rq_state rq) (if rq_state rq then mn else 0)
              (if rq_state rq then mx else 0) c m w
        in (c, pid, m, w)))"

definition thd_cdev_set_state ::
  "'w thd_env \<Rightarrow> state_request \<Rightarrow> cthd_cdev \<Rightarrow> cthd_pid \<Rightarrow> rapl_meter \<Rightarrow> 'w \<Rightarrow> cthd_cdev \<times> cthd_pid \<times> rapl_meter \<times> 'w" where
  "thd_cdev_set_state env rq c pid m w =
     (let (idle, c) = (if rq_state rq then (False, c) else in_min_state env c w)
      in if idle \<and> zone_trip_limits c = [] then (c, pid, m, w)
         else
          (let tm = te_time env w;
               (v, c) = (if rq_state rq then activate env rq tm c w else deactivate rq c)
           in case v of None \<Rightarrow> (c, pid, m, w)
              | Some v \<Rightarrow>
                 (let c = c\<lparr>last_action_time := tm, last_state := rq_state rq\<rparr>;
                      (s, c) = get_curr_state env c w;
                      c = c\<lparr>curr_state := s\<rparr>;
                      c = (if curr_state c = min_state c
                           then (control_begin c)\<lparr>curr_pow := 0, trend_increase := False\<rparr> else c);
                      (c, pid, m, w) = apply_state env rq v c pid m w;
                      (_, c) = get_max_state env c w
                  in (c, pid, m, w))))"

definition thd_cdev_set_min_state :: "'w thd_env \<Rightarrow> int \<Rightarrow> int \<Rightarrow> cthd_cdev \<Rightarrow> rapl_meter \<Rightarrow> 'w \<Rightarrow> cthd_cdev \<times> rapl_meter \<times> 'w" where
  "thd_cdev_set_min_state env zone_id trip_id c m w =
     (let c = c\<lparr>trend_increase := False\<rparr>;
          (c, _, m, w) = thd_cdev_set_state env \<lparr>rq_target_temp = 0, rq_temperature = 0, rq_hard_target = False,
            rq_state = False, rq_zone = zone_id, rq_trip = trip_id, rq_target_state_valid = True,
            rq_target_value = min_state c, rq_pid_param = None, rq_force = True, rq_min_max_valid = False,
            rq_min_state = 0, rq_max_state = 0\<rparr> c cthd_pid_new m w
      in (c, m, w))"

end
