(* ===== verification/Thd_Trip.thy ===== *)
theory Thd_Trip
  imports Thd_Control
begin

text \<open>
  Trip points and sensors of the thermal daemon (\<^verbatim>\<open>thd_trip_point.cpp\<close>, \<^verbatim>\<open>thd_trip_point.h\<close>, \<^verbatim>\<open>thd_sensor.cpp\<close>).
  The record \<open>thd_engine\<close> is the part of the engine they reach: cooling devices and sensors, to which the
  source holds pointers (here positions in the lists), the power meter, and the messages written to the
  pipe, oldest first.
\<close>

datatype thd_message = WAKEUP | TERMINATE | PREF_CHANGED | THERMAL_ZONE_NOTIFY | RELOAD_ZONES
  | POLL_ENABLE int | POLL_DISABLE int | FAST_POLL_ENABLE int | FAST_POLL_DISABLE int

record cthd_sensor =
  se_index :: int
  se_thermal_sysfs :: bool
  se_path :: string
  se_type_str :: string
  async_capable :: bool
  se_scale :: u32

record thd_engine =
  en_cdevs :: "cthd_cdev list"
  en_sensors :: "cthd_sensor list"
  en_meter :: rapl_meter
  en_messages :: "thd_message list"
  poll_interval_sec :: int
  en_preference :: int
  ignore_critical :: bool

definition send_message :: "thd_message \<Rightarrow> thd_engine \<Rightarrow> thd_engine" where
  "send_message msg en = en\<lparr>en_messages := en_messages en @ [msg]\<rparr>"

section \<open>thd\_sensor.cpp\<close>

definition read_temperature :: "'w thd_env \<Rightarrow> cthd_sensor \<Rightarrow> 'w \<Rightarrow> u32" where
  "read_temperature env s w =
     (let (ret, temp) = sysfs_read_int env (se_path s) (if se_thermal_sysfs s then ''temp'' else [])
            (te_garbage env ''temp'' w) w;
          temp = (if ret < 0 \<or> temp < 0 then 0 else temp)
      in of_int temp div se_scale s)"

definition enable_uevent :: "'w thd_env \<Rightarrow> cthd_sensor \<Rightarrow> 'w \<Rightarrow> 'w" where
  "enable_uevent env s w =
     (let policy = ''thermal_zone'' @ show_int (se_index s) @ ''/policy''
      in if sysfs_exists env ''/sys/class/thermal/'' policy w
         then snd (sysfs_write_str env ''/sys/class/thermal/'' policy ''user_space'' w) else w)"

definition set_threshold :: "'w thd_env \<Rightarrow> int \<Rightarrow> int \<Rightarrow> u32 \<Rightarrow> cthd_sensor \<Rightarrow> 'w \<Rightarrow> int \<times> 'w" where
  "set_threshold env poll_interval index temp s w =
     (if \<not> se_thermal_sysfs s then (THD_ERROR, w)
      else if poll_interval \<noteq> 0 then (THD_SUCCESS, w)
      else if \<not> async_capable s then (THD_ERROR, w)
      else (let tcdev = ''trip_point_'' @ show_int index @ ''_temp'';
                (status, w) = (if sysfs_exists env (se_path s) tcdev w
                   then sysfs_write_str env (se_path s) tcdev (show_int (sint temp)) w else (0, w))
        in if 0 < status then (THD_SUCCESS, enable_uevent env s w) else (THD_ERROR, w)))"

section \<open>thd\_trip\_point.h\<close>

datatype trip_point_type_t = CRITICAL | HOT | TRIP_MAX | PASSIVE | ACTIVE | POLLING | INVALID_TRIP_TYPE

datatype trip_control_type_t = PARALLEL | SEQUENTIAL

datatype trip_point_cdev_depend_rel_t = EQUAL | GREATER | LESSER | LESSER_OR_EQUAL | GREATER_OR_EQUAL

record trip_pt_cdev_t =
  tc_cdev :: nat
  influence :: int
  sampling_priod :: int
  last_op_time :: int
  target_state_valid :: bool
  target_state :: int
  tc_pid_param :: pid_param_t
  tc_pid :: cthd_pid
  min_max_valid :: bool
  tc_min_state :: int
  tc_max_state :: int

record cthd_trip_point =
  tp_index :: int
  tp_type :: trip_point_type_t
  tp_temp :: u32
  tp_hyst :: u32
  tp_cdevs :: "trip_pt_cdev_t list"
  control_type :: trip_control_type_t
  tp_zone_id :: int
  tp_sensor_id :: int
  trip_on :: bool
  poll_on :: bool
  depend_cdev :: "nat option"
  depend_cdev_state :: int
  depend_cdev_state_rel :: trip_point_cdev_depend_rel_t
  crit_trip_count :: nat

definition DEFAULT_SENSOR_ID :: int where "DEFAULT_SENSOR_ID = 0xFFFF"
definition consecutive_critical_events :: nat where "consecutive_critical_events = 4"

definition cthd_trip_point_new :: "int \<Rightarrow> trip_point_type_t \<Rightarrow> u32 \<Rightarrow> u32 \<Rightarrow> int \<Rightarrow> int \<Rightarrow> trip_control_type_t \<Rightarrow> cthd_trip_point" where
  "cthd_trip_point_new index type temp hyst zone_id sensor_id control = \<lparr>tp_index = index, tp_type = type,
     tp_temp = temp, tp_hyst = hyst, tp_cdevs = [], control_type = control, tp_zone_id = zone_id,
     tp_sensor_id = sensor_id, trip_on = False, poll_on = False, depend_cdev = None, depend_cdev_state = 0,
     depend_cdev_state_rel = EQUAL, crit_trip_count = 0\<rparr>"

text \<open>Two devices of one type count as the same; \<open>cdev_type\<close> gives the type of a device.\<close>

definition trip_cdev_add :: "(nat \<Rightarrow> string) \<Rightarrow> trip_pt_cdev_t \<Rightarrow> cthd_trip_point \<Rightarrow> cthd_trip_point" where
  "trip_cdev_add cdev_type tc tp =
     (let same = (\<lambda>x. cdev_type (tc_cdev x) = cdev_type (tc_cdev tc));
          cs = tp_cdevs tp;
          cs = (if list_ex same cs
                then takeWhile (\<lambda>x. \<not> same x) cs @
                     (hd (dropWhile (\<lambda>x. \<not> same x) cs))\<lparr>influence := influence tc\<rparr> # tl (dropWhile (\<lambda>x. \<not> same x) cs)
                else cs @ [tc])
      in tp\<lparr>tp_cdevs := sort_key (\<lambda>x. - influence x) cs\<rparr>)"

definition no_pid_param :: pid_param_t where
  "no_pid_param = \<lparr>pid_valid = False, pid_kp = 0, pid_ki = 0, pid_kd = 0\<rparr>"

definition thd_trip_point_add_cdev ::
  "(nat \<Rightarrow> string) \<Rightarrow> nat \<Rightarrow> int \<Rightarrow> int \<Rightarrow> bool \<Rightarrow> int \<Rightarrow> pid_param_t option \<Rightarrow> bool \<Rightarrow> int \<Rightarrow> int \<Rightarrow>
   cthd_trip_point \<Rightarrow> cthd_trip_point" where
  "thd_trip_point_add_cdev cdev_type cdev infl sampling_period tsv ts pid_param mmv mn mx tp =
     (let valid = (case pid_param of None \<Rightarrow> False | Some p \<Rightarrow> pid_valid p);
          p = (if valid then the pid_param else no_pid_param)
      in trip_cdev_add cdev_type \<lparr>tc_cdev = cdev, influence = infl, sampling_priod = sampling_period, last_op_time = 0,
           target_state_valid = tsv, target_state = ts, tc_pid_param = p,
           tc_pid = (if valid then set_pid_param (pid_kp p) (pid_ki p) (pid_kd p) cthd_pid_new else cthd_pid_new),
           min_max_valid = mmv, tc_min_state = (if mmv then mn else 0), tc_max_state = (if mmv then mx else 0)\<rparr> tp)"

text \<open>\<^verbatim>\<open>compare(0, n, text)\<close> is zero.\<close>

definition compares :: "string \<Rightarrow> nat \<Rightarrow> string \<Rightarrow> bool" where
  "compares s n t \<longleftrightarrow> take n s = t"

definition list_index :: "('a \<Rightarrow> bool) \<Rightarrow> 'a list \<Rightarrow> nat option" where
  "list_index P xs = List.find (\<lambda>i. P (xs ! i)) [0..<length xs]"

definition search_cdev :: "string \<Rightarrow> thd_engine \<Rightarrow> nat option" where
  "search_cdev name en = list_index (\<lambda>c. cd_type_str c = name \<or> cd_alias c = name) (en_cdevs en)"

definition thd_get_cdev_at_index :: "int \<Rightarrow> thd_engine \<Rightarrow> nat option" where
  "thd_get_cdev_at_index index en = list_index (\<lambda>c. cd_index c = index) (en_cdevs en)"

definition search_sensor :: "string \<Rightarrow> thd_engine \<Rightarrow> nat option" where
  "search_sensor name en =
     list_index (\<lambda>s. se_type_str s = name \<or> compares name 4 ''pch_'' \<and> compares (se_type_str s) 4 ''pch_'') (en_sensors en)"

definition cdev_type_of :: "thd_engine \<Rightarrow> nat \<Rightarrow> string" where
  "cdev_type_of en i = cd_type_str (en_cdevs en ! i)"

definition thd_trip_point_add_cdev_index :: "thd_engine \<Rightarrow> int \<Rightarrow> int \<Rightarrow> cthd_trip_point \<Rightarrow> int \<times> cthd_trip_point" where
  "thd_trip_point_add_cdev_index en index infl tp = (case thd_get_cdev_at_index index en of
     None \<Rightarrow> (THD_ERROR, tp)
   | Some i \<Rightarrow> (THD_SUCCESS, trip_cdev_add (cdev_type_of en) \<lparr>tc_cdev = i, influence = infl, sampling_priod = 0,
       last_op_time = 0, target_state_valid = False, target_state = 0, tc_pid_param = no_pid_param, tc_pid = cthd_pid_new,
       min_max_valid = False, tc_min_state = 0, tc_max_state = 0\<rparr> tp))"

text \<open>A later test overrides an earlier one; with none the relation stays.\<close>

definition parse_dependency :: "string \<Rightarrow> trip_point_cdev_depend_rel_t \<Rightarrow> trip_point_cdev_depend_rel_t \<times> nat" where
  "parse_dependency s rel =
     (let r = (if compares s 2 ''=='' then (EQUAL, 2) else (rel, 0));
          r = (if compares s 1 ''>'' then (GREATER, 1) else r);
          r = (if compares s 1 ''<'' then (LESSER, 1) else r);
          r = (if compares s 2 ''<='' then (LESSER_OR_EQUAL, 2) else r)
      in if compares s 2 ''>='' then (GREATER_OR_EQUAL, 2) else r)"

definition set_dependency :: "thd_engine \<Rightarrow> string \<Rightarrow> string \<Rightarrow> cthd_trip_point \<Rightarrow> cthd_trip_point" where
  "set_dependency en cdev state_str tp = (case search_cdev cdev en of
     None \<Rightarrow> tp
   | Some i \<Rightarrow> (let (rel, n) = parse_dependency state_str (depend_cdev_state_rel tp)
       in tp\<lparr>depend_cdev := Some i, depend_cdev_state_rel := rel, depend_cdev_state := atoi (drop n state_str)\<rparr>))"

section \<open>Checking a trip point\<close>

definition depend_holds :: "trip_point_cdev_depend_rel_t \<Rightarrow> int \<Rightarrow> int \<Rightarrow> bool" where
  "depend_holds rel state wanted = (case rel of EQUAL \<Rightarrow> state = wanted | GREATER \<Rightarrow> wanted < state
     | LESSER \<Rightarrow> state < wanted | LESSER_OR_EQUAL \<Rightarrow> state \<le> wanted | GREATER_OR_EQUAL \<Rightarrow> wanted \<le> state)"

text \<open>The request a trip makes of one of its devices.\<close>

definition trip_request :: "cthd_trip_point \<Rightarrow> u32 \<Rightarrow> bool \<Rightarrow> cthd_cdev \<Rightarrow> trip_pt_cdev_t \<Rightarrow> state_request" where
  "trip_request tp read_temp state c tc = \<lparr>rq_target_temp = tp_temp tp, rq_temperature = read_temp,
     rq_hard_target = (tp_type tp = TRIP_MAX), rq_state = state, rq_zone = tp_zone_id tp, rq_trip = tp_index tp,
     rq_target_state_valid = target_state_valid tc,
     rq_target_value = map_target_state c (target_state_valid tc) (target_state tc),
     rq_pid_param = Some (tc_pid_param tc), rq_force = False, rq_min_max_valid = min_max_valid tc,
     rq_min_state = tc_min_state tc, rq_max_state = tc_max_state tc\<rparr>"

definition trip_set_state ::
  "'w thd_env \<Rightarrow> cthd_trip_point \<Rightarrow> u32 \<Rightarrow> bool \<Rightarrow> trip_pt_cdev_t \<Rightarrow> thd_engine \<Rightarrow> 'w \<Rightarrow> trip_pt_cdev_t \<times> thd_engine \<times> 'w" where
  "trip_set_state env tp read_temp state tc en w =
     (let c = en_cdevs en ! tc_cdev tc;
          tc = (if target_state tc = TRIP_PT_INVALID_TARGET_STATE then tc\<lparr>target_state := min_state c\<rparr> else tc);
          (c, pid, m, w) = thd_cdev_set_state env (trip_request tp read_temp state c tc) c (tc_pid tc) (en_meter en) w
      in (tc\<lparr>tc_pid := pid\<rparr>, en\<lparr>en_cdevs := (en_cdevs en)[tc_cdev tc := c], en_meter := m\<rparr>, w))"

text \<open>Whether a device is at one of its limits; asking may refresh what the object remembers.\<close>

definition cdev_at :: "('w thd_env \<Rightarrow> cthd_cdev \<Rightarrow> 'w \<Rightarrow> bool \<times> cthd_cdev) \<Rightarrow> 'w thd_env \<Rightarrow> nat \<Rightarrow> thd_engine \<Rightarrow> 'w \<Rightarrow> bool \<times> thd_engine" where
  "cdev_at test env i en w =
     (let (b, c) = test env (en_cdevs en ! i) w in (b, en\<lparr>en_cdevs := (en_cdevs en)[i := c]\<rparr>))"

fun trip_on_loop ::
  "'w thd_env \<Rightarrow> cthd_trip_point \<Rightarrow> u32 \<Rightarrow> trip_pt_cdev_t list \<Rightarrow> thd_engine \<Rightarrow> 'w \<Rightarrow> trip_pt_cdev_t list \<times> thd_engine \<times> 'w" where
  "trip_on_loop env tp read_temp [] en w = ([], en, w)"
| "trip_on_loop env tp read_temp (tc # tcs) en w =
     (let tm = te_time env w in
      if sampling_priod tc \<noteq> 0 \<and> tm - last_op_time tc < sampling_priod tc then (tc # tcs, en, w)
      else
       (let tc = (if sampling_priod tc \<noteq> 0 then tc\<lparr>last_op_time := tm\<rparr> else tc);
            (top, en) = cdev_at in_max_state env (tc_cdev tc) en w;
            (tc, en, w) = (if top then (tc, en, w) else trip_set_state env tp read_temp True tc en w)
        in if \<not> top \<and> control_type tp = SEQUENTIAL then (tc # tcs, en, w)
           else (let (tcs, en, w) = trip_on_loop env tp read_temp tcs en w in (tc # tcs, en, w))))"

text \<open>Over the devices from the last to the first.\<close>

fun trip_off_loop ::
  "'w thd_env \<Rightarrow> cthd_trip_point \<Rightarrow> u32 \<Rightarrow> trip_pt_cdev_t list \<Rightarrow> thd_engine \<Rightarrow> 'w \<Rightarrow> trip_pt_cdev_t list \<times> thd_engine \<times> 'w" where
  "trip_off_loop env tp read_temp [] en w = ([], en, w)"
| "trip_off_loop env tp read_temp (tc # tcs) en w =
     (let (bottom, en) = cdev_at in_min_state env (tc_cdev tc) en w;
          (tc, en, w) = (if bottom then (tc, en, w) else trip_set_state env tp read_temp False tc en w)
      in if \<not> bottom \<and> control_type tp = SEQUENTIAL then (tc # tcs, en, w)
         else (let (tcs, en, w) = trip_off_loop env tp read_temp tcs en w in (tc # tcs, en, w)))"

text \<open>The critical and the hot trip act on the fifth reading in a row.\<close>

definition trip_critical :: "'w thd_env \<Rightarrow> u32 \<Rightarrow> ('w \<Rightarrow> 'w) \<Rightarrow> cthd_trip_point \<Rightarrow> thd_engine \<Rightarrow> 'w \<Rightarrow> bool \<times> cthd_trip_point \<times> 'w" where
  "trip_critical env read_temp action tp en w =
     (if \<not> ignore_critical en \<and> tp_temp tp \<le> read_temp
      then (if crit_trip_count tp < consecutive_critical_events
            then (True, tp\<lparr>crit_trip_count := crit_trip_count tp + 1\<rparr>, w)
            else (True, tp\<lparr>crit_trip_count := 0\<rparr>, action w))
      else (False, tp\<lparr>crit_trip_count := 0\<rparr>, w))"

definition get_sensor :: "thd_engine \<Rightarrow> int \<Rightarrow> cthd_sensor option" where
  "get_sensor en index = (if 0 \<le> index \<and> index < int (length (en_sensors en)) then Some (en_sensors en ! nat index) else None)"

definition trip_polling :: "'w thd_env \<Rightarrow> u32 \<Rightarrow> cthd_trip_point \<Rightarrow> thd_engine \<Rightarrow> 'w \<Rightarrow> bool \<times> cthd_trip_point \<times> thd_engine \<times> 'w" where
  "trip_polling env read_temp tp en w = (case get_sensor en (tp_sensor_id tp) of
     None \<Rightarrow> (False, tp, en, w)
   | Some s \<Rightarrow>
       (let threshold = (\<lambda>w. if async_capable s then snd (set_threshold env (poll_interval_sec en) 0 (tp_temp tp) s w) else w)
        in if \<not> poll_on tp \<and> tp_temp tp \<le> read_temp
           then (False, tp\<lparr>poll_on := True\<rparr>,
                 send_message (FAST_POLL_ENABLE (se_index s)) (send_message (POLL_ENABLE (se_index s)) en), threshold w)
           else if poll_on tp \<and> read_temp < tp_temp tp
           then (True, tp\<lparr>poll_on := False\<rparr>,
                 send_message (FAST_POLL_DISABLE (se_index s)) (send_message (POLL_DISABLE (se_index s)) en), threshold w)
           else (False, tp, en, w)))"

definition PREF_ENERGY_CONSERVE :: int where "PREF_ENERGY_CONSERVE = 0"
definition PREF_PERFORMANCE :: int where "PREF_PERFORMANCE = 1"
definition PREF_DISABLED :: int where "PREF_DISABLED = 2"

text \<open>Whether the preference makes the trip apply.\<close>

definition trip_applies :: "int \<Rightarrow> trip_point_type_t \<Rightarrow> bool" where
  "trip_applies pref type \<longleftrightarrow> pref = PREF_PERFORMANCE \<and> (type = ACTIVE \<or> type = TRIP_MAX) \<or>
     pref = PREF_ENERGY_CONSERVE \<and> (type = PASSIVE \<or> type = TRIP_MAX)"

definition trip_switch :: "'w thd_env \<Rightarrow> u32 \<Rightarrow> cthd_trip_point \<Rightarrow> thd_engine \<Rightarrow> 'w \<Rightarrow> cthd_trip_point \<times> thd_engine \<times> 'w" where
  "trip_switch env read_temp tp en w =
     (if tp_temp tp \<le> read_temp
      then (let (cs, en, w) = trip_on_loop env tp read_temp (tp_cdevs tp) en w
        in (tp\<lparr>trip_on := True, tp_cdevs := cs\<rparr>, en, w))
      else if trip_on tp \<and> read_temp + tp_hyst tp < tp_temp tp \<or> \<not> trip_on tp \<and> read_temp < tp_temp tp
      then (let (cs, en, w) = trip_off_loop env tp read_temp (rev (tp_cdevs tp)) en w
        in (tp\<lparr>trip_on := False, tp_cdevs := rev cs\<rparr>, en, w))
      else (tp, en, w))"

text \<open>The result: \<^verbatim>\<open>*reset\<close>, the trip, the engine and the world.\<close>

definition thd_trip_point_check ::
  "'w thd_env \<Rightarrow> int \<Rightarrow> u32 \<Rightarrow> int \<Rightarrow> cthd_trip_point \<Rightarrow> thd_engine \<Rightarrow> 'w \<Rightarrow> bool \<times> cthd_trip_point \<times> thd_engine \<times> 'w" where
  "thd_trip_point_check env id' read_temp pref tp en w =
     (if tp_type tp = INVALID_TRIP_TYPE then (False, tp, en, w)
      else
       (let (valid, en) = (case depend_cdev tp of None \<Rightarrow> (True, en)
              | Some i \<Rightarrow> if tp_temp tp \<le> read_temp
                  then (case get_curr_state env (en_cdevs en ! i) w of (s, c) \<Rightarrow>
                    (depend_holds (depend_cdev_state_rel tp) s (depend_cdev_state tp), en\<lparr>en_cdevs := (en_cdevs en)[i := c]\<rparr>))
                  else (True, en))
        in if \<not> valid then (False, tp, en, w)
           else if tp_sensor_id tp \<noteq> DEFAULT_SENSOR_ID \<and> tp_sensor_id tp \<noteq> id' then (False, tp, en, w)
           else
            (let (acted, tp, w) = (if tp_type tp = CRITICAL then trip_critical env read_temp (te_power_off env) tp en w
                   else if tp_type tp = HOT
                   then trip_critical env read_temp (\<lambda>w. snd (sysfs_write_str env ''/sys/power/'' ''state'' ''mem'' w)) tp en w
                   else (False, tp, w))
             in if acted then (False, tp, en, w)
                else if tp_type tp = POLLING \<and> tp_sensor_id tp \<noteq> DEFAULT_SENSOR_ID then trip_polling env read_temp tp en w
                else if \<not> trip_applies pref (tp_type tp) then (False, tp, en, w)
                else (False, trip_switch env read_temp tp en w))))"

text \<open>Over the devices from the last to the first.\<close>

fun reset_loop :: "'w thd_env \<Rightarrow> bool \<Rightarrow> int \<Rightarrow> int \<Rightarrow> trip_pt_cdev_t list \<Rightarrow> thd_engine \<Rightarrow> 'w \<Rightarrow> thd_engine \<times> 'w" where
  "reset_loop env force zone_id index [] en w = (en, w)"
| "reset_loop env force zone_id index (tc # tcs) en w =
     (let (bottom, en) = (if force then (False, en) else cdev_at in_min_state env (tc_cdev tc) en w);
          (en, w) = (if bottom then (en, w)
            else (case thd_cdev_set_min_state env zone_id index (en_cdevs en ! tc_cdev tc) (en_meter en) w of
              (c, m, w) \<Rightarrow> (en\<lparr>en_cdevs := (en_cdevs en)[tc_cdev tc := c], en_meter := m\<rparr>, w)))
      in reset_loop env force zone_id index tcs en w)"

definition thd_trip_cdev_state_reset :: "'w thd_env \<Rightarrow> bool \<Rightarrow> cthd_trip_point \<Rightarrow> thd_engine \<Rightarrow> 'w \<Rightarrow> thd_engine \<times> 'w" where
  "thd_trip_cdev_state_reset env force tp en w =
     reset_loop env force (tp_zone_id tp) (tp_index tp) (rev (tp_cdevs tp)) en w"

end
