(* ===== verification/Thd_Zone.thy ===== *)
theory Thd_Zone
  imports Thd_Trip
begin

text \<open>
  Thermal zones (\<^verbatim>\<open>thd_zone.cpp\<close>, \<^verbatim>\<open>thd_zone.h\<close>) and two classes derived from them: zones of the thermal
  sysfs (\<^verbatim>\<open>thd_zone_therm_sys_fs.cpp\<close>) and zones added by a user (\<^verbatim>\<open>thd_zone_dynamic.cpp\<close>). Sensors are positions
  in the engine's list; virtual sensors are not modelled. An object is the record of the base class
  with the fields of its class as \<open>zn_class\<close>.
\<close>

datatype sensor_relate_t = SENSOR_INDEPENDENT | SENSORS_CORELATED

datatype zone_class =
    Zone_sysfs (trip_point_cnt: int) (initial_trip_values: "int list")
  | Zone_dynamic (dyn_trip_temp: u32) (dyn_trip_type: trip_point_type_t) (dyn_sensor: string) (dyn_cdev: string)

record cthd_zone =
  zn_index :: int
  zn_path :: string
  trip_points :: "cthd_trip_point list"
  zone_temp :: u32
  zone_active :: bool
  zone_cdev_binded_status :: bool
  zn_type_str :: string
  zn_sensors :: "nat list"
  sensor_rel :: sensor_relate_t
  zn_class :: zone_class

definition bind_sensor :: "nat \<Rightarrow> cthd_zone \<Rightarrow> cthd_zone" where
  "bind_sensor s z = (if s \<in> set (zn_sensors z) then z else z\<lparr>zn_sensors := zn_sensors z @ [s]\<rparr>)"

definition check_sensor_async_status :: "thd_engine \<Rightarrow> cthd_zone \<Rightarrow> bool" where
  "check_sensor_async_status en z \<longleftrightarrow> list_all (\<lambda>s. async_capable (en_sensors en ! s)) (zn_sensors z)"

section \<open>A change of temperature\<close>

text \<open>From the last trip to the first.\<close>

fun zone_reset_loop :: "'w thd_env \<Rightarrow> bool \<Rightarrow> cthd_trip_point list \<Rightarrow> thd_engine \<Rightarrow> 'w \<Rightarrow> thd_engine \<times> 'w" where
  "zone_reset_loop env force [] en w = (en, w)"
| "zone_reset_loop env force (tp # tps) en w =
     (let (en, w) = thd_trip_cdev_state_reset env force tp en w in zone_reset_loop env force tps en w)"

definition zone_reset :: "'w thd_env \<Rightarrow> bool \<Rightarrow> cthd_zone \<Rightarrow> thd_engine \<Rightarrow> 'w \<Rightarrow> thd_engine \<times> 'w" where
  "zone_reset env force z en w =
     (if zone_active z then zone_reset_loop env force (rev (trip_points z)) en w else (en, w))"

text \<open>The loop ends at the first trip that asks for a reset.\<close>

fun temp_change_loop ::
  "'w thd_env \<Rightarrow> int \<Rightarrow> u32 \<Rightarrow> int \<Rightarrow> cthd_trip_point list \<Rightarrow> thd_engine \<Rightarrow> 'w \<Rightarrow>
   bool \<times> cthd_trip_point list \<times> thd_engine \<times> 'w" where
  "temp_change_loop env id' temp pref [] en w = (False, [], en, w)"
| "temp_change_loop env id' temp pref (tp # tps) en w =
     (let (reset, tp, en, w) = thd_trip_point_check env id' temp pref tp en w
      in if reset then (True, tp # tps, en, w)
         else (let (reset, tps, en, w) = temp_change_loop env id' temp pref tps en w in (reset, tp # tps, en, w)))"

definition thermal_zone_temp_change ::
  "'w thd_env \<Rightarrow> int \<Rightarrow> u32 \<Rightarrow> int \<Rightarrow> cthd_zone \<Rightarrow> thd_engine \<Rightarrow> 'w \<Rightarrow> cthd_zone \<times> thd_engine \<times> 'w" where
  "thermal_zone_temp_change env id' temp pref z en w =
     (let (reset, tps, en, w) = temp_change_loop env id' temp pref (trip_points z) en w;
          z = z\<lparr>trip_points := tps\<rparr>;
          (en, w) = (if reset then zone_reset env False z en w else (en, w))
      in (z, en, w))"

fun read_zone_loop ::
  "'w thd_env \<Rightarrow> nat list \<Rightarrow> cthd_zone \<Rightarrow> thd_engine \<Rightarrow> 'w \<Rightarrow> cthd_zone \<times> thd_engine \<times> 'w" where
  "read_zone_loop env [] z en w = (z, en, w)"
| "read_zone_loop env (s # ss) z en w =
     (let sensor = en_sensors en ! s;
          temp = read_temperature env sensor w;
          z = (if zone_temp z < temp then z\<lparr>zone_temp := temp\<rparr> else z);
          (z, en, w) = (if sensor_rel z = SENSOR_INDEPENDENT
             then thermal_zone_temp_change env (se_index sensor) temp (en_preference en) z en w else (z, en, w))
      in read_zone_loop env ss z en w)"

definition read_zone_temp :: "'w thd_env \<Rightarrow> cthd_zone \<Rightarrow> thd_engine \<Rightarrow> 'w \<Rightarrow> cthd_zone \<times> thd_engine \<times> 'w" where
  "read_zone_temp env z en w =
     (if \<not> zone_active z then (z, en, w)
      else (let (z, en, w) = read_zone_loop env (zn_sensors z) (z\<lparr>zone_temp := 0\<rparr>) en w
        in if sensor_rel z = SENSORS_CORELATED \<and> zone_temp z \<noteq> 0
           then thermal_zone_temp_change env (se_index (en_sensors en ! hd (zn_sensors z))) (zone_temp z) (en_preference en) z en w
           else (z, en, w)))"

definition zone_temperature_notification ::
  "'w thd_env \<Rightarrow> cthd_zone \<Rightarrow> thd_engine \<Rightarrow> 'w \<Rightarrow> cthd_zone \<times> thd_engine \<times> 'w" where
  "zone_temperature_notification env z en w = read_zone_temp env z en w"

text \<open>One pass over the sensors; the first pass reports a temperature of zero.\<close>

fun preference_loop ::
  "'w thd_env \<Rightarrow> bool \<Rightarrow> nat list \<Rightarrow> cthd_zone \<Rightarrow> thd_engine \<Rightarrow> 'w \<Rightarrow> cthd_zone \<times> thd_engine \<times> 'w" where
  "preference_loop env first [] z en w = (z, en, w)"
| "preference_loop env first (s # ss) z en w =
     (let sensor = en_sensors en ! s;
          z = z\<lparr>zone_temp := read_temperature env sensor w\<rparr>;
          (z, en, w) = thermal_zone_temp_change env (se_index sensor) (if first then 0 else zone_temp z) (en_preference en) z en w
      in preference_loop env first ss z en w)"

definition update_zone_preference :: "'w thd_env \<Rightarrow> cthd_zone \<Rightarrow> thd_engine \<Rightarrow> 'w \<Rightarrow> cthd_zone \<times> thd_engine \<times> 'w" where
  "update_zone_preference env z en w =
     (if \<not> zone_active z then (z, en, w)
      else (let (z, en, w) = preference_loop env True (zn_sensors z) z en w
        in preference_loop env False (zn_sensors z) z en w))"

section \<open>Changing the trips\<close>

text \<open>Replaces the first element that satisfies \<open>P\<close>.\<close>

fun update_first :: "('a \<Rightarrow> bool) \<Rightarrow> ('a \<Rightarrow> 'a) \<Rightarrow> 'a list \<Rightarrow> 'a list" where
  "update_first P f [] = []"
| "update_first P f (x # xs) = (if P x then f x # xs else x # update_first P f xs)"

fun remove_first :: "('a \<Rightarrow> bool) \<Rightarrow> 'a list \<Rightarrow> 'a list" where
  "remove_first P [] = []"
| "remove_first P (x # xs) = (if P x then xs else x # remove_first P xs)"

definition def_async_trip_offset :: u32 where "def_async_trip_offset = 5000"
definition def_async_trip_offset_pct :: u32 where "def_async_trip_offset_pct = 10"

definition poll_trip_temp :: "u32 \<Rightarrow> u32" where
  "poll_trip_temp polling_trip =
     (let poll_offset = polling_trip * def_async_trip_offset_pct div 100
      in polling_trip - (if poll_offset < def_async_trip_offset then def_async_trip_offset else poll_offset))"

fun poll_trip_loop :: "'w thd_env \<Rightarrow> u32 \<Rightarrow> nat list \<Rightarrow> cthd_zone \<Rightarrow> thd_engine \<Rightarrow> 'w \<Rightarrow> cthd_zone \<times> 'w" where
  "poll_trip_loop env polling_trip [] z en w = (z, w)"
| "poll_trip_loop env polling_trip (s # ss) z en w =
     (let sensor = en_sensors en ! s;
          w = snd (set_threshold env (poll_interval_sec en) 0 polling_trip sensor w);
          tp = cthd_trip_point_new (int (length (trip_points z))) POLLING polling_trip 0 (zn_index z) (se_index sensor) PARALLEL
      in poll_trip_loop env polling_trip ss (z\<lparr>trip_points := trip_points z @ [tp]\<rparr>) en w)"

definition sort_and_update_poll_trip :: "'w thd_env \<Rightarrow> cthd_zone \<Rightarrow> thd_engine \<Rightarrow> 'w \<Rightarrow> cthd_zone \<times> 'w" where
  "sort_and_update_poll_trip env z en w =
     (let z = z\<lparr>trip_points := remove_first (\<lambda>tp. tp_type tp = POLLING) (trip_points z)\<rparr>
      in if trip_points z = [] then (z, w)
         else (let z = z\<lparr>trip_points := sort_key tp_temp (trip_points z)\<rparr>
           in poll_trip_loop env (poll_trip_temp (tp_temp (hd (trip_points z)))) (zn_sensors z) z en w))"

definition bind_cooling_device ::
  "trip_point_type_t \<Rightarrow> u32 \<Rightarrow> nat \<Rightarrow> int \<Rightarrow> int \<Rightarrow> bool \<Rightarrow> int \<Rightarrow> bool \<Rightarrow> int \<Rightarrow> int \<Rightarrow> thd_engine \<Rightarrow> cthd_zone \<Rightarrow> int \<times> cthd_zone" where
  "bind_cooling_device type trip_temp cdev infl sampling_period tsv ts mmv mn mx en z =
     (let matches = (\<lambda>tp. tp_type tp = type \<and> 0 < tp_temp tp \<and> (trip_temp = 0 \<or> tp_temp tp = trip_temp))
      in if list_ex matches (trip_points z)
         then (THD_SUCCESS, z\<lparr>trip_points := update_first matches
                 (thd_trip_point_add_cdev (cdev_type_of en) cdev infl sampling_period tsv ts None mmv mn mx) (trip_points z),
               zone_cdev_binded_status := True\<rparr>)
         else (THD_ERROR, z))"

definition add_trip :: "'w thd_env \<Rightarrow> cthd_trip_point \<Rightarrow> bool \<Rightarrow> cthd_zone \<Rightarrow> thd_engine \<Rightarrow> 'w \<Rightarrow> cthd_zone \<times> 'w" where
  "add_trip env trip force z en w =
     (let same = (\<lambda>tp. tp_type tp = tp_type trip);
          tps = (if \<not> force \<and> list_ex same (trip_points z) then update_first same (\<lambda>_. trip) (trip_points z)
                 else trip_points z @ [trip])
      in sort_and_update_poll_trip env (z\<lparr>trip_points := tps\<rparr>) en w)"

definition retemper :: "cthd_trip_point \<Rightarrow> cthd_trip_point \<Rightarrow> cthd_trip_point" where
  "retemper trip tp = tp\<lparr>tp_temp := tp_temp trip, tp_hyst := tp_hyst trip\<rparr>"

text \<open>The loop from the last trip has no other end than a trip of the same type: without one it runs
  past the start of the array, here \<open>None\<close>.\<close>

definition update_highest_trip_temp ::
  "'w thd_env \<Rightarrow> cthd_trip_point \<Rightarrow> cthd_zone \<Rightarrow> thd_engine \<Rightarrow> 'w \<Rightarrow> (cthd_zone \<times> 'w) option" where
  "update_highest_trip_temp env trip z en w =
     (let same = (\<lambda>tp. tp_type tp = tp_type trip)
      in if trip_points z = [] then Some (z, w)
         else if \<not> list_ex same (trip_points z) then None
         else Some (sort_and_update_poll_trip env
           (z\<lparr>trip_points := rev (update_first same (retemper trip) (rev (trip_points z)))\<rparr>) en w))"

definition update_trip_temp :: "'w thd_env \<Rightarrow> cthd_trip_point \<Rightarrow> cthd_zone \<Rightarrow> thd_engine \<Rightarrow> 'w \<Rightarrow> cthd_zone \<times> 'w" where
  "update_trip_temp env trip z en w =
     sort_and_update_poll_trip env
       (z\<lparr>trip_points := update_first (\<lambda>tp. tp_type tp = tp_type trip) (retemper trip) (trip_points z)\<rparr>) en w"

section \<open>Files of the user\<close>

definition user_conf :: "'w thd_env \<Rightarrow> string \<Rightarrow> cthd_zone \<Rightarrow> string" where
  "user_conf env prefix z = te_rundir env @ ''/'' @ prefix @ zn_type_str z @ ''.'' @ ''conf''"

definition read_user_set_psv_temp :: "'w thd_env \<Rightarrow> cthd_zone \<Rightarrow> 'w \<Rightarrow> int" where
  "read_user_set_psv_temp env z w =
     (let temp = ifstream_int env (user_conf env ''thd_user_psv_temp.'' z) (- 1) (- 1) w
      in if temp < 1000 then - 1 else temp)"

definition update_max_temperature :: "'w thd_env \<Rightarrow> int \<Rightarrow> cthd_zone \<Rightarrow> 'w \<Rightarrow> int \<times> 'w" where
  "update_max_temperature env max_temp z w =
     (case te_ostream env (user_conf env ''thd_user_set_max.'' z) (show_int max_temp) w of
        None \<Rightarrow> (THD_ERROR, w) | Some w \<Rightarrow> (THD_SUCCESS, w))"

definition update_psv_temperature :: "'w thd_env \<Rightarrow> int \<Rightarrow> cthd_zone \<Rightarrow> 'w \<Rightarrow> int \<times> 'w" where
  "update_psv_temperature env psv_temp z w =
     (case te_ostream env (user_conf env ''thd_user_psv_temp.'' z) (show_int psv_temp) w of
        None \<Rightarrow> (THD_ERROR, w) | Some w \<Rightarrow> (THD_SUCCESS, w))"

section \<open>thd\_zone\_therm\_sys\_fs.cpp\<close>

definition max_trip_points :: nat where "max_trip_points = 50"
definition zone_max_cool_devs :: nat where "zone_max_cool_devs = 50"

definition zone_attr :: "cthd_zone \<Rightarrow> string \<Rightarrow> nat \<Rightarrow> string \<Rightarrow> string" where
  "zone_attr z prefix i name = show_int (zn_index z) @ ''/'' @ prefix @ show_nat i @ name"

definition cthd_sysfs_zone_new :: "'w thd_env \<Rightarrow> int \<Rightarrow> string \<Rightarrow> 'w \<Rightarrow> cthd_zone" where
  "cthd_sysfs_zone_new env count path w =
     (let type_attr = show_int count @ ''/type''
      in \<lparr>zn_index = count, zn_path = path, trip_points = [], zone_temp = 0, zone_active = False,
          zone_cdev_binded_status = False,
          zn_type_str = (if sysfs_exists env path type_attr w
             then (case sysfs_read_str env path type_attr w of (ret, s) \<Rightarrow> if ret < 0 then [] else s) else []),
          zn_sensors = [], sensor_rel = SENSOR_INDEPENDENT, zn_class = Zone_sysfs 0 []\<rparr>)"

definition trip_type_of :: "string \<Rightarrow> trip_point_type_t" where
  "trip_type_of s = (if s = ''critical'' then CRITICAL else if s = ''hot'' then TRIP_MAX
     else if s = ''active'' then ACTIVE else if s = ''passive'' then PASSIVE else INVALID_TRIP_TYPE)"

text \<open>An integer attribute: \<open>Inl\<close> is a failed read.\<close>

definition read_if_there :: "'w thd_env \<Rightarrow> cthd_zone \<Rightarrow> string \<Rightarrow> int \<Rightarrow> 'w \<Rightarrow> int + int" where
  "read_if_there env z attr dflt w =
     (if \<not> sysfs_exists env (zn_path z) attr w then Inr dflt
      else (let (ret, v) = sysfs_read_int env (zn_path z) attr dflt w in if ret < 0 then Inl ret else Inr v))"

definition clamp_hyst :: "int \<Rightarrow> int" where
  "clamp_hyst hyst = (if hyst < 1000 \<or> 5000 < hyst then 1000 else hyst)"

text \<open>One turn of the loop, once the files are read. A trip that can be written is left to the polling
  trip and its value remembered.\<close>

definition sysfs_trip_add ::
  "trip_point_type_t \<Rightarrow> int \<Rightarrow> int \<Rightarrow> bool \<Rightarrow> int \<Rightarrow> int list \<Rightarrow> cthd_zone \<Rightarrow> thd_engine \<Rightarrow> cthd_zone \<times> thd_engine" where
  "sysfs_trip_add type temp hyst writable cnt vals z en =
     (case search_sensor (zn_type_str z) en of
        None \<Rightarrow> (z\<lparr>zn_class := Zone_sysfs cnt (vals @ [- 1])\<rparr>, en)
      | Some s \<Rightarrow>
          if writable
          then (z\<lparr>zn_class := Zone_sysfs cnt (vals @ [temp])\<rparr>,
                en\<lparr>en_sensors := (en_sensors en)[s := (en_sensors en ! s)\<lparr>async_capable := True\<rparr>]\<rparr>)
          else if 0 < temp \<and> type \<noteq> INVALID_TRIP_TYPE
          then (z\<lparr>zn_class := Zone_sysfs (cnt + 1) (vals @ [- 1]),
                  trip_points := trip_points z @ [cthd_trip_point_new cnt type (of_int temp) (of_int hyst) (zn_index z)
                    (se_index (en_sensors en ! s)) SEQUENTIAL]\<rparr>, en)
          else (z\<lparr>zn_class := Zone_sysfs cnt (vals @ [- 1])\<rparr>, en))"

fun sysfs_trip_loop ::
  "'w thd_env \<Rightarrow> nat list \<Rightarrow> cthd_zone \<Rightarrow> thd_engine \<Rightarrow> 'w \<Rightarrow> int option \<times> cthd_zone \<times> thd_engine" where
  "sysfs_trip_loop env [] z en w = (None, z, en)"
| "sysfs_trip_loop env (i # is) z en w =
     (let attr = zone_attr z ''trip_point_'' i;
          type_str = (if sysfs_exists env (zn_path z) (attr ''_type'') w
            then (case sysfs_read_str env (zn_path z) (attr ''_type'') w of (ret, s) \<Rightarrow> if ret < 0 then [] else s) else []);
          mode = (if sysfs_exists env (zn_path z) (attr ''_temp'') w then te_mode env (zn_path z @ attr ''_temp'') w else 0)
      in case read_if_there env z (attr ''_temp'') 0 w of
           Inl ret \<Rightarrow> (Some ret, z, en)
         | Inr temp \<Rightarrow>
            (case read_if_there env z (attr ''_hyst'') 1 w of
               Inl ret \<Rightarrow> (Some ret, z, en)
             | Inr h \<Rightarrow>
                (let hyst = (if sysfs_exists env (zn_path z) (attr ''_hyst'') w then clamp_hyst h else h);
                     (z, en) = sysfs_trip_add (trip_type_of type_str) temp hyst (odd (mode div 128))
                       (trip_point_cnt (zn_class z)) (initial_trip_values (zn_class z)) z en
                 in sysfs_trip_loop env is z en w)))"

definition sysfs_read_trip_points :: "'w thd_env \<Rightarrow> cthd_zone \<Rightarrow> thd_engine \<Rightarrow> 'w \<Rightarrow> int \<times> cthd_zone \<times> thd_engine" where
  "sysfs_read_trip_points env z en w =
     (case sysfs_trip_loop env [0..<max_trip_points] z en w of
        (Some ret, z, en) \<Rightarrow> (ret, z, en)
      | (None, z, en) \<Rightarrow>
          if trip_point_cnt (zn_class z) \<noteq> 0 then (THD_SUCCESS, z, en)
          else (case search_sensor (zn_type_str z) en of
            None \<Rightarrow> (THD_ERROR, z, en)
          | Some s \<Rightarrow> (THD_SUCCESS, z\<lparr>zn_class := Zone_sysfs 1 (initial_trip_values (zn_class z)),
              trip_points := trip_points z @ [cthd_trip_point_new 0 PASSIVE (2 ^ 31 - 1) 0 (zn_index z)
                (se_index (en_sensors en ! s)) SEQUENTIAL]\<rparr>, en)))"

text \<open>At most fifty bytes of the link are read.\<close>

definition sysfs_cdev_add :: "'w thd_env \<Rightarrow> nat \<Rightarrow> int \<Rightarrow> cthd_zone \<Rightarrow> thd_engine \<Rightarrow> 'w \<Rightarrow> cthd_zone" where
  "sysfs_cdev_add env i trip_cnt z en w =
     (if \<not> sysfs_exists env (zn_path z) (zone_attr z ''cdev'' i []) w then z
      else (case te_link env (zn_path z @ zone_attr z ''cdev'' i []) w of None \<Rightarrow> z
        | Some target \<Rightarrow> (case break_at ''cooling_device'' (take 50 target) of None \<Rightarrow> z
          | Some (_, ptr) \<Rightarrow>
              if 0 \<le> trip_cnt \<and> trip_cnt < trip_point_cnt (zn_class z)
              then z\<lparr>trip_points := (trip_points z)[nat trip_cnt :=
                       snd (thd_trip_point_add_cdev_index en (atoi ptr) 0 (trip_points z ! nat trip_cnt))],
                     zone_cdev_binded_status := True\<rparr>
              else z)))"

fun sysfs_cdev_loop :: "'w thd_env \<Rightarrow> nat list \<Rightarrow> cthd_zone \<Rightarrow> thd_engine \<Rightarrow> 'w \<Rightarrow> int \<times> cthd_zone" where
  "sysfs_cdev_loop env [] z en w = (THD_SUCCESS, z)"
| "sysfs_cdev_loop env (i # is) z en w =
     (if sysfs_exists env (zn_path z) (zone_attr z ''cdev'' i ''_trip_point'') w
      then (case read_if_there env z (zone_attr z ''cdev'' i ''_trip_point'') (- 1) w of
              Inl ret \<Rightarrow> (ret, z)
            | Inr trip_cnt \<Rightarrow> sysfs_cdev_loop env is (sysfs_cdev_add env i trip_cnt z en w) en w)
      else sysfs_cdev_loop env is z en w)"

definition sysfs_read_cdev_trip_points :: "'w thd_env \<Rightarrow> cthd_zone \<Rightarrow> thd_engine \<Rightarrow> 'w \<Rightarrow> int \<times> cthd_zone" where
  "sysfs_read_cdev_trip_points env z en w = sysfs_cdev_loop env [0..<zone_max_cool_devs] z en w"

fun restore_trips :: "'w thd_env \<Rightarrow> cthd_zone \<Rightarrow> nat \<Rightarrow> int list \<Rightarrow> 'w \<Rightarrow> 'w" where
  "restore_trips env z i [] w = w"
| "restore_trips env z i (v # vs) w =
     (let attr = zone_attr z ''trip_point_'' i ''_temp'';
          w = (if 0 \<le> v \<and> sysfs_exists env (zn_path z) attr w then snd (sysfs_write_int env (zn_path z) attr v w) else w)
      in restore_trips env z (Suc i) vs w)"

definition sysfs_zone_delete :: "'w thd_env \<Rightarrow> cthd_zone \<Rightarrow> 'w \<Rightarrow> 'w" where
  "sysfs_zone_delete env z w = (case zn_class z of
     Zone_sysfs cnt vals \<Rightarrow> restore_trips env z 0 vals w | Zone_dynamic t ty s c \<Rightarrow> w)"

section \<open>thd\_zone\_dynamic.cpp\<close>

definition cthd_zone_dynamic_new :: "int \<Rightarrow> string \<Rightarrow> u32 \<Rightarrow> trip_point_type_t \<Rightarrow> string \<Rightarrow> string \<Rightarrow> cthd_zone" where
  "cthd_zone_dynamic_new index name trip_temp type sensor cdev = \<lparr>zn_index = index, zn_path = [], trip_points = [],
     zone_temp = 0, zone_active = False, zone_cdev_binded_status = False, zn_type_str = name, zn_sensors = [],
     sensor_rel = SENSOR_INDEPENDENT, zn_class = Zone_dynamic trip_temp type sensor cdev\<rparr>"

definition dynamic_read_trip_points :: "u32 \<Rightarrow> trip_point_type_t \<Rightarrow> string \<Rightarrow> string \<Rightarrow> cthd_zone \<Rightarrow> thd_engine \<Rightarrow> int \<times> cthd_zone" where
  "dynamic_read_trip_points temp type sensor cdev z en =
     (case search_sensor sensor en of None \<Rightarrow> (THD_ERROR, z)
      | Some s \<Rightarrow> (case search_cdev cdev en of None \<Rightarrow> (THD_ERROR, z)
        | Some c \<Rightarrow> (THD_SUCCESS, z\<lparr>zone_cdev_binded_status := True, trip_points := trip_points z @
            [thd_trip_point_add_cdev (cdev_type_of en) c 0 0 False TRIP_PT_INVALID_TARGET_STATE None False 0 0
              (cthd_trip_point_new 0 type temp 0 (zn_index z) (se_index (en_sensors en ! s)) PARALLEL)]\<rparr>)))"

section \<open>Virtual functions and the set-up of a zone\<close>

definition zone_bind_sensors :: "cthd_zone \<Rightarrow> thd_engine \<Rightarrow> int \<times> cthd_zone" where
  "zone_bind_sensors z en =
     (case search_sensor (case zn_class z of Zone_sysfs cnt vals \<Rightarrow> zn_type_str z | Zone_dynamic t ty s c \<Rightarrow> s) en of
        None \<Rightarrow> (THD_ERROR, z) | Some s \<Rightarrow> (THD_SUCCESS, bind_sensor s z))"

definition read_trip_points :: "'w thd_env \<Rightarrow> cthd_zone \<Rightarrow> thd_engine \<Rightarrow> 'w \<Rightarrow> int \<times> cthd_zone \<times> thd_engine" where
  "read_trip_points env z en w = (case zn_class z of
     Zone_sysfs cnt vals \<Rightarrow> sysfs_read_trip_points env z en w
   | Zone_dynamic t ty s c \<Rightarrow> (case dynamic_read_trip_points t ty s c z en of (ret, z) \<Rightarrow> (ret, z, en)))"

definition read_cdev_trip_points :: "'w thd_env \<Rightarrow> cthd_zone \<Rightarrow> thd_engine \<Rightarrow> 'w \<Rightarrow> int \<times> cthd_zone" where
  "read_cdev_trip_points env z en w = (case zn_class z of
     Zone_sysfs cnt vals \<Rightarrow> sysfs_read_cdev_trip_points env z en w | Zone_dynamic t ty s c \<Rightarrow> (0, z))"

text \<open>\<open>None\<close>: see \<open>update_highest_trip_temp\<close>.\<close>

definition zone_update :: "'w thd_env \<Rightarrow> cthd_zone \<Rightarrow> thd_engine \<Rightarrow> 'w \<Rightarrow> (int \<times> cthd_zone \<times> thd_engine \<times> 'w) option" where
  "zone_update env z en w =
     (let (ret, z) = zone_bind_sensors z en
      in if ret \<noteq> THD_SUCCESS then Some (THD_ERROR, z, en, w)
         else (case read_trip_points env z en w of (ret, z, en) \<Rightarrow>
           if ret \<noteq> THD_SUCCESS then Some (THD_ERROR, z, en, w)
           else (let usr_psv_temp = read_user_set_psv_temp env z w
             in case (if 0 < usr_psv_temp
                      then update_highest_trip_temp env (cthd_trip_point_new 0 PASSIVE (of_int usr_psv_temp) 0 (zn_index z)
                             DEFAULT_SENSOR_ID PARALLEL) z en w
                      else Some (z, w)) of
                  None \<Rightarrow> None
                | Some (z, w) \<Rightarrow>
                    (let (z, w) = sort_and_update_poll_trip env (snd (read_cdev_trip_points env z en w)) en w
                     in Some (THD_SUCCESS, z, en, w)))))"

end
