(* ===== verification/Thd_Engine.thy ===== *)
theory Thd_Engine
  imports Thd_Zone
begin

text \<open>
  The engine of the thermal daemon (\<^verbatim>\<open>thd_engine.cpp\<close>): its thread, the messages it takes from the pipe,
  polling, the preference (\<^verbatim>\<open>thd_preference.cpp\<close>), taking thermal control over from the kernel and giving it back
  (\<^verbatim>\<open>thd_int3400.cpp\<close>), uevents (\<^verbatim>\<open>thd_kobj_uevent.cpp\<close>), and the requests of a user. The functions that the derived engines
  override are the fields of \<open>engine_methods\<close>. \<open>None\<close> stands for an access outside an array.
\<close>

record cthd_preference =
  preference :: int
  old_preference :: int

record cthd_engine =
  en_core :: thd_engine
  zones :: "cthd_zone list"
  en_uuid :: string
  poll_timeout_msec :: int
  control_exclusive :: bool
  en_status :: bool
  thz_last_uevent_time :: int
  thz_last_temp_ind_time :: int
  thz_last_update_event_time :: int
  terminated :: bool
  thd_pref :: cthd_preference
  poll_sensor_mask :: u32
  fast_poll_sensor_mask :: u32
  saved_poll_interval :: int
  zone_preferences :: "string list"
  thd_poll_interval :: int
  current_zone_index :: int
  current_sensor_index :: int
  current_cdev_index :: int

record 'w engine_methods =
  update_engine_state :: "cthd_engine \<Rightarrow> 'w \<Rightarrow> cthd_engine \<times> 'w"
  update_power_policies :: "cthd_engine \<Rightarrow> 'w \<Rightarrow> cthd_engine \<times> 'w"
  workarounds :: "cthd_engine \<Rightarrow> 'w \<Rightarrow> cthd_engine \<times> 'w"
  read_thermal_zones :: "cthd_engine \<Rightarrow> 'w \<Rightarrow> int \<times> cthd_engine \<times> 'w"

section \<open>thd\_preference.cpp\<close>

definition pref_file :: "'w thd_env \<Rightarrow> string" where
  "pref_file env = te_rundir env @ ''/'' @ ''thd_preference.conf''"

text \<open>The string is that of the current preference, whatever the argument.\<close>

definition int_pref_to_string :: "int \<Rightarrow> cthd_preference \<Rightarrow> string" where
  "int_pref_to_string pref p =
     (if preference p = PREF_PERFORMANCE then ''PERFORMANCE''
      else if preference p = PREF_ENERGY_CONSERVE then ''ENERGY_CONSERVE''
      else if preference p = PREF_DISABLED then ''DISABLE'' else ''INVALID'')"

definition string_pref_to_int :: "string \<Rightarrow> int" where
  "string_pref_to_int s =
     (if s = ''PERFORMANCE'' then PREF_PERFORMANCE else if s = ''ENERGY_CONSERVE'' then PREF_ENERGY_CONSERVE
      else if s = ''DISABLE'' then PREF_DISABLED else PREF_PERFORMANCE)"

definition pref_refresh :: "'w thd_env \<Rightarrow> cthd_preference \<Rightarrow> 'w \<Rightarrow> cthd_preference" where
  "pref_refresh env p w = p\<lparr>preference := ifstream_int env (pref_file env) (preference p) PREF_ENERGY_CONSERVE w\<rparr>"

definition cthd_preference_new :: "'w thd_env \<Rightarrow> 'w \<Rightarrow> cthd_preference" where
  "cthd_preference_new env w = pref_refresh env \<lparr>preference = PREF_ENERGY_CONSERVE, old_preference = 0\<rparr> w"

definition set_preference :: "'w thd_env \<Rightarrow> string \<Rightarrow> cthd_preference \<Rightarrow> 'w \<Rightarrow> bool \<times> cthd_preference \<times> 'w" where
  "set_preference env s p w =
     (case te_ostream env (pref_file env) (show_int (string_pref_to_int s)) w of
        None \<Rightarrow> (False, p, w)
      | Some w \<Rightarrow>
          (let p = p\<lparr>old_preference := preference p\<rparr>
           in case te_ostream env (pref_file env @ ''.save'') (show_int (old_preference p)) w of
                None \<Rightarrow> (False, p, w)
              | Some w \<Rightarrow> (True, p\<lparr>preference := ifstream_int env (pref_file env) (preference p) PREF_PERFORMANCE w\<rparr>, w)))"

definition get_old_preference :: "'w thd_env \<Rightarrow> cthd_preference \<Rightarrow> 'w \<Rightarrow> int \<times> cthd_preference" where
  "get_old_preference env p w =
     (let old = ifstream_int env (pref_file env @ ''.save'') (old_preference p) PREF_PERFORMANCE w
      in (old, p\<lparr>old_preference := old\<rparr>))"

text \<open>The constructor; \<open>m\<close> is the power meter.\<close>

definition cthd_engine_new :: "'w thd_env \<Rightarrow> rapl_meter \<Rightarrow> string \<Rightarrow> 'w \<Rightarrow> cthd_engine" where
  "cthd_engine_new env m uuid w =
     \<lparr>en_core = \<lparr>en_cdevs = [], en_sensors = [], en_meter = m, en_messages = [], poll_interval_sec = 0, en_preference = 0,
        ignore_critical = False\<rparr>,
      zones = [], en_uuid = uuid, poll_timeout_msec = - 1, control_exclusive = False, en_status = True, thz_last_uevent_time = 0,
      thz_last_temp_ind_time = 0, thz_last_update_event_time = 0, terminated = False, thd_pref = cthd_preference_new env w,
      poll_sensor_mask = 0, fast_poll_sensor_mask = 0, saved_poll_interval = 0, zone_preferences = [], thd_poll_interval = 4,
      current_zone_index = 0, current_sensor_index = 0, current_cdev_index = 0\<rparr>"

section \<open>thd\_int3400.cpp\<close>

definition int3400_base_path :: "'w thd_env \<Rightarrow> 'w \<Rightarrow> string" where
  "int3400_base_path env w =
     (let driver = ''/sys/bus/platform/drivers/int3400 thermal''
      in if \<not> sysfs_exists env [] driver w then []
         else (case te_dir env driver w of None \<Rightarrow> []
           | Some names \<Rightarrow> (case List.find (\<lambda>n. has_prefix n ''INT'') names of None \<Rightarrow> []
             | Some n \<Rightarrow> ''/sys/bus/platform/devices/'' @ n @ ''/'')))"

text \<open>The lines \<^verbatim>\<open>getline\<close> reads; a newline at the end starts no line.\<close>

fun getlines :: "string \<Rightarrow> string \<Rightarrow> string list" where
  "getlines acc [] = (if acc = [] then [] else [rev acc])"
| "getlines acc (c # cs) = (if c = CHR 0x0A then rev acc # getlines [] cs else getlines (c # acc) cs)"

definition match_supported_uuid :: "'w thd_env \<Rightarrow> string \<Rightarrow> 'w \<Rightarrow> int" where
  "match_supported_uuid env uuid w =
     (let base = int3400_base_path env w
      in if base = [] then THD_ERROR
         else (case te_stream env (base @ ''uuids/'' @ ''available_uuids'') w of None \<Rightarrow> THD_ERROR
           | Some s \<Rightarrow> if uuid \<in> set (getlines [] s) then THD_SUCCESS else THD_ERROR))"

definition ostream_or_skip :: "'w thd_env \<Rightarrow> string \<Rightarrow> string \<Rightarrow> 'w \<Rightarrow> 'w" where
  "ostream_or_skip env path s w = (case te_ostream env path s w of None \<Rightarrow> w | Some w \<Rightarrow> w)"

definition set_policy_osc :: "'w thd_env \<Rightarrow> 'w \<Rightarrow> int \<times> 'w" where
  "set_policy_osc env w =
     (let base = int3400_base_path env w
      in if base = [] then (THD_ERROR, w)
         else (case te_stream env (base @ ''uuids/'' @ ''available_uuids'') w of None \<Rightarrow> (THD_ERROR, w)
           | Some s \<Rightarrow> (case getlines [] s of [] \<Rightarrow> (THD_ERROR, w)
             | line # _ \<Rightarrow> if line = ''UNKNOWN''
                 then (THD_SUCCESS, ostream_or_skip env (base @ ''uuids/'' @ ''current_uuid'')
                         ''42A441D6-AE6A-462b-A84B-4A8CE79027D3'' w)
                 else (THD_ERROR, w))))"

definition set_default_uuid :: "'w thd_env \<Rightarrow> string \<Rightarrow> 'w \<Rightarrow> 'w" where
  "set_default_uuid env uuid w =
     (let base = int3400_base_path env w; (ret, w) = set_policy_osc env w
      in if ret = THD_SUCCESS \<or> base = [] then w
         else ostream_or_skip env (base @ ''uuids/'' @ ''current_uuid'') uuid w)"

section \<open>Taking control over\<close>

definition thermal_class :: string where "thermal_class = ''/sys/class/thermal/''"

definition zone_file :: "string \<Rightarrow> string \<Rightarrow> string" where
  "zone_file name attr = ''thermal_zone'' @ show_int (atoi (drop 12 name)) @ attr"

text \<open>The mode of the zone of type INT3400.\<close>

definition int3400_mode :: "'w thd_env \<Rightarrow> string \<Rightarrow> string \<Rightarrow> 'w \<Rightarrow> 'w" where
  "int3400_mode env name mode w =
     (if sysfs_exists env thermal_class (zone_file name ''/type'') w
      then (case sysfs_read_str env thermal_class (zone_file name ''/type'') w of (ret, type) \<Rightarrow>
        if 0 \<le> ret \<and> type = ''INT3400''
        then snd (sysfs_write_str env thermal_class (zone_file name ''/mode'') mode w) else w)
      else w)"

fun takeover_loop :: "'w thd_env \<Rightarrow> string list \<Rightarrow> string list \<Rightarrow> 'w \<Rightarrow> string list \<times> 'w" where
  "takeover_loop env [] prefs w = (prefs, w)"
| "takeover_loop env (name # names) prefs w =
     (if has_prefix name ''thermal_zone'' then
        (let policy = zone_file name ''/policy'';
             (prefs, w) = (if sysfs_exists env thermal_class policy w
                then (case sysfs_read_str env thermal_class policy w of (ret, curr_policy) \<Rightarrow>
                  if 0 \<le> ret then (prefs @ [curr_policy], snd (sysfs_write_str env thermal_class policy ''user_space'' w))
                  else (prefs, w))
                else (prefs, w))
         in takeover_loop env names prefs (int3400_mode env name ''enabled'' w))
      else takeover_loop env names prefs w)"

definition takeover_thermal_control :: "'w thd_env \<Rightarrow> cthd_engine \<Rightarrow> 'w \<Rightarrow> cthd_engine \<times> 'w" where
  "takeover_thermal_control env g w =
     (let w = set_default_uuid env (en_uuid g) w
      in case te_dir env thermal_class w of None \<Rightarrow> (g, w)
         | Some names \<Rightarrow> (let (prefs, w) = takeover_loop env names (zone_preferences g) w
             in (g\<lparr>zone_preferences := prefs\<rparr>, w)))"

fun giveup_loop :: "'w thd_env \<Rightarrow> string list \<Rightarrow> string list \<Rightarrow> 'w \<Rightarrow> 'w option" where
  "giveup_loop env [] prefs w = Some w"
| "giveup_loop env (name # names) prefs w =
     (if has_prefix name ''thermal_zone'' then
        (let policy = zone_file name ''/policy''
         in if sysfs_exists env thermal_class policy w
            then (case prefs of [] \<Rightarrow> None
              | p # ps \<Rightarrow> giveup_loop env names ps
                  (int3400_mode env name ''disabled'' (snd (sysfs_write_str env thermal_class policy p w))))
            else giveup_loop env names prefs (int3400_mode env name ''disabled'' w))
      else giveup_loop env names prefs w)"

definition giveup_thermal_control :: "'w thd_env \<Rightarrow> cthd_engine \<Rightarrow> 'w \<Rightarrow> 'w option" where
  "giveup_thermal_control env g w =
     (if \<not> control_exclusive g \<or> zone_preferences g = [] then Some w
      else (case te_dir env thermal_class w of None \<Rightarrow> Some w
        | Some names \<Rightarrow> giveup_loop env names (zone_preferences g) w))"

section \<open>Messages\<close>

fun zones_loop ::
  "(cthd_zone \<Rightarrow> thd_engine \<Rightarrow> 'w \<Rightarrow> cthd_zone \<times> thd_engine \<times> 'w) \<Rightarrow> cthd_zone list \<Rightarrow> thd_engine \<Rightarrow> 'w \<Rightarrow>
   cthd_zone list \<times> thd_engine \<times> 'w" where
  "zones_loop f [] en w = ([], en, w)"
| "zones_loop f (z # zs) en w =
     (let (z, en, w) = f z en w; (zs, en, w) = zones_loop f zs en w in (z # zs, en, w))"

definition for_zones ::
  "(cthd_zone \<Rightarrow> thd_engine \<Rightarrow> 'w \<Rightarrow> cthd_zone \<times> thd_engine \<times> 'w) \<Rightarrow> cthd_engine \<Rightarrow> 'w \<Rightarrow> cthd_engine \<times> 'w" where
  "for_zones f g w = (let (zs, en, w) = zones_loop f (zones g) (en_core g) w in (g\<lparr>zones := zs, en_core := en\<rparr>, w))"

definition process_pref_change :: "'w thd_env \<Rightarrow> cthd_engine \<Rightarrow> 'w \<Rightarrow> cthd_engine \<times> 'w" where
  "process_pref_change env g w =
     (let g = g\<lparr>thd_pref := pref_refresh env (thd_pref g) w\<rparr>;
          new_pref = preference (thd_pref g)
      in if new_pref = PREF_DISABLED then (g\<lparr>en_status := False\<rparr>, w)
         else (let g = g\<lparr>en_status := True, en_core := (en_core g)\<lparr>en_preference := new_pref\<rparr>\<rparr>;
                   (g, w) = for_zones (update_zone_preference env) g w
           in if control_exclusive g then takeover_thermal_control env g w else (g, w)))"

definition thermal_zone_change :: "'w thd_env \<Rightarrow> cthd_engine \<Rightarrow> 'w \<Rightarrow> cthd_engine \<times> 'w" where
  "thermal_zone_change env g w =
     for_zones (\<lambda>z en w. if zone_active z then zone_temperature_notification env z en w else (z, en, w)) g w"

definition def_poll_interval :: int where "def_poll_interval = 4000"

text \<open>A shift by 32 or more uses the low five bits of the count, as the processor does.\<close>

definition sensor_bit :: "int \<Rightarrow> u32" where
  "sensor_bit sensor_id = push_bit (nat (sensor_id mod 32)) 1"

definition poll_enable_disable :: "bool \<Rightarrow> int \<Rightarrow> cthd_engine \<Rightarrow> cthd_engine" where
  "poll_enable_disable status sensor_id g =
     (if status
      then g\<lparr>poll_sensor_mask := or (poll_sensor_mask g) (sensor_bit sensor_id), poll_timeout_msec := def_poll_interval\<rparr>
      else (let g = g\<lparr>poll_sensor_mask := and (poll_sensor_mask g) (not (sensor_bit sensor_id))\<rparr>
        in if poll_sensor_mask g = 0 then g\<lparr>poll_timeout_msec := - 1\<rparr> else g))"

definition fast_poll_enable_disable :: "bool \<Rightarrow> int \<Rightarrow> cthd_engine \<Rightarrow> cthd_engine" where
  "fast_poll_enable_disable status sensor_id g =
     (if status
      then g\<lparr>fast_poll_sensor_mask := or (fast_poll_sensor_mask g) (sensor_bit sensor_id),
             saved_poll_interval := (if saved_poll_interval g = 0 then poll_timeout_msec g else saved_poll_interval g),
             poll_timeout_msec := 1000\<rparr>
      else (let g = g\<lparr>fast_poll_sensor_mask := and (fast_poll_sensor_mask g) (not (sensor_bit sensor_id))\<rparr>
        in if fast_poll_sensor_mask g = 0 \<and> saved_poll_interval g \<noteq> 0
           then g\<lparr>poll_timeout_msec := saved_poll_interval g\<rparr> else g))"

definition thd_engine_reload_zones :: "'w engine_methods \<Rightarrow> cthd_engine \<Rightarrow> 'w \<Rightarrow> cthd_engine \<times> 'w" where
  "thd_engine_reload_zones vt g w = snd (read_thermal_zones vt (g\<lparr>zones := []\<rparr>) w)"

definition proc_message :: "'w thd_env \<Rightarrow> 'w engine_methods \<Rightarrow> thd_message \<Rightarrow> cthd_engine \<Rightarrow> 'w \<Rightarrow> int \<times> cthd_engine \<times> 'w" where
  "proc_message env vt msg g w = (case msg of
     WAKEUP \<Rightarrow> (0, g, w)
   | TERMINATE \<Rightarrow> (- 1, g\<lparr>terminated := True\<rparr>, w)
   | PREF_CHANGED \<Rightarrow> (0, process_pref_change env g w)
   | THERMAL_ZONE_NOTIFY \<Rightarrow> (0, if en_status g then thermal_zone_change env g w else (g, w))
   | RELOAD_ZONES \<Rightarrow> (0, thd_engine_reload_zones vt g w)
   | POLL_ENABLE i \<Rightarrow> (0, if poll_interval_sec (en_core g) = 0 then poll_enable_disable True i g else g, w)
   | POLL_DISABLE i \<Rightarrow> (0, if poll_interval_sec (en_core g) = 0 then poll_enable_disable False i g else g, w)
   | FAST_POLL_ENABLE i \<Rightarrow> (0, fast_poll_enable_disable True i g, w)
   | FAST_POLL_DISABLE i \<Rightarrow> (0, fast_poll_enable_disable False i g, w))"

section \<open>The thread\<close>

text \<open>A kernel event is a list of strings, each ended by NUL.\<close>

function check_for_event :: "string \<Rightarrow> string \<Rightarrow> bool" where
  "check_for_event path [] = False"
| "check_for_event path (c # cs) =
     (let piece = takeWhile (\<lambda>x. x \<noteq> CHR 0x00) (c # cs)
      in if 8 < length piece \<and> has_prefix piece (''DEVPATH='' @ path) then True
         else check_for_event path (drop (length piece + 1) (c # cs)))"
  by pat_completeness auto
termination
  by (relation "measure (length \<circ> snd)") auto

text \<open>What \<^verbatim>\<open>poll\<close> reports: its result, the kernel event that is read, and whether the pipe is readable.\<close>

record poll_report =
  pr_n :: int
  pr_uevent :: "string option"
  pr_wakeup :: bool

definition thz_notify_debounce_interval :: int where "thz_notify_debounce_interval = 3"

definition thermal_dev_path :: string where "thermal_dev_path = ''/devices/virtual/thermal/thermal_zone''"

definition step_uevent :: "'w thd_env \<Rightarrow> poll_report \<Rightarrow> cthd_engine \<Rightarrow> 'w \<Rightarrow> cthd_engine \<times> 'w" where
  "step_uevent env pr g w = (case pr_uevent pr of None \<Rightarrow> (g, w)
     | Some ev \<Rightarrow> if check_for_event thermal_dev_path ev
         then (let tm = te_time env w;
                   (g, w) = (if thz_notify_debounce_interval \<le> tm - thz_last_uevent_time g
                     then for_zones (zone_temperature_notification env) g w else (g, w))
           in (g\<lparr>thz_last_uevent_time := tm\<rparr>, w))
         else (g, w))"

text \<open>The oldest message of the pipe. \<open>None\<close>: nothing could be read, and the loop starts again.\<close>

definition step_wakeup :: "'w thd_env \<Rightarrow> 'w engine_methods \<Rightarrow> poll_report \<Rightarrow> cthd_engine \<Rightarrow> 'w \<Rightarrow> (cthd_engine \<times> 'w) option" where
  "step_wakeup env vt pr g w =
     (if \<not> pr_wakeup pr then Some (g, w)
      else (case en_messages (en_core g) of [] \<Rightarrow> None
        | msg # msgs \<Rightarrow> Some (snd (proc_message env vt msg (g\<lparr>en_core := (en_core g)\<lparr>en_messages := msgs\<rparr>\<rparr>) w))))"

definition measure_power :: "'w thd_env \<Rightarrow> cthd_engine \<Rightarrow> 'w \<Rightarrow> cthd_engine" where
  "measure_power env g w =
     g\<lparr>en_core := (en_core g)\<lparr>en_meter := rapl_measure_power env (en_meter (en_core g)) w\<rparr>\<rparr>"

definition step_update :: "'w engine_methods \<Rightarrow> int \<Rightarrow> cthd_engine \<Rightarrow> 'w \<Rightarrow> cthd_engine \<times> 'w" where
  "step_update vt tm g w =
     (let (g, w) = (if thd_poll_interval g \<le> tm - thz_last_update_event_time g
            then (let (g, w) = update_engine_state vt g w; (g, w) = update_power_policies vt g w
              in (g\<lparr>thz_last_update_event_time := tm\<rparr>, w))
            else (g, w))
      in workarounds vt g w)"

text \<open>One turn of the loop. \<open>timeout_sec\<close> is computed once, before the loop; a disabled daemon starts the loop
  again before it looks at the pipe.\<close>

definition engine_step :: "'w thd_env \<Rightarrow> 'w engine_methods \<Rightarrow> int \<Rightarrow> poll_report \<Rightarrow> cthd_engine \<Rightarrow> 'w \<Rightarrow> cthd_engine \<times> 'w" where
  "engine_step env vt timeout_sec pr g w =
     (if pr_n pr < 0 then (g, w)
      else
       (let tm = te_time env w;
            g = measure_power env g w;
            due = (pr_n pr = 0 \<or> timeout_sec \<le> tm - thz_last_temp_ind_time g)
        in if due \<and> \<not> en_status g then (g, w)
           else
            (let (g, w) = (if due then (let (g, w) = for_zones (zone_temperature_notification env) g w
                   in (g\<lparr>thz_last_temp_ind_time := tm\<rparr>, w)) else (g, w));
                 (g, w) = step_uevent env pr g w
             in case step_wakeup env vt pr g w of
                  None \<Rightarrow> (g, w)
                | Some (g, w) \<Rightarrow> step_update vt tm g w)))"

text \<open>The thread, over the reports of \<^verbatim>\<open>poll\<close>, each a function of the world. It ends when the engine is
  terminated.\<close>

fun thd_engine_thread ::
  "'w thd_env \<Rightarrow> 'w engine_methods \<Rightarrow> int \<Rightarrow> ('w \<Rightarrow> poll_report \<times> 'w) list \<Rightarrow> cthd_engine \<Rightarrow> 'w \<Rightarrow> cthd_engine \<times> 'w" where
  "thd_engine_thread env vt timeout_sec [] g w = (g, w)"
| "thd_engine_thread env vt timeout_sec (poll # polls) g w =
     (if terminated g then (g, w)
      else (let (pr, w) = poll w; (g, w) = engine_step env vt timeout_sec pr g w
        in thd_engine_thread env vt timeout_sec polls g w))"

end
