(* ===== verification/Thd_Setup.thy ===== *)
theory Thd_Setup
  imports Thd_Engine
begin

text \<open>
  What the engine sets up: sensors, zones and cooling devices of the thermal sysfs, and the requests of a user
  over D-Bus that add, change or delete them (\<^verbatim>\<open>thd_engine.cpp\<close>). The mutex is not part of the model: each
  request runs as a whole.
\<close>

section \<open>Objects\<close>

definition cthd_cdev_new :: "cdev_class \<Rightarrow> int \<Rightarrow> string \<Rightarrow> cthd_cdev" where
  "cthd_cdev_new cls index control_path = \<lparr>cd_index = index, cd_type_str = [], cd_alias = [], cd_base_path = control_path,
     max_state = 0, min_state = 0, curr_state = 0, curr_pow = 0, base_pow_state = 0, inc_dec_val = 1,
     auto_down_adjust = False, read_back = True, debounce_interval = 2, last_action_time = 0, trend_increase = False,
     pid_enable = False, pid_ctrl = cthd_pid_new, last_state = False, zone_trip_limits = [], write_prefix = [],
     inc_val = 0, dec_val = 0, cd_class = cls\<rparr>"

text \<open>\<^verbatim>\<open>cthd_sysfs_cdev::update\<close>\<close>

definition read_state_attr :: "'w thd_env \<Rightarrow> cthd_cdev \<Rightarrow> string \<Rightarrow> int \<Rightarrow> 'w \<Rightarrow> int + int" where
  "read_state_attr env c name val w =
     (if \<not> sysfs_exists env (cd_base_path c) (cooling_device_attr c name) w then Inr 0
      else (let (ret, v) = sysfs_read_int env (cd_base_path c) (cooling_device_attr c name) val w
        in if ret < 0 then Inl ret else Inr v))"

definition sysfs_cdev_update :: "'w thd_env \<Rightarrow> cthd_cdev \<Rightarrow> 'w \<Rightarrow> int \<times> cthd_cdev" where
  "sysfs_cdev_update env c w =
     (case read_state_attr env c ''/cur_state'' (curr_state c) w of
        Inl ret \<Rightarrow> (ret, c)
      | Inr cur \<Rightarrow> (let c = c\<lparr>curr_state := cur\<rparr> in case read_state_attr env c ''/max_state'' (max_state c) w of
          Inl ret \<Rightarrow> (ret, c)
        | Inr mx \<Rightarrow>
            (let c = c\<lparr>max_state := mx\<rparr>
             in if sysfs_exists env (cd_base_path c) (cooling_device_attr c ''/type'') w
                then (case sysfs_read_str env (cd_base_path c) (cooling_device_attr c ''/type'') w of (ret, s) \<Rightarrow>
                  let c = (if ret < 0 then c else c\<lparr>cd_type_str := s\<rparr>)
                  in (THD_SUCCESS, if cd_type_str c = ''Processor'' then c\<lparr>read_back := False\<rparr> else c))
                else (THD_SUCCESS, c))))"

definition gen_cdev_update :: "'w thd_env \<Rightarrow> cthd_cdev \<Rightarrow> 'w \<Rightarrow> int \<times> cthd_cdev" where
  "gen_cdev_update env c w =
     (if \<not> sysfs_exists env (cd_base_path c) [] w then (THD_ERROR, c)
      else if \<not> has_prefix (cd_base_path c) ''/sys'' then (THD_ERROR, c)
      else (let (ret, v) = sysfs_read_int env (cd_base_path c) [] (curr_state c) w;
                c = c\<lparr>curr_state := v\<rparr>
        in if ret < 0 then (ret, c) else (THD_SUCCESS, c\<lparr>min_state := v, max_state := v\<rparr>)))"

definition cthd_sensor_new :: "int \<Rightarrow> string \<Rightarrow> string \<Rightarrow> bool \<Rightarrow> cthd_sensor" where
  "cthd_sensor_new index control_path type_str thermal_sysfs = \<lparr>se_index = index, se_thermal_sysfs = thermal_sysfs,
     se_path = control_path, se_type_str = type_str, async_capable = False, se_scale = 1\<rparr>"

definition sensor_update :: "'w thd_env \<Rightarrow> cthd_sensor \<Rightarrow> 'w \<Rightarrow> int \<times> cthd_sensor" where
  "sensor_update env s w =
     (if se_thermal_sysfs s then
        (if \<not> sysfs_exists env (se_path s) ''type'' w then (THD_ERROR, s)
         else (let (ret, t) = sysfs_read_str env (se_path s) ''type'' w;
                   s = (if ret < 0 then s else s\<lparr>se_type_str := t\<rparr>)
           in (if sysfs_exists env (se_path s) ''temp'' w then THD_SUCCESS else THD_ERROR, s)))
      else (if sysfs_exists env (se_path s) [] w then THD_SUCCESS else THD_ERROR, s))"

section \<open>The thermal sysfs\<close>

text \<open>The numbers in the names with a prefix, and the greatest of them (at least zero).\<close>

definition name_index :: "string \<Rightarrow> string \<Rightarrow> int" where
  "name_index prefix name = atoi (drop (length prefix) name)"

definition max_index :: "string \<Rightarrow> string list \<Rightarrow> int" where
  "max_index prefix names =
     fold (\<lambda>name m. if has_prefix name prefix then max m (name_index prefix name) else m) names 0"

fun default_sensors_loop :: "'w thd_env \<Rightarrow> string list \<Rightarrow> cthd_sensor list \<Rightarrow> 'w \<Rightarrow> cthd_sensor list" where
  "default_sensors_loop env [] ss w = ss"
| "default_sensors_loop env (name # names) ss w =
     (if has_prefix name ''thermal_zone''
      then (let (ret, s) = sensor_update env
                  (cthd_sensor_new (name_index ''thermal_zone'' name) (thermal_class @ name @ ''/'') [] True) w
        in default_sensors_loop env names (if ret = THD_SUCCESS then ss @ [s] else ss) w)
      else default_sensors_loop env names ss w)"

definition thd_read_default_thermal_sensors :: "'w thd_env \<Rightarrow> cthd_engine \<Rightarrow> 'w \<Rightarrow> cthd_engine \<times> 'w" where
  "thd_read_default_thermal_sensors env g w =
     (let w = (case te_dir env ''/sys/class/thermal/thermal_zone1/'' w of None \<Rightarrow> te_sleep env 2 w | Some _ \<Rightarrow> w);
          names = (case te_dir env thermal_class w of None \<Rightarrow> [] | Some names \<Rightarrow> names);
          ss = default_sensors_loop env names (en_sensors (en_core g)) w;
          g = g\<lparr>en_core := (en_core g)\<lparr>en_sensors := ss\<rparr>\<rparr>
      in (if ss \<noteq> [] then g\<lparr>current_sensor_index := max_index ''thermal_zone'' names + 1\<rparr> else g, w))"

text \<open>A zone whose set-up fails is dropped; what the set-up wrote to the sensors stays, and its destructor runs.\<close>

fun default_zones_loop ::
  "'w thd_env \<Rightarrow> bool \<Rightarrow> string list \<Rightarrow> cthd_zone list \<Rightarrow> thd_engine \<Rightarrow> 'w \<Rightarrow> (cthd_zone list \<times> thd_engine \<times> 'w) option" where
  "default_zones_loop env exclusive [] zs en w = Some (zs, en, w)"
| "default_zones_loop env exclusive (name # names) zs en w =
     (if has_prefix name ''thermal_zone''
      then (case zone_update env (cthd_sysfs_zone_new env (name_index ''thermal_zone'' name) ''/sys/class/thermal/thermal_zone'' w) en w of
              None \<Rightarrow> None
            | Some (ret, z, en, w) \<Rightarrow>
                if ret = THD_SUCCESS
                then default_zones_loop env exclusive names (zs @ [if exclusive then z\<lparr>zone_active := True\<rparr> else z]) en w
                else default_zones_loop env exclusive names zs en (sysfs_zone_delete env z w))
      else default_zones_loop env exclusive names zs en w)"

definition thd_read_default_thermal_zones :: "'w thd_env \<Rightarrow> cthd_engine \<Rightarrow> 'w \<Rightarrow> (cthd_engine \<times> 'w) option" where
  "thd_read_default_thermal_zones env g w =
     (let names = (case te_dir env thermal_class w of None \<Rightarrow> [] | Some names \<Rightarrow> names)
      in case default_zones_loop env (control_exclusive g) names (zones g) (en_core g) w of
           None \<Rightarrow> None
         | Some (zs, en, w) \<Rightarrow>
             (let g = g\<lparr>zones := zs, en_core := en\<rparr>
              in Some (if zs \<noteq> [] then g\<lparr>current_zone_index := max_index ''thermal_zone'' names + 1\<rparr> else g, w)))"

fun default_cdevs_loop :: "'w thd_env \<Rightarrow> string list \<Rightarrow> cthd_cdev list \<Rightarrow> 'w \<Rightarrow> cthd_cdev list" where
  "default_cdevs_loop env [] cs w = cs"
| "default_cdevs_loop env (name # names) cs w =
     (if has_prefix name ''cooling_device''
      then (let (ret, c) = sysfs_cdev_update env
                  (cthd_cdev_new Cdev_therm_sysfs (name_index ''cooling_device'' name) thermal_class) w
        in default_cdevs_loop env names (if ret = THD_SUCCESS then cs @ [c] else cs) w)
      else default_cdevs_loop env names cs w)"

definition thd_read_default_cooling_devices :: "'w thd_env \<Rightarrow> cthd_engine \<Rightarrow> 'w \<Rightarrow> cthd_engine" where
  "thd_read_default_cooling_devices env g w =
     (let names = (case te_dir env thermal_class w of None \<Rightarrow> [] | Some names \<Rightarrow> names);
          cs = default_cdevs_loop env names (en_cdevs (en_core g)) w;
          g = g\<lparr>en_core := (en_core g)\<lparr>en_cdevs := cs\<rparr>\<rparr>
      in if cs \<noteq> [] then g\<lparr>current_cdev_index := max_index ''cooling_device'' names + 1\<rparr> else g)"

section \<open>Looking things up\<close>

definition search_zone :: "string \<Rightarrow> cthd_engine \<Rightarrow> nat option" where
  "search_zone name g =
     list_index (\<lambda>z. zn_type_str z = name \<or> compares name 4 ''pch_'' \<and> compares (zn_type_str z) 4 ''pch_'') (zones g)"

definition match_cdev :: "string \<Rightarrow> thd_engine \<Rightarrow> nat option" where
  "match_cdev name en = list_index (\<lambda>c. strstr_found (cd_type_str c) name) (en_cdevs en)"

definition get_zone :: "string \<Rightarrow> cthd_engine \<Rightarrow> nat option" where
  "get_zone type g = list_index (\<lambda>z. zn_type_str z = type) (zones g)"

definition get_sensor_temperature :: "'w thd_env \<Rightarrow> int \<Rightarrow> cthd_engine \<Rightarrow> 'w \<Rightarrow> u32 option" where
  "get_sensor_temperature env index g w = map_option (\<lambda>s. read_temperature env s w) (get_sensor (en_core g) index)"

section \<open>Requests of a user\<close>

definition set_user_temp ::
  "('w thd_env \<Rightarrow> int \<Rightarrow> cthd_zone \<Rightarrow> 'w \<Rightarrow> int \<times> 'w) \<Rightarrow> 'w thd_env \<Rightarrow> string \<Rightarrow> string \<Rightarrow> cthd_engine \<Rightarrow> 'w \<Rightarrow> int \<times> 'w" where
  "set_user_temp update env zone_type user_set_point g w =
     (if \<not> (case user_set_point of [] \<Rightarrow> False | c # _ \<Rightarrow> digit_val 10 c \<noteq> None) then (THD_ERROR, w)
      else (case get_zone zone_type g of None \<Rightarrow> (THD_ERROR, w)
        | Some i \<Rightarrow> update env (atoi user_set_point) (zones g ! i) w))"

definition thd_engine_set_user_max_temp :: "'w thd_env \<Rightarrow> string \<Rightarrow> string \<Rightarrow> cthd_engine \<Rightarrow> 'w \<Rightarrow> int \<times> 'w" where
  "thd_engine_set_user_max_temp env zone_type point g w = set_user_temp update_max_temperature env zone_type point g w"

definition thd_engine_set_user_psv_temp :: "'w thd_env \<Rightarrow> string \<Rightarrow> string \<Rightarrow> cthd_engine \<Rightarrow> 'w \<Rightarrow> int \<times> 'w" where
  "thd_engine_set_user_psv_temp env zone_type point g w = set_user_temp update_psv_temperature env zone_type point g w"

definition user_set_psv_temp :: "'w thd_env \<Rightarrow> string \<Rightarrow> u32 \<Rightarrow> cthd_engine \<Rightarrow> 'w \<Rightarrow> int \<times> 'w" where
  "user_set_psv_temp env name temp g w = (case get_zone name g of None \<Rightarrow> (THD_ERROR, w)
     | Some i \<Rightarrow> update_psv_temperature env (sint temp) (zones g ! i) w)"

definition user_set_max_temp :: "'w thd_env \<Rightarrow> string \<Rightarrow> u32 \<Rightarrow> cthd_engine \<Rightarrow> 'w \<Rightarrow> int \<times> 'w" where
  "user_set_max_temp env name temp g w = (case get_zone name g of None \<Rightarrow> (THD_ERROR, w)
     | Some i \<Rightarrow> update_max_temperature env (sint temp) (zones g ! i) w)"

text \<open>A sensor of this name gets the new path.\<close>

definition user_add_sensor :: "'w thd_env \<Rightarrow> string \<Rightarrow> string \<Rightarrow> cthd_engine \<Rightarrow> 'w \<Rightarrow> int \<times> cthd_engine" where
  "user_add_sensor env name path g w =
     (let en = en_core g
      in if \<not> has_prefix path ''/sys/'' then (THD_ERROR, g)
         else if list_ex (\<lambda>s. se_type_str s = name) (en_sensors en)
         then (THD_SUCCESS, g\<lparr>en_core := en\<lparr>en_sensors :=
                 update_first (\<lambda>s. se_type_str s = name) (\<lambda>s. s\<lparr>se_path := path\<rparr>) (en_sensors en)\<rparr>\<rparr>)
         else (let (ret, s) = sensor_update env (cthd_sensor_new (current_sensor_index g) path name False) w
           in if ret \<noteq> THD_SUCCESS then (THD_ERROR, g)
              else (THD_SUCCESS, g\<lparr>en_core := send_message WAKEUP (en\<lparr>en_sensors := en_sensors en @ [s]\<rparr>),
                     current_sensor_index := current_sensor_index g + 1\<rparr>)))"

definition user_add_zone ::
  "'w thd_env \<Rightarrow> string \<Rightarrow> u32 \<Rightarrow> string \<Rightarrow> string \<Rightarrow> cthd_engine \<Rightarrow> 'w \<Rightarrow> (int \<times> cthd_engine \<times> 'w) option" where
  "user_add_zone env zone_name trip_temp sensor_name cdev_name g w =
     (case zone_update env (cthd_zone_dynamic_new (current_zone_index g) zone_name trip_temp PASSIVE sensor_name cdev_name)
             (en_core g) w of
        None \<Rightarrow> None
      | Some (ret, z, en, w) \<Rightarrow>
          if ret = THD_SUCCESS
          then Some (THD_SUCCESS, g\<lparr>en_core := en, zones := zones g @ [z\<lparr>zone_active := True\<rparr>],
                 current_zone_index := current_zone_index g + 1\<rparr>, w)
          else Some (THD_ERROR, g\<lparr>en_core := en\<rparr>, w))"

definition user_set_zone_status :: "string \<Rightarrow> bool \<Rightarrow> cthd_engine \<Rightarrow> int \<times> cthd_engine" where
  "user_set_zone_status name status g = (case get_zone name g of None \<Rightarrow> (THD_ERROR, g)
     | Some i \<Rightarrow> (THD_SUCCESS, g\<lparr>zones := (zones g)[i := (zones g ! i)\<lparr>zone_active := status\<rparr>]\<rparr>))"

definition user_get_zone_status :: "string \<Rightarrow> cthd_engine \<Rightarrow> bool option" where
  "user_get_zone_status name g = map_option (\<lambda>i. zone_active (zones g ! i)) (get_zone name g)"

text \<open>Deleting a zone runs its destructor.\<close>

definition user_delete_zone :: "'w thd_env \<Rightarrow> string \<Rightarrow> cthd_engine \<Rightarrow> 'w \<Rightarrow> cthd_engine \<times> 'w" where
  "user_delete_zone env name g w =
     (g\<lparr>zones := remove_first (\<lambda>z. zn_type_str z = name) (zones g)\<rparr>,
      case get_zone name g of None \<Rightarrow> w | Some i \<Rightarrow> sysfs_zone_delete env (zones g ! i) w)"

definition user_add_cdev ::
  "'w thd_env \<Rightarrow> string \<Rightarrow> string \<Rightarrow> int \<Rightarrow> int \<Rightarrow> int \<Rightarrow> cthd_engine \<Rightarrow> 'w \<Rightarrow> int \<times> cthd_engine" where
  "user_add_cdev env cdev_name cdev_path mn mx step g w =
     (let en = en_core g; set_range = (\<lambda>c. c\<lparr>min_state := mn, max_state := mx, inc_dec_val := step\<rparr>)
      in case search_cdev cdev_name en of
           Some i \<Rightarrow> (THD_SUCCESS, g\<lparr>en_core := en\<lparr>en_cdevs := (en_cdevs en)[i := set_range (en_cdevs en ! i)]\<rparr>\<rparr>)
         | None \<Rightarrow>
             (let (ret, c) = gen_cdev_update env
                    ((cthd_cdev_new Cdev_gen_sysfs (current_cdev_index g) cdev_path)\<lparr>cd_type_str := cdev_name\<rparr>) w
              in if ret \<noteq> THD_SUCCESS then (THD_ERROR, g)
                 else (THD_SUCCESS, g\<lparr>en_core := en\<lparr>en_cdevs := en_cdevs en @ [set_range c]\<rparr>,
                        current_cdev_index := current_cdev_index g + 1\<rparr>)))"

end
