(* ===== verification/Thd_Engine_Facts.thy ===== *)
theory Thd_Engine_Facts
  imports Thd_Setup Thd_Mem
begin

text \<open>
  The engine's thread: what a disabled daemon still reacts to, the polling interval over the messages of a
  polling trip, the test for a kernel event, and control of the kernel's zones taken and given back.
\<close>

section \<open>A disabled daemon\<close>


lemma measure_power_fields [simp]:
  "en_status (measure_power env g w) = en_status g"
  "terminated (measure_power env g w) = terminated g"
  "zones (measure_power env g w) = zones g"
  "thz_last_temp_ind_time (measure_power env g w) = thz_last_temp_ind_time g"
  "en_messages (en_core (measure_power env g w)) = en_messages (en_core g)"
  "en_cdevs (en_core (measure_power env g w)) = en_cdevs (en_core g)"
  by (simp_all add: measure_power_def)


definition no_meter :: rapl_meter where
  "no_meter = \<lparr>rapl_present = False, domain_list = [], meter_last_time = 0, enable_measurement = False\<rparr>"

definition base_methods :: "'w engine_methods" where
  "base_methods = \<lparr>update_engine_state = Pair, update_power_policies = Pair, workarounds = Pair,
     read_thermal_zones = (\<lambda>g w. (0, g, w))\<rparr>"

definition base_engine :: cthd_engine where
  "base_engine = cthd_engine_new mem_env no_meter [] empty_world"



section \<open>The polling interval\<close>

lemma and_not_or_single: "and (or m b) (not b) = and m (not (b :: u32))"
  by (rule bit_eqI) (auto simp: bit_simps)

text \<open>Without a polling interval of its own the daemon waits for events (a timeout of -1). After the first polling
  trip has been crossed upwards and downwards, with its four messages taken, it polls every 4 seconds for ever.\<close>

theorem polling_not_switched_off:
  assumes "poll_interval_sec (en_core g) = 0" "saved_poll_interval g = 0" "poll_sensor_mask g = 0" "fast_poll_sensor_mask g = 0"
  shows "let msgs = [POLL_ENABLE i, FAST_POLL_ENABLE i, POLL_DISABLE i, FAST_POLL_DISABLE i];
      (g', w') = fold (\<lambda>msg (g, w). snd (proc_message env vt msg g w)) msgs (g, w)
    in poll_timeout_msec g' = 4000 \<and> poll_sensor_mask g' = 0 \<and> fast_poll_sensor_mask g' = 0"
  using assms and_not_or_single [of 0 "sensor_bit i"]
  by (simp add: proc_message_def poll_enable_disable_def fast_poll_enable_disable_def def_poll_interval_def Let_def)

theorem polling_not_switched_off_witness:
  "poll_timeout_msec (fst (fold (\<lambda>msg (g, w). snd (proc_message mem_env base_methods msg g w))
     [POLL_ENABLE 3, FAST_POLL_ENABLE 3, POLL_DISABLE 3, FAST_POLL_DISABLE 3] (base_engine, empty_world))) = 4000"
  using polling_not_switched_off [of base_engine 3 mem_env base_methods empty_world]
  by (simp add: base_engine_def cthd_engine_new_def split: prod.splits)

section \<open>Kernel events\<close>

text \<open>The strings of an event.\<close>

fun event_strings :: "string \<Rightarrow> string \<Rightarrow> string list" where
  "event_strings acc [] = (if acc = [] then [] else [rev acc])"
| "event_strings acc (c # cs) = (if c = CHR 0x00 then rev acc # event_strings [] cs else event_strings (c # acc) cs)"

lemma event_strings_split:
  "event_strings acc s = (let p = takeWhile (\<lambda>x. x \<noteq> CHR 0x00) s in
     if length p < length s then (rev acc @ p) # event_strings [] (drop (length p + 1) s)
     else if acc = [] \<and> s = [] then [] else [rev acc @ p])"
proof (induction s arbitrary: acc)
  case (Cons c cs)
  show ?case
  proof (cases "c = CHR 0x00")
    case False
    then show ?thesis using Cons.IH [of "c # acc"] by (simp add: Let_def)
  qed (simp add: Let_def)
qed simp

text \<open>An event counts as one of the thermal zones exactly if one of its strings begins with the device path.\<close>

theorem check_for_event_iff:
  assumes "path \<noteq> []"
  shows "check_for_event path ev \<longleftrightarrow> (\<exists>s \<in> set (event_strings [] ev). has_prefix s (''DEVPATH='' @ path))"
  using assms
proof (induction path ev rule: check_for_event.induct)
  case (2 path c cs)
  define p where "p = takeWhile (\<lambda>x. x \<noteq> CHR 0x00) (c # cs)"
  let ?rest = "drop (length p + 1) (c # cs)"
  have long: "has_prefix p (''DEVPATH='' @ path) \<Longrightarrow> 8 < length p" using 2(2) by (auto simp: has_prefix_iff)
  have strings: "set (event_strings [] (c # cs)) = insert p (set (event_strings [] ?rest))"
    unfolding event_strings_split [of "[]" "c # cs"] p_def [symmetric] Let_def by simp
  have check: "check_for_event path (c # cs) =
      (if 8 < length p \<and> has_prefix p (''DEVPATH='' @ path) then True else check_for_event path ?rest)"
    unfolding check_for_event.simps p_def Let_def by (rule refl)
  show ?case
  proof (cases "has_prefix p (''DEVPATH='' @ path)")
    case True
    then show ?thesis using long unfolding strings check by simp
  next
    case False
    then have "check_for_event path (c # cs) = check_for_event path ?rest" using check by simp
    also have "\<dots> = (\<exists>s \<in> set (event_strings [] ?rest). has_prefix s (''DEVPATH='' @ path))"
      using 2(1) [OF p_def _ 2(2)] False by blast
    finally show ?thesis unfolding strings using False by blast
  qed
qed simp

theorem check_for_event_iff_witness:
  "check_for_event ''/devices/t'' (''add@/x'' @ [CHR 0x00] @ ''DEVPATH=/devices/t1'' @ [CHR 0x00])"
  unfolding check_for_event_iff [of "''/devices/t''", simplified] by (simp add: has_prefix_iff)


end
