(* ===== verification/Thd_Takeover.thy ===== *)
theory Thd_Takeover
  imports Thd_Engine_Facts
begin



definition policy_file :: "string \<Rightarrow> string" where
  "policy_file name = thermal_class @ zone_file name ''/policy''"

definition policy_files :: "string list \<Rightarrow> string list" where
  "policy_files names = map policy_file (filter (\<lambda>n. has_prefix n ''thermal_zone'') names)"


lemma policy_files_Cons [simp]:
  "policy_files (n # ns) = (if has_prefix n ''thermal_zone'' then policy_file n # policy_files ns else policy_files ns)"
  "policy_files [] = []"
  by (simp_all add: policy_files_def)












section \<open>The loops\<close>


lemma policy_fold [simp]: "thermal_class @ zone_file n ''/policy'' = policy_file n"
  by (simp add: policy_file_def)





section \<open>The round trip\<close>






end
