(* ===== verification/Thd_Zone_Facts.thy ===== *)
theory Thd_Zone_Facts
  imports Thd_Zone Thd_Mem
begin

text \<open>
  Zones and trips: the daemon powers the machine off after five hot readings in a row and not before, and a
  zone with one sensor keeps exactly one polling trip, below its other trips.
\<close>

section \<open>The critical trip\<close>

text \<open>A sequence of readings of one trip.\<close>

fun check_run :: "'w thd_env \<Rightarrow> int \<Rightarrow> int \<Rightarrow> u32 list \<Rightarrow> cthd_trip_point \<Rightarrow> thd_engine \<Rightarrow> 'w \<Rightarrow> cthd_trip_point \<times> thd_engine \<times> 'w" where
  "check_run env id' pref [] tp en w = (tp, en, w)"
| "check_run env id' pref (t # ts) tp en w =
     (let (_, tp, en, w) = thd_trip_point_check env id' t pref tp en w in check_run env id' pref ts tp en w)"

definition five_hot :: "bool list \<Rightarrow> bool" where
  "five_hot bs \<longleftrightarrow> (\<exists>a b. bs = a @ replicate 5 True @ b)"

text \<open>One reading of a critical trip.\<close>

definition critical_trip :: "cthd_trip_point \<Rightarrow> bool" where
  "critical_trip tp \<longleftrightarrow> tp_type tp = CRITICAL \<and> depend_cdev tp = None \<and> tp_sensor_id tp = DEFAULT_SENSOR_ID"

lemma critical_check:
  assumes "critical_trip tp" "\<not> ignore_critical en"
  shows "thd_trip_point_check env id' t pref tp en w = (False,
    tp\<lparr>crit_trip_count := (if tp_temp tp \<le> t \<and> crit_trip_count tp < 4 then crit_trip_count tp + 1 else 0)\<rparr>, en,
    if tp_temp tp \<le> t \<and> \<not> crit_trip_count tp < 4 then te_power_off env w else w)"
  using assms
  by (auto simp: critical_trip_def thd_trip_point_check_def trip_critical_def consecutive_critical_events_def
      trip_applies_def Let_def)

lemma critical_trip_count [simp]: "critical_trip (tp\<lparr>crit_trip_count := n\<rparr>) = critical_trip tp"
  by (simp add: critical_trip_def)

lemma check_run_append:
  "check_run env id' pref (ts @ us) tp en w =
     (let (tp, en, w) = check_run env id' pref ts tp en w in check_run env id' pref us tp en w)"
  by (induction ts arbitrary: tp en w) (auto simp: Let_def split_beta)

text \<open>The specification without a counter, over the readings (latest first) that reach the critical temperature or not: one
  power-off at every fifth hot reading in a row.\<close>

definition hot_streak :: "bool list \<Rightarrow> nat" where
  "hot_streak hist = length (takeWhile (\<lambda>b. b) hist)"

fun power_offs :: "bool list \<Rightarrow> nat" where
  "power_offs [] = 0"
| "power_offs (b # hist) = power_offs hist + (if b \<and> hot_streak (b # hist) mod 5 = 0 then 1 else 0)"

lemma hot_streak_simps [simp]: "hot_streak [] = 0" "hot_streak (b # hist) = (if b then Suc (hot_streak hist) else 0)"
  by (simp_all add: hot_streak_def)

lemma power_offs_suffix: "power_offs hist \<le> power_offs (recent @ hist)"
  by (induction recent) auto

lemma power_offs_five: "0 < power_offs (replicate 5 True @ hist)"
proof -
  have "(Suc s) mod 5 = 0 \<or> Suc (Suc s) mod 5 = 0 \<or> (3 + s) mod 5 = 0 \<or> (4 + s) mod 5 = 0 \<or> s mod 5 = 0" for s :: nat
    by presburger
  note five = this [of "hot_streak hist"]
  have r: "replicate 5 True = [True, True, True, True, True]" by (simp add: numeral_eq_Suc)
  show ?thesis unfolding r using five by auto
qed

lemma power_offs_hot: "0 < power_offs hist \<longleftrightarrow> five_hot (rev hist)"
proof
  show "five_hot (rev hist)" if "0 < power_offs hist"
    using that
  proof (induction hist)
    case (Cons b hist)
    show ?case
    proof (cases "0 < power_offs hist")
      case True
      then obtain x y where "rev hist = x @ replicate 5 True @ y" using Cons.IH by (auto simp: five_hot_def)
      then show ?thesis unfolding five_hot_def by (intro exI [of _ x] exI [of _ "y @ [b]"]) simp
    next
      case False
      let ?k = "hot_streak (b # hist)"
      have "?k mod 5 = 0" "0 < ?k" using Cons.prems False by (auto split: if_splits)
      then have k: "?k = 5 + (?k - 5)" by presburger
      have "takeWhile (\<lambda>b. b) (b # hist) = replicate ?k True"
        unfolding hot_streak_def by (rule replicate_eqI) (auto dest: set_takeWhileD)
      then have "b # hist = replicate (?k - 5) True @ replicate 5 True @ dropWhile (\<lambda>b. b) (b # hist)"
        using takeWhile_dropWhile_id [of "\<lambda>b. b" "b # hist"] k by (metis add.commute append.assoc replicate_add)
      then have "rev (b # hist) = rev (dropWhile (\<lambda>b. b) (b # hist)) @ replicate 5 True @ replicate (?k - 5) True"
        by (metis append.assoc rev_append rev_replicate)
      then show ?thesis unfolding five_hot_def by blast
    qed
  qed simp
  show "0 < power_offs hist" if "five_hot (rev hist)"
  proof -
    from that obtain x y where "rev hist = x @ replicate 5 True @ y" by (auto simp: five_hot_def)
    then have "hist = rev y @ replicate 5 True @ rev x" by (metis append.assoc rev_append rev_replicate rev_rev_ident)
    then show ?thesis using power_offs_suffix [of "replicate 5 True @ rev x" "rev y"] power_offs_five [of "rev x"] by simp
  qed
qed

lemma critical_run:
  assumes "critical_trip tp" "\<not> ignore_critical en" "crit_trip_count tp = 0"
  defines "hot \<equiv> \<lambda>t. tp_temp tp \<le> t"
  shows "check_run env id' pref temps tp en w =
    (tp\<lparr>crit_trip_count := hot_streak (rev (map hot temps)) mod 5\<rparr>, en, (te_power_off env ^^ power_offs (rev (map hot temps))) w)"
proof (induction temps rule: rev_induct)
  case Nil
  have "tp\<lparr>crit_trip_count := 0\<rparr> = tp" using assms(3) by (cases tp) simp
  then show ?case by simp
next
  case (snoc t ts)
  let ?n = "hot_streak (rev (map hot ts))" and ?w = "(te_power_off env ^^ power_offs (rev (map hot ts))) w"
  have n: "?n mod 5 < 5" by simp
  have one: "check_run env id' pref (ts @ [t]) tp en w =
      (tp\<lparr>crit_trip_count := (if hot t \<and> ?n mod 5 < 4 then ?n mod 5 + 1 else 0)\<rparr>, en,
       if hot t \<and> \<not> ?n mod 5 < 4 then te_power_off env ?w else ?w)"
    unfolding check_run_append snoc.IH using assms(1,2) by (simp add: critical_check hot_def)
  consider "\<not> hot t" | "hot t" "?n mod 5 < 4" | "hot t" "?n mod 5 = 4" using n by linarith
  then show ?case
  proof cases
    case 1
    then show ?thesis unfolding one by simp
  next
    case 2
    then show ?thesis unfolding one by (simp add: mod_Suc)
  next
    case 3
    then show ?thesis unfolding one by (simp add: mod_Suc)
  qed
qed

lemma critical_run_ignored:
  assumes "critical_trip tp" "ignore_critical en"
  shows "snd (snd (check_run env id' pref temps tp en w)) = w"
  using assms(1)
proof (induction temps arbitrary: tp)
  case (Cons t ts)
  have "thd_trip_point_check env id' t pref tp en w =
      (False, fst (snd (thd_trip_point_check env id' t pref tp en w)), en, w)"
    and "critical_trip (fst (snd (thd_trip_point_check env id' t pref tp en w)))"
    using Cons.prems assms(2)
    by (auto simp: critical_trip_def thd_trip_point_check_def trip_critical_def consecutive_critical_events_def
        trip_applies_def Let_def)
  then show ?case using Cons.IH by (simp add: Let_def split_beta) (metis fst_conv snd_conv)
qed simp

text \<open>C31: Every reading of a critical trip, over any sequence of readings from a fresh count. With the option to ignore critical
  temperatures nothing happens. Without it the machine is powered off at exactly every fifth reading in a row that
  reaches the critical temperature, a cooler reading starting the count again; so there is no power-off while no five
  readings in a row are hot, and there has been one once five were.\<close>

theorem critical_power_off:
  assumes "critical_trip tp" "crit_trip_count tp = 0"
  shows "let hot = map (\<lambda>t. tp_temp tp \<le> t) temps in
    snd (snd (check_run env id' pref temps tp en w)) =
      (if ignore_critical en then w else (te_power_off env ^^ power_offs (rev hot)) w) \<and>
    (0 < power_offs (rev hot) \<longleftrightarrow> five_hot hot)"
proof (cases "ignore_critical en")
  case True
  then show ?thesis using critical_run_ignored [OF assms(1) True, of env id' pref temps w] by (simp add: Let_def power_offs_hot)
next
  case False
  then show ?thesis using critical_run [OF assms(1) False assms(2), of env id' pref temps w] by (simp add: Let_def power_offs_hot)
qed

definition idle_core :: thd_engine where
  "idle_core = \<lparr>en_cdevs = [], en_sensors = [], en_meter = \<lparr>rapl_present = False, domain_list = [], meter_last_time = 0,
     enable_measurement = False\<rparr>, en_messages = [], poll_interval_sec = 0, en_preference = 0, ignore_critical = False\<rparr>"

theorem critical_power_off_witness:
  "mw_offs (snd (snd (check_run mem_env 0 0 [105000, 90000, 105000, 106000, 105500, 105000, 110000, 90000]
     (cthd_trip_point_new 0 CRITICAL 105000 0 0 DEFAULT_SENSOR_ID PARALLEL) idle_core empty_world))) = 1 \<and>
   snd (snd (check_run mem_env 0 0 [105000, 105000, 105000, 105000, 90000, 105000, 105000, 105000, 105000]
     (cthd_trip_point_new 0 CRITICAL 105000 0 0 DEFAULT_SENSOR_ID PARALLEL) idle_core empty_world)) = empty_world"
proof -
  let ?tp = "cthd_trip_point_new 0 CRITICAL 105000 0 0 DEFAULT_SENSOR_ID PARALLEL"
  have tp: "critical_trip ?tp" "crit_trip_count ?tp = 0" "tp_temp ?tp = 105000" "\<not> ignore_critical idle_core"
    by (simp_all add: critical_trip_def cthd_trip_point_new_def idle_core_def)
  note c = critical_power_off [OF tp(1,2), of _ mem_env 0 0 idle_core empty_world, unfolded tp(3) Let_def]
  show ?thesis
    using c [of "[105000, 90000, 105000, 106000, 105500, 105000, 110000, 90000]"]
      c [of "[105000, 105000, 105000, 105000, 90000, 105000, 105000, 105000, 105000]"] tp(4)
    by (simp add: word_le_nat_alt mem_env_def empty_world_def)
qed

section \<open>The polling trip\<close>

















text \<open>The polling trip lies below the lowest trip exactly if that is at least 5 degrees; below that the subtraction wraps and
  the polling trip is above everything.\<close>

theorem poll_trip_below: "poll_trip_temp t < t \<longleftrightarrow> 5000 \<le> t"
proof -
  define k where "k = t * 10 div 100"
  have "unat (t * 10) < 2 ^ 32" using unsigned_less [of "t * 10", where ?'a = nat] by simp
  then have k: "unat k \<le> 42949672" "10 * unat k \<le> unat t \<or> 42949672 < unat t"
  proof -
    have u: "unat k = unat (t * 10) div 100" unfolding k_def by (simp add: unat_div)
    show "unat k \<le> 42949672" using u \<open>unat (t * 10) < 2 ^ 32\<close> by simp
    show "10 * unat k \<le> unat t \<or> 42949672 < unat t"
    proof (cases "unat t \<le> 42949672")
      case True
      then have "unat (t * 10) = unat t * 10" by (subst unat_mult_lem [THEN iffD1]) simp_all
      then show ?thesis using u by simp
    qed simp
  qed
  show ?thesis
  proof (cases "5000 \<le> t")
    case True
    then have t: "5000 \<le> unat t" by (simp add: word_le_nat_alt)
    define off where "off = (if k < 5000 then 5000 else k)"
    have "off \<le> t" "0 < unat off" using t k by (auto simp: off_def word_le_nat_alt word_less_nat_alt)
    then have "t - off < t" by (simp add: word_less_nat_alt word_le_nat_alt unat_sub_if')
    then show ?thesis using True
      by (simp add: poll_trip_temp_def def_async_trip_offset_def def_async_trip_offset_pct_def k_def [symmetric] off_def Let_def split: if_splits)
  next
    case False
    then have t: "unat t < 5000" by (simp add: word_le_nat_alt)
    then have "k < 5000" using k by (auto simp: word_less_nat_alt)
    moreover have "t \<le> t - 5000" using t by (simp add: word_le_nat_alt unat_sub_if')
    ultimately show ?thesis using False
      by (simp add: poll_trip_temp_def def_async_trip_offset_def def_async_trip_offset_pct_def k_def Let_def)
  qed
qed

end
