(* ===== verification/Thd_Control_Facts.thy ===== *)
theory Thd_Control_Facts
  imports Thd_Trip Thd_Mem "HOL-Library.Multiset"
begin

text \<open>
  Cooling devices: how the list of the trips that use a device changes with the requests of the trips, that the
  strictest target is in charge and that the list empties, and the range of the states a device is set to.
\<close>

named_theorems cdev_frame \<open>what the functions of a cooling device leave alone\<close>

section \<open>The virtual functions keep the list of limits\<close>

lemma rapl_set_curr_state_frame:
  "zone_trip_limits (fst (rapl_set_curr_state env s a c r w)) = zone_trip_limits c"
  "min_state (fst (rapl_set_curr_state env s a c r w)) = min_state c"
  by (simp_all add: rapl_set_curr_state_def Let_def split: prod.splits)

lemma therm_set_curr_state_frame:
  "zone_trip_limits (fst (therm_set_curr_state env s c w)) = zone_trip_limits c"
  "min_state (fst (therm_set_curr_state env s c w)) = min_state c"
  by (simp_all add: therm_set_curr_state_def)

lemma backlight_set_curr_state_frame:
  "zone_trip_limits (fst (backlight_set_curr_state env s c ref mn w)) = zone_trip_limits c"
  "min_state (fst (backlight_set_curr_state env s c ref mn w)) = min_state c"
  by (simp_all add: backlight_set_curr_state_def Let_def split: prod.splits)

lemma pstate_set_curr_state_frame:
  "zone_trip_limits (fst (pstate_set_curr_state env s c u k t w)) = zone_trip_limits c"
  "min_state (fst (pstate_set_curr_state env s c u k t w)) = min_state c"
  by (simp_all add: pstate_set_curr_state_def Let_def split: prod.splits)

lemma set_curr_state_frame [cdev_frame]:
  "zone_trip_limits (fst (set_curr_state env s a c w)) = zone_trip_limits c"
  "min_state (fst (set_curr_state env s a c w)) = min_state c"
  by (simp_all add: set_curr_state_def gen_set_curr_state_def split_beta rapl_set_curr_state_frame
      therm_set_curr_state_frame backlight_set_curr_state_frame pstate_set_curr_state_frame split: cdev_class.split)

lemma set_curr_state_raw_frame [cdev_frame]:
  "zone_trip_limits (fst (set_curr_state_raw env s a c w)) = zone_trip_limits c"
  "min_state (fst (set_curr_state_raw env s a c w)) = min_state c"
  by (simp_all add: set_curr_state_raw_def Let_def cdev_frame split: cdev_class.splits)

lemma get_state_frame [cdev_frame]:
  "zone_trip_limits (snd (get_curr_state env c w)) = zone_trip_limits c"
  "min_state (snd (get_curr_state env c w)) = min_state c"
  "zone_trip_limits (snd (get_max_state env c w)) = zone_trip_limits c"
  "min_state (snd (get_max_state env c w)) = min_state c"
  by (simp_all add: get_curr_state_def get_max_state_def therm_get_curr_state_def therm_get_max_state_def Let_def
      split: cdev_class.splits prod.splits)

lemma in_min_state_frame [cdev_frame]:
  "zone_trip_limits (snd (in_min_state env c w)) = zone_trip_limits c"
  "min_state (snd (in_min_state env c w)) = min_state c"
  by (simp_all add: in_min_state_def split_beta cdev_frame)

lemma cmp_current_state_frame [cdev_frame]:
  "zone_trip_limits (snd (cmp_current_state env c s w)) = zone_trip_limits c"
  by (simp add: cmp_current_state_def split_beta cdev_frame)

lemma control_begin_frame [cdev_frame]: "zone_trip_limits (control_begin c) = zone_trip_limits c"
  by (simp add: control_begin_def split: cdev_class.splits)

lemma exponential_frame [cdev_frame]:
  "zone_trip_limits (fst (exponential_up c cur mn mx)) = zone_trip_limits c"
  "zone_trip_limits (fst (exponential_down c cur mn mx)) = zone_trip_limits c"
  by (simp_all add: exponential_up_def exponential_down_def Let_def)

lemma exponential_controller_frame [cdev_frame]:
  "zone_trip_limits (fst (thd_cdev_exponential_controller env s mn mx c m w)) = zone_trip_limits c"
proof -
  obtain b c1 where 1: "get_max_state env c w = (b, c1)" by fastforce
  obtain cur m2 w2 where 2: "get_curr_state_again env c1 m w = (cur, m2, w2)" by (metis prod_cases3)
  obtain s3 c3 where 3: "get_curr_state env c1 w = (s3, c3)" by fastforce
  have "zone_trip_limits c1 = zone_trip_limits c" "zone_trip_limits c3 = zone_trip_limits c1"
    using get_state_frame(3) [of env c w] get_state_frame(1) [of env c1 w] 1 3 by simp_all
  then show ?thesis
    by (cases s) (auto simp: thd_cdev_exponential_controller_def 1 2 3 Let_def split_beta cdev_frame)
qed

lemma apply_state_frame [cdev_frame]:
  "zone_trip_limits (fst (apply_state env rq v c pid m w)) = zone_trip_limits c"
  by (simp add: apply_state_def Let_def split_beta cdev_frame)

section \<open>The list of limits\<close>

definition drop_limit :: "state_request \<Rightarrow> zone_trip_limits_t list \<Rightarrow> zone_trip_limits_t list" where
  "drop_limit rq ls = (if ls \<noteq> [] \<and> limit_of rq (last ls) then butlast ls else ls)"

lemma activate_limits: "zone_trip_limits (snd (activate env rq tm c w)) = add_limit c rq"
  by (simp add: activate_def Let_def split_beta cdev_frame)

lemma deactivate_limits: "zone_trip_limits (snd (deactivate rq c)) = drop_limit rq (zone_trip_limits c)"
  by (simp add: deactivate_def drop_limit_def Let_def)

lemma set_state_limits:
  "zone_trip_limits (fst (thd_cdev_set_state env rq c pid m w)) =
     (if rq_state rq then add_limit c rq else drop_limit rq (zone_trip_limits c))"
proof -
  obtain idle c1 where i: "(if rq_state rq then (False, c) else in_min_state env c w) = (idle, c1)" by fastforce
  have c1: "zone_trip_limits c1 = zone_trip_limits c" "rq_state rq \<Longrightarrow> c1 = c" "rq_state rq \<Longrightarrow> \<not> idle"
    using i in_min_state_frame(1) [of env c w] by (auto split: if_splits)
  obtain v c2 where v: "(if rq_state rq then activate env rq (te_time env w) c1 w else deactivate rq c1) = (v, c2)"
    by fastforce
  have c2: "zone_trip_limits c2 = (if rq_state rq then add_limit c rq else drop_limit rq (zone_trip_limits c))"
    using v c1 activate_limits [of env rq "te_time env w" c w] deactivate_limits [of rq c1] by (auto split: if_splits)
  show ?thesis
  proof (cases "idle \<and> zone_trip_limits c1 = []")
    case True
    then have "\<not> rq_state rq" using c1(3) by blast
    then show ?thesis using True c1(1) unfolding thd_cdev_set_state_def i by (simp add: drop_limit_def)
  next
    case False
    show ?thesis unfolding thd_cdev_set_state_def i Let_def prod.case if_not_P [OF False] v c2 [symmetric]
      by (simp add: split_beta cdev_frame split: option.splits)
  qed
qed

text \<open>A sequence of requests to one device, each with its own controller.\<close>

fun cdev_run ::
  "'w thd_env \<Rightarrow> (state_request \<times> cthd_pid) list \<Rightarrow> cthd_cdev \<Rightarrow> rapl_meter \<Rightarrow> 'w \<Rightarrow> cthd_cdev \<times> rapl_meter \<times> 'w" where
  "cdev_run env [] c m w = (c, m, w)"
| "cdev_run env ((rq, pid) # rqs) c m w =
     (let (c, _, m, w) = thd_cdev_set_state env rq c pid m w in cdev_run env rqs c m w)"

lemma cdev_run_append:
  "cdev_run env (rqs @ rqs') c m w = (let (c, m, w) = cdev_run env rqs c m w in cdev_run env rqs' c m w)"
  by (induction rqs arbitrary: c m w) (auto simp: Let_def split_beta)

definition limit_key :: "zone_trip_limits_t \<Rightarrow> int \<times> int" where
  "limit_key l = (lim_zone l, lim_trip l)"

definition rq_key :: "state_request \<Rightarrow> int \<times> int" where
  "rq_key rq = (rq_zone rq, rq_trip rq)"

lemma limit_of_key: "limit_of rq l \<longleftrightarrow> limit_key l = rq_key rq"
  by (auto simp: limit_of_def limit_key_def rq_key_def)

lemma mset_add_limit:
  "mset (add_limit c rq) = (if list_ex (limit_of rq) (zone_trip_limits c) then mset (zone_trip_limits c)
     else add_mset (new_limit c rq) (mset (zone_trip_limits c)))"
  by (simp add: add_limit_def Let_def)

lemma set_add_limit:
  "set (add_limit c rq) = (if list_ex (limit_of rq) (zone_trip_limits c) then set (zone_trip_limits c)
     else insert (new_limit c rq) (set (zone_trip_limits c)))"
  using arg_cong [OF mset_add_limit [of c rq], of set_mset] by simp

lemma new_limit_key: "limit_key (new_limit c rq) = rq_key rq"
  by (simp add: new_limit_def limit_key_def rq_key_def)

text \<open>The entries are told apart by zone and trip.\<close>

definition limits_wf :: "(int \<times> int) set \<Rightarrow> zone_trip_limits_t list \<Rightarrow> bool" where
  "limits_wf K ls \<longleftrightarrow> distinct (map limit_key ls) \<and> limit_key ` set ls \<subseteq> K"

lemma limits_wf_add:
  assumes "limits_wf K (zone_trip_limits c)" "rq_key rq \<in> K"
  shows "limits_wf K (add_limit c rq)"
proof -
  let ?ls = "zone_trip_limits c"
  have "distinct (map limit_key (add_limit c rq))"
  proof (cases "list_ex (limit_of rq) ?ls")
    case False
    then have "limit_key (new_limit c rq) \<notin> limit_key ` set ?ls" by (auto simp: list_ex_iff limit_of_key new_limit_key)
    then have d: "distinct (map limit_key (?ls @ [new_limit c rq]))" using assms(1) by (auto simp: limits_wf_def)
    have "mset (map limit_key (add_limit c rq)) = mset (map limit_key (?ls @ [new_limit c rq]))"
      using mset_add_limit [of c rq] False by simp
    then show ?thesis using d by (metis mset_eq_imp_distinct_iff)
  qed (use assms(1) in \<open>simp add: add_limit_def limits_wf_def\<close>)
  moreover have "limit_key ` set (add_limit c rq) \<subseteq> K"
    using assms by (auto simp: set_add_limit limits_wf_def new_limit_key)
  ultimately show ?thesis by (simp add: limits_wf_def)
qed

lemma drop_limit_set: "set (drop_limit rq ls) \<subseteq> set ls"
  by (auto simp: drop_limit_def in_set_butlastD)

lemma limits_wf_drop: "limits_wf K ls \<Longrightarrow> limits_wf K (drop_limit rq ls)"
  using image_mono [OF drop_limit_set [of rq ls], of limit_key] unfolding limits_wf_def
  by (auto simp: drop_limit_def map_butlast distinct_butlast split: if_splits)

text \<open>C27: Whatever trips ask of a cooling device, its list of limits has at most one entry for each zone and trip that has
  ever asked, so it is never longer than the number of those.\<close>

theorem limits_invariant:
  assumes "limits_wf K (zone_trip_limits c)" "\<forall>(rq, pid) \<in> set rqs. rq_key rq \<in> K" "finite K"
  shows "limits_wf K (zone_trip_limits (fst (cdev_run env rqs c m w))) \<and>
    length (zone_trip_limits (fst (cdev_run env rqs c m w))) \<le> card K"
proof -
  have wf: "limits_wf K (zone_trip_limits (fst (cdev_run env rqs c m w)))"
    using assms(1,2)
  proof (induction env rqs c m w rule: cdev_run.induct)
    case (2 env rq pid rqs c m w)
    obtain c' pid' m' w' where s: "thd_cdev_set_state env rq c pid m w = (c', pid', m', w')" by (metis prod_cases4)
    have "limits_wf K (zone_trip_limits c')"
      using set_state_limits [of env rq c pid m w] s limits_wf_add [OF "2.prems"(1)] limits_wf_drop [OF "2.prems"(1)]
        "2.prems"(2) by simp
    then show ?case using 2 s by simp
  qed simp
  let ?ls = "zone_trip_limits (fst (cdev_run env rqs c m w))"
  have "length ?ls = card (limit_key ` set ?ls)"
    using wf by (metis limits_wf_def distinct_card length_map set_map)
  also have "\<dots> \<le> card K" using wf assms(3) by (intro card_mono) (auto simp: limits_wf_def)
  finally show ?thesis using wf by simp
qed

definition ask :: "bool \<Rightarrow> int \<Rightarrow> int \<Rightarrow> state_request" where
  "ask state trip target = \<lparr>rq_target_temp = 0, rq_temperature = 0, rq_hard_target = False, rq_state = state, rq_zone = 0,
     rq_trip = trip, rq_target_state_valid = True, rq_target_value = target, rq_pid_param = None, rq_force = False,
     rq_min_max_valid = False, rq_min_state = 0, rq_max_state = 0\<rparr>"

definition plain_cdev :: cthd_cdev where
  "plain_cdev = \<lparr>cd_index = 0, cd_type_str = ''fan'', cd_alias = [], cd_base_path = ''/sys/fan'', max_state = 10, min_state = 0,
     curr_state = 0, curr_pow = 0, base_pow_state = 0, inc_dec_val = 1, auto_down_adjust = False, read_back = True,
     debounce_interval = 2, last_action_time = 0, trend_increase = False, pid_enable = False, pid_ctrl = cthd_pid_new,
     last_state = False, zone_trip_limits = [], write_prefix = [], inc_val = 0, dec_val = 0, cd_class = Cdev_gen_sysfs\<rparr>"

definition quiet_meter :: rapl_meter where
  "quiet_meter = \<lparr>rapl_present = False, domain_list = [], meter_last_time = 0, enable_measurement = False\<rparr>"

theorem limits_invariant_witness:
  "length (zone_trip_limits (fst (cdev_run mem_env
     [(ask True 1 3, cthd_pid_new), (ask True 2 5, cthd_pid_new), (ask True 1 3, cthd_pid_new)] plain_cdev quiet_meter empty_world))) \<le> 2"
proof -
  have "card {(0 :: int, 1 :: int), (0, 2)} = 2" by simp
  then show ?thesis
    using limits_invariant [of "{(0, 1), (0, 2)}" plain_cdev
        "[(ask True 1 3, cthd_pid_new), (ask True 2 5, cthd_pid_new), (ask True 1 3, cthd_pid_new)]" mem_env quiet_meter empty_world]
    by (auto simp: limits_wf_def plain_cdev_def rq_key_def ask_def)
qed

section \<open>The strictest target\<close>

text \<open>How far a state lies on the way from a device's weakest state (\<open>min_state\<close>) to its strongest (\<open>max_state\<close>): the numbers
  grow on that way for most devices and fall for a RAPL device, whose states are power limits.\<close>

definition strictness :: "cthd_cdev \<Rightarrow> int \<Rightarrow> int" where
  "strictness c t = (if min_state c < max_state c then t else - t)"

text \<open>The requests of trips with targets.\<close>

definition target_request :: "state_request \<Rightarrow> bool" where
  "target_request rq \<longleftrightarrow> rq_target_state_valid rq \<and> \<not> rq_min_max_valid rq"

abbreviation by_strictness :: "cthd_cdev \<Rightarrow> zone_trip_limits_t list \<Rightarrow> bool" where
  "by_strictness c ls \<equiv> sorted (map (\<lambda>l. strictness c (lim_target_value l)) ls)"

lemma sorted_last: "sorted xs \<Longrightarrow> x \<in> set xs \<Longrightarrow> x \<le> last xs"
  by (induction xs) (auto split: if_splits)

lemma add_limit_sorted:
  assumes "by_strictness c (zone_trip_limits c)" "target_request rq"
  shows "by_strictness c (add_limit c rq)"
  using assms by (simp add: add_limit_def target_request_def strictness_def Let_def)

lemma add_limit_nonempty: "add_limit c rq \<noteq> []"
  using arg_cong [OF mset_add_limit [of c rq], of size] by (auto split: if_splits)

lemma by_strictness_last:
  assumes "by_strictness c ls" "l \<in> set ls"
  shows "strictness c (lim_target_value l) \<le> strictness c (lim_target_value (last ls))"
proof -
  have "last (map (\<lambda>l. strictness c (lim_target_value l)) ls) = strictness c (lim_target_value (last ls))"
    using assms(2) by (subst last_map) auto
  then show ?thesis using sorted_last [OF assms(1), of "strictness c (lim_target_value l)"] assms(2) by simp
qed

text \<open>C28: While the trips that use a device all set targets, and no ranges, the entries stay in the order of their
  targets, on the way from the weakest to the strongest state; so after an activation and after a deactivation the entry
  in charge, the last one, has the strictest target of all entries: the greatest for a device whose states grow
  towards its strongest one, the least for one whose states do not, as the power limits of a RAPL device. An activation
  leaves some entry in charge.\<close>

theorem strictest_target_in_charge:
  assumes "by_strictness c (zone_trip_limits c)" "rq_state rq \<Longrightarrow> target_request rq"
  shows "let ls = zone_trip_limits (fst (thd_cdev_set_state env rq c pid m w)) in by_strictness c ls \<and>
    (\<forall>l \<in> set ls. if min_state c < max_state c then lim_target_value l \<le> lim_target_value (last ls)
       else lim_target_value (last ls) \<le> lim_target_value l) \<and>
    (rq_state rq \<longrightarrow> ls \<noteq> [])"
proof -
  let ?ls = "zone_trip_limits (fst (thd_cdev_set_state env rq c pid m w))"
  have s: "by_strictness c ?ls"
    using assms add_limit_sorted [OF assms(1)]
    by (simp add: set_state_limits drop_limit_def map_butlast sorted_butlast)
  have "if min_state c < max_state c then lim_target_value l \<le> lim_target_value (last ?ls)
      else lim_target_value (last ?ls) \<le> lim_target_value l" if "l \<in> set ?ls" for l
    using by_strictness_last [OF s that] by (simp add: strictness_def split: if_splits)
  moreover have "?ls \<noteq> []" if "rq_state rq" using that add_limit_nonempty [of c rq] by (simp add: set_state_limits)
  ultimately show ?thesis using s by (simp add: Let_def)
qed

definition falling_cdev :: cthd_cdev where
  "falling_cdev = plain_cdev\<lparr>min_state := 15, max_state := 3\<rparr>"

theorem strictest_target_in_charge_witness:
  "lim_target_value (last (zone_trip_limits (fst (thd_cdev_set_state mem_env (ask True 2 4)
     (plain_cdev\<lparr>zone_trip_limits := [new_limit plain_cdev (ask True 1 7)]\<rparr>) cthd_pid_new quiet_meter empty_world)))) = 7 \<and>
   lim_target_value (last (zone_trip_limits (fst (thd_cdev_set_state mem_env (ask True 2 4)
     (falling_cdev\<lparr>zone_trip_limits := [new_limit falling_cdev (ask True 1 7)]\<rparr>) cthd_pid_new quiet_meter empty_world)))) = 4"
proof -
  have t: "target_request (ask True 2 4)" by (simp add: target_request_def ask_def)
  have n: "\<not> list_ex (limit_of (ask True 2 4)) [new_limit d (ask True 1 7)]" for d
    by (simp add: limit_of_def new_limit_def ask_def)
  have charge: "(if min_state c < max_state c then 7 \<le> v else v \<le> 4) \<and> v \<in> {4, 7}"
    if c: "c = d\<lparr>zone_trip_limits := [new_limit d (ask True 1 7)]\<rparr>"
      and v: "v = lim_target_value (last (zone_trip_limits (fst (thd_cdev_set_state mem_env (ask True 2 4) c cthd_pid_new quiet_meter empty_world))))"
    for c d v
  proof -
    let ?ls = "zone_trip_limits (fst (thd_cdev_set_state mem_env (ask True 2 4) c cthd_pid_new quiet_meter empty_world))"
    have e: "set ?ls = {new_limit c (ask True 2 4), new_limit d (ask True 1 7)}"
      using n by (simp add: set_state_limits set_add_limit c) (simp add: ask_def)
    have tv: "lim_target_value (new_limit c (ask True 2 4)) = 4" "lim_target_value (new_limit d (ask True 1 7)) = 7"
      by (simp_all add: new_limit_def ask_def)
    have "by_strictness c (zone_trip_limits c)" by (simp add: c)
    from strictest_target_in_charge [OF this t, of mem_env cthd_pid_new quiet_meter empty_world]
    have "\<forall>l \<in> set ?ls. if min_state c < max_state c then lim_target_value l \<le> v else v \<le> lim_target_value l"
      by (simp add: Let_def v)
    moreover have "last ?ls \<in> set ?ls" using e by (metis insert_not_empty last_in_set list.set(1))
    ultimately show ?thesis using e tv v by auto
  qed
  have m: "min_state plain_cdev < max_state plain_cdev" "\<not> min_state falling_cdev < max_state falling_cdev"
    by (simp_all add: plain_cdev_def falling_cdev_def)
  show ?thesis
    using charge [OF refl refl, of plain_cdev] charge [OF refl refl, of falling_cdev] m by auto
qed

section \<open>The list empties\<close>

text \<open>A deactivation of a trip that is not in charge changes nothing but what the device remembers of its state.\<close>

lemma off_waits:
  assumes "\<not> rq_state rq" "zone_trip_limits c \<noteq> []" "\<not> limit_of rq (last (zone_trip_limits c))"
  shows "thd_cdev_set_state env rq c pid m w = (snd (in_min_state env c w), pid, m, w)"
proof -
  obtain b c' where i: "in_min_state env c w = (b, c')" by fastforce
  then have l: "zone_trip_limits c' = zone_trip_limits c" using in_min_state_frame(1) [of env c w] by simp
  have "deactivate rq c' = (None, c'\<lparr>zone_trip_limits := zone_trip_limits c'\<rparr>)"
    using assms(2,3) l by (simp add: deactivate_def Let_def)
  then show ?thesis using assms(1,2) i l by (simp add: thd_cdev_set_state_def Let_def)
qed

fun drop_limits :: "state_request list \<Rightarrow> zone_trip_limits_t list \<Rightarrow> zone_trip_limits_t list" where
  "drop_limits [] ls = ls"
| "drop_limits (rq # rqs) ls = drop_limits rqs (drop_limit rq ls)"

lemma cdev_run_offs:
  "\<forall>(rq, pid) \<in> set rqs. \<not> rq_state rq \<Longrightarrow>
   zone_trip_limits (fst (cdev_run env rqs c m w)) = drop_limits (map fst rqs) (zone_trip_limits c)"
proof (induction env rqs c m w rule: cdev_run.induct)
  case (2 env rq pid rqs c m w)
  obtain c' pid' m' w' where s: "thd_cdev_set_state env rq c pid m w = (c', pid', m', w')" by (metis prod_cases4)
  have "zone_trip_limits c' = drop_limit rq (zone_trip_limits c)"
    using set_state_limits [of env rq c pid m w] s "2.prems" by simp
  then show ?case using 2 s by simp
qed simp

lemma drop_limit_length: "length (drop_limit rq ls) \<le> length ls"
  by (simp add: drop_limit_def)

lemma drop_limits_shrink:
  assumes "ls \<noteq> []" "\<exists>rq \<in> set rqs. limit_of rq (last ls)"
  shows "length (drop_limits rqs ls) < length ls"
proof -
  have mono: "length (drop_limits rqs ls) \<le> length ls" for rqs ls
    by (induction rqs ls rule: drop_limits.induct) (auto intro: order_trans [OF _ drop_limit_length])
  from assms(2) show ?thesis
  proof (induction rqs)
    case (Cons rq rqs)
    show ?case
    proof (cases "limit_of rq (last ls)")
      case True
      then have "drop_limit rq ls = butlast ls" using assms(1) by (simp add: drop_limit_def)
      then show ?thesis using mono [of rqs "butlast ls"] assms(1) by (simp add: less_eq_Suc_le [symmetric] Suc_le_eq
          order_le_less_trans)
    next
      case False
      then show ?thesis using Cons by (simp add: drop_limit_def)
    qed
  qed simp
qed

lemma drop_limits_set: "set (drop_limits rqs ls) \<subseteq> set ls"
  by (induction rqs ls rule: drop_limits.induct) (use drop_limit_set in auto)

lemma drop_rounds:
  assumes "\<forall>l \<in> set ls. \<exists>rq \<in> set rqs. limit_of rq l" "length ls \<le> n"
  shows "(drop_limits rqs ^^ n) ls = []"
  using assms
proof (induction n arbitrary: ls)
  case (Suc n)
  show ?case
  proof (cases "ls = []")
    case True
    have "drop_limits rqs [] = []" for rqs by (induction rqs) (simp_all add: drop_limit_def)
    then show ?thesis using True Suc.IH [of "[]"] by (simp add: funpow_Suc_right del: funpow.simps)
  next
    case False
    then have "length (drop_limits rqs ls) \<le> n"
      using drop_limits_shrink [OF False, of rqs] Suc.prems by (simp add: last_in_set)
    moreover have "\<forall>l \<in> set (drop_limits rqs ls). \<exists>rq \<in> set rqs. limit_of rq l"
      using Suc.prems(1) drop_limits_set by blast
    ultimately show ?thesis using Suc.IH by (simp add: funpow_Suc_right del: funpow.simps)
  qed
qed simp

lemma cdev_rounds:
  assumes "\<forall>(rq, pid) \<in> set rqs. \<not> rq_state rq"
  shows "zone_trip_limits (fst (cdev_run env (concat (replicate n rqs)) c m w)) =
    (drop_limits (map fst rqs) ^^ n) (zone_trip_limits c)"
proof (induction n arbitrary: c m w)
  case (Suc n)
  obtain c' m' w' where r: "cdev_run env rqs c m w = (c', m', w')" by (metis prod_cases3)
  then have "zone_trip_limits c' = drop_limits (map fst rqs) (zone_trip_limits c)"
    using cdev_run_offs [OF assms, of env c m w] by simp
  then show ?case using Suc.IH [of c' m' w'] r
    by (simp add: cdev_run_append funpow_Suc_right del: funpow.simps)
qed simp

text \<open>C29: Although a deactivation only ever removes the last entry, and only when it is the caller's own, the list of a
  device empties: when the trips in it are deactivated over and over, in any order, it is empty after at most as many
  rounds as it has entries.\<close>

theorem limits_drain:
  assumes "\<forall>(rq, pid) \<in> set rqs. \<not> rq_state rq" "\<forall>l \<in> set (zone_trip_limits c). \<exists>(rq, pid) \<in> set rqs. limit_of rq l"
    and "length (zone_trip_limits c) \<le> n"
  shows "zone_trip_limits (fst (cdev_run env (concat (replicate n rqs)) c m w)) = []"
proof -
  have "\<forall>l \<in> set (zone_trip_limits c). \<exists>rq \<in> set (map fst rqs). limit_of rq l" using assms(2) by (simp add: case_prod_unfold)
  from drop_rounds [OF this assms(3)] show ?thesis unfolding cdev_rounds [OF assms(1)] .
qed

theorem limits_drain_witness:
  "zone_trip_limits (fst (cdev_run mem_env (concat (replicate 2 [(ask False 2 0, cthd_pid_new), (ask False 1 0, cthd_pid_new)]))
     (plain_cdev\<lparr>zone_trip_limits := [new_limit plain_cdev (ask True 2 3), new_limit plain_cdev (ask True 1 7)]\<rparr>)
     quiet_meter empty_world)) = []"
  by (rule limits_drain) (simp_all add: ask_def new_limit_def limit_of_def)

section \<open>The range of the states\<close>

text \<open>C33: What a RAPL device makes of a request. A device that the firmware locks writes nothing and only remembers its weakest
  or strongest state. Otherwise the request ends with writing the state remembered to the power limit. A request for
  less than the weakest state leaves that limit between the strongest and the weakest state: it is the request itself,
  unless that is below the strongest state. A request of at least the weakest state releases the device: it is no
  longer constrained, and the limit becomes the one found at start-up, whatever that was, or the weakest state when none
  (0) was found.\<close>

theorem rapl_power_limit_bounds:
  assumes "rapl_set_curr_state env state control c r w = (c', r', w')"
  shows "if bios_locked r then w' = w \<and> r' = r \<and>
      curr_state c' = (if state \<le> inc_dec_val c then min_state c else max_state c)
    else (\<exists>w1. w' = snd (sysfs_write_int env (cd_base_path c)
        (constraint_attr (constraint_index r) ''_power_limit_uw'') (curr_state c') w1)) \<and>
      (if min_state c \<le> max state (max_state c) then \<not> constrained r' \<and>
         curr_state c' = (if power_on_constraint_0_pwr r \<noteq> 0 then power_on_constraint_0_pwr r else min_state c)
       else max_state c \<le> curr_state c' \<and> curr_state c' < min_state c \<and> curr_state c' = max state (max_state c) \<and>
         constrained r' = (control \<or> constrained r))"
proof (cases "bios_locked r")
  case True
  then show ?thesis using assms by (auto simp: rapl_set_curr_state_def)
next
  case False
  define new_state where "new_state = (if state < max_state c then max_state c else state)"
  define step where "step =
    (if min_state c \<le> new_state
     then (let w = (if power_on_enable_status r = 0 then rapl_update_enable_status env c 0 w else w);
               w = rapl_update_time_window env c r (power_on_constraint_0_time_window r) w
       in (if power_on_constraint_0_pwr r \<noteq> 0 then power_on_constraint_0_pwr r else min_state c, r\<lparr>constrained := False\<rparr>, w))
     else if control \<and> \<not> constrained r
     then (let w = rapl_update_time_window env c r (if pl0_min_window r \<noteq> 0 then pl0_min_window r else def_rapl_time_window) w;
               w = (if power_on_enable_status r = 0 then rapl_update_enable_status env c 1 w else w)
       in (new_state, r\<lparr>constrained := True\<rparr>, w))
     else (new_state, r, w))"
  obtain s1 r1 w1 where s1: "step = (s1, r1, w1)" by (metis prod_cases3)
  obtain ret w2 where w2: "rapl_update_pl1 env c r1 s1 w1 = (ret, w2)" by fastforce
  have run: "rapl_set_curr_state env state control c r w =
      (c\<lparr>curr_state := s1\<rparr>, if ret < 0 \<and> ret = - 61 then r1\<lparr>bios_locked := True\<rparr> else r1, w2)"
    unfolding rapl_set_curr_state_def if_not_P [OF False] Let_def new_state_def [symmetric]
      step_def [unfolded Let_def, symmetric] s1 prod.case w2 by (rule refl)
  have n: "new_state = max state (max_state c)" by (simp add: new_state_def)
  have st: "s1 = (if min_state c \<le> new_state then if power_on_constraint_0_pwr r \<noteq> 0 then power_on_constraint_0_pwr r else min_state c
      else new_state)" "constraint_index r1 = constraint_index r"
    "constrained r1 = (\<not> min_state c \<le> new_state \<and> (control \<or> constrained r))"
    using s1 by (auto simp: step_def Let_def split: if_splits)
  have "w2 = snd (sysfs_write_int env (cd_base_path c) (constraint_attr (constraint_index r) ''_power_limit_uw'') s1 w1)"
    using w2 st(2) by (simp add: rapl_update_pl1_def split_beta)
  moreover have "c' = c\<lparr>curr_state := s1\<rparr>" "constrained r' = constrained r1" "w' = w2" using assms run by (auto split: if_splits)
  ultimately show ?thesis using False st(1,3) unfolding n by auto
qed

definition plain_rapl :: rapl_data where
  "plain_rapl = \<lparr>phy_max = 15000000, constraint_index = 0, pl2_index = 1, dynamic_phy_max_enable = False, pl0_max_pwr = 15000000,
     pl0_min_pwr = 3000000, pl0_min_window = 28000000, pl0_max_window = 32000000, pl0_step_pwr = 500000, pl1_max_pwr = 0, pl1_max_window = 0,
     bios_locked = False, constrained = False, power_on_constraint_0_pwr = 0, power_on_constraint_0_time_window = 28000000,
     power_on_enable_status = 1\<rparr>"

theorem rapl_power_limit_bounds_witness:
  "(let (c', r', w') = rapl_set_curr_state mem_env (- 5) True (plain_cdev\<lparr>min_state := 15000000, max_state := 3000000\<rparr>) plain_rapl empty_world
    in curr_state c' = 3000000 \<and> constrained r') \<and>
   (let (c', r', w') = rapl_set_curr_state mem_env 15000000 False (plain_cdev\<lparr>min_state := 15000000, max_state := 3000000\<rparr>)
      (plain_rapl\<lparr>power_on_constraint_0_pwr := - 1\<rparr>) empty_world in curr_state c' = - 1)"
proof -
  let ?c = "plain_cdev\<lparr>min_state := 15000000, max_state := 3000000\<rparr>"
  obtain c1 r1 w1 where 1: "rapl_set_curr_state mem_env (- 5) True ?c plain_rapl empty_world = (c1, r1, w1)"
    by (metis prod_cases3)
  obtain c2 r2 w2 where 2: "rapl_set_curr_state mem_env 15000000 False ?c (plain_rapl\<lparr>power_on_constraint_0_pwr := - 1\<rparr>) empty_world = (c2, r2, w2)"
    by (metis prod_cases3)
  show ?thesis
    using rapl_power_limit_bounds [OF 1] rapl_power_limit_bounds [OF 2] 1 2 by (simp add: plain_rapl_def plain_cdev_def)
qed

text \<open>The limits that a trip brings lie within the device's.\<close>

definition inner :: "cthd_cdev \<Rightarrow> int \<Rightarrow> bool" where
  "inner c s \<longleftrightarrow> s = 0 \<or> min_state c \<le> s \<and> s \<le> max_state c"

lemma clamp_range:
  assumes "min_state c \<le> max_state c" "inner c b"
  shows "min_state c \<le> thd_clamp_state_min c s b"
    and "thd_clamp_state_max c s b \<le> max_state c"
    and "min_state c \<le> s \<Longrightarrow> min_state c \<le> thd_clamp_state_max c s b"
  using assms by (auto simp: thd_clamp_state_min_def thd_clamp_state_max_def inner_def Let_def)

lemma clamp_update [simp]:
  "thd_clamp_state_max (c\<lparr>curr_pow := p\<rparr>) = thd_clamp_state_max c"
  "thd_clamp_state_min (c\<lparr>curr_pow := p\<rparr>) = thd_clamp_state_min c"
  "thd_clamp_state_max (c\<lparr>trend_increase := t\<rparr>) = thd_clamp_state_max c"
  "thd_clamp_state_min (c\<lparr>trend_increase := t\<rparr>) = thd_clamp_state_min c"
  "thd_clamp_state_max (c\<lparr>base_pow_state := b\<rparr>) = thd_clamp_state_max c"
  by (simp_all add: fun_eq_iff thd_clamp_state_max_def thd_clamp_state_min_def)

lemma exponential_up_trend:
  fixes cur mn mx :: int
  assumes "trend_increase c"
  defines "b \<equiv> (if curr_pow c = 0 then thd_clamp_state_min c cur mn else base_pow_state c)"
    and "p \<equiv> (if curr_pow c < default_max_exponent then curr_pow c + 1 else curr_pow c)"
    and "step \<equiv> (if inc_val c \<noteq> 0 then inc_val c else inc_dec_val c)"
  shows "snd (exponential_up c cur mn mx) = thd_clamp_state_max c
    (if inc_val c < 0 \<and> b < pow_state b p step \<or> 0 < inc_val c \<and> pow_state b p step < b then max_state c else pow_state b p step) mx"
proof -
  define st where "st = thd_clamp_state_min c cur mn"
  have le: "curr_pow c = 0 \<Longrightarrow> curr_pow c < default_max_exponent" by (simp add: default_max_exponent_def)
  show ?thesis
    using assms(1) le unfolding exponential_up_def Let_def st_def [symmetric] b_def p_def step_def
    by (cases "curr_pow c = 0"; cases "curr_pow c < default_max_exponent") simp_all
qed

text \<open>The exponential controller asks for states within the range of the device: always when it steps down, and when
  it steps up as long as the step is positive and twenty doublings of it do not overflow.\<close>

theorem exponential_in_range:
  assumes "min_state c \<le> max_state c" "inner c mn" "inner c mx"
    and "step = (if inc_val c \<noteq> 0 then inc_val c else inc_dec_val c)" "0 < step" "step < 1024"
    and "min_state c \<le> base_pow_state c" "base_pow_state c < 2 ^ 30" "cur < 2 ^ 30" "mn < 2 ^ 30" "0 \<le> min_state c" "min_state c < 2 ^ 30"
    and "curr_pow c \<le> default_max_exponent"
  shows "snd (exponential_up c cur mn mx) \<in> {min_state c .. max_state c} \<and>
    snd (exponential_down c cur mn mx) \<in> {min_state c .. max_state c}"
proof
  define cur' where "cur' = thd_clamp_state_min c cur mn"
  have cur': "min_state c \<le> cur'" "cur' < 2 ^ 30"
    using clamp_range(1) [OF assms(1,2)] assms(1,9,10,12) by (auto simp: cur'_def thd_clamp_state_min_def Let_def)
  have pow: "min_state c \<le> pow_state b p step" if "min_state c \<le> b" "b < 2 ^ 30" "p \<le> 20" for b p
  proof -
    have "(2 :: int) ^ p \<le> 2 ^ 20" using that(3) by (intro power_increasing) simp_all
    then have "2 ^ p * step \<le> 2 ^ 20 * 1023" using assms(5,6) by (intro mult_mono) simp_all
    moreover have "0 \<le> 2 ^ p * step" using assms(5) by simp
    ultimately show ?thesis using that(1,2) assms(11) unfolding pow_state_def by (subst c_int_id) simp_all
  qed
  show "snd (exponential_up c cur mn mx) \<in> {min_state c .. max_state c}"
  proof (cases "trend_increase c")
    case True
    define b where "b = (if curr_pow c = 0 then cur' else base_pow_state c)"
    define p where "p = (if curr_pow c < default_max_exponent then curr_pow c + 1 else curr_pow c)"
    have b: "min_state c \<le> b" "b < 2 ^ 30" using cur' assms(7,8) by (auto simp: b_def)
    have p: "p \<le> 20" using assms(13) by (auto simp: p_def default_max_exponent_def)
    have "snd (exponential_up c cur mn mx) = thd_clamp_state_max c
        (if inc_val c < 0 \<and> b < pow_state b p step \<or> 0 < inc_val c \<and> pow_state b p step < b then max_state c
         else pow_state b p step) mx" (is "_ = thd_clamp_state_max c ?st mx")
      unfolding b_def p_def cur'_def assms(4) by (rule exponential_up_trend [OF True])
    moreover have "min_state c \<le> ?st" using pow [OF b p] assms(1) by auto
    ultimately show ?thesis using clamp_range(2,3) [OF assms(1,3)] by simp
  next
    case False
    then have "snd (exponential_up c cur mn mx) = thd_clamp_state_max c (cur' + step) mx"
      by (simp add: exponential_up_def Let_def cur'_def [symmetric] assms(4) [symmetric])
    then show ?thesis using clamp_range(2,3) [OF assms(1,3), of "cur' + step"] cur'(1) assms(5) by simp
  qed
  have "\<exists>st. snd (exponential_down c cur mn mx) = thd_clamp_state_max c (thd_clamp_state_min c st mn) mx"
    unfolding exponential_down_def Let_def by simp blast
  then show "snd (exponential_down c cur mn mx) \<in> {min_state c .. max_state c}"
    using clamp_range(2,3) [OF assms(1,3)] clamp_range(1) [OF assms(1,2)] by force
qed

theorem exponential_in_range_witness: "snd (exponential_up plain_cdev 9 0 0) \<in> {0 .. 10}"
  using exponential_in_range [of plain_cdev 0 0 1 9]
  by (simp add: plain_cdev_def inner_def default_max_exponent_def)

text \<open>A backlight whose first state is not one step loses its brightness: nothing is remembered, and going back to
  state 0 writes nothing.\<close>

lemma backlight_not_restored:
  assumes "state \<noteq> 0" "state \<noteq> inc_dec_val c" "backlight_set_curr_state env state c 0 mn w = (c', ref', w')"
  shows "backlight_set_curr_state env 0 c' ref' mn w' = (c'\<lparr>curr_state := 0\<rparr>, 0, w')"
  using assms by (auto simp: backlight_set_curr_state_def Let_def split: prod.splits if_splits)

end
