(* ===== verification/Thd_CdevSetup.thy ===== *)
theory Thd_CdevSetup
  imports Thd_Setup
begin

text \<open>
  How cooling devices are set up: RAPL packages and memory (\<^verbatim>\<open>thd_cdev_rapl.cpp\<close>, \<^verbatim>\<open>thd_cdev_rapl_dram.cpp\<close>), the
  backlight (\<^verbatim>\<open>thd_cdev_backlight.cpp\<close>), the P-state driver (\<^verbatim>\<open>thd_cdev_intel_pstate_driver.cpp\<close>); and how the power meter
  finds its domains (\<^verbatim>\<open>thd_rapl_power_meter.cpp\<close>). The limits of the thermal tables are an argument: the engine looks
  them up in a virtual function. Fields that are only stored are left out.
\<close>

record ppcc_t =
  ppcc_name :: string
  ppcc_valid :: bool
  power_limit_min :: int
  power_limit_max :: int
  time_wind_min :: int
  time_wind_max :: int
  step_size :: int
  limit_1_valid :: bool
  power_limit_1_min :: int
  power_limit_1_max :: int
  time_wind_1_min :: int
  time_wind_1_max :: int
  step_1_size :: int

section \<open>RAPL\<close>

definition rapl_min_default_step :: int where "rapl_min_default_step = 500000"
definition rapl_max_sane_phy_max :: int where "rapl_max_sane_phy_max = 1000000000"
definition rapl_low_limit_percent :: int where "rapl_low_limit_percent = 50"
definition rapl_power_dec_percent :: int where "rapl_power_dec_percent = 5"
definition rapl_no_time_windows :: nat where "rapl_no_time_windows = 6"
definition MINIBOOK_PID_KP :: int where "MINIBOOK_PID_KP = - 1000"
definition MINIBOOK_PID_KI :: int where "MINIBOOK_PID_KI = - 100"
definition MINIBOOK_PID_KD :: int where "MINIBOOK_PID_KD = - 10"

definition cthd_sysfs_cdev_rapl_new :: rapl_data where
  "cthd_sysfs_cdev_rapl_new = \<lparr>phy_max = 0, constraint_index = 0, pl2_index = - 1, dynamic_phy_max_enable = False,
     pl0_max_pwr = 0, pl0_min_pwr = 0, pl0_min_window = 0, pl0_max_window = 0, pl0_step_pwr = 0, pl1_max_pwr = 0,
     pl1_max_window = 0, bios_locked = False, constrained = False, power_on_constraint_0_pwr = 0,
     power_on_constraint_0_time_window = 0, power_on_enable_status = 0\<rparr>"

definition read_word :: "'w thd_env \<Rightarrow> string \<Rightarrow> string \<Rightarrow> 'w \<Rightarrow> string" where
  "read_word env base attr w = (case sysfs_read_str env base attr w of (ret, s) \<Rightarrow> if ret < 0 then [] else s)"

text \<open>The loop over the constraints: whether a long-term one was found, and the positions.\<close>

fun constraints_loop :: "'w thd_env \<Rightarrow> cthd_cdev \<Rightarrow> nat list \<Rightarrow> bool \<Rightarrow> rapl_data \<Rightarrow> 'w \<Rightarrow> bool \<times> rapl_data" where
  "constraints_loop env c [] found r w = (found, r)"
| "constraints_loop env c (i # is) found r w =
     (let attr = constraint_attr (int i) ''_name'' in
      if sysfs_exists env (cd_base_path c) attr w
      then (let name = read_word env (cd_base_path c) attr w
        in if name = ''long_term'' then constraints_loop env c is True (r\<lparr>constraint_index := int i\<rparr>) w
           else if name = ''short_term'' then constraints_loop env c is found (r\<lparr>pl2_index := int i\<rparr>) w
           else constraints_loop env c is found r w)
      else constraints_loop env c is found r w)"

definition rapl_sysfs_valid :: "'w thd_env \<Rightarrow> cthd_cdev \<Rightarrow> rapl_data \<Rightarrow> 'w \<Rightarrow> int \<times> rapl_data" where
  "rapl_sysfs_valid env c r w =
     (let (found, r) = constraints_loop env c [0..<rapl_no_time_windows] False r w
      in if \<not> found then (THD_ERROR, r)
         else if \<not> sysfs_exists env (cd_base_path c) (constraint_attr (constraint_index r) ''_power_limit_uw'') w then (THD_ERROR, r)
         else if \<not> sysfs_exists env (cd_base_path c) (constraint_attr (constraint_index r) ''_time_window_us'') w then (THD_ERROR, r)
         else (0, r))"

text \<open>One of the power-limit attributes: nothing happens when it is missing, \<open>None\<close> when it cannot be read.\<close>

definition read_limit :: "'w thd_env \<Rightarrow> string \<Rightarrow> string \<Rightarrow> int \<Rightarrow> 'w \<Rightarrow> int option" where
  "read_limit env base attr val w =
     (if \<not> sysfs_exists env base attr w then Some val
      else (let (ret, v) = sysfs_read_int env base attr val w in if ret \<le> 0 then None else Some v))"

definition power_limits_path :: "'w thd_env \<Rightarrow> 'w \<Rightarrow> string option" where
  "power_limits_path env w = List.find (\<lambda>p. sysfs_exists env [] p w)
     [''/sys/bus/pci/devices/0000:00:04.0/power_limits/'', ''/sys/bus/pci/devices/0000:00:0b.0/power_limits/'',
      ''/sys/bus/platform/devices/INT3401:00/power_limits/'']"

definition read_sysfs_ppcc :: "'w thd_env \<Rightarrow> string \<Rightarrow> rapl_data \<Rightarrow> 'w \<Rightarrow> bool \<times> rapl_data" where
  "read_sysfs_ppcc env base r w =
    (case read_limit env base ''power_limit_0_max_uw'' (pl0_max_pwr r) w of None \<Rightarrow> (False, r) | Some v \<Rightarrow>
     let r = r\<lparr>pl0_max_pwr := v\<rparr> in
     case read_limit env base ''power_limit_0_min_uw'' (pl0_min_pwr r) w of None \<Rightarrow> (False, r) | Some v \<Rightarrow>
     let r = r\<lparr>pl0_min_pwr := v\<rparr> in
     case read_limit env base ''power_limit_0_tmin_us'' (pl0_min_window r) w of None \<Rightarrow> (False, r) | Some v \<Rightarrow>
     let r = r\<lparr>pl0_min_window := v\<rparr> in
     case read_limit env base ''power_limit_0_tmax_us'' (pl0_max_window r) w of None \<Rightarrow> (False, r) | Some v \<Rightarrow>
     let r = r\<lparr>pl0_max_window := v\<rparr> in
     case read_limit env base ''power_limit_0_step_uw'' (pl0_step_pwr r) w of None \<Rightarrow> (False, r) | Some v \<Rightarrow>
     (True, r\<lparr>pl0_step_pwr := v\<rparr>))"

definition read_ppcc_power_limits :: "'w thd_env \<Rightarrow> ppcc_t option \<Rightarrow> cthd_cdev \<Rightarrow> rapl_data \<Rightarrow> 'w \<Rightarrow> bool \<times> rapl_data" where
  "read_ppcc_power_limits env ppcc c r w = (case ppcc of
     Some p \<Rightarrow>
       (let r = r\<lparr>pl0_max_pwr := c_int (power_limit_max p * 1000), pl0_min_pwr := c_int (power_limit_min p * 1000),
                  pl0_min_window := c_int (time_wind_min p * 1000), pl0_max_window := c_int (time_wind_max p * 1000),
                  pl0_step_pwr := c_int (step_size p * 1000)\<rparr>;
            r = (if limit_1_valid p then r\<lparr>pl1_max_pwr := c_int (power_limit_1_max p * 1000),
                  pl1_max_window := c_int (time_wind_1_max p * 1000)\<rparr> else r)
        in (pl0_min_pwr r < pl0_max_pwr r, r))
   | None \<Rightarrow>
       if read_word env (cd_base_path c) ''name'' w \<noteq> ''package-0'' then (False, r)
       else (case power_limits_path env w of None \<Rightarrow> (False, r)
         | Some base \<Rightarrow>
             (let (ok, r) = read_sysfs_ppcc env base r w
              in (ok \<and> pl0_max_pwr r \<noteq> 0 \<and> pl0_min_pwr r \<noteq> 0 \<and> pl0_min_window r \<noteq> 0 \<and> pl0_step_pwr r \<noteq> 0 \<and>
                  pl0_max_window r \<noteq> 0 \<and> pl0_min_pwr r < pl0_max_pwr r \<and>
                  rapl_read_pl1_max env c r w \<le> pl0_max_pwr r, r))))"

text \<open>The branch with limits from the thermal tables.\<close>

definition rapl_update_ppcc :: "'w thd_env \<Rightarrow> cthd_cdev \<Rightarrow> rapl_data \<Rightarrow> rapl_meter \<Rightarrow> 'w \<Rightarrow> cthd_cdev \<times> rapl_data \<times> rapl_meter \<times> 'w" where
  "rapl_update_ppcc env c r m w =
     (let r = r\<lparr>phy_max := pl0_max_pwr r\<rparr>;
          c = c\<lparr>inc_val := c_int (- pl0_step_pwr r * 2), dec_val := - pl0_step_pwr r, min_state := pl0_max_pwr r, max_state := pl0_min_pwr r\<rparr>;
          (_, w) = rapl_update_pl1 env c r (pl0_max_pwr r) w;
          w = (if pl0_min_window r < pl0_max_window r then rapl_update_time_window env c r (pl0_max_window r) w else w);
          m = rapl_start_measure_power m;
          r = r\<lparr>dynamic_phy_max_enable := True\<rparr>;
          w = (if rapl_read_pl2 env c r w = 0
               then (if pl1_max_pwr r \<noteq> 0
                     then (let (_, w) = rapl_update_pl2 env c r (pl1_max_pwr r) w;
                               w = rapl_update_pl2_time_window env c r (pl1_max_window r) w
                       in rapl_update_enable_status env c 1 w)
                     else w)
               else rapl_update_enable_status env c 1 w)
      in (c, r, m, w))"

definition percent_of :: "int \<Rightarrow> int \<Rightarrow> f32" where
  "percent_of x p = fint x * fint p div fint 100"

text \<open>Without such limits: a sane limit of the hardware. \<open>None\<close> when there is none.\<close>

definition rapl_update_plain :: "'w thd_env \<Rightarrow> cthd_cdev \<Rightarrow> rapl_data \<Rightarrow> 'w \<Rightarrow> (cthd_cdev \<times> rapl_data) option" where
  "rapl_update_plain env c r w =
     (let pm = rapl_read_pl1_max env c r w
      in if pm < 0 \<or> rapl_max_sane_phy_max < pm then None
         else (let pl1 = rapl_read_pl1 env c r w;
                   pm = (if pm < pl1 then pl1 else pm)
           in Some (c\<lparr>inc_dec_val := f2i (percent_of (- pm) rapl_power_dec_percent), min_state := pm,
                      max_state := f2i (fint pm - percent_of pm rapl_low_limit_percent)\<rparr>, r\<lparr>phy_max := pm\<rparr>)))"

definition rapl_update_dynamic :: "'w thd_env \<Rightarrow> cthd_cdev \<Rightarrow> rapl_data \<Rightarrow> rapl_meter \<Rightarrow> 'w \<Rightarrow> cthd_cdev \<times> rapl_data \<times> rapl_meter" where
  "rapl_update_dynamic env c r m w =
     (c\<lparr>max_state := 0, min_state := rapl_max_sane_phy_max, curr_state := rapl_max_sane_phy_max, inc_dec_val := - rapl_min_default_step\<rparr>,
      r\<lparr>power_on_constraint_0_pwr := rapl_read_pl1 env c r w, power_on_constraint_0_time_window := rapl_read_time_window env c r w,
        phy_max := 0, dynamic_phy_max_enable := True\<rparr>,
      rapl_start_measure_power m)"

definition rapl_update_finish :: "'w thd_env \<Rightarrow> cthd_cdev \<Rightarrow> rapl_data \<Rightarrow> 'w \<Rightarrow> cthd_cdev \<times> rapl_data" where
  "rapl_update_finish env c r w =
     (c\<lparr>pid_enable := True, pid_ctrl := set_pid_param (fint MINIBOOK_PID_KP) (fint MINIBOOK_PID_KI) (fint MINIBOOK_PID_KD) (pid_ctrl c),
        curr_state := min_state c\<rparr>,
      r\<lparr>power_on_constraint_0_time_window := rapl_read_time_window env c r w,
        power_on_enable_status := rapl_read_enable_status env c w\<rparr>)"

definition rapl_update ::
  "'w thd_env \<Rightarrow> ppcc_t option \<Rightarrow> cthd_cdev \<Rightarrow> rapl_data \<Rightarrow> rapl_meter \<Rightarrow> 'w \<Rightarrow> int \<times> cthd_cdev \<times> rapl_data \<times> rapl_meter \<times> 'w" where
  "rapl_update env ppcc c r m w =
     (let (ret, r) = rapl_sysfs_valid env c r w
      in if ret \<noteq> 0 then (THD_ERROR, c, r, m, w)
         else (let (ok, r) = read_ppcc_power_limits env ppcc c r w
           in if ok
              then (let (c, r, m, w) = rapl_update_ppcc env c r m w; (c, r) = rapl_update_finish env c r w
                in (THD_SUCCESS, c, r, m, w))
              else (case rapl_update_plain env c r w of
                     Some (c, r) \<Rightarrow> (let (c, r) = rapl_update_finish env c r w in (THD_SUCCESS, c, r, m, w))
                   | None \<Rightarrow> (let (c, r, m) = rapl_update_dynamic env c r m w in (THD_SUCCESS, c, r, m, w)))))"

text \<open>The memory's domain is looked up by its name.\<close>

definition rapl_dram_update ::
  "'w thd_env \<Rightarrow> ppcc_t option \<Rightarrow> cthd_cdev \<Rightarrow> rapl_data \<Rightarrow> rapl_meter \<Rightarrow> 'w \<Rightarrow> int \<times> cthd_cdev \<times> rapl_data \<times> rapl_meter \<times> 'w" where
  "rapl_dram_update env ppcc c r m w =
     (let base = ''/sys/devices/virtual/powercap/intel-rapl/intel-rapl:0/''
      in case te_dir env base w of None \<Rightarrow> (THD_ERROR, c, r, m, w)
         | Some names \<Rightarrow>
            (case List.find (\<lambda>n. let p = base @ n @ ''/'' @ ''name'' in sysfs_exists env p [] w \<and>
                   sysfs_read_str env p [] w = (0, ''dram'')) names of
               None \<Rightarrow> (THD_ERROR, c, r, m, w)
             | Some n \<Rightarrow> rapl_update env ppcc (c\<lparr>cd_base_path := base @ n @ ''/''\<rparr>) r m w))"

definition set_tcc :: "'w thd_env \<Rightarrow> int \<Rightarrow> 'w \<Rightarrow> 'w" where
  "set_tcc env tcc w =
     (let base = ''/sys/bus/pci/devices/0000:00:04.0/''
      in if sysfs_exists env base ''tcc_offset_degree_celsius'' w
         then snd (sysfs_write_int env base ''tcc_offset_degree_celsius'' tcc w) else w)"

text \<open>\<^verbatim>\<open>std::stoi\<close>; \<open>None\<close> is an exception.\<close>

definition stoi :: "string \<Rightarrow> int option" where
  "stoi s = (case split_sign s of (neg, ds) \<Rightarrow>
     if ds = [] \<or> digit_val 10 (hd ds) = None then None
     else (let v = (if neg then - 1 else 1) * int (digits_val 10 0 ds)
       in if - (2 ^ 31) \<le> v \<and> v < 2 ^ 31 then Some v else None))"

record adaptive_target =
  target_id :: u64
  at_name :: string
  at_participant :: string
  at_domain :: u64
  at_code :: string
  at_argument :: string

definition rapl_set_adaptive_target ::
  "'w thd_env \<Rightarrow> adaptive_target \<Rightarrow> cthd_cdev \<Rightarrow> rapl_data \<Rightarrow> 'w \<Rightarrow> (cthd_cdev \<times> rapl_data \<times> 'w) option" where
  "rapl_set_adaptive_target env target c r w = (case stoi (at_argument target) of None \<Rightarrow> None
     | Some argument \<Rightarrow>
        Some (if at_code target = ''PL1MAX'' then
                (let r = r\<lparr>pl0_max_pwr := argument * 1000\<rparr>; c = c\<lparr>min_state := argument * 1000\<rparr>;
                     pl1 = rapl_read_pl1 env c r w;
                     (c, r, w) = (if pl1 < curr_state c then rapl_set_curr_state env pl1 True c r w else (c, r, w))
                 in if min_state c < curr_state c then rapl_set_curr_state env (min_state c) True c r w else (c, r, w))
              else if at_code target = ''PL1MIN'' then
                (let r = r\<lparr>pl0_min_pwr := argument * 1000\<rparr>; c = c\<lparr>max_state := argument * 1000\<rparr>
                 in if curr_state c < max_state c then rapl_set_curr_state env (max_state c) True c r w else (c, r, w))
              else if at_code target = ''PL1STEP'' then
                (c\<lparr>inc_val := - (argument * 1000) * 2, dec_val := - (argument * 1000)\<rparr>, r\<lparr>pl0_step_pwr := argument * 1000\<rparr>, w)
              else if at_code target = ''PL1TimeWindow'' then (c, r\<lparr>pl0_min_window := argument * 1000\<rparr>, w)
              else if at_code target = ''PL1PowerLimit'' then (c, r, snd (rapl_update_pl1 env c r (argument * 1000) w))
              else if at_code target = ''PL2PowerLimit'' then (c, r, snd (rapl_update_pl2 env c r (argument * 1000) w))
              else if at_code target = ''TccOffset'' then (c, r, set_tcc env argument w)
              else (c, r, w)))"

definition rapl_set_min_state_param :: "int \<Rightarrow> cthd_cdev \<Rightarrow> cthd_cdev" where
  "rapl_set_min_state_param arg c = c\<lparr>min_state := arg, curr_state := arg\<rparr>"

section \<open>Backlight and P-states\<close>

definition backlight_devices :: "string list" where
  "backlight_devices = [''/sys/class/backlight/intel_backlight/'', ''/sys/class/backlight/acpi_video0/'',
     ''/sys/class/leds/lcd-backlight/'', ''/sys/class/backlight/lcd-backlight/'']"

definition backlight_update :: "'w thd_env \<Rightarrow> cthd_cdev \<Rightarrow> int \<Rightarrow> 'w \<Rightarrow> int \<times> cthd_cdev \<times> int" where
  "backlight_update env c min_light w =
     (let (ret, mx) = (if sysfs_exists env (cd_base_path c) [] w
            then sysfs_read_int env (cd_base_path c) ''max_brightness'' (max_state c) w else (0, max_state c));
          c = c\<lparr>max_state := mx\<rparr>
      in if ret < 0 then (ret, c, min_light)
         else if mx \<le> 0 then (THD_ERROR, c, min_light)
         else (THD_SUCCESS, c\<lparr>inc_dec_val := f2i (fint mx * fint 10 div fint 100 :: f32)\<rparr>, c_div (mx * 25) 100))"

fun backlight_search :: "'w thd_env \<Rightarrow> string list \<Rightarrow> cthd_cdev \<Rightarrow> int \<Rightarrow> 'w \<Rightarrow> cthd_cdev \<times> int" where
  "backlight_search env [] c min_light w = (c, min_light)"
| "backlight_search env (p # ps) c min_light w =
     (let (ret, c, min_light) = backlight_update env (c\<lparr>cd_base_path := p\<rparr>) min_light w
      in if ret = THD_SUCCESS then (c, min_light) else backlight_search env ps c min_light w)"

definition cthd_cdev_backlight_new :: "'w thd_env \<Rightarrow> int \<Rightarrow> 'w \<Rightarrow> cthd_cdev" where
  "cthd_cdev_backlight_new env index w =
     (let (c, min_light) = backlight_search env backlight_devices
            (cthd_cdev_new (Cdev_backlight 0 0) index (hd backlight_devices)) 0 w
      in c\<lparr>cd_class := Cdev_backlight 0 min_light\<rparr>)"

definition default_max_state :: int where "default_max_state = 10"

definition pstate_update :: "'w thd_env \<Rightarrow> cthd_cdev \<Rightarrow> bool \<Rightarrow> 'w \<Rightarrow> int \<times> cthd_cdev" where
  "pstate_update env c turbo w =
     (if sysfs_exists env (cd_base_path c) ''/max_perf_pct'' w
      then (let (ret, v) = sysfs_read_int env (cd_base_path c) ''/max_perf_pct'' (curr_state c) w
        in if ret < 0 then (ret, c\<lparr>curr_state := v\<rparr>)
           else (THD_SUCCESS, c\<lparr>max_state := default_max_state, curr_state := 0,
                  cd_class := Cdev_pstate (fconv (fint 100 div fint default_max_state :: f64)) 0 turbo\<rparr>))
      else (THD_ERROR, c))"

section \<open>Domains of the power meter\<close>

definition domain_value :: "domain_type \<Rightarrow> nat" where
  "domain_value t = (case t of DOMAIN_INVALID \<Rightarrow> 0 | PACKAGE \<Rightarrow> 1 | DRAM \<Rightarrow> 2 | CORE \<Rightarrow> 4 | UNCORE \<Rightarrow> 8)"

definition domain_type_of :: "string \<Rightarrow> domain_type" where
  "domain_type_of name = (if has_prefix name ''package-'' then PACKAGE else if name = ''core'' then CORE
     else if name = ''uncore'' then UNCORE else if name = ''dram'' then DRAM else DOMAIN_INVALID)"

definition rapl_domain_new :: "domain_type \<Rightarrow> string \<Rightarrow> rapl_domain_t" where
  "rapl_domain_new t path = \<lparr>dom_type = t, dom_path = path, max_energy_range = 0, max_energy_range_threshold = 0, half_way = False,
     energy_cumulative_counter = 0, energy_counter = 0, dom_power = 0, dom_max_power = 0, dom_min_power = 0\<rparr>"

text \<open>\<open>fuel\<close> bounds the depth of the directories; with none left the search ends early.\<close>

fun rapl_read_domains :: "nat \<Rightarrow> 'w thd_env \<Rightarrow> nat \<Rightarrow> string \<Rightarrow> string list \<Rightarrow> 'w \<Rightarrow> rapl_domain_t list" where
  "rapl_read_domains fuel env measured dir [] w = []"
| "rapl_read_domains fuel env measured dir (n # ns) w =
     (let path = dir @ n @ ''/'' @ ''name''
      in if n = ''.'' \<or> n = ''..'' \<or> \<not> sysfs_exists env [] path w \<or> fst (sysfs_read_str env [] path w) < 0
         then rapl_read_domains fuel env measured dir ns w
         else (let name = snd (sysfs_read_str env [] path w);
                   t = domain_type_of name;
                   below = (case (t, fuel) of (PACKAGE, Suc f) \<Rightarrow>
                       (case te_dir env (dir @ n @ ''/'') w of None \<Rightarrow> []
                        | Some names \<Rightarrow> rapl_read_domains f env measured (dir @ n @ ''/'') names w)
                     | _ \<Rightarrow> [])
           in below @ (if and measured (domain_value t) \<noteq> 0 then [rapl_domain_new t (dir @ n)] else []) @
              rapl_read_domains fuel env measured dir ns w))"

definition cthd_rapl_power_meter_new :: "nat \<Rightarrow> 'w thd_env \<Rightarrow> nat \<Rightarrow> 'w \<Rightarrow> rapl_meter" where
  "cthd_rapl_power_meter_new fuel env measured w =
     (let base = ''/sys/class/powercap/intel-rapl/''
      in if sysfs_exists env base [] w
         then \<lparr>rapl_present = True, domain_list = (case te_dir env base w of None \<Rightarrow> []
                | Some names \<Rightarrow> rapl_read_domains fuel env measured base names w),
               meter_last_time = te_time env w, enable_measurement = False\<rparr>
         else \<lparr>rapl_present = False, domain_list = [], meter_last_time = 0, enable_measurement = False\<rparr>)"

definition constraint_max :: "'w thd_env \<Rightarrow> rapl_domain_t \<Rightarrow> string \<Rightarrow> 'w \<Rightarrow> int" where
  "constraint_max env d attr w =
     (let (status, v) = sysfs_read_int env [] (dom_path d @ ''/'' @ attr) (te_garbage env ''max_power'' w) w
      in if 0 \<le> status \<and> 0 < v then v else 0)"

fun max_power_loop :: "'w thd_env \<Rightarrow> domain_type \<Rightarrow> rapl_domain_t list \<Rightarrow> 'w \<Rightarrow> int" where
  "max_power_loop env t [] w = 0"
| "max_power_loop env t (d # ds) w =
     (if dom_type d = t
      then (let v = max (constraint_max env d ''constraint_0_max_power_uw'' w) (constraint_max env d ''constraint_1_max_power_uw'' w)
        in if v \<noteq> 0 then v else max_power_loop env t ds w)
      else max_power_loop env t ds w)"

definition rapl_action_get_max_power :: "'w thd_env \<Rightarrow> domain_type \<Rightarrow> rapl_meter \<Rightarrow> 'w \<Rightarrow> int" where
  "rapl_action_get_max_power env t m w = (if rapl_present m then max_power_loop env t (domain_list m) w else 0)"

text \<open>The power with its extremes; \<open>None\<close> leaves them as they were.\<close>

definition rapl_action_get_power_range ::
  "'w thd_env \<Rightarrow> domain_type \<Rightarrow> rapl_meter \<Rightarrow> 'w \<Rightarrow> u32 \<times> (u32 \<times> u32) option \<times> rapl_meter \<times> 'w" where
  "rapl_action_get_power_range env t m w =
     (if \<not> rapl_present m \<or> find_domain t m = None then (0, None, m, w)
      else (let (value, m, w) = rapl_action_get_power env t m w
        in (value, map_option (\<lambda>d. (dom_max_power d * 1000, dom_min_power d * 1000)) (find_domain t m), m, w)))"

end
