(* ===== verification/Thd_Virtual.thy ===== *)
theory Thd_Virtual
  imports Thd_CdevSetup
begin

text \<open>
  Virtual sensors (\<^verbatim>\<open>thd_sensor_virtual.cpp\<close>): a weighted sum of the moving averages of other sensors, or a linear
  function of one. The sensors linked to are plain ones, positions in the engine's list; the thread that reads a
  sensor periodically is the function \<open>periodic_step\<close>.
\<close>

record link_sensor_t =
  ln_sensor :: "nat option"
  ln_coeff :: f64
  ln_offset :: f64
  prev_avg :: f64
  power_sensor :: bool

record cthd_sensor_virtual =
  vs_index :: int
  vs_type_str :: string
  link_sensors :: "link_sensor_t list"
  vs_multiplier :: f64
  vs_offset :: f64
  vs_polling :: bool
  vs_stop_polling :: bool
  vs_last_temp :: int
  vs_polling_period :: int
  vs_polling_table :: "(int \<times> int) list"

definition def_polling_period :: int where "def_polling_period = 5"

definition link_new :: "nat option \<Rightarrow> f64 \<Rightarrow> f64 \<Rightarrow> bool \<Rightarrow> link_sensor_t" where
  "link_new s coeff off pwr = \<lparr>ln_sensor = s, ln_coeff = coeff, ln_offset = off, prev_avg = 0, power_sensor = pwr\<rparr>"

text \<open>The constructor leaves \<^verbatim>\<open>power_sensor\<close> uninitialised; \<open>unset\<close> is its value.\<close>

definition cthd_sensor_virtual_new :: "bool \<Rightarrow> int \<Rightarrow> string \<Rightarrow> string \<Rightarrow> f64 \<Rightarrow> f64 \<Rightarrow> thd_engine \<Rightarrow> cthd_sensor_virtual" where
  "cthd_sensor_virtual_new unset index name link_type mult off en = \<lparr>vs_index = index, vs_type_str = name,
     link_sensors = (if link_type = [] then [] else [link_new (search_sensor link_type en) 0 0 unset]),
     vs_multiplier = mult, vs_offset = off, vs_polling = False, vs_stop_polling = False, vs_last_temp = 0,
     vs_polling_period = def_polling_period, vs_polling_table = []\<rparr>"

definition add_target :: "string \<Rightarrow> f64 \<Rightarrow> f64 \<Rightarrow> bool \<Rightarrow> thd_engine \<Rightarrow> cthd_sensor_virtual \<Rightarrow> int \<times> cthd_sensor_virtual" where
  "add_target link_type coeff off pwr en v =
     (THD_SUCCESS, v\<lparr>link_sensors := link_sensors v @ [link_new (search_sensor link_type en) coeff off pwr]\<rparr>)"

text \<open>One linked sensor: its share of the temperature and the link with its new average. A missing sensor counts
  as one degree.\<close>

definition link_read :: "'w thd_env \<Rightarrow> thd_engine \<Rightarrow> 'w \<Rightarrow> link_sensor_t \<Rightarrow> f64 \<times> link_sensor_t" where
  "link_read env en w l =
     (let temp = (case ln_sensor l of None \<Rightarrow> 1000 | Some s \<Rightarrow> sint (read_temperature env (en_sensors en ! s) w));
          temp = (if power_sensor l then temp else c_div temp 1000);
          prev = (if feq (prev_avg l) 0 then fint temp else prev_avg l);
          avg = ln_offset l * fint temp + (1 - ln_offset l) * prev
      in (ln_coeff l * avg, l\<lparr>prev_avg := avg\<rparr>))"

fun links_read :: "'w thd_env \<Rightarrow> thd_engine \<Rightarrow> 'w \<Rightarrow> f64 \<Rightarrow> link_sensor_t list \<Rightarrow> f64 \<times> link_sensor_t list" where
  "links_read env en w acc [] = (acc, [])"
| "links_read env en w acc (l # ls) =
     (let (share, l) = link_read env en w l; (acc, ls) = links_read env en w (acc + share) ls in (acc, l # ls))"

definition virtual_read :: "'w thd_env \<Rightarrow> thd_engine \<Rightarrow> cthd_sensor_virtual \<Rightarrow> 'w \<Rightarrow> u32 \<times> cthd_sensor_virtual" where
  "virtual_read env en v w = (case link_sensors v of
     [] \<Rightarrow> (0, v)
   | l # _ \<Rightarrow>
       (case ln_sensor l of
          Some s \<Rightarrow>
            if feq (ln_coeff l) 0 \<and> feq (ln_offset l) 0
            then (of_int (f2i (fint (sint (read_temperature env (en_sensors en ! s) w)) * vs_multiplier v + vs_offset v)), v)
            else (let (acc, ls) = links_read env en w 0 (link_sensors v); temp = f2i (fround_away acc)
              in (of_int temp, v\<lparr>link_sensors := ls, vs_last_temp := c_int (temp * 1000)\<rparr>))
        | None \<Rightarrow> (let (acc, ls) = links_read env en w 0 (link_sensors v); temp = f2i (fround_away acc)
            in (of_int temp, v\<lparr>link_sensors := ls, vs_last_temp := c_int (temp * 1000)\<rparr>))))"

definition virtual_read_temperature :: "'w thd_env \<Rightarrow> thd_engine \<Rightarrow> cthd_sensor_virtual \<Rightarrow> 'w \<Rightarrow> u32 \<times> cthd_sensor_virtual" where
  "virtual_read_temperature env en v w =
     (if vs_polling v then (of_int (vs_last_temp v), v) else virtual_read env en v w)"

definition sensor_update_param :: "bool \<Rightarrow> string \<Rightarrow> f64 \<Rightarrow> f64 \<Rightarrow> thd_engine \<Rightarrow> cthd_sensor_virtual \<Rightarrow> int \<times> cthd_sensor_virtual" where
  "sensor_update_param unset dep slope intercept en v = (case search_sensor dep en of
     None \<Rightarrow> (THD_ERROR, v)
   | Some s \<Rightarrow> (THD_SUCCESS, v\<lparr>link_sensors := link_sensors v @ [link_new (Some s) 0 0 unset],
       vs_multiplier := slope, vs_offset := intercept\<rparr>))"

definition update_polling_table :: "int \<times> int \<Rightarrow> cthd_sensor_virtual \<Rightarrow> cthd_sensor_virtual" where
  "update_polling_table entry v = v\<lparr>vs_polling_table := vs_polling_table v @ [entry]\<rparr>"

text \<open>One turn of the thread: the sensor and the seconds it sleeps; \<open>None\<close> ends the thread. The table is searched from its end.\<close>

definition periodic_step :: "'w thd_env \<Rightarrow> thd_engine \<Rightarrow> cthd_sensor_virtual \<Rightarrow> 'w \<Rightarrow> (int \<times> cthd_sensor_virtual) option" where
  "periodic_step env en v w =
     (if vs_stop_polling v then None
      else (let v = snd (virtual_read env en v w);
                period = (case List.find (\<lambda>(temp, _). temp \<le> vs_last_temp v) (rev (vs_polling_table v)) of
                  None \<Rightarrow> 0 | Some (_, p) \<Rightarrow> p);
                v = (if period \<noteq> 0 then v\<lparr>vs_polling_period := period\<rparr> else v)
        in Some (if vs_polling_period v \<le> 0 then def_polling_period else vs_polling_period v, v)))"

text \<open>\<open>started\<close>: the thread could be created.\<close>

definition enable_periodic_timer :: "bool \<Rightarrow> cthd_sensor_virtual \<Rightarrow> cthd_sensor_virtual" where
  "enable_periodic_timer started v =
     (let period = (case vs_polling_table v of [] \<Rightarrow> 0 | (_, p) # _ \<Rightarrow> if p < 100 then p else 0);
          v = (if period \<noteq> 0 then v\<lparr>vs_polling_period := period\<rparr> else v)
      in if vs_polling v then v
         else (let v = v\<lparr>vs_stop_polling := False\<rparr> in if started then v\<lparr>vs_polling := True\<rparr> else v))"

definition disable_periodic_timer :: "cthd_sensor_virtual \<Rightarrow> cthd_sensor_virtual" where
  "disable_periodic_timer v = (if vs_polling v then v\<lparr>vs_stop_polling := True, vs_polling := False\<rparr> else v)"

section \<open>Facts\<close>

text \<open>A weighted virtual sensor that is not polled reports degrees, while the value it stores for the polled case is
  in thousandths.\<close>

lemma virtual_units:
  assumes "link_sensors v = l # ls" "ln_sensor l = None \<or> \<not> feq (ln_coeff l) 0" "\<not> vs_polling v"
  obtains temp where "virtual_read_temperature env en v w = (of_int temp, snd (virtual_read env en v w))"
    and "vs_last_temp (snd (virtual_read env en v w)) = c_int (temp * 1000)"
proof -
  obtain acc ls' where r: "links_read env en w 0 (l # ls) = (acc, ls')" by fastforce
  have "virtual_read env en v w = (of_int (f2i (fround_away acc)),
      v\<lparr>link_sensors := ls', vs_last_temp := c_int (f2i (fround_away acc) * 1000)\<rparr>)"
    using assms(1,2) r by (auto simp: virtual_read_def Let_def split: option.splits)
  then show thesis using that [of "f2i (fround_away acc)"] assms(3) by (simp add: virtual_read_temperature_def)
qed

text \<open>Giving a virtual sensor another sensor to depend on changes the line but not the sensor it reads.\<close>

lemma update_param_keeps_sensor:
  assumes "link_sensors v = l # ls" "ln_sensor l = Some s" "feq (ln_coeff l) 0" "feq (ln_offset l) 0"
    and "sensor_update_param unset dep slope intercept en v = (THD_SUCCESS, v')"
  shows "fst (virtual_read env en v' w) =
    of_int (f2i (fint (sint (read_temperature env (en_sensors en ! s) w)) * slope + intercept))"
  using assms by (auto simp: sensor_update_param_def virtual_read_def THD_SUCCESS_def THD_ERROR_def split: option.splits)

text \<open>The thread always sleeps between two readings.\<close>

lemma periodic_sleeps:
  assumes "periodic_step env en v w = Some (secs, v')"
  shows "0 < secs"
  using assms by (auto simp: periodic_step_def def_polling_period_def Let_def split: if_splits)

end
