(* ===== verification/Thd_Gddv.thy ===== *)
theory Thd_Gddv
  imports Thd_CdevSetup
begin

text \<open>
  The firmware tables of the thermal daemon (\<^verbatim>\<open>thd_gddv.cpp\<close>): the readers of tagged integers and strings, one
  parser per table, the keys of the data vault and its nested headers. A buffer is a byte list; a read outside it is
  the error \<open>Undefined\<close>, the exception of the source is \<open>Gddv_exception\<close>. Offsets are 32-bit integers that a string's
  64-bit length is added to, so they may move backwards and the loops over a table need not end: they carry fuel, and
  running out of it is \<open>No_fuel\<close>. The vendored decompressor is a parameter.
\<close>

datatype gddv_error = Gddv_exception | Undefined | No_fuel

type_synonym 'a reader = "u8 list \<Rightarrow> int \<Rightarrow> gddv_error + 'a \<times> int"

section \<open>Readers\<close>

definition rbind :: "'a reader \<Rightarrow> ('a \<Rightarrow> 'b reader) \<Rightarrow> 'b reader" where
  "rbind p f b off = (case p b off of Inl e \<Rightarrow> Inl e | Inr (x, off') \<Rightarrow> f x b off')"

definition rreturn :: "'a \<Rightarrow> 'a reader" where
  "rreturn x b off = Inr (x, off)"

definition load32 :: "u8 list \<Rightarrow> int \<Rightarrow> gddv_error + u32" where
  "load32 b off = (if off < 0 then Inl Undefined else case rd_le32 b (nat off) of None \<Rightarrow> Inl Undefined | Some v \<Rightarrow> Inr v)"

definition load64 :: "u8 list \<Rightarrow> int \<Rightarrow> gddv_error + u64" where
  "load64 b off = (if off < 0 then Inl Undefined else case rd_le64 b (nat off) of None \<Rightarrow> Inl Undefined | Some v \<Rightarrow> Inr v)"

definition get_type :: "int reader" where
  "get_type b off = (case load32 b off of Inl e \<Rightarrow> Inl e | Inr t \<Rightarrow> Inr (sint t, off))"

definition get_uint64 :: "u64 reader" where
  "get_uint64 b off = (case load32 b off of Inl e \<Rightarrow> Inl e
     | Inr t \<Rightarrow> if t \<noteq> 4 then Inl Gddv_exception
       else (case load64 b (off + 4) of Inl e \<Rightarrow> Inl e | Inr v \<Rightarrow> Inr (v, off + 12)))"

text \<open>The position of a string. Its length is added to the offset modulo the width of an \<^verbatim>\<open>int\<close>.\<close>

definition get_string :: "int reader" where
  "get_string b off = (case load32 b off of Inl e \<Rightarrow> Inl e
     | Inr t \<Rightarrow> if t \<noteq> 8 then Inl Gddv_exception
       else (case load64 b (off + 4) of Inl e \<Rightarrow> Inl e | Inr len \<Rightarrow> Inr (off + 12, c_int (off + 12 + uint len))))"

text \<open>A zero-terminated string of the buffer; \<open>None\<close> when no zero follows.\<close>

definition bytes_str :: "u8 list \<Rightarrow> string" where
  "bytes_str = map (\<lambda>b. char_of (unat b))"

definition cstring :: "u8 list \<Rightarrow> int \<Rightarrow> string option" where
  "cstring b off = (if off < 0 then None
     else (let rest = drop (nat off) b in if 0 \<in> set rest then Some (bytes_str (takeWhile (\<lambda>x. x \<noteq> 0) rest)) else None))"

definition get_str :: "string reader" where
  "get_str = rbind get_string (\<lambda>p b off. case cstring b p of None \<Rightarrow> Inl Undefined | Some s \<Rightarrow> Inr (s, off))"

definition get_int :: "int reader" where
  "get_int = rbind get_uint64 (\<lambda>v. rreturn (c_int (uint v)))"

definition skip :: "int \<Rightarrow> unit reader" where
  "skip n b off = (if off + n < 2 ^ 31 then Inr ((), off + n) else Inl Undefined)"

text \<open>The loop \<^verbatim>\<open>while (offset < len)\<close> of every table.\<close>

fun entries :: "nat \<Rightarrow> 'a reader \<Rightarrow> int \<Rightarrow> u8 list \<Rightarrow> int \<Rightarrow> gddv_error + 'a list" where
  "entries 0 p len b off = Inl No_fuel"
| "entries (Suc n) p len b off =
     (if off < len
      then (case p b off of Inl e \<Rightarrow> Inl e | Inr (x, off') \<Rightarrow> map_sum id ((#) x) (entries n p len b off'))
      else Inr [])"

section \<open>Data\<close>

definition deci_kelvin_to_celsius :: "int \<Rightarrow> int" where
  "deci_kelvin_to_celsius t = (if 0 \<le> t - 2732 then c_div (t - 2732 + 5) 10 else c_div (t - 2732 - 5) 10)"

record psv =
  psv_source :: string
  psv_target :: string
  psv_priority :: int
  psv_sample_period :: int
  psv_temp :: int
  psv_domain :: int
  psv_control_knob :: int
  psv_limit :: string
  psv_step_size :: int
  psv_limit_coeff :: int
  psv_unlimit_coeff :: int

text \<open>The enumerations of conditions, comparisons and operations are kept as the numbers the tables hold.\<close>

record condition =
  cn_condition :: u64
  cn_device :: string
  cn_comparison :: u64
  cn_argument :: int
  cn_operation :: u8
  cn_time_comparison :: u8
  cn_time :: int
  cn_target :: int
  state_entry_time :: int
  ignore_condition :: int

definition FOR :: u8 where "FOR = 2"

record custom_condition =
  cc_condition :: u32
  cc_name :: string
  cc_participant :: string
  cc_domain :: int
  cc_type :: int

record psvt =
  psvt_name :: string
  psvs :: "psv list"

record itmt_entry =
  it_target :: string
  trip_point :: int
  pl1_min :: string
  pl1_max :: string
  it_unused :: string

record itmt =
  itmt_version :: int
  itmt_name :: string
  itmt_entries :: "itmt_entry list"

record pbct_entry =
  pb_target :: u64
  pb_conditions :: "condition list"

record trippoint =
  gt_name :: string
  gt_type_str :: string
  gt_type :: trip_point_type_t
  gt_temp :: int

record vsct_entry =
  vc_target :: string
  vc_domain_type :: int
  vc_coeff_type :: int
  vc_coeff :: int
  vc_operation :: int
  vc_alpha :: int
  vc_trigger_point :: int

record vspt_entry =
  vp_virtual_temp :: int
  vp_sample_period :: int

text \<open>The tables and what conditions are evaluated against. The clients of libevdev and UPower are present or not; an
  entry of the power-boost action table has the fields of an adaptive target.\<close>

record cthd_gddv =
  ppccs :: "ppcc_t list"
  custom_conditions :: "custom_condition list"
  psvts :: "psvt list"
  itmts :: "itmt list"
  idsps :: "string list"
  pbats :: "adaptive_target list"
  pbcts :: "pbct_entry list"
  trippoints :: "trippoint list"
  conditions :: "condition list list"
  targets :: "adaptive_target list"
  vscts_name :: string
  vscts :: "vsct_entry list"
  vspts :: "vspt_entry list"
  gd_base_path :: string
  power_slider :: int
  current_target_matched :: int
  tablet_dev :: bool
  lid_dev :: bool
  upower_client :: bool

definition cthd_gddv_new :: cthd_gddv where
  "cthd_gddv_new = \<lparr>ppccs = [], custom_conditions = [], psvts = [], itmts = [], idsps = [], pbats = [], pbcts = [],
     trippoints = [], conditions = [], targets = [], vscts_name = [], vscts = [], vspts = [], gd_base_path = [],
     power_slider = 75, current_target_matched = - 1, tablet_dev = False, lid_dev = False, upower_client = False\<rparr>"

section \<open>Tables\<close>

text \<open>\<^verbatim>\<open>merge_appc\<close>: a condition that a custom condition names becomes the condition it stands for. The custom conditions
  are applied one after the other, so a condition may be replaced again.\<close>

definition merge_custom :: "custom_condition \<Rightarrow> condition \<Rightarrow> condition" where
  "merge_custom cc c = c\<lparr>cn_device := cc_participant cc, cn_condition := ucast (word_of_int (cc_type cc) :: u32)\<rparr>"

definition merge_appc :: "cthd_gddv \<Rightarrow> cthd_gddv" where
  "merge_appc g = g\<lparr>conditions := fold
     (\<lambda>cc. map (map (\<lambda>c. if ucast (cc_condition cc) = cn_condition c then merge_custom cc c else c))) (custom_conditions g) (conditions g)\<rparr>"

definition appc_entry :: "custom_condition reader" where
  "appc_entry = rbind get_uint64 (\<lambda>cond. rbind get_str (\<lambda>name. rbind get_str (\<lambda>part. rbind get_int (\<lambda>dom. rbind get_int (\<lambda>type.
     rreturn \<lparr>cc_condition = ucast cond, cc_name = name, cc_participant = part, cc_domain = dom, cc_type = type\<rparr>)))))"

text \<open>A table that is malformed at its start is ignored.\<close>

definition parse_appc :: "nat \<Rightarrow> u8 list \<Rightarrow> int \<Rightarrow> cthd_gddv \<Rightarrow> gddv_error + cthd_gddv" where
  "parse_appc fuel b len g = (case rd8 b 0 of None \<Rightarrow> Inl Undefined
     | Some x \<Rightarrow> if x \<noteq> 4 then Inr g
       else (case get_uint64 b 0 of Inl e \<Rightarrow> Inl e
         | Inr (version, off) \<Rightarrow> if version \<noteq> 1 then Inr g
             else map_sum id (\<lambda>ccs. g\<lparr>custom_conditions := custom_conditions g @ ccs\<rparr>) (entries fuel appc_entry len b off)))"

definition target_entry :: "adaptive_target reader" where
  "target_entry = rbind get_uint64 (\<lambda>i. rbind get_str (\<lambda>name. rbind get_str (\<lambda>part. rbind get_uint64 (\<lambda>dom.
     rbind get_str (\<lambda>code. rbind get_str (\<lambda>arg.
     rreturn \<lparr>target_id = i, at_name = name, at_participant = part, at_domain = dom, at_code = code, at_argument = arg\<rparr>))))))"

definition parse_pbat :: "nat \<Rightarrow> u8 list \<Rightarrow> int \<Rightarrow> cthd_gddv \<Rightarrow> gddv_error + cthd_gddv" where
  "parse_pbat fuel b len g = (case get_uint64 b 0 of Inl e \<Rightarrow> Inl e
     | Inr (version, off) \<Rightarrow> if version \<noteq> 1 \<and> version \<noteq> 2 then Inl Gddv_exception
         else map_sum id (\<lambda>ts. g\<lparr>pbats := pbats g @ ts\<rparr>) (entries fuel target_entry len b off))"

definition parse_apat :: "nat \<Rightarrow> u8 list \<Rightarrow> int \<Rightarrow> cthd_gddv \<Rightarrow> gddv_error + cthd_gddv" where
  "parse_apat fuel b len g = (case get_uint64 b 0 of Inl e \<Rightarrow> Inl e
     | Inr (version, off) \<Rightarrow> if version \<noteq> 2 then Inl Gddv_exception
         else map_sum id (\<lambda>ts. g\<lparr>targets := targets g @ ts\<rparr>) (entries fuel target_entry len b off))"

subsection \<open>Conditions\<close>

definition condition_new :: "u64 \<Rightarrow> condition" where
  "condition_new target = \<lparr>cn_condition = 0, cn_device = [], cn_comparison = 0, cn_argument = 0, cn_operation = 0,
     cn_time_comparison = 0, cn_time = 0, cn_target = c_int (uint target), state_entry_time = 0, ignore_condition = 0\<rparr>"

text \<open>Conversions to the 32-bit and 8-bit enumerations and to \<^verbatim>\<open>time_t\<close>.\<close>

definition get_enum32 :: "u64 reader" where
  "get_enum32 = rbind get_uint64 (\<lambda>v. rreturn (ucast (ucast v :: u32)))"

definition get_enum8 :: "u8 reader" where
  "get_enum8 = rbind get_uint64 (\<lambda>v. rreturn (ucast v))"

definition get_time :: "int reader" where
  "get_time = rbind get_uint64 (\<lambda>v. rreturn (sint v))"

text \<open>One condition of the first version; \<open>again\<close>: another one may follow, so an operation is given. A \<open>FOR\<close> takes the place
  of the next condition.\<close>

definition condition1 :: "u64 \<Rightarrow> bool \<Rightarrow> condition reader" where
  "condition1 target again = rbind get_enum32 (\<lambda>cond. rbind get_enum8 (\<lambda>cmp. rbind get_int (\<lambda>arg.
     let c = (condition_new target)\<lparr>cn_condition := cond, cn_comparison := ucast cmp, cn_argument := arg\<rparr> in
     if \<not> again then rreturn c
     else rbind get_enum8 (\<lambda>op. let c = c\<lparr>cn_operation := op\<rparr> in
       if op = FOR then rbind (skip 12) (\<lambda>_. rbind get_enum8 (\<lambda>tc. rbind get_time (\<lambda>t. rbind (skip 12) (\<lambda>_.
         rreturn (c\<lparr>cn_time_comparison := tc, cn_time := t\<rparr>)))))
       else rreturn c))))"

definition apct_condition2 :: "u64 \<Rightarrow> bool \<Rightarrow> condition reader" where
  "apct_condition2 target again = rbind get_enum32 (\<lambda>cond. rbind get_str (\<lambda>device. rbind (skip 12) (\<lambda>_. rbind get_enum8 (\<lambda>cmp. rbind get_int (\<lambda>arg.
     let c = (condition_new target)\<lparr>cn_condition := cond, cn_device := device, cn_comparison := ucast cmp, cn_argument := arg\<rparr> in
     if \<not> again then rreturn c
     else rbind get_enum8 (\<lambda>op. let c = c\<lparr>cn_operation := op\<rparr> in
       if op = FOR then rbind (skip 12) (\<lambda>_. rbind get_string (\<lambda>_. rbind (skip 12) (\<lambda>_. rbind get_enum8 (\<lambda>tc. rbind get_time (\<lambda>t. rbind (skip 12) (\<lambda>_.
         rreturn (c\<lparr>cn_time_comparison := tc, cn_time := t\<rparr>)))))))
       else rreturn c))))))"

definition pbct_condition2 :: "u64 \<Rightarrow> bool \<Rightarrow> condition reader" where
  "pbct_condition2 target again = rbind get_enum32 (\<lambda>cond. rbind get_str (\<lambda>device. rbind get_uint64 (\<lambda>_. rbind get_enum8 (\<lambda>cmp. rbind get_int (\<lambda>arg.
     let c = (condition_new target)\<lparr>cn_condition := cond, cn_device := device, cn_comparison := ucast cmp, cn_argument := arg\<rparr> in
     if \<not> again then rreturn c
     else rbind get_enum8 (\<lambda>op. let c = c\<lparr>cn_operation := op\<rparr> in
       if op = FOR then rbind get_uint64 (\<lambda>_. rbind get_enum8 (\<lambda>tc. rbind get_time (\<lambda>t. rbind get_uint64 (\<lambda>_.
         rreturn (c\<lparr>cn_time_comparison := tc, cn_time := t\<rparr>)))))
       else rreturn c))))))"

text \<open>The loop over a set's conditions, with as many still to come as the first argument says.\<close>

fun condition_set :: "nat \<Rightarrow> int \<Rightarrow> (bool \<Rightarrow> condition reader) \<Rightarrow> condition list reader" where
  "condition_set 0 len p b off = Inr ([], off)"
| "condition_set (Suc r) len p b off =
     (if len \<le> off then Inl Gddv_exception
      else (case p (0 < r) b off of Inl e \<Rightarrow> Inl e
        | Inr (c, off') \<Rightarrow> map_sum id (\<lambda>(cs, off''). (c # cs, off''))
            (condition_set (if cn_operation c = FOR then r - 1 else r) len p b off')))"

definition set_count :: "u64 \<Rightarrow> nat" where
  "set_count count = nat (c_int (uint count))"

definition apct_set1 :: "int \<Rightarrow> condition list reader" where
  "apct_set1 len = rbind get_uint64 (\<lambda>target b off.
     if c_int (uint target) = - 1 then Inl Gddv_exception else condition_set 10 len (condition1 target) b off)"

definition apct_set2 :: "int \<Rightarrow> condition list reader" where
  "apct_set2 len = rbind get_uint64 (\<lambda>target b off.
     if c_int (uint target) = - 1 then Inl Gddv_exception
     else rbind get_uint64 (\<lambda>count. condition_set (set_count count) len (apct_condition2 target)) b off)"

definition parse_apct :: "nat \<Rightarrow> u8 list \<Rightarrow> int \<Rightarrow> cthd_gddv \<Rightarrow> gddv_error + cthd_gddv" where
  "parse_apct fuel b len g = (case get_uint64 b 0 of Inl e \<Rightarrow> Inl e
     | Inr (version, off) \<Rightarrow>
         let add = (\<lambda>sets. g\<lparr>conditions := conditions g @ sets\<rparr>) in
         if version = 1 then map_sum id add (entries fuel (apct_set1 len) len b off)
         else if version = 2 then map_sum id add (entries fuel (apct_set2 len) len b off)
         else Inl Gddv_exception)"

definition pbct_set1 :: "int \<Rightarrow> pbct_entry reader" where
  "pbct_set1 len = rbind get_uint64 (\<lambda>target b off.
     if target = - 1 then Inl Gddv_exception
     else rbind (condition_set 10 len (condition1 target)) (\<lambda>cs. rreturn \<lparr>pb_target = target, pb_conditions = cs\<rparr>) b off)"

definition pbct_set2 :: "int \<Rightarrow> pbct_entry reader" where
  "pbct_set2 len = rbind get_uint64 (\<lambda>target b off.
     if target = - 1 then Inl Gddv_exception
     else rbind get_uint64 (\<lambda>count. rbind (condition_set (set_count count) len (pbct_condition2 target))
       (\<lambda>cs. rreturn \<lparr>pb_target = target, pb_conditions = cs\<rparr>)) b off)"

definition parse_pbct :: "nat \<Rightarrow> u8 list \<Rightarrow> int \<Rightarrow> cthd_gddv \<Rightarrow> gddv_error + cthd_gddv" where
  "parse_pbct fuel b len g = (case get_uint64 b 0 of Inl e \<Rightarrow> Inl e
     | Inr (version, off) \<Rightarrow>
         let add = (\<lambda>es. g\<lparr>pbcts := pbcts g @ es\<rparr>) in
         if version = 1 then map_sum id add (entries fuel (pbct_set1 len) len b off)
         else if version = 2 then map_sum id add (entries fuel (pbct_set2 len) len b off)
         else Inl Gddv_exception)"

end
