(* ===== verification/Thd_Vault.thy ===== *)
theory Thd_Vault
  imports Thd_Gddv
begin

text \<open>
  The remaining tables of \<^verbatim>\<open>thd_gddv.cpp\<close> (power limits, passive policies, ITMT, virtual sensors, IDSP, trip points),
  the lookups in them, and the data vault that holds them: keys, headers, nested and compressed objects, and its
  loading.
\<close>

section \<open>Comparison of strings\<close>

text \<open>\<^verbatim>\<open>thd_strcmp_n\<close> and \<^verbatim>\<open>thd_strcasecmp_n\<close> of \<^verbatim>\<open>thd_util.cpp\<close> look at no more than 4096 characters.\<close>

definition thd_streq :: "string \<Rightarrow> string \<Rightarrow> bool" where
  "thd_streq a b \<longleftrightarrow> take 4096 a = take 4096 b"

definition to_lower :: "char \<Rightarrow> char" where
  "to_lower c = (let n = (of_char c :: nat) in if 65 \<le> n \<and> n \<le> 90 then char_of (n + 32) else c)"

definition to_upper :: "char \<Rightarrow> char" where
  "to_upper c = (let n = (of_char c :: nat) in if 97 \<le> n \<and> n \<le> 122 then char_of (n - 32) else c)"

definition thd_strcaseeq :: "string \<Rightarrow> string \<Rightarrow> bool" where
  "thd_strcaseeq a b \<longleftrightarrow> thd_streq (map to_lower a) (map to_lower b)"

section \<open>Power limits\<close>

definition ppcc_field :: "u8 list \<Rightarrow> int \<Rightarrow> gddv_error + int" where
  "ppcc_field b off = map_sum id (\<lambda>v. c_int (uint v)) (load64 b off)"

text \<open>Five fields in a row, twelve bytes apart.\<close>

definition ppcc_fields :: "u8 list \<Rightarrow> int \<Rightarrow> gddv_error + int \<times> int \<times> int \<times> int \<times> int" where
  "ppcc_fields b off = (case (ppcc_field b off, ppcc_field b (off + 12), ppcc_field b (off + 24), ppcc_field b (off + 36), ppcc_field b (off + 48)) of
     (Inr x0, Inr x1, Inr x2, Inr x3, Inr x4) \<Rightarrow> Inr (x0, x1, x2, x3, x4) | _ \<Rightarrow> Inl Undefined)"

text \<open>A table with only one limit is read and then dropped.\<close>

definition parse_ppcc :: "string \<Rightarrow> u8 list \<Rightarrow> int \<Rightarrow> cthd_gddv \<Rightarrow> gddv_error + cthd_gddv" where
  "parse_ppcc name b len g = (case ppcc_fields b 28 of Inl e \<Rightarrow> Inl e
     | Inr (pmin, pmax, tmin, tmax, step) \<Rightarrow>
       if len < 156 then Inr g
       else (case ppcc_fields b 100 of Inl e \<Rightarrow> Inl e
         | Inr (pmin1, pmax1, tmin1, tmax1, step1) \<Rightarrow>
           Inr (g\<lparr>ppccs := ppccs g @ [\<lparr>ppcc_name = name, ppcc_valid = True, power_limit_min = pmin, power_limit_max = pmax,
             time_wind_min = tmin, time_wind_max = tmax, step_size = step,
             limit_1_valid = (pmax1 \<noteq> 0 \<and> pmin1 \<noteq> 0 \<and> tmin1 \<noteq> 0 \<and> tmax1 \<noteq> 0 \<and> step1 \<noteq> 0),
             power_limit_1_min = pmin1, power_limit_1_max = pmax1, time_wind_1_min = tmin1, time_wind_1_max = tmax1,
             step_1_size = step1\<rparr>]\<rparr>)))"

definition gddv_get_ppcc_param :: "string \<Rightarrow> cthd_gddv \<Rightarrow> ppcc_t option" where
  "gddv_get_ppcc_param name g = (if name \<noteq> ''TCPU.D0'' then None else List.find (\<lambda>p. ppcc_name p = name) (ppccs g))"

section \<open>Passive policies\<close>

definition psv_limit_read :: "string reader" where
  "psv_limit_read = rbind get_type (\<lambda>t. if t = 8 then get_str else rbind get_uint64 (\<lambda>v. rreturn (show_nat (unat v))))"

definition psv_entry :: "psv reader" where
  "psv_entry = rbind get_str (\<lambda>src. rbind get_str (\<lambda>tgt. rbind get_int (\<lambda>prio. rbind get_int (\<lambda>period. rbind get_int (\<lambda>temp.
     rbind get_int (\<lambda>dom. rbind get_int (\<lambda>knob. rbind psv_limit_read (\<lambda>lim. rbind get_int (\<lambda>step. rbind get_int (\<lambda>lc. rbind get_int (\<lambda>uc.
     rbind (skip 12) (\<lambda>_. rreturn \<lparr>psv_source = src, psv_target = tgt, psv_priority = prio, psv_sample_period = period, psv_temp = temp,
       psv_domain = dom, psv_control_knob = knob, psv_limit = lim, psv_step_size = step, psv_limit_coeff = lc, psv_unlimit_coeff = uc\<rparr>))))))))))))"

definition table_name :: "string option \<Rightarrow> string \<Rightarrow> string" where
  "table_name name dflt = (case name of None \<Rightarrow> dflt | Some n \<Rightarrow> n)"

definition parse_psvt :: "nat \<Rightarrow> string option \<Rightarrow> u8 list \<Rightarrow> int \<Rightarrow> cthd_gddv \<Rightarrow> gddv_error + cthd_gddv" where
  "parse_psvt fuel name b len g = (case get_int b 0 of Inl e \<Rightarrow> Inl e
     | Inr (version, off) \<Rightarrow> if 2 < version then Inl Gddv_exception
         else map_sum id (\<lambda>ps. g\<lparr>psvts := psvts g @ [\<lparr>psvt_name = table_name name ''Default'', psvs = ps\<rparr>]\<rparr>)
           (entries fuel psv_entry len b off))"

definition find_def_psvt :: "cthd_gddv \<Rightarrow> psvt option" where
  "find_def_psvt g = (case List.find (\<lambda>p. psvt_name p = ''generic_os'') (psvts g) of
     Some p \<Rightarrow> Some p | None \<Rightarrow> List.find (\<lambda>p. psvt_name p = ''IETM.D0'') (psvts g))"

definition find_psvt :: "string \<Rightarrow> cthd_gddv \<Rightarrow> psvt option" where
  "find_psvt name g = List.find (\<lambda>p. thd_strcaseeq (psvt_name p) name) (psvts g)"

section \<open>ITMT\<close>

definition itmt3_header_size :: nat where "itmt3_header_size = 12"
definition itmt3_size :: nat where "itmt3_size = 296"

definition itmt3_entry :: "u8 list \<Rightarrow> nat \<Rightarrow> gddv_error + itmt_entry" where
  "itmt3_entry b off = (case (cstring b (int off), load64 b (int off + 64), cstring b (int off + 80), cstring b (int off + 144)) of
     (Some tgt, Inr temp, Some mn, Some mx) \<Rightarrow> Inr \<lparr>it_target = tgt, trip_point = c_int (uint temp), pl1_min = mn, pl1_max = mx, it_unused = []\<rparr>
   | _ \<Rightarrow> Inl Undefined)"

text \<open>\<open>Inr None\<close>: an entry is cut off and the table is dropped.\<close>

function itmt3_loop :: "u8 list \<Rightarrow> nat \<Rightarrow> nat \<Rightarrow> gddv_error + itmt_entry list option" where
  "itmt3_loop b len off =
     (if off < len
      then if len - off < itmt3_size then Inr None
        else (case itmt3_entry b off of Inl e \<Rightarrow> Inl e
          | Inr x \<Rightarrow> map_sum id (map_option ((#) x)) (itmt3_loop b len (off + itmt3_size)))
      else Inr (Some []))"
  by pat_completeness auto
termination by (relation "measure (\<lambda>(b, len, off). len - off)") (auto simp: itmt3_size_def)

declare itmt3_loop.simps [simp del]

definition parse_itmt3 :: "string option \<Rightarrow> u8 list \<Rightarrow> nat \<Rightarrow> cthd_gddv \<Rightarrow> gddv_error + cthd_gddv" where
  "parse_itmt3 name b len g =
     (if len < itmt3_header_size \<or> len - itmt3_header_size < itmt3_size then Inr g
      else (case itmt3_loop b len itmt3_header_size of Inl e \<Rightarrow> Inl e | Inr None \<Rightarrow> Inr g
        | Inr (Some es) \<Rightarrow> Inr (g\<lparr>itmts := itmts g @ [\<lparr>itmt_version = 3, itmt_name = table_name name ''Default'', itmt_entries = es\<rparr>]\<rparr>)))"

definition itmt_entry_read :: "int \<Rightarrow> itmt_entry reader" where
  "itmt_entry_read version = rbind get_str (\<lambda>tgt. rbind get_int (\<lambda>trip. rbind get_str (\<lambda>mn. rbind get_str (\<lambda>mx. rbind get_str (\<lambda>unused.
     rbind (if version = 2 then rbind get_uint64 (\<lambda>_. rbind get_str (\<lambda>_. rbind get_uint64 (\<lambda>_. rbind get_uint64 (\<lambda>_. rreturn ()))))
            else skip 12) (\<lambda>_.
     rreturn \<lparr>it_target = tgt, trip_point = trip, pl1_min = mn, pl1_max = mx, it_unused = unused\<rparr>))))))"

definition parse_itmt :: "nat \<Rightarrow> string option \<Rightarrow> u8 list \<Rightarrow> int \<Rightarrow> cthd_gddv \<Rightarrow> gddv_error + cthd_gddv" where
  "parse_itmt fuel name b len g = (case get_int b 0 of Inl e \<Rightarrow> Inl e
     | Inr (version, off) \<Rightarrow> if 2 < version then Inr g
         else map_sum id (\<lambda>es. g\<lparr>itmts := itmts g @ [\<lparr>itmt_version = 1, itmt_name = table_name name ''Default'', itmt_entries = es\<rparr>]\<rparr>)
           (entries fuel (itmt_entry_read version) len b off))"

section \<open>Virtual sensors\<close>

definition vspt_entry_read :: "vspt_entry reader" where
  "vspt_entry_read = rbind get_int (\<lambda>temp. rbind get_uint64 (\<lambda>period.
     rreturn \<lparr>vp_virtual_temp = deci_kelvin_to_celsius temp, vp_sample_period = c_int (uint period div 10)\<rparr>))"

definition parse_vspt :: "nat \<Rightarrow> u8 list \<Rightarrow> int \<Rightarrow> cthd_gddv \<Rightarrow> gddv_error + cthd_gddv" where
  "parse_vspt fuel b len g = (case get_int b 0 of Inl e \<Rightarrow> Inl e
     | Inr (version, off) \<Rightarrow> if 1 < version then Inr g
         else map_sum id (\<lambda>vs. g\<lparr>vspts := vspts g @ vs\<rparr>) (entries fuel vspt_entry_read len b off))"

definition vsct_entry_read :: "vsct_entry reader" where
  "vsct_entry_read = rbind get_str (\<lambda>tgt. rbind get_int (\<lambda>dt. rbind get_int (\<lambda>ct. rbind get_int (\<lambda>coeff. rbind get_int (\<lambda>op.
     rbind get_int (\<lambda>alpha. rbind get_int (\<lambda>trig. rreturn \<lparr>vc_target = tgt, vc_domain_type = dt, vc_coeff_type = ct, vc_coeff = coeff,
       vc_operation = op, vc_alpha = alpha, vc_trigger_point = trig\<rparr>)))))))"

definition parse_vsct :: "nat \<Rightarrow> string option \<Rightarrow> u8 list \<Rightarrow> int \<Rightarrow> cthd_gddv \<Rightarrow> gddv_error + cthd_gddv" where
  "parse_vsct fuel name b len g =
     (let g = g\<lparr>vscts_name := table_name name ''vsct''\<rparr>
      in case get_int b 0 of Inl e \<Rightarrow> Inl e
         | Inr (version, off) \<Rightarrow> if 1 < version then Inr g
             else map_sum id (\<lambda>vs. g\<lparr>vscts := vscts g @ vs\<rparr>) (entries fuel vsct_entry_read len b off))"

section \<open>IDSP and trip points\<close>

definition hex_digit :: "nat \<Rightarrow> char" where
  "hex_digit n = (if n < 10 then char_of (48 + n) else char_of (87 + n))"

definition hex2 :: "u8 \<Rightarrow> string" where
  "hex2 x = [hex_digit (unat x div 16), hex_digit (unat x mod 16)]"

text \<open>The text of a UUID in the byte order of the firmware, with the line feed of the format.\<close>

definition idsp_text :: "u8 list \<Rightarrow> string" where
  "idsp_text s = map to_upper (concat (map (\<lambda>i. hex2 (s ! i)) [3, 2, 1, 0]) @ ''-'' @ concat (map (\<lambda>i. hex2 (s ! i)) [5, 4]) @ ''-'' @
     concat (map (\<lambda>i. hex2 (s ! i)) [7, 6]) @ ''-'' @ concat (map (\<lambda>i. hex2 (s ! i)) [8, 9]) @ ''-'' @
     concat (map (\<lambda>i. hex2 (s ! i)) [10, 11, 12, 13, 14, 15]) @ [CHR 0x0A])"

fun idsp_loop :: "nat \<Rightarrow> u8 list \<Rightarrow> int \<Rightarrow> int \<Rightarrow> gddv_error + string list" where
  "idsp_loop 0 b len i = Inl No_fuel"
| "idsp_loop (Suc n) b len i =
     (if i < len \<and> 28 \<le> len - i
      then if i < 0 then Inl Undefined
        else (case rd8 b (nat i) of None \<Rightarrow> Inl Undefined
          | Some x \<Rightarrow> if x \<noteq> 7 then Inr []
            else (case load32 b (i + 4) of Inl e \<Rightarrow> Inl e
              | Inr l \<Rightarrow> let s = drop (nat (i + 12)) b in
                  if length s < 16 then Inl Undefined
                  else map_sum id ((#) (idsp_text s)) (idsp_loop n b len (i + 12 + sint l))))
      else Inr [])"

definition parse_idsp :: "nat \<Rightarrow> u8 list \<Rightarrow> int \<Rightarrow> cthd_gddv \<Rightarrow> gddv_error + cthd_gddv" where
  "parse_idsp fuel b len g = map_sum id (\<lambda>is. g\<lparr>idsps := idsps g @ is\<rparr>) (idsp_loop fuel b len 0)"

definition gddv_search_idsp :: "string \<Rightarrow> cthd_gddv \<Rightarrow> int" where
  "gddv_search_idsp name g = (if \<exists>s\<in>set (idsps g). take 36 s = name then THD_SUCCESS else THD_ERROR)"

text \<open>Tables of the third version need one UUID, the older ones another.\<close>

definition find_itmt :: "string \<Rightarrow> cthd_gddv \<Rightarrow> itmt option" where
  "find_itmt name g = List.find (\<lambda>t.
     (if itmt_version t = 3 then gddv_search_idsp ''4215267F-F429-4776-9D84-D6C5992848A4'' g = THD_SUCCESS
      else if itmt_version t < 3 then gddv_search_idsp ''6BD40D2D-98AA-A44B-1A92-D22BDE3117F1'' g = THD_SUCCESS else True) \<and>
     thd_strcaseeq (itmt_name t) name) (itmts g)"

definition gddv_trip_type :: "string \<Rightarrow> trip_point_type_t" where
  "gddv_trip_type s = (if take 2 s = ''_c'' then CRITICAL else if take 2 s = ''_p'' then PASSIVE else if take 2 s = ''_h'' then HOT
     else if take 2 s = ''_a'' then ACTIVE else INVALID_TRIP_TYPE)"

definition parse_trip_point :: "string \<Rightarrow> string \<Rightarrow> u8 list \<Rightarrow> cthd_gddv \<Rightarrow> gddv_error + cthd_gddv" where
  "parse_trip_point name type b g = (case load32 b 0 of Inl e \<Rightarrow> Inl e
     | Inr v \<Rightarrow> Inr (g\<lparr>trippoints := trippoints g @ [\<lparr>gt_name = name, gt_type_str = type, gt_type = gddv_trip_type type,
         gt_temp = deci_kelvin_to_celsius (sint v)\<rparr>]\<rparr>))"

definition get_trip_temp :: "string \<Rightarrow> trip_point_type_t \<Rightarrow> cthd_gddv \<Rightarrow> int" where
  "get_trip_temp name type g = (case List.find (\<lambda>t. gt_name t = name @ ''.D0'' \<and> gt_type t = type) (trippoints g) of
     None \<Rightarrow> THD_ERROR | Some t \<Rightarrow> gt_temp t)"

text \<open>The thermal relationship table is read and dropped.\<close>

definition trt_entry_read :: "unit reader" where
  "trt_entry_read = rbind get_str (\<lambda>_. rbind get_str (\<lambda>_. rbind get_int (\<lambda>_. rbind get_int (\<lambda>_. rbind get_int (\<lambda>_. rbind get_int (\<lambda>_.
     rbind get_int (\<lambda>_. rbind get_int (\<lambda>_. rreturn ()))))))))"

definition parse_trt :: "nat \<Rightarrow> u8 list \<Rightarrow> int \<Rightarrow> cthd_gddv \<Rightarrow> gddv_error + cthd_gddv" where
  "parse_trt fuel b len g = map_sum id (\<lambda>_. g) (entries fuel trt_entry_read len b 0)"

section \<open>Keys\<close>

definition strtok_all :: "string \<Rightarrow> string list" where
  "strtok_all s = filter (\<lambda>t. t \<noteq> []) (g_strsplit s ''/'' 0)"

definition nth_token :: "nat \<Rightarrow> string list \<Rightarrow> string option" where
  "nth_token i ts = (if i < length ts then Some (ts ! i) else None)"

text \<open>Name, type and point of a key.\<close>

definition key_parts :: "string list \<Rightarrow> string option \<times> string option \<times> string option" where
  "key_parts ts = (case nth_token 0 ts of
     None \<Rightarrow> (None, None, None)
   | Some s \<Rightarrow>
       if thd_streq s ''participants'' then (nth_token 1 ts, nth_token 2 ts, nth_token 3 ts)
       else if thd_streq s ''shared'' then
         (None, nth_token 2 ts, if thd_streq (table_name (nth_token 1 ts) []) ''tables'' then nth_token 3 ts else None)
       else (None, None, None))"

text \<open>What a key's value is parsed as. The names are the ones the firmware uses, no two of them alike.\<close>

definition parse_value :: "nat \<Rightarrow> string option \<Rightarrow> string \<Rightarrow> string option \<Rightarrow> u8 list \<Rightarrow> cthd_gddv \<Rightarrow> gddv_error + cthd_gddv" where
  "parse_value fuel name type point v g =
     (let len = c_int (int (length v)); label = (case point of None \<Rightarrow> name | Some p \<Rightarrow> Some p) in
      if thd_streq type ''ppcc'' then (case name of None \<Rightarrow> Inr g | Some n \<Rightarrow> parse_ppcc n v len g)
      else if thd_streq type ''psvt'' then parse_psvt fuel label v len g
      else if thd_streq type ''appc'' then parse_appc fuel v len g
      else if thd_streq type ''apct'' then parse_apct fuel v len g
      else if thd_streq type ''pbat'' then parse_pbat fuel v len g
      else if thd_streq type ''pbct'' then parse_pbct fuel v len g
      else if thd_streq type ''apat'' then parse_apat fuel v len g
      else if has_prefix type ''itmt3'' then parse_itmt3 label v (length v) g
      else if thd_streq type ''itmt'' then parse_itmt fuel label v len g
      else if thd_streq type ''idsp'' then (case name of None \<Rightarrow> Inr g | Some _ \<Rightarrow> parse_idsp fuel v len g)
      else if thd_streq type ''trippoint'' then
        (case (name, point) of (Some n, Some p) \<Rightarrow> parse_trip_point n p v g | _ \<Rightarrow> Inr g)
      else if thd_streq type ''_trt'' then parse_trt fuel v len g
      else if thd_streq type ''vsct'' then parse_vsct fuel label v len g
      else if thd_streq type ''vspt'' then parse_vspt fuel v len g
      else Inr g)"

definition take_bytes :: "nat \<Rightarrow> nat \<Rightarrow> u8 list \<Rightarrow> u8 list option" where
  "take_bytes off n b = (if off + n \<le> length b then Some (take n (drop off b)) else None)"

text \<open>The key and its value are copied before anything is parsed; the result is the number of bytes used.\<close>

definition parse_gddv_key :: "nat \<Rightarrow> u8 list \<Rightarrow> cthd_gddv \<Rightarrow> gddv_error + nat \<times> cthd_gddv" where
  "parse_gddv_key fuel b g = (case (rd_le32 b 0, rd_le32 b 4) of
     (Some _, Some klen) \<Rightarrow>
       (case (take_bytes 8 (unat klen) b, rd_le32 b (8 + unat klen), rd_le32 b (12 + unat klen)) of
          (Some key, Some _, Some vlen) \<Rightarrow>
            (case (take_bytes (16 + unat klen) (unat vlen) b, cstring key 0) of
               (Some v, Some s) \<Rightarrow>
                 (let ts = strtok_all s; (name, type, point) = key_parts ts
                  in map_sum id (Pair (16 + unat klen + unat vlen))
                       (case type of None \<Rightarrow> Inr g | Some t \<Rightarrow> parse_value fuel name t point v g))
             | _ \<Rightarrow> Inl Undefined)
        | _ \<Rightarrow> Inl Undefined)
   | _ \<Rightarrow> Inl Undefined)"

section \<open>The vault\<close>

definition ESIFDV_HEADER_SIGNATURE :: u16 where "ESIFDV_HEADER_SIGNATURE = 0x1FE5"
definition ESIFDV_ITEM_KEYS_REV0_SIGNATURE :: u16 where "ESIFDV_ITEM_KEYS_REV0_SIGNATURE = 0xA0D8"
definition ESIF_SERVICE_CONFIG_COMPRESSED :: u32 where "ESIF_SERVICE_CONFIG_COMPRESSED = 0x40000000"
definition ESIFHDR_GET_MAJOR :: "u32 \<Rightarrow> u32" where "ESIFHDR_GET_MAJOR v = drop_bit 24 v AND 0xFF"
definition sizeof_header :: int where "sizeof_header = 148"

text \<open>The buffer \<^verbatim>\<open>handle_compressed_gddv\<close> parses: the header with its flag cleared and the new size, then the payload.
  \<open>dec src n\<close> is what the decompressor leaves in a buffer of \<open>n\<close> bytes.\<close>

definition inflate :: "(u8 list \<Rightarrow> nat \<Rightarrow> u8 list) \<Rightarrow> u8 list \<Rightarrow> int \<Rightarrow> nat \<Rightarrow> gddv_error + u8 list \<times> int" where
  "inflate dec b sz hs =
     (if sz < int hs \<or> int (length b) < sz then Inl Undefined
      else (case rd_le64 b (hs + 5) of None \<Rightarrow> Inl Undefined
        | Some n \<Rightarrow>
          (let out = take hs b @ dec (take (nat sz - hs) (drop hs b)) (unat n)
           in case rd_le32 out 8 of None \<Rightarrow> Inl Undefined
              | Some flags \<Rightarrow>
                (case Option.bind (wr_le32 8 (flags AND NOT ESIF_SERVICE_CONFIG_COMPRESSED) out) (wr_le32 140 (ucast n)) of
                   None \<Rightarrow> Inl Undefined
                 | Some out \<Rightarrow> Inr (out, c_int (uint (of_nat hs + n :: u64)))))))"

text \<open>The result, the end of the object when it is reported, and the tables.\<close>

fun parse_gddv :: "nat \<Rightarrow> (u8 list \<Rightarrow> nat \<Rightarrow> u8 list) \<Rightarrow> u8 list \<Rightarrow> int \<Rightarrow> cthd_gddv \<Rightarrow> gddv_error + int \<times> nat option \<times> cthd_gddv"
and gddv_loop :: "nat \<Rightarrow> (u8 list \<Rightarrow> nat \<Rightarrow> u8 list) \<Rightarrow> u32 \<Rightarrow> nat \<Rightarrow> u8 list \<Rightarrow> int \<Rightarrow> nat \<Rightarrow> cthd_gddv \<Rightarrow> gddv_error + int \<times> nat option \<times> cthd_gddv" where
  "parse_gddv 0 dec b sz g = Inl No_fuel"
| "parse_gddv (Suc n) dec b sz g =
     (if sz < sizeof_header then Inr (THD_ERROR, None, g)
      else (case (rd_le16 b 0, rd_le16 b 2, rd_le32 b 4, rd_le32 b 8) of
        (Some sig, Some hs, Some version, Some flags) \<Rightarrow>
          if sig \<noteq> ESIFDV_HEADER_SIGNATURE then Inl Gddv_exception
          else if ESIFHDR_GET_MAJOR version \<noteq> 1 \<and> ESIFHDR_GET_MAJOR version \<noteq> 2 then Inr (THD_ERROR, None, g)
          else if ESIFHDR_GET_MAJOR version = 2 then
            if flags AND ESIF_SERVICE_CONFIG_COMPRESSED \<noteq> 0
            then (case inflate dec b sz (unat hs) of Inl e \<Rightarrow> Inl e
              | Inr (out, osize) \<Rightarrow> map_sum id (\<lambda>(res, _, g). (res, None, g)) (parse_gddv n dec out osize g))
            else (case rd_le32 b 140 of None \<Rightarrow> Inl Undefined
              | Some psize \<Rightarrow> gddv_loop n dec 2 (unat hs) b (c_int (uint psize)) (unat hs) g)
          else gddv_loop n dec 1 (unat hs) b sz (unat hs) g
      | _ \<Rightarrow> Inl Undefined))"
| "gddv_loop 0 dec major hs b sz off g = Inl No_fuel"
| "gddv_loop (Suc n) dec major hs b sz off g =
     (if int off + int hs < sz
      then if major = 2
        then (case rd_le16 b off of None \<Rightarrow> Inl Undefined
          | Some sig \<Rightarrow>
            if sig = ESIFDV_ITEM_KEYS_REV0_SIGNATURE
            then (case parse_gddv_key n (drop (off + 2) b) g of Inl e \<Rightarrow> Inl e
              | Inr (used, g) \<Rightarrow> gddv_loop n dec major hs b sz (off + 2 + used) g)
            else if sig = ESIFDV_HEADER_SIGNATURE
            then (case parse_gddv n dec (drop off b) (sz - int off) g of Inl e \<Rightarrow> Inl e
              | Inr (res, used, g) \<Rightarrow> if res \<noteq> THD_SUCCESS then Inr (res, None, g)
                  else gddv_loop n dec major hs b sz (off + (case used of None \<Rightarrow> 0 | Some u \<Rightarrow> u)) g)
            else Inr (THD_ERROR, None, g))
        else (case parse_gddv_key n (drop off b) g of Inl e \<Rightarrow> Inl e
          | Inr (used, g) \<Rightarrow> gddv_loop n dec major hs b sz (off + used) g)
      else Inr (0, Some off, g))"

section \<open>Targets and profiles\<close>

text \<open>The position of the target with the highest power limit; \<open>-1\<close> when there is none.\<close>

fun agressive_loop :: "adaptive_target list \<Rightarrow> int \<Rightarrow> int \<Rightarrow> int \<Rightarrow> int" where
  "agressive_loop [] i mx found = found"
| "agressive_loop (t # ts) i mx found =
     (if at_code t \<noteq> ''PL1MAX'' \<and> at_code t \<noteq> ''PL1PowerLimit'' then agressive_loop ts (i + 1) mx found
      else (case stoi (at_argument t) of None \<Rightarrow> agressive_loop ts (i + 1) mx found
        | Some a \<Rightarrow> if mx < a then agressive_loop ts (i + 1) a i else agressive_loop ts (i + 1) mx found))"

definition find_agressive_target :: "cthd_gddv \<Rightarrow> int" where
  "find_agressive_target g = agressive_loop (targets g) 0 0 (- 1)"

text \<open>\<open>profile\<close>: the active profile when it is known and a string.\<close>

definition update_power_slider :: "string option \<Rightarrow> cthd_gddv \<Rightarrow> cthd_gddv" where
  "update_power_slider profile g = g\<lparr>power_slider := (case profile of None \<Rightarrow> 75
     | Some p \<Rightarrow> if thd_streq p ''power-saver'' then 25 else if thd_streq p ''balanced'' then 75
         else if thd_streq p ''performance'' then 100 else 75)\<rparr>"

section \<open>Loading\<close>

definition crc_step :: "u32 \<Rightarrow> u32" where
  "crc_step crc = drop_bit 1 crc XOR (if crc AND 1 \<noteq> 0 then 0xedb88320 else 0)"

text \<open>A character is a signed byte that is widened before it is combined.\<close>

definition crc32 :: "string \<Rightarrow> u32" where
  "crc32 s = foldl (\<lambda>crc c. (crc_step ^^ 8) (crc XOR scast (of_nat (of_char c) :: u8))) 0 s"

definition first_line :: "string option \<Rightarrow> string option" where
  "first_line content = (case content of None \<Rightarrow> None
     | Some s \<Rightarrow> if s = [] then None else Some (takeWhile (\<lambda>c. c \<noteq> CHR 0x0A) s))"

definition format_dv_filename :: "'w thd_env \<Rightarrow> 'w \<Rightarrow> string option" where
  "format_dv_filename env w =
     (let read = (\<lambda>f. first_line (te_stream env (''/sys/class/dmi/id/'' @ f) w))
      in case (read ''sys_vendor'', read ''product_name'', read ''product_family'', read ''product_sku'') of
           (Some vendor, Some name, Some family, Some sku) \<Rightarrow>
             Some (''/lib/firmware/intel/dtt/dtt_data_vault_'' @ show_nat (unat (crc32 vendor)) @ ''_'' @ show_nat (unat (crc32 family)) @
               ''_'' @ show_nat (unat (crc32 name)) @ ''_'' @ show_nat (unat (crc32 sku)) @ ''.bin'')
         | _ \<Rightarrow> None)"

definition MAX_GDDV_FILE_SIZE :: nat where "MAX_GDDV_FILE_SIZE = 4 * 1024"

definition str_bytes :: "string \<Rightarrow> u8 list" where
  "str_bytes = map (\<lambda>c. of_nat (of_char c))"

text \<open>A file that is too large is refused; an empty result means there is none.\<close>

definition gddv_load :: "'w thd_env \<Rightarrow> 'w \<Rightarrow> u8 list" where
  "gddv_load env w = (case format_dv_filename env w of None \<Rightarrow> []
     | Some f \<Rightarrow> (case te_stream env f w of None \<Rightarrow> []
         | Some s \<Rightarrow> if MAX_GDDV_FILE_SIZE < length s then [] else str_bytes s))"

definition THD_FATAL_ERROR :: int where "THD_FATAL_ERROR = - 2"

text \<open>\<open>dev\<close>: which of the tablet switch, the lid and the UPower client could be set up, and the active profile of the power
  daemon when there is one (\<open>None\<close> when there is no daemon). The vault is the file named after the machine, else the one
  of the firmware. After a fatal error the tables read so far are left out: the engine's initialisation fails and nothing
  reads them.\<close>

definition vault_bytes :: "'w thd_env \<Rightarrow> string \<Rightarrow> 'w \<Rightarrow> int + u8 list" where
  "vault_bytes env base w =
     (let buf = gddv_load env w
      in if buf \<noteq> [] then Inr buf
         else if fst (sysfs_read_str env base ''firmware_node/path'' w) < 0 then Inl THD_ERROR
         else if \<not> te_exists env (base @ ''data_vault'') w then Inl THD_ERROR
         else (case te_stream env (base @ ''data_vault'') w of
                 None \<Rightarrow> Inl THD_FATAL_ERROR | Some s \<Rightarrow> if s = [] then Inl THD_ERROR else Inr (str_bytes s)))"

definition activate_uuid :: "'w thd_env \<Rightarrow> string \<Rightarrow> 'w \<Rightarrow> 'w" where
  "activate_uuid env base w =
     (if base = [] then w
      else (let (ret, cur) = sysfs_read_str env base ''uuids/current_uuid'' w
        in if 0 \<le> ret \<and> strstr_found cur ''INVALID''
           then snd (sysfs_write_str env base ''uuids/current_uuid'' ''42A441D6-AE6A-462b-A84B-4A8CE79027D3'' w) else w))"

definition gddv_init ::
  "nat \<Rightarrow> 'w thd_env \<Rightarrow> (u8 list \<Rightarrow> nat \<Rightarrow> u8 list) \<Rightarrow> bool \<times> bool \<times> bool \<times> string option option \<Rightarrow> string \<Rightarrow> cthd_gddv \<Rightarrow> 'w \<Rightarrow>
   gddv_error + int \<times> cthd_gddv \<times> 'w" where
  "gddv_init fuel env dec dev base g w =
     (let g = g\<lparr>gd_base_path := base\<rparr>
      in case vault_bytes env base w of Inl r \<Rightarrow> Inr (r, g, w)
         | Inr buf \<Rightarrow>
           (case parse_gddv fuel dec buf (int (length buf)) g of
              Inl Gddv_exception \<Rightarrow> Inr (THD_FATAL_ERROR, g, w)
            | Inl e \<Rightarrow> Inl e
            | Inr (res, _, g) \<Rightarrow>
                if res \<noteq> 0 then Inr (THD_FATAL_ERROR, g, w)
                else (let (tablet, lid, upower, profile) = dev;
                          g = (merge_appc g)\<lparr>tablet_dev := tablet, lid_dev := lid, upower_client := upower\<rparr>;
                          g = (case profile of None \<Rightarrow> g | Some p \<Rightarrow> update_power_slider p g)
                  in Inr (THD_SUCCESS, g, activate_uuid env base w))))"

end
