(* ===== verification/Thd_Gddv_Facts.thy ===== *)
theory Thd_Gddv_Facts
  imports Thd_Vault
begin

text \<open>
  Facts about the firmware tables: what the readers return on a table written in the firmware's format, once for every
  kind of entry (locale \<open>table_codec\<close>); and tables on which a parser never returns.
\<close>

section \<open>The format\<close>

definition le_bytes :: "nat \<Rightarrow> 'a::len word \<Rightarrow> u8 list" where
  "le_bytes n v = map (\<lambda>i. ucast (drop_bit (8 * i) v)) [0..<n]"

definition enc_uint64 :: "u64 \<Rightarrow> u8 list" where
  "enc_uint64 v = le_bytes 4 (4 :: u32) @ le_bytes 8 v"

text \<open>The length of a string counts its terminating zero.\<close>

definition enc_str :: "string \<Rightarrow> u8 list" where
  "enc_str s = le_bytes 4 (8 :: u32) @ le_bytes 8 (of_nat (length s + 1) :: u64) @ str_bytes s @ [0]"

definition enc_int :: "int \<Rightarrow> u8 list" where
  "enc_int i = enc_uint64 (of_int i)"

lemma length_le_bytes [simp]: "length (le_bytes n v) = n"
  by (simp add: le_bytes_def)

lemma length_enc_uint64 [simp]: "length (enc_uint64 v) = 12"
  by (simp add: enc_uint64_def)

lemma length_enc_int [simp]: "length (enc_int v) = 12"
  by (simp add: enc_int_def)

lemma length_str_bytes [simp]: "length (str_bytes s) = length s"
  by (simp add: str_bytes_def)

lemma length_enc_str [simp]: "length (enc_str s) = 13 + length s"
  by (simp add: enc_str_def)

lemma rd8_mid: "rd8 (pre @ x # post) (length pre) = Some x"
  by (simp add: rd8_def)

lemma rd8_at: "i < length m \<Longrightarrow> rd8 (pre @ m @ post) (length pre + i) = Some (m ! i)"
  by (simp add: rd8_def nth_append)

lemma rd_le16_mid: "rd_le16 (pre @ a # b # post) (length pre) = Some (ucast a OR push_bit 8 (ucast b))"
  using rd8_at [of 0 "[a, b]" pre post] rd8_at [of 1 "[a, b]" pre post] by (simp add: rd_le16_def)

lemma rd_le32_mid:
  "rd_le32 (pre @ le_bytes 4 (v :: u32) @ post) (length pre) = Some v"
proof -
  have l: "le_bytes 4 v = [ucast v, ucast (drop_bit 8 v), ucast (drop_bit 16 v), ucast (drop_bit 24 v)]"
    by (simp add: le_bytes_def upt_rec numeral_eq_Suc)
  have a: "rd_le16 (pre @ le_bytes 4 v @ post) (length pre) = Some (ucast (ucast v :: u8) OR push_bit 8 (ucast (ucast (drop_bit 8 v) :: u8)))"
    unfolding l using rd_le16_mid [of pre "ucast v" "ucast (drop_bit 8 v)"] by simp
  have b: "rd_le16 (pre @ le_bytes 4 v @ post) (length pre + 2) =
      Some (ucast (ucast (drop_bit 16 v) :: u8) OR push_bit 8 (ucast (ucast (drop_bit 24 v) :: u8)))"
    unfolding l using rd_le16_mid [of "pre @ [ucast v, ucast (drop_bit 8 v)]" "ucast (drop_bit 16 v)" "ucast (drop_bit 24 v)"] by simp
  have "ucast (ucast (ucast v :: u8) OR push_bit 8 (ucast (ucast (drop_bit 8 v) :: u8)) :: u16) OR
      push_bit 16 (ucast (ucast (ucast (drop_bit 16 v) :: u8) OR push_bit 8 (ucast (ucast (drop_bit 24 v) :: u8)) :: u16)) = v"
  proof (rule bit_word_eqI)
    fix n assume "n < LENGTH(32)"
    then show "bit (ucast (ucast (ucast v :: u8) OR push_bit 8 (ucast (ucast (drop_bit 8 v) :: u8)) :: u16) OR
      push_bit 16 (ucast (ucast (ucast (drop_bit 16 v) :: u8) OR push_bit 8 (ucast (ucast (drop_bit 24 v) :: u8)) :: u16)) :: u32) n \<longleftrightarrow> bit v n"
      by (cases "n < 16") (auto simp: bit_simps)
  qed
  then show ?thesis unfolding rd_le32_def a b by simp
qed

lemma rd_le64_mid:
  "rd_le64 (pre @ le_bytes 8 (v :: u64) @ post) (length pre) = Some v"
proof -
  let ?lo = "ucast v :: u32" and ?hi = "ucast (drop_bit 32 v) :: u32"
  have l: "le_bytes 8 v = le_bytes 4 ?lo @ le_bytes 4 ?hi"
    by (auto simp: le_bytes_def upt_rec numeral_eq_Suc intro!: bit_word_eqI) (auto simp: bit_simps)
  have a: "rd_le32 (pre @ le_bytes 8 v @ post) (length pre) = Some ?lo"
    unfolding l using rd_le32_mid [of pre ?lo "le_bytes 4 ?hi @ post"] by simp
  have b: "rd_le32 (pre @ le_bytes 8 v @ post) (length pre + 4) = Some ?hi"
    unfolding l using rd_le32_mid [of "pre @ le_bytes 4 ?lo" ?hi post] by simp
  have "ucast ?lo OR push_bit 32 (ucast ?hi) = v"
    by (rule bit_word_eqI) (auto simp: bit_simps)
  then show ?thesis unfolding rd_le64_def a b by simp
qed

lemma load32_mid: "load32 (pre @ le_bytes 4 v @ post) (int (length pre)) = Inr v"
  by (simp add: load32_def rd_le32_mid)

lemma load64_mid: "load64 (pre @ le_bytes 8 v @ post) (int (length pre)) = Inr v"
  by (simp add: load64_def rd_le64_mid)

section \<open>Readers on the format\<close>

lemma get_uint64_mid:
  "get_uint64 (pre @ enc_uint64 v @ post) (int (length pre)) = Inr (v, int (length pre) + 12)"
  using load32_mid [of pre 4 "le_bytes 8 v @ post"] load64_mid [of "pre @ le_bytes 4 (4 :: u32)" v post]
  by (simp add: get_uint64_def enc_uint64_def)

lemma get_string_mid:
  assumes "length pre + length (enc_str s) < 2 ^ 31"
  shows "get_string (pre @ enc_str s @ post) (int (length pre)) = Inr (int (length pre) + 12, int (length pre) + int (length (enc_str s)))"
proof -
  have "unat (of_nat n :: u64) = n" if "n < 2 ^ 31" for n
    using that by (simp add: unat_of_nat)
  from this [of "length s + 1"] have "unat (of_nat (length s + 1) :: u64) = length s + 1"
    using assms by (simp del: of_nat_add)
  then have "uint (of_nat (length s + 1) :: u64) = int (length s) + 1"
    by (metis int_ops(2,5) uint_nat unsigned_of_nat)
  moreover have "c_int (int (length pre) + 12 + (int (length s) + 1)) = int (length pre) + 13 + int (length s)"
    using assms by (simp add: c_int_id)
  ultimately show ?thesis
    using load32_mid [of pre 8 "le_bytes 8 (of_nat (length s + 1) :: u64) @ str_bytes s @ [0] @ post"]
      load64_mid [of "pre @ le_bytes 4 (8 :: u32)" "of_nat (length s + 1)" "str_bytes s @ [0] @ post"]
    by (simp add: get_string_def enc_str_def)
qed

definition zero_free :: "string \<Rightarrow> bool" where
  "zero_free s \<longleftrightarrow> (\<forall>c\<in>set s. c \<noteq> CHR 0x00)"

lemma of_char_zero: "(of_nat (of_char c) :: u8) = 0 \<longleftrightarrow> c = CHR 0x00"
proof
  assume z: "(of_nat (of_char c) :: u8) = 0"
  have "unat (of_nat (of_char c) :: u8) = (of_char c :: nat)"
    by (simp add: unat_of_nat)
  then have "of_char c = (of_char (CHR 0x00) :: nat)" using z by simp
  then show "c = CHR 0x00" by (metis char_of_char)
qed simp

lemma bytes_str_bytes: "bytes_str (str_bytes s) = s"
proof -
  have "char_of (unat (of_nat (of_char c) :: u8)) = c" for c
    by (simp add: unat_of_nat)
  then show ?thesis by (simp add: bytes_str_def str_bytes_def map_idI)
qed

lemma cstring_mid:
  assumes "zero_free s"
  shows "cstring (pre @ str_bytes s @ 0 # post) (int (length pre)) = Some s"
proof -
  have "0 \<notin> set (str_bytes s)"
    using assms of_char_zero by (force simp: zero_free_def str_bytes_def)
  then have "takeWhile (\<lambda>x. x \<noteq> 0) (str_bytes s @ 0 # post) = str_bytes s"
    by (metis (mono_tags, lifting) append_self_conv takeWhile.simps(2) takeWhile_append2)
  then show ?thesis by (simp add: cstring_def bytes_str_bytes)
qed

lemma get_str_mid:
  assumes "zero_free s" "length pre + length (enc_str s) < 2 ^ 31"
  shows "get_str (pre @ enc_str s @ post) (int (length pre)) = Inr (s, int (length pre) + int (length (enc_str s)))"
  using get_string_mid [OF assms(2), of post]
    cstring_mid [OF assms(1), of "pre @ le_bytes 4 (8 :: u32) @ le_bytes 8 (of_nat (length s + 1) :: u64)" post]
  by (simp add: get_str_def rbind_def enc_str_def)

text \<open>\<open>reads_as L p e x\<close>: wherever the bytes \<open>e\<close> stand inside the first \<open>L\<close> bytes of a buffer, \<open>p\<close> reads \<open>x\<close> there and stops behind them.\<close>

definition reads_as :: "nat \<Rightarrow> 'a reader \<Rightarrow> u8 list \<Rightarrow> 'a \<Rightarrow> bool" where
  "reads_as L p e x \<longleftrightarrow> (\<forall>pre post. length pre + length e \<le> L \<longrightarrow>
     p (pre @ e @ post) (int (length pre)) = Inr (x, int (length pre) + int (length e)))"

named_theorems readers \<open>what a reader reads\<close>

lemma reads_asD:
  "reads_as L p e x \<Longrightarrow> length pre + length e \<le> L \<Longrightarrow>
    p (pre @ e @ post) (int (length pre)) = Inr (x, int (length pre) + int (length e))"
  by (simp add: reads_as_def)

lemma reads_bind:
  assumes "reads_as L p e x" "reads_as L (f x) e' y"
  shows "reads_as L (rbind p f) (e @ e') y"
  unfolding reads_as_def
proof (intro allI impI)
  fix pre post :: "u8 list"
  assume l: "length pre + length (e @ e') \<le> L"
  have "p (pre @ e @ e' @ post) (int (length pre)) = Inr (x, int (length pre) + int (length e))"
    using reads_asD [OF assms(1)] l by simp
  moreover have "f x ((pre @ e) @ e' @ post) (int (length (pre @ e))) = Inr (y, int (length (pre @ e)) + int (length e'))"
    using l by (intro reads_asD [OF assms(2)]) simp
  ultimately show "rbind p f (pre @ (e @ e') @ post) (int (length pre)) = Inr (y, int (length pre) + int (length (e @ e')))"
    by (simp add: rbind_def)
qed

lemma reads_return [readers]: "reads_as L (rreturn x) [] x"
  by (simp add: reads_as_def rreturn_def)

lemma reads_return_eq: "x = y \<Longrightarrow> reads_as L (rreturn x) [] y"
  by (simp add: reads_return)

lemma reads_last:
  assumes "reads_as L p e x" "y = h x"
  shows "reads_as L (rbind p (\<lambda>v. rreturn (h v))) e y"
  using reads_bind [OF assms(1) reads_return, of h] assms(2) by simp

lemma reads_uint64 [readers]: "reads_as L get_uint64 (enc_uint64 v) v"
  by (simp add: reads_as_def get_uint64_mid)

lemma reads_str [readers]: "zero_free s \<Longrightarrow> L < 2 ^ 31 \<Longrightarrow> reads_as L get_str (enc_str s) s"
  by (simp add: reads_as_def get_str_mid del: length_enc_str)

lemma reads_string [readers]:
  assumes "L < 2 ^ 31" shows "\<exists>x. reads_as L (rbind get_string (\<lambda>_. rreturn ())) (enc_str s) x"
  using assms by (auto simp: reads_as_def rbind_def rreturn_def get_string_mid simp del: length_enc_str)

definition int_sized :: "int \<Rightarrow> bool" where
  "int_sized i \<longleftrightarrow> - (2 ^ 31) \<le> i \<and> i < 2 ^ 31"

lemma reads_int [readers]:
  assumes "int_sized i"
  shows "reads_as L get_int (enc_int i) i"
proof -
  have "c_int (uint (of_int i :: u64)) = i"
  proof -
    have "(2::int) ^ 32 dvd 2 ^ 64" by simp
    then have "(uint (of_int i :: u64) + 2 ^ 31) mod 2 ^ 32 = (i + 2 ^ 31) mod 2 ^ 32"
      by (simp add: uint_word_of_int mod_mod_cancel mod_add_cong)
    then show ?thesis using assms by (simp add: c_int_def int_sized_def)
  qed
  then show ?thesis unfolding get_int_def enc_int_def by (intro reads_last [OF reads_uint64]) simp
qed

lemma reads_skip [readers]: "length e = n \<Longrightarrow> L < 2 ^ 31 \<Longrightarrow> reads_as L (skip (int n)) e ()"
  by (auto simp: reads_as_def skip_def)

lemma ucast_down_up [simp]: "ucast (ucast (x :: u32) :: u64) = x" "ucast (ucast (y :: u8) :: u64) = y"
  by (auto intro!: bit_word_eqI simp: bit_simps)

section \<open>Tables\<close>

text \<open>What a table promises of its entries, and what its loop then does.\<close>

locale table_codec =
  fixes enc :: "'a \<Rightarrow> u8 list" and rd :: "nat \<Rightarrow> 'a reader" and ok :: "'a \<Rightarrow> bool"
  assumes read_back: "ok x \<Longrightarrow> L < 2 ^ 31 \<Longrightarrow> reads_as L (rd L) (enc x) x"
    and enc_nonempty: "enc x \<noteq> []"
begin

lemma entries_back:
  assumes "\<forall>x\<in>set xs. ok x" "L = length pre + length (concat (map enc xs))" "L < 2 ^ 31" "length xs < n"
  shows "entries n (rd L) (int L) (pre @ concat (map enc xs)) (int (length pre)) = Inr xs"
  using assms
proof (induction xs arbitrary: pre n)
  case Nil
  then show ?case by (cases n) simp_all
next
  case (Cons x xs)
  obtain m where n: "n = Suc m" "length xs < m" using Cons.prems(4) by (cases n) auto
  have "rd L (pre @ enc x @ concat (map enc xs)) (int (length pre)) = Inr (x, int (length (pre @ enc x)))"
    using reads_asD [OF read_back, of x L pre] Cons.prems by simp
  moreover have "entries m (rd L) (int L) ((pre @ enc x) @ concat (map enc xs)) (int (length (pre @ enc x))) = Inr xs"
    using Cons.prems n(2) by (intro Cons.IH) simp_all
  moreover have "int (length pre) < int L" using enc_nonempty [of x] Cons.prems(2) by (cases "enc x") auto
  ultimately show ?case by (simp add: n)
qed

end

subsection \<open>Targets\<close>

definition enc_target :: "adaptive_target \<Rightarrow> u8 list" where
  "enc_target t = enc_uint64 (target_id t) @ enc_str (at_name t) @ enc_str (at_participant t) @ enc_uint64 (at_domain t) @
     enc_str (at_code t) @ enc_str (at_argument t)"

definition target_ok :: "adaptive_target \<Rightarrow> bool" where
  "target_ok t \<longleftrightarrow> zero_free (at_name t) \<and> zero_free (at_participant t) \<and> zero_free (at_code t) \<and> zero_free (at_argument t)"

lemma reads_target: "target_ok t \<Longrightarrow> L < 2 ^ 31 \<Longrightarrow> reads_as L target_entry (enc_target t) t"
  unfolding target_entry_def enc_target_def target_ok_def
  by (elim conjE) (rule reads_bind reads_last readers | assumption | (simp; fail))+

interpretation target: table_codec enc_target "\<lambda>_. target_entry" target_ok
proof
  show "target_ok x \<Longrightarrow> L < 2 ^ 31 \<Longrightarrow> reads_as L target_entry (enc_target x) x" for x L by (rule reads_target)
  show "enc_target x \<noteq> []" for x by (simp add: enc_target_def enc_uint64_def le_bytes_def)
qed

text \<open>A whole table: its version, then its entries.\<close>

definition enc_table :: "u64 \<Rightarrow> ('a \<Rightarrow> u8 list) \<Rightarrow> 'a list \<Rightarrow> u8 list" where
  "enc_table version enc xs = enc_uint64 version @ concat (map enc xs)"

lemma table_version: "get_uint64 (enc_table v enc xs) 0 = Inr (v, int (length (enc_uint64 v)))"
  using get_uint64_mid [of "[]" v "concat (map enc xs)"] by (simp add: enc_table_def)

lemma length_enc_table: "length (enc_table v enc xs) = length (enc_uint64 v) + length (concat (map enc xs))"
  by (simp add: enc_table_def)

subsection \<open>Custom conditions\<close>

definition enc_custom :: "custom_condition \<Rightarrow> u8 list" where
  "enc_custom c = enc_uint64 (ucast (cc_condition c)) @ enc_str (cc_name c) @ enc_str (cc_participant c) @ enc_int (cc_domain c) @ enc_int (cc_type c)"

definition custom_ok :: "custom_condition \<Rightarrow> bool" where
  "custom_ok c \<longleftrightarrow> zero_free (cc_name c) \<and> zero_free (cc_participant c) \<and> int_sized (cc_domain c) \<and> int_sized (cc_type c)"

lemma reads_custom: "custom_ok c \<Longrightarrow> L < 2 ^ 31 \<Longrightarrow> reads_as L appc_entry (enc_custom c) c"
  unfolding appc_entry_def enc_custom_def custom_ok_def
  by (elim conjE) (rule reads_bind reads_last readers | assumption | (simp; fail))+

interpretation custom: table_codec enc_custom "\<lambda>_. appc_entry" custom_ok
proof
  show "custom_ok x \<Longrightarrow> L < 2 ^ 31 \<Longrightarrow> reads_as L appc_entry (enc_custom x) x" for x L by (rule reads_custom)
  show "enc_custom x \<noteq> []" for x by (simp add: enc_custom_def enc_uint64_def le_bytes_def)
qed

subsection \<open>Passive policies\<close>

definition enc_psv :: "psv \<Rightarrow> u8 list" where
  "enc_psv p = enc_str (psv_source p) @ enc_str (psv_target p) @ enc_int (psv_priority p) @ enc_int (psv_sample_period p) @
     enc_int (psv_temp p) @ enc_int (psv_domain p) @ enc_int (psv_control_knob p) @ enc_str (psv_limit p) @ enc_int (psv_step_size p) @
     enc_int (psv_limit_coeff p) @ enc_int (psv_unlimit_coeff p) @ enc_uint64 0"

definition psv_ok :: "psv \<Rightarrow> bool" where
  "psv_ok p \<longleftrightarrow> zero_free (psv_source p) \<and> zero_free (psv_target p) \<and> zero_free (psv_limit p) \<and> int_sized (psv_priority p) \<and>
     int_sized (psv_sample_period p) \<and> int_sized (psv_temp p) \<and> int_sized (psv_domain p) \<and> int_sized (psv_control_knob p) \<and>
     int_sized (psv_step_size p) \<and> int_sized (psv_limit_coeff p) \<and> int_sized (psv_unlimit_coeff p)"

lemma reads_psv_limit:
  assumes "zero_free s" "L < 2 ^ 31"
  shows "reads_as L psv_limit_read (enc_str s) s"
proof -
  have "get_type (pre @ enc_str s @ post) (int (length pre)) = Inr (8, int (length pre))" for pre post
    using load32_mid [of pre 8] by (simp add: get_type_def enc_str_def)
  then show ?thesis
    using reads_str [OF assms] by (simp add: reads_as_def psv_limit_read_def rbind_def)
qed

lemma reads_skip12: "L < 2 ^ 31 \<Longrightarrow> reads_as L (skip 12) (enc_uint64 v) ()"
  using reads_skip [of "enc_uint64 v" 12 L] by simp

lemma reads_psv: "psv_ok p \<Longrightarrow> L < 2 ^ 31 \<Longrightarrow> reads_as L psv_entry (enc_psv p) p"
  unfolding psv_entry_def enc_psv_def psv_ok_def
  by (elim conjE) (rule reads_bind reads_last reads_psv_limit reads_skip12 readers | assumption | (simp; fail))+

interpretation psv: table_codec enc_psv "\<lambda>_. psv_entry" psv_ok
proof
  show "psv_ok x \<Longrightarrow> L < 2 ^ 31 \<Longrightarrow> reads_as L psv_entry (enc_psv x) x" for x L by (rule reads_psv)
  show "enc_psv x \<noteq> []" for x by (simp add: enc_psv_def enc_str_def le_bytes_def)
qed

subsection \<open>Condition sets\<close>

lemma reads_enum32 [readers]: "reads_as L get_enum32 (enc_uint64 v) (ucast (ucast v :: u32))"
  unfolding get_enum32_def by (rule reads_last [OF reads_uint64 refl])

lemma reads_enum8 [readers]: "reads_as L get_enum8 (enc_uint64 v) (ucast v)"
  unfolding get_enum8_def by (rule reads_last [OF reads_uint64 refl])

lemma reads_time [readers]:
  assumes "- (2 ^ 63) \<le> t" "t < 2 ^ 63"
  shows "reads_as L get_time (enc_int t) t"
proof -
  have "sint (of_int t :: u64) = t" using assms by (simp add: signed_of_int signed_take_bit_int_eq_self)
  then show ?thesis unfolding get_time_def enc_int_def by (intro reads_last [OF reads_uint64]) simp
qed

text \<open>A condition of an APCT table of the second version.\<close>

definition enc_condition :: "bool \<Rightarrow> condition \<Rightarrow> u8 list" where
  "enc_condition again c = enc_uint64 (cn_condition c) @ enc_str (cn_device c) @ enc_uint64 0 @ enc_uint64 (cn_comparison c) @ enc_int (cn_argument c) @
     (if \<not> again then [] else enc_uint64 (ucast (cn_operation c)) @
       (if cn_operation c = FOR then enc_uint64 0 @ enc_str [] @ enc_uint64 0 @ enc_uint64 (ucast (cn_time_comparison c)) @ enc_int (cn_time c) @ enc_uint64 0
        else []))"

definition condition_ok :: "u64 \<Rightarrow> bool \<Rightarrow> condition \<Rightarrow> bool" where
  "condition_ok target again c \<longleftrightarrow> cn_condition c = ucast (ucast (cn_condition c) :: u32) \<and> zero_free (cn_device c) \<and>
     cn_comparison c = ucast (ucast (cn_comparison c) :: u8) \<and> int_sized (cn_argument c) \<and> - (2 ^ 63) \<le> cn_time c \<and> cn_time c < 2 ^ 63 \<and>
     cn_target c = c_int (uint target) \<and> state_entry_time c = 0 \<and> ignore_condition c = 0 \<and> (\<not> again \<longrightarrow> cn_operation c = 0) \<and>
     (cn_operation c \<noteq> FOR \<longrightarrow> cn_time_comparison c = 0 \<and> cn_time c = 0)"

lemma reads_string_skip:
  assumes "L < 2 ^ 31" "reads_as L q e y"
  shows "reads_as L (rbind get_string (\<lambda>_. q)) (enc_str s @ e) y"
  unfolding reads_as_def
proof (intro allI impI)
  fix pre post :: "u8 list"
  assume l: "length pre + length (enc_str s @ e) \<le> L"
  have "get_string (pre @ enc_str s @ e @ post) (int (length pre)) = Inr (int (length pre) + 12, int (length (pre @ enc_str s)))"
    using l assms(1) by (simp add: get_string_mid)
  moreover have "q ((pre @ enc_str s) @ e @ post) (int (length (pre @ enc_str s))) = Inr (y, int (length (pre @ enc_str s)) + int (length e))"
    using l by (intro reads_asD [OF assms(2)]) simp
  ultimately show "rbind get_string (\<lambda>_. q) (pre @ (enc_str s @ e) @ post) (int (length pre)) =
      Inr (y, int (length pre) + int (length (enc_str s @ e)))"
    by (simp add: rbind_def del: length_enc_str)
qed

lemma reads_if:
  "P \<Longrightarrow> reads_as L p e x \<Longrightarrow> reads_as L (if P then p else q) e x"
  "\<not> P \<Longrightarrow> reads_as L q e x \<Longrightarrow> reads_as L (if P then p else q) e x"
  by simp_all

lemma reads_condition:
  assumes ok: "condition_ok target again c" and L: "L < 2 ^ 31"
  shows "reads_as L (apct_condition2 target again) (enc_condition again c) c"
proof -
  have sz: "zero_free (cn_device c)" "int_sized (cn_argument c)" "- (2 ^ 63) \<le> cn_time c" "cn_time c < 2 ^ 63"
    using ok by (simp_all add: condition_ok_def)
  have k: "ucast (ucast (cn_condition c) :: u32) = cn_condition c" "ucast (ucast (cn_comparison c) :: u8) = cn_comparison c"
    "c_int (uint target) = cn_target c" "state_entry_time c = 0" "ignore_condition c = 0"
    using ok unfolding condition_ok_def by (metis (no_types))+
  note rules = reads_bind reads_last reads_skip12 reads_string_skip readers reads_return_eq
  consider "\<not> again" "cn_operation c = 0" "cn_time_comparison c = 0" "cn_time c = 0"
    | "again" "cn_operation c \<noteq> FOR" "cn_time_comparison c = 0" "cn_time c = 0" | "again" "cn_operation c = FOR"
    using ok unfolding condition_ok_def FOR_def by fastforce
  then show ?thesis
  proof cases
    case 1
    then show ?thesis unfolding apct_condition2_def enc_condition_def Let_def
      by (simp only: simp_thms if_True if_False append_Nil2)
        ((rule rules | rule sz L | (rule condition.equality; simp add: condition_new_def k; fail))+)
  next
    case 2
    then show ?thesis unfolding apct_condition2_def enc_condition_def Let_def
      by (simp only: simp_thms if_True if_False)
        ((rule rules | rule reads_if(2), (simp; fail) | rule sz L | (rule condition.equality; simp add: condition_new_def k; fail))+)
  next
    case 3
    then show ?thesis unfolding apct_condition2_def enc_condition_def Let_def
      by (simp only: simp_thms if_True if_False)
        ((rule rules | rule reads_if(1), (simp; fail) | rule sz L | (rule condition.equality; simp add: condition_new_def k; fail))+)
  qed
qed

text \<open>How many places the conditions take: a \<open>FOR\<close> takes two. Then a set, with the reader's count of places still to come.\<close>

definition slots :: "condition list \<Rightarrow> nat" where
  "slots cs = sum_list (map (\<lambda>c. if cn_operation c = FOR then 2 else 1) cs)"

fun enc_conditions :: "condition list \<Rightarrow> u8 list" where
  "enc_conditions [] = []"
| "enc_conditions (c # cs) = enc_condition (1 < slots (c # cs)) c @ enc_conditions cs"

fun conditions_ok :: "u64 \<Rightarrow> condition list \<Rightarrow> bool" where
  "conditions_ok target [] = True"
| "conditions_ok target (c # cs) \<longleftrightarrow> condition_ok target (1 < slots (c # cs)) c \<and> conditions_ok target cs"

definition enc_set :: "condition list \<Rightarrow> u8 list" where
  "enc_set cs = enc_int (cn_target (hd cs)) @ enc_uint64 (of_nat (slots cs)) @ enc_conditions cs"

definition set_ok :: "condition list \<Rightarrow> bool" where
  "set_ok cs \<longleftrightarrow> cs \<noteq> [] \<and> slots cs < 2 ^ 31 \<and> int_sized (cn_target (hd cs)) \<and> cn_target (hd cs) \<noteq> - 1 \<and>
     conditions_ok (of_int (cn_target (hd cs))) cs"

lemma enc_condition_nonempty: "enc_condition again c \<noteq> []"
  by (simp add: enc_condition_def enc_uint64_def le_bytes_def)

lemma reads_conditions:
  assumes "conditions_ok target cs" "L < 2 ^ 31"
  shows "reads_as L (condition_set (slots cs) (int L) (apct_condition2 target)) (enc_conditions cs) cs"
  using assms(1)
proof (induction cs)
  case Nil
  show ?case by (simp add: slots_def reads_as_def)
next
  case (Cons c cs)
  let ?again = "1 < slots (c # cs)"
  obtain r where r: "slots (c # cs) = Suc r" "(if cn_operation c = FOR then r - 1 else r) = slots cs"
    by (cases "slots (c # cs)") (auto simp: slots_def split: if_splits)
  show ?case
    unfolding reads_as_def
  proof (intro allI impI)
    fix pre post :: "u8 list"
    assume l: "length pre + length (enc_conditions (c # cs)) \<le> L"
    let ?e = "enc_condition ?again c"
    have "apct_condition2 target ?again (pre @ ?e @ enc_conditions cs @ post) (int (length pre)) = Inr (c, int (length (pre @ ?e)))"
      using reads_asD [OF reads_condition, of target ?again c L pre] Cons.prems assms(2) l by simp
    moreover have "condition_set (slots cs) (int L) (apct_condition2 target) ((pre @ ?e) @ enc_conditions cs @ post) (int (length (pre @ ?e))) =
        Inr (cs, int (length (pre @ ?e)) + int (length (enc_conditions cs)))"
      using Cons l by (intro reads_asD [OF Cons.IH]) simp_all
    moreover have "int (length pre) < int L"
      using l enc_condition_nonempty [of ?again c] by (cases ?e) auto
    ultimately show "condition_set (slots (c # cs)) (int L) (apct_condition2 target) (pre @ enc_conditions (c # cs) @ post) (int (length pre)) =
        Inr (c # cs, int (length pre) + int (length (enc_conditions (c # cs))))"
      using r by (simp add: r)
  qed
qed

lemma c_int_of_int: "int_sized i \<Longrightarrow> c_int (uint (of_int i :: u64)) = i"
  using reads_int [of i "12"] get_uint64_mid [of "[]" "of_int i" "[]"]
  by (auto simp: reads_as_def get_int_def rbind_def rreturn_def enc_int_def dest!: spec [of _ "[]"])

lemma set_count_slots: "n < 2 ^ 31 \<Longrightarrow> set_count (of_nat n) = n"
  using c_int_of_int [of "int n"] by (simp add: set_count_def int_sized_def)

lemma reads_set:
  assumes "set_ok cs" "L < 2 ^ 31"
  shows "reads_as L (apct_set2 (int L)) (enc_set cs) cs"
proof -
  let ?t = "of_int (cn_target (hd cs)) :: u64"
  have t: "c_int (uint ?t) \<noteq> - 1" using assms(1) by (simp add: set_ok_def c_int_of_int)
  have "reads_as L (rbind get_uint64 (\<lambda>count. condition_set (set_count count) (int L) (apct_condition2 ?t)))
      (enc_uint64 (of_nat (slots cs)) @ enc_conditions cs) cs"
    using assms by (intro reads_bind [OF reads_uint64]) (simp add: set_ok_def set_count_slots reads_conditions)
  then have "reads_as L (\<lambda>b off. if c_int (uint ?t) = - 1 then Inl Gddv_exception
       else rbind get_uint64 (\<lambda>count. condition_set (set_count count) (int L) (apct_condition2 ?t)) b off)
      (enc_uint64 (of_nat (slots cs)) @ enc_conditions cs) cs"
    using t by (simp add: reads_as_def)
  then show ?thesis
    unfolding apct_set2_def enc_set_def enc_int_def by (rule reads_bind [OF reads_uint64])
qed

interpretation cset: table_codec enc_set "\<lambda>L. apct_set2 (int L)" set_ok
proof
  show "set_ok x \<Longrightarrow> L < 2 ^ 31 \<Longrightarrow> reads_as L (apct_set2 (int L)) (enc_set x) x" for x L by (rule reads_set)
  show "enc_set x \<noteq> []" for x by (simp add: enc_set_def enc_int_def enc_uint64_def le_bytes_def)
qed

section \<open>Whole tables\<close>

text \<open>C34: a condition table written in the format of the firmware is read back as it was: the sets in their order, with every
  condition, its time and its target, whatever number of sets it has.\<close>

theorem apct_read_back:
  assumes "\<forall>cs\<in>set sets. set_ok cs" "length (enc_table 2 enc_set sets) < 2 ^ 31" "length sets < fuel"
  shows "parse_apct fuel (enc_table 2 enc_set sets) (int (length (enc_table 2 enc_set sets))) g = Inr (g\<lparr>conditions := conditions g @ sets\<rparr>)"
proof -
  have "entries fuel (apct_set2 (int (length (enc_table 2 enc_set sets)))) (int (length (enc_table 2 enc_set sets)))
      (enc_uint64 2 @ concat (map enc_set sets)) (int (length (enc_uint64 2))) = Inr sets"
    using assms by (intro cset.entries_back) (simp_all add: length_enc_table)
  then show ?thesis
    unfolding parse_apct_def table_version by (simp add: enc_table_def)
qed

definition hot_for_10 :: condition where
  "hot_for_10 = \<lparr>cn_condition = 17, cn_device = ''SEN3'', cn_comparison = 3, cn_argument = 3232, cn_operation = FOR, cn_time_comparison = 3,
     cn_time = 10, cn_target = 5, state_entry_time = 0, ignore_condition = 0\<rparr>"

definition on_battery :: condition where
  "on_battery = \<lparr>cn_condition = 8, cn_device = [], cn_comparison = 1, cn_argument = 1, cn_operation = 0, cn_time_comparison = 0,
     cn_time = 0, cn_target = 5, state_entry_time = 0, ignore_condition = 0\<rparr>"

lemma apct_read_back_witness:
  "parse_apct 2 (enc_table 2 enc_set [[hot_for_10, on_battery]]) (int (length (enc_table 2 enc_set [[hot_for_10, on_battery]]))) cthd_gddv_new =
     Inr (cthd_gddv_new\<lparr>conditions := [[hot_for_10, on_battery]]\<rparr>)"
  using apct_read_back [of "[[hot_for_10, on_battery]]" 2 cthd_gddv_new]
  by (simp add: set_ok_def condition_ok_def slots_def hot_for_10_def on_battery_def FOR_def zero_free_def int_sized_def c_int_def
      enc_table_def enc_set_def enc_condition_def cthd_gddv_new_def)

text \<open>The same of targets and of passive policies.\<close>

theorem apat_read_back:
  assumes "\<forall>t\<in>set ts. target_ok t" "length (enc_table 2 enc_target ts) < 2 ^ 31" "length ts < fuel"
  shows "parse_apat fuel (enc_table 2 enc_target ts) (int (length (enc_table 2 enc_target ts))) g = Inr (g\<lparr>targets := targets g @ ts\<rparr>)"
proof -
  have "entries fuel target_entry (int (length (enc_table 2 enc_target ts)))
      (enc_uint64 2 @ concat (map enc_target ts)) (int (length (enc_uint64 2))) = Inr ts"
    using assms by (intro target.entries_back) (simp_all add: length_enc_table)
  then show ?thesis
    unfolding parse_apat_def table_version by (simp add: enc_table_def)
qed

theorem psvt_read_back:
  assumes "\<forall>p\<in>set ps. psv_ok p" "length (enc_table 2 enc_psv ps) < 2 ^ 31" "length ps < fuel"
  shows "parse_psvt fuel (Some name) (enc_table 2 enc_psv ps) (int (length (enc_table 2 enc_psv ps))) g =
    Inr (g\<lparr>psvts := psvts g @ [\<lparr>psvt_name = name, psvs = ps\<rparr>]\<rparr>)"
proof -
  have "entries fuel psv_entry (int (length (enc_table 2 enc_psv ps)))
      (enc_uint64 2 @ concat (map enc_psv ps)) (int (length (enc_uint64 2))) = Inr ps"
    using assms by (intro psv.entries_back) (simp_all add: length_enc_table)
  then show ?thesis
    unfolding parse_psvt_def get_int_def rbind_def table_version
    by (simp add: enc_table_def table_name_def rreturn_def c_int_def)
qed

section \<open>Parsers that do not return\<close>

text \<open>A reader that comes back to where it started is called for ever.\<close>

lemma entries_endless:
  assumes "p b off = Inr (x, off)" "off < len"
  shows "entries fuel p len b off = Inl No_fuel"
  by (induction fuel) (simp_all add: assms)

text \<open>One entry whose last string has the length minus 75, which takes the offset back to the entry.\<close>

definition endless_table :: "u8 list" where
  "endless_table = enc_uint64 2 @ enc_uint64 1 @ enc_str [] @ enc_str [] @ enc_uint64 0 @ enc_str [] @
     le_bytes 4 (8 :: u32) @ le_bytes 8 (- 75 :: u64) @ [0]"

lemma endless_entry: "\<exists>t. target_entry endless_table 12 = Inr (t, 12)"
proof -
  have "target_entry endless_table 12 =
      Inr (\<lparr>target_id = 1, at_name = [], at_participant = [], at_domain = 0, at_code = [], at_argument = []\<rparr>, 12)"
    by code_simp
  then show ?thesis by blast
qed

text \<open>The length of a string in the firmware's tables is not checked, so a table of 88 bytes keeps the parser in its
  loop for ever, adding the same target each time.\<close>

theorem apat_endless: "parse_apat fuel endless_table (int (length endless_table)) g = Inl No_fuel"
proof -
  obtain t where t: "target_entry endless_table 12 = Inr (t, 12)" using endless_entry by blast
  have "get_uint64 endless_table 0 = Inr (2, 12)"
    using get_uint64_mid [of "[]" 2] by (simp add: endless_table_def)
  moreover have "12 < int (length endless_table)" by (simp add: endless_table_def)
  ultimately show ?thesis using entries_endless [of target_entry, OF t] by (simp add: parse_apat_def)
qed

text \<open>A compressed object inside another one does not report its end, so the outer loop parses it again and again.\<close>

lemma compressed_end_unknown:
  assumes "parse_gddv n dec b sz g = Inr (res, used, g')" "rd_le32 b 4 = Some version" "ESIFHDR_GET_MAJOR version = 2"
    and "rd_le32 b 8 = Some flags" "flags AND ESIF_SERVICE_CONFIG_COMPRESSED \<noteq> 0"
  shows "used = None"
proof -
  have "map_sum id (\<lambda>(res, _, g). (res, None, g)) r = Inr (res, used, g') \<Longrightarrow> used = None"
    for r :: "gddv_error + int \<times> nat option \<times> cthd_gddv" by (cases r) auto
  then show ?thesis using assms by (cases n) (auto split: if_splits option.splits sum.splits)
qed

lemma nested_compressed_endless:
  assumes "int off + int hs < sz" "rd_le16 b off = Some ESIFDV_HEADER_SIGNATURE"
    and "\<And>n g. case parse_gddv n dec (drop off b) (sz - int off) g of Inl e \<Rightarrow> e = No_fuel | Inr (res, used, g') \<Rightarrow> res = THD_SUCCESS \<and> used = None"
  shows "gddv_loop n dec 2 hs b sz off g = Inl No_fuel"
proof (induction n arbitrary: g)
  case (Suc n)
  have "ESIFDV_HEADER_SIGNATURE \<noteq> ESIFDV_ITEM_KEYS_REV0_SIGNATURE"
    by (simp add: ESIFDV_HEADER_SIGNATURE_def ESIFDV_ITEM_KEYS_REV0_SIGNATURE_def)
  then show ?case using assms(1,2) assms(3) [of n g] Suc by (auto split: sum.splits)
qed simp

section \<open>Limits that are dropped\<close>

text \<open>A table of power limits shorter than 156 bytes is read and forgotten.\<close>

lemma short_ppcc_dropped: "parse_ppcc name b len g = Inr g' \<Longrightarrow> len < 156 \<Longrightarrow> ppccs g' = ppccs g"
  by (auto simp: parse_ppcc_def split: sum.splits)

end
