(* ===== verification/Thd_Conditions.thy ===== *)
theory Thd_Conditions
  imports Thd_Vault
begin

text \<open>
  The conditions of the firmware's adaptive policies (\<^verbatim>\<open>thd_gddv.cpp\<close>): which kinds are supported, how each is
  evaluated, how long it has to hold, and which set of conditions is met first. What libevdev and UPower report are
  parameters.
\<close>

text \<open>\<open>gd_lid\<close> and \<open>gd_tablet\<close> are the switches after all pending events were read. \<open>gd_on_battery\<close> is told whether there is
  a client. A power device is its kind and its percentage.\<close>

record 'w gddv_dev =
  gd_lid :: "'w \<Rightarrow> int"
  gd_tablet :: "'w \<Rightarrow> int"
  gd_on_battery :: "bool \<Rightarrow> 'w \<Rightarrow> bool"
  gd_devices :: "'w \<Rightarrow> (nat \<times> f64) list option"

section \<open>Kinds\<close>

definition Default :: u64 where "Default = 1"
definition Motion :: u64 where "Motion = 4"
definition Workload :: u64 where "Workload = 6"
definition Power_source :: u64 where "Power_source = 8"
definition Aggregate_power_percentage :: u64 where "Aggregate_power_percentage = 9"
definition Lid_state :: u64 where "Lid_state = 10"
definition Platform_type :: u64 where "Platform_type = 11"
definition Temperature :: u64 where "Temperature = 17"
definition Oem0 :: u64 where "Oem0 = 19"
definition Oem5 :: u64 where "Oem5 = 24"
definition Temperature_without_hysteresis :: u64 where "Temperature_without_hysteresis = 48"
definition Power_slider :: u64 where "Power_slider = 56"
definition OS_type :: u64 where "OS_type = 86"

lemmas kind_defs = Default_def Motion_def Workload_def Power_source_def Aggregate_power_percentage_def Lid_state_def
  Platform_type_def Temperature_def Oem0_def Oem5_def Temperature_without_hysteresis_def Power_slider_def OS_type_def

definition is_oem :: "u64 \<Rightarrow> bool" where
  "is_oem k \<longleftrightarrow> Oem0 \<le> k \<and> k \<le> Oem5 \<or> 0x1000 \<le> k \<and> k < 0x10000"

definition is_temperature :: "u64 \<Rightarrow> bool" where
  "is_temperature k \<longleftrightarrow> k = Temperature \<or> k = Temperature_without_hysteresis \<or> k = 0"

definition verify_condition :: "cthd_gddv \<Rightarrow> condition \<Rightarrow> int" where
  "verify_condition g c = (let k = cn_condition c in
     if is_oem k \<or> k = Default \<or> is_temperature k \<or> (k = Lid_state \<and> lid_dev g) \<or> (k = Power_source \<and> upower_client g) \<or>
        k = Workload \<or> k = Platform_type \<or> k = Power_slider \<or> k = OS_type
     then 0 else THD_ERROR)"

definition verify_conditions :: "cthd_gddv \<Rightarrow> int" where
  "verify_conditions g = (if \<forall>cs\<in>set (conditions g). \<forall>c\<in>set cs. verify_condition g c = 0 then 0 else THD_ERROR)"

section \<open>Comparisons\<close>

definition compare_condition :: "condition \<Rightarrow> int \<Rightarrow> int" where
  "compare_condition c v = (let cmp = cn_comparison c; a = cn_argument c in
     if (cmp = 1 \<and> v = a) \<or> (cmp = 2 \<and> v \<le> a) \<or> (cmp = 3 \<and> a \<le> v) \<or> (cmp = 4 \<and> v \<noteq> a) \<or> (cmp = 5 \<and> a < v) \<or> (cmp = 6 \<and> a \<le> v)
     then THD_SUCCESS else THD_ERROR)"

definition compare_time :: "condition \<Rightarrow> int \<Rightarrow> int" where
  "compare_time c now = (let elapsed = c_int (now - state_entry_time c); cmp = cn_time_comparison c; t = cn_time c in
     if (cmp = 1 \<and> elapsed = t) \<or> (cmp = 2 \<and> elapsed \<le> t) \<or> (cmp = 3 \<and> t \<le> elapsed) \<or> (cmp = 4 \<and> elapsed \<noteq> t)
     then THD_SUCCESS else THD_ERROR)"

section \<open>Evaluation\<close>

definition oem_index :: "u64 \<Rightarrow> nat" where
  "oem_index k = (if Oem0 \<le> k \<and> k \<le> Oem5 then unat (k - Oem0) else unat (k - 0x1000) + 6)"

definition evaluate_oem_condition :: "'w thd_env \<Rightarrow> cthd_gddv \<Rightarrow> condition \<Rightarrow> 'w \<Rightarrow> int" where
  "evaluate_oem_condition env g c w =
     (let (ret, v) = sysfs_read_int env (gd_base_path g) (''odvp'' @ show_nat (oem_index (cn_condition c))) (te_garbage env ''odvp'' w) w
      in if ret < 0 then THD_ERROR else compare_condition c v)"

text \<open>The part of a path behind its last dot.\<close>

definition last_component :: "string \<Rightarrow> string" where
  "last_component s = rev (takeWhile (\<lambda>c. c \<noteq> CHR ''.'') (rev s))"

text \<open>The condition is passed by value: that a sensor is missing is not remembered.\<close>

definition evaluate_temperature_condition :: "'w thd_env \<Rightarrow> thd_engine \<Rightarrow> condition \<Rightarrow> 'w \<Rightarrow> int" where
  "evaluate_temperature_condition env en c w =
     (if ignore_condition c \<noteq> 0 then THD_ERROR
      else (case search_sensor (last_component (cn_device c)) en of
              None \<Rightarrow> THD_ERROR
            | Some s \<Rightarrow> compare_condition c (c_div (sint (read_temperature env (en_sensors en ! s) w)) 100 + 2732)))"

definition evaluate_lid_condition :: "'w gddv_dev \<Rightarrow> cthd_gddv \<Rightarrow> condition \<Rightarrow> 'w \<Rightarrow> int" where
  "evaluate_lid_condition dev g c w =
     compare_condition c (if lid_dev g then if gd_lid dev w = 0 then 1 else 0 else 0)"

definition evaluate_workload_condition :: "condition \<Rightarrow> int" where
  "evaluate_workload_condition c = compare_condition c 3"

definition evaluate_platform_type_condition :: "'w gddv_dev \<Rightarrow> cthd_gddv \<Rightarrow> condition \<Rightarrow> 'w \<Rightarrow> int" where
  "evaluate_platform_type_condition dev g c w = compare_condition c (if tablet_dev g \<and> gd_tablet dev w \<noteq> 0 then 2 else 1)"

definition evaluate_power_slider_condition :: "cthd_gddv \<Rightarrow> condition \<Rightarrow> int" where
  "evaluate_power_slider_condition g c = compare_condition c (power_slider g)"

definition evaluate_ac_condition :: "'w gddv_dev \<Rightarrow> cthd_gddv \<Rightarrow> condition \<Rightarrow> 'w \<Rightarrow> int" where
  "evaluate_ac_condition dev g c w = compare_condition c (if gd_on_battery dev (upower_client g) w then 1 else 0)"

definition evaluate_os_type_condition :: "condition \<Rightarrow> int" where
  "evaluate_os_type_condition c = compare_condition c 3"

definition battery_percentage :: "'w gddv_dev \<Rightarrow> 'w \<Rightarrow> f64" where
  "battery_percentage dev w =
     (let pct = (if gd_on_battery dev True w then fint 50 else fint 100)
      in case gd_devices dev w of None \<Rightarrow> pct
         | Some ds \<Rightarrow> (case List.find (\<lambda>d. fst d = 2) ds of None \<Rightarrow> pct | Some d \<Rightarrow> snd d))"

text \<open>A battery of at most zero percent counts as met.\<close>

definition evaluate_battery_condition :: "'w gddv_dev \<Rightarrow> condition \<Rightarrow> 'w \<Rightarrow> int" where
  "evaluate_battery_condition dev c w =
     (if cn_comparison c = 2 \<and> cn_argument c = 0 then THD_SUCCESS else compare_condition c (f2i (battery_percentage dev w)))"

text \<open>Whether a condition is met now, whatever its time says. The kinds exclude each other; any other one is not met.\<close>

definition condition_met :: "'w thd_env \<Rightarrow> 'w gddv_dev \<Rightarrow> thd_engine \<Rightarrow> cthd_gddv \<Rightarrow> condition \<Rightarrow> 'w \<Rightarrow> int" where
  "condition_met env dev en g c w = (let k = cn_condition c in
     if k = OS_type then evaluate_os_type_condition c
     else if is_oem k then evaluate_oem_condition env g c w
     else if is_temperature k then evaluate_temperature_condition env en c w
     else if k = Lid_state then evaluate_lid_condition dev g c w
     else if k = Power_source then evaluate_ac_condition dev g c w
     else if k = Aggregate_power_percentage \<and> upower_client g then evaluate_battery_condition dev c w
     else if k = Workload then evaluate_workload_condition c
     else if k = Platform_type then evaluate_platform_type_condition dev g c w
     else if k = Power_slider then evaluate_power_slider_condition g c
     else if k = Motion \<and> cn_argument c = 0 then THD_SUCCESS
     else THD_ERROR)"

definition evaluate_condition ::
  "'w thd_env \<Rightarrow> 'w gddv_dev \<Rightarrow> thd_engine \<Rightarrow> cthd_gddv \<Rightarrow> condition \<Rightarrow> 'w \<Rightarrow> int \<times> condition" where
  "evaluate_condition env dev en g c w =
     (if cn_condition c = Default then (THD_SUCCESS, c)
      else (let ret = condition_met env dev en g c w in
        if ret = 0 then
          if cn_target c = current_target_matched g then (ret, c)
          else if cn_time c \<noteq> 0 then
            if state_entry_time c = 0 then (THD_ERROR, c\<lparr>state_entry_time := te_time env w\<rparr>)
            else (let ret = compare_time c (te_time env w) in (ret, if ret = 0 then c\<lparr>state_entry_time := 0\<rparr> else c))
          else (ret, c)
        else (ret, c\<lparr>state_entry_time := 0\<rparr>)))"

text \<open>The first condition that fails ends the evaluation of its set.\<close>

fun evaluate_condition_set ::
  "'w thd_env \<Rightarrow> 'w gddv_dev \<Rightarrow> thd_engine \<Rightarrow> cthd_gddv \<Rightarrow> condition list \<Rightarrow> 'w \<Rightarrow> int \<times> condition list" where
  "evaluate_condition_set env dev en g [] w = (THD_SUCCESS, [])"
| "evaluate_condition_set env dev en g (c # cs) w =
     (let (ret, c) = evaluate_condition env dev en g c w
      in if ret \<noteq> 0 then (THD_ERROR, c # cs)
         else (let (ret, cs) = evaluate_condition_set env dev en g cs w in (ret, c # cs)))"

fun pbct_loop :: "'w thd_env \<Rightarrow> 'w gddv_dev \<Rightarrow> thd_engine \<Rightarrow> cthd_gddv \<Rightarrow> pbct_entry list \<Rightarrow> 'w \<Rightarrow> u64 option \<times> pbct_entry list" where
  "pbct_loop env dev en g [] w = (None, [])"
| "pbct_loop env dev en g (e # es) w =
     (let (ret, cs) = evaluate_condition_set env dev en g (pb_conditions e) w; e = e\<lparr>pb_conditions := cs\<rparr>
      in if ret = THD_SUCCESS then (Some (pb_target e), e # es)
         else (let (r, es) = pbct_loop env dev en g es w in (r, e # es)))"

definition evaluate_pbct_conditions ::
  "'w thd_env \<Rightarrow> 'w gddv_dev \<Rightarrow> thd_engine \<Rightarrow> cthd_gddv \<Rightarrow> 'w \<Rightarrow> u64 option \<times> cthd_gddv" where
  "evaluate_pbct_conditions env dev en g w =
     (let (r, es) = pbct_loop env dev en g (pbcts g) w in (r, g\<lparr>pbcts := es\<rparr>))"

text \<open>The target of the first set that is met, or \<open>-1\<close>. A set without conditions is met and has no target: \<open>None\<close> is that
  access outside the vector.\<close>

fun conditions_loop ::
  "'w thd_env \<Rightarrow> 'w gddv_dev \<Rightarrow> thd_engine \<Rightarrow> cthd_gddv \<Rightarrow> condition list list \<Rightarrow> 'w \<Rightarrow> int option option \<times> condition list list" where
  "conditions_loop env dev en g [] w = (Some None, [])"
| "conditions_loop env dev en g (cs # css) w =
     (let (ret, cs) = evaluate_condition_set env dev en g cs w
      in if ret = THD_SUCCESS then (case cs of [] \<Rightarrow> None | c # _ \<Rightarrow> Some (Some (cn_target c)), cs # css)
         else (let (r, css) = conditions_loop env dev en g css w in (r, cs # css)))"

definition evaluate_conditions ::
  "'w thd_env \<Rightarrow> 'w gddv_dev \<Rightarrow> thd_engine \<Rightarrow> cthd_gddv \<Rightarrow> 'w \<Rightarrow> (int \<times> cthd_gddv) option" where
  "evaluate_conditions env dev en g w =
     (let (r, css) = conditions_loop env dev en g (conditions g) w; g = g\<lparr>conditions := css\<rparr>
      in case r of None \<Rightarrow> None
         | Some None \<Rightarrow> Some (- 1, g)
         | Some (Some t) \<Rightarrow> Some (t, g\<lparr>current_target_matched := t\<rparr>))"

end
