(* ===== verification/Thd_Conditions_Facts.thy ===== *)
theory Thd_Conditions_Facts
  imports Thd_Conditions Thd_Zone_Facts
begin

text \<open>
  Facts about adaptive conditions: the first set whose conditions all pass is the one that is chosen; a condition with a time
  passes only when it was met at every evaluation since one that is as long ago as it asks; and what the evaluation forgets.
\<close>

section \<open>Sets\<close>

abbreviation passes :: "'w thd_env \<Rightarrow> 'w gddv_dev \<Rightarrow> thd_engine \<Rightarrow> cthd_gddv \<Rightarrow> 'w \<Rightarrow> condition \<Rightarrow> bool" where
  "passes env dev en g w c \<equiv> fst (evaluate_condition env dev en g c w) = 0"

lemma set_passes:
  "fst (evaluate_condition_set env dev en g cs w) = THD_SUCCESS \<longleftrightarrow> (\<forall>c\<in>set cs. passes env dev en g w c)"
  by (induction cs) (auto simp: THD_SUCCESS_def THD_ERROR_def split_beta Let_def)

lemma set_length: "length (snd (evaluate_condition_set env dev en g cs w)) = length cs"
  by (induction cs) (auto simp: split_beta Let_def)

lemma condition_target [simp]: "cn_target (snd (evaluate_condition env dev en g c w)) = cn_target c"
  by (simp add: evaluate_condition_def Let_def)

lemma set_target:
  "cs = c # ds \<Longrightarrow> map_option cn_target (List.find (\<lambda>_. True) (snd (evaluate_condition_set env dev en g cs w))) = Some (cn_target c)"
  by (simp add: split_beta Let_def)

lemma loop_finds:
  "fst (conditions_loop env dev en g css w) =
     (case List.find (\<lambda>cs. \<forall>c\<in>set cs. passes env dev en g w c) css of
        None \<Rightarrow> Some None | Some [] \<Rightarrow> None | Some (c # _) \<Rightarrow> Some (Some (cn_target c)))"
proof (induction css)
  case (Cons cs css)
  show ?case
  proof (cases "\<forall>c\<in>set cs. passes env dev en g w c")
    case True
    then have s: "fst (evaluate_condition_set env dev en g cs w) = THD_SUCCESS" by (simp add: set_passes)
    then show ?thesis using True by (cases cs) (auto simp: split_beta Let_def split: if_splits)
  next
    case False
    then have "fst (evaluate_condition_set env dev en g cs w) \<noteq> THD_SUCCESS" by (simp add: set_passes)
    then show ?thesis using False Cons.IH by (auto simp: split_beta Let_def)
  qed
qed simp

text \<open>C35: of the condition sets of the firmware, the first one whose conditions all pass decides the target, whatever the
  later ones say; without one the target is -1. An empty set that comes first is an access outside its vector.\<close>

theorem first_set_decides:
  "map_option fst (evaluate_conditions env dev en g w) =
     (case List.find (list_all (\<lambda>c. fst (evaluate_condition env dev en g c w) = 0)) (conditions g) of
        None \<Rightarrow> Some (- 1) | Some [] \<Rightarrow> None | Some (c # _) \<Rightarrow> Some (cn_target c))"
  using loop_finds [of env dev en g "conditions g" w]
  by (auto simp: list_all_iff [abs_def] evaluate_conditions_def split_beta Let_def split: option.splits list.splits)

section \<open>Conditions that have to hold for some time\<close>

text \<open>The condition after being evaluated in one world after another.\<close>

definition evaluated :: "'w thd_env \<Rightarrow> 'w gddv_dev \<Rightarrow> thd_engine \<Rightarrow> cthd_gddv \<Rightarrow> 'w list \<Rightarrow> condition \<Rightarrow> condition" where
  "evaluated env dev en g ws c = fold (\<lambda>w c. snd (evaluate_condition env dev en g c w)) ws c"

lemma evaluated_snoc: "evaluated env dev en g (ws @ [w]) c = snd (evaluate_condition env dev en g (evaluated env dev en g ws c) w)"
  by (simp add: evaluated_def)

text \<open>Everything but the entry time stays.\<close>

lemma evaluate_keeps:
  "snd (evaluate_condition env dev en g c w) = c\<lparr>state_entry_time := state_entry_time (snd (evaluate_condition env dev en g c w))\<rparr>"
  by (simp add: evaluate_condition_def Let_def)

lemma evaluated_keeps: "evaluated env dev en g ws c = c\<lparr>state_entry_time := state_entry_time (evaluated env dev en g ws c)\<rparr>"
proof (induction ws rule: rev_induct)
  case (snoc w ws)
  define x where "x = state_entry_time (evaluated env dev en g (ws @ [w]) c)"
  have "evaluated env dev en g (ws @ [w]) c = (evaluated env dev en g ws c)\<lparr>state_entry_time := x\<rparr>"
    unfolding x_def evaluated_snoc by (rule evaluate_keeps)
  also have "\<dots> = c\<lparr>state_entry_time := x\<rparr>" by (subst snoc.IH) simp
  finally show ?case unfolding x_def .
qed (simp add: evaluated_def)

lemma entry_after:
  "cn_condition c \<noteq> Default \<Longrightarrow> state_entry_time (snd (evaluate_condition env dev en g c w)) =
     (if condition_met env dev en g c w \<noteq> 0 then 0
      else if cn_target c = current_target_matched g \<or> cn_time c = 0 then state_entry_time c
      else if state_entry_time c = 0 then te_time env w
      else if compare_time c (te_time env w) = 0 then 0 else state_entry_time c)"
  by (simp add: evaluate_condition_def Let_def)

lemma field_update:
  "cn_condition (c\<lparr>state_entry_time := t\<rparr>) = cn_condition c" "cn_comparison (c\<lparr>state_entry_time := t\<rparr>) = cn_comparison c"
  "cn_argument (c\<lparr>state_entry_time := t\<rparr>) = cn_argument c"
  by simp_all

lemma compare_update: "compare_condition (c\<lparr>state_entry_time := t\<rparr>) v = compare_condition c v"
  by (simp add: compare_condition_def)

lemma temperature_update:
  "evaluate_temperature_condition env en (c\<lparr>state_entry_time := t\<rparr>) w = evaluate_temperature_condition env en c w"
  by (simp add: evaluate_temperature_condition_def compare_update split: option.split)

lemma met_update [simp]: "condition_met env dev en g (c\<lparr>state_entry_time := t\<rparr>) w = condition_met env dev en g c w"
  unfolding condition_met_def Let_def evaluate_os_type_condition_def evaluate_oem_condition_def evaluate_lid_condition_def
    evaluate_ac_condition_def evaluate_battery_condition_def evaluate_workload_condition_def evaluate_platform_type_condition_def
    evaluate_power_slider_condition_def compare_update temperature_update field_update
  by (rule refl)

text \<open>A running entry time is the time of an evaluation since which the condition was met every time.\<close>

lemma entry_since:
  assumes "state_entry_time c = 0" "cn_condition c \<noteq> Default" "state_entry_time (evaluated env dev en g ws c) \<noteq> 0"
  shows "\<exists>before w0 after. ws = before @ w0 # after \<and> te_time env w0 = state_entry_time (evaluated env dev en g ws c) \<and>
    (\<forall>v\<in>set (w0 # after). condition_met env dev en g c v = 0)"
  using assms(3)
proof (induction ws rule: rev_induct)
  case Nil
  then show ?case using assms(1) by (simp add: evaluated_def)
next
  case (snoc w ws)
  define t where "t = state_entry_time (evaluated env dev en g ws c)"
  have t: "evaluated env dev en g ws c = c\<lparr>state_entry_time := t\<rparr>" unfolding t_def by (rule evaluated_keeps)
  have met: "condition_met env dev en g c w = 0" and
    e: "state_entry_time (evaluated env dev en g (ws @ [w]) c) = (if t = 0 then te_time env w else t)"
    using snoc.prems assms(2) entry_after [of "c\<lparr>state_entry_time := t\<rparr>" env dev en g w] unfolding evaluated_snoc t
    by (simp_all split: if_splits)
  show ?case
  proof (cases "t = 0")
    case True
    then show ?thesis using met e by (intro exI [of _ ws] exI [of _ w] exI [of _ "[]"]) simp
  next
    case False
    then obtain before w0 after where "ws = before @ w0 # after" "te_time env w0 = t" "\<forall>v\<in>set (w0 # after). condition_met env dev en g c v = 0"
      using snoc.IH t_def by auto
    then show ?thesis using met e False by (intro exI [of _ before] exI [of _ w0] exI [of _ "after @ [w]"]) auto
  qed
qed

text \<open>A condition whose time counts: it has one, and its target is not the one in force.\<close>

definition timed :: "cthd_gddv \<Rightarrow> condition \<Rightarrow> bool" where
  "timed g c \<longleftrightarrow> cn_condition c \<noteq> Default \<and> cn_time c \<noteq> 0 \<and> cn_target c \<noteq> current_target_matched g"

text \<open>The time that has gone by is as the condition asks: equal to its time, at most, at least, or different.\<close>

definition time_ok :: "condition \<Rightarrow> int \<Rightarrow> bool" where
  "time_ok c elapsed \<longleftrightarrow> (cn_time_comparison c = 1 \<and> elapsed = cn_time c) \<or> (cn_time_comparison c = 2 \<and> elapsed \<le> cn_time c) \<or>
     (cn_time_comparison c = 3 \<and> cn_time c \<le> elapsed) \<or> (cn_time_comparison c = 4 \<and> elapsed \<noteq> cn_time c)"

lemma compare_time_ok: "compare_time c now = 0 \<longleftrightarrow> time_ok c (c_int (now - state_entry_time c))"
  by (simp add: compare_time_def time_ok_def Let_def THD_SUCCESS_def THD_ERROR_def)

lemma timed_passes:
  assumes "timed g c"
  shows "passes env dev en g w c \<longleftrightarrow> condition_met env dev en g c w = 0 \<and> state_entry_time c \<noteq> 0 \<and>
    time_ok c (c_int (te_time env w - state_entry_time c))"
  using assms compare_time_ok [of c "te_time env w"] by (simp add: timed_def evaluate_condition_def Let_def THD_ERROR_def)

lemma untimed_passes:
  assumes "cn_condition c \<noteq> Default" "\<not> timed g c"
  shows "passes env dev en g w c \<longleftrightarrow> condition_met env dev en g c w = 0"
  using assms by (auto simp: timed_def evaluate_condition_def Let_def)

lemma timed_update [simp]: "timed g (c\<lparr>state_entry_time := t\<rparr>) = timed g c"
  by (simp add: timed_def)

lemma time_ok_update [simp]: "time_ok (c\<lparr>state_entry_time := t\<rparr>) = time_ok c"
  by (simp add: time_ok_def fun_eq_iff)

text \<open>C36: When a condition (other than the default one, which always passes) passes, after evaluations in the worlds \<open>ws\<close>
  under one target in force. If it has no time, or if its target is the one in force, it passes exactly when it is
  met now. Otherwise it passes only when there was an evaluation \<open>w0\<close> since which it was met at every
  evaluation, and the time gone by since \<open>w0\<close> compares with the condition's time as the condition asks (for a
  comparison with at least: it was held at least that long). The clock must not have been set back, nor 2^31 seconds
  have gone by.\<close>

theorem held_for_its_time:
  assumes "cn_condition c \<noteq> Default" "state_entry_time c = 0"
    and clock: "\<forall>v\<in>set ws. 0 \<le> te_time env w - te_time env v \<and> te_time env w - te_time env v < 2 ^ 31"
    and "passed = (fst (evaluate_condition env dev en g (evaluated env dev en g ws c) w) = 0)"
  shows "if cn_time c = 0 \<or> cn_target c = current_target_matched g then passed = (condition_met env dev en g c w = 0)
    else passed \<longrightarrow> (\<exists>before w0 after. ws = before @ w0 # after \<and> time_ok c (te_time env w - te_time env w0) \<and>
      (\<forall>v\<in>set (w0 # after @ [w]). condition_met env dev en g c v = 0))"
proof -
  define t where "t = state_entry_time (evaluated env dev en g ws c)"
  have e: "evaluated env dev en g ws c = c\<lparr>state_entry_time := t\<rparr>" unfolding t_def by (rule evaluated_keeps)
  have "\<exists>before w0 after. ws = before @ w0 # after \<and> time_ok c (te_time env w - te_time env w0) \<and>
      (\<forall>v\<in>set (w0 # after @ [w]). condition_met env dev en g c v = 0)" if tm: "timed g c" and p: passed
  proof -
    have met: "condition_met env dev en g c w = 0" and t: "t \<noteq> 0" "time_ok c (c_int (te_time env w - t))"
      using timed_passes [of g "c\<lparr>state_entry_time := t\<rparr>" env dev en w] tm p assms(4) unfolding e by simp_all
    obtain before w0 after where ws: "ws = before @ w0 # after" "te_time env w0 = t"
        "\<forall>v\<in>set (w0 # after). condition_met env dev en g c v = 0"
      using entry_since [of c env dev en g ws] assms(1,2) t(1) unfolding t_def by metis
    have "c_int (te_time env w - t) = te_time env w - te_time env w0"
      using clock ws(1,2) by (auto simp: c_int_id)
    then show ?thesis using ws met t(2) by (intro exI [of _ before] exI [of _ w0] exI [of _ after]) auto
  qed
  moreover have "passed = (condition_met env dev en g c w = 0)" if "\<not> timed g c"
    using untimed_passes [of "c\<lparr>state_entry_time := t\<rparr>" g env dev en w] that assms(1,4) unfolding e by simp
  ultimately show ?thesis using assms(1) by (simp add: timed_def)
qed

text \<open>A laptop whose lid is open and that is in tablet mode exactly while a counter of the system in memory is zero.\<close>

definition mem_dev :: "mem_world gddv_dev" where
  "mem_dev = \<lparr>gd_lid = (\<lambda>w. int (mw_offs w)), gd_tablet = (\<lambda>w. if mw_offs w = 0 then 1 else 0), gd_on_battery = (\<lambda>_ _. False),
     gd_devices = (\<lambda>_. None)\<rparr>"

definition mem_gddv :: cthd_gddv where
  "mem_gddv = cthd_gddv_new\<lparr>lid_dev := True, tablet_dev := True\<rparr>"

definition at_time :: "int \<Rightarrow> nat \<Rightarrow> mem_world" where
  "at_time t n = empty_world\<lparr>mw_time := t, mw_offs := n\<rparr>"

definition lid_open :: condition where
  "lid_open = (condition_new 5)\<lparr>cn_condition := Lid_state, cn_comparison := 1, cn_argument := 1\<rparr>"

definition tablet_for_10 :: condition where
  "tablet_for_10 = (condition_new 5)\<lparr>cn_condition := Platform_type, cn_comparison := 1, cn_argument := 2, cn_operation := FOR,
     cn_time_comparison := 3, cn_time := 10\<rparr>"

lemmas mem_conditions = mem_dev_def mem_gddv_def cthd_gddv_new_def at_time_def lid_open_def tablet_for_10_def condition_new_def empty_world_def
  mem_env_def evaluated_def evaluate_condition_def condition_met_def is_oem_def is_temperature_def kind_defs compare_condition_def compare_time_def
  evaluate_platform_type_condition_def evaluate_lid_condition_def THD_SUCCESS_def THD_ERROR_def c_int_def FOR_def time_ok_def

lemma held_for_its_time_witness:
  "(\<exists>before w0 after. [at_time 1 0] = before @ w0 # after \<and> 10 \<le> 11 - mw_time w0 \<and>
    (\<forall>v\<in>set (w0 # after @ [at_time 11 0]). condition_met mem_env mem_dev idle_core mem_gddv tablet_for_10 v = 0)) \<and>
   fst (evaluate_condition mem_env mem_dev idle_core (mem_gddv\<lparr>current_target_matched := 5\<rparr>) tablet_for_10 (at_time 1 0)) = 0"
proof -
  have t: "te_time mem_env = mw_time" "mw_time (at_time n k) = n" "cn_time tablet_for_10 = 10" "cn_target tablet_for_10 = 5"
    "cn_condition tablet_for_10 \<noteq> Default" "state_entry_time tablet_for_10 = 0" "cn_time_comparison tablet_for_10 = 3"
    "current_target_matched mem_gddv \<noteq> 5" for n k
    by (simp_all add: mem_env_def at_time_def tablet_for_10_def condition_new_def kind_defs mem_gddv_def cthd_gddv_new_def c_int_def)
  have e: "evaluated mem_env mem_dev idle_core g [] tablet_for_10 = tablet_for_10" for g by (simp add: evaluated_def)
  have p: "fst (evaluate_condition mem_env mem_dev idle_core mem_gddv
      (evaluated mem_env mem_dev idle_core mem_gddv [at_time 1 0] tablet_for_10) (at_time 11 0)) = 0"
    "condition_met mem_env mem_dev idle_core (mem_gddv\<lparr>current_target_matched := 5\<rparr>) tablet_for_10 (at_time 1 0) = 0"
    by (simp_all add: mem_conditions)
  show ?thesis
    using held_for_its_time [OF t(5,6) _ refl, where ws = "[at_time 1 0]" and env = mem_env and w = "at_time 11 0" and dev = mem_dev and en = idle_core and g = mem_gddv]
      held_for_its_time [OF t(5,6) _ refl, where ws = "[]" and env = mem_env and w = "at_time 1 0" and dev = mem_dev and en = idle_core
        and g = "mem_gddv\<lparr>current_target_matched := 5\<rparr>"]
      p t e by (simp add: time_ok_def)
qed

text \<open>And it does pass when the time is right, unless it passed before.\<close>

lemma passes_when_held:
  assumes "timed g c" "state_entry_time c = 0" "te_time env w0 \<noteq> 0"
    and met: "\<forall>v\<in>set (w0 # ws @ [w]). condition_met env dev en g c v = 0"
    and clock: "\<forall>v\<in>set ws. \<not> time_ok c (c_int (te_time env v - te_time env w0))"
  shows "passes env dev en g w (evaluated env dev en g (w0 # ws) c) \<longleftrightarrow> time_ok c (c_int (te_time env w - te_time env w0))"
proof -
  have "state_entry_time (evaluated env dev en g (w0 # us) c) = te_time env w0" if "set us \<subseteq> set ws" for us
    using that
  proof (induction us rule: rev_induct)
    case Nil
    then show ?case using assms(1-4) entry_after [of c env dev en g w0] by (simp add: evaluated_def timed_def)
  next
    case (snoc u us)
    let ?c = "c\<lparr>state_entry_time := te_time env w0\<rparr>"
    have e: "evaluated env dev en g (w0 # us) c = ?c" using evaluated_keeps [of env dev en g "w0 # us" c] snoc by simp
    have "compare_time ?c (te_time env u) \<noteq> 0"
      using clock snoc.prems by (auto simp: compare_time_ok)
    then show ?case
      using entry_after [of ?c env dev en g u] assms(1,3) met snoc.prems evaluated_snoc [of env dev en g "w0 # us" u c]
      unfolding e by (auto simp: timed_def)
  qed
  then have "evaluated env dev en g (w0 # ws) c = c\<lparr>state_entry_time := te_time env w0\<rparr>"
    using evaluated_keeps [of env dev en g "w0 # ws" c] by simp
  then show ?thesis using timed_passes [of g "c\<lparr>state_entry_time := te_time env w0\<rparr>" env dev en w] assms(1,3) met by simp
qed

text \<open>But a condition behind one that fails is not evaluated, so its time runs on even when it is not met.\<close>

lemma timer_not_stopped:
  "fst (evaluate_condition env dev en g c w) \<noteq> 0 \<Longrightarrow>
   evaluate_condition_set env dev en g (c # cs) w = (THD_ERROR, snd (evaluate_condition env dev en g c w) # cs)"
  by (simp add: split_beta Let_def)

text \<open>The lid has to be open and tablet mode to have lasted ten seconds. Both are given at second 1, neither at second 5, and at
  second 11 the set passes.\<close>

lemma gap_not_noticed:
  "fst (evaluate_condition_set mem_env mem_dev en mem_gddv
     (fold (\<lambda>w cs. snd (evaluate_condition_set mem_env mem_dev en mem_gddv cs w)) [at_time 1 0, at_time 5 1] [lid_open, tablet_for_10])
     (at_time 11 0)) = THD_SUCCESS"
  "condition_met mem_env mem_dev en mem_gddv tablet_for_10 (at_time 5 1) \<noteq> 0"
  by (simp_all add: mem_conditions)

section \<open>What is supported\<close>

text \<open>Two kinds are evaluated although they are reported as unsupported.\<close>

lemma supported_but_refused:
  "cn_condition c = Motion \<Longrightarrow> verify_condition g c = THD_ERROR"
  "cn_condition c = Motion \<Longrightarrow> cn_argument c = 0 \<Longrightarrow> cn_time c = 0 \<Longrightarrow> fst (evaluate_condition env dev en g c w) = 0"
  by (simp_all add: verify_condition_def evaluate_condition_def condition_met_def is_oem_def is_temperature_def kind_defs Let_def
      THD_SUCCESS_def THD_ERROR_def)

end
