(* ===== verification/Thd_Adaptive.thy ===== *)
theory Thd_Adaptive
  imports Thd_Conditions
begin

text \<open>
  The adaptive engine (\<^verbatim>\<open>thd_engine_adaptive.cpp\<close>, \<^verbatim>\<open>thd_engine_adaptive.h\<close>): it evaluates the firmware's conditions, installs the
  passive policies of the target that is met as trips of the zones, and adds the trips of the laptop's embedded controller. Zones
  and devices are positions in the engine's lists. \<open>stof\<close> is the C++ function, \<open>None\<close> its exception.
\<close>

text \<open>How an operation ends: with a result, with the end of the process, or in undefined behaviour.\<close>

datatype ('a, 'w) outcome = Done 'a 'w | Stopped 'w | Undef

definition obind :: "('a, 'w) outcome \<Rightarrow> ('a \<Rightarrow> 'w \<Rightarrow> ('b, 'w) outcome) \<Rightarrow> ('b, 'w) outcome" where
  "obind r f = (case r of Done x w \<Rightarrow> f x w | Stopped w \<Rightarrow> Stopped w | Undef \<Rightarrow> Undef)"

fun ofold :: "('x \<Rightarrow> 'a \<Rightarrow> 'w \<Rightarrow> ('a, 'w) outcome) \<Rightarrow> 'x list \<Rightarrow> 'a \<Rightarrow> 'w \<Rightarrow> ('a, 'w) outcome" where
  "ofold f [] a w = Done a w"
| "ofold f (x # xs) a w = obind (f x a w) (ofold f xs)"

record cthd_engine_adaptive =
  ae :: cthd_engine
  gddv :: cthd_gddv
  policy_active :: bool
  fallback_id :: int
  int3400_path :: string
  passive_def_only :: bool
  int3400_installed :: bool
  current_matched_target :: int

definition cthd_engine_adaptive_new :: "cthd_engine \<Rightarrow> cthd_engine_adaptive" where
  "cthd_engine_adaptive_new e = \<lparr>ae = e, gddv = cthd_gddv_new, policy_active = False, fallback_id = - 1, int3400_path = [],
     passive_def_only = False, int3400_installed = False, current_matched_target = - 1\<rparr>"

definition MINIBOOK_SEN3_TRIP_TEMP :: int where "MINIBOOK_SEN3_TRIP_TEMP = 50000"
definition MINIBOOK_PPCC_PL1_MIN :: int where "MINIBOOK_PPCC_PL1_MIN = 8000"
definition MINIBOOK_PPCC_PL1_MAX :: int where "MINIBOOK_PPCC_PL1_MAX = 17000"
definition MINIBOOK_PPCC_STEP_SIZE :: int where "MINIBOOK_PPCC_STEP_SIZE = 500"
definition MINIBOOK_SOC_ZONE :: string where "MINIBOOK_SOC_ZONE = ''minibook_soc''"
definition MINIBOOK_CHARGER_ZONE :: string where "MINIBOOK_CHARGER_ZONE = ''minibook_charger''"
definition MINIBOOK_SOC_TRIP_TEMP :: u32 where "MINIBOOK_SOC_TRIP_TEMP = 80000"
definition MINIBOOK_CHARGER_TRIP_TEMP :: u32 where "MINIBOOK_CHARGER_TRIP_TEMP = 60000"
definition DEFAULT_SAMPLE_TIME_SEC :: int where "DEFAULT_SAMPLE_TIME_SEC = 5"
definition itmt_hyst :: u32 where "itmt_hyst = 2000"
definition default_influence :: int where "default_influence = 0"

text \<open>Limits whose range is empty are replaced, in the table itself.\<close>

definition ppcc_override :: "ppcc_t \<Rightarrow> ppcc_t" where
  "ppcc_override p = (if power_limit_max p \<le> power_limit_min p
     then p\<lparr>power_limit_min := MINIBOOK_PPCC_PL1_MIN, power_limit_max := MINIBOOK_PPCC_PL1_MAX, step_size := MINIBOOK_PPCC_STEP_SIZE\<rparr> else p)"

definition get_ppcc_param :: "string \<Rightarrow> cthd_gddv \<Rightarrow> ppcc_t option \<times> cthd_gddv" where
  "get_ppcc_param name g = (case gddv_get_ppcc_param name g of None \<Rightarrow> (None, g)
     | Some p \<Rightarrow> (Some (ppcc_override p), g\<lparr>ppccs := update_first (\<lambda>p. ppcc_name p = name) ppcc_override (ppccs g)\<rparr>))"

section \<open>Names\<close>

text \<open>The name of a participant without its path and trailing underscores; \<open>None\<close> when nothing else is left, where the source
  looks before the start of the string.\<close>

definition participant_name :: "string \<Rightarrow> string option" where
  "participant_name s = (let n = rev (dropWhile (\<lambda>c. c = CHR ''_'') (rev (last_component s))) in if n = [] then None else Some n)"

text \<open>The processor's zone has one of two names. The result is the name under which it was found.\<close>

definition find_zone :: "string \<Rightarrow> cthd_engine \<Rightarrow> (string \<times> nat) option" where
  "find_zone n g = (case search_zone n g of Some i \<Rightarrow> Some (n, i)
     | None \<Rightarrow>
       (let tcpu = (if compares n 4 ''B0D4'' then search_zone ''TCPU'' g else None); n = (if compares n 4 ''B0D4'' then ''TCPU'' else n)
        in case tcpu of Some i \<Rightarrow> Some (n, i)
           | None \<Rightarrow> if compares n 4 ''TCPU'' then map_option (Pair ''B0D4'') (search_zone ''B0D4'' g) else None))"

definition find_cdev :: "string \<Rightarrow> cthd_engine \<Rightarrow> nat option" where
  "find_cdev n g = (case search_cdev n (en_core g) of Some i \<Rightarrow> Some i
     | None \<Rightarrow> if compares n 4 ''TCPU'' then search_cdev ''B0D4'' (en_core g) else None)"

definition limit_state :: "string \<Rightarrow> int" where
  "limit_state s = (if s = [] then 0
     else if map to_lower (take 3 s) = ''max'' then TRIP_PT_INVALID_TARGET_STATE
     else if map to_lower (take 3 s) = ''min'' then 0
     else c_int (istream_int s 0 * 1000))"

section \<open>Installing trips\<close>

definition put_trip :: "'w thd_env \<Rightarrow> cthd_trip_point \<Rightarrow> nat \<Rightarrow> cthd_engine \<Rightarrow> 'w \<Rightarrow> cthd_engine \<times> 'w" where
  "put_trip env trip i g w =
     (let (z, w) = add_trip env trip True (zones g ! i) (en_core g) w in (g\<lparr>zones := (zones g)[i := z]\<rparr>, w))"

definition activate_zone :: "nat \<Rightarrow> cthd_engine \<Rightarrow> cthd_engine" where
  "activate_zone i g = g\<lparr>zones := (zones g)[i := (zones g ! i)\<lparr>zone_cdev_binded_status := True, zone_active := True\<rparr>]\<rparr>"

definition psv_trip_temp :: "string \<Rightarrow> int \<Rightarrow> int" where
  "psv_trip_temp zone deci_kelvin =
     (let temp = deci_kelvin_to_celsius deci_kelvin * 1000
      in if strstr_found zone ''SEN3'' \<and> MINIBOOK_SEN3_TRIP_TEMP < temp then MINIBOOK_SEN3_TRIP_TEMP else temp)"

definition new_zone_trip :: "nat \<Rightarrow> u32 \<Rightarrow> u32 \<Rightarrow> nat \<Rightarrow> cthd_engine \<Rightarrow> cthd_trip_point" where
  "new_zone_trip i temp hyst s g = cthd_trip_point_new (int (length (trip_points (zones g ! i)))) PASSIVE temp hyst (zn_index (zones g ! i))
     (se_index (en_sensors (en_core g) ! s)) SEQUENTIAL"

definition install_passive :: "'w thd_env \<Rightarrow> psv \<Rightarrow> cthd_engine \<Rightarrow> 'w \<Rightarrow> (cthd_engine, 'w) outcome" where
  "install_passive env p g w = (case participant_name (psv_target p) of None \<Rightarrow> Undef
     | Some n \<Rightarrow> (case find_zone n g of None \<Rightarrow> Done g w
       | Some (zone, i) \<Rightarrow> (case participant_name (psv_source p) of None \<Rightarrow> Undef
         | Some cn \<Rightarrow> (case find_cdev cn g of None \<Rightarrow> Done g w
           | Some cdev \<Rightarrow> (case search_sensor zone (en_core g) of None \<Rightarrow> Done g w
             | Some s \<Rightarrow>
                (let ts = limit_state (psv_limit p);
                     trip = thd_trip_point_add_cdev (cdev_type_of (en_core g)) cdev default_influence (c_div (psv_sample_period p) 10)
                       (ts \<noteq> 0) ts None False 0 0 (new_zone_trip i (of_int (psv_trip_temp zone (psv_temp p))) 0 s g);
                     (g, w) = put_trip env trip i g w
                 in Done (activate_zone i g) w))))))"

definition install_itmt :: "'w thd_env \<Rightarrow> itmt_entry \<Rightarrow> cthd_engine \<Rightarrow> 'w \<Rightarrow> (cthd_engine, 'w) outcome" where
  "install_itmt env e g w = (case participant_name (it_target e) of None \<Rightarrow> Undef
     | Some n \<Rightarrow> (case find_zone n g of None \<Rightarrow> Done g w
       | Some (zone, i) \<Rightarrow> (case search_cdev ''rapl_controller_mmio'' (en_core g) of None \<Rightarrow> Done g w
         | Some cdev \<Rightarrow> (case search_sensor zone (en_core g) of None \<Rightarrow> Done g w
           | Some s \<Rightarrow>
              (let trip = thd_trip_point_add_cdev (cdev_type_of (en_core g)) cdev default_influence DEFAULT_SAMPLE_TIME_SEC False 0 None True
                     (limit_state (pl1_max e)) (limit_state (pl1_min e)) (new_zone_trip i (of_int ((trip_point e - 2732) * 100)) itmt_hyst s g);
                   (g, w) = put_trip env trip i g w
               in Done (activate_zone i g) w)))))"

text \<open>The argument is the trip's new temperature in degrees.\<close>

definition set_trip :: "(string \<Rightarrow> f32 option) \<Rightarrow> string \<Rightarrow> string \<Rightarrow> cthd_engine \<Rightarrow> 'w \<Rightarrow> (cthd_engine, 'w) outcome" where
  "set_trip stof target arg g w = (case stof arg of None \<Rightarrow> Stopped w
     | Some ft \<Rightarrow> (case participant_name target of None \<Rightarrow> Undef
       | Some n \<Rightarrow> (case search_zone n g of None \<Rightarrow> Done g w
         | Some i \<Rightarrow> Done (g\<lparr>zones := (zones g)[i := (zones g ! i)\<lparr>trip_points := update_first (\<lambda>t. tp_type t = PASSIVE)
             (\<lambda>t. t\<lparr>tp_temp := of_int (f2i (ft * fint 1000))\<rparr>) (trip_points (zones g ! i))\<rparr>]\<rparr>) w)))"

section \<open>Consolidation\<close>

definition is_target_valid :: "cthd_trip_point \<Rightarrow> int option" where
  "is_target_valid t = map_option target_state (List.find target_state_valid (tp_cdevs t))"

definition get_first_cdev :: "cthd_trip_point \<Rightarrow> nat option" where
  "get_first_cdev t = (case tp_cdevs t of [] \<Rightarrow> None | c # _ \<Rightarrow> Some (tc_cdev c))"

definition set_first_target_invalid :: "cthd_trip_point \<Rightarrow> cthd_trip_point" where
  "set_first_target_invalid t = (case tp_cdevs t of [] \<Rightarrow> t | c # cs \<Rightarrow> t\<lparr>tp_cdevs := c\<lparr>target_state_valid := False\<rparr> # cs\<rparr>)"

definition set_first_target :: "int \<Rightarrow> cthd_trip_point \<Rightarrow> cthd_trip_point" where
  "set_first_target s t = (case tp_cdevs t of [] \<Rightarrow> t
     | c # cs \<Rightarrow> t\<lparr>tp_cdevs := c\<lparr>target_state_valid := True, target_state := s\<rparr> # cs\<rparr>)"

text \<open>A trip to the maximum loses its target and moves up by a degree, or meets the next trip of the same device half way.\<close>

definition raise_trip :: "cthd_trip_point \<Rightarrow> cthd_trip_point" where
  "raise_trip t = (set_first_target_invalid t)\<lparr>tp_temp := tp_temp t + 1000\<rparr>"

definition consolidate_trip :: "thd_engine \<Rightarrow> cthd_trip_point \<Rightarrow> cthd_trip_point list \<Rightarrow> cthd_trip_point" where
  "consolidate_trip en t rest =
     (if is_target_valid t \<noteq> Some TRIP_PT_INVALID_TARGET_STATE then t
      else (case rest of [] \<Rightarrow> raise_trip t
        | nxt # _ \<Rightarrow> (case get_first_cdev nxt of None \<Rightarrow> raise_trip t
          | Some c \<Rightarrow> (case is_target_valid nxt of
              Some ns \<Rightarrow> if tp_sensor_id t = tp_sensor_id nxt \<and> get_first_cdev t = Some c
                then (set_first_target (c_div (c_int (min_state (en_cdevs en ! c) + ns)) 2) t)\<lparr>tp_temp := (tp_temp nxt + tp_temp t) div 2\<rparr>
                else raise_trip t
            | None \<Rightarrow> raise_trip t))))"

fun consolidate_loop :: "thd_engine \<Rightarrow> cthd_trip_point list \<Rightarrow> cthd_trip_point list" where
  "consolidate_loop en [] = []"
| "consolidate_loop en (t # ts) = consolidate_trip en t ts # consolidate_loop en ts"

definition consolidate_zone :: "'w thd_env \<Rightarrow> cthd_zone \<Rightarrow> thd_engine \<Rightarrow> 'w \<Rightarrow> cthd_zone \<times> thd_engine \<times> 'w" where
  "consolidate_zone env z en w =
     (case trip_points z of
        [t, _] \<Rightarrow>
          (case (is_target_valid t, get_first_cdev t) of
             (Some _, Some c) \<Rightarrow>
               (let trip = thd_trip_point_add_cdev (cdev_type_of en) c default_influence 0 False TRIP_PT_INVALID_TARGET_STATE None False 0 0
                      (cthd_trip_point_new 1 PASSIVE (tp_temp t + 1000) 0 (zn_index z) (tp_sensor_id t) SEQUENTIAL);
                    (z, w) = add_trip env trip True z en w
                in (z, en, w))
           | _ \<Rightarrow> (z\<lparr>trip_points := consolidate_loop en (trip_points z)\<rparr>, en, w))
      | _ \<Rightarrow> (z\<lparr>trip_points := consolidate_loop en (trip_points z)\<rparr>, en, w))"

definition psvt_consolidate :: "'w thd_env \<Rightarrow> cthd_engine \<Rightarrow> 'w \<Rightarrow> cthd_engine \<times> 'w" where
  "psvt_consolidate env g w = for_zones (consolidate_zone env) g w"

section \<open>Trips of the embedded controller\<close>

definition ec_zones :: "(string \<times> u32) list" where
  "ec_zones = [(MINIBOOK_SOC_ZONE, MINIBOOK_SOC_TRIP_TEMP), (MINIBOOK_CHARGER_ZONE, MINIBOOK_CHARGER_TRIP_TEMP)]"

definition ec_trip :: "nat \<Rightarrow> nat \<Rightarrow> nat \<Rightarrow> u32 \<Rightarrow> cthd_engine \<Rightarrow> cthd_trip_point" where
  "ec_trip cdev i s temp g = thd_trip_point_add_cdev (cdev_type_of (en_core g)) cdev default_influence DEFAULT_SAMPLE_TIME_SEC False 0 None False 0 0
     (new_zone_trip i temp 0 s g)"

definition install_ec_zone :: "'w thd_env \<Rightarrow> nat \<Rightarrow> string \<times> u32 \<Rightarrow> cthd_engine \<times> 'w \<Rightarrow> cthd_engine \<times> 'w" where
  "install_ec_zone env cdev mz s = (let (g, w) = s in
     case search_zone (fst mz) g of None \<Rightarrow> (g, w)
     | Some i \<Rightarrow> (case search_sensor (fst mz) (en_core g) of None \<Rightarrow> (g, w)
       | Some sensor \<Rightarrow>
          (let (g, w) = put_trip env (ec_trip cdev i sensor (snd mz) g) i g w;
               (g, w) = put_trip env (ec_trip cdev i sensor (snd mz + 1000) g) i g w
           in (activate_zone i g, w))))"

definition install_minibook_ec_zones :: "'w thd_env \<Rightarrow> cthd_engine \<Rightarrow> 'w \<Rightarrow> cthd_engine \<times> 'w" where
  "install_minibook_ec_zones env g w =
     (case (case search_cdev ''rapl_controller_mmio'' (en_core g) of Some c \<Rightarrow> Some c | None \<Rightarrow> search_cdev ''rapl_controller'' (en_core g)) of
        None \<Rightarrow> (g, w)
      | Some cdev \<Rightarrow> fold (install_ec_zone env cdev) ec_zones (g, w))"

section \<open>Targets\<close>

definition plot_zone :: "cthd_zone \<Rightarrow> bool" where
  "plot_zone z \<longleftrightarrow> zn_type_str z = ''rapl_pkg_power'' \<or> zn_type_str z = ''power_floor''"

text \<open>A zone's trips are undone and deleted, unless it is kept.\<close>

definition clear_zone :: "'w thd_env \<Rightarrow> (cthd_zone \<Rightarrow> bool) \<Rightarrow> cthd_zone \<Rightarrow> thd_engine \<Rightarrow> 'w \<Rightarrow> cthd_zone \<times> thd_engine \<times> 'w" where
  "clear_zone env keep z en w =
     (if keep z then (z, en, w)
      else (let (en, w) = zone_reset env True z en w in (z\<lparr>trip_points := [], zone_active := False\<rparr>, en, w)))"

text \<open>Whether a table was found.\<close>

definition set_itmt_target ::
  "'w thd_env \<Rightarrow> bool \<Rightarrow> adaptive_target \<Rightarrow> cthd_engine_adaptive \<Rightarrow> 'w \<Rightarrow> (bool \<times> cthd_engine_adaptive, 'w) outcome" where
  "set_itmt_target env debug t a w = (case find_itmt (at_argument t) (gddv a) of None \<Rightarrow> Done (False, a) w
     | Some it \<Rightarrow>
        (let (g, w) = (if int3400_installed a then (ae a, w) else for_zones (clear_zone env (\<lambda>z. debug \<and> plot_zone z)) (ae a) w)
         in obind (ofold (install_itmt env) (itmt_entries it) g w) (\<lambda>g w. Done (True, a\<lparr>ae := g\<rparr>) w)))"

definition set_psvt_target ::
  "'w thd_env \<Rightarrow> psvt \<Rightarrow> cthd_engine_adaptive \<Rightarrow> 'w \<Rightarrow> (cthd_engine_adaptive, 'w) outcome" where
  "set_psvt_target env p a w =
     (let (g, w) = (if int3400_installed a then (ae a, w) else for_zones (clear_zone env plot_zone) (ae a) w)
      in obind (ofold (install_passive env) (psvs p) g w) (\<lambda>g w. Done (a\<lparr>ae := g, int3400_installed := True\<rparr>) w))"

text \<open>What follows a table in either case. Without an active zone the daemon leaves a note and ends.\<close>

definition finish_target ::
  "'w thd_env \<Rightarrow> (string \<Rightarrow> f32 option) \<Rightarrow> adaptive_target \<Rightarrow> cthd_engine_adaptive \<Rightarrow> 'w \<Rightarrow> (cthd_engine_adaptive, 'w) outcome" where
  "finish_target env stof t a w =
     (let (g, w) = psvt_consolidate env (ae a) w; (g, w) = install_minibook_ec_zones env g w
      in if \<not> list_ex zone_active (zones g) then Stopped (ostream_or_skip env ''/tmp/ignore_adaptive'' [] w)
         else if at_code t = ''PSV'' then obind (set_trip stof (at_participant t) (at_argument t) g w) (\<lambda>g w. Done (a\<lparr>ae := g\<rparr>) w)
         else Done (a\<lparr>ae := g\<rparr>) w)"

definition set_int3400_target ::
  "'w thd_env \<Rightarrow> (string \<Rightarrow> f32 option) \<Rightarrow> bool \<Rightarrow> adaptive_target \<Rightarrow> cthd_engine_adaptive \<Rightarrow> 'w \<Rightarrow> (cthd_engine_adaptive, 'w) outcome" where
  "set_int3400_target env stof debug t a w =
     obind (if at_code t = ''ITMT'' \<or> at_code t = ''ITMT3''
            then obind (set_itmt_target env debug t a w) (\<lambda>(found, a) w. Done (if found then a\<lparr>int3400_installed := True\<rparr> else a) w)
            else Done a w)
       (\<lambda>a w. if at_code t = ''PSVT''
          then (case find_psvt (at_argument t) (gddv a) of None \<Rightarrow> Done a w
            | Some p \<Rightarrow> obind (set_psvt_target env p a w) (finish_target env stof t))
          else finish_target env stof t a w)"

definition install_passive_default :: "'w thd_env \<Rightarrow> cthd_engine_adaptive \<Rightarrow> 'w \<Rightarrow> (cthd_engine_adaptive, 'w) outcome" where
  "install_passive_default env a w =
     (let (g, w) = for_zones (clear_zone env (\<lambda>_. False)) (ae a) w
      in case find_def_psvt (gddv a) of None \<Rightarrow> Done (a\<lparr>ae := g\<rparr>) w
         | Some p \<Rightarrow> obind (ofold (install_passive env) (psvs p) g w)
             (\<lambda>g w. let (g, w) = psvt_consolidate env g w; (g, w) = install_minibook_ec_zones env g w in Done (a\<lparr>ae := g\<rparr>) w))"

text \<open>\<^verbatim>\<open>cdev->set_adaptive_target\<close>; only a RAPL device does anything. A text that is no number is an exception nobody catches.\<close>

definition cdev_adaptive_target :: "'w thd_env \<Rightarrow> adaptive_target \<Rightarrow> nat \<Rightarrow> cthd_engine \<Rightarrow> 'w \<Rightarrow> (cthd_engine, 'w) outcome" where
  "cdev_adaptive_target env t i g w =
     (let en = en_core g; c = en_cdevs en ! i
      in case cd_class c of
           Cdev_rapl r \<Rightarrow> (case rapl_set_adaptive_target env t c r w of None \<Rightarrow> Stopped w
             | Some (c, r, w) \<Rightarrow> Done (g\<lparr>en_core := en\<lparr>en_cdevs := (en_cdevs en)[i := c\<lparr>cd_class := Cdev_rapl r\<rparr>]\<rparr>\<rparr>) w)
         | _ \<Rightarrow> Done g w)"

definition execute_target ::
  "'w thd_env \<Rightarrow> (string \<Rightarrow> f32 option) \<Rightarrow> bool \<Rightarrow> adaptive_target \<Rightarrow> cthd_engine_adaptive \<Rightarrow> 'w \<Rightarrow> (cthd_engine_adaptive, 'w) outcome" where
  "execute_target env stof debug t a w =
     (let cdev = find_cdev (last_component (at_participant t)) (ae a)
      in if cdev = None \<and> at_participant t = int3400_path a \<or> at_code t = ''PSVT'' then set_int3400_target env stof debug t a w
         else if stoi (at_argument t) = None then Done a w
         else (case cdev of None \<Rightarrow> Done a w
           | Some i \<Rightarrow> obind (cdev_adaptive_target env t i (ae a) w) (\<lambda>g w. Done (a\<lparr>ae := g\<rparr>) w)))"

text \<open>All entries of the action table with an identifier, which is compared as 64 bits.\<close>

definition execute_targets ::
  "'w thd_env \<Rightarrow> (string \<Rightarrow> f32 option) \<Rightarrow> bool \<Rightarrow> u64 \<Rightarrow> cthd_engine_adaptive \<Rightarrow> 'w \<Rightarrow> (cthd_engine_adaptive, 'w) outcome" where
  "execute_targets env stof debug i a w = ofold (execute_target env stof debug) (filter (\<lambda>t. target_id t = i) (targets (gddv a))) a w"

definition exec_fallback_target ::
  "'w thd_env \<Rightarrow> (string \<Rightarrow> f32 option) \<Rightarrow> bool \<Rightarrow> int \<Rightarrow> cthd_engine_adaptive \<Rightarrow> 'w \<Rightarrow> (cthd_engine_adaptive, 'w) outcome" where
  "exec_fallback_target env stof debug target a w =
     execute_targets env stof debug (of_int target) (a\<lparr>int3400_installed := False\<rparr>) w"

section \<open>Polling\<close>

definition apply_pbat :: "'w thd_env \<Rightarrow> adaptive_target \<Rightarrow> cthd_engine \<Rightarrow> 'w \<Rightarrow> (cthd_engine, 'w) outcome" where
  "apply_pbat env t g w =
     (case search_cdev (if strstr_found (at_participant t) ''TCPU'' then ''rapl_controller_mmio'' else at_participant t) (en_core g) of
        None \<Rightarrow> Done g w | Some i \<Rightarrow> cdev_adaptive_target env t i g w)"

definition adaptive_update_power_policies ::
  "'w thd_env \<Rightarrow> 'w gddv_dev \<Rightarrow> cthd_engine_adaptive \<Rightarrow> 'w \<Rightarrow> (cthd_engine_adaptive, 'w) outcome" where
  "adaptive_update_power_policies env dev a w =
     (let (r, gd) = evaluate_pbct_conditions env dev (en_core (ae a)) (gddv a) w; a = a\<lparr>gddv := gd\<rparr>
      in case r of None \<Rightarrow> Done a w
         | Some i \<Rightarrow> obind (ofold (apply_pbat env) (filter (\<lambda>t. target_id t = i) (pbats gd)) (ae a) w) (\<lambda>g w. Done (a\<lparr>ae := g\<rparr>) w))"

definition install_target ::
  "'w thd_env \<Rightarrow> (string \<Rightarrow> f32 option) \<Rightarrow> bool \<Rightarrow> int \<Rightarrow> cthd_engine_adaptive \<Rightarrow> 'w \<Rightarrow> (cthd_engine_adaptive, 'w) outcome" where
  "install_target env stof debug target a w =
     (let a = a\<lparr>int3400_installed := False\<rparr>
      in obind (if 0 < target
                then obind (execute_targets env stof debug (of_int target) a w) (\<lambda>a w. Done (a\<lparr>policy_active := True\<rparr>) w)
                else Done a w)
           (\<lambda>a w. if int3400_installed a then Done a w else install_passive_default env a w))"

definition adaptive_update_engine_state ::
  "'w thd_env \<Rightarrow> (string \<Rightarrow> f32 option) \<Rightarrow> bool \<Rightarrow> 'w gddv_dev \<Rightarrow> cthd_engine_adaptive \<Rightarrow> 'w \<Rightarrow> (cthd_engine_adaptive, 'w) outcome" where
  "adaptive_update_engine_state env stof debug dev a w =
     (if passive_def_only a then Done a w
      else (case (if fallback_id a < 0 then evaluate_conditions env dev (en_core (ae a)) (gddv a) w else Some (- 1, gddv a)) of
              None \<Rightarrow> Undef
            | Some (target, gd) \<Rightarrow>
                (let a = a\<lparr>gddv := gd\<rparr>
                 in if current_matched_target a = target then Done a w
                    else (let a = a\<lparr>current_matched_target := target\<rparr>
                      in if target = - 1 \<and> 0 \<le> fallback_id a \<and> \<not> policy_active a
                         then (if int (length (targets gd)) \<le> fallback_id a then Undef
                               else obind (exec_fallback_target env stof debug (c_int (uint (target_id (targets gd ! nat (fallback_id a))))) a w)
                                 (\<lambda>a w. Done (a\<lparr>policy_active := True\<rparr>) w))
                         else install_target env stof debug target a w))))"

section \<open>Start\<close>

definition dptf_required_devices :: "string list" where
  "dptf_required_devices = [''INTC1049:00'', ''INTC1060:00'', ''INTC1061:00'']"

text \<open>Whether every device is there and active; if not, the daemon ends.\<close>

definition verify_dptf_participants :: "'w thd_env \<Rightarrow> 'w \<Rightarrow> bool" where
  "verify_dptf_participants env w = list_all (\<lambda>d.
     let (ret, status) = sysfs_read_int env (''/sys/bus/acpi/devices/'' @ d @ ''/'') ''status'' 0 w in 0 \<le> ret \<and> status \<noteq> 0) dptf_required_devices"

definition MINIBOOK_RAPL_PL1_SYSFS :: string where
  "MINIBOOK_RAPL_PL1_SYSFS = ''/sys/class/powercap/intel-rapl:0/constraint_0_power_limit_uw''"

text \<open>The limit is written back as it was read, to see whether it can be written.\<close>

definition verify_rapl_control :: "'w thd_env \<Rightarrow> 'w \<Rightarrow> 'w" where
  "verify_rapl_control env w =
     (if \<not> sysfs_exists env [] MINIBOOK_RAPL_PL1_SYSFS w then w
      else (let (ret, pl1) = sysfs_read_int env [] MINIBOOK_RAPL_PL1_SYSFS 0 w
        in if ret \<le> 0 then w else snd (sysfs_write_int env [] MINIBOOK_RAPL_PL1_SYSFS (uint (of_int pl1 :: u32)) w)))"

text \<open>\<^verbatim>\<open>thd_engine_start\<close> up to the call of the base class; the flag says whether that call is made.\<close>

definition start_check ::
  "'w thd_env \<Rightarrow> 'w gddv_dev \<Rightarrow> cthd_engine_adaptive \<Rightarrow> 'w \<Rightarrow> (bool \<times> cthd_engine_adaptive, 'w) outcome" where
  "start_check env dev a w =
     (let a = a\<lparr>ae := (ae a)\<lparr>control_exclusive := True\<rparr>\<rparr>
      in case evaluate_conditions env dev (en_core (ae a)) (gddv a) w of None \<Rightarrow> Undef
         | Some (target, gd) \<Rightarrow> let a = a\<lparr>gddv := gd\<rparr> in
             if target = - 1 then obind (install_passive_default env a w) (\<lambda>a w. Done (True, a) w) else Done (True, a) w)"

definition adaptive_start ::
  "'w thd_env \<Rightarrow> 'w gddv_dev \<Rightarrow> cthd_engine_adaptive \<Rightarrow> 'w \<Rightarrow> (bool \<times> cthd_engine_adaptive, 'w) outcome" where
  "adaptive_start env dev a w =
     (let w = verify_rapl_control env w
      in if passive_def_only a then obind (install_passive_default env a w) (\<lambda>a w. Done (True, a) w)
         else if verify_conditions (gddv a) = 0 then start_check env dev a w
         else (case evaluate_conditions env dev (en_core (ae a)) (gddv a) w of None \<Rightarrow> Undef
           | Some (target, gd) \<Rightarrow>
              (let a = a\<lparr>gddv := gd\<rparr>; i = find_agressive_target gd
               in if target \<noteq> - 1 then start_check env dev a w
                  else if 0 \<le> i then start_check env dev (a\<lparr>fallback_id := i\<rparr>) w
                  else if find_def_psvt gd \<noteq> None then obind (install_passive_default env a w) (start_check env dev)
                  else Done (False, a) w)))"

end
