(* ===== verification/Thd_Adaptive_Facts.thy ===== *)
theory Thd_Adaptive_Facts
  imports Thd_Adaptive Thd_Zone_Facts Thd_Control_Facts Thd_Conditions_Facts "HOL-Library.Multiset"
begin

text \<open>
  Facts about the adaptive engine: which trips a policy leaves in its zones, what consolidation makes of their targets, that
  the limits handed to the RAPL device form a range, and that the fallback policy is never installed.
\<close>

section \<open>Installing trips\<close>

text \<open>The trips of a zone without those that only start polling.\<close>

definition real_trips :: "cthd_zone \<Rightarrow> cthd_trip_point multiset" where
  "real_trips z = mset (filter (\<lambda>t. tp_type t \<noteq> POLLING) (trip_points z))"

lemma filter_remove_first: "filter (\<lambda>x. \<not> P x) (remove_first P xs) = filter (\<lambda>x. \<not> P x) xs"
  by (induction P xs rule: remove_first.induct) auto

lemma poll_loop_real: "real_trips (fst (poll_trip_loop env t ss z en w)) = real_trips z"
  by (induction ss arbitrary: z w) (simp_all add: real_trips_def Let_def cthd_trip_point_new_def)

lemma sort_real: "real_trips (fst (sort_and_update_poll_trip env z en w)) = real_trips z"
proof -
  have f: "filter (\<lambda>t. tp_type t \<noteq> POLLING) (remove_first (\<lambda>t. tp_type t = POLLING) (trip_points z)) =
      filter (\<lambda>t. tp_type t \<noteq> POLLING) (trip_points z)" by (rule filter_remove_first)
  show ?thesis
  proof (cases "remove_first (\<lambda>t. tp_type t = POLLING) (trip_points z) = []")
    case True
    then show ?thesis using f by (simp add: sort_and_update_poll_trip_def Let_def real_trips_def)
  next
    case False
    let ?rest = "remove_first (\<lambda>t. tp_type t = POLLING) (trip_points z)"
    have "real_trips (fst (sort_and_update_poll_trip env z en w)) = real_trips (z\<lparr>trip_points := sort_key tp_temp ?rest\<rparr>)"
      using False by (simp add: sort_and_update_poll_trip_def Let_def poll_loop_real)
    also have "\<dots> = mset (filter (\<lambda>t. tp_type t \<noteq> POLLING) ?rest)" by (simp add: real_trips_def)
    finally show ?thesis unfolding f real_trips_def .
  qed
qed

lemma add_trip_real:
  "tp_type trip \<noteq> POLLING \<Longrightarrow> real_trips (fst (add_trip env trip True z en w)) = add_mset trip (real_trips z)"
  by (simp add: add_trip_def sort_real Let_def) (simp add: real_trips_def)

lemma put_trip_zones:
  assumes "i < length (zones g)" "tp_type trip \<noteq> POLLING"
  shows "length (zones (fst (put_trip env trip i g w))) = length (zones g)"
    and "en_core (fst (put_trip env trip i g w)) = en_core g"
    and "real_trips (zones (fst (put_trip env trip i g w)) ! i) = add_mset trip (real_trips (zones g ! i))"
    and "j \<noteq> i \<Longrightarrow> zones (fst (put_trip env trip i g w)) ! j = zones g ! j"
  using assms by (simp_all add: put_trip_def split_beta Let_def add_trip_real)

lemma activate_zone_zones:
  assumes "i < length (zones g)"
  shows "real_trips (zones (activate_zone i g) ! i) = real_trips (zones g ! i)" "zone_active (zones (activate_zone i g) ! i)"
    and "j \<noteq> i \<Longrightarrow> zones (activate_zone i g) ! j = zones g ! j" "length (zones (activate_zone i g)) = length (zones g)"
  using assms by (simp_all add: activate_zone_def real_trips_def)

lemma list_index_bound: "list_index P xs = Some i \<Longrightarrow> i < length xs"
  by (auto simp: list_index_def find_Some_iff)

lemma search_zone_bound: "search_zone n g = Some i \<Longrightarrow> i < length (zones g)"
  unfolding search_zone_def by (rule list_index_bound)

lemma find_zone_bound: "find_zone n g = Some (zone, i) \<Longrightarrow> i < length (zones g)"
  by (auto simp: find_zone_def Let_def split: option.splits if_splits dest: search_zone_bound)

text \<open>The trip an entry of a passive policy stands for.\<close>

definition psv_trip :: "psv \<Rightarrow> string \<Rightarrow> nat \<Rightarrow> cthd_trip_point \<Rightarrow> bool" where
  "psv_trip p zone cdev t \<longleftrightarrow> tp_type t = PASSIVE \<and> tp_temp t = of_int (psv_trip_temp zone (psv_temp p)) \<and> get_first_cdev t = Some cdev \<and>
     is_target_valid t = (if limit_state (psv_limit p) = 0 then None else Some (limit_state (psv_limit p)))"

text \<open>C37: an entry of a passive policy whose zone, device and sensor exist becomes exactly one more trip of that zone, at the
  temperature of the table (at most 50 degrees for the ambient sensor) and for that device and its limit, and the zone becomes
  active; the other zones stay as they are.\<close>

theorem passive_installed:
  assumes "participant_name (psv_target p) = Some n" "find_zone n g = Some (zone, i)"
    and "participant_name (psv_source p) = Some cn" "find_cdev cn g = Some cdev" "search_sensor zone (en_core g) = Some s"
  shows "\<exists>g' w' t. install_passive env p g w = Done g' w' \<and> psv_trip p zone cdev t \<and>
    real_trips (zones g' ! i) = add_mset t (real_trips (zones g ! i)) \<and> zone_active (zones g' ! i) \<and>
    (strstr_found zone ''SEN3'' \<longrightarrow> psv_trip_temp zone (psv_temp p) \<le> 50000) \<and> (\<forall>j. j \<noteq> i \<longrightarrow> zones g' ! j = zones g ! j)"
proof -
  define t where "t = (let ts = limit_state (psv_limit p) in thd_trip_point_add_cdev (cdev_type_of (en_core g)) cdev default_influence
    (c_div (psv_sample_period p) 10) (ts \<noteq> 0) ts None False 0 0 (new_zone_trip i (of_int (psv_trip_temp zone (psv_temp p))) 0 s g))"
  define g1 where "g1 = fst (put_trip env t i g w)"
  have i: "i < length (zones g)" using find_zone_bound [OF assms(2)] .
  have t: "psv_trip p zone cdev t" "tp_type t \<noteq> POLLING"
    by (simp_all add: t_def psv_trip_def thd_trip_point_add_cdev_def trip_cdev_add_def new_zone_trip_def cthd_trip_point_new_def Let_def
        get_first_cdev_def is_target_valid_def)
  have run: "install_passive env p g w = Done (activate_zone i g1) (snd (put_trip env t i g w))"
    using assms by (simp add: install_passive_def t_def g1_def split_beta Let_def)
  have "real_trips (zones (activate_zone i g1) ! i) = add_mset t (real_trips (zones g ! i))"
    "zone_active (zones (activate_zone i g1) ! i)" "j \<noteq> i \<Longrightarrow> zones (activate_zone i g1) ! j = zones g ! j" for j
    using i put_trip_zones [OF i t(2), where env = env and w = w] activate_zone_zones [of i g1] unfolding g1_def [symmetric] by simp_all
  moreover have "strstr_found zone ''SEN3'' \<longrightarrow> psv_trip_temp zone (psv_temp p) \<le> 50000"
    by (simp add: psv_trip_temp_def MINIBOOK_SEN3_TRIP_TEMP_def Let_def)
  ultimately show ?thesis using run t(1) by blast
qed

definition ambient :: cthd_sensor where
  "ambient = \<lparr>se_index = 0, se_thermal_sysfs = True, se_path = [], se_type_str = ''SEN3'', async_capable = False, se_scale = 1\<rparr>"

definition ambient_engine :: cthd_engine where
  "ambient_engine = (cthd_engine_new mem_env (en_meter idle_core) [] empty_world)\<lparr>
     en_core := idle_core\<lparr>en_sensors := [ambient], en_cdevs := [plain_cdev\<lparr>cd_type_str := ''B0D4''\<rparr>]\<rparr>,
     zones := [cthd_zone_dynamic_new 0 ''SEN3'' 0 PASSIVE ''SEN3'' ''B0D4'']\<rparr>"

definition ambient_psv :: psv where
  "ambient_psv = \<lparr>psv_source = ''_SB.TCPU'', psv_target = ''_SB.SEN3_'', psv_priority = 1, psv_sample_period = 50, psv_temp = 3282,
     psv_domain = 0, psv_control_knob = 0, psv_limit = ''MAX'', psv_step_size = 0, psv_limit_coeff = 0, psv_unlimit_coeff = 0\<rparr>"

lemma passive_installed_witness:
  "\<exists>g' w' t. install_passive mem_env ambient_psv ambient_engine empty_world = Done g' w' \<and> psv_trip ambient_psv ''SEN3'' 0 t \<and>
    real_trips (zones g' ! 0) = {#t#} \<and> zone_active (zones g' ! 0)"
proof -
  have "real_trips (zones ambient_engine ! 0) = {#}"
    by (simp add: ambient_engine_def real_trips_def cthd_zone_dynamic_new_def)
  moreover have "participant_name (psv_target ambient_psv) = Some ''SEN3''" "participant_name (psv_source ambient_psv) = Some ''TCPU''"
    by (simp_all add: participant_name_def ambient_psv_def last_component_def)
  moreover have "find_zone ''SEN3'' ambient_engine = Some (''SEN3'', 0)" "find_cdev ''TCPU'' ambient_engine = Some 0"
    "search_sensor ''SEN3'' (en_core ambient_engine) = Some 0"
    by (simp_all add: find_zone_def find_cdev_def search_zone_def search_cdev_def search_sensor_def list_index_def ambient_engine_def ambient_def
        plain_cdev_def idle_core_def cthd_zone_dynamic_new_def compares_def)
  ultimately show ?thesis
    using passive_installed [of ambient_psv "''SEN3''" ambient_engine "''SEN3''" 0 "''TCPU''" 0 0 mem_env empty_world] by auto
qed

section \<open>The embedded controller's zones\<close>

text \<open>Every call adds two trips to each zone it finds, whether they are there already or not: one at the temperature of the zone
  and one a degree above, both for the same device.\<close>

definition ec_trip_at :: "nat \<Rightarrow> u32 \<Rightarrow> cthd_trip_point \<Rightarrow> bool" where
  "ec_trip_at cdev temp t \<longleftrightarrow> tp_type t = PASSIVE \<and> tp_temp t = temp \<and> get_first_cdev t = Some cdev \<and> is_target_valid t = None"

lemma ec_trip_is: "ec_trip_at cdev temp (ec_trip cdev i s temp g)" "tp_type (ec_trip cdev i s temp g) \<noteq> POLLING"
  by (simp_all add: ec_trip_at_def ec_trip_def thd_trip_point_add_cdev_def trip_cdev_add_def new_zone_trip_def cthd_trip_point_new_def Let_def
      get_first_cdev_def is_target_valid_def)

lemma install_ec_zone_trips:
  assumes "search_zone (fst mz) g = Some i" "search_sensor (fst mz) (en_core g) = Some s" "install_ec_zone env cdev mz (g, w) = (g', w')"
  shows "\<exists>lo hi. ec_trip_at cdev (snd mz) lo \<and> ec_trip_at cdev (snd mz + 1000) hi \<and>
      real_trips (zones g' ! i) = add_mset hi (add_mset lo (real_trips (zones g ! i)))"
    and "zone_active (zones g' ! i)" "j \<noteq> i \<Longrightarrow> zones g' ! j = zones g ! j"
proof -
  define lo where "lo = ec_trip cdev i s (snd mz) g"
  define g1 where "g1 = fst (put_trip env lo i g w)"
  define w1 where "w1 = snd (put_trip env lo i g w)"
  define hi where "hi = ec_trip cdev i s (snd mz + 1000) g1"
  define g2 where "g2 = fst (put_trip env hi i g1 w1)"
  have i: "i < length (zones g)" using search_zone_bound [OF assms(1)] .
  have ty: "tp_type lo \<noteq> POLLING" "tp_type hi \<noteq> POLLING" by (simp_all add: lo_def hi_def ec_trip_is(2))
  note one = put_trip_zones [OF i ty(1), where env = env and w = w, folded g1_def]
  have i1: "i < length (zones g1)" using one(1) i by simp
  note two = put_trip_zones [OF i1 ty(2), where env = env and w = w1, folded g2_def]
  have i2: "i < length (zones g2)" using two(1) i1 by simp
  have g': "g' = activate_zone i g2"
    using assms by (simp add: install_ec_zone_def split_beta Let_def lo_def g1_def w1_def hi_def g2_def)
  show "\<exists>lo hi. ec_trip_at cdev (snd mz) lo \<and> ec_trip_at cdev (snd mz + 1000) hi \<and>
      real_trips (zones g' ! i) = add_mset hi (add_mset lo (real_trips (zones g ! i)))"
    using ec_trip_is(1) one(3) two(3) activate_zone_zones(1) [OF i2] unfolding g' lo_def hi_def by (intro exI conjI) auto
  show "zone_active (zones g' ! i)" unfolding g' by (rule activate_zone_zones(2) [OF i2])
  show "zones g' ! j = zones g ! j" if "j \<noteq> i"
    using that one(4) two(4) activate_zone_zones(3) [OF i2] unfolding g' by simp
qed

section \<open>Limits of the RAPL device\<close>

lemma ppcc_override_range: "power_limit_min (ppcc_override p) < power_limit_max (ppcc_override p)"
  by (simp add: ppcc_override_def MINIBOOK_PPCC_PL1_MIN_def MINIBOOK_PPCC_PL1_MAX_def)

lemma ppcc_override_idem: "ppcc_override (ppcc_override p) = ppcc_override p"
  using ppcc_override_range [of p] unfolding ppcc_override_def by simp

text \<open>Asking again gives the same limits.\<close>

lemma get_ppcc_param_again:
  assumes "get_ppcc_param name g = (Some p, g')"
  shows "fst (get_ppcc_param name g') = Some p"
proof -
  have n: "ppcc_name (ppcc_override q) = ppcc_name q" for q by (simp add: ppcc_override_def)
  have "List.find P xs = Some q \<Longrightarrow> (\<And>q. P (f q) = P q) \<Longrightarrow> List.find P (update_first P f xs) = Some (f q)" for P f q and xs :: "ppcc_t list"
    by (induction P f xs rule: update_first.induct) (auto split: if_splits)
  from this [of "\<lambda>p. ppcc_name p = name" "ppccs g" _ ppcc_override] show ?thesis
    using assms n by (auto simp: get_ppcc_param_def gddv_get_ppcc_param_def ppcc_override_idem split: if_splits option.splits)
qed

text \<open>C38: whatever limits below 2147 W the firmware gives, locked ones included, the RAPL device of the adaptive engine is set up
  with a range that is not empty, from the smaller limit to the greater one, and starts unthrottled under the PID controller.\<close>

theorem adaptive_limits_usable:
  assumes "get_ppcc_param name g = (Some p, g')" "fst (rapl_sysfs_valid env c r w) = 0"
    and "\<bar>power_limit_min p\<bar> < 2147000" "\<bar>power_limit_max p\<bar> < 2147000"
  shows "\<exists>c' r' m' w'. rapl_update env (Some p) c r m w = (THD_SUCCESS, c', r', m', w') \<and> max_state c' < min_state c' \<and>
    max_state c' = power_limit_min p * 1000 \<and> min_state c' = power_limit_max p * 1000 \<and> curr_state c' = min_state c' \<and> pid_enable c'"
proof -
  have p: "power_limit_min p < power_limit_max p"
    using assms(1) ppcc_override_range by (auto simp: get_ppcc_param_def split: option.splits)
  obtain r1 where v: "rapl_sysfs_valid env c r w = (0, r1)" using assms(2) by (cases "rapl_sysfs_valid env c r w") auto
  obtain r2 where l: "read_ppcc_power_limits env (Some p) c r1 w = (True, r2)" "pl0_max_pwr r2 = power_limit_max p * 1000"
      "pl0_min_pwr r2 = power_limit_min p * 1000"
    using p assms(3,4) by (auto simp: read_ppcc_power_limits_def Let_def c_int_id)
  show ?thesis using p l(2,3) unfolding rapl_update_def v l(1)
    by (simp add: l(1) rapl_update_ppcc_def rapl_update_finish_def Let_def split_beta)
qed

text \<open>The limits of the laptop's firmware: 15 W to 15 W.\<close>

definition locked_ppcc :: ppcc_t where
  "locked_ppcc = \<lparr>ppcc_name = ''TCPU.D0'', ppcc_valid = True, power_limit_min = 15000, power_limit_max = 15000, time_wind_min = 28000,
     time_wind_max = 32000, step_size = 100, limit_1_valid = False, power_limit_1_min = 0, power_limit_1_max = 0, time_wind_1_min = 0,
     time_wind_1_max = 0, step_1_size = 0\<rparr>"

definition rapl_world :: mem_world where
  "rapl_world = empty_world\<lparr>mw_files := [''/rapl/constraint_0_name'' \<mapsto> ''long_term'', ''/rapl/constraint_0_power_limit_uw'' \<mapsto> ''15000000'',
     ''/rapl/constraint_0_time_window_us'' \<mapsto> ''28000000'']\<rparr>"

lemma rapl_world_valid: "fst (rapl_sysfs_valid mem_env (plain_cdev\<lparr>cd_base_path := ''/rapl/''\<rparr>) cthd_sysfs_cdev_rapl_new rapl_world) = 0"
  by code_simp

lemma adaptive_limits_usable_witness:
  "\<exists>c' r' m' w'. rapl_update mem_env (Some (ppcc_override locked_ppcc)) (plain_cdev\<lparr>cd_base_path := ''/rapl/''\<rparr>) cthd_sysfs_cdev_rapl_new
     quiet_meter rapl_world = (THD_SUCCESS, c', r', m', w') \<and> max_state c' = 8000000 \<and> min_state c' = 17000000"
proof -
  have "get_ppcc_param ''TCPU.D0'' (cthd_gddv_new\<lparr>ppccs := [locked_ppcc]\<rparr>) =
      (Some (ppcc_override locked_ppcc), cthd_gddv_new\<lparr>ppccs := [ppcc_override locked_ppcc]\<rparr>)"
    by (simp add: get_ppcc_param_def gddv_get_ppcc_param_def locked_ppcc_def cthd_gddv_new_def)
  moreover have "power_limit_min (ppcc_override locked_ppcc) = 8000" "power_limit_max (ppcc_override locked_ppcc) = 17000"
    by (simp_all add: ppcc_override_def locked_ppcc_def MINIBOOK_PPCC_PL1_MIN_def MINIBOOK_PPCC_PL1_MAX_def)
  ultimately show ?thesis
    using adaptive_limits_usable [OF _ rapl_world_valid, of "''TCPU.D0''" "cthd_gddv_new\<lparr>ppccs := [locked_ppcc]\<rparr>" "ppcc_override locked_ppcc"
        _ quiet_meter] by force
qed

section \<open>Consolidation\<close>

definition single_cdev :: "cthd_trip_point \<Rightarrow> bool" where
  "single_cdev t \<longleftrightarrow> length (tp_cdevs t) \<le> 1"

lemma half_c_int: "c_div (c_int x) 2 \<noteq> TRIP_PT_INVALID_TARGET_STATE"
proof -
  have "\<bar>c_int x\<bar> \<le> 2 ^ 31" using c_int_range [of x] by auto
  then have "\<bar>c_div (c_int x) 2\<bar> \<le> 2 ^ 30" by (auto simp: c_div_def abs_mult sgn_if zdiv_mono1)
  then show ?thesis by (auto simp: TRIP_PT_INVALID_TARGET_STATE_def)
qed

lemma raise_trip_no_target:
  "single_cdev t \<Longrightarrow> is_target_valid (raise_trip t) = None"
  by (auto simp: single_cdev_def raise_trip_def set_first_target_invalid_def is_target_valid_def length_Suc_conv le_Suc_eq split: list.splits)

lemma consolidate_trip_no_max:
  assumes "single_cdev t"
  shows "is_target_valid (consolidate_trip en t rest) \<noteq> Some TRIP_PT_INVALID_TARGET_STATE"
proof (cases "is_target_valid t = Some TRIP_PT_INVALID_TARGET_STATE")
  case True
  have "is_target_valid ((set_first_target s t)\<lparr>tp_temp := x\<rparr>) = Some s" for s x
    using True by (auto simp: is_target_valid_def set_first_target_def split: list.splits)
  then show ?thesis using True raise_trip_no_target [OF assms] half_c_int
    by (auto simp: consolidate_trip_def split: list.splits option.splits)
qed (simp add: consolidate_trip_def)

lemma consolidate_loop_nth:
  "i < length ts \<Longrightarrow> consolidate_loop en ts ! i = consolidate_trip en (ts ! i) (drop (Suc i) ts)"
  by (induction ts arbitrary: i) (auto simp: nth_Cons split: nat.splits)

lemma length_consolidate: "length (consolidate_loop en ts) = length ts"
  by (induction ts) auto

lemma consolidate_two:
  assumes "trip_points z = [t, u]" "is_target_valid t \<noteq> None" "consolidate_zone env z en w = (z', en', w')"
  shows "\<exists>n. tp_type n = PASSIVE \<and> tp_temp n = tp_temp t + 1000 \<and> tp_sensor_id n = tp_sensor_id t \<and>
    get_first_cdev n = get_first_cdev t \<and> is_target_valid n = None \<and> real_trips z' = add_mset n (real_trips z)"
proof -
  obtain s where s: "is_target_valid t = Some s" using assms(2) by auto
  then obtain c cs where c: "tp_cdevs t = c # cs" by (cases "tp_cdevs t") (auto simp: is_target_valid_def)
  define n where "n = thd_trip_point_add_cdev (cdev_type_of en) (tc_cdev c) default_influence 0 False TRIP_PT_INVALID_TARGET_STATE None False 0 0
    (cthd_trip_point_new 1 PASSIVE (tp_temp t + 1000) 0 (zn_index z) (tp_sensor_id t) SEQUENTIAL)"
  have n: "tp_type n = PASSIVE" "tp_temp n = tp_temp t + 1000" "tp_sensor_id n = tp_sensor_id t"
    "get_first_cdev n = get_first_cdev t" "is_target_valid n = None"
    by (simp_all add: n_def c thd_trip_point_add_cdev_def trip_cdev_add_def cthd_trip_point_new_def get_first_cdev_def is_target_valid_def Let_def)
  have "z' = fst (add_trip env n True z en w)"
    using assms(1,3) s c by (simp add: consolidate_zone_def get_first_cdev_def n_def Let_def split: prod.splits)
  then have "real_trips z' = add_mset n (real_trips z)" using add_trip_real [of n env z en w] n(1) by simp
  then show ?thesis using n by blast
qed

text \<open>C39: what consolidation makes of the trips of one zone, each of them for at most one device (as policies install them).
  A zone with exactly two trips of which the first has a target (a single trip of a policy, and the polling trip) gets a third one,
  a degree above the first, for the same sensor and device and without a target, and nothing else changes: a first trip to the
  unnamed maximum keeps asking for it. In every other zone no trip asks for the unnamed maximum any more, the
  trips keep their number, and one that did not ask for it keeps its place, temperature and target.\<close>

theorem consolidated_trips:
  assumes "\<forall>t\<in>set (trip_points z). single_cdev t" "consolidate_zone env z en w = (z', en', w')"
  shows "if length (trip_points z) = 2 \<and> is_target_valid (hd (trip_points z)) \<noteq> None then
      \<exists>t n. t = hd (trip_points z) \<and> tp_type n = PASSIVE \<and> tp_temp n = tp_temp t + 1000 \<and> tp_sensor_id n = tp_sensor_id t \<and>
        get_first_cdev n = get_first_cdev t \<and> is_target_valid n = None \<and> real_trips z' = add_mset n (real_trips z)
    else length (trip_points z') = length (trip_points z) \<and>
      (\<forall>t\<in>set (trip_points z'). is_target_valid t \<noteq> Some TRIP_PT_INVALID_TARGET_STATE) \<and>
      (\<forall>i < length (trip_points z). is_target_valid (trip_points z ! i) \<noteq> Some TRIP_PT_INVALID_TARGET_STATE \<longrightarrow>
         trip_points z' ! i = trip_points z ! i)"
proof (cases "length (trip_points z) = 2 \<and> is_target_valid (hd (trip_points z)) \<noteq> None")
  case True
  then obtain t u where tu: "trip_points z = [t, u]" by (auto simp: numeral_2_eq_2 length_Suc_conv)
  then show ?thesis using True consolidate_two [OF tu _ assms(2)] by simp
next
  case False
  have z': "trip_points z' = consolidate_loop en (trip_points z)"
    using assms(2) False by (auto simp: consolidate_zone_def split: list.splits option.splits)
  have "is_target_valid t \<noteq> Some TRIP_PT_INVALID_TARGET_STATE" if t: "t \<in> set (trip_points z')" for t
  proof -
    obtain i where i: "i < length (trip_points z)" "t = consolidate_trip en (trip_points z ! i) (drop (Suc i) (trip_points z))"
      using t z' by (auto simp: in_set_conv_nth length_consolidate consolidate_loop_nth)
    then have "single_cdev (trip_points z ! i)" using assms(1) by simp
    then show ?thesis unfolding i(2) by (rule consolidate_trip_no_max)
  qed
  moreover have "trip_points z' ! i = trip_points z ! i"
    if "i < length (trip_points z)" "is_target_valid (trip_points z ! i) \<noteq> Some TRIP_PT_INVALID_TARGET_STATE" for i
    using that unfolding z' by (simp add: consolidate_loop_nth consolidate_trip_def)
  ultimately show ?thesis unfolding if_not_P [OF False] unfolding z' by (simp add: length_consolidate)
qed

text \<open>Three trips of the ambient sensor, the first to the maximum and the second to 9 W.\<close>

definition limit_trip :: "u32 \<Rightarrow> int \<Rightarrow> cthd_trip_point" where
  "limit_trip temp st = thd_trip_point_add_cdev (cdev_type_of (en_core ambient_engine)) 0 default_influence 0 True st None False 0 0
     (new_zone_trip 0 temp 0 0 ambient_engine)"

definition limit_zone :: cthd_zone where
  "limit_zone = (zones ambient_engine ! 0)\<lparr>trip_points := [limit_trip 45000 TRIP_PT_INVALID_TARGET_STATE, limit_trip 50000 9000000, limit_trip 55000 8000000]\<rparr>"

text \<open>The first of them alone with a polling trip.\<close>

definition lone_zone :: cthd_zone where
  "lone_zone = limit_zone\<lparr>trip_points := [limit_trip 45000 TRIP_PT_INVALID_TARGET_STATE, cthd_trip_point_new 1 POLLING 40000 0 0 0 PARALLEL]\<rparr>"

lemma consolidated_trips_witness:
  "(\<exists>z' en' w'. consolidate_zone mem_env limit_zone (en_core ambient_engine) empty_world = (z', en', w') \<and> length (trip_points z') = 3 \<and>
      is_target_valid (trip_points z' ! 0) \<noteq> Some TRIP_PT_INVALID_TARGET_STATE) \<and>
   (\<exists>z' en' w' n. consolidate_zone mem_env lone_zone (en_core ambient_engine) empty_world = (z', en', w') \<and> tp_temp n = 46000 \<and>
      real_trips z' = {#n, limit_trip 45000 TRIP_PT_INVALID_TARGET_STATE#})"
proof -
  obtain z' en' w' where z: "consolidate_zone mem_env limit_zone (en_core ambient_engine) empty_world = (z', en', w')"
    using prod_cases3 by blast
  obtain z2 en2 w2 where z2: "consolidate_zone mem_env lone_zone (en_core ambient_engine) empty_world = (z2, en2, w2)"
    using prod_cases3 by blast
  have t: "single_cdev (limit_trip temp st)" "is_target_valid (limit_trip temp st) = Some st" "tp_temp (limit_trip temp st) = temp"
    "tp_type (limit_trip temp st) = PASSIVE" for temp st
    by (simp_all add: limit_trip_def single_cdev_def is_target_valid_def thd_trip_point_add_cdev_def trip_cdev_add_def
        new_zone_trip_def cthd_trip_point_new_def Let_def)
  have l: "\<forall>t\<in>set (trip_points limit_zone). single_cdev t" "length (trip_points limit_zone) = 3"
    "is_target_valid (trip_points limit_zone ! 0) = Some TRIP_PT_INVALID_TARGET_STATE"
    using t by (simp_all add: limit_zone_def)
  have m: "\<forall>t\<in>set (trip_points lone_zone). single_cdev t" "length (trip_points lone_zone) = 2"
    "hd (trip_points lone_zone) = limit_trip 45000 TRIP_PT_INVALID_TARGET_STATE"
    "real_trips lone_zone = {#limit_trip 45000 TRIP_PT_INVALID_TARGET_STATE#}"
    using t by (simp_all add: lone_zone_def real_trips_def single_cdev_def cthd_trip_point_new_def)
  have "length (trip_points z') = 3 \<and> is_target_valid (trip_points z' ! 0) \<noteq> Some TRIP_PT_INVALID_TARGET_STATE"
    using consolidated_trips [OF l(1) z] l(2) by simp
  moreover have "\<exists>n. tp_temp n = 46000 \<and> real_trips z2 = {#n, limit_trip 45000 TRIP_PT_INVALID_TARGET_STATE#}"
    using consolidated_trips [OF m(1) z2] m t by auto
  ultimately show ?thesis using z z2 by blast
qed

section \<open>The fallback policy\<close>

lemma obind_Done: "obind r f = Done x w \<longleftrightarrow> (\<exists>y v. r = Done y v \<and> f y v = Done x w)"
  by (cases r) (auto simp: obind_def)

lemma default_keeps:
  assumes "install_passive_default env a w = Done a' w'"
  shows "current_matched_target a' = current_matched_target a" "passive_def_only a' = passive_def_only a"
    "fallback_id a' = fallback_id a"
  using assms by (auto simp: install_passive_default_def split_beta Let_def obind_Done split: option.splits)

lemma option_pair_Done:
  "(case r of None \<Rightarrow> Undef | Some (x, y) \<Rightarrow> f x y) = Done z w \<longleftrightarrow> (\<exists>x y. r = Some (x, y) \<and> f x y = Done z w)"
  by (auto split: option.split)

text \<open>What the start keeps: the matched target, and whether only the default policy is there.\<close>

definition kept :: "cthd_engine_adaptive \<Rightarrow> int \<times> bool" where
  "kept a = (current_matched_target a, passive_def_only a)"

lemma default_kept: "install_passive_default env a w = Done a' w' \<Longrightarrow> kept a' = kept a"
  by (simp add: kept_def default_keeps [where a' = a' and a = a])

lemma start_check_kept:
  assumes "start_check env dev a w = Done (b, a') w'"
  shows "kept a' = kept a"
  using assms by (auto simp: start_check_def Let_def obind_Done option_pair_Done split: if_split_asm dest!: default_kept)
    (auto simp: kept_def)

lemma start_kept:
  assumes "adaptive_start env dev a w = Done (b, a') w'"
  shows "kept a' = kept a"
  using assms
  by (auto simp: adaptive_start_def Let_def obind_Done option_pair_Done split: if_split_asm dest!: default_kept start_check_kept)
    (auto simp: kept_def)

text \<open>C40: when the start chooses the policy with the highest power as its fallback, that policy is never installed: every later
  update of the engine leaves everything as it is.\<close>

theorem fallback_never_installed:
  assumes "adaptive_start env dev a w = Done (b, a') w'" "current_matched_target a = - 1" "fallback_id a' \<ge> 0"
  shows "adaptive_update_engine_state env stof debug dev a' v = Done a' v"
  using start_kept [OF assms(1)] assms(2,3)
  by (simp add: kept_def adaptive_update_engine_state_def)

text \<open>A firmware whose only condition is on the motion of the machine, and a policy of 12 W.\<close>

definition moving :: condition where
  "moving = (condition_new 5)\<lparr>cn_condition := Motion, cn_comparison := 1, cn_argument := 1\<rparr>"

definition moving_engine :: cthd_engine_adaptive where
  "moving_engine = (cthd_engine_adaptive_new (cthd_engine_new mem_env (en_meter idle_core) [] empty_world))\<lparr>
     gddv := cthd_gddv_new\<lparr>conditions := [[moving]],
       targets := [\<lparr>target_id = 5, at_name = ''PL1'', at_participant = ''_SB.TCPU'', at_domain = 0, at_code = ''PL1MAX'', at_argument = ''12000''\<rparr>]\<rparr>\<rparr>"

lemma moving_start:
  "adaptive_start mem_env mem_dev moving_engine empty_world =
     Done (True, moving_engine\<lparr>fallback_id := 0, ae := (ae moving_engine)\<lparr>control_exclusive := True\<rparr>\<rparr>) empty_world"
proof -
  have "verify_rapl_control mem_env empty_world = empty_world"
    by (simp add: verify_rapl_control_def sysfs_exists_def mem_env_def empty_world_def)
  moreover have "verify_conditions (gddv moving_engine) \<noteq> 0"
    by (simp add: moving_engine_def verify_conditions_def verify_condition_def moving_def mem_conditions)
  moreover have "evaluate_conditions mem_env mem_dev en (gddv moving_engine) empty_world = Some (- 1, gddv moving_engine)" for en
    by (simp add: moving_engine_def evaluate_conditions_def moving_def mem_conditions)
  moreover have "find_agressive_target (gddv moving_engine) = 0" by code_simp
  moreover have "install_passive_default mem_env a empty_world = Done a empty_world" if "zones (ae a) = []" "psvts (gddv a) = []" for a
    using that by (simp add: install_passive_default_def for_zones_def find_def_psvt_def)
  ultimately show ?thesis
    by (simp add: adaptive_start_def start_check_def moving_engine_def cthd_engine_adaptive_new_def cthd_engine_new_def cthd_gddv_new_def obind_def)
qed

lemma fallback_never_installed_witness:
  "adaptive_start mem_env mem_dev moving_engine empty_world =
     Done (True, moving_engine\<lparr>fallback_id := 0, ae := (ae moving_engine)\<lparr>control_exclusive := True\<rparr>\<rparr>) empty_world \<and>
   adaptive_update_engine_state mem_env (\<lambda>_. None) False mem_dev
     (moving_engine\<lparr>fallback_id := 0, ae := (ae moving_engine)\<lparr>control_exclusive := True\<rparr>\<rparr>) empty_world =
     Done (moving_engine\<lparr>fallback_id := 0, ae := (ae moving_engine)\<lparr>control_exclusive := True\<rparr>\<rparr>) empty_world"
  using fallback_never_installed [OF moving_start, of "\<lambda>_. None" False empty_world] moving_start
  by (simp add: moving_engine_def cthd_engine_adaptive_new_def)

end
