(* ===== verification/Thd_Cpu.thy ===== *)
theory Thd_Cpu
  imports Thd_Zone Thd_Vault
begin

text \<open>
  Control of the processor by frequencies (\<^verbatim>\<open>thd_cdev_cpufreq.cpp\<close>) and the zones of the processor: the digital sensors of the
  cores (\<^verbatim>\<open>thd_zone_cpu.cpp\<close>), its power (\<^verbatim>\<open>thd_zone_rapl_power.cpp\<close>) and the zones of the configuration
  (\<^verbatim>\<open>thd_zone_generic.cpp\<close>), with the order of devices a file may give (\<^verbatim>\<open>thd_cdev_order_parser.cpp\<close>). The fields of each class
  stand beside the record of its base class; the dispatch of \<open>Thd_Zone\<close> and \<open>Thd_Cdev\<close> does not know these classes.
\<close>

section \<open>thd\_cdev\_cpufreq.cpp\<close>

record cthd_cdev_cpufreq =
  cf_cdev :: cthd_cdev
  cpu_start_index :: int
  cpu_end_index :: int
  cpufreqs :: "int list"
  pstate_active_freq_index :: int
  cpu_index :: int

text \<open>The words of a text, as \<^verbatim>\<open>operator>>\<close> gives them one after another.\<close>

function stream_words :: "string \<Rightarrow> string list" where
  "stream_words s = (case dropWhile is_space s of [] \<Rightarrow> []
     | c # cs \<Rightarrow> (c # takeWhile (\<lambda>x. \<not> is_space x) cs) # stream_words (dropWhile (\<lambda>x. \<not> is_space x) cs))"
  by pat_completeness auto
termination
proof (relation "measure length", goal_cases)
  case (2 s c cs)
  have "length (dropWhile (\<lambda>x. \<not> is_space x) cs) < length (dropWhile is_space s)" using 2 length_dropWhile_le [of "\<lambda>x. \<not> is_space x" cs] by simp
  also have "\<dots> \<le> length s" by (rule length_dropWhile_le)
  finally show ?case by simp
qed simp

declare stream_words.simps [simp del]

text \<open>\<^verbatim>\<open>operator>>\<close> into an \<^verbatim>\<open>unsigned\<close> of a word: a negative number wraps, one that is too large saturates.\<close>

definition istream_uint :: "string \<Rightarrow> u32" where
  "istream_uint s = (case split_sign s of (neg, ds) \<Rightarrow>
     (let v = digits_val 10 0 ds in if 2 ^ 32 \<le> v then - 1 else if neg then - of_nat v else of_nat v))"

text \<open>The range of processors; \<open>None\<close> when the text is not of the form \<open>first-last\<close>.\<close>

definition cpus_present :: "'w thd_env \<Rightarrow> string \<Rightarrow> 'w \<Rightarrow> (int \<times> int) option" where
  "cpus_present env base w =
     (if \<not> sysfs_exists env base ''present'' w then None
      else (let s = snd (sysfs_read_str env base ''present'' w); t1 = takeWhile (\<lambda>c. c \<noteq> CHR ''-'') s
        in case dropWhile (\<lambda>c. c \<noteq> CHR ''-'') s of [] \<Rightarrow> None
           | _ # t2 \<Rightarrow> if t1 = [] \<or> t2 = [] then None
               else (let a = istream_int t1 0; b = istream_int t2 0
                 in if b \<le> 0 \<or> b < a \<or> 63 < b then None else Some (a, b))))"

text \<open>The smallest minimum, or with \<open>better = (>)\<close> the greatest maximum, of the processors. A value that cannot be read is whatever
  the variable held, and is taken without being compared.\<close>

definition scaling_limit :: "(u32 \<Rightarrow> u32 \<Rightarrow> bool) \<Rightarrow> string \<Rightarrow> 'w thd_env \<Rightarrow> string \<Rightarrow> int list \<Rightarrow> 'w \<Rightarrow> u32" where
  "scaling_limit better attr env base cpus w = fold (\<lambda>i m.
     let path = ''cpu'' @ show_int i @ ''/cpufreq/'' @ attr
     in if sysfs_exists env base path w
        then (let (ret, f) = sysfs_read_int env base path (te_garbage env path w) w; f = of_int f
          in if ret < 0 \<or> m = 0 \<or> better f m then f else m)
        else m) cpus 0"

definition add_frequency :: "u32 \<Rightarrow> int list \<Rightarrow> int list" where
  "add_frequency f fs = (if fs = [] \<or> sint f < hd fs then fs @ [sint f] else sint f # fs)"

definition cpufreq_table :: "u32 \<Rightarrow> u32 \<Rightarrow> string list \<Rightarrow> int list \<Rightarrow> int list" where
  "cpufreq_table lo hi ws fs = fold add_frequency (filter (\<lambda>f. lo \<le> f \<and> f \<le> hi) (map istream_uint ws)) fs"

definition cpufreq_init :: "'w thd_env \<Rightarrow> cthd_cdev_cpufreq \<Rightarrow> 'w \<Rightarrow> int \<times> cthd_cdev_cpufreq" where
  "cpufreq_init env d w =
     (let base = cd_base_path (cf_cdev d)
      in case cpus_present env base w of None \<Rightarrow> (THD_ERROR, d)
         | Some (a, b) \<Rightarrow>
            (let d = d\<lparr>cpu_start_index := a, cpu_end_index := b\<rparr>
             in if \<not> sysfs_exists env base ''cpu0/cpufreq/scaling_available_frequencies'' w then (THD_ERROR, d)
                else (case te_stream env ''/sys/devices/system/cpu/cpu0/cpufreq/scaling_available_frequencies'' w of
                        None \<Rightarrow> (- 22, d)
                      | Some s \<Rightarrow>
                         (let lo = scaling_limit (<) ''scaling_min_freq'' env base [a..b] w;
                              hi = scaling_limit (>) ''scaling_max_freq'' env base [a..b] w;
                              fs = cpufreq_table lo hi (stream_words s) (cpufreqs d)
                          in (THD_SUCCESS, d\<lparr>cpufreqs := fs, pstate_active_freq_index := 0,
                                cf_cdev := (if fs = [] then cf_cdev d else (cf_cdev d)\<lparr>max_state := int (length fs) - 1\<rparr>)\<rparr>)))))"

definition cpufreq_write :: "'w thd_env \<Rightarrow> string \<Rightarrow> int \<Rightarrow> int \<Rightarrow> 'w \<Rightarrow> 'w" where
  "cpufreq_write env base f i w =
     (let path = ''cpu'' @ show_int i @ ''/cpufreq/scaling_max_freq''
      in if sysfs_exists env base path w then snd (sysfs_write_str env base path (show_int f) w) else w)"

text \<open>The engine's virtual function, which no derived engine overrides.\<close>

definition apply_cpu_operation :: "int \<Rightarrow> bool" where
  "apply_cpu_operation cpu = False"

definition cpufreq_set_curr_state :: "'w thd_env \<Rightarrow> int \<Rightarrow> cthd_cdev_cpufreq \<Rightarrow> 'w \<Rightarrow> cthd_cdev_cpufreq \<times> 'w" where
  "cpufreq_set_curr_state env state d w =
     (let base = cd_base_path (cf_cdev d);
          d' = d\<lparr>pstate_active_freq_index := state, cf_cdev := (cf_cdev d)\<lparr>curr_state := state\<rparr>\<rparr>
      in if state < 0 \<or> int (length (cpufreqs d)) \<le> state then (d, w)
         else (let f = cpufreqs d ! nat state
           in if cpu_index d = - 1
              then (let cpus = [cpu_start_index d..cpu_end_index d]
                in if cpus = [] then (d, w) else (d', fold (cpufreq_write env base f) cpus w))
              else if apply_cpu_operation (cpu_index d) then (d', cpufreq_write env base f (cpu_index d) w)
              else (d, w)))"

definition cpufreq_get_max_state :: "cthd_cdev_cpufreq \<Rightarrow> int" where
  "cpufreq_get_max_state d = int (length (cpufreqs d)) - 1"

section \<open>thd\_cdev\_order\_parser.cpp\<close>

text \<open>A document: elements with a name and children, and other nodes. \<open>str\<close> is \<^verbatim>\<open>xmlNodeListGetString\<close>.\<close>

datatype xml_node = Xml_element (xml_name: string) (xml_children: "xml_node list") | Xml_other string

definition parse_new_cdev :: "(xml_node list \<Rightarrow> string option) \<Rightarrow> xml_node list \<Rightarrow> string list" where
  "parse_new_cdev str ns = concat (map (\<lambda>n. case n of Xml_other t \<Rightarrow> []
     | Xml_element name cs \<Rightarrow> (case str cs of None \<Rightarrow> [] | Some t \<Rightarrow> [t])) ns)"

definition parse_order :: "(xml_node list \<Rightarrow> string option) \<Rightarrow> xml_node list \<Rightarrow> string list" where
  "parse_order str ns = concat (map (\<lambda>n. case n of Xml_other t \<Rightarrow> []
     | Xml_element name cs \<Rightarrow> if thd_strcaseeq name ''CoolingDeviceOrder'' then parse_new_cdev str cs else []) ns)"

section \<open>thd\_zone\_cpu.cpp\<close>

record cthd_zone_cpu =
  zc_zone :: cthd_zone
  dts_path :: string
  critical_temp :: int
  max_temp :: int
  psv_temp :: int
  zc_trip_cnt :: int
  sensor_mask :: u32
  phy_package_id :: int

definition max_dts_sensors :: nat where "max_dts_sensors = 16"
definition def_hystersis :: u32 where "def_hystersis = 0"
definition def_offset_from_critical :: int where "def_offset_from_critical = 10000"
definition def_critical_temp :: int where "def_critical_temp = 100000"

definition def_cooling_devices :: "string list" where
  "def_cooling_devices = [''rapl_controller'', ''intel_pstate'', ''intel_powerclamp'', ''cpufreq'', ''Processor'']"

definition zone_cpu_new :: "int \<Rightarrow> string \<Rightarrow> int \<Rightarrow> zone_class \<Rightarrow> cthd_zone_cpu" where
  "zone_cpu_new index path package cls = \<lparr>zc_zone = \<lparr>zn_index = index, zn_path = path, trip_points = [], zone_temp = 0,
     zone_active = False, zone_cdev_binded_status = False, zn_type_str = ''cpu'', zn_sensors = [], sensor_rel = SENSORS_CORELATED,
     zn_class = cls\<rparr>, dts_path = path, critical_temp = 0, max_temp = 0, psv_temp = 0, zc_trip_cnt = 0, sensor_mask = 0,
     phy_package_id = package\<rparr>"

text \<open>The smaller of two temperatures, where zero stands for none so far.\<close>

definition lowest :: "int \<Rightarrow> int \<Rightarrow> int" where
  "lowest old t = (if old = 0 \<or> t < old then t else old)"

text \<open>The sensors one after the other; \<open>temp\<close> keeps the last value read. A negative result ends the loop.\<close>

fun dts_loop :: "'w thd_env \<Rightarrow> 'w \<Rightarrow> nat list \<Rightarrow> int \<Rightarrow> bool \<Rightarrow> cthd_zone_cpu \<Rightarrow> int \<times> bool \<times> cthd_zone_cpu" where
  "dts_loop env w [] temp found z = (0, found, z)"
| "dts_loop env w (i # is) temp found z =
     (let crit = ''temp'' @ show_nat i @ ''_crit''; mx = ''temp'' @ show_nat i @ ''_max'';
          (r1, t1) = (if sysfs_exists env (dts_path z) crit w then sysfs_read_int env (dts_path z) crit temp w else (0, temp));
          z1 = (if sysfs_exists env (dts_path z) crit w then z\<lparr>critical_temp := lowest (critical_temp z) t1\<rparr> else z)
      in if r1 < 0 then (r1, found, z)
         else if \<not> sysfs_exists env (dts_path z) mx w then dts_loop env w is t1 found z1
         else (let z2 = z1\<lparr>sensor_mask := sensor_mask z1 OR push_bit i 1\<rparr>; (r2, t2) = sysfs_read_int env (dts_path z) mx t1 w
           in if r2 < 0 then (r2, found, z2)
              else dts_loop env w is t2 True (z2\<lparr>max_temp := lowest (max_temp z2) t2\<rparr>)))"

text \<open>The temperatures for the trips, from what the sensors say.\<close>

definition cpu_temps :: "cthd_zone_cpu \<Rightarrow> cthd_zone_cpu" where
  "cpu_temps z =
     (let z = (if critical_temp z = 0 then z\<lparr>critical_temp := def_critical_temp\<rparr> else z);
          below = c_int (critical_temp z - def_offset_from_critical);
          z = (if max_temp z = 0 then z\<lparr>max_temp := below\<rparr> else z);
          z = (if c_int (critical_temp z - max_temp z) < def_offset_from_critical then z\<lparr>max_temp := below\<rparr> else z)
      in z\<lparr>psv_temp := c_int (max_temp z + c_div (c_int (critical_temp z - max_temp z)) 2)\<rparr>)"

definition zone_cpu_init :: "'w thd_env \<Rightarrow> cthd_zone_cpu \<Rightarrow> 'w \<Rightarrow> int \<times> cthd_zone_cpu" where
  "zone_cpu_init env z w =
     (let (ret, found, z) = dts_loop env w [0..<max_dts_sensors] 0 False (z\<lparr>max_temp := 0, critical_temp := 0\<rparr>)
      in if ret < 0 then (ret, z) else if \<not> found then (THD_ERROR, z) else (THD_SUCCESS, cpu_temps z))"

text \<open>A trip with the devices of a list that are there.\<close>

definition add_named_cdev :: "thd_engine \<Rightarrow> string \<Rightarrow> cthd_trip_point \<Rightarrow> cthd_trip_point" where
  "add_named_cdev en name t = (case search_cdev name en of None \<Rightarrow> t
     | Some c \<Rightarrow> thd_trip_point_add_cdev (cdev_type_of en) c 0 0 False TRIP_PT_INVALID_TARGET_STATE None False 0 0 t)"

definition cpu_trip :: "trip_point_type_t \<Rightarrow> int \<Rightarrow> cthd_zone_cpu \<Rightarrow> cthd_trip_point" where
  "cpu_trip type temp z = cthd_trip_point_new (zc_trip_cnt z) type (of_int temp) def_hystersis (zn_index (zc_zone z)) DEFAULT_SENSOR_ID SEQUENTIAL"

definition push_trip :: "cthd_trip_point \<Rightarrow> cthd_zone_cpu \<Rightarrow> cthd_zone_cpu" where
  "push_trip t z = z\<lparr>zc_zone := (zc_zone z)\<lparr>trip_points := trip_points (zc_zone z) @ [t]\<rparr>, zc_trip_cnt := zc_trip_cnt z + 1\<rparr>"

definition load_cdev_xml :: "thd_engine \<Rightarrow> string list \<Rightarrow> cthd_trip_point \<Rightarrow> cthd_trip_point" where
  "load_cdev_xml en names t = fold (add_named_cdev en) names t"

text \<open>\<open>order\<close>: the devices of the order file, when it is there and can be read.\<close>

definition cpu_read_trip_points :: "string list option \<Rightarrow> cthd_zone_cpu \<Rightarrow> thd_engine \<Rightarrow> int \<times> cthd_zone_cpu" where
  "cpu_read_trip_points order z en =
     (case order of
        Some names \<Rightarrow> (THD_SUCCESS, push_trip (load_cdev_xml en names (cpu_trip PASSIVE (psv_temp z) z)) z)
      | None \<Rightarrow>
         (let z = push_trip (fold (add_named_cdev en) def_cooling_devices (cpu_trip PASSIVE (psv_temp z) z)) z
          in (THD_SUCCESS, case search_cdev ''Fan'' en of None \<Rightarrow> z
                | Some _ \<Rightarrow> push_trip (add_named_cdev en ''Fan'' (cpu_trip ACTIVE (max_temp z) z)) z)))"

definition cpu_bind :: "thd_engine \<Rightarrow> string \<Rightarrow> bool \<times> cthd_zone \<Rightarrow> bool \<times> cthd_zone" where
  "cpu_bind en name s = (case search_sensor name en of None \<Rightarrow> s | Some i \<Rightarrow> (True, bind_sensor i (snd s)))"

text \<open>\<open>rt\<close>: a kernel with real-time preemption has no asynchronous sensors for the package.\<close>

definition cpu_zone_bind_sensors :: "'w thd_env \<Rightarrow> bool \<Rightarrow> cthd_zone_cpu \<Rightarrow> thd_engine \<Rightarrow> 'w \<Rightarrow> int \<times> cthd_zone_cpu \<times> thd_engine" where
  "cpu_zone_bind_sensors env rt z en w =
     (let (ret, z) = zone_cpu_init env z w
      in if ret \<noteq> THD_SUCCESS then (THD_ERROR, z, en)
         else (let (async, zn) = fold (cpu_bind en) ((if rt then [] else [''pkg-temp-0'', ''x86_pkg_temp'']) @ [''soc_dts0'']) (False, zc_zone z)
           in if async
              then (THD_SUCCESS, z\<lparr>zc_zone := zn\<rparr>, case search_sensor ''hwmon'' en of None \<Rightarrow> en
                 | Some i \<Rightarrow> en\<lparr>en_sensors := (en_sensors en)[i := (en_sensors en ! i)\<lparr>async_capable := True\<rparr>]\<rparr>)
              else (let (bound, zn) = fold (cpu_bind en) (map (\<lambda>i. ''temp'' @ show_nat i @ ''_input'') (filter (bit (sensor_mask z)) [0..<32])) (False, zn);
                        (bound, zn) = (if bound then (bound, zn) else cpu_bind en ''hwmon'' (False, zn))
                in (if bound then THD_SUCCESS else THD_ERROR, z\<lparr>zc_zone := zn\<rparr>, en))))"

section \<open>thd\_zone\_rapl\_power.cpp\<close>

definition rapl_power_bind_sensors :: "cthd_zone \<Rightarrow> thd_engine \<Rightarrow> int \<times> cthd_zone" where
  "rapl_power_bind_sensors z en = (case search_sensor ''rapl_pkg_power'' en of None \<Rightarrow> (THD_ERROR, z)
     | Some s \<Rightarrow> (THD_SUCCESS, bind_sensor s z))"

definition rapl_power_read_trip_points :: "cthd_zone \<Rightarrow> thd_engine \<Rightarrow> int \<times> cthd_zone" where
  "rapl_power_read_trip_points z en = (case search_cdev ''rapl_controller'' en of None \<Rightarrow> (THD_ERROR, z)
     | Some c \<Rightarrow> (THD_SUCCESS, z\<lparr>trip_points := trip_points z @
         [thd_trip_point_add_cdev (cdev_type_of en) c 0 (poll_interval_sec en) False 0 None False 0 0
           (cthd_trip_point_new 0 PASSIVE 100000 0 (zn_index z) DEFAULT_SENSOR_ID PARALLEL)]\<rparr>))"

section \<open>thd\_zone\_generic.cpp\<close>

record trip_cdev_t =
  tr_cdev_type :: string
  tr_influence :: int
  tr_sampling_period :: int
  tr_target_state_valid :: bool
  tr_target_state :: int
  tr_min_max_valid :: bool
  tr_target_min_state :: int
  tr_target_max_state :: int
  tr_pid_param :: pid_param_t

record trip_point_t =
  tr_temperature :: int
  tr_hyst :: int
  tr_type :: trip_point_type_t
  tr_control_type :: trip_control_type_t
  tr_sensor_type :: string
  tr_dependency :: "(string \<times> string) option"
  cdev_trips :: "trip_cdev_t list"

definition generic_bind_cdev :: "thd_engine \<Rightarrow> trip_cdev_t \<Rightarrow> bool \<times> cthd_trip_point \<Rightarrow> bool \<times> cthd_trip_point" where
  "generic_bind_cdev en k s = (case search_cdev (tr_cdev_type k) en of None \<Rightarrow> s
     | Some c \<Rightarrow> (True, thd_trip_point_add_cdev (cdev_type_of en) c (tr_influence k) (tr_sampling_period k) (tr_target_state_valid k)
         (tr_target_state k) None (tr_min_max_valid k) (tr_target_min_state k) (tr_target_max_state k) (snd s)))"

text \<open>\<open>n\<close> counts the trips added. The class's own \<^verbatim>\<open>sensor_list\<close>, which nothing reads, is left out.\<close>

fun generic_trips :: "thd_engine \<Rightarrow> trip_point_t list \<Rightarrow> int \<Rightarrow> cthd_zone \<Rightarrow> cthd_zone" where
  "generic_trips en [] n z = z"
| "generic_trips en (k # ks) n z =
     (if tr_temperature k = 0 then generic_trips en ks n z
      else (case search_sensor (tr_sensor_type k) en of None \<Rightarrow> generic_trips en ks n z
        | Some s \<Rightarrow>
           (let t = cthd_trip_point_new n (tr_type k) (of_int (tr_temperature k)) (of_int (tr_hyst k)) (zn_index z)
                      (se_index (en_sensors en ! s)) (tr_control_type k);
                t = (case tr_dependency k of None \<Rightarrow> t | Some (cdev, state) \<Rightarrow> set_dependency en cdev state t);
                (bound, t) = fold (generic_bind_cdev en) (cdev_trips k) (zone_cdev_binded_status z, t)
            in generic_trips en ks (n + 1) (z\<lparr>trip_points := trip_points z @ [t],
                 zone_cdev_binded_status := bound\<rparr>))))"

text \<open>\<open>cfg\<close>: the zone of the configuration, when there is one at the index.\<close>

definition generic_read_trip_points :: "trip_point_t list option \<Rightarrow> cthd_zone \<Rightarrow> thd_engine \<Rightarrow> int \<times> cthd_zone" where
  "generic_read_trip_points cfg z en = (case cfg of None \<Rightarrow> (THD_ERROR, z)
     | Some ks \<Rightarrow> (let z = generic_trips en ks 0 z in (if trip_points z = [] then THD_ERROR else 0, z)))"

text \<open>Only whether the sensor of the last trip is there counts for the result.\<close>

definition generic_bind_sensors :: "trip_point_t list option \<Rightarrow> cthd_zone \<Rightarrow> thd_engine \<Rightarrow> int \<times> cthd_zone" where
  "generic_bind_sensors cfg z en = (case cfg of None \<Rightarrow> (THD_ERROR, z)
     | Some ks \<Rightarrow> (if ks = [] \<or> search_sensor (tr_sensor_type (last ks)) en = None then THD_ERROR else THD_SUCCESS,
         fold (\<lambda>k z. case search_sensor (tr_sensor_type k) en of None \<Rightarrow> z | Some s \<Rightarrow> bind_sensor s z) ks z))"

end
