(* ===== verification/Thd_Cpu_Facts.thy ===== *)
theory Thd_Cpu_Facts
  imports Thd_Cpu Thd_Mem
begin

text \<open>
  Facts about the processor's devices and zones: the order of the frequencies, the temperatures of the trips, which zones find
  a sensor, and which sensor decides over a zone of the configuration.
\<close>

section \<open>Frequencies\<close>

text \<open>A list that falls is kept and one that rises is reversed, so that a higher state is always a lower frequency.\<close>

lemma add_falling:
  assumes "sorted_wrt (>) (fs @ map sint ws)"
  shows "fold add_frequency ws fs = fs @ map sint ws"
  using assms
proof (induction ws arbitrary: fs)
  case (Cons w ws)
  have "add_frequency w fs = fs @ [sint w]"
    using Cons.prems by (cases fs) (auto simp: add_frequency_def sorted_wrt_append)
  then show ?case using Cons by simp
qed simp

lemma add_rising:
  assumes "sorted_wrt (<) (rev fs @ map sint ws)"
  shows "fold add_frequency ws fs = rev (map sint ws) @ fs"
  using assms
proof (induction ws arbitrary: fs)
  case (Cons w ws)
  have "add_frequency w fs = sint w # fs"
    using Cons.prems by (cases fs) (auto simp: add_frequency_def sorted_wrt_append)
  then show ?case using Cons by simp
qed simp

definition allowed :: "u32 \<Rightarrow> u32 \<Rightarrow> string list \<Rightarrow> u32 list" where
  "allowed lo hi ws = filter (\<lambda>f. lo \<le> f \<and> f \<le> hi) (map istream_uint ws)"

theorem monotone_table_falls:
  assumes "sorted_wrt (>) (map sint (allowed lo hi ws)) \<or> sorted_wrt (<) (map sint (allowed lo hi ws))"
  shows "sorted_wrt (>) (cpufreq_table lo hi ws []) \<and> set (cpufreq_table lo hi ws []) = sint ` set (allowed lo hi ws)"
  using assms
proof
  assume f: "sorted_wrt (>) (map sint (allowed lo hi ws))"
  then have "cpufreq_table lo hi ws [] = map sint (allowed lo hi ws)"
    using add_falling [of "[]"] by (simp add: cpufreq_table_def allowed_def)
  then show ?thesis using f by simp
next
  assume r: "sorted_wrt (<) (map sint (allowed lo hi ws))"
  then have "cpufreq_table lo hi ws [] = rev (map sint (allowed lo hi ws))"
    using add_rising [of "[]"] by (simp add: cpufreq_table_def allowed_def)
  then show ?thesis using r by (simp add: sorted_wrt_rev)
qed

text \<open>Any other list may end up in no order: a higher state then is a higher frequency.\<close>

lemma unsorted_table: "cpufreq_table 1 9 [''2'', ''4'', ''3''] [] = [4, 2, 3]"
  by (simp add: cpufreq_table_def add_frequency_def istream_uint_def split_sign_def digit_val_def is_space_def)

text \<open>A state is only set when it is in the table; a device of one processor does nothing at all.\<close>

lemma cpufreq_state_in_table:
  assumes "cpufreq_set_curr_state env state d w = (d', w')"
  shows "(d', w') = (d, w) \<or> (0 \<le> state \<and> state \<le> cpufreq_get_max_state d \<and> curr_state (cf_cdev d') = state \<and>
    w' = fold (cpufreq_write env (cd_base_path (cf_cdev d)) (cpufreqs d ! nat state)) [cpu_start_index d..cpu_end_index d] w)"
proof (cases "state < 0 \<or> int (length (cpufreqs d)) \<le> state \<or> cpu_index d \<noteq> - 1 \<or> [cpu_start_index d..cpu_end_index d] = []")
  case True
  then have "cpufreq_set_curr_state env state d w = (d, w)"
    unfolding cpufreq_set_curr_state_def apply_cpu_operation_def Let_def by presburger
  then show ?thesis using assms by simp
next
  case False
  then have "cpufreq_set_curr_state env state d w = (d\<lparr>pstate_active_freq_index := state, cf_cdev := (cf_cdev d)\<lparr>curr_state := state\<rparr>\<rparr>,
      fold (cpufreq_write env (cd_base_path (cf_cdev d)) (cpufreqs d ! nat state)) [cpu_start_index d..cpu_end_index d] w)"
    unfolding cpufreq_set_curr_state_def Let_def by presburger
  then show ?thesis using assms False by (auto simp: cpufreq_get_max_state_def)
qed

lemma single_cpu_idle: "cpu_index d \<noteq> - 1 \<Longrightarrow> cpufreq_set_curr_state env state d w = (d, w)"
  by (simp add: cpufreq_set_curr_state_def apply_cpu_operation_def Let_def)

section \<open>The zone of the cores\<close>

text \<open>The temperatures of the trips are in order and apart, however close to each other the sensors' limits are.\<close>

theorem cpu_temps_ordered:
  assumes "\<bar>critical_temp (cpu_temps z)\<bar> < 2 ^ 30" "\<bar>max_temp (cpu_temps z)\<bar> < 2 ^ 30"
  shows "max_temp (cpu_temps z) + 5000 \<le> psv_temp (cpu_temps z) \<and> psv_temp (cpu_temps z) + 5000 \<le> critical_temp (cpu_temps z)"
proof -
  define c where "c = critical_temp (cpu_temps z)"
  define m where "m = max_temp (cpu_temps z)"
  have r: "\<bar>c\<bar> < 2 ^ 30" "\<bar>m\<bar> < 2 ^ 30" using assms by (simp_all add: c_def m_def)
  have p: "psv_temp (cpu_temps z) = c_int (m + c_div (c_int (c - m)) 2)"
    by (simp add: c_def m_def cpu_temps_def Let_def)
  have "m = c_int (c - 10000) \<or> \<not> c_int (c - m) < 10000"
    by (auto simp: c_def m_def cpu_temps_def Let_def def_offset_from_critical_def)
  then have d: "10000 \<le> c - m" using r by (auto simp: c_int_id)
  then have "c_div (c_int (c - m)) 2 = (c - m) div 2" using r by (simp add: c_int_id c_div_def sgn_if)
  then have "psv_temp (cpu_temps z) = m + (c - m) div 2" using d r unfolding p by (subst c_int_id) auto
  moreover have "5000 \<le> (c - m) div 2" "(c - m) div 2 + 5000 \<le> c - m" using d by auto
  ultimately show ?thesis unfolding c_def m_def by linarith
qed

lemma cpu_bind_grows:
  assumes "fold (cpu_bind en) names s = s'" "fst s \<Longrightarrow> zn_sensors (snd s) \<noteq> []"
  shows "fst s' \<Longrightarrow> zn_sensors (snd s') \<noteq> []"
  using assms
proof (induction names arbitrary: s)
  case (Cons n names)
  have "zn_sensors (snd (cpu_bind en n s)) \<noteq> []" if "fst (cpu_bind en n s)"
    using that Cons.prems(3) by (auto simp: cpu_bind_def bind_sensor_def split: option.splits)
  then show ?case using Cons by simp
qed simp

text \<open>A zone that starts has a sensor.\<close>

theorem cpu_zone_has_sensor:
  assumes "cpu_zone_bind_sensors env rt z en w = (THD_SUCCESS, z', en')"
  shows "zn_sensors (zc_zone z') \<noteq> []"
proof -
  define names where "names = (if rt then [] else [''pkg-temp-0'', ''x86_pkg_temp'']) @ [''soc_dts0'']"
  define z1 where "z1 = snd (zone_cpu_init env z w)"
  define s1 where "s1 = fold (cpu_bind en) names (False, zc_zone z1)"
  define cores where "cores = map (\<lambda>i. ''temp'' @ show_nat i @ ''_input'') (filter (bit (sensor_mask z1)) [0..<32])"
  define s2 where "s2 = fold (cpu_bind en) cores (False, snd s1)"
  define s3 where "s3 = (if fst s2 then s2 else fold (cpu_bind en) [''hwmon''] (False, snd s2))"
  note grows = cpu_bind_grows [OF refl]
  have "fst s1 \<Longrightarrow> zn_sensors (snd s1) \<noteq> []" unfolding s1_def by (rule grows) simp_all
  moreover have s2: "fst s2 \<Longrightarrow> zn_sensors (snd s2) \<noteq> []" unfolding s2_def by (rule grows) simp_all
  moreover have "fst s3 \<Longrightarrow> zn_sensors (snd s3) \<noteq> []"
    using s2 grows [of "(False, snd s2)" en "[''hwmon'']"] unfolding s3_def by (auto split: if_splits)
  moreover have "zc_zone z' = (if fst s1 then snd s1 else snd s3) \<and> (fst s1 \<or> fst s3)"
    using assms unfolding s3_def s2_def cores_def s1_def names_def z1_def
    by (auto simp: cpu_zone_bind_sensors_def split_beta Let_def THD_SUCCESS_def THD_ERROR_def split: if_splits)
  ultimately show ?thesis by auto
qed

section \<open>Zones of the configuration\<close>

text \<open>A zone of the configuration is refused when the sensor of its last trip is missing, whatever the others are.\<close>

lemma last_sensor_decides:
  assumes "ks \<noteq> []"
  shows "fst (generic_bind_sensors (Some ks) z en) = THD_SUCCESS \<longleftrightarrow> search_sensor (tr_sensor_type (last ks)) en \<noteq> None"
  using assms by (simp add: generic_bind_sensors_def THD_SUCCESS_def THD_ERROR_def)

end
