(* ===== verification/Thd_Parse.thy ===== *)
theory Thd_Parse
  imports Thd_Cpu Thd_Engine
begin

text \<open>
  The XML configuration of the thermal daemon (\<^verbatim>\<open>thd_parse.cpp\<close>, \<^verbatim>\<open>thd_parse.h\<close>). A document is the tree of \<open>Thd_Cpu\<close>;
  \<open>str\<close> is libxml2's text of a list of nodes (\<open>None\<close>: no text) and \<open>atof\<close> the C library's function. \<open>None\<close> as a result
  is an access outside an array or through a null pointer. The printed dump has no model.
\<close>

section \<open>The data of a configuration\<close>

record pid_control_t =
  pc_Kp :: f64
  pc_Ki :: f64
  pc_Kd :: f64

record thermal_sensor_link_t =
  sl_name :: string
  sl_multiplier :: f64
  sl_offset :: f64

record thermal_sensor_target_t =
  st_name :: string
  st_coeff :: f64
  st_offset :: f64
  st_power_sensor :: int

record thermal_sensor_polling_t =
  sp_virtual_temp :: int
  sp_sample_period :: int

record thermal_sensor_t =
  ths_mask :: u32
  ths_name :: string
  ths_path :: string
  ths_async_capable :: bool
  ths_virtual_sensor :: bool
  ths_sensor_link :: thermal_sensor_link_t
  ths_link_sensors :: "thermal_sensor_target_t list"
  ths_polling_table :: "thermal_sensor_polling_t list"

record thermal_zone_t =
  tz_type :: string
  trip_pts :: "trip_point_t list"

record cooling_dev_t =
  co_mask :: u32
  co_index :: int
  co_min_state :: int
  co_max_state :: int
  co_inc_dec_step :: int
  co_read_back :: bool
  co_auto_down_control :: bool
  co_type_string :: string
  co_path_str :: string
  co_debounce_interval :: int
  co_pid_enable :: bool
  co_pid :: pid_control_t
  co_write_prefix :: string

record thermal_info_t =
  ti_name :: string
  ti_uuid :: string
  product_name :: string
  product_sku :: string
  default_preference :: int
  polling_interval :: int
  ti_ppcc :: ppcc_t
  ti_sensors :: "thermal_sensor_t list"
  ti_zones :: "thermal_zone_t list"
  cooling_devs :: "cooling_dev_t list"

record cthd_parse =
  thermal_info_list :: "thermal_info_t list"
  matched_thermal_info_index :: int
  auto_config :: bool

section \<open>Text and elements\<close>

definition string_trim :: "string \<Rightarrow> string" where
  "string_trim s = filter (\<lambda>c. c \<notin> set [CHR 0x0A, CHR '' '', CHR 0x09, CHR 0x0D]) s"

text \<open>A text of nothing but white space is searched beyond its start.\<close>

definition char_trim :: "string \<Rightarrow> string option" where
  "char_trim s = (if s = [] then Some []
     else if dropWhile is_space s = [] then None
     else Some (rev (dropWhile is_space (rev (dropWhile is_space s)))))"

text \<open>One step per element, in order: its name and its children.\<close>

definition elements :: "(string \<Rightarrow> xml_node list \<Rightarrow> 'a \<Rightarrow> 'a option) \<Rightarrow> xml_node list \<Rightarrow> 'a \<Rightarrow> 'a option" where
  "elements step ns x = fold (\<lambda>n r. case n of Xml_other t \<Rightarrow> r | Xml_element name cs \<Rightarrow> Option.bind r (step name cs)) ns (Some x)"

text \<open>The same for elements with a text; the others are skipped.\<close>

definition texts :: "(xml_node list \<Rightarrow> string option) \<Rightarrow> (string \<Rightarrow> xml_node list \<Rightarrow> string \<Rightarrow> 'a \<Rightarrow> 'a option) \<Rightarrow> xml_node list \<Rightarrow> 'a \<Rightarrow> 'a option" where
  "texts str step = elements (\<lambda>name cs x. case str cs of None \<Rightarrow> Some x | Some t \<Rightarrow> step name cs t x)"

section \<open>Trip points and zones\<close>

definition parse_dependency_values ::
  "(xml_node list \<Rightarrow> string option) \<Rightarrow> xml_node list \<Rightarrow> (string \<times> string) option \<Rightarrow> (string \<times> string) option option" where
  "parse_dependency_values str = texts str (\<lambda>name cs t d.
     let (cdev, state) = (case d of None \<Rightarrow> ([], []) | Some p \<Rightarrow> p)
     in if thd_strcaseeq name ''CoolingDeviceType'' then map_option (\<lambda>s. Some (s, state)) (char_trim t)
        else if thd_strcaseeq name ''CoolingDeviceState'' then map_option (\<lambda>s. Some (cdev, s)) (char_trim t)
        else Some (Some (cdev, state)))"

definition default_pid :: pid_control_t where
  "default_pid = \<lparr>pc_Kp = flit (5 / 10000), pc_Ki = flit (1 / 10000), pc_Kd = flit (1 / 10000)\<rparr>"

definition parse_pid_values :: "(xml_node list \<Rightarrow> string option) \<Rightarrow> (string \<Rightarrow> f64) \<Rightarrow> xml_node list \<Rightarrow> pid_control_t option" where
  "parse_pid_values str atof ns = texts str (\<lambda>name cs t p.
     Some (if thd_strcaseeq name ''Kp'' then p\<lparr>pc_Kp := atof t\<rparr>
       else if thd_strcaseeq name ''Kd'' then p\<lparr>pc_Kd := atof t\<rparr>
       else if thd_strcaseeq name ''Ki'' then p\<lparr>pc_Ki := atof t\<rparr> else p)) ns default_pid"

definition parse_new_trip_cdev ::
  "(xml_node list \<Rightarrow> string option) \<Rightarrow> (string \<Rightarrow> f64) \<Rightarrow> xml_node list \<Rightarrow> trip_cdev_t \<Rightarrow> trip_cdev_t option" where
  "parse_new_trip_cdev str atof = texts str (\<lambda>name cs t k.
     if thd_strcaseeq name ''type'' then Some (k\<lparr>tr_cdev_type := string_trim t\<rparr>)
     else if thd_strcaseeq name ''influence'' then Some (k\<lparr>tr_influence := atoi t\<rparr>)
     else if thd_strcaseeq name ''SamplingPeriod'' then Some (k\<lparr>tr_sampling_period := atoi t\<rparr>)
     else if thd_strcaseeq name ''TargetState'' then Some (k\<lparr>tr_target_state := atoi t, tr_target_state_valid := True\<rparr>)
     else if thd_strcaseeq name ''TargetMinState'' then Some (k\<lparr>tr_target_min_state := atoi t, tr_min_max_valid := True\<rparr>)
     else if thd_strcaseeq name ''TargetMaxState'' then Some (k\<lparr>tr_target_max_state := atoi t, tr_min_max_valid := True\<rparr>)
     else if thd_strcaseeq name ''PidControl''
     then map_option (\<lambda>p. k\<lparr>tr_pid_param := \<lparr>pid_valid = True, pid_kp = pc_Kp p, pid_ki = pc_Ki p, pid_kd = pc_Kd p\<rparr>\<rparr>)
            (parse_pid_values str atof cs)
     else Some k)"

definition trip_cdev_new :: trip_cdev_t where
  "trip_cdev_new = \<lparr>tr_cdev_type = [], tr_influence = 0, tr_sampling_period = 0, tr_target_state_valid = False, tr_target_state = 0,
     tr_min_max_valid = False, tr_target_min_state = 0, tr_target_max_state = 0, tr_pid_param = no_pid_param\<rparr>"

text \<open>An unknown type leaves the type as it is.\<close>

definition trip_type_named :: "string \<Rightarrow> trip_point_type_t \<Rightarrow> trip_point_type_t" where
  "trip_type_named s old = (if thd_strcaseeq s ''active'' then ACTIVE else if thd_strcaseeq s ''passive'' then PASSIVE
     else if thd_strcaseeq s ''critical'' then CRITICAL else if thd_strcaseeq s ''hot'' then HOT
     else if thd_strcaseeq s ''max'' then TRIP_MAX else old)"

definition parse_new_trip_point ::
  "(xml_node list \<Rightarrow> string option) \<Rightarrow> (string \<Rightarrow> f64) \<Rightarrow> xml_node list \<Rightarrow> trip_point_t \<Rightarrow> trip_point_t option" where
  "parse_new_trip_point str atof ns k = texts str (\<lambda>name cs t k.
     if thd_strcaseeq name ''Temperature'' \<or> thd_strcaseeq name ''Power'' then Some (k\<lparr>tr_temperature := atoi t\<rparr>)
     else if thd_strcaseeq name ''Hyst'' then Some (k\<lparr>tr_hyst := atoi t\<rparr>)
     else if thd_strcaseeq name ''CoolingDevice''
     then map_option (\<lambda>c. k\<lparr>cdev_trips := cdev_trips k @ [c]\<rparr>) (parse_new_trip_cdev str atof cs trip_cdev_new)
     else if thd_strcaseeq name ''SensorType'' then Some (k\<lparr>tr_sensor_type := string_trim t\<rparr>)
     else if thd_strcaseeq name ''type'' then map_option (\<lambda>s. k\<lparr>tr_type := trip_type_named s (tr_type k)\<rparr>) (char_trim t)
     else if thd_strcaseeq name ''ControlType''
     then map_option (\<lambda>s. k\<lparr>tr_control_type := if thd_strcaseeq s ''SEQUENTIAL'' then SEQUENTIAL else PARALLEL\<rparr>) (char_trim t)
     else if thd_strcaseeq name ''DependsOn''
     then map_option (\<lambda>d. k\<lparr>tr_dependency := d\<rparr>) (parse_dependency_values str cs (tr_dependency k))
     else Some k) ns (k\<lparr>tr_temperature := 0, tr_type := ACTIVE\<rparr>)"

definition trip_point_new :: trip_point_t where
  "trip_point_new = \<lparr>tr_temperature = 0, tr_hyst = 0, tr_type = PASSIVE, tr_control_type = PARALLEL, tr_sensor_type = [],
     tr_dependency = None, cdev_trips = []\<rparr>"

definition parse_trip_points ::
  "(xml_node list \<Rightarrow> string option) \<Rightarrow> (string \<Rightarrow> f64) \<Rightarrow> xml_node list \<Rightarrow> thermal_zone_t \<Rightarrow> thermal_zone_t option" where
  "parse_trip_points str atof = elements (\<lambda>name cs z.
     if thd_strcaseeq name ''TripPoint''
     then map_option (\<lambda>k. z\<lparr>trip_pts := trip_pts z @ [k]\<rparr>) (parse_new_trip_point str atof cs trip_point_new) else Some z)"

text \<open>A type without a text is assigned from a null pointer.\<close>

definition parse_new_zone ::
  "(xml_node list \<Rightarrow> string option) \<Rightarrow> (string \<Rightarrow> f64) \<Rightarrow> xml_node list \<Rightarrow> thermal_zone_t \<Rightarrow> thermal_zone_t option" where
  "parse_new_zone str atof = elements (\<lambda>name cs z.
     if thd_strcaseeq name ''TripPoints'' then parse_trip_points str atof cs z
     else if thd_strcaseeq name ''Type'' then map_option (\<lambda>t. z\<lparr>tz_type := string_trim t\<rparr>) (str cs)
     else Some z)"

text \<open>The zone variable is shared by all zones: a zone without a type has the one of the zone before it.\<close>

definition parse_thermal_zones ::
  "(xml_node list \<Rightarrow> string option) \<Rightarrow> (string \<Rightarrow> f64) \<Rightarrow> xml_node list \<Rightarrow> thermal_info_t \<Rightarrow> thermal_info_t option" where
  "parse_thermal_zones str atof ns i = map_option snd (elements (\<lambda>name cs (z, i).
     if thd_strcaseeq name ''ThermalZone''
     then map_option (\<lambda>z. (z, i\<lparr>ti_zones := ti_zones i @ [z]\<rparr>)) (parse_new_zone str atof cs (z\<lparr>trip_pts := []\<rparr>))
     else Some (z, i)) ns (\<lparr>tz_type = [], trip_pts = []\<rparr>, i))"

section \<open>Cooling devices\<close>

definition CDEV_DEF_BIT_MIN_STATE :: u32 where "CDEV_DEF_BIT_MIN_STATE = 0x0001"
definition CDEV_DEF_BIT_MAX_STATE :: u32 where "CDEV_DEF_BIT_MAX_STATE = 0x0002"
definition CDEV_DEF_BIT_STEP :: u32 where "CDEV_DEF_BIT_STEP = 0x0004"
definition CDEV_DEF_BIT_READ_BACK :: u32 where "CDEV_DEF_BIT_READ_BACK = 0x0008"
definition CDEV_DEF_BIT_AUTO_DOWN :: u32 where "CDEV_DEF_BIT_AUTO_DOWN = 0x0010"
definition CDEV_DEF_BIT_PATH :: u32 where "CDEV_DEF_BIT_PATH = 0x0020"
definition CDEV_DEF_BIT_DEBOUNCE_VAL :: u32 where "CDEV_DEF_BIT_DEBOUNCE_VAL = 0x0100"
definition CDEV_DEF_BIT_PID_PARAMS :: u32 where "CDEV_DEF_BIT_PID_PARAMS = 0x0200"
definition CDEV_DEF_BIT_WRITE_PREFIX :: u32 where "CDEV_DEF_BIT_WRITE_PREFIX = 0x0400"

definition cdev_field ::
  "(xml_node list \<Rightarrow> string option) \<Rightarrow> (string \<Rightarrow> f64) \<Rightarrow> string \<Rightarrow> xml_node list \<Rightarrow> string \<Rightarrow> cooling_dev_t \<Rightarrow> cooling_dev_t option" where
  "cdev_field str atof name cs t c =
     (let mark = (\<lambda>b c. c\<lparr>co_mask := co_mask c OR b\<rparr>)
      in if thd_strcaseeq name ''Index'' then Some (c\<lparr>co_index := atoi t\<rparr>)
         else if thd_strcaseeq name ''Type'' then Some (c\<lparr>co_type_string := string_trim t\<rparr>)
         else if thd_strcaseeq name ''Path'' then Some ((mark CDEV_DEF_BIT_PATH c)\<lparr>co_path_str := string_trim t\<rparr>)
         else if thd_strcaseeq name ''MinState'' then Some ((mark CDEV_DEF_BIT_MIN_STATE c)\<lparr>co_min_state := atoi t\<rparr>)
         else if thd_strcaseeq name ''MaxState'' then Some ((mark CDEV_DEF_BIT_MAX_STATE c)\<lparr>co_max_state := atoi t\<rparr>)
         else if thd_strcaseeq name ''IncDecStep'' then Some ((mark CDEV_DEF_BIT_STEP c)\<lparr>co_inc_dec_step := atoi t\<rparr>)
         else if thd_strcaseeq name ''ReadBack'' then Some ((mark CDEV_DEF_BIT_READ_BACK c)\<lparr>co_read_back := atoi t \<noteq> 0\<rparr>)
         else if thd_strcaseeq name ''DebouncePeriod'' then Some ((mark CDEV_DEF_BIT_DEBOUNCE_VAL c)\<lparr>co_debounce_interval := atoi t\<rparr>)
         else if thd_strcaseeq name ''PidControl''
         then map_option (\<lambda>p. (mark CDEV_DEF_BIT_PID_PARAMS c)\<lparr>co_pid_enable := True, co_pid := p\<rparr>) (parse_pid_values str atof cs)
         else if thd_strcaseeq name ''AutoOffMode'' then Some ((mark CDEV_DEF_BIT_AUTO_DOWN c)\<lparr>co_auto_down_control := atoi t \<noteq> 0\<rparr>)
         else if thd_strcaseeq name ''WritePrefix'' then Some ((mark CDEV_DEF_BIT_WRITE_PREFIX c)\<lparr>co_write_prefix := t\<rparr>)
         else Some c)"

definition parse_new_cooling_dev ::
  "(xml_node list \<Rightarrow> string option) \<Rightarrow> (string \<Rightarrow> f64) \<Rightarrow> xml_node list \<Rightarrow> cooling_dev_t \<Rightarrow> cooling_dev_t option" where
  "parse_new_cooling_dev str atof ns c = texts str (cdev_field str atof) ns
     (c\<lparr>co_max_state := 0, co_min_state := 0, co_mask := 0, co_inc_dec_step := 1, co_read_back := True, co_auto_down_control := False,
        co_pid_enable := False, co_debounce_interval := 0\<rparr>)"

text \<open>The numbers of a controller that is not enabled are not read; the variable begins with zeroes for them.\<close>

definition cooling_dev_new :: cooling_dev_t where
  "cooling_dev_new = \<lparr>co_mask = 0, co_index = 0, co_min_state = 0, co_max_state = 0, co_inc_dec_step = 1, co_read_back = True,
     co_auto_down_control = False, co_type_string = [], co_path_str = [], co_debounce_interval = 0, co_pid_enable = False,
     co_pid = \<lparr>pc_Kp = 0, pc_Ki = 0, pc_Kd = 0\<rparr>, co_write_prefix = []\<rparr>"

text \<open>This variable is shared too, and its write prefix is not cleared.\<close>

definition parse_cooling_devs ::
  "(xml_node list \<Rightarrow> string option) \<Rightarrow> (string \<Rightarrow> f64) \<Rightarrow> xml_node list \<Rightarrow> thermal_info_t \<Rightarrow> thermal_info_t option" where
  "parse_cooling_devs str atof ns i = map_option snd (elements (\<lambda>name cs (c, i).
     if thd_strcaseeq name ''CoolingDevice''
     then map_option (\<lambda>c. (c, i\<lparr>cooling_devs := cooling_devs i @ [c]\<rparr>))
            (parse_new_cooling_dev str atof cs (c\<lparr>co_index := 0, co_path_str := [], co_type_string := []\<rparr>))
     else Some (c, i)) ns (cooling_dev_new, i))"

section \<open>Sensors\<close>

definition SENSOR_DEF_BIT_PATH :: u32 where "SENSOR_DEF_BIT_PATH = 0x0001"
definition SENSOR_DEF_BIT_ASYNC_CAPABLE :: u32 where "SENSOR_DEF_BIT_ASYNC_CAPABLE = 0x0002"

definition parse_new_sensor_link ::
  "(xml_node list \<Rightarrow> string option) \<Rightarrow> (string \<Rightarrow> f64) \<Rightarrow> xml_node list \<Rightarrow> thermal_sensor_link_t \<Rightarrow> thermal_sensor_link_t option" where
  "parse_new_sensor_link str atof = texts str (\<lambda>name cs t l.
     Some (if thd_strcaseeq name ''SensorType'' then l\<lparr>sl_name := string_trim t\<rparr>
       else if thd_strcaseeq name ''Multiplier'' then l\<lparr>sl_multiplier := atof t\<rparr>
       else if thd_strcaseeq name ''Offset'' then l\<lparr>sl_offset := atof t\<rparr> else l))"

definition parse_new_virtual_sensor_target ::
  "(xml_node list \<Rightarrow> string option) \<Rightarrow> (string \<Rightarrow> f64) \<Rightarrow> xml_node list \<Rightarrow> thermal_sensor_target_t option" where
  "parse_new_virtual_sensor_target str atof ns = texts str (\<lambda>name cs t l.
     Some (if thd_strcaseeq name ''SensorType'' then l\<lparr>st_name := string_trim t\<rparr>
       else if thd_strcaseeq name ''Coeff'' then l\<lparr>st_coeff := atof t\<rparr>
       else if thd_strcaseeq name ''Offset'' then l\<lparr>st_offset := atof t\<rparr>
       else if thd_strcaseeq name ''PowerSensor'' then l\<lparr>st_power_sensor := atoi t\<rparr> else l))
     ns \<lparr>st_name = [], st_coeff = 0, st_offset = 0, st_power_sensor = 0\<rparr>"

definition parse_new_virtual_sensor_polling ::
  "(xml_node list \<Rightarrow> string option) \<Rightarrow> xml_node list \<Rightarrow> thermal_sensor_polling_t option" where
  "parse_new_virtual_sensor_polling str ns = texts str (\<lambda>name cs t l.
     Some (if thd_strcaseeq name ''VirtualTemp'' then l\<lparr>sp_virtual_temp := atoi t\<rparr>
       else if thd_strcaseeq name ''SamplePeriod'' then l\<lparr>sp_sample_period := atoi t\<rparr> else l))
     ns \<lparr>sp_virtual_temp = 0, sp_sample_period = 0\<rparr>"

definition parse_new_sensor ::
  "(xml_node list \<Rightarrow> string option) \<Rightarrow> (string \<Rightarrow> f64) \<Rightarrow> xml_node list \<Rightarrow> thermal_sensor_t \<Rightarrow> thermal_sensor_t option" where
  "parse_new_sensor str atof = texts str (\<lambda>name cs t s.
     if thd_strcaseeq name ''Type'' then Some (s\<lparr>ths_name := string_trim t\<rparr>)
     else if thd_strcaseeq name ''Path'' then Some (s\<lparr>ths_mask := ths_mask s OR SENSOR_DEF_BIT_PATH, ths_path := string_trim t\<rparr>)
     else if thd_strcaseeq name ''AsyncCapable''
     then Some (s\<lparr>ths_async_capable := atoi t \<noteq> 0, ths_mask := ths_mask s OR SENSOR_DEF_BIT_ASYNC_CAPABLE\<rparr>)
     else if thd_strcaseeq name ''Virtual'' then Some (s\<lparr>ths_virtual_sensor := atoi t \<noteq> 0\<rparr>)
     else if thd_strcaseeq name ''SensorLink''
     then map_option (\<lambda>l. s\<lparr>ths_sensor_link := l\<rparr>) (parse_new_sensor_link str atof cs (ths_sensor_link s))
     else if thd_strcaseeq name ''LinkSensor''
     then map_option (\<lambda>l. s\<lparr>ths_link_sensors := ths_link_sensors s @ [l]\<rparr>) (parse_new_virtual_sensor_target str atof cs)
     else if thd_strcaseeq name ''PollingTableEntry''
     then map_option (\<lambda>l. s\<lparr>ths_polling_table := ths_polling_table s @ [l]\<rparr>) (parse_new_virtual_sensor_polling str cs)
     else Some s)"

definition thermal_sensor_new :: thermal_sensor_t where
  "thermal_sensor_new = \<lparr>ths_mask = 0, ths_name = [], ths_path = [], ths_async_capable = False, ths_virtual_sensor = False,
     ths_sensor_link = \<lparr>sl_name = [], sl_multiplier = 0, sl_offset = 0\<rparr>, ths_link_sensors = [], ths_polling_table = []\<rparr>"

definition parse_thermal_sensors ::
  "(xml_node list \<Rightarrow> string option) \<Rightarrow> (string \<Rightarrow> f64) \<Rightarrow> xml_node list \<Rightarrow> thermal_info_t \<Rightarrow> thermal_info_t option" where
  "parse_thermal_sensors str atof = elements (\<lambda>name cs i.
     if thd_strcaseeq name ''ThermalSensor''
     then map_option (\<lambda>s. i\<lparr>ti_sensors := ti_sensors i @ [s]\<rparr>) (parse_new_sensor str atof cs thermal_sensor_new) else Some i)"

section \<open>Platforms\<close>

text \<open>A number with a fraction loses it.\<close>

definition parse_conf_ppcc :: "(xml_node list \<Rightarrow> string option) \<Rightarrow> (string \<Rightarrow> f64) \<Rightarrow> xml_node list \<Rightarrow> ppcc_t \<Rightarrow> ppcc_t option" where
  "parse_conf_ppcc str atof = texts str (\<lambda>name cs t p. let v = f2i (atof t) in
     Some (if thd_strcaseeq name ''PowerLimitMinimum'' then p\<lparr>power_limit_min := v\<rparr>
       else if thd_strcaseeq name ''PowerLimitMaximum'' then p\<lparr>power_limit_max := v\<rparr>
       else if thd_strcaseeq name ''TimeWindowMinimum'' then p\<lparr>time_wind_min := v\<rparr>
       else if thd_strcaseeq name ''TimeWindowMaximum'' then p\<lparr>time_wind_max := v\<rparr>
       else if thd_strcaseeq name ''StepSize'' then p\<lparr>step_size := v\<rparr> else p))"

definition platform_field ::
  "(xml_node list \<Rightarrow> string option) \<Rightarrow> (string \<Rightarrow> f64) \<Rightarrow> string \<Rightarrow> xml_node list \<Rightarrow> string \<Rightarrow> thermal_info_t \<Rightarrow> thermal_info_t option" where
  "platform_field str atof name cs t i =
     (if thd_strcaseeq name ''uuid'' then Some (i\<lparr>ti_uuid := string_trim t\<rparr>)
      else if thd_strcaseeq name ''ProductName'' then Some (i\<lparr>product_name := string_trim t\<rparr>)
      else if thd_strcaseeq name ''ProductSku'' then Some (i\<lparr>product_sku := string_trim t\<rparr>)
      else if thd_strcaseeq name ''Name'' then Some (i\<lparr>ti_name := string_trim t\<rparr>)
      else if thd_strcaseeq name ''Preference''
      then map_option (\<lambda>s. i\<lparr>default_preference := if thd_strcaseeq s ''PERFORMANCE'' then PREF_PERFORMANCE else PREF_ENERGY_CONSERVE\<rparr>)
             (char_trim t)
      else if thd_strcaseeq name ''ThermalZones'' then parse_thermal_zones str atof cs i
      else if thd_strcaseeq name ''ThermalSensors'' then parse_thermal_sensors str atof cs i
      else if thd_strcaseeq name ''CoolingDevices'' then parse_cooling_devs str atof cs i
      else if thd_strcaseeq name ''PollingInterval'' then Some (i\<lparr>polling_interval := atoi t\<rparr>)
      else if thd_strcaseeq name ''PPCC''
      then map_option (\<lambda>p. i\<lparr>ti_ppcc := p\<lparr>ppcc_valid := True\<rparr>\<rparr>) (parse_conf_ppcc str atof cs (ti_ppcc i))
      else Some i)"

definition parse_new_platform_info ::
  "(xml_node list \<Rightarrow> string option) \<Rightarrow> (string \<Rightarrow> f64) \<Rightarrow> xml_node list \<Rightarrow> thermal_info_t \<Rightarrow> thermal_info_t option" where
  "parse_new_platform_info str atof ns i = texts str (platform_field str atof) ns
     (i\<lparr>default_preference := PREF_ENERGY_CONSERVE, polling_interval := 0\<rparr>)"

definition thermal_info_new :: thermal_info_t where
  "thermal_info_new = \<lparr>ti_name = [], ti_uuid = [], product_name = [], product_sku = [], default_preference = 0, polling_interval = 0,
     ti_ppcc = \<lparr>ppcc_name = [], ppcc_valid = False, power_limit_min = 0, power_limit_max = 0, time_wind_min = 0, time_wind_max = 0,
       step_size = 0, limit_1_valid = False, power_limit_1_min = 0, power_limit_1_max = 0, time_wind_1_min = 0, time_wind_1_max = 0,
       step_1_size = 0\<rparr>, ti_sensors = [], ti_zones = [], cooling_devs = []\<rparr>"

text \<open>One variable for all platforms: names, sensors and limits stay from the platform before.\<close>

definition platform_reset :: "thermal_info_t \<Rightarrow> thermal_info_t" where
  "platform_reset i = i\<lparr>cooling_devs := [], ti_zones := [], polling_interval := 0, ti_ppcc := (ti_ppcc i)\<lparr>ppcc_valid := False, limit_1_valid := False\<rparr>\<rparr>"

definition parse_new_platform ::
  "(xml_node list \<Rightarrow> string option) \<Rightarrow> (string \<Rightarrow> f64) \<Rightarrow> xml_node list \<Rightarrow> thermal_info_t list \<Rightarrow> thermal_info_t list option" where
  "parse_new_platform str atof ns infos = map_option snd (elements (\<lambda>name cs (i, infos).
     if thd_strcaseeq name ''Platform''
     then map_option (\<lambda>i. (i, infos @ [i])) (parse_new_platform_info str atof cs (platform_reset i))
     else Some (i, infos)) ns (thermal_info_new, infos))"

definition parse_conf :: "(xml_node list \<Rightarrow> string option) \<Rightarrow> (string \<Rightarrow> f64) \<Rightarrow> xml_node list \<Rightarrow> cthd_parse \<Rightarrow> cthd_parse option" where
  "parse_conf str atof ns p = map_option (\<lambda>infos. p\<lparr>thermal_info_list := infos\<rparr>) (elements (\<lambda>name cs infos.
     if thd_strcaseeq name ''ThermalConfiguration'' then parse_new_platform str atof cs infos else Some infos) ns (thermal_info_list p))"

section \<open>Choosing and opening the file\<close>

text \<open>\<open>cf_open\<close>: the file can be opened for reading; \<open>cf_stat\<close>: owner and mode of the file, links followed; \<open>cf_link\<close>: whether it
  is a symbolic link itself (\<open>None\<close>: no status); \<open>cf_generate\<close>: writes a configuration from the firmware's tables; \<open>cf_read\<close>: the
  nodes from the root on, when the file could be parsed and has one.\<close>

record 'w conf_env =
  cf_open :: "string \<Rightarrow> 'w \<Rightarrow> bool"
  cf_stat :: "string \<Rightarrow> 'w \<Rightarrow> (nat \<times> nat) option"
  cf_link :: "string \<Rightarrow> 'w \<Rightarrow> bool option"
  cf_generate :: "string \<Rightarrow> 'w \<Rightarrow> int \<times> 'w"
  cf_read :: "string \<Rightarrow> 'w \<Rightarrow> xml_node list option"
  cf_confdir :: string
  cf_rundir :: string

text \<open>The file, and whether it is a generated one.\<close>

definition choose_config :: "'w conf_env \<Rightarrow> string \<Rightarrow> bool \<Rightarrow> 'w \<Rightarrow> string \<times> bool \<times> 'w" where
  "choose_config env config_file auto w =
     (if config_file \<noteq> [] then (config_file, auto, w)
      else (let conf_auto = cf_confdir env @ ''/thermal-conf.xml.auto''; run_auto = cf_rundir env @ ''/thermal-conf.xml.auto''
        in if cf_open env conf_auto w then (conf_auto, True, w)
           else (let (ret, w) = cf_generate env run_auto w
             in if ret = 0 then (run_auto, True, w) else (cf_confdir env @ ''/thermal-conf.xml'', auto, w))))"

definition config_trusted :: "'w conf_env \<Rightarrow> string \<Rightarrow> 'w \<Rightarrow> bool" where
  "config_trusted env f w = (case cf_stat env f w of None \<Rightarrow> False
     | Some (uid, mode) \<Rightarrow> uid = 0 \<and> (of_nat mode :: u32) AND 0x12 = 0 \<and> cf_link env f w = Some False)"

definition parser_init :: "'w conf_env \<Rightarrow> string \<Rightarrow> cthd_parse \<Rightarrow> 'w \<Rightarrow> (xml_node list) option \<times> cthd_parse \<times> 'w" where
  "parser_init env config_file p w =
     (let (f, auto, w) = choose_config env config_file (auto_config p) w; p = p\<lparr>auto_config := auto\<rparr>
      in if \<not> auto \<and> \<not> cf_open env f w then (None, p, w)
         else if \<not> config_trusted env f w then (None, p, w)
         else (cf_read env f w, p, w))"

section \<open>The platform of the machine\<close>

definition match_product_sku :: "'w thd_env \<Rightarrow> thermal_info_t \<Rightarrow> 'w \<Rightarrow> bool" where
  "match_product_sku env i w = (case first_line (te_stream env ''/sys/class/dmi/id/product_sku'' w) of None \<Rightarrow> True
     | Some line \<Rightarrow> product_sku i = [] \<or> product_sku i = ''*'' \<or> string_trim line = product_sku i)"

definition uuid_matches :: "string \<Rightarrow> thermal_info_t \<Rightarrow> bool" where
  "uuid_matches line i \<longleftrightarrow> ti_uuid i \<noteq> [] \<and> (ti_uuid i = ''*'' \<or> string_trim line = ti_uuid i)"

definition name_matches :: "'w thd_env \<Rightarrow> 'w \<Rightarrow> string \<Rightarrow> thermal_info_t \<Rightarrow> bool" where
  "name_matches env w line i \<longleftrightarrow> product_name i \<noteq> [] \<and>
     (product_name i = ''*'' \<or> (string_trim line = product_name i \<and> match_product_sku env i w))"

text \<open>The last search asks for a UUID and then looks at the name.\<close>

definition platform_matched :: "'w thd_env \<Rightarrow> cthd_parse \<Rightarrow> 'w \<Rightarrow> bool \<times> cthd_parse" where
  "platform_matched env p w =
     (let line = (\<lambda>f. first_line (te_stream env (''/sys/class/dmi/id/'' @ f) w)); infos = thermal_info_list p;
          by_uuid = (case line ''product_uuid'' of None \<Rightarrow> None | Some l \<Rightarrow> list_index (uuid_matches l) infos);
          by_name = (case line ''product_name'' of None \<Rightarrow> None | Some l \<Rightarrow> list_index (name_matches env w l) infos);
          wildcard = list_index (\<lambda>i. ti_uuid i \<noteq> [] \<and> compares (product_name i) 1 ''*'') infos
      in case (if by_uuid \<noteq> None then by_uuid else if by_name \<noteq> None then by_name else wildcard) of
           None \<Rightarrow> (False, p) | Some i \<Rightarrow> (True, p\<lparr>matched_thermal_info_index := int i\<rparr>))"

section \<open>Access\<close>

text \<open>The matched platform; \<open>None\<close> is an access outside the vector, before a platform matched.\<close>

definition matched_info :: "cthd_parse \<Rightarrow> thermal_info_t option" where
  "matched_info p = (let i = matched_thermal_info_index p in
     if 0 \<le> i \<and> nat i < length (thermal_info_list p) then Some (thermal_info_list p ! nat i) else None)"

definition nth_or_null :: "nat \<Rightarrow> 'a list \<Rightarrow> 'a option" where
  "nth_or_null i xs = (if i < length xs then Some (xs ! i) else None)"

definition get_polling_interval :: "cthd_parse \<Rightarrow> int option" where
  "get_polling_interval p = map_option polling_interval (matched_info p)"

definition trip_count :: "nat \<Rightarrow> cthd_parse \<Rightarrow> int option" where
  "trip_count z p = map_option (\<lambda>i. case nth_or_null z (ti_zones i) of None \<Rightarrow> - 1 | Some z \<Rightarrow> int (length (trip_pts z))) (matched_info p)"

definition get_trip_point :: "nat \<Rightarrow> nat \<Rightarrow> cthd_parse \<Rightarrow> trip_point_t option option" where
  "get_trip_point z k p = map_option (\<lambda>i. Option.bind (nth_or_null z (ti_zones i)) (\<lambda>z. nth_or_null k (trip_pts z))) (matched_info p)"

definition get_cool_dev_index :: "nat \<Rightarrow> cthd_parse \<Rightarrow> cooling_dev_t option option" where
  "get_cool_dev_index c p = map_option (\<lambda>i. nth_or_null c (cooling_devs i)) (matched_info p)"

definition get_sensor_dev_index :: "nat \<Rightarrow> cthd_parse \<Rightarrow> thermal_sensor_t option option" where
  "get_sensor_dev_index s p = map_option (\<lambda>i. nth_or_null s (ti_sensors i)) (matched_info p)"

definition get_zone_dev_index :: "nat \<Rightarrow> cthd_parse \<Rightarrow> thermal_zone_t option option" where
  "get_zone_dev_index z p = map_option (\<lambda>i. nth_or_null z (ti_zones i)) (matched_info p)"

definition conf_get_ppcc_param :: "string \<Rightarrow> cthd_parse \<Rightarrow> ppcc_t option" where
  "conf_get_ppcc_param name p = (if name \<noteq> ''TCPU.D0'' then None
     else Option.bind (matched_info p) (\<lambda>i. if ppcc_valid (ti_ppcc i) then Some (ti_ppcc i) else None))"

definition pid_status :: "nat \<Rightarrow> cthd_parse \<Rightarrow> bool option" where
  "pid_status c p = Option.bind (matched_info p) (\<lambda>i. map_option co_pid_enable (nth_or_null c (cooling_devs i)))"

text \<open>The numbers lose their fractions: the defaults, all below one, become zero.\<close>

definition get_pid_values :: "nat \<Rightarrow> cthd_parse \<Rightarrow> (int \<times> int \<times> int) option option" where
  "get_pid_values c p = Option.bind (matched_info p) (\<lambda>i. map_option (\<lambda>d. if co_pid_enable d
     then Some (f2i (pc_Kp (co_pid d)), f2i (pc_Ki (co_pid d)), f2i (pc_Kd (co_pid d))) else None) (nth_or_null c (cooling_devs i)))"

definition set_default_preference :: "'w thd_env \<Rightarrow> cthd_parse \<Rightarrow> cthd_preference \<Rightarrow> 'w \<Rightarrow> (bool \<times> cthd_preference \<times> 'w) option" where
  "set_default_preference env p pref w = map_option (\<lambda>i.
     set_preference env (if default_preference i = PREF_PERFORMANCE then ''PERFORMANCE'' else ''ENERGY_CONSERVE'') pref w) (matched_info p)"

end
