(* ===== verification/Thd_Parse_Facts.thy ===== *)
theory Thd_Parse_Facts
  imports Thd_Parse
begin

text \<open>
  Facts about the configuration: which files are accepted, which platform is chosen, one zone and one device per element, and
  what an entry takes over from the entry before it.
\<close>

section \<open>Files and platforms\<close>

text \<open>A file that is read belongs to root, is writable by nobody else and is no symbolic link.\<close>

theorem accepted_config_trusted:
  assumes "parser_init env config_file p w = (Some nodes, p', w')"
  shows "\<exists>f mode. cf_read env f w' = Some nodes \<and> cf_stat env f w' = Some (0, mode) \<and> (of_nat mode :: u32) AND 0x12 = 0 \<and>
    cf_link env f w' = Some False \<and> (config_file \<noteq> [] \<longrightarrow> f = config_file)"
proof -
  obtain f auto w1 where c: "choose_config env config_file (auto_config p) w = (f, auto, w1)" using prod_cases3 by blast
  have "config_file \<noteq> [] \<longrightarrow> f = config_file" using c by (auto simp: choose_config_def)
  moreover have "w1 = w'" "config_trusted env f w'" "cf_read env f w' = Some nodes"
    using assms unfolding parser_init_def c by (auto simp: Let_def split: if_splits)
  ultimately show ?thesis by (auto simp: config_trusted_def split: option.splits)
qed

lemma list_index_first:
  "list_index P xs = Some i \<longleftrightarrow> i < length xs \<and> P (xs ! i) \<and> (\<forall>j < i. \<not> P (xs ! j))"
  by (auto simp: list_index_def find_Some_iff)

text \<open>The platform chosen is the first whose UUID matches; without one the first whose name matches.\<close>

theorem platform_chosen:
  assumes "first_line (te_stream env ''/sys/class/dmi/id/product_uuid'' w) = Some uuid"
    and "first_line (te_stream env ''/sys/class/dmi/id/product_name'' w) = Some name"
    and "list_ex (\<lambda>i. uuid_matches uuid i \<or> name_matches env w name i) (thermal_info_list p)"
  shows "\<exists>i < length (thermal_info_list p). platform_matched env p w = (True, p\<lparr>matched_thermal_info_index := int i\<rparr>) \<and>
    (if list_ex (uuid_matches uuid) (thermal_info_list p)
     then uuid_matches uuid (thermal_info_list p ! i) \<and> (\<forall>j < i. \<not> uuid_matches uuid (thermal_info_list p ! j))
     else name_matches env w name (thermal_info_list p ! i) \<and> (\<forall>j < i. \<not> name_matches env w name (thermal_info_list p ! j)))"
proof -
  have none: "list_index P xs = None \<longleftrightarrow> \<not> list_ex P xs" for P and xs :: "thermal_info_t list"
    by (auto simp: list_index_def find_None_iff list_ex_length)
  show ?thesis
  proof (cases "list_ex (uuid_matches uuid) (thermal_info_list p)")
    case True
    then obtain i where i: "list_index (uuid_matches uuid) (thermal_info_list p) = Some i" using none by (metis option.exhaust)
    then have "platform_matched env p w = (True, p\<lparr>matched_thermal_info_index := int i\<rparr>)"
      using assms(1,2) by (simp add: platform_matched_def Let_def)
    then show ?thesis using True i [unfolded list_index_first] by auto
  next
    case False
    then have "list_ex (name_matches env w name) (thermal_info_list p)" using assms(3) by (auto simp: list_ex_iff)
    then obtain i where i: "list_index (name_matches env w name) (thermal_info_list p) = Some i" using none by (metis option.exhaust)
    moreover have "list_index (uuid_matches uuid) (thermal_info_list p) = None" using False none by blast
    ultimately have "platform_matched env p w = (True, p\<lparr>matched_thermal_info_index := int i\<rparr>)"
      using assms(1,2) by (simp add: platform_matched_def Let_def)
    then show ?thesis using False i [unfolded list_index_first] by auto
  qed
qed

text \<open>The last search skips a platform with a wildcard for its name when it has no UUID.\<close>

lemma wildcard_needs_uuid:
  assumes "first_line (te_stream env ''/sys/class/dmi/id/product_uuid'' w) = None"
    and "first_line (te_stream env ''/sys/class/dmi/id/product_name'' w) = None"
    and "list_all (\<lambda>i. ti_uuid i = []) (thermal_info_list p)"
  shows "platform_matched env p w = (False, p)"
proof -
  have "list_index (\<lambda>i. ti_uuid i \<noteq> [] \<and> compares (product_name i) 1 ''*'') (thermal_info_list p) = None"
    using assms(3) by (auto simp: list_index_def find_None_iff list_all_length)
  then show ?thesis using assms(1,2) by (simp add: platform_matched_def Let_def)
qed

section \<open>Elements\<close>

lemma elements_Nil [simp]: "elements step [] x = Some x"
  by (simp add: elements_def)

lemma elements_undefined: "fold (\<lambda>n r. case n of Xml_other t \<Rightarrow> r | Xml_element name cs \<Rightarrow> Option.bind r (step name cs)) ns None = None"
  by (induction ns) (auto split: xml_node.split)

lemma elements_other [simp]: "elements step (Xml_other t # ns) x = elements step ns x"
  by (simp add: elements_def)

lemma elements_Cons [simp]: "elements step (Xml_element name cs # ns) x = Option.bind (step name cs x) (elements step ns)"
  by (cases "step name cs x") (simp_all add: elements_def elements_undefined)

text \<open>Every element of a kind adds one entry to a list.\<close>

definition named :: "string \<Rightarrow> xml_node list \<Rightarrow> nat" where
  "named name ns = length (filter (\<lambda>n. case n of Xml_other t \<Rightarrow> False | Xml_element m cs \<Rightarrow> thd_strcaseeq m name) ns)"

lemma elements_count:
  assumes "elements step ns x = Some y"
    and "\<And>m cs u v. step m cs u = Some v \<Longrightarrow> size_of v = size_of u + (if thd_strcaseeq m name then 1 else 0 :: nat)"
  shows "size_of y = size_of x + named name ns"
  using assms(1)
proof (induction ns arbitrary: x)
  case (Cons n ns)
  then show ?case
    by (cases n) (auto simp: named_def bind_eq_Some_conv dest: assms(2))
qed (simp add: named_def)

theorem one_zone_per_element:
  assumes "parse_thermal_zones str atof ns i = Some i'"
  shows "length (ti_zones i') = length (ti_zones i) + named ''ThermalZone'' ns"
proof -
  obtain z where e: "elements (\<lambda>name cs (z, i). if thd_strcaseeq name ''ThermalZone''
      then map_option (\<lambda>z. (z, i\<lparr>ti_zones := ti_zones i @ [z]\<rparr>)) (parse_new_zone str atof cs (z\<lparr>trip_pts := []\<rparr>))
      else Some (z, i)) ns (\<lparr>tz_type = [], trip_pts = []\<rparr>, i) = Some (z, i')"
    using assms by (auto simp: parse_thermal_zones_def)
  have "length (ti_zones (snd (z, i'))) = length (ti_zones (snd (\<lparr>tz_type = [], trip_pts = []\<rparr> :: thermal_zone_t, i))) + named ''ThermalZone'' ns"
    using e by (rule elements_count [where size_of = "\<lambda>s. length (ti_zones (snd s))"]) (auto split: if_splits)
  then show ?thesis by simp
qed

theorem one_device_per_element:
  assumes "parse_cooling_devs str atof ns i = Some i'"
  shows "length (cooling_devs i') = length (cooling_devs i) + named ''CoolingDevice'' ns"
proof -
  obtain c where e: "elements (\<lambda>name cs (c, i). if thd_strcaseeq name ''CoolingDevice''
      then map_option (\<lambda>c. (c, i\<lparr>cooling_devs := cooling_devs i @ [c]\<rparr>))
             (parse_new_cooling_dev str atof cs (c\<lparr>co_index := 0, co_path_str := [], co_type_string := []\<rparr>))
      else Some (c, i)) ns (cooling_dev_new, i) = Some (c, i')"
    using assms by (auto simp: parse_cooling_devs_def)
  have "length (cooling_devs (snd (c, i'))) = length (cooling_devs (snd (cooling_dev_new, i))) + named ''CoolingDevice'' ns"
    using e by (rule elements_count [where size_of = "\<lambda>s. length (cooling_devs (snd s))"]) (auto split: if_splits)
  then show ?thesis by simp
qed

section \<open>What is taken over, and what is skipped\<close>

text \<open>A platform begins with the names and the sensors of the one before it; an empty one is a copy of them.\<close>

lemma platform_inherits:
  assumes "parse_new_platform_info str atof cs (platform_reset thermal_info_new) = Some i"
  shows "parse_new_platform str atof [Xml_element ''Platform'' cs, Xml_element ''Platform'' []] [] =
    Some [i, (platform_reset i)\<lparr>default_preference := PREF_ENERGY_CONSERVE\<rparr>]"
  using assms by (simp add: parse_new_platform_def thd_strcaseeq_def thd_streq_def parse_new_platform_info_def texts_def platform_reset_def)

text \<open>A device without a write prefix has the one of the device before it, though its mask does not say so.\<close>

lemma write_prefix_inherited:
  assumes "str [Xml_other t] = Some t"
  shows "map_option (map co_write_prefix \<circ> cooling_devs) (parse_cooling_devs str atof
    [Xml_element ''CoolingDevice'' [Xml_element ''WritePrefix'' [Xml_other t]], Xml_element ''CoolingDevice'' []] (i\<lparr>cooling_devs := []\<rparr>)) =
    Some [t, t]"
  using assms by (simp add: parse_cooling_devs_def parse_new_cooling_dev_def texts_def cdev_field_def thd_strcaseeq_def thd_streq_def to_lower_def)

text \<open>A list of zones without any text between its tags is skipped with all its zones.\<close>

lemma compact_zones_skipped:
  assumes "str cs = None"
  shows "map_option ti_zones (parse_new_platform_info str atof [Xml_element ''ThermalZones'' cs] i) = Some (ti_zones i)"
  using assms by (simp add: parse_new_platform_info_def texts_def)

text \<open>A type element without a text ends in a null pointer, and so does a value of nothing but white space outside its buffer.\<close>

lemma empty_type_undefined:
  assumes "str [] = None"
  shows "parse_new_zone str atof [Xml_element ''Type'' []] z = None"
  using assms by (simp add: parse_new_zone_def thd_strcaseeq_def thd_streq_def to_lower_def)

lemma blank_undefined: "char_trim '' '' = None"
  by (simp add: char_trim_def is_space_def)

end
