(* ===== verification/Spec2Isabelle.thy ===== *)
theory Spec2Isabelle
  imports Mxc6655_Fds MountMatrix Ec_Core Ec_Lock Spklen_Facts Dptf VbtPatch_Facts Iio_Channels_Facts Iio_Buffer_Facts
    Driver_Table Thd_Meter_Facts Thd_Takeover Thd_Zone_Facts Thd_Control_Facts Thd_Virtual
    Thd_Gddv_Facts Thd_Conditions_Facts Thd_Adaptive_Facts Thd_Cpu_Facts Thd_Parse_Facts
begin

text \<open>
  Verification of the programs of the Chuwi MiniBook repository: the sensor daemon
  \<^verbatim>\<open>iio-sensor-proxy\<close> with the driver of the laptop's two MXC6655 accelerometers, the kernel modules
  \<^verbatim>\<open>minibook_ec\<close>, \<^verbatim>\<open>dptf_enabler\<close> and \<^verbatim>\<open>i2c_designware_spklen\<close>, the tool \<^verbatim>\<open>vbt_patch\<close>, and the core of
  the thermal daemon \<^verbatim>\<open>thermald\<close>.

  \<^bold>\<open>The program's parts.\<close> The daemon discovers sensors through udev, opens one driver per sensor type,
  starts it when the first D-Bus client claims the sensor and announces readings as property changes.
  The MXC6655 driver polls the accelerometers in the display and in the base, filters the display's
  vector into an orientation, computes the hinge angle from both, switches a uinput tablet-mode switch
  and follows the lid switch. The EC module reaches the embedded controller through two I/O ports and
  exposes its fan, temperatures, keyboard backlight and switches. The DPTF module flips flags in
  firmware memory; the spike-length module programs I2C controllers; the tool patches a display table.
  The thermal daemon reads temperatures zone by zone, compares them with the zones' trips and sets the
  states of cooling devices; several trips may use one device, and a list in the device decides between them.

  \<^bold>\<open>Theories and sources.\<close>
    \<^item> \<open>Prelude\<close>: machine integers, errno values, byte memory with visible out-of-bounds accesses, C
      division, decimal text. \<open>GStrings\<close>: the C and GLib string functions in use. \<open>Fp\<close>, \<open>Fp_Facts\<close>:
      IEEE-754 single and double precision, computable, with the rounding facts the proofs use.
    \<^item> \<open>Posix\<close>: the record \<open>os\<close> of files, ioctls and main-loop sources the drivers call.
    \<^item> \<open>Orientation\<close> (\<^verbatim>\<open>orientation.c\<close>, \<^verbatim>\<open>accel-scale.c\<close>), \<open>MountMatrix\<close> (\<^verbatim>\<open>accel-mount-matrix.c\<close>),
      \<open>Drivers\<close> (\<^verbatim>\<open>drivers.h\<close>, \<^verbatim>\<open>drivers.c\<close>, \<^verbatim>\<open>accel-attributes.c\<close>).
    \<^item> \<open>Mxc_Hw\<close>, \<open>Mxc_Orient\<close>, \<open>Mxc6655\<close> (\<^verbatim>\<open>drv-mxc6655-accel.c\<close>: hardware access and calibration; the
      orientation filter; tablet mode, polling, lid, open and close), with \<open>Mxc_Orient_Facts\<close>,
      \<open>Mxc6655_Facts\<close> and \<open>Mxc6655_Fds\<close>.
    \<^item> \<open>SensorProxy\<close> (\<^verbatim>\<open>iio-sensor-proxy.c\<close>): the record \<open>SensorData\<close> is the C struct with the messages
      sent as the list \<open>out\<close> and a failed assertion as the flag \<open>aborted\<close>; one definition per handler.
      \<open>SensorProxy_Facts\<close> states the driver contract (\<open>sensor_driver\<close>, and \<open>prompt_driver\<close> for a driver that
      delivers a reading at once), proves the daemon's guarantees for any table of drivers that keep it
      (\<open>sensor_proxy\<close>, \<open>prompt_proxy\<close>) over the reachability relation \<open>proxy_reach\<close>;
      \<open>SensorProxy_Signals\<close> says who hears what. \<open>MiniBook\<close> interprets these locales on the MXC6655 driver.
    \<^item> \<open>Iio_Env\<close>: the record \<open>iio_env\<close> of what the other drivers call (sysfs files, udev, GLib's number
      conversions), and the sysfs writers of \<^verbatim>\<open>iio-buffer-utils.c\<close>. \<open>Iio_Channels\<close>, \<open>Iio_Buffer\<close> (the rest of
      \<^verbatim>\<open>iio-buffer-utils.c\<close>: channel descriptions, layout and value of a scan; frequencies, triggers, set-up
      and release of a buffer), with \<open>Iio_Channels_Facts\<close> and \<open>Iio_Buffer_Facts\<close>.
    \<^item> \<open>Iio_Poll\<close>, \<open>Iio_Poll_Facts\<close> (\<^verbatim>\<open>drv-iio-poll-accel.c\<close>, \<^verbatim>\<open>drv-iio-poll-light.c\<close>, \<^verbatim>\<open>drv-iio-poll-proximity.c\<close>,
      \<^verbatim>\<open>drv-hwmon-light.c\<close>, \<^verbatim>\<open>drv-fake-light.c\<close>, \<^verbatim>\<open>drv-fake-compass.c\<close>); \<open>Iio_BufDrv\<close> (\<^verbatim>\<open>drv-iio-buffer-accel.c\<close> and
      its light and compass siblings); \<open>Input_Drv\<close>, \<open>Input_Facts\<close> (\<^verbatim>\<open>drv-input-accel.c\<close>,
      \<^verbatim>\<open>drv-input-proximity.c\<close>). \<open>Timer_Drivers\<close> states the contract they share, at most one main-loop source
      per device (\<open>timer_driver\<close>), and interprets it on all eleven. \<open>Driver_Table\<close> is the daemon's table: the
      sum type of the drivers' private data, and \<open>sensor_proxy\<close> interpreted on the whole table.
    \<^item> \<open>Kernel\<close>: the record \<open>kern\<close> of what the EC module calls, the chip behind the ports (\<open>chip_laws\<close>) and the
      resources of a driver (\<open>resource_laws\<close>). \<open>Ec_I2ec\<close> (\<^verbatim>\<open>minibook_ec_i2ec.c\<close>, \<^verbatim>\<open>minibook_ec.h\<close>), \<open>Ec_Lock\<close> (its
      lock, as a step relation over threads), \<open>Ec_Sensors\<close> (\<^verbatim>\<open>minibook_ec_fan.c\<close>, \<^verbatim>\<open>minibook_ec_thermal.c\<close>),
      \<open>Ec_Backlight\<close> (\<^verbatim>\<open>minibook_ec_kbd_backlight.c\<close>), \<open>Ec_Core\<close> (\<^verbatim>\<open>minibook_ec_sysfs.c\<close>, \<^verbatim>\<open>minibook_ec_core.c\<close>).
    \<^item> \<open>Spklen\<close>, \<open>Spklen_Facts\<close> (\<^verbatim>\<open>i2c_designware_spklen.c\<close>); \<open>Dptf\<close> (\<^verbatim>\<open>dptf_enabler.c\<close>); \<open>VbtPatch\<close>,
      \<open>VbtPatch_Facts\<close> (\<^verbatim>\<open>vbt_patch.c\<close>).
    \<^item> \<open>Thd_Env\<close> (\<^verbatim>\<open>thd_sys_fs.cpp\<close>, \<^verbatim>\<open>thd_pid.cpp\<close>): the record \<open>thd_env\<close> of the system calls of the thermal daemon.
      \<open>Thd_Meter\<close> (\<^verbatim>\<open>thd_rapl_power_meter.cpp\<close>), \<open>Thd_Cdev\<close> (the classes of cooling devices and their virtual
      functions), \<open>Thd_Control\<close> (\<^verbatim>\<open>thd_cdev.cpp\<close>), \<open>Thd_Trip\<close> (\<^verbatim>\<open>thd_trip_point.cpp\<close>, \<^verbatim>\<open>thd_sensor.cpp\<close>), \<open>Thd_Zone\<close>
      (\<^verbatim>\<open>thd_zone.cpp\<close>, \<^verbatim>\<open>thd_zone_therm_sys_fs.cpp\<close>, \<^verbatim>\<open>thd_zone_dynamic.cpp\<close>), \<open>Thd_Engine\<close> and \<open>Thd_Setup\<close> (\<^verbatim>\<open>thd_engine.cpp\<close>,
      \<^verbatim>\<open>thd_preference.cpp\<close>, \<^verbatim>\<open>thd_int3400.cpp\<close>, \<^verbatim>\<open>thd_kobj_uevent.cpp\<close>), \<open>Thd_CdevSetup\<close> (the set-up of RAPL, backlight and
      P-state devices and of the power meter's domains), \<open>Thd_Virtual\<close> (\<^verbatim>\<open>thd_sensor_virtual.cpp\<close>). An object is a record with its class as a field; a
      pointer to a sensor or a device is its position in the engine's list. \<open>Thd_Meter_Facts\<close>, \<open>Thd_Control_Facts\<close>,
      \<open>Thd_Zone_Facts\<close>, \<open>Thd_Engine_Facts\<close> and \<open>Thd_Takeover\<close> hold the facts, \<open>Thd_Mem\<close> a system in memory to run them on.
    \<^item> \<open>Thd_Cpu\<close>, \<open>Thd_Cpu_Facts\<close> (\<^verbatim>\<open>thd_cdev_cpufreq.cpp\<close>, \<^verbatim>\<open>thd_zone_cpu.cpp\<close>, \<^verbatim>\<open>thd_zone_generic.cpp\<close>,
      \<^verbatim>\<open>thd_zone_rapl_power.cpp\<close>, \<^verbatim>\<open>thd_cdev_order_parser.cpp\<close>): the frequencies and zones of the processor, each class on its own.
      \<open>Thd_Parse\<close>, \<open>Thd_Parse_Facts\<close> (\<^verbatim>\<open>thd_parse.cpp\<close>): the XML configuration, a tree of elements read into records.
    \<^item> \<open>Thd_Gddv\<close>, \<open>Thd_Vault\<close>, \<open>Thd_Conditions\<close> (\<^verbatim>\<open>thd_gddv.cpp\<close>): the records of the firmware's tables and readers of
      typed entries, one definition per table; the vault with its nested and compressed objects; the conditions and their
      evaluation. \<open>Thd_Adaptive\<close> (\<^verbatim>\<open>thd_engine_adaptive.cpp\<close>): the engine that installs the policies the conditions choose.
      An \<open>outcome\<close> tells a step that is done from the end of the daemon and from undefined behaviour.
      \<open>Thd_Gddv_Facts\<close> holds writers of the tables and a locale of tables that are read back (\<open>table_codec\<close>, interpreted
      on four tables), \<open>Thd_Conditions_Facts\<close> and \<open>Thd_Adaptive_Facts\<close> the rest.

  \<^bold>\<open>What is shown.\<close> For the daemon: every call is answered exactly once, no assertion fails and no NULL
  device is used in any reachable state, signals name only what a client claimed, and the first claim of
  the accelerometer yields the driver's orientation; and that the removal of a sensor is not announced.
  With the whole table of drivers every call is answered once or waits for a first reading, and a closed
  device leaves no timer. For the buffers: scans are laid out without overlap and inside their size, the
  value of a channel is the field its description names (exactly up to 23 bits, in single precision beyond), the
  description is read back as printed, the
  array is sorted, a set-up that fails switches everything off and a release does too; and that a channel
  found on at first stays off after it. For the other drivers: which levels count as near over any run,
  which capability texts are read and which are stored out of bounds, and a descriptor leak.
  For the driver: tablet mode and orientation follow counter-free specifications of their debouncing,
  readings and orientations survive the way through the daemon's classification, the poll timer runs
  exactly when wanted and the lid is open, waiting lid events are all handled, descriptors are balanced, hinge angle and filter weights stay
  in range, no array access leaves its array, and one descriptor leak of the recovery path. For the EC
  module: port access implements a flat memory, also when threads interleave, the backlight reads back
  as set and changes made by the firmware are reported once, temperatures stay in range, probe and remove
  are balanced, and an error pointer that is unregistered. For the other three: what they write, that
  nothing else changes, how long they wait, and where they leave the memory they were given. For the
  thermal daemon: the reported energy follows the hardware's across wraps, up to a loss per wrap that is stated, a device's
  list of limits has one entry per trip, the strictest target is in charge, in whichever direction the states
  grow, and the list empties, power limits and states stay in range, every fifth hot reading in a row switches the machine off
  and nothing else does, a zone keeps one polling trip,
  the kernel's policies come back; and that a disabled daemon no longer hears its messages. For the firmware's
  tables: condition, target and passive tables written in the firmware's format are read back; the first condition set
  that holds decides the target, and a timed condition passes only after the time it asks for; each entry of a policy becomes one trip
  of its zone, consolidation leaves no unnamed maximum except for a single trip, and the power limits form a range; and that the fallback policy is
  never installed, and which bytes keep a parser busy for ever. Of the configuration: which file is trusted, which platform
  is chosen, one zone and one device per element; and what an entry takes over from the one before it.

  \<^bold>\<open>Parameters.\<close> Code outside the repository is a parameter of the definitions that use it: \<^verbatim>\<open>atan2\<close> and
  \<^verbatim>\<open>atan2f\<close>, \<^verbatim>\<open>g_ascii_strtod\<close>, the operating system (\<open>os\<close>, \<open>iio_env\<close>, \<open>thd_env\<close>), the message bus with polkit (\<open>bus\<close>), the kernel
  (\<open>kern\<close>, \<open>lpss\<close>, \<open>dptf_env\<close>), the layout of \<^verbatim>\<open>intel_vbt_defs.h\<close> and \<^verbatim>\<open>getopt_long\<close>,
  the decompressor of the data vault, \<^verbatim>\<open>stof\<close> and \<^verbatim>\<open>atof\<close>, libxml2's text of a list of nodes, and the lid, the tablet switch and UPower (\<open>gddv_dev\<close>). What a property relies on is
  a named predicate, and each has a concrete instance in which it holds.

  \<^bold>\<open>Bounds and loops.\<close> Loops over data are structural or carry a termination proof; the loop over lid
  events may not end and is a \<open>partial_function\<close> with a theorem that it returns on every finite queue; so
  is the loop over proximity events, of which no property is stated. The readers of the firmware's tables take fuel, one unit
  per entry, because a crafted length may move them back; more fuel than a table has entries is enough for the tables
  shown to be read back, and \<open>No_fuel\<close> is told apart from every other error. Where the code calls \<^verbatim>\<open>std::sort\<close>, which may leave
  equal elements in any order, the model sorts stably (trips of equal temperature, limits of equal target): the order of
  those is fixed in the model, and no property says which of several equal ones comes first.
  Debounce counters are natural numbers (the C counters are 32-bit and would need years of polling to
  wrap). Hash tables are association lists in insertion order. The EC's registers do not change
  during one driver operation; between operations they may.

  \<^bold>\<open>Not modelled.\<close> The drivers on top of libssc, compiled only with that library; the daemon's option
  parsing and D-Bus registration; printed messages; releasing memory; the test programs and the
  client \<^verbatim>\<open>monitor-sensor\<close>. Of the thermal daemon: its start-up, the D-Bus interface, the
  default engine that sets up what the configuration names, the initialisation of the adaptive engine, the kernel's TRT and ART tables,
  the default binding of unbound zones, the vendored decompressor; locks (each request runs as a whole) and debug messages.
\<close>

end
